(* ===== verification/Prelude.thy ===== *)
theory Prelude
  imports Main "HOL-Library.Word" "HOL-Library.Signed_Division"
begin

text \<open>
  Shared vocabulary of the development: the C integer types of the emulator as words, the
  casts and the truncating division of C, little-endian byte stores (the arrays
  \<open>iopMem\<close>, \<open>iopHw\<close>, \<open>eeHw\<close> and the host memory behind the EE's page table), and the
  bit-level lemmas that the register, memory and instruction theories use.
\<close>

unbundle bit_operations_syntax

section \<open>Machine integers\<close>

type_synonym u8 = "8 word"
type_synonym u16 = "16 word"
type_synonym u32 = "32 word"
type_synonym u64 = "64 word"
type_synonym u128 = "128 word"

text \<open>Indices of general purpose registers: the five-bit fields \<open>_Rs_\<close>, \<open>_Rt_\<close>, \<open>_Rd_\<close>.\<close>

type_synonym reg = "5 word"

text \<open>
  Facts about the state after an operation that the component proofs collect:
  \<open>frame_simps\<close> says which fields an operation leaves alone, \<open>inv_intros\<close> which
  operations keep the component's invariant.
\<close>

named_theorems frame_simps
named_theorems inv_intros

text \<open>
  Casts. \<open>sx32\<close> is the implicit conversion of an \<open>s32\<close> to a 64-bit lane (sign extension);
  \<open>sx16\<close>, \<open>sx8\<close> and \<open>simm32\<close> are the narrower ones; \<open>lo32\<close>/\<open>hi32\<close> are
  \<open>(u32)(x & 0xffffffff)\<close> and \<open>(u32)(x >> 32)\<close>.
\<close>

definition sx32 :: "u32 \<Rightarrow> u64" where
  "sx32 w = scast w"

definition lo32 :: "u64 \<Rightarrow> u32" where
  "lo32 w = ucast w"

definition hi32 :: "u64 \<Rightarrow> u32" where
  "hi32 w = ucast (drop_bit 32 w)"

definition of_bool32 :: "bool \<Rightarrow> u32" where
  "of_bool32 b = (if b then 1 else 0)"

lemma sint_sx32 [simp]: "sint (sx32 w) = sint w"
  by (simp add: sx32_def sint_up_scast is_up)

lemma lo32_sx32 [simp]: "lo32 (sx32 w) = w"
  unfolding lo32_def sx32_def
  by (rule bit_word_eqI) (simp add: bit_ucast_iff bit_signed_take_bit_iff bit_simps)

lemma sx32_inj: "sx32 a = sx32 b \<longleftrightarrow> a = b"
  by (metis lo32_sx32)

lemma word64_hi_lo: "(push_bit 32 (ucast (hi32 w)) OR ucast (lo32 w) :: u64) = w"
  by (rule bit_word_eqI) (auto simp: hi32_def lo32_def bit_simps)

lemma take_bit_uint_self [simp]:
  "LENGTH('a) \<le> n \<Longrightarrow> take_bit n (uint (w :: 'a::len word)) = uint w"
proof (rule take_bit_int_eq_self)
  assume "LENGTH('a) \<le> n"
  then have "(2 :: int) ^ LENGTH('a) \<le> 2 ^ n"
    by simp
  then show "uint w < 2 ^ n"
    using uint_lt2p [of w] by linarith
qed simp

lemma uint_lo32: "uint (lo32 w) = uint w mod 2 ^ 32"
  by (simp add: lo32_def unsigned_ucast_eq take_bit_eq_mod)

lemma uint_hi32: "uint (hi32 w) = uint w div 2 ^ 32"
proof -
  have "uint (drop_bit 32 w) = uint w div 2 ^ 32"
    by (simp only: unsigned_drop_bit_eq) (simp add: drop_bit_eq_div)
  moreover have "uint w div 2 ^ 32 < 2 ^ 32"
    using uint_lt2p [of w] by auto
  moreover have "0 \<le> uint w div 2 ^ 32"
    by (simp add: pos_imp_zdiv_nonneg_iff)
  ultimately show ?thesis
    unfolding hi32_def by (simp only: unsigned_ucast_eq) (simp add: take_bit_int_eq_self_iff)
qed

lemma uint_hi_lo: "uint (w :: u64) = uint (hi32 w) * 2 ^ 32 + uint (lo32 w)"
  by (simp add: uint_lo32 uint_hi32)

lemma sint_uint_bit:
  "sint (w :: 'a::len word) = uint w - 2 ^ LENGTH('a) * of_bool (bit w (LENGTH('a) - 1))"
proof -
  have "sint w = signed_take_bit (LENGTH('a) - 1) (uint w)"
    by (simp add: sint_uint)
  also have "\<dots> = uint w - 2 ^ LENGTH('a) * of_bool (bit (uint w) (LENGTH('a) - 1))"
    by (simp add: signed_take_bit_eq_take_bit_minus take_bit_int_eq_self_iff)
  finally show ?thesis
    by (simp add: bit_uint_iff)
qed

lemma sint_hi_lo: "sint (w :: u64) = sint (hi32 w) * 2 ^ 32 + uint (lo32 w)"
proof -
  have "bit (hi32 w) 31 = bit w 63"
    by (simp add: hi32_def bit_simps)
  then show ?thesis
    using uint_hi_lo [of w] by (simp add: sint_uint_bit)
qed

text \<open>Setting and clearing single bits.\<close>

lemma bit_or_exp: "k < LENGTH('a) \<Longrightarrow> bit (w OR 2 ^ k :: 'a::len word) n \<longleftrightarrow> n = k \<or> bit w n"
  by (auto simp: bit_or_iff bit_exp_iff)

lemma bit_and_not_exp: "bit (w AND NOT (2 ^ k) :: 'a::len word) n \<longleftrightarrow> n \<noteq> k \<and> bit w n"
  by (auto simp: bit_and_iff bit_not_iff bit_exp_iff dest: bit_imp_le_length)

text \<open>Tables filled by a counting loop.\<close>

lemma fold_upd:
  "fold (\<lambda>i t. t(i + c := h i)) [0..<n] t x = (if c \<le> x \<and> x < c + n then h (x - c) else t x)"
  for c :: nat
  by (induction n) auto

lemma fold_upd2:
  "d \<ge> c + n \<Longrightarrow>
   fold (\<lambda>i t. t(i + c := h i, i + d := h i)) [0..<n] t x =
     (if c \<le> x \<and> x < c + n then h (x - c) else if d \<le> x \<and> x < d + n then h (x - d) else t x)"
  for c d :: nat
  by (induction n) auto

section \<open>Little-endian byte stores\<close>

text \<open>
  A C array of bytes that the code also reads through \<open>*(u16 *)\<close>, \<open>*(u32 *)\<close> and
  wider pointers. The host is little-endian x86.
\<close>

type_synonym bytes = "u32 \<Rightarrow> u8"

primrec le_read :: "nat \<Rightarrow> bytes \<Rightarrow> u32 \<Rightarrow> 'a::len word" where
  "le_read 0 m a = 0"
| "le_read (Suc n) m a = ucast (m a) OR push_bit 8 (le_read n m (a + 1))"

primrec le_write :: "nat \<Rightarrow> 'a::len word \<Rightarrow> u32 \<Rightarrow> bytes \<Rightarrow> bytes" where
  "le_write 0 v a m = m"
| "le_write (Suc n) v a m = le_write n (drop_bit 8 v) (a + 1) (m(a := ucast v))"

lemma bit_le_read:
  "bit (le_read n m a :: 'a::len word) k \<longleftrightarrow>
     k < 8 * n \<and> k < LENGTH('a) \<and> bit (m (a + of_nat (k div 8))) (k mod 8)"
proof (induction n arbitrary: a k)
  case 0
  then show ?case by simp
next
  case (Suc n)
  show ?case
  proof (cases "k < 8")
    case True
    then show ?thesis by (auto simp: bit_or_iff bit_push_bit_iff bit_ucast_iff)
  next
    case False
    then obtain j where k: "k = j + 8"
      by (metis add.commute le_Suc_ex not_le)
    have div: "k div 8 = Suc (j div 8)" and mod: "k mod 8 = j mod 8"
      by (simp_all add: k)
    have "\<not> bit (ucast (m a) :: 'a word) k"
      using False by (simp add: bit_ucast_iff impossible_bit)
    then have "bit (le_read (Suc n) m a :: 'a word) k \<longleftrightarrow>
        k < LENGTH('a) \<and> bit (le_read n m (a + 1) :: 'a word) j"
      by (simp add: bit_or_iff bit_push_bit_iff k)
    also have "\<dots> \<longleftrightarrow> k < 8 * Suc n \<and> k < LENGTH('a) \<and>
        bit (m (a + of_nat (k div 8))) (k mod 8)"
    proof -
      have "a + of_nat (Suc (j div 8)) = a + 1 + of_nat (j div 8)"
        by simp
      moreover have "k < LENGTH('a) \<and> j < 8 * n \<and> j < LENGTH('a) \<longleftrightarrow>
          k < 8 * Suc n \<and> k < LENGTH('a)"
        unfolding k by auto
      ultimately show ?thesis
        unfolding Suc.IH div mod by (simp only:) blast
    qed
    finally show ?thesis .
  qed
qed

lemma unat_diff_one: "x \<noteq> a \<Longrightarrow> unat (x - a) = Suc (unat (x - (a + 1)))" for x a :: "'a::len word"
proof -
  assume "x \<noteq> a"
  then have "x - a \<noteq> 0" by simp
  then have "unat (x - a - 1) = unat (x - a) - 1" "0 < unat (x - a)"
    by (rule unat_minus_one) (use \<open>x - a \<noteq> 0\<close> in \<open>simp add: unat_gt_0\<close>)
  then have "unat (x - a) = Suc (unat (x - a - 1))"
    by linarith
  then show ?thesis by (simp add: diff_diff_eq)
qed

lemma le_write_apply:
  "n \<le> 2 ^ 32 \<Longrightarrow>
   le_write n v a m x =
     (if unat (x - a) < n then ucast (drop_bit (8 * unat (x - a)) v) else m x)"
proof (induction n arbitrary: v a m)
  case 0
  then show ?case by simp
next
  case (Suc n)
  show ?case
  proof (cases "x = a")
    case True
    have "unat (a - (a + 1)) = 2 ^ 32 - 1"
      by (simp add: unsigned_minus_1_eq_mask mask_eq_exp_minus_1)
    with True Suc show ?thesis by simp
  next
    case False
    with Suc unat_diff_one [OF False] show ?thesis
      by (simp add: drop_bit_drop_bit add.commute)
  qed
qed

lemma le_read_write:
  "n \<le> 2 ^ 32 \<Longrightarrow> le_read n (le_write n v a m) a = take_bit (8 * n) (v :: 'a::len word)"
proof (rule bit_word_eqI)
  fix k assume n: "n \<le> 2 ^ 32" and k: "k < LENGTH('a)"
  show "bit (le_read n (le_write n v a m) a :: 'a word) k \<longleftrightarrow> bit (take_bit (8 * n) v) k"
  proof (cases "k < 8 * n")
    case True
    with n have "unat (of_nat (k div 8) :: u32) = k div 8"
      by (simp add: unat_of_nat take_bit_nat_eq_self_iff)
    with True n k show ?thesis
      by (auto simp: bit_le_read le_write_apply bit_simps)
  next
    case False
    then show ?thesis by (simp add: bit_le_read bit_simps)
  qed
qed

end
