(* ===== verification/Lanes.thy ===== *)
theory Lanes
  imports Prelude
begin

text \<open>
  The 128-bit registers of the EE (\<open>union GPR_reg\<close>, \<open>pcsx2/R5900.h\<close>) and their views as
  lanes: two 64-bit (\<open>UD\<close>), four 32-bit (\<open>UL\<close>), eight 16-bit (\<open>US\<close>) and sixteen 8-bit
  (\<open>UC\<close>) elements, all of them overlapping views of the same 16 bytes. The signed members
  (\<open>SD\<close>, \<open>SL\<close>, \<open>SS\<close>, \<open>SC\<close>) are \<open>sint\<close> of the same lanes.

  The locale \<open>lane_reg\<close> is the interface the multimedia instructions use: read a lane, write a
  lane, the laws relating them. Its client lemma says that the instructions' loop over the
  lanes, which updates the destination in place while it may also be a source, computes every
  lane from the old source lanes. The locale is interpreted on the views below.
\<close>

section \<open>Lane views of a 128-bit register\<close>

definition lane :: "nat \<Rightarrow> u128 \<Rightarrow> 'l::len word" where
  "lane i x = ucast (drop_bit (i * LENGTH('l)) x)"

definition set_lane :: "nat \<Rightarrow> 'l::len word \<Rightarrow> u128 \<Rightarrow> u128" where
  "set_lane i v x =
     (x AND NOT (push_bit (i * LENGTH('l)) (mask LENGTH('l))))
     OR push_bit (i * LENGTH('l)) (ucast v)"

abbreviation UD :: "nat \<Rightarrow> u128 \<Rightarrow> u64" where "UD \<equiv> lane"
abbreviation UL :: "nat \<Rightarrow> u128 \<Rightarrow> u32" where "UL \<equiv> lane"
abbreviation US :: "nat \<Rightarrow> u128 \<Rightarrow> u16" where "US \<equiv> lane"
abbreviation UC :: "nat \<Rightarrow> u128 \<Rightarrow> u8" where "UC \<equiv> lane"

abbreviation SD :: "nat \<Rightarrow> u128 \<Rightarrow> int" where "SD i x \<equiv> sint (UD i x)"
abbreviation SL :: "nat \<Rightarrow> u128 \<Rightarrow> int" where "SL i x \<equiv> sint (UL i x)"
abbreviation SS :: "nat \<Rightarrow> u128 \<Rightarrow> int" where "SS i x \<equiv> sint (US i x)"
abbreviation SC :: "nat \<Rightarrow> u128 \<Rightarrow> int" where "SC i x \<equiv> sint (UC i x)"

abbreviation setUD :: "nat \<Rightarrow> u64 \<Rightarrow> u128 \<Rightarrow> u128" where "setUD \<equiv> set_lane"
abbreviation setUL :: "nat \<Rightarrow> u32 \<Rightarrow> u128 \<Rightarrow> u128" where "setUL \<equiv> set_lane"
abbreviation setUS :: "nat \<Rightarrow> u16 \<Rightarrow> u128 \<Rightarrow> u128" where "setUS \<equiv> set_lane"
abbreviation setUC :: "nat \<Rightarrow> u8 \<Rightarrow> u128 \<Rightarrow> u128" where "setUC \<equiv> set_lane"

lemma bit_lane:
  "bit (lane i x :: 'l::len word) k \<longleftrightarrow> k < LENGTH('l) \<and> bit x (i * LENGTH('l) + k)"
  by (auto simp: lane_def bit_ucast_iff bit_drop_bit_eq)

lemma bit_set_lane:
  fixes v :: "'l::len word"
  assumes "Suc i * LENGTH('l) \<le> 128"
  shows "bit (set_lane i v x) k \<longleftrightarrow>
    (if i * LENGTH('l) \<le> k \<and> k < Suc i * LENGTH('l) then bit v (k - i * LENGTH('l)) else bit x k)"
proof (cases "k < 128")
  case True
  then show ?thesis
    using assms
    by (auto simp: set_lane_def bit_or_iff bit_and_iff bit_not_iff bit_push_bit_iff bit_mask_iff
        bit_ucast_iff dest: bit_imp_le_length)
next
  case False
  with assms have "\<not> k < Suc i * LENGTH('l)"
    by linarith
  with False show ?thesis
    by (simp add: impossible_bit)
qed

lemma lane_set_lane_same:
  fixes v :: "'l::len word"
  assumes "Suc i * LENGTH('l) \<le> 128"
  shows "lane i (set_lane i v x) = v"
  by (rule bit_word_eqI) (simp add: bit_lane bit_set_lane [OF assms])

lemma lane_set_lane_other:
  fixes v :: "'l::len word"
  assumes "Suc i * LENGTH('l) \<le> 128" and "j \<noteq> i"
  shows "(lane j (set_lane i v x) :: 'l word) = lane j x"
proof (rule bit_word_eqI)
  fix k assume k: "k < LENGTH('l)"
  have "\<not> (i * LENGTH('l) \<le> j * LENGTH('l) + k \<and> j * LENGTH('l) + k < Suc i * LENGTH('l))"
  proof
    assume a: "i * LENGTH('l) \<le> j * LENGTH('l) + k \<and> j * LENGTH('l) + k < Suc i * LENGTH('l)"
    have "(j * LENGTH('l) + k) div LENGTH('l) = j"
      using k by simp
    moreover have "(j * LENGTH('l) + k) div LENGTH('l) = i"
      by (rule div_nat_eqI) (use a in \<open>simp_all add: mult.commute\<close>)
    ultimately show False
      using assms(2) by simp
  qed
  then show "bit (lane j (set_lane i v x) :: 'l word) k \<longleftrightarrow> bit (lane j x :: 'l word) k"
    unfolding bit_lane bit_set_lane [OF assms(1)] by (simp only: if_False)
qed

lemma lane_ext:
  assumes "LENGTH('l::len) dvd 128"
    and "\<And>i. i < 128 div LENGTH('l) \<Longrightarrow> (lane i x :: 'l word) = lane i y"
  shows "x = y"
proof (rule bit_word_eqI)
  fix k :: nat assume "k < LENGTH(128)"
  then have k: "k < 128" by simp
  let ?i = "k div LENGTH('l)"
  have "?i < 128 div LENGTH('l)"
    using k assms(1) by (simp add: div_less_iff_less_mult)
  then have "bit (lane ?i x :: 'l word) (k mod LENGTH('l)) = bit (lane ?i y :: 'l word) (k mod LENGTH('l))"
    using assms(2) by simp
  then show "bit x k = bit y k"
    by (simp add: bit_lane)
qed

lemma lane_set_lane_UL [simp]:
  "UL 0 (setUL 0 a x) = a" "UL 1 (setUL 1 a x) = a" "UL 2 (setUL 2 a x) = a" "UL 3 (setUL 3 a x) = a"
  "UL (Suc 0) (setUL (Suc 0) a x) = a"
  by (simp_all add: lane_set_lane_same)

lemma lane_set_lane_UD [simp]:
  "UD 0 (setUD 0 b x) = b" "UD 1 (setUD 1 b x) = b" "UD (Suc 0) (setUD (Suc 0) b x) = b"
  "UD 0 (setUD (Suc 0) b x) = UD 0 x" "UD (Suc 0) (setUD 0 b x) = UD (Suc 0) x"
  by (simp_all add: lane_set_lane_same lane_set_lane_other)

text \<open>Views of different widths of the same bytes.\<close>

lemma UL_UD:
  "UL 0 x = lo32 (UD 0 x)" "UL (Suc 0) x = hi32 (UD 0 x)"
  "UL 2 x = lo32 (UD (Suc 0) x)" "UL 3 x = hi32 (UD (Suc 0) x)"
  by (rule bit_word_eqI; simp add: bit_lane lo32_def hi32_def bit_ucast_iff bit_drop_bit_eq)+

lemma lo32_ucast [simp]: "lo32 (ucast (w :: u32)) = w"
  by (rule bit_word_eqI) (auto simp: lo32_def bit_simps)

lemma UL0_set_UD [simp]:
  "UL 0 (setUD 0 (ucast (w :: u32)) x) = w" "UL 0 (setUD 0 (sx32 w) x) = w"
  by (simp_all add: UL_UD)

section \<open>The lane interface\<close>

locale lane_reg =
  fixes get :: "nat \<Rightarrow> 'r \<Rightarrow> 'l" and put :: "nat \<Rightarrow> 'l \<Rightarrow> 'r \<Rightarrow> 'r" and n :: nat
  assumes get_put_same: "i < n \<Longrightarrow> get i (put i v r) = v"
    and get_put_other: "i < n \<Longrightarrow> j < n \<Longrightarrow> j \<noteq> i \<Longrightarrow> get j (put i v r) = get j r"
    and ext: "(\<And>i. i < n \<Longrightarrow> get i r = get i q) \<Longrightarrow> r = q"
begin

text \<open>
  One lane step of a three-operand instruction on the register file \<open>R\<close>: lane \<open>i\<close> of
  \<open>rd\<close> becomes \<open>f\<close> of lane \<open>i\<close> of \<open>rs\<close> and \<open>rt\<close>, read from the file as it is.
\<close>

definition lane_step :: "(nat \<Rightarrow> 'l \<Rightarrow> 'l \<Rightarrow> 'l) \<Rightarrow> 'k \<Rightarrow> 'k \<Rightarrow> 'k \<Rightarrow> nat \<Rightarrow> ('k \<Rightarrow> 'r) \<Rightarrow> ('k \<Rightarrow> 'r)" where
  "lane_step f rd rs rt i R = R(rd := put i (f i (get i (R rs)) (get i (R rt))) (R rd))"

lemma lane_step_get:
  "i < n \<Longrightarrow> j < n \<Longrightarrow>
   get j (lane_step f rd rs rt i R r) =
     (if r = rd \<and> j = i then f i (get i (R rs)) (get i (R rt)) else get j (R r))"
  by (simp add: lane_step_def get_put_same get_put_other)

lemma lane_steps_get:
  "m \<le> n \<Longrightarrow> j < n \<Longrightarrow>
   get j (fold (lane_step f rd rs rt) [0..<m] R r) =
     (if r = rd \<and> j < m then f j (get j (R rs)) (get j (R rt)) else get j (R r))"
proof (induction m arbitrary: r j)
  case 0
  then show ?case by simp
next
  case (Suc m)
  have same: "get m (fold (lane_step f rd rs rt) [0..<m] R q) = get m (R q)" for q
    using Suc.IH [of m q] Suc.prems by simp
  show ?case
    using Suc.IH [of j r] Suc.prems same by (auto simp: lane_step_get less_Suc_eq)
qed

text \<open>
  The whole loop: the destination holds \<open>f\<close> of the \<^emph>\<open>old\<close> source lanes, also when it is one
  of the sources, and no other register changes.
\<close>

lemma lane_loop:
  "j < n \<Longrightarrow> get j (fold (lane_step f rd rs rt) [0..<n] R rd) = f j (get j (R rs)) (get j (R rt))"
  by (simp add: lane_steps_get)

lemma lane_loop_eq:
  assumes "\<And>i. i < n \<Longrightarrow> get i z = f i (get i (R rs)) (get i (R rt))"
  shows "fold (lane_step f rd rs rt) [0..<n] R = R(rd := z)"
proof
  fix r
  show "fold (lane_step f rd rs rt) [0..<n] R r = (R(rd := z)) r"
    by (rule ext) (simp add: lane_steps_get assms)
qed

text \<open>A sequence of assignments to the lanes \<open>0, 1, \<dots>\<close> in order.\<close>

lemma puts_get:
  "length vs \<le> n \<Longrightarrow> j < n \<Longrightarrow>
   get j (fold (\<lambda>(i, v). put i v) (enumerate 0 vs) r) = (if j < length vs then vs ! j else get j r)"
proof (induction vs arbitrary: j rule: rev_induct)
  case Nil
  then show ?case by simp
next
  case (snoc v vs)
  then show ?case
    by (auto simp: enumerate_append_eq get_put_same get_put_other nth_append less_Suc_eq)
qed

lemma puts_full:
  assumes "length vs = n" and "\<And>i. i < n \<Longrightarrow> get i z = vs ! i"
  shows "fold (\<lambda>(i, v). put i v) (enumerate 0 vs) r = z"
  by (rule ext) (simp add: puts_get assms)

lemma lane_loop_other: "r \<noteq> rd \<Longrightarrow> fold (lane_step f rd rs rt) [0..<n] R r = R r"
  by (rule ext) (simp add: lane_steps_get)

end

interpretation lane64: lane_reg UD setUD 2
  by unfold_locales (auto simp: lane_set_lane_same lane_set_lane_other intro: lane_ext [where 'l=64])

interpretation lane32: lane_reg UL setUL 4
  by unfold_locales (auto simp: lane_set_lane_same lane_set_lane_other intro: lane_ext [where 'l=32])

interpretation lane16: lane_reg US setUS 8
  by unfold_locales (auto simp: lane_set_lane_same lane_set_lane_other intro: lane_ext [where 'l=16])

interpretation lane8: lane_reg UC setUC 16
  by unfold_locales (auto simp: lane_set_lane_same lane_set_lane_other intro: lane_ext [where 'l=8])

end
