(* ===== verification/EERegs.thy ===== *)
theory EERegs
  imports Lanes
begin

text \<open>
  The register state of the EE processor (\<open>struct cpuRegisters\<close>, \<open>pcsx2/R5900.h\<close>), the
  instruction-field macros of the same header, the exception entry and the event scheduling of
  \<open>pcsx2/R5900.cpp\<close>.

  Operations that touch nothing but these registers are polymorphic in the record extension
  (\<open>'a cpuRegisters_scheme\<close>), so that they apply both to the bare registers and to the state with
  memory that the load/store and interpreter theories build on top.
\<close>

section \<open>Registers\<close>

record cpuRegisters =
  GPR :: "reg \<Rightarrow> u128"
  HI :: u128
  LO :: u128
  CP0 :: "reg \<Rightarrow> u32"
  sa :: u32
  IsDelaySlot :: u32
  pc :: u32
  code :: u32
  pccr :: u32
  pcr0 :: u32
  pcr1 :: u32
  eCycle :: "reg \<Rightarrow> u32"
  sCycle :: "reg \<Rightarrow> u32"
  cycle :: u32
  interrupt :: u32
  branch :: u32
  opmode :: u32
  tempcycles :: u32
  g_nextEventCycle :: u32

text \<open>Indices of the named members of \<open>CP0regs\<close>.\<close>

abbreviation (input) CP0_Index :: reg where "CP0_Index \<equiv> 0"
abbreviation (input) CP0_Random :: reg where "CP0_Random \<equiv> 1"
abbreviation (input) CP0_EntryLo0 :: reg where "CP0_EntryLo0 \<equiv> 2"
abbreviation (input) CP0_EntryLo1 :: reg where "CP0_EntryLo1 \<equiv> 3"
abbreviation (input) CP0_Context :: reg where "CP0_Context \<equiv> 4"
abbreviation (input) CP0_PageMask :: reg where "CP0_PageMask \<equiv> 5"
abbreviation (input) CP0_BadVAddr :: reg where "CP0_BadVAddr \<equiv> 8"
abbreviation (input) CP0_Count :: reg where "CP0_Count \<equiv> 9"
abbreviation (input) CP0_EntryHi :: reg where "CP0_EntryHi \<equiv> 10"
abbreviation (input) CP0_Compare :: reg where "CP0_Compare \<equiv> 11"
abbreviation (input) CP0_Status :: reg where "CP0_Status \<equiv> 12"
abbreviation (input) CP0_Cause :: reg where "CP0_Cause \<equiv> 13"
abbreviation (input) CP0_EPC :: reg where "CP0_EPC \<equiv> 14"
abbreviation (input) CP0_ErrorEPC :: reg where "CP0_ErrorEPC \<equiv> 30"

text \<open>The bit-field members of \<open>CP0regs.n.Status.b\<close> that the code tests or sets.\<close>

abbreviation (input) Status_IE :: "u32 \<Rightarrow> bool" where "Status_IE w \<equiv> bit w 0"
abbreviation (input) Status_EXL :: "u32 \<Rightarrow> bool" where "Status_EXL w \<equiv> bit w 1"
abbreviation (input) Status_ERL :: "u32 \<Rightarrow> bool" where "Status_ERL w \<equiv> bit w 2"
abbreviation (input) Status_EIE :: "u32 \<Rightarrow> bool" where "Status_EIE w \<equiv> bit w 16"
abbreviation (input) Status_EDI :: "u32 \<Rightarrow> bool" where "Status_EDI w \<equiv> bit w 17"
abbreviation (input) Status_BEV :: "u32 \<Rightarrow> bool" where "Status_BEV w \<equiv> bit w 22"
abbreviation (input) Status_DEV :: "u32 \<Rightarrow> bool" where "Status_DEV w \<equiv> bit w 23"

definition upd_CP0 :: "reg \<Rightarrow> u32 \<Rightarrow> 'a cpuRegisters_scheme \<Rightarrow> 'a cpuRegisters_scheme" where
  "upd_CP0 r v s = s\<lparr>CP0 := (CP0 s)(r := v)\<rparr>"

section \<open>Instruction fields\<close>

definition Funct :: "u32 \<Rightarrow> 6 word" where "Funct op = ucast op"
definition f_Rd :: "u32 \<Rightarrow> reg" where "f_Rd op = ucast (drop_bit 11 op)"
definition f_Rt :: "u32 \<Rightarrow> reg" where "f_Rt op = ucast (drop_bit 16 op)"
definition f_Rs :: "u32 \<Rightarrow> reg" where "f_Rs op = ucast (drop_bit 21 op)"
definition f_Sa :: "u32 \<Rightarrow> reg" where "f_Sa op = ucast (drop_bit 6 op)"
definition f_Imm :: "u32 \<Rightarrow> u16" where "f_Imm op = ucast op"

abbreviation Rd where "Rd s \<equiv> f_Rd (code s)"
abbreviation Rt where "Rt s \<equiv> f_Rt (code s)"
abbreviation Rs where "Rs s \<equiv> f_Rs (code s)"

text \<open>The shift amount field as a number below 32.\<close>

definition Sa :: "'a cpuRegisters_scheme \<Rightarrow> nat" where
  "Sa s = unat (f_Sa (code s))"

text \<open>\<open>_Imm_\<close> is an \<open>s16\<close>, converted to 32 or to 64 bits by sign extension.\<close>

definition Imm32 :: "'a cpuRegisters_scheme \<Rightarrow> u32" where
  "Imm32 s = scast (f_Imm (code s))"

definition Imm64 :: "'a cpuRegisters_scheme \<Rightarrow> u64" where
  "Imm64 s = scast (f_Imm (code s))"

definition ImmU :: "'a cpuRegisters_scheme \<Rightarrow> u64" where
  "ImmU s = ucast (f_Imm (code s))"

definition JumpTarget :: "'a cpuRegisters_scheme \<Rightarrow> u32" where
  "JumpTarget s = push_bit 2 (code s AND 0x03ffffff) + (pc s AND 0xf0000000)"

definition BranchTarget :: "'a cpuRegisters_scheme \<Rightarrow> u32" where
  "BranchTarget s = scast (f_Imm (code s)) * 4 + pc s"

lemma Sa_less [simp]: "Sa s < 32"
  using unsigned_less [of "f_Sa (code s)"] by (simp add: Sa_def)

section \<open>Register access\<close>

abbreviation rRs where "rRs s \<equiv> GPR s (Rs s)"
abbreviation rRt where "rRt s \<equiv> GPR s (Rt s)"
abbreviation rRd where "rRd s \<equiv> GPR s (Rd s)"

text \<open>
  Assignments to lane \<open>i\<close> of \<open>cpuRegs.GPR.r[x]\<close>, \<open>cpuRegs.HI\<close> and \<open>cpuRegs.LO\<close>; the lane
  width is that of the value.
\<close>

definition wr_gpr :: "reg \<Rightarrow> nat \<Rightarrow> 'l::len word \<Rightarrow> 'a cpuRegisters_scheme \<Rightarrow> 'a cpuRegisters_scheme" where
  "wr_gpr r i v s = s\<lparr>GPR := (GPR s)(r := set_lane i v (GPR s r))\<rparr>"

definition wr_HI :: "nat \<Rightarrow> 'l::len word \<Rightarrow> 'a cpuRegisters_scheme \<Rightarrow> 'a cpuRegisters_scheme" where
  "wr_HI i v s = s\<lparr>HI := set_lane i v (HI s)\<rparr>"

definition wr_LO :: "nat \<Rightarrow> 'l::len word \<Rightarrow> 'a cpuRegisters_scheme \<Rightarrow> 'a cpuRegisters_scheme" where
  "wr_LO i v s = s\<lparr>LO := set_lane i v (LO s)\<rparr>"

abbreviation wr_Rd where "wr_Rd i v s \<equiv> wr_gpr (Rd s) i v s"
abbreviation wr_Rt where "wr_Rt i v s \<equiv> wr_gpr (Rt s) i v s"

lemma wr_gpr_frame [frame_simps]:
  "code (wr_gpr r i v s) = code s" "pc (wr_gpr r i v s) = pc s"
  "HI (wr_gpr r i v s) = HI s" "LO (wr_gpr r i v s) = LO s" "CP0 (wr_gpr r i v s) = CP0 s"
  "sa (wr_gpr r i v s) = sa s" "branch (wr_gpr r i v s) = branch s"
  "Sa (wr_gpr r i v s) = Sa s"
  by (simp_all add: wr_gpr_def Sa_def)

lemma wr_HI_frame [frame_simps]:
  "code (wr_HI i v s) = code s" "pc (wr_HI i v s) = pc s" "GPR (wr_HI i v s) = GPR s"
  "LO (wr_HI i v s) = LO s" "CP0 (wr_HI i v s) = CP0 s" "sa (wr_HI i v s) = sa s"
  "HI (wr_HI i v s) = set_lane i v (HI s)"
  by (simp_all add: wr_HI_def)

lemma wr_LO_frame [frame_simps]:
  "code (wr_LO i v s) = code s" "pc (wr_LO i v s) = pc s" "GPR (wr_LO i v s) = GPR s"
  "HI (wr_LO i v s) = HI s" "CP0 (wr_LO i v s) = CP0 s" "sa (wr_LO i v s) = sa s"
  "LO (wr_LO i v s) = set_lane i v (LO s)"
  by (simp_all add: wr_LO_def)

lemma GPR_wr_gpr: "GPR (wr_gpr r i v s) q = (if q = r then set_lane i v (GPR s r) else GPR s q)"
  by (simp add: wr_gpr_def)

text \<open>The zero register: what every instruction of the EE keeps.\<close>

definition r0_zero :: "'a cpuRegisters_scheme \<Rightarrow> bool" where
  "r0_zero s \<longleftrightarrow> GPR s 0 = 0"

lemma r0_zero_wr [inv_intros]:
  "r0_zero s \<Longrightarrow> r \<noteq> 0 \<Longrightarrow> r0_zero (wr_gpr r i v s)"
  "r0_zero s \<Longrightarrow> r0_zero (wr_HI i v s)"
  "r0_zero s \<Longrightarrow> r0_zero (wr_LO i v s)"
  "r0_zero s \<Longrightarrow> r0_zero (upd_CP0 q w s)"
  by (simp_all add: r0_zero_def GPR_wr_gpr frame_simps upd_CP0_def)

text \<open>The registers after \<open>cpuReset\<close> (\<open>memzero(cpuRegs)\<close> and the assignments that follow it).\<close>

definition cpuReset_regs :: cpuRegisters where
  "cpuReset_regs =
     \<lparr>GPR = (\<lambda>_. 0), HI = 0, LO = 0,
      CP0 = (\<lambda>_. 0)(16 := 0x440, CP0_Status := 0x70400004, 15 := 0x00002e20),
      sa = 0, IsDelaySlot = 0, pc = 0xbfc00000, code = 0, pccr = 0, pcr0 = 0, pcr1 = 0,
      eCycle = (\<lambda>_. 0), sCycle = (\<lambda>_. 0), cycle = 0, interrupt = 0, branch = 0, opmode = 0,
      tempcycles = 0, g_nextEventCycle = 0 + 4\<rparr>"

text \<open>
  Programs of register instructions: \<open>run3 op rd rs rt\<close> is the instruction \<open>op\<close> with its three
  register fields, fetched and executed.
\<close>

definition encode3 :: "reg \<Rightarrow> reg \<Rightarrow> reg \<Rightarrow> u32" where
  "encode3 rd rs rt = push_bit 21 (ucast rs) OR push_bit 16 (ucast rt) OR push_bit 11 (ucast rd)"

lemma fields_encode3 [simp]:
  "f_Rd (encode3 rd rs rt) = rd" "f_Rs (encode3 rd rs rt) = rs" "f_Rt (encode3 rd rs rt) = rt"
  "f_Sa (encode3 rd rs rt) = 0"
  by (rule bit_word_eqI;
      auto simp: f_Rd_def f_Rs_def f_Rt_def f_Sa_def encode3_def bit_simps dest: bit_imp_le_length)+

definition run3 ::
  "('a cpuRegisters_scheme \<Rightarrow> 'a cpuRegisters_scheme) \<Rightarrow> reg \<Rightarrow> reg \<Rightarrow> reg \<Rightarrow>
   'a cpuRegisters_scheme \<Rightarrow> 'a cpuRegisters_scheme" where
  "run3 op rd rs rt s = op (s\<lparr>code := encode3 rd rs rt\<rparr>)"

end
