(* ===== verification/EEExc.thy ===== *)
theory EEExc
  imports EERegs
begin

text \<open>
  Exceptions and event scheduling of the EE: \<open>cpuException\<close>, \<open>cpuTlbMiss\<close>, the event-cycle
  arithmetic, the interrupt gate and the pending-event tests of \<open>pcsx2/R5900.cpp\<close>, with
  \<open>ERET\<close>, \<open>DI\<close> and \<open>EI\<close> of \<open>pcsx2/COP0.cpp\<close>. Everything here acts on the registers alone.

  Console messages are not modelled; \<open>cpuUpdateOperationMode\<close> has an empty body.
\<close>

section \<open>Event scheduling\<close>

text \<open>
  Cycle counters are \<open>u32\<close> and wrap; deltas are \<open>s32\<close>. The casts \<open>(int)(a - b)\<close> of the code are
  \<open>sint (a - b)\<close>.
\<close>

definition cpuSetNextEvent :: "u32 \<Rightarrow> u32 \<Rightarrow> 'a cpuRegisters_scheme \<Rightarrow> 'a cpuRegisters_scheme" where
  "cpuSetNextEvent startCycle delta s =
     (if sint (g_nextEventCycle s - startCycle) > sint delta
      then s\<lparr>g_nextEventCycle := startCycle + delta\<rparr> else s)"

definition cpuSetNextEventDelta :: "u32 \<Rightarrow> 'a cpuRegisters_scheme \<Rightarrow> 'a cpuRegisters_scheme" where
  "cpuSetNextEventDelta delta s = cpuSetNextEvent (cycle s) delta s"

definition cpuTestCycle :: "u32 \<Rightarrow> u32 \<Rightarrow> 'a cpuRegisters_scheme \<Rightarrow> bool" where
  "cpuTestCycle startCycle delta s \<longleftrightarrow> sint (cycle s - startCycle) \<ge> sint delta"

definition cpuSetEvent :: "'a cpuRegisters_scheme \<Rightarrow> 'a cpuRegisters_scheme" where
  "cpuSetEvent s = s\<lparr>g_nextEventCycle := cycle s\<rparr>"

definition cpuClearInt :: "nat \<Rightarrow> 'a cpuRegisters_scheme \<Rightarrow> 'a cpuRegisters_scheme" where
  "cpuClearInt i s = s\<lparr>interrupt := interrupt s AND NOT (push_bit i 1)\<rparr>"

text \<open>
  \<open>CPU_INT\<close> schedules event \<open>n\<close>. \<open>iopBreak\<close> and \<open>iopCycleEE\<close>, the time slice the EE has handed to
  the IOP, are threaded explicitly; \<open>hack\<close> is the setting \<open>CHECK_EETIMINGHACK\<close>.
\<close>

record iop_slice =
  iopBreak :: u32
  iopCycleEE :: u32

definition break_iop :: "iop_slice \<Rightarrow> iop_slice" where
  "break_iop i = i\<lparr>iopBreak := iopBreak i + iopCycleEE i, iopCycleEE := 0\<rparr>"

definition CPU_INT ::
  "bool \<Rightarrow> nat \<Rightarrow> u32 \<Rightarrow> iop_slice \<times> 'a cpuRegisters_scheme \<Rightarrow> iop_slice \<times> 'a cpuRegisters_scheme" where
  "CPU_INT hack n ecycle = (\<lambda>(i, s).
     let ecycle = (if hack then 8 else ecycle);
         s = s\<lparr>interrupt := interrupt s OR push_bit n 1,
               sCycle := (sCycle s)(of_nat n := cycle s),
               eCycle := (eCycle s)(of_nat n := ecycle)\<rparr>;
         i = (if sint ecycle \<le> 28 \<and> sint (iopCycleEE i) > 0 then break_iop i else i)
     in (i, cpuSetNextEventDelta (eCycle s (of_nat n)) s))"

text \<open>
  \<open>TESTINT\<close>: a pending event whose time has come is cleared and its callback runs, another one
  reschedules the event test.
\<close>

definition TESTINT ::
  "nat \<Rightarrow> ('a cpuRegisters_scheme \<Rightarrow> 'a cpuRegisters_scheme) \<Rightarrow>
   'a cpuRegisters_scheme \<Rightarrow> 'a cpuRegisters_scheme" where
  "TESTINT n callback s =
     (if \<not> bit (interrupt s) n then s
      else if cpuTestCycle (sCycle s (of_nat n)) (eCycle s (of_nat n)) s
      then callback (cpuClearInt n s)
      else cpuSetNextEvent (sCycle s (of_nat n)) (eCycle s (of_nat n)) s)"

text \<open>
  \<open>_cpuTestInterrupts\<close>: the DMA controller's events in the order of the code. The callbacks
  (\<open>vif1Interrupt\<close>, \<open>gifInterrupt\<close>, \<dots>), indexed by the event number, belong to other components
  and are a parameter; \<open>dmac_off\<close> is \<open>!dmacRegs.ctrl.DMAE || (psHu8(DMAC_ENABLER+2) & 1)\<close>.
\<close>

definition cpuTestInterrupts ::
  "bool \<Rightarrow> (nat \<Rightarrow> 'a cpuRegisters_scheme \<Rightarrow> 'a cpuRegisters_scheme) \<Rightarrow>
   'a cpuRegisters_scheme \<Rightarrow> 'a cpuRegisters_scheme" where
  "cpuTestInterrupts dmac_off cb s =
     (if dmac_off then s
      else let s = fold (\<lambda>n. TESTINT n (cb n)) [1, 2, 5, 6] s
           in if \<exists>n \<in> set [0, 3, 4, 8, 9, 10, 11, 17, 18]. bit (interrupt s) n
              then fold (\<lambda>n. TESTINT n (cb n)) [0, 3, 4, 8, 9, 10, 11, 17, 18] s
              else s)"

section \<open>Exceptions\<close>

abbreviation (input) Status where "Status s \<equiv> CP0 s CP0_Status"
abbreviation (input) Cause where "Cause s \<equiv> CP0 s CP0_Cause"

definition cpuException :: "u32 \<Rightarrow> u32 \<Rightarrow> 'a cpuRegisters_scheme \<Rightarrow> 'a cpuRegisters_scheme" where
  "cpuException excode bd s =
     (let s = upd_CP0 CP0_Cause (excode AND 0xffff) (s\<lparr>branch := 0\<rparr>);
          errLevel2 = Status_ERL (Status s);
          checkStatus = (if errLevel2 then \<not> Status_DEV (Status s) else \<not> Status_BEV (Status s));
          offset = (if \<not> errLevel2 then
                      (if (excode AND 0x7C) \<ge> 0x8 \<and> (excode AND 0x7C) \<le> 0xC then 0
                       else if excode AND 0x7C = 0 then 0x200 else 0x180)
                    else (if excode AND 0x38000 = 0x10000 then 0x80
                          else if excode AND 0x38000 = 0x18000 then 0x100 else 0))
      in if errLevel2 \<and> (excode AND 0x38000) \<le> 0x8000 then s\<lparr>pc := 0xBFC00000\<rparr>
         else
           (let (offset, s) =
              (if \<not> Status_EXL (Status s) then
                 (let s = upd_CP0 CP0_Status (Status s OR 2) s
                  in (offset,
                      if bd \<noteq> 0
                      then upd_CP0 CP0_Cause (Cause s OR 0x80000000) (upd_CP0 CP0_EPC (pc s - 4) s)
                      else upd_CP0 CP0_Cause (Cause s AND NOT 0x80000000) (upd_CP0 CP0_EPC (pc s) s)))
               else (0x180, s))
            in s\<lparr>pc := (if checkStatus then 0x80000000 else 0xBFC00200) + offset\<rparr>))"

definition cpuTlbMiss :: "u32 \<Rightarrow> u32 \<Rightarrow> u32 \<Rightarrow> 'a cpuRegisters_scheme \<Rightarrow> 'a cpuRegisters_scheme" where
  "cpuTlbMiss addr bd excode s =
     (let s = upd_CP0 CP0_BadVAddr addr s;
          s = upd_CP0 CP0_Context (CP0 s CP0_Context AND 0xFF80000F) s;
          s = upd_CP0 CP0_Context (CP0 s CP0_Context OR (drop_bit 9 addr AND 0x007FFFF0)) s;
          s = upd_CP0 CP0_EntryHi ((addr AND 0xFFFFE000) OR (CP0 s CP0_EntryHi AND 0x1FFF)) s
      in cpuException excode bd (s\<lparr>pc := pc s - 4\<rparr>))"

text \<open>\<open>EXC_CODE_TLBL\<close> and \<open>EXC_CODE_TLBS\<close> (\<open>pcsx2/R5900.h\<close>) are the codes 2 and 3, shifted left by 2.\<close>

definition cpuTlbMissR :: "u32 \<Rightarrow> u32 \<Rightarrow> 'a cpuRegisters_scheme \<Rightarrow> 'a cpuRegisters_scheme" where
  "cpuTlbMissR addr bd = cpuTlbMiss addr bd (push_bit 2 2)"

definition cpuTlbMissW :: "u32 \<Rightarrow> u32 \<Rightarrow> 'a cpuRegisters_scheme \<Rightarrow> 'a cpuRegisters_scheme" where
  "cpuTlbMissW addr bd = cpuTlbMiss addr bd (push_bit 2 3)"

definition cpuIntsEnabled :: "u32 \<Rightarrow> 'a cpuRegisters_scheme \<Rightarrow> bool" where
  "cpuIntsEnabled Interrupt s \<longleftrightarrow>
     Status s AND Interrupt \<noteq> 0 \<and> Status_EIE (Status s) \<and> Status_IE (Status s) \<and>
     \<not> Status_EXL (Status s) \<and> \<not> Status_ERL (Status s)"

text \<open>
  The interrupt part of \<open>_cpuEventTest_Shared\<close>: \<open>ints\<close> is \<open>intcInterrupt() | dmacInterrupt()\<close>.
\<close>

definition cpuTestExceptions :: "u32 \<Rightarrow> 'a cpuRegisters_scheme \<Rightarrow> 'a cpuRegisters_scheme" where
  "cpuTestExceptions ints s = (if cpuIntsEnabled ints s then cpuException ints (branch s) s else s)"

text \<open>\<open>cpuTestINTCInts\<close> and \<open>cpuTestDMACInts\<close>: \<open>pending\<close> is the test of the status registers.\<close>

definition cpuTestINTCInts ::
  "bool \<Rightarrow> bool \<Rightarrow> iop_slice \<times> 'a cpuRegisters_scheme \<Rightarrow> iop_slice \<times> 'a cpuRegisters_scheme" where
  "cpuTestINTCInts pending eeEventTestIsActive = (\<lambda>(i, s).
     if \<not> cpuIntsEnabled 0x400 s \<or> \<not> pending then (i, s)
     else (if eeEventTestIsActive \<and> sint (iopCycleEE i) > 0 then break_iop i else i,
           cpuSetNextEventDelta 4 s))"

definition cpuTestDMACInts ::
  "bool \<Rightarrow> bool \<Rightarrow> iop_slice \<times> 'a cpuRegisters_scheme \<Rightarrow> iop_slice \<times> 'a cpuRegisters_scheme" where
  "cpuTestDMACInts pending eeEventTestIsActive = (\<lambda>(i, s).
     if \<not> cpuIntsEnabled 0x800 s \<or> \<not> pending then (i, s)
     else (if eeEventTestIsActive \<and> sint (iopCycleEE i) > 0 then break_iop i else i,
           cpuSetNextEventDelta 4 s))"

section \<open>Return from exception, interrupt enable\<close>

text \<open>\<open>ERET\<close> also sets the interpreter's static flag \<open>branch2\<close>, which nothing reads.\<close>

definition ERET :: "'a cpuRegisters_scheme \<Rightarrow> 'a cpuRegisters_scheme" where
  "ERET s =
     cpuSetNextEventDelta 4
       (if Status_ERL (Status s)
        then upd_CP0 CP0_Status (Status s AND NOT 4) (s\<lparr>pc := CP0 s CP0_ErrorEPC\<rparr>)
        else upd_CP0 CP0_Status (Status s AND NOT 2) (s\<lparr>pc := CP0 s CP0_EPC\<rparr>))"

text \<open>\<open>_EDI || EXL || ERL || KSU == 0\<close>: when \<open>EI\<close> and \<open>DI\<close> have an effect.\<close>

definition may_set_EIE :: "'a cpuRegisters_scheme \<Rightarrow> bool" where
  "may_set_EIE s \<longleftrightarrow>
     Status_EDI (Status s) \<or> Status_EXL (Status s) \<or> Status_ERL (Status s) \<or>
     drop_bit 3 (Status s) AND 3 = 0"

definition DI :: "'a cpuRegisters_scheme \<Rightarrow> 'a cpuRegisters_scheme" where
  "DI s = (if may_set_EIE s then upd_CP0 CP0_Status (Status s AND NOT 0x10000) s else s)"

definition EI :: "'a cpuRegisters_scheme \<Rightarrow> 'a cpuRegisters_scheme" where
  "EI s = (if may_set_EIE s
           then cpuSetNextEventDelta 4 (upd_CP0 CP0_Status (Status s OR 0x10000) s) else s)"

section \<open>Frames\<close>

lemma CP0_upd_CP0 [simp]: "CP0 (upd_CP0 r v s) q = (if q = r then v else CP0 s q)"
  by (simp add: upd_CP0_def)

lemma upd_CP0_frame [simp, frame_simps]:
  "GPR (upd_CP0 r v s) = GPR s" "HI (upd_CP0 r v s) = HI s" "LO (upd_CP0 r v s) = LO s"
  "pc (upd_CP0 r v s) = pc s" "code (upd_CP0 r v s) = code s" "branch (upd_CP0 r v s) = branch s"
  "cycle (upd_CP0 r v s) = cycle s" "g_nextEventCycle (upd_CP0 r v s) = g_nextEventCycle s"
  "interrupt (upd_CP0 r v s) = interrupt s" "sa (upd_CP0 r v s) = sa s"
  by (simp_all add: upd_CP0_def)

lemma cpuSetNextEvent_frame [simp, frame_simps]:
  "GPR (cpuSetNextEvent a d s) = GPR s" "pc (cpuSetNextEvent a d s) = pc s"
  "CP0 (cpuSetNextEvent a d s) = CP0 s" "cycle (cpuSetNextEvent a d s) = cycle s"
  "code (cpuSetNextEvent a d s) = code s" "branch (cpuSetNextEvent a d s) = branch s"
  "interrupt (cpuSetNextEvent a d s) = interrupt s" "HI (cpuSetNextEvent a d s) = HI s"
  "LO (cpuSetNextEvent a d s) = LO s" "sCycle (cpuSetNextEvent a d s) = sCycle s"
  "eCycle (cpuSetNextEvent a d s) = eCycle s"
  by (simp_all add: cpuSetNextEvent_def)

lemma cpuSetNextEventDelta_frame [simp, frame_simps]:
  "GPR (cpuSetNextEventDelta d s) = GPR s" "pc (cpuSetNextEventDelta d s) = pc s"
  "CP0 (cpuSetNextEventDelta d s) = CP0 s" "cycle (cpuSetNextEventDelta d s) = cycle s"
  "code (cpuSetNextEventDelta d s) = code s" "branch (cpuSetNextEventDelta d s) = branch s"
  "interrupt (cpuSetNextEventDelta d s) = interrupt s"
  "HI (cpuSetNextEventDelta d s) = HI s" "LO (cpuSetNextEventDelta d s) = LO s"
  "sCycle (cpuSetNextEventDelta d s) = sCycle s" "eCycle (cpuSetNextEventDelta d s) = eCycle s"
  by (simp_all add: cpuSetNextEventDelta_def)

lemma Let_split_pair: "(let (a, b) = p in f a b) = f (fst p) (snd p)"
  by (simp add: case_prod_beta)

lemma cpuException_frame [simp, frame_simps]:
  "GPR (cpuException c b s) = GPR s" "HI (cpuException c b s) = HI s"
  "LO (cpuException c b s) = LO s" "code (cpuException c b s) = code s"
  "branch (cpuException c b s) = 0" "cycle (cpuException c b s) = cycle s"
  "g_nextEventCycle (cpuException c b s) = g_nextEventCycle s"
  "interrupt (cpuException c b s) = interrupt s" "sa (cpuException c b s) = sa s"
  by (simp_all add: cpuException_def Let_def)

lemma cpuTlbMiss_frame [simp, frame_simps]:
  "GPR (cpuTlbMiss a b e s) = GPR s" "branch (cpuTlbMiss a b e s) = 0"
  "code (cpuTlbMiss a b e s) = code s"
  by (simp_all add: cpuTlbMiss_def Let_def)

lemma r0_zero_exc [inv_intros]:
  "r0_zero s \<Longrightarrow> r0_zero (cpuException c b s)" "r0_zero s \<Longrightarrow> r0_zero (cpuTlbMiss a b e s)"
  "r0_zero s \<Longrightarrow> r0_zero (cpuSetNextEvent x d s)" "r0_zero s \<Longrightarrow> r0_zero (cpuSetNextEventDelta d s)"
  "r0_zero s \<Longrightarrow> r0_zero (ERET s)" "r0_zero s \<Longrightarrow> r0_zero (DI s)" "r0_zero s \<Longrightarrow> r0_zero (EI s)"
  by (simp_all add: r0_zero_def ERET_def DI_def EI_def)

section \<open>Status bits\<close>

lemma status_bits:
  "bit (w OR 2 :: u32) n \<longleftrightarrow> n = 1 \<or> bit w n"
  "bit (w AND NOT 2 :: u32) n \<longleftrightarrow> n \<noteq> 1 \<and> bit w n"
  "bit (w OR 0x10000 :: u32) n \<longleftrightarrow> n = 16 \<or> bit w n"
  "bit (w AND NOT 0x10000 :: u32) n \<longleftrightarrow> n \<noteq> 16 \<and> bit w n"
  "bit (w OR 0x80000000 :: u32) n \<longleftrightarrow> n = 31 \<or> bit w n"
  "bit (w AND NOT 0x80000000 :: u32) n \<longleftrightarrow> n \<noteq> 31 \<and> bit w n"
  using bit_or_exp [of 1 w n] bit_and_not_exp [of w 1 n] bit_or_exp [of 16 w n]
    bit_and_not_exp [of w 16 n] bit_or_exp [of 31 w n] bit_and_not_exp [of w 31 n]
  by simp_all

lemma clear_set_EXL: "\<not> bit w 1 \<Longrightarrow> (w OR 2) AND NOT 2 = (w :: u32)"
  by (rule bit_word_eqI) (auto simp only: status_bits)

section \<open>Exception entry and return\<close>

text \<open>The architectural vector of a level-1 exception, relative to the base chosen by \<open>BEV\<close>.\<close>

definition vector_offset :: "u32 \<Rightarrow> u32" where
  "vector_offset excode =
     (let c = excode AND 0x7C
      in if 0x8 \<le> c \<and> c \<le> 0xC then 0 else if c = 0 then 0x200 else 0x180)"

lemma cpuException_entry:
  assumes "\<not> Status_EXL (CP0 s CP0_Status)" "\<not> Status_ERL (CP0 s CP0_Status)"
  shows "CP0 (cpuException excode bd s) =
      (CP0 s)(CP0_EPC := (if bd = 0 then pc s else pc s - 4),
              CP0_Cause := (if bd = 0 then (excode AND 0xffff) AND NOT 0x80000000
                            else (excode AND 0xffff) OR 0x80000000),
              CP0_Status := CP0 s CP0_Status OR 2) \<and>
    pc (cpuException excode bd s) =
      (if Status_BEV (CP0 s CP0_Status) then 0xBFC00200 else 0x80000000) + vector_offset excode \<and>
    branch (cpuException excode bd s) = 0 \<and> GPR (cpuException excode bd s) = GPR s"
proof -
  have "CP0 (cpuException excode bd s) r =
      ((CP0 s)(CP0_EPC := (if bd = 0 then pc s else pc s - 4),
              CP0_Cause := (if bd = 0 then (excode AND 0xffff) AND NOT 0x80000000
                            else (excode AND 0xffff) OR 0x80000000),
              CP0_Status := CP0 s CP0_Status OR 2)) r" for r
    using assms by (simp add: cpuException_def Let_def)
  moreover have "pc (cpuException excode bd s) =
      (if Status_BEV (CP0 s CP0_Status) then 0xBFC00200 else 0x80000000) + vector_offset excode"
    using assms by (simp add: cpuException_def Let_def vector_offset_def)
  ultimately show ?thesis
    by auto
qed



text \<open>
  C2: \<open>ERET\<close> undoes the entry: after an exception and the return from it the program counter is
  back at the interrupted instruction (the branch, for a delay slot), \<open>Status\<close> and the general
  registers are as before.
\<close>

theorem exception_return:
  assumes "\<not> Status_EXL (CP0 s CP0_Status)" "\<not> Status_ERL (CP0 s CP0_Status)"
  shows "pc (ERET (cpuException excode bd s)) = (if bd = 0 then pc s else pc s - 4) \<and>
    CP0 (ERET (cpuException excode bd s)) CP0_Status = CP0 s CP0_Status \<and>
    GPR (ERET (cpuException excode bd s)) = GPR s"
proof -
  have "CP0 (cpuException excode bd s) CP0_Status = CP0 s CP0_Status OR 2"
    "CP0 (cpuException excode bd s) CP0_EPC = (if bd = 0 then pc s else pc s - 4)"
    using assms by (simp_all add: cpuException_def Let_def)
  moreover have "\<not> bit (CP0 s CP0_Status OR 2) 2"
    using assms(2) by (simp only: status_bits) simp
  ultimately show ?thesis
    using clear_set_EXL [OF assms(1)] by (simp add: ERET_def del: bit_numeral_word_iff)
qed

theorem exception_return_witness:
  "pc (ERET (cpuException 0x20 0 (cpuReset_regs\<lparr>CP0 := (\<lambda>_. 0)\<rparr>))) = 0xbfc00000"
  using exception_return [of "cpuReset_regs\<lparr>CP0 := (\<lambda>_. 0)\<rparr>" "0x20" 0]
  by (simp add: cpuReset_regs_def)



section \<open>Scheduling\<close>

lemma next_event_min:
  "sint (g_nextEventCycle (cpuSetNextEvent start delta s) - start) =
     min (sint (g_nextEventCycle s - start)) (sint delta)"
  by (simp add: cpuSetNextEvent_def min_def)

text \<open>
  \<open>cpuSetNextEvent\<close> only ever brings the next event test forward: seen from the start cycle
  the scheduled distance is at most \<open>delta\<close>, never larger than before, and equal to one of the
  two.
\<close>

theorem next_event_bounds:
  "sint (g_nextEventCycle (cpuSetNextEvent start delta s) - start) =
     min (sint (g_nextEventCycle s - start)) (sint delta) \<and>
   g_nextEventCycle (cpuSetNextEvent start delta s) \<in> {g_nextEventCycle s, start + delta}"
  unfolding next_event_min by (simp add: cpuSetNextEvent_def)



end
