(* ===== verification/Vtlb.thy ===== *)
theory Vtlb
  imports Prelude
begin

text \<open>
  The EE's software TLB, \<open>pcsx2/vtlb.cpp\<close> and the mapping calls of \<open>pcsx2/Memory.cpp\<close>. A page
  table entry is one host-pointer-sized number: \<open>vmap[page]\<close> holds the host address minus the
  virtual address for pages backed by host memory, and otherwise a negative number that packs a
  handler index (low byte) with the physical address. A look-up is one addition and a sign
  test.

  The emulator of this tree is a 32-bit program, so \<open>uptr\<close> and \<open>sptr\<close> are 32-bit words and
  \<open>POINTER_SIGN_BIT\<close> is bit 31; \<open>x < 0\<close> on an \<open>sptr\<close> is \<open>bit x 31\<close>. The arrays are functions on
  the page number.

  The abstract view is \<open>phys_target\<close>: what a physical address stands for. The lemmas of the last
  section show that the packed table implements it: after \<open>vtlb_VMap\<close> a virtual address reaches
  exactly the host byte or the (handler, physical address) pair of the physical address it is
  mapped to.
\<close>

section \<open>State\<close>

record MapData =
  pmap :: "20 word \<Rightarrow> u32"
  vmap :: "20 word \<Rightarrow> u32"
  ppmap :: "(20 word \<Rightarrow> u32) option"
  host :: bytes

abbreviation (input) UnmappedVirtHandler0 :: u32 where "UnmappedVirtHandler0 \<equiv> 0"
abbreviation (input) UnmappedVirtHandler1 :: u32 where "UnmappedVirtHandler1 \<equiv> 1"
abbreviation (input) UnmappedPhyHandler0 :: u32 where "UnmappedPhyHandler0 \<equiv> 2"
abbreviation (input) UnmappedPhyHandler1 :: u32 where "UnmappedPhyHandler1 \<equiv> 3"
abbreviation (input) DefaultPhyHandler :: u32 where "DefaultPhyHandler \<equiv> 4"
abbreviation (input) VTLB_PMAP_SZ :: u32 where "VTLB_PMAP_SZ \<equiv> 0x20000000"
abbreviation (input) POINTER_SIGN_BIT :: u32 where "POINTER_SIGN_BIT \<equiv> 0x80000000"
abbreviation (input) VTLB_PAGE_MASK :: u32 where "VTLB_PAGE_MASK \<equiv> 4095"

text \<open>\<open>a >> VTLB_PAGE_BITS\<close>, and the address of a page.\<close>

definition page_of :: "u32 \<Rightarrow> 20 word" where
  "page_of a = ucast (drop_bit 12 a)"

definition pg_addr :: "20 word \<Rightarrow> u32" where
  "pg_addr q = push_bit 12 (ucast q)"

section \<open>Physical mappings\<close>

text \<open>
  The \<open>while\<close> loops step one page at a time. \<open>verify\<close> (\<open>pxAssert\<close>) demands page-aligned,
  non-zero sizes, for which the number of iterations is \<open>size / VTLB_PAGE_SIZE\<close>.
\<close>

definition pages :: "u32 \<Rightarrow> nat" where
  "pages sz = unat sz div 4096"

primrec MapHandler_pages :: "nat \<Rightarrow> u32 \<Rightarrow> u32 \<Rightarrow> MapData \<Rightarrow> MapData" where
  "MapHandler_pages 0 val start m = m"
| "MapHandler_pages (Suc n) val start m =
     MapHandler_pages n val (start + 0x1000) (m\<lparr>pmap := (pmap m)(page_of start := val)\<rparr>)"

definition vtlb_MapHandler :: "u32 \<Rightarrow> u32 \<Rightarrow> u32 \<Rightarrow> MapData \<Rightarrow> MapData" where
  "vtlb_MapHandler hdl start sz m = MapHandler_pages (pages sz) (hdl OR 0x80000000) start m"

primrec MapBlock_pages :: "nat \<Rightarrow> u32 \<Rightarrow> u32 \<Rightarrow> MapData \<Rightarrow> MapData" where
  "MapBlock_pages 0 ptr start m = m"
| "MapBlock_pages (Suc n) ptr start m =
     MapBlock_pages n (ptr + 0x1000) (start + 0x1000) (m\<lparr>pmap := (pmap m)(page_of start := ptr)\<rparr>)"

primrec MapBlock_blocks :: "nat \<Rightarrow> u32 \<Rightarrow> u32 \<Rightarrow> u32 \<Rightarrow> MapData \<Rightarrow> MapData" where
  "MapBlock_blocks 0 base start blocksize m = m"
| "MapBlock_blocks (Suc n) base start blocksize m =
     MapBlock_blocks n base (start + blocksize) blocksize (MapBlock_pages (pages blocksize) base start m)"

definition vtlb_MapBlock :: "u32 \<Rightarrow> u32 \<Rightarrow> u32 \<Rightarrow> u32 \<Rightarrow> MapData \<Rightarrow> MapData" where
  "vtlb_MapBlock base start sz blocksize m =
     (let blocksize = (if blocksize = 0 then sz else blocksize)
      in MapBlock_blocks (unat sz div unat blocksize) base start blocksize m)"

definition vtlb_GetPhyPtr :: "u32 \<Rightarrow> MapData \<Rightarrow> u32 option" where
  "vtlb_GetPhyPtr paddr m =
     (if paddr \<ge> VTLB_PMAP_SZ \<or> bit (pmap m (page_of paddr)) 31 then None
      else Some (pmap m (page_of paddr) + (paddr AND VTLB_PAGE_MASK)))"

definition vtlb_V2P :: "u32 \<Rightarrow> MapData \<Rightarrow> u32 option" where
  "vtlb_V2P vaddr m = map_option (\<lambda>t. t (page_of vaddr) OR (vaddr AND VTLB_PAGE_MASK)) (ppmap m)"

section \<open>Virtual mappings\<close>

definition VMap_pme :: "u32 \<Rightarrow> MapData \<Rightarrow> u32" where
  "VMap_pme paddr m =
     (if paddr \<ge> VTLB_PMAP_SZ then
        (if bit paddr 31 then UnmappedPhyHandler1 else UnmappedPhyHandler0)
          OR POINTER_SIGN_BIT OR paddr
      else let pme = pmap m (page_of paddr) in if bit pme 31 then pme OR paddr else pme)"

definition VMap_page :: "u32 \<Rightarrow> u32 \<Rightarrow> MapData \<Rightarrow> MapData" where
  "VMap_page vaddr paddr m =
     m\<lparr>vmap := (vmap m)(page_of vaddr := VMap_pme paddr m - vaddr),
       ppmap := (case ppmap m of None \<Rightarrow> None
                 | Some t \<Rightarrow> Some (if bit vaddr 31 then t
                                   else t(page_of vaddr := paddr AND NOT VTLB_PAGE_MASK)))\<rparr>"

primrec VMap_pages :: "nat \<Rightarrow> u32 \<Rightarrow> u32 \<Rightarrow> MapData \<Rightarrow> MapData" where
  "VMap_pages 0 vaddr paddr m = m"
| "VMap_pages (Suc n) vaddr paddr m =
     VMap_pages n (vaddr + 0x1000) (paddr + 0x1000) (VMap_page vaddr paddr m)"

definition vtlb_VMap :: "u32 \<Rightarrow> u32 \<Rightarrow> u32 \<Rightarrow> MapData \<Rightarrow> MapData" where
  "vtlb_VMap vaddr paddr sz m = VMap_pages (pages sz) vaddr paddr m"

primrec VMapBuffer_pages :: "nat \<Rightarrow> u32 \<Rightarrow> u32 \<Rightarrow> MapData \<Rightarrow> MapData" where
  "VMapBuffer_pages 0 vaddr bu8 m = m"
| "VMapBuffer_pages (Suc n) vaddr bu8 m =
     VMapBuffer_pages n (vaddr + 0x1000) (bu8 + 0x1000)
       (m\<lparr>vmap := (vmap m)(page_of vaddr := bu8 - vaddr)\<rparr>)"

definition vtlb_VMapBuffer :: "u32 \<Rightarrow> u32 \<Rightarrow> u32 \<Rightarrow> MapData \<Rightarrow> MapData" where
  "vtlb_VMapBuffer vaddr buffer sz m = VMapBuffer_pages (pages sz) vaddr buffer m"

definition VMapUnmap_page :: "u32 \<Rightarrow> MapData \<Rightarrow> MapData" where
  "VMapUnmap_page vaddr m =
     (let handl = (if vaddr AND 0x80000000 \<noteq> 0 then UnmappedVirtHandler1 else UnmappedVirtHandler0);
          handl = handl OR vaddr OR 0x80000000
      in m\<lparr>vmap := (vmap m)(page_of vaddr := handl - vaddr)\<rparr>)"

primrec VMapUnmap_pages :: "nat \<Rightarrow> u32 \<Rightarrow> MapData \<Rightarrow> MapData" where
  "VMapUnmap_pages 0 vaddr m = m"
| "VMapUnmap_pages (Suc n) vaddr m = VMapUnmap_pages n (vaddr + 0x1000) (VMapUnmap_page vaddr m)"

definition vtlb_VMapUnmap :: "u32 \<Rightarrow> u32 \<Rightarrow> MapData \<Rightarrow> MapData" where
  "vtlb_VMapUnmap vaddr sz m = VMapUnmap_pages (pages sz) vaddr m"

text \<open>The mappings of \<open>vtlb_Init\<close>; the handlers it registers are numbered as above.\<close>

definition vtlb_Init :: "MapData \<Rightarrow> MapData" where
  "vtlb_Init m =
     (let m = vtlb_MapHandler DefaultPhyHandler 0 VTLB_PMAP_SZ m;
          m = vtlb_VMapUnmap 0 0xfffff000 m
      in vtlb_VMapUnmap 0xfffff000 0x1000 m)"

text \<open>\<open>memSetPageAddr\<close>, \<open>memClearPageAddr\<close> and the fixed map of \<open>pcsx2/Memory.cpp\<close>.\<close>

definition memSetPageAddr :: "u32 \<Rightarrow> u32 \<Rightarrow> MapData \<Rightarrow> MapData" where
  "memSetPageAddr vaddr paddr m = vtlb_VMap vaddr paddr 0x1000 m"

definition memClearPageAddr :: "u32 \<Rightarrow> MapData \<Rightarrow> MapData" where
  "memClearPageAddr vaddr m = vtlb_VMapUnmap vaddr 0x1000 m"

definition memMapKernelMem :: "MapData \<Rightarrow> MapData" where
  "memMapKernelMem m = vtlb_VMap 0xA0000000 0 0x20000000 (vtlb_VMap 0x80000000 0 0x20000000 m)"

text \<open>The virtual mappings that \<open>eeMemoryReserve::Reset\<close> ends with.\<close>

definition eeMemory_map :: "MapData \<Rightarrow> MapData" where
  "eeMemory_map m =
     vtlb_VMapUnmap 0x20000000 0x60000000 (vtlb_VMap 0 0 0x20000000 (memMapKernelMem m))"

section \<open>Look-up\<close>

datatype vtarget = HostPtr u32 | Handler u8 u32

text \<open>The common prologue of \<open>vtlb_memRead*\<close> and \<open>vtlb_memWrite*\<close>.\<close>

definition vtlb_lookup :: "MapData \<Rightarrow> u32 \<Rightarrow> vtarget" where
  "vtlb_lookup m addr =
     (let vmv = vmap m (page_of addr); ppf = addr + vmv
      in if \<not> bit ppf 31 then HostPtr ppf
         else let hand = ucast vmv :: u8 in Handler hand (ppf - ucast hand + 0x80000000))"

section \<open>Page arithmetic\<close>

lemma page_mask: "(4095 :: u32) = mask 12" "(0x1000 :: u32) = push_bit 12 1"
  by (simp_all add: mask_eq_exp_minus_1 push_bit_eq_mult)

lemma less_page_iff: "off < 4096 \<longleftrightarrow> take_bit 12 off = (off :: u32)"
proof -
  have "take_bit 12 off = off \<longleftrightarrow> unat (take_bit 12 off) = unat off"
    by (rule word_unat_eq_iff)
  also have "\<dots> \<longleftrightarrow> unat off < 4096"
    by (simp add: unsigned_take_bit_eq take_bit_nat_eq_self_iff)
  finally show ?thesis
    by (simp add: word_less_nat_alt)
qed

lemma bit_off: "off < 4096 \<Longrightarrow> 12 \<le> k \<Longrightarrow> \<not> bit (off :: u32) k"
  unfolding less_page_iff by (metis bit_take_bit_iff not_le)

lemma pg_addr_plus:
  assumes "off < 4096"
  shows "pg_addr q + off = pg_addr q OR off"
  by (rule disjunctive_add) (use bit_off [OF assms] in \<open>auto simp: pg_addr_def bit_push_bit_iff\<close>)

lemma page_of_pg_addr [simp]:
  assumes "off < 4096"
  shows "page_of (pg_addr q + off) = q"
  unfolding pg_addr_plus [OF assms] unfolding page_of_def pg_addr_def
  by (rule bit_word_eqI) (use bit_off [OF assms] in \<open>auto simp: bit_simps\<close>)

lemma page_of_pg_addr0 [simp]: "page_of (pg_addr q) = q"
  using page_of_pg_addr [of 0 q] by simp

lemma page_split: "a = pg_addr (page_of a) + (a AND 4095)"
proof -
  have "a AND 4095 < (4096 :: u32)"
    unfolding less_page_iff page_mask(1) by (simp add: take_bit_eq_mask and.assoc)
  then have "pg_addr (page_of a) + (a AND 4095) = pg_addr (page_of a) OR (a AND 4095)"
    by (rule pg_addr_plus)
  also have "\<dots> = a"
    unfolding page_mask(1)
    by (rule bit_word_eqI) (auto simp: page_of_def pg_addr_def bit_simps not_less dest: bit_imp_le_length)
  finally show ?thesis by simp
qed

lemma off_less [simp]: "a AND 4095 < (4096 :: u32)"
  unfolding less_page_iff page_mask(1) by (simp add: take_bit_eq_mask and.assoc)

lemma aligned_page: "a AND 4095 = 0 \<Longrightarrow> a = pg_addr (page_of a)"
  using page_split [of a] by simp

lemma pg_addr_eq: "pg_addr q = word_of_int (uint q * 4096)"
  by (simp add: pg_addr_def push_bit_eq_mult)

lemma pg_addr_add: "pg_addr (q + r) = pg_addr q + pg_addr r"
proof -
  have "uint (q + r) * 4096 = (uint q + uint r) * 4096 mod 2 ^ 32"
    using mod_mult_mult2 [of "uint q + uint r" "4096" "2 ^ 20"] by (simp add: uint_word_ariths(1))
  then have "word_of_int (uint (q + r) * 4096) = (word_of_int ((uint q + uint r) * 4096) :: u32)"
    by (simp only: word_of_int_eq_iff take_bit_eq_mod) simp
  then show ?thesis
    by (simp only: pg_addr_eq distrib_right of_int_add)
qed

lemma pg_addr_succ: "pg_addr q + 0x1000 = pg_addr (q + 1)"
  by (simp add: pg_addr_add) (simp add: pg_addr_eq)

section \<open>The page-table loops\<close>

text \<open>
  The three loops over virtual pages share one shape: they overwrite an interval of pages, the
  \<open>k\<close>-th one with a value that depends only on the two running addresses.
\<close>

lemma vmap_VMap_pages:
  "n \<le> 2 ^ 20 \<Longrightarrow>
   vmap (VMap_pages n (pg_addr q) (pg_addr r) m) x =
     (if unat (x - q) < n then VMap_pme (pg_addr (r + (x - q))) m - pg_addr x else vmap m x)"
proof (induction n arbitrary: q r m)
  case 0
  then show ?case by simp
next
  case (Suc n)
  let ?m = "VMap_page (pg_addr q) (pg_addr r) m"
  have pme: "VMap_pme p ?m = VMap_pme p m" for p
    by (simp add: VMap_page_def VMap_pme_def Let_def)
  have vm: "vmap ?m = (vmap m)(q := VMap_pme (pg_addr r) m - pg_addr q)"
    by (simp add: VMap_page_def)
  have IH: "vmap (VMap_pages (Suc n) (pg_addr q) (pg_addr r) m) x =
      (if unat (x - (q + 1)) < n then VMap_pme (pg_addr (r + 1 + (x - (q + 1)))) m - pg_addr x
       else vmap ?m x)"
    using Suc.IH [of "q + 1" "r + 1" ?m] Suc.prems by (simp add: pg_addr_succ pme)
  show ?case
  proof (cases "x = q")
    case True
    have "unat (q - (q + 1)) = 2 ^ 20 - 1"
      by (simp add: unsigned_minus_1_eq_mask mask_eq_exp_minus_1)
    with True Suc.prems show ?thesis
      unfolding IH by (simp add: vm)
  next
    case False
    then have "unat (x - q) = Suc (unat (x - (q + 1)))"
      by (rule unat_diff_one)
    with False show ?thesis
      unfolding IH by (simp add: vm)
  qed
qed

text \<open>The entry that \<open>vtlb_VMapUnmap\<close> stores for a page, before the address is subtracted.\<close>

definition unmapped_pme :: "u32 \<Rightarrow> u32" where
  "unmapped_pme vaddr =
     (if bit vaddr 31 then UnmappedVirtHandler1 else UnmappedVirtHandler0) OR vaddr OR 0x80000000"

lemma and_sign_bit: "a AND 0x80000000 \<noteq> 0 \<longleftrightarrow> bit (a :: u32) 31"
  using and_exp_eq_0_iff_not_bit [of a 31] by simp

lemma vmap_VMapUnmap_pages:
  "n \<le> 2 ^ 20 \<Longrightarrow>
   vmap (VMapUnmap_pages n (pg_addr q) m) x =
     (if unat (x - q) < n then unmapped_pme (pg_addr x) - pg_addr x else vmap m x)"
proof (induction n arbitrary: q m)
  case 0
  then show ?case by simp
next
  case (Suc n)
  let ?m = "VMapUnmap_page (pg_addr q) m"
  have vm: "vmap ?m = (vmap m)(q := unmapped_pme (pg_addr q) - pg_addr q)"
    by (simp add: VMapUnmap_page_def unmapped_pme_def and_sign_bit)
  have IH: "vmap (VMapUnmap_pages (Suc n) (pg_addr q) m) x =
      (if unat (x - (q + 1)) < n then unmapped_pme (pg_addr x) - pg_addr x else vmap ?m x)"
    using Suc.IH [of "q + 1" ?m] Suc.prems by (simp add: pg_addr_succ)
  show ?case
  proof (cases "x = q")
    case True
    have "unat (q - (q + 1)) = 2 ^ 20 - 1"
      by (simp add: unsigned_minus_1_eq_mask mask_eq_exp_minus_1)
    with True Suc.prems show ?thesis
      unfolding IH by (simp add: vm)
  next
    case False
    then have "unat (x - q) = Suc (unat (x - (q + 1)))"
      by (rule unat_diff_one)
    with False show ?thesis
      unfolding IH by (simp add: vm)
  qed
qed

lemma loops_pmap [simp]:
  "pmap (VMap_pages n v p m) = pmap m" "pmap (VMapUnmap_pages n v m) = pmap m"
  "pmap (vtlb_VMap v p sz m) = pmap m" "pmap (vtlb_VMapUnmap v sz m) = pmap m"
proof -
  show a: "pmap (VMap_pages n v p m) = pmap m" for n v p m
    by (induction n arbitrary: v p m) (simp_all add: VMap_page_def)
  show b: "pmap (VMapUnmap_pages n v m) = pmap m" for n v m
    by (induction n arbitrary: v m) (simp_all add: VMapUnmap_page_def)
  show "pmap (vtlb_VMap v p sz m) = pmap m" "pmap (vtlb_VMapUnmap v sz m) = pmap m"
    by (simp_all add: vtlb_VMap_def vtlb_VMapUnmap_def a b)
qed

section \<open>What a physical address stands for\<close>

definition phys_target :: "MapData \<Rightarrow> u32 \<Rightarrow> vtarget" where
  "phys_target m paddr =
     (if paddr \<ge> VTLB_PMAP_SZ then
        Handler (if bit paddr 31 then 3 else 2) (paddr AND 0x7fffffff)
      else let e = pmap m (page_of paddr)
           in if bit e 31 then Handler (ucast e) paddr else HostPtr (e + (paddr AND VTLB_PAGE_MASK)))"

definition unmapped_target :: "u32 \<Rightarrow> vtarget" where
  "unmapped_target vaddr = Handler (if bit vaddr 31 then 1 else 0) (vaddr AND 0x7fffffff)"

text \<open>
  Entries of the physical map: page-aligned host addresses below the sign bit, or
  \<open>handler | 0x80000000\<close> with one of the 128 handlers.
\<close>

definition wf_pmap :: "MapData \<Rightarrow> bool" where
  "wf_pmap m \<longleftrightarrow> (\<forall>q. if bit (pmap m q) 31 then pmap m q AND 0x7fffff80 = 0
                        else pmap m q AND VTLB_PAGE_MASK = 0)"

lemma bit31_iff: "bit (w :: u32) 31 \<longleftrightarrow> 2 ^ 31 \<le> unat w"
proof -
  have "take_bit 31 w = w \<longleftrightarrow> \<not> bit w 31"
  proof
    assume "take_bit 31 w = w"
    then show "\<not> bit w 31"
      by (metis bit_take_bit_iff less_irrefl)
  next
    assume n: "\<not> bit w 31"
    show "take_bit 31 w = w"
    proof (rule bit_word_eqI)
      fix k :: nat assume "k < LENGTH(32)"
      then show "bit (take_bit 31 w) k = bit w k"
        using n by (cases "k = 31") (auto simp: bit_take_bit_iff)
    qed
  qed
  moreover have "take_bit 31 w = w \<longleftrightarrow> unat (take_bit 31 w) = unat w"
    by (rule word_unat_eq_iff)
  moreover have "unat (take_bit 31 w) = unat w \<longleftrightarrow> unat w < 2 ^ 31"
    by (simp add: unsigned_take_bit_eq take_bit_nat_eq_self_iff)
  ultimately show ?thesis
    by linarith
qed

lemma bit_sign: "bit (0x80000000 :: u32) n \<longleftrightarrow> n = 31"
proof -
  have "(0x80000000 :: u32) = 2 ^ 31"
    by simp
  then show ?thesis
    by (simp only: bit_exp_iff) (auto dest: possible_bit_less_imp)
qed

lemma bit_low31: "bit (0x7fffffff :: u32) n \<longleftrightarrow> n < 31"
proof -
  have "(0x7fffffff :: u32) = mask 31"
    by (simp add: mask_eq_exp_minus_1)
  then show ?thesis
    by (simp only: bit_mask_iff) auto
qed

lemma sign_or: "(w :: u32) OR 0x80000000 = 0x80000000 + (w AND 0x7fffffff)"
proof -
  have "0x80000000 + (w AND 0x7fffffff) = 0x80000000 OR (w AND 0x7fffffff)"
    by (rule disjunctive_add) (auto simp: bit_and_iff bit_sign bit_low31 simp del: bit_numeral_word_iff)
  also have "\<dots> = w OR 0x80000000"
    by (rule bit_word_eqI) (auto simp: bit_or_iff bit_and_iff bit_sign bit_low31 simp del: bit_numeral_word_iff)
  finally show ?thesis by simp
qed

lemma pg_addr_low: "pg_addr r AND 0x7fffffff = pg_addr (r AND 0x7ffff)"
proof -
  have s: "(0x7fffffff :: u32) = mask 31" "(0x7ffff :: 20 word) = mask 19"
    by (simp_all add: mask_eq_exp_minus_1)
  show ?thesis
    unfolding s pg_addr_def by (rule bit_word_eqI) (auto simp: bit_simps)
qed

lemma unat_pg_addr: "unat (pg_addr q) = unat q * 4096"
proof -
  have "unat q < 2 ^ 20"
    using unsigned_less [of q] by simp
  moreover have "pg_addr q = of_nat (unat q * 4096)"
    by (simp add: pg_addr_def push_bit_eq_mult)
  ultimately show ?thesis
    by (simp only: unat_of_nat) simp
qed

lemma unat_pg_addr_off:
  assumes "off < 4096"
  shows "unat (pg_addr q + off) = unat q * 4096 + unat off"
proof -
  have "unat off < 4096" "unat q < 2 ^ 20"
    using assms unsigned_less [of q] by (simp_all add: word_less_nat_alt)
  then show ?thesis
    by (subst unat_word_ariths(1)) (simp add: unat_pg_addr)
qed

text \<open>An address without its sign bit.\<close>

lemma page_low: "off < 4096 \<Longrightarrow> (pg_addr r + off) AND 0x7fffffff = pg_addr (r AND 0x7ffff) + off"
proof -
  assume off: "off < 4096"
  have "(pg_addr r OR off) AND 0x7fffffff = (pg_addr r AND 0x7fffffff) OR (off AND 0x7fffffff)"
    by (rule bit_word_eqI) (auto simp: bit_or_iff bit_and_iff)
  moreover have "off AND 0x7fffffff = off"
  proof (rule bit_word_eqI)
    fix n
    show "bit (off AND 0x7fffffff) n = bit off n"
      using bit_off [OF off, of n]
      by (cases "12 \<le> n") (auto simp: bit_and_iff bit_low31 simp del: bit_numeral_word_iff)
  qed
  ultimately show ?thesis
    by (simp add: pg_addr_plus [OF off] pg_addr_low)
qed

lemma handler_entry:
  assumes "h < 128"
  shows "h OR 0x80000000 OR pg_addr r = 0x80000000 + (pg_addr (r AND 0x7ffff) + h)"
proof -
  have h: "h < 4096"
    using assms by (simp add: word_less_nat_alt)
  have "h OR 0x80000000 OR pg_addr r = (pg_addr r OR h) OR 0x80000000"
    by (simp only: or.commute or.left_commute or.assoc)
  also have "\<dots> = 0x80000000 + ((pg_addr r + h) AND 0x7fffffff)"
    by (simp add: sign_or pg_addr_plus [OF h])
  finally show ?thesis
    by (simp add: page_low [OF h])
qed

lemma ucast8_of_int: "(ucast (word_of_int k :: u32) :: u8) = word_of_int k"
  by (simp add: ucast_eq word_of_int_eq_iff unsigned_of_int)

lemma ucast_low8:
  "(ucast (0x80000000 + (pg_addr r + h) - pg_addr q :: u32) :: u8) = ucast h"
proof -
  have "0x80000000 + (pg_addr r + h) - pg_addr q =
      word_of_int (uint h + 256 * (0x800000 + (uint r - uint q) * 16))"
    by (simp add: pg_addr_eq algebra_simps)
  then have "(ucast (0x80000000 + (pg_addr r + h) - pg_addr q) :: u8) =
      word_of_int (uint h + 256 * (0x800000 + (uint r - uint q) * 16))"
    by (simp only: ucast8_of_int)
  also have "\<dots> = word_of_int (uint h)"
  proof -
    have "2 ^ LENGTH(8) = (256 :: int)"
      by simp
    then show ?thesis
      by (simp only: word_of_int_eq_iff take_bit_eq_mod mod_mult_self2)
  qed
  finally show ?thesis
    by simp
qed

text \<open>A packed handler entry: the look-up recovers the handler and the 31-bit address.\<close>

lemma lookup_handler:
  assumes h: "h < 128" and off: "off < 4096"
    and vm: "vmap m q = (h OR 0x80000000 OR pg_addr r) - pg_addr q"
    and room: "unat h + unat off < 4096 \<or> r AND 0x7ffff \<noteq> 0x7ffff"
  shows "vtlb_lookup m (pg_addr q + off) = Handler (ucast h) ((pg_addr r + off) AND 0x7fffffff)"
proof -
  let ?r = "r AND 0x7ffff"
  have vm': "vmap m q = 0x80000000 + (pg_addr ?r + h) - pg_addr q"
    by (simp add: vm handler_entry [OF h])
  then have ppf: "pg_addr q + off + vmap m q = 0x80000000 + (pg_addr ?r + (h + off))"
    by simp
  have r: "unat ?r \<le> 0x7ffff"
    using word_and_le1 [of r "0x7ffff"] by (simp add: word_le_nat_alt)
  have h': "unat h < 128" and off': "unat off < 4096"
    using h off by (simp_all add: word_less_nat_alt)
  have ho: "unat (h + off) = unat h + unat off"
    using h' off' by (subst unat_word_ariths(1)) simp
  have lim: "unat ?r * 4096 + (unat h + unat off) < 2 ^ 31"
  proof (cases "unat h + unat off < 4096")
    case True
    then show ?thesis using r by simp
  next
    case False
    with room have "?r \<noteq> 0x7ffff" by blast
    then have "unat ?r \<noteq> unat (0x7ffff :: 20 word)"
      by (simp only: word_unat_eq_iff) simp
    then have "unat ?r \<le> 0x7fffe"
      using r by simp
    then show ?thesis using h' off' by simp
  qed
  have "unat (pg_addr ?r + (h + off)) = unat ?r * 4096 + (unat h + unat off)"
    using lim by (subst unat_word_ariths(1)) (simp add: unat_pg_addr ho)
  then have "unat (0x80000000 + (pg_addr ?r + (h + off))) = 2 ^ 31 + (unat ?r * 4096 + (unat h + unat off))"
    using lim by (subst unat_word_ariths(1)) simp
  then have neg: "bit (0x80000000 + (pg_addr ?r + (h + off))) 31"
    unfolding bit31_iff by simp
  have hand: "ucast (ucast h :: u8) = h"
    using h' by (simp add: word_unat_eq_iff unsigned_ucast_eq unsigned_take_bit_eq take_bit_nat_eq_self_iff)
  show ?thesis
    unfolding vtlb_lookup_def Let_def page_of_pg_addr [OF off] ppf
    using neg by (simp add: vm' ucast_low8 hand page_low [OF off])
qed

text \<open>A host entry: a page-aligned base, no carry into the sign bit.\<close>

lemma lookup_host:
  assumes pos: "\<not> bit e 31" and al: "e AND 4095 = 0" and off: "off < 4096"
    and vm: "vmap m q = e - pg_addr q"
  shows "vtlb_lookup m (pg_addr q + off) = HostPtr (e + off)"
proof -
  obtain p where e: "e = pg_addr p"
    using aligned_page [OF al] by blast
  have "unat p * 4096 < 2 ^ 31"
    using pos by (simp add: bit31_iff e unat_pg_addr)
  then have "unat p \<le> 524287"
    by simp
  moreover have "unat off < 4096"
    using off by (simp add: word_less_nat_alt)
  ultimately have "unat (pg_addr p + off) < 2 ^ 31"
    unfolding unat_pg_addr_off [OF off] by simp
  then have "\<not> bit (e + off) 31"
    unfolding bit31_iff e by simp
  then show ?thesis
    unfolding vtlb_lookup_def Let_def page_of_pg_addr [OF off] vm by (simp add: add.commute)
qed

lemma ucast_h8: "h AND 0x7fffff80 = 0 \<Longrightarrow> bit h 31 \<Longrightarrow>
    \<exists>g. g < 128 \<and> h = (g OR 0x80000000) \<and> ucast h = (ucast g :: u8)"
  for h :: u32
proof (rule exI [of _ "h AND 0x7f"], intro conjI)
  assume z: "h AND 0x7fffff80 = 0" and s: "bit h 31"
  show "h AND 0x7f < 128"
    using word_and_le1 [of h "0x7f"] by (simp add: word_le_nat_alt word_less_nat_alt)
  have "h = h AND (0x7f OR 0x7fffff80 OR 0x80000000)"
  proof -
    have "(0x7f OR 0x7fffff80 OR 0x80000000 :: u32) = - 1"
      by simp
    then show ?thesis
      by (simp only: and.right_neutral)
  qed
  then have "h = (h AND 0x7f) OR (h AND 0x7fffff80) OR (h AND 0x80000000)"
    by (simp only: bit.conj_disj_distrib)
  moreover have "h AND 0x80000000 = 0x80000000"
    by (rule bit_word_eqI) (use s in \<open>auto simp: bit_and_iff bit_sign simp del: bit_numeral_word_iff\<close>)
  ultimately show "h = (h AND 0x7f) OR 0x80000000"
    using z by simp
  then have "(ucast h :: u8) = ucast ((h AND 0x7f) OR 0x80000000)"
    by (rule arg_cong)
  also have "\<dots> = ucast (h AND 0x7f)"
    by (rule bit_word_eqI)
      (auto simp: bit_ucast_iff bit_or_iff bit_sign simp del: bit_numeral_word_iff)
  finally show "(ucast h :: u8) = ucast (h AND 0x7f)" .
qed

text \<open>
  One page: whatever the physical map says of a physical page is what the look-up finds at the
  virtual page it is mapped to. Only the last page of the physical space, where the handler
  number may carry into the sign bit, is excluded.
\<close>

lemma lookup_pme:
  assumes wf: "wf_pmap m'" and off: "off < 4096" and top: "r AND 0x7ffff \<noteq> 0x7ffff"
    and vm: "vmap m q = VMap_pme (pg_addr r) m' - pg_addr q"
  shows "vtlb_lookup m (pg_addr q + off) = phys_target m' (pg_addr r + off)"
proof -
  have ge: "pg_addr r + off \<ge> VTLB_PMAP_SZ \<longleftrightarrow> pg_addr r \<ge> VTLB_PMAP_SZ"
  proof -
    have "unat off < 4096"
      using off by (simp add: word_less_nat_alt)
    then have "0x20000000 \<le> unat r * 4096 + unat off \<longleftrightarrow> 0x20000000 \<le> unat r * 4096"
      by (cases "unat r < 131072") simp_all
    then show ?thesis
      unfolding word_le_nat_alt unat_pg_addr_off [OF off] unat_pg_addr by simp
  qed
  have b31: "bit (pg_addr r + off) 31 \<longleftrightarrow> bit (pg_addr r) 31"
    unfolding pg_addr_plus [OF off] using bit_off [OF off, of 31] by (auto simp: bit_or_iff)
  have low: "(pg_addr r + off) AND VTLB_PAGE_MASK = off"
    unfolding pg_addr_plus [OF off] page_mask(1)
  proof (rule bit_word_eqI)
    fix n
    show "bit ((pg_addr r OR off) AND mask 12) n = bit off n"
      using bit_off [OF off, of n]
      by (cases "12 \<le> n") (auto simp: bit_and_iff bit_or_iff bit_mask_iff pg_addr_def bit_push_bit_iff)
  qed
  show ?thesis
  proof (cases "pg_addr r \<ge> VTLB_PMAP_SZ")
    case True
    let ?h = "if bit (pg_addr r) 31 then UnmappedPhyHandler1 else UnmappedPhyHandler0"
    have "vmap m q = (?h OR 0x80000000 OR pg_addr r) - pg_addr q" "?h < 128"
      using True vm by (simp_all add: VMap_pme_def)
    from lookup_handler [OF this(2) off this(1)] top True
    show ?thesis
      by (simp add: phys_target_def ge b31)
  next
    case False
    then have "unat r < 2 ^ 17"
      by (simp add: word_le_nat_alt unat_pg_addr)
    then have "unat (take_bit 19 r) = unat r"
      by (simp add: unsigned_take_bit_eq take_bit_nat_eq_self_iff)
    then have r: "r AND 0x7ffff = r"
      by (simp add: take_bit_eq_mask mask_eq_exp_minus_1 word_unat_eq_iff)
    show ?thesis
    proof (cases "bit (pmap m' r) 31")
      case True
      with wf have "pmap m' r AND 0x7fffff80 = 0"
        unfolding wf_pmap_def by meson
      then obtain g where g: "g < 128" "pmap m' r = (g OR 0x80000000)" "ucast (pmap m' r) = (ucast g :: u8)"
        using ucast_h8 True by blast
      have "vmap m q = (g OR 0x80000000 OR pg_addr r) - pg_addr q"
        using False True vm by (simp add: VMap_pme_def Let_def g(2) or.assoc)
      from lookup_handler [OF g(1) off this] top False True
      show ?thesis
        by (simp add: phys_target_def ge off page_low [OF off] r g(3))
    next
      case host: False
      with wf have al: "pmap m' r AND 4095 = 0"
        unfolding wf_pmap_def by meson
      have "vmap m q = pmap m' r - pg_addr q"
        using False host vm by (simp add: VMap_pme_def Let_def)
      from lookup_host [OF host al off this] False host show ?thesis
        by (simp add: phys_target_def ge off low)
    qed
  qed
qed

section \<open>Mapped regions\<close>

lemma pg_addr_diff: "pg_addr (x - q) = pg_addr x - pg_addr q"
  using pg_addr_add [of "x - q" q] by (simp add: algebra_simps)

lemma in_region:
  assumes "sz AND 4095 = 0" "off < 4096"
  shows "pg_addr x + off - pg_addr q < sz \<longleftrightarrow> unat (x - q) < pages sz"
proof -
  obtain k where k: "sz = pg_addr k"
    using aligned_page [OF assms(1)] by blast
  have "pg_addr x + off - pg_addr q = pg_addr (x - q) + off"
    by (simp add: pg_addr_diff)
  then have "pg_addr x + off - pg_addr q < sz \<longleftrightarrow> unat (x - q) * 4096 + unat off < unat k * 4096"
    by (simp only: word_less_nat_alt unat_pg_addr_off [OF assms(2)] k unat_pg_addr)
  also have "\<dots> \<longleftrightarrow> unat (x - q) < unat k"
    using assms(2) by (cases "unat (x - q) < unat k") (simp_all add: word_less_nat_alt)
  finally show ?thesis
    by (simp add: pages_def k unat_pg_addr)
qed

lemma pages_le: "pages sz \<le> 2 ^ 20"
proof -
  have "unat sz < 2 ^ LENGTH(32)"
    by (rule unsigned_less)
  then show ?thesis
    by (simp add: pages_def)
qed

lemma VMap_lookup:
  assumes wf: "wf_pmap m" and al: "v AND 4095 = 0" "p AND 4095 = 0" "sz AND 4095 = 0"
    and a: "a - v < sz" and top: "(p + (a - v)) AND 0x7ffff000 \<noteq> 0x7ffff000"
  shows "vtlb_lookup (vtlb_VMap v p sz m) a = phys_target m (p + (a - v))"
proof -
  obtain q r where v: "v = pg_addr q" and p: "p = pg_addr r"
    using aligned_page [OF al(1)] aligned_page [OF al(2)] by blast
  obtain x off where x: "a = pg_addr x + off" and off: "off < 4096"
    using page_split [of a] off_less [of a] by blast
  let ?y = "r + (x - q)"
  have pa: "p + (a - v) = pg_addr ?y + off"
    by (simp add: x v p pg_addr_add pg_addr_diff)
  have "unat (x - q) < pages sz"
    using a in_region [OF al(3) off] by (simp add: x v)
  then have vm: "vmap (vtlb_VMap v p sz m) x = VMap_pme (pg_addr ?y) m - pg_addr x"
    by (simp add: vtlb_VMap_def v p vmap_VMap_pages [OF pages_le])
  have "?y AND 0x7ffff \<noteq> 0x7ffff"
  proof
    assume y: "?y AND 0x7ffff = 0x7ffff"
    have "(pg_addr ?y + off) AND 0x7fffffff = pg_addr 0x7ffff + off"
      using page_low [OF off, of ?y] y by simp
    then have "((pg_addr ?y + off) AND 0x7fffffff) AND 0x7ffff000 = (pg_addr 0x7ffff + off) AND 0x7ffff000"
      by (rule arg_cong)
    moreover have "((pg_addr ?y + off) AND 0x7fffffff) AND 0x7ffff000 = (pg_addr ?y + off) AND 0x7ffff000"
    proof -
      have "(0x7fffffff AND 0x7ffff000 :: u32) = 0x7ffff000"
        by simp
      then show ?thesis
        by (simp only: and.assoc)
    qed
    moreover have "(pg_addr 0x7ffff + off) AND 0x7ffff000 = 0x7ffff000"
    proof -
      have "pg_addr 0x7ffff = 0x7ffff000"
        by (simp add: pg_addr_eq)
      moreover have "off AND 0x7ffff000 = 0"
      proof -
        have "off = off AND mask 12"
          using off by (simp add: less_page_iff take_bit_eq_mask)
        then have "off AND 0x7ffff000 = (off AND mask 12) AND 0x7ffff000"
          by (rule arg_cong)
        also have "\<dots> = off AND (mask 12 AND 0x7ffff000)"
          by (rule and.assoc)
        finally show ?thesis
          by (simp add: mask_eq_exp_minus_1)
      qed
      ultimately show ?thesis
        unfolding pg_addr_plus [OF off] by (simp add: bit.conj_disj_distrib2)
    qed
    ultimately show False
      using top by (simp add: pa)
  qed
  from lookup_pme [OF wf off this vm] show ?thesis
    by (simp only: pa x [symmetric])
qed

lemma VMap_lookup_other:
  assumes al: "v AND 4095 = 0" "p AND 4095 = 0" "sz AND 4095 = 0" and a: "\<not> a - v < sz"
  shows "vtlb_lookup (vtlb_VMap v p sz m) a = vtlb_lookup m a"
proof -
  obtain q r where v: "v = pg_addr q" and p: "p = pg_addr r"
    using aligned_page [OF al(1)] aligned_page [OF al(2)] by blast
  obtain x off where x: "a = pg_addr x + off" and off: "off < 4096"
    using page_split [of a] off_less [of a] by blast
  have "\<not> unat (x - q) < pages sz"
    using a in_region [OF al(3) off] by (simp add: x v)
  then have "vmap (vtlb_VMap v p sz m) x = vmap m x"
    by (simp add: vtlb_VMap_def v p vmap_VMap_pages [OF pages_le])
  then show ?thesis
    by (simp add: vtlb_lookup_def x page_of_pg_addr [OF off])
qed

lemma Unmap_lookup:
  assumes al: "v AND 4095 = 0" "sz AND 4095 = 0" and a: "a - v < sz" and top: "a \<noteq> 0xffffffff"
  shows "vtlb_lookup (vtlb_VMapUnmap v sz m) a = unmapped_target a"
proof -
  obtain q where v: "v = pg_addr q"
    using aligned_page [OF al(1)] by blast
  obtain x off where x: "a = pg_addr x + off" and off: "off < 4096"
    using page_split [of a] off_less [of a] by blast
  have b31: "bit (pg_addr x + off) 31 \<longleftrightarrow> bit (pg_addr x) 31"
    unfolding pg_addr_plus [OF off] using bit_off [OF off, of 31] by (auto simp: bit_or_iff)
  let ?h = "if bit (pg_addr x) 31 then UnmappedVirtHandler1 else UnmappedVirtHandler0"
  have "unat (x - q) < pages sz"
    using a in_region [OF al(2) off] by (simp add: x v)
  then have vm: "vmap (vtlb_VMapUnmap v sz m) x = (?h OR 0x80000000 OR pg_addr x) - pg_addr x"
    by (simp add: vtlb_VMapUnmap_def v vmap_VMapUnmap_pages [OF pages_le] unmapped_pme_def or.commute)
  have "unat ?h + unat off < 4096 \<or> x AND 0x7ffff \<noteq> 0x7ffff"
  proof (rule ccontr)
    assume "\<not> ?thesis"
    then have "\<not> unat ?h + unat off < 4096" and y: "x AND 0x7ffff = 0x7ffff"
      by simp_all
    moreover have "unat off < 4096"
      using off by (simp add: word_less_nat_alt)
    ultimately have s: "bit (pg_addr x) 31" and o: "unat off = 4095"
      by (auto split: if_splits)
    have "pg_addr x AND 0x7fffffff = 0x7ffff000"
      by (simp add: pg_addr_low y) (simp add: pg_addr_eq)
    moreover have "pg_addr x OR 0x80000000 = pg_addr x"
      by (rule bit_word_eqI) (use s in \<open>auto simp: bit_or_iff bit_sign simp del: bit_numeral_word_iff\<close>)
    ultimately have "pg_addr x = 0xfffff000"
      using sign_or [of "pg_addr x"] by simp
    moreover have "off = 4095"
      using o by (simp add: word_unat_eq_iff)
    ultimately show False
      using top by (simp add: x)
  qed
  from lookup_handler [OF _ off vm this] show ?thesis
    by (simp add: unmapped_target_def x b31)
qed

lemma Unmap_lookup_other:
  assumes al: "v AND 4095 = 0" "sz AND 4095 = 0" and a: "\<not> a - v < sz"
  shows "vtlb_lookup (vtlb_VMapUnmap v sz m) a = vtlb_lookup m a"
proof -
  obtain q where v: "v = pg_addr q"
    using aligned_page [OF al(1)] by blast
  obtain x off where x: "a = pg_addr x + off" and off: "off < 4096"
    using page_split [of a] off_less [of a] by blast
  have "\<not> unat (x - q) < pages sz"
    using a in_region [OF al(2) off] by (simp add: x v)
  then have "vmap (vtlb_VMapUnmap v sz m) x = vmap m x"
    by (simp add: vtlb_VMapUnmap_def v vmap_VMapUnmap_pages [OF pages_le])
  then show ?thesis
    by (simp add: vtlb_lookup_def x page_of_pg_addr [OF off])
qed

text \<open>
  C3: the virtual mapping of a region implements the physical address space: after
  \<open>vtlb_VMap(vaddr, paddr, size)\<close> the look-up of every address of the region yields the host byte
  or the handler call (with the exact physical address) that the physical map assigns to the
  corresponding physical address (the last page below either 2-GiB boundary, where a handler
  number can carry into the sign bit, excepted), and the look-up of every other address is unchanged.
\<close>

theorem vtlb_VMap_refines:
  assumes "wf_pmap m" "v AND 4095 = 0" "p AND 4095 = 0" "sz AND 4095 = 0"
  shows "(a - v < sz \<and> (p + (a - v)) AND 0x7ffff000 \<noteq> 0x7ffff000 \<longrightarrow>
      vtlb_lookup (vtlb_VMap v p sz m) a = phys_target m (p + (a - v))) \<and>
    (\<not> a - v < sz \<longrightarrow> vtlb_lookup (vtlb_VMap v p sz m) a = vtlb_lookup m a)"
  using VMap_lookup [OF assms] VMap_lookup_other [OF assms(2-4)] by blast

text \<open>
  A physical map for the witnesses: one 64-KiB block of host memory at physical 0, handler 5 on
  the page at 0x10000000 and the default handler everywhere else.
\<close>

definition sample_map :: MapData where
  "sample_map =
     \<lparr>pmap = (\<lambda>q. if q < 16 then 0x00400000 + push_bit 12 (ucast q)
                  else if q = 0x10000 then 0x80000005 else 0x80000004),
      vmap = (\<lambda>_. 0), ppmap = None, host = (\<lambda>_. 0)\<rparr>"

lemma wf_sample_map: "wf_pmap sample_map"
proof -
  have "\<not> bit (0x00400000 + push_bit 12 (ucast q) :: u32) 31 \<and>
      (0x00400000 + push_bit 12 (ucast q) :: u32) AND 4095 = 0" if "q < 16" for q :: "20 word"
  proof -
    have "unat q < 16"
      using that by (simp add: word_less_nat_alt)
    then have "\<exists>k \<in> {0, 1, 2, 3, 4, 5, 6, 7, 8, 9, 10, 11, 12, 13, 14, 15}. unat q = k"
      by (simp only: insert_iff bex_simps empty_iff) arith
    then have "\<exists>k \<in> {0, 1, 2, 3, 4, 5, 6, 7, 8, 9, 10, 11, 12, 13, 14, 15}. q = k"
      by (auto simp: word_unat_eq_iff)
    then show ?thesis
      by auto
  qed
  then show ?thesis
    unfolding wf_pmap_def sample_map_def by simp
qed

theorem vtlb_VMap_refines_witness:
  "vtlb_lookup (vtlb_VMap 0x00100000 0x1000 0x2000 sample_map) 0x00101234 = HostPtr 0x00402234"
  using vtlb_VMap_refines [OF wf_sample_map,
      where v = "0x00100000" and p = "0x1000" and sz = "0x2000" and a = "0x00101234"]
  by (simp add: phys_target_def page_of_def) (simp add: sample_map_def)

text \<open>
  unmapped regions: after \<open>vtlb_VMapUnmap\<close> every address of the region except
  \<open>0xffffffff\<close> reaches the TLB-miss handler of its half of the address space, with the address
  from which the handler restores the faulting one; addresses outside are unaffected.
\<close>

theorem vtlb_VMapUnmap_refines:
  assumes "v AND 4095 = 0" "sz AND 4095 = 0"
  shows "(a - v < sz \<and> a \<noteq> 0xffffffff \<longrightarrow> vtlb_lookup (vtlb_VMapUnmap v sz m) a = unmapped_target a) \<and>
    (\<not> a - v < sz \<longrightarrow> vtlb_lookup (vtlb_VMapUnmap v sz m) a = vtlb_lookup m a)"
  using Unmap_lookup [OF assms] Unmap_lookup_other [OF assms] by blast

theorem vtlb_VMapUnmap_refines_witness:
  "vtlb_lookup (vtlb_VMapUnmap 0xC0000000 0x1000 sample_map) 0xC0000010 = Handler 1 0x40000010"
  using vtlb_VMapUnmap_refines [where v = "0xC0000000" and sz = "0x1000" and a = "0xC0000010"
      and m = sample_map]
  by (simp add: unmapped_target_def)

text \<open>
  the excluded byte. The entry of the unmapped last page packs handler 1 below the address
  \<open>0xfffff000\<close>; for the byte at \<open>0xffffffff\<close> the sum carries out of the word, so the look-up
  yields the null host pointer instead of the miss handler.
\<close>

theorem unmapped_last_byte:
  "vtlb_lookup (vtlb_VMapUnmap 0xfffff000 0x1000 m) 0xffffffff = HostPtr 0"
  by (simp add: vtlb_VMapUnmap_def pages_def VMapUnmap_page_def vtlb_lookup_def page_of_def)

lemma pmap_only:
  "pmap m' = pmap m \<Longrightarrow> wf_pmap m' = wf_pmap m" "pmap m' = pmap m \<Longrightarrow> phys_target m' = phys_target m"
  by (simp_all add: wf_pmap_def phys_target_def fun_eq_iff)

lemma not_top: "w < 0x20000000 \<Longrightarrow> w AND 0x7ffff000 \<noteq> (0x7ffff000 :: u32)"
proof
  assume "w < 0x20000000" "w AND 0x7ffff000 = 0x7ffff000"
  then show False
    using word_and_le2 [of w "0x7ffff000"] by (simp add: word_le_nat_alt word_less_nat_alt)
qed

lemma segment_bounds:
  assumes "a < (0x20000000 :: u32)"
  shows "\<not> a - 0x20000000 < 0x60000000" "\<not> (0x80000000 + a) - 0x20000000 < 0x60000000"
    "\<not> (0xA0000000 + a) - 0x20000000 < 0x60000000" "\<not> 0x80000000 + a < 0x20000000"
    "\<not> 0xA0000000 + a < 0x20000000" "\<not> (0x80000000 + a) - 0xA0000000 < 0x20000000"
proof -
  have ua: "unat a < 0x20000000"
    using assms by (simp add: word_less_nat_alt)
  have plus: "unat (a + 0xE0000000) = unat a + 0xE0000000" "unat (a + 0x60000000) = unat a + 0x60000000"
    "unat (a + 0x80000000) = unat a + 0x80000000" "unat (a + 0xA0000000) = unat a + 0xA0000000"
    using ua by (subst unat_word_ariths(1); simp)+
  have eq: "a - 0x20000000 = a + 0xE0000000" "(0x80000000 + a) - 0x20000000 = a + 0x60000000"
    "(0xA0000000 + a) - 0x20000000 = a + 0x80000000" "0x80000000 + a = a + 0x80000000"
    "0xA0000000 + a = a + 0xA0000000" "(0x80000000 + a) - 0xA0000000 = a + 0xE0000000"
  proof -
    have n: "(0xE0000000 :: u32) = - 0x20000000" "(0xE0000000 :: u32) = 0x80000000 - 0xA0000000"
      by simp_all
    show "a - 0x20000000 = a + 0xE0000000" "(0x80000000 + a) - 0x20000000 = a + 0x60000000"
      "(0xA0000000 + a) - 0x20000000 = a + 0x80000000"
      "0x80000000 + a = a + 0x80000000" "0xA0000000 + a = a + 0xA0000000"
      unfolding n(1) by simp_all
    show "(0x80000000 + a) - 0xA0000000 = a + 0xE0000000"
      unfolding n(2) by (simp only: add.commute add_diff_eq)
  qed
  show "\<not> a - 0x20000000 < 0x60000000" "\<not> (0x80000000 + a) - 0x20000000 < 0x60000000"
    "\<not> (0xA0000000 + a) - 0x20000000 < 0x60000000" "\<not> 0x80000000 + a < 0x20000000"
    "\<not> 0xA0000000 + a < 0x20000000" "\<not> (0x80000000 + a) - 0xA0000000 < 0x20000000"
    unfolding eq(1) eq(2) eq(3) eq(6) unfolding eq(4) eq(5) word_less_nat_alt plus by simp_all
qed

text \<open>
  C4: the EE address space after \<open>eeMemoryReserve::Reset\<close>: the segments at 0, \<open>0x80000000\<close> and
  \<open>0xA0000000\<close> are three views of the same 512 MiB of physical memory, and everything from
  \<open>0x20000000\<close> to \<open>0x7fffffff\<close> is unmapped.
\<close>

theorem eeMemory_segments:
  assumes "wf_pmap m"
  shows "(a < 0x20000000 \<longrightarrow>
      vtlb_lookup (eeMemory_map m) a = phys_target m a \<and>
      vtlb_lookup (eeMemory_map m) (0x80000000 + a) = phys_target m a \<and>
      vtlb_lookup (eeMemory_map m) (0xA0000000 + a) = phys_target m a) \<and>
    (a < 0x60000000 \<longrightarrow>
      vtlb_lookup (eeMemory_map m) (0x20000000 + a) = unmapped_target (0x20000000 + a))"
proof -
  let ?m1 = "vtlb_VMap 0x80000000 0 0x20000000 m"
  let ?m2 = "vtlb_VMap 0xA0000000 0 0x20000000 ?m1"
  let ?m3 = "vtlb_VMap 0 0 0x20000000 ?m2"
  have e: "eeMemory_map m = vtlb_VMapUnmap 0x20000000 0x60000000 ?m3"
    by (simp add: eeMemory_map_def memMapKernelMem_def)
  have wf: "wf_pmap ?m1" "wf_pmap ?m2"
    by (rule iffD2 [OF pmap_only(1) assms]; simp)+
  have ph: "phys_target ?m1 = phys_target m" "phys_target ?m2 = phys_target m"
    by (rule pmap_only(2); simp)+
  show ?thesis
  proof (intro conjI impI)
    assume a: "a < 0x20000000"
    have skip: "vtlb_lookup (eeMemory_map m) b = vtlb_lookup ?m3 b" if "\<not> b - 0x20000000 < 0x60000000" for b
      unfolding e by (rule Unmap_lookup_other) (use that in simp_all)
    have "vtlb_lookup ?m3 a = phys_target ?m2 (0 + (a - 0))"
      by (rule VMap_lookup [OF wf(2)]) (use a not_top [OF a] in simp_all)
    then show "vtlb_lookup (eeMemory_map m) a = phys_target m a"
      unfolding skip [OF segment_bounds(1) [OF a]] by (simp add: ph)
    have "vtlb_lookup ?m1 (0x80000000 + a) = phys_target m (0 + ((0x80000000 + a) - 0x80000000))"
      by (rule VMap_lookup [OF assms]) (use a not_top [OF a] in simp_all)
    then show "vtlb_lookup (eeMemory_map m) (0x80000000 + a) = phys_target m a"
      unfolding skip [OF segment_bounds(2) [OF a]]
      using segment_bounds(4,6) [OF a] by (simp add: VMap_lookup_other)
    have "vtlb_lookup ?m2 (0xA0000000 + a) = phys_target ?m1 (0 + ((0xA0000000 + a) - 0xA0000000))"
      by (rule VMap_lookup [OF wf(1)]) (use a not_top [OF a] in simp_all)
    then show "vtlb_lookup (eeMemory_map m) (0xA0000000 + a) = phys_target m a"
      unfolding skip [OF segment_bounds(3) [OF a]]
      using segment_bounds(5) [OF a] by (simp add: VMap_lookup_other ph)
  next
    assume "a < 0x60000000"
    moreover have "0x20000000 + a \<noteq> 0xffffffff"
    proof
      assume "0x20000000 + a = 0xffffffff"
      then have "a = 0xffffffff - 0x20000000"
        by (metis add_diff_cancel_left')
      with \<open>a < 0x60000000\<close> show False
        by simp
    qed
    ultimately show "vtlb_lookup (eeMemory_map m) (0x20000000 + a) = unmapped_target (0x20000000 + a)"
      unfolding e using Unmap_lookup [of "0x20000000" "0x60000000" "0x20000000 + a"] by simp
  qed
qed

theorem eeMemory_segments_witness:
  "vtlb_lookup (eeMemory_map sample_map) 0xA0001234 = HostPtr 0x00401234"
  using eeMemory_segments [OF wf_sample_map, of "0x1234"]
  by (simp add: phys_target_def page_of_def) (simp add: sample_map_def)

end
