(* ===== verification/EEMem.thy ===== *)
theory EEMem
  imports EEExc Vtlb
begin

text \<open>
  The EE's state with memory, the results of operations that may raise a C++ exception, and the
  interpreter's memory accessors \<open>vtlb_memRead\<close>, \<open>vtlb_memWrite\<close> and their 64- and 128-bit
  versions (\<open>pcsx2/vtlb.cpp\<close>), including the TLB-miss handlers.

  The handlers that \<open>pcsx2/Memory.cpp\<close> registers for hardware pages belong to other components:
  they are the parameter \<open>RWFT\<close>, functions of the whole state. The setting \<open>CHECK_CACHE\<close> (EE data
  cache emulation) and the Goemon TLB hack are off, which is the emulator's default.
\<close>

section \<open>State\<close>

record tlbs =
  tlb_PageMask :: u32
  tlb_EntryHi :: u32
  tlb_EntryLo0 :: u32
  tlb_EntryLo1 :: u32
  tlb_Mask :: u32
  tlb_nMask :: u32
  tlb_G :: u32
  tlb_ASID :: u32
  tlb_VPN2 :: u32
  tlb_PFN0 :: u32
  tlb_PFN1 :: u32
  tlb_S :: u32

text \<open>
  The registers, with those of the FPU, the page tables with host memory, the TLB, the statics of \<open>COP0.cpp\<close>,
  \<open>Interpreter.cpp\<close> and \<open>R5900.cpp\<close>, and the state \<open>'d\<close> of the devices behind the handlers.
\<close>

record 'd eeState = cpuRegisters +
  fpr :: "reg \<Rightarrow> u32"
  fprc :: "reg \<Rightarrow> u32"
  ACC :: u32
  vtlbdata :: MapData
  tlb :: "nat \<Rightarrow> tlbs"
  s_iLastCOP0Cycle :: u32
  s_iLastPERFCycle0 :: u32
  s_iLastPERFCycle1 :: u32
  cpuBlockCycles :: u32
  EEsCycle :: u32
  EEoCycle :: u32
  iopEventAction :: bool
  eeEventTestIsActive :: bool
  dev :: 'd

text \<open>A state from its registers, page tables, TLB and devices, the statics as \<open>cpuReset\<close> leaves them.\<close>

definition zero_tlbs :: tlbs where
  "zero_tlbs = \<lparr>tlb_PageMask = 0, tlb_EntryHi = 0, tlb_EntryLo0 = 0, tlb_EntryLo1 = 0, tlb_Mask = 0,
     tlb_nMask = 0, tlb_G = 0, tlb_ASID = 0, tlb_VPN2 = 0, tlb_PFN0 = 0, tlb_PFN1 = 0, tlb_S = 0\<rparr>"

definition ee_state :: "cpuRegisters \<Rightarrow> MapData \<Rightarrow> (nat \<Rightarrow> tlbs) \<Rightarrow> 'd \<Rightarrow> 'd eeState" where
  "ee_state r m t d = cpuRegisters.extend r (eeState.fields (\<lambda>_. 0) (\<lambda>_. 0) 0 m t 0 0 0 0 0 (cycle r) False False d)"

lemma ee_state_simps [simp]:
  "vtlbdata (ee_state r m t d) = m" "tlb (ee_state r m t d) = t" "GPR (ee_state r m t d) = GPR r"
  "CP0 (ee_state r m t d) = CP0 r" "cycle (ee_state r m t d) = cycle r" "code (ee_state r m t d) = code r"
  "pc (ee_state r m t d) = pc r" "branch (ee_state r m t d) = branch r"
  "s_iLastCOP0Cycle (ee_state r m t d) = 0" "cpuBlockCycles (ee_state r m t d) = 0"
  by (simp_all add: ee_state_def cpuRegisters.defs eeState.defs)

lemma wr_gpr_ee [simp]:
  "vtlbdata (wr_gpr r i v s) = vtlbdata s" "tlb (wr_gpr r i v s) = tlb s"
  "s_iLastCOP0Cycle (wr_gpr r i v s) = s_iLastCOP0Cycle s"
  by (simp_all add: wr_gpr_def)

section \<open>Results\<close>

text \<open>
  \<open>Ret\<close> is a normal return; \<open>Throw\<close> a C++ exception: \<open>CancelInstruction\<close> after a TLB miss
  (caught by \<open>intExecute\<close>, which resumes at the handler) or an address error. \<open>StackOverflow\<close> is the
  end of the host's stack (see \<open>EEInterp\<close>).
\<close>

datatype ee_exn = CancelInstruction | AddressError u32 bool | StackOverflow

datatype ('v, 's) res = Ret 'v 's | Throw ee_exn 's

fun bindR :: "('v, 's) res \<Rightarrow> ('v \<Rightarrow> 's \<Rightarrow> ('w, 's) res) \<Rightarrow> ('w, 's) res" where
  "bindR (Ret v s) f = f v s"
| "bindR (Throw e s) f = Throw e s"

fun res_state :: "('v, 's) res \<Rightarrow> 's" where
  "res_state (Ret v s) = s"
| "res_state (Throw e s) = s"

lemma bindR_assoc: "bindR (bindR r f) g = bindR r (\<lambda>v s. bindR (f v s) g)"
  by (cases r) simp_all

text \<open>A property of the state that a result has, returned or thrown.\<close>

definition holdsR :: "('s \<Rightarrow> bool) \<Rightarrow> ('v, 's) res \<Rightarrow> bool" where
  "holdsR P r \<longleftrightarrow> P (res_state r)"

lemma holdsR_simps [simp]: "holdsR P (Ret v s) = P s" "holdsR P (Throw e s) = P s"
  by (simp_all add: holdsR_def)

lemma holdsR_bindR:
  "holdsR P r \<Longrightarrow> (\<And>v s. P s \<Longrightarrow> holdsR P (f v s)) \<Longrightarrow> holdsR P (bindR r f)"
  by (cases r) simp_all

section \<open>Handlers\<close>

text \<open>
  The access widths index the table as in the code: 0 to 4 for 8, 16, 32, 64 and 128 bits.
  A 64- or 128-bit read handler receives the old contents of the destination, which it may leave
  alone.
\<close>

record 'd RWFT =
  rd_handler :: "nat \<Rightarrow> u8 \<Rightarrow> u32 \<Rightarrow> u128 \<Rightarrow> 'd eeState \<Rightarrow> (u128, 'd eeState) res"
  wr_handler :: "nat \<Rightarrow> u8 \<Rightarrow> u32 \<Rightarrow> u128 \<Rightarrow> 'd eeState \<Rightarrow> (unit, 'd eeState) res"

text \<open>\<open>vtlb_Miss\<close> when the interpreter runs: raise the TLB exception, cancel the instruction.\<close>

definition vtlb_Miss :: "u32 \<Rightarrow> bool \<Rightarrow> 'd eeState \<Rightarrow> ('v, 'd eeState) res" where
  "vtlb_Miss addr mode s =
     Throw CancelInstruction
       (if mode then cpuTlbMissW addr (branch s) s else cpuTlbMissR addr (branch s) s)"

text \<open>
  The handlers registered by \<open>vtlb_Init\<close>: 0 and 1 raise the miss with the top bit of the address
  restored, 2 to 4 report an unmapped physical address on the console and return 0 (8 to 32 bits)
  or leave the destination (64 and 128 bits) alone; in the builds modelled here \<open>vtlb_BusError\<close>
  does not throw.
\<close>

definition handler_read ::
  "'d RWFT \<Rightarrow> nat \<Rightarrow> u8 \<Rightarrow> u32 \<Rightarrow> u128 \<Rightarrow> 'd eeState \<Rightarrow> (u128, 'd eeState) res" where
  "handler_read env w hand paddr old s =
     (if hand = 0 then vtlb_Miss paddr False s
      else if hand = 1 then vtlb_Miss (paddr OR 0x80000000) False s
      else if hand \<le> 4 then Ret (if w \<le> 2 then 0 else old) s
      else rd_handler env w hand paddr old s)"

definition handler_write ::
  "'d RWFT \<Rightarrow> nat \<Rightarrow> u8 \<Rightarrow> u32 \<Rightarrow> u128 \<Rightarrow> 'd eeState \<Rightarrow> (unit, 'd eeState) res" where
  "handler_write env w hand paddr data s =
     (if hand = 0 then vtlb_Miss paddr True s
      else if hand = 1 then vtlb_Miss (paddr OR 0x80000000) True s
      else if hand \<le> 4 then Ret () s
      else wr_handler env w hand paddr data s)"

section \<open>Accessors\<close>

text \<open>The number of bytes of width \<open>w\<close>.\<close>

definition wbytes :: "nat \<Rightarrow> nat" where
  "wbytes w = 2 ^ w"

definition vtlb_memRead :: "'d RWFT \<Rightarrow> nat \<Rightarrow> u32 \<Rightarrow> u128 \<Rightarrow> 'd eeState \<Rightarrow> (u128, 'd eeState) res" where
  "vtlb_memRead env w addr old s =
     (case vtlb_lookup (vtlbdata s) addr of
        HostPtr p \<Rightarrow> Ret (le_read (wbytes w) (host (vtlbdata s)) p) s
      | Handler hand paddr \<Rightarrow> handler_read env w hand paddr old s)"

definition vtlb_memWrite :: "'d RWFT \<Rightarrow> nat \<Rightarrow> u32 \<Rightarrow> u128 \<Rightarrow> 'd eeState \<Rightarrow> (unit, 'd eeState) res" where
  "vtlb_memWrite env w addr data s =
     (case vtlb_lookup (vtlbdata s) addr of
        HostPtr p \<Rightarrow>
          Ret () (s\<lparr>vtlbdata := (vtlbdata s)\<lparr>host := le_write (wbytes w) data p (host (vtlbdata s))\<rparr>\<rparr>)
      | Handler hand paddr \<Rightarrow> handler_write env w hand paddr data s)"

definition memRead8 :: "'d RWFT \<Rightarrow> u32 \<Rightarrow> 'd eeState \<Rightarrow> (u8, 'd eeState) res" where
  "memRead8 env addr s = bindR (vtlb_memRead env 0 addr 0 s) (\<lambda>v. Ret (ucast v))"

definition memRead16 :: "'d RWFT \<Rightarrow> u32 \<Rightarrow> 'd eeState \<Rightarrow> (u16, 'd eeState) res" where
  "memRead16 env addr s = bindR (vtlb_memRead env 1 addr 0 s) (\<lambda>v. Ret (ucast v))"

definition memRead32 :: "'d RWFT \<Rightarrow> u32 \<Rightarrow> 'd eeState \<Rightarrow> (u32, 'd eeState) res" where
  "memRead32 env addr s = bindR (vtlb_memRead env 2 addr 0 s) (\<lambda>v. Ret (ucast v))"

text \<open>The destination of the wide reads is an argument: its old contents.\<close>

definition memRead64 :: "'d RWFT \<Rightarrow> u32 \<Rightarrow> u64 \<Rightarrow> 'd eeState \<Rightarrow> (u64, 'd eeState) res" where
  "memRead64 env addr out s = bindR (vtlb_memRead env 3 addr (ucast out) s) (\<lambda>v. Ret (ucast v))"

definition memRead128 :: "'d RWFT \<Rightarrow> u32 \<Rightarrow> u128 \<Rightarrow> 'd eeState \<Rightarrow> (u128, 'd eeState) res" where
  "memRead128 env addr out s = vtlb_memRead env 4 addr out s"

definition memWrite8 :: "'d RWFT \<Rightarrow> u32 \<Rightarrow> u8 \<Rightarrow> 'd eeState \<Rightarrow> (unit, 'd eeState) res" where
  "memWrite8 env addr v s = vtlb_memWrite env 0 addr (ucast v) s"

definition memWrite16 :: "'d RWFT \<Rightarrow> u32 \<Rightarrow> u16 \<Rightarrow> 'd eeState \<Rightarrow> (unit, 'd eeState) res" where
  "memWrite16 env addr v s = vtlb_memWrite env 1 addr (ucast v) s"

definition memWrite32 :: "'d RWFT \<Rightarrow> u32 \<Rightarrow> u32 \<Rightarrow> 'd eeState \<Rightarrow> (unit, 'd eeState) res" where
  "memWrite32 env addr v s = vtlb_memWrite env 2 addr (ucast v) s"

definition memWrite64 :: "'d RWFT \<Rightarrow> u32 \<Rightarrow> u64 \<Rightarrow> 'd eeState \<Rightarrow> (unit, 'd eeState) res" where
  "memWrite64 env addr v s = vtlb_memWrite env 3 addr (ucast v) s"

definition memWrite128 :: "'d RWFT \<Rightarrow> u32 \<Rightarrow> u128 \<Rightarrow> 'd eeState \<Rightarrow> (unit, 'd eeState) res" where
  "memWrite128 env addr v s = vtlb_memWrite env 4 addr v s"

end
