(* ===== verification/Arith.thy ===== *)
theory Arith
  imports Prelude
begin

text \<open>
  Arithmetic facts that both processors' instruction theories use: C's truncating division on
  32-bit operands and its two special cases, 32-bit products split over two result registers,
  and the ranges of signed casts.
\<close>

section \<open>Truncating division\<close>

text \<open>
  What a MIPS divide must leave in \<open>LO\<close> (the quotient) and \<open>HI\<close> (the remainder). The first line
  holds for every pair of operands; the quotient truncates, so the remainder takes the sign of
  the dividend.
\<close>

definition div_result :: "u32 \<Rightarrow> u32 \<Rightarrow> u32 \<Rightarrow> u32 \<Rightarrow> bool" where
  "div_result a b q r \<longleftrightarrow>
     a = q * b + r \<and>
     (if b = 0 then r = a \<and> q = (if sint a < 0 then 1 else - 1)
      else \<bar>sint r\<bar> < \<bar>sint b\<bar> \<and> (r = 0 \<or> sgn (sint r) = sgn (sint a)) \<and>
        (if a = 0x80000000 \<and> b = - 1 then q = 0x80000000
         else sint a = sint q * sint b + sint r))"

definition divu_result :: "u32 \<Rightarrow> u32 \<Rightarrow> u32 \<Rightarrow> u32 \<Rightarrow> bool" where
  "divu_result a b q r \<longleftrightarrow>
     a = q * b + r \<and>
     (if b = 0 then r = a \<and> q = - 1 else r < b \<and> uint a = uint q * uint b + uint r)"

lemma sint32_range: "- (2 ^ 31) \<le> sint (w :: u32)" "sint (w :: u32) < 2 ^ 31"
  using sint_greater_eq [of w] sint_lt [of w] by simp_all

lemma sint_zero_iff [simp]: "sint w = 0 \<longleftrightarrow> w = (0 :: 'a::len word)"
  by (metis signed_0 signed_word_eqI)

lemma sint_word_of_int32: "- (2 ^ 31) \<le> z \<Longrightarrow> z < 2 ^ 31 \<Longrightarrow> sint (word_of_int z :: u32) = z"
  by (simp add: signed_take_bit_int_eq_self_iff signed_of_int)

text \<open>A value in the 32-bit range is the same in a sign-extended 64-bit lane.\<close>

lemma sx32_word_of_int:
  "- (2 ^ 31) \<le> z \<Longrightarrow> z < 2 ^ 31 \<Longrightarrow> (word_of_int z :: u64) = sx32 (word_of_int z)"
proof -
  assume z: "- (2 ^ 31) \<le> z" "z < 2 ^ 31"
  have "sint (word_of_int z :: u64) = z"
    using z by (simp add: signed_of_int signed_take_bit_int_eq_self_iff)
  also have "\<dots> = sint (sx32 (word_of_int z))"
    using sint_word_of_int32 [OF z] by simp
  finally have "word_of_int (sint (word_of_int z :: u64)) =
      (word_of_int (sint (sx32 (word_of_int z))) :: u64)"
    by (rule arg_cong)
  then show ?thesis
    by (simp only: of_int_sint scast_id)
qed

lemma sdiv32_range:
  fixes a b :: u32
  assumes "b \<noteq> 0" "\<not> (a = 0x80000000 \<and> b = 0xffffffff)"
  shows "- (2 ^ 31) \<le> sint a sdiv sint b" "sint a sdiv sint b < 2 ^ 31"
proof -
  have q: "- \<bar>sint a\<bar> \<le> sint a sdiv sint b" "sint a sdiv sint b \<le> \<bar>sint a\<bar>"
    using sdiv_int_range [of "sint a" "sint b"] by auto
  show "- (2 ^ 31) \<le> sint a sdiv sint b"
    using q sint32_range [of a] by arith
  show "sint a sdiv sint b < 2 ^ 31"
  proof (rule ccontr)
    assume "\<not> sint a sdiv sint b < 2 ^ 31"
    then have a: "sint a = - (2 ^ 31)" and qa: "sint a sdiv sint b = - sint a"
      using q sint32_range [of a] by arith+
    then have "sint b = - 1"
      using int_sdiv_negated_is_minus1 [of "sint a" "sint b"] by simp
    then have "sint b = sint (0xffffffff :: u32)" "sint a = sint (0x80000000 :: u32)"
      using a by simp_all
    then show False
      using assms(2) signed_word_eqI by blast
  qed
qed

lemma smod32_range:
  fixes a b :: u32
  assumes "b \<noteq> 0"
  shows "\<bar>sint a smod sint b\<bar> < \<bar>sint b\<bar>"
    "- (2 ^ 31) \<le> sint a smod sint b" "sint a smod sint b < 2 ^ 31"
proof -
  show r: "\<bar>sint a smod sint b\<bar> < \<bar>sint b\<bar>"
    using smod_int_range [of "sint b" "sint a"] assms by auto
  show "- (2 ^ 31) \<le> sint a smod sint b" "sint a smod sint b < 2 ^ 31"
    using r sint32_range [of b] by arith+
qed

lemma sgn_smod: "a smod b = 0 \<or> sgn (a smod b) = sgn (a :: int)"
proof (cases "a smod b = 0")
  case False
  then have "\<bar>a\<bar> mod \<bar>b\<bar> \<noteq> 0"
    by (auto simp: smod_int_alt_def)
  moreover have "b = 0 \<or> 0 \<le> \<bar>a\<bar> mod \<bar>b\<bar>"
    by (cases "b = 0") simp_all
  ultimately have "b = 0 \<or> 0 < \<bar>a\<bar> mod \<bar>b\<bar>"
    by (auto simp: order_less_le)
  then show ?thesis
    by (auto simp: smod_int_alt_def sgn_mult)
qed simp

lemma div_result_regular:
  fixes a b :: u32
  assumes "b \<noteq> 0" "\<not> (a = 0x80000000 \<and> b = 0xffffffff)"
  shows "div_result a b (word_of_int (sint a sdiv sint b)) (word_of_int (sint a smod sint b))"
proof -
  have q: "sint (word_of_int (sint a sdiv sint b) :: u32) = sint a sdiv sint b"
    using sdiv32_range [OF assms] by (rule sint_word_of_int32)
  have r: "sint (word_of_int (sint a smod sint b) :: u32) = sint a smod sint b"
    using smod32_range(2,3) [OF assms(1)] by (rule sint_word_of_int32)
  have z: "word_of_int (sint a smod sint b) = (0 :: u32) \<longleftrightarrow> sint a smod sint b = 0"
    by (metis r sint_zero_iff)
  have e: "sint a = sint a sdiv sint b * sint b + sint a smod sint b"
    by (simp add: sdiv_mult_smod_eq)
  have "a = word_of_int (sint a sdiv sint b * sint b + sint a smod sint b)"
    using arg_cong [OF e, of "word_of_int :: int \<Rightarrow> u32"] by simp
  also have "\<dots> = word_of_int (sint a sdiv sint b) * b + word_of_int (sint a smod sint b)"
    by (simp add: wi_hom_syms)
  finally have w: "a = word_of_int (sint a sdiv sint b) * b + word_of_int (sint a smod sint b)" .
  show ?thesis
    unfolding div_result_def q r z
    using assms w e smod32_range(1) [OF assms(1)] sgn_smod by auto
qed

lemma div_result_overflow: "div_result 0x80000000 0xffffffff 0x80000000 0"
  by (simp add: div_result_def)

lemma div_result_zero:
  "div_result a 0 (if sint a < 0 then 1 else 0xffffffff) a"
  by (simp add: div_result_def)

lemma divu_result_regular:
  fixes a b :: u32
  assumes "b \<noteq> 0"
  shows "divu_result a b (a div b) (a mod b)"
proof -
  have "uint a = uint (a div b) * uint b + uint (a mod b)"
    by (simp add: uint_div uint_mod)
  moreover have "a mod b < b"
    using assms by (simp add: word_mod_less_divisor word_gt_0)
  ultimately show ?thesis
    using assms by (simp add: divu_result_def div_mult_mod_eq)
qed

lemma divu_result_zero: "divu_result a 0 (- 1) a"
  by (simp add: divu_result_def)

section \<open>Overflow of signed sums\<close>

lemma bit31_int:
  assumes "- (2 ^ 32) \<le> z" "z < 2 ^ 32"
  shows "bit z 32 \<longleftrightarrow> z < 0" "bit z 31 \<longleftrightarrow> - (2 ^ 31) \<le> z \<and> z < 0 \<or> 2 ^ 31 \<le> (z :: int)"
proof -
  have "z div 2 ^ 32 = (if z < 0 then - 1 else 0)"
    using assms by (auto intro: div_pos_pos_trivial simp: div_eq_minus1)
  then show "bit z 32 \<longleftrightarrow> z < 0"
    by (simp add: bit_iff_odd)
  consider "z < - (2 ^ 31)" | "- (2 ^ 31) \<le> z" "z < 0" | "0 \<le> z" "z < 2 ^ 31" | "2 ^ 31 \<le> z"
    by linarith
  then show "bit z 31 \<longleftrightarrow> - (2 ^ 31) \<le> z \<and> z < 0 \<or> 2 ^ 31 \<le> z"
  proof cases
    case 1
    then have "z div 2 ^ 31 = - 2"
      using assms by (intro int_div_pos_eq [where r = "z + 2 ^ 32"]) auto
    then show ?thesis using 1 by (simp add: bit_iff_odd)
  next
    case 2
    then have "z div 2 ^ 31 = - 1"
      by (intro int_div_pos_eq [where r = "z + 2 ^ 31"]) auto
    then show ?thesis using 2 by (simp add: bit_iff_odd)
  next
    case 3
    then show ?thesis by (simp add: bit_iff_odd)
  next
    case 4
    then have "z div 2 ^ 31 = 1"
      using assms by (intro int_div_pos_eq [where r = "z - 2 ^ 31"]) auto
    then show ?thesis using 4 by (simp add: bit_iff_odd)
  qed
qed

lemma add32_overflow_iff:
  fixes x y :: u32
  defines "r \<equiv> word_of_int (sint x + sint y) :: u64"
  shows "drop_bit 31 (lo32 r) = hi32 r AND 1 \<longleftrightarrow>
    - (2 ^ 31) \<le> sint x + sint y \<and> sint x + sint y < 2 ^ 31"
proof -
  let ?z = "sint x + sint y"
  have z: "- (2 ^ 32) \<le> ?z" "?z < 2 ^ 32"
    using sint32_range [of x] sint32_range [of y] by simp_all
  have "drop_bit 31 (lo32 (word_of_int k)) = of_bool (bit k 31)"
    "hi32 (word_of_int k) AND 1 = of_bool (bit k 32)" for k
    by (rule bit_word_eqI, auto simp: lo32_def hi32_def bit_simps intro!: gr0I)+
  then have "drop_bit 31 (lo32 r) = of_bool (bit ?z 31)" "hi32 r AND 1 = of_bool (bit ?z 32)"
    unfolding r_def by blast+
  then show ?thesis
    using bit31_int [OF z] by auto
qed

lemma sint64_range: "- (2 ^ 63) \<le> sint (w :: u64)" "sint (w :: u64) < 2 ^ 63"
  using sint_greater_eq [of w] sint_lt [of w] by simp_all

lemma sint_add64:
  fixes x y :: u64
  shows "sint (x + y) = (if sint x + sint y < - (2 ^ 63) then sint x + sint y + 2 ^ 64
    else if sint x + sint y \<ge> 2 ^ 63 then sint x + sint y - 2 ^ 64 else sint x + sint y)"
proof -
  let ?z = "sint x + sint y"
  have "sint (x + y) = (?z + 2 ^ 63) mod 2 ^ 64 - 2 ^ 63"
    by (simp add: sint_word_ariths(1) signed_take_bit_eq_take_bit_shift take_bit_eq_mod)
  moreover have "(?z + 2 ^ 63) mod 2 ^ 64 = (if ?z < - (2 ^ 63) then ?z + 2 ^ 63 + 2 ^ 64
      else if ?z \<ge> 2 ^ 63 then ?z + 2 ^ 63 - 2 ^ 64 else ?z + 2 ^ 63)"
  proof -
    consider "?z < - (2 ^ 63)" | "- (2 ^ 63) \<le> ?z" "?z < 2 ^ 63" | "2 ^ 63 \<le> ?z"
      by linarith
    then show ?thesis
    proof cases
      case 1
      then show ?thesis
        using sint64_range [of x] sint64_range [of y]
        by (intro int_mod_pos_eq [where q = "- 1"]) auto
    next
      case 2
      then show ?thesis by simp
    next
      case 3
      then show ?thesis
        using sint64_range [of x] sint64_range [of y]
        by (intro int_mod_pos_eq [where q = 1]) auto
    qed
  qed
  ultimately show ?thesis by auto
qed

lemma add64_overflow_iff:
  fixes x y :: u64
  shows "sint (NOT (x XOR y) AND (x XOR (x + y))) < 0 \<longleftrightarrow>
    \<not> (- (2 ^ 63) \<le> sint x + sint y \<and> sint x + sint y < 2 ^ 63)"
proof -
  have n: "sint w < 0 \<longleftrightarrow> bit w 63" for w :: u64
    using bit_last_iff [of w] by simp
  have "sint (NOT (x XOR y) AND (x XOR (x + y))) < 0 \<longleftrightarrow>
      (sint x < 0 \<longleftrightarrow> sint y < 0) \<and> (sint x < 0 \<longleftrightarrow> \<not> sint (x + y) < 0)"
    unfolding n by (auto simp: bit_and_iff bit_xor_iff bit_not_iff)
  then show ?thesis
    unfolding sint_add64 using sint64_range [of x] sint64_range [of y] by auto
qed

end
