(* ===== verification/EEOps.thy ===== *)
theory EEOps
  imports EEMem Arith
begin

text \<open>
  The R5900 instructions of \<open>pcsx2/R5900OpcodeImpl.cpp\<close>, in the order of the file. Instructions
  that touch only registers are functions on the register state; loads and stores run in the state
  with memory and may throw. \<open>AND\<close>, \<open>OR\<close>, \<open>XOR\<close> and \<open>NOR\<close> of the code are \<open>opAND\<close> and so on, since
  the names are taken by the bit operators.
\<close>

section \<open>Overflow checks\<close>

text \<open>
  \<open>_add64_Overflow\<close> and \<open>_add32_Overflow\<close>: either the sum, or the exception is raised and
  \<open>true\<close> (here \<open>None\<close>) returned. The 32-bit version takes \<open>s32\<close> parameters, so its 64-bit
  arguments are truncated by the call.
\<close>

definition add64_Overflow :: "u64 \<Rightarrow> u64 \<Rightarrow> 'a cpuRegisters_scheme \<Rightarrow> u64 option \<times> 'a cpuRegisters_scheme" where
  "add64_Overflow x y s =
     (let result = x + y
      in if sint (NOT (x XOR y) AND (x XOR result)) < 0 then (None, cpuException 0x30 (branch s) s)
         else (Some result, s))"

definition add32_Overflow :: "u32 \<Rightarrow> u32 \<Rightarrow> 'a cpuRegisters_scheme \<Rightarrow> u64 option \<times> 'a cpuRegisters_scheme" where
  "add32_Overflow x y s =
     (let result = word_of_int (sint x + sint y) :: u64
      in if drop_bit 31 (lo32 result) \<noteq> hi32 result AND 1 then (None, cpuException 0x30 (branch s) s)
         else (Some result, s))"

definition wr_result :: "reg \<Rightarrow> u64 option \<times> 'a cpuRegisters_scheme \<Rightarrow> 'a cpuRegisters_scheme" where
  "wr_result r = (\<lambda>(result, s).
     case result of None \<Rightarrow> s | Some v \<Rightarrow> if r = 0 then s else wr_gpr r 0 v s)"

section \<open>Arithmetic with immediate operand\<close>

definition ADDI :: "'a cpuRegisters_scheme \<Rightarrow> 'a cpuRegisters_scheme" where
  "ADDI s =
     wr_result (Rt s) (add32_Overflow (lo32 (UD 0 (rRs s))) (Imm32 s) s)"

definition ADDIU :: "'a cpuRegisters_scheme \<Rightarrow> 'a cpuRegisters_scheme" where
  "ADDIU s =
     (if Rt s = 0 then s else wr_Rt 0 (sx32 (UL 0 (rRs s) + Imm32 s)) s)"

definition DADDI :: "'a cpuRegisters_scheme \<Rightarrow> 'a cpuRegisters_scheme" where
  "DADDI s =
     wr_result (Rt s) (add64_Overflow (UD 0 (rRs s)) (Imm64 s) s)"

definition DADDIU :: "'a cpuRegisters_scheme \<Rightarrow> 'a cpuRegisters_scheme" where
  "DADDIU s =
     (if Rt s = 0 then s else wr_Rt 0 (UD 0 (rRs s) + Imm64 s) s)"

definition ANDI :: "'a cpuRegisters_scheme \<Rightarrow> 'a cpuRegisters_scheme" where
  "ANDI s =
     (if Rt s = 0 then s else wr_Rt 0 (UD 0 (rRs s) AND ImmU s) s)"

definition ORI :: "'a cpuRegisters_scheme \<Rightarrow> 'a cpuRegisters_scheme" where
  "ORI s =
     (if Rt s = 0 then s else wr_Rt 0 (UD 0 (rRs s) OR ImmU s) s)"

definition XORI :: "'a cpuRegisters_scheme \<Rightarrow> 'a cpuRegisters_scheme" where
  "XORI s =
     (if Rt s = 0 then s else wr_Rt 0 (UD 0 (rRs s) XOR ImmU s) s)"

definition SLTI :: "'a cpuRegisters_scheme \<Rightarrow> 'a cpuRegisters_scheme" where
  "SLTI s =
     (if Rt s = 0 then s else wr_Rt 0 (if SD 0 (rRs s) < sint (Imm64 s) then 1 else 0 :: u64) s)"

definition SLTIU :: "'a cpuRegisters_scheme \<Rightarrow> 'a cpuRegisters_scheme" where
  "SLTIU s =
     (if Rt s = 0 then s else wr_Rt 0 (if UD 0 (rRs s) < Imm64 s then 1 else 0 :: u64) s)"

section \<open>Register arithmetic\<close>

definition ADD :: "'a cpuRegisters_scheme \<Rightarrow> 'a cpuRegisters_scheme" where
  "ADD s =
     wr_result (Rd s) (add32_Overflow (lo32 (UD 0 (rRs s))) (lo32 (UD 0 (rRt s))) s)"

definition DADD :: "'a cpuRegisters_scheme \<Rightarrow> 'a cpuRegisters_scheme" where
  "DADD s =
     wr_result (Rd s) (add64_Overflow (UD 0 (rRs s)) (UD 0 (rRt s)) s)"

definition SUB :: "'a cpuRegisters_scheme \<Rightarrow> 'a cpuRegisters_scheme" where
  "SUB s =
     wr_result (Rd s) (add32_Overflow (lo32 (UD 0 (rRs s))) (lo32 (- UD 0 (rRt s))) s)"

definition DSUB :: "'a cpuRegisters_scheme \<Rightarrow> 'a cpuRegisters_scheme" where
  "DSUB s =
     wr_result (Rd s) (add64_Overflow (UD 0 (rRs s)) (- UD 0 (rRt s)) s)"

definition ADDU :: "'a cpuRegisters_scheme \<Rightarrow> 'a cpuRegisters_scheme" where
  "ADDU s =
     (if Rd s = 0 then s else wr_Rd 0 (sx32 (UL 0 (rRs s) + UL 0 (rRt s))) s)"

definition DADDU :: "'a cpuRegisters_scheme \<Rightarrow> 'a cpuRegisters_scheme" where
  "DADDU s =
     (if Rd s = 0 then s else wr_Rd 0 (UD 0 (rRs s) + UD 0 (rRt s)) s)"

definition SUBU :: "'a cpuRegisters_scheme \<Rightarrow> 'a cpuRegisters_scheme" where
  "SUBU s =
     (if Rd s = 0 then s else wr_Rd 0 (sx32 (UL 0 (rRs s) - UL 0 (rRt s))) s)"

definition DSUBU :: "'a cpuRegisters_scheme \<Rightarrow> 'a cpuRegisters_scheme" where
  "DSUBU s =
     (if Rd s = 0 then s else wr_Rd 0 (UD 0 (rRs s) - UD 0 (rRt s)) s)"

definition opAND :: "'a cpuRegisters_scheme \<Rightarrow> 'a cpuRegisters_scheme" where
  "opAND s =
     (if Rd s = 0 then s else wr_Rd 0 (UD 0 (rRs s) AND UD 0 (rRt s)) s)"

definition opOR :: "'a cpuRegisters_scheme \<Rightarrow> 'a cpuRegisters_scheme" where
  "opOR s =
     (if Rd s = 0 then s else wr_Rd 0 (UD 0 (rRs s) OR UD 0 (rRt s)) s)"

definition opXOR :: "'a cpuRegisters_scheme \<Rightarrow> 'a cpuRegisters_scheme" where
  "opXOR s =
     (if Rd s = 0 then s else wr_Rd 0 (UD 0 (rRs s) XOR UD 0 (rRt s)) s)"

definition opNOR :: "'a cpuRegisters_scheme \<Rightarrow> 'a cpuRegisters_scheme" where
  "opNOR s =
     (if Rd s = 0 then s else wr_Rd 0 (NOT (UD 0 (rRs s) OR UD 0 (rRt s))) s)"

definition SLT :: "'a cpuRegisters_scheme \<Rightarrow> 'a cpuRegisters_scheme" where
  "SLT s =
     (if Rd s = 0 then s else wr_Rd 0 (if SD 0 (rRs s) < SD 0 (rRt s) then 1 else 0 :: u64) s)"

definition SLTU :: "'a cpuRegisters_scheme \<Rightarrow> 'a cpuRegisters_scheme" where
  "SLTU s =
     (if Rd s = 0 then s else wr_Rd 0 (if UD 0 (rRs s) < UD 0 (rRt s) then 1 else 0 :: u64) s)"

section \<open>Multiply and divide\<close>

definition DIV :: "'a cpuRegisters_scheme \<Rightarrow> 'a cpuRegisters_scheme" where
  "DIV s =
     (if UL 0 (rRs s) = 0x80000000 \<and> UL 0 (rRt s) = 0xffffffff then
        wr_HI 0 (sx32 0) (wr_LO 0 (sx32 0x80000000) s)
      else if SL 0 (rRt s) \<noteq> 0 then
        wr_HI 0 (word_of_int (SL 0 (rRs s) smod SL 0 (rRt s)) :: u64)
          (wr_LO 0 (word_of_int (SL 0 (rRs s) sdiv SL 0 (rRt s)) :: u64) s)
      else
        wr_HI 0 (sx32 (UL 0 (rRs s)))
          (wr_LO 0 (if SL 0 (rRs s) < 0 then 1 else - 1 :: u64) s))"

definition DIVU :: "'a cpuRegisters_scheme \<Rightarrow> 'a cpuRegisters_scheme" where
  "DIVU s =
     (if UL 0 (rRt s) \<noteq> 0 then
        wr_HI 0 (sx32 (UL 0 (rRs s) mod UL 0 (rRt s)))
          (wr_LO 0 (sx32 (UL 0 (rRs s) div UL 0 (rRt s))) s)
      else wr_HI 0 (sx32 (UL 0 (rRs s))) (wr_LO 0 (- 1 :: u64) s))"

definition MULT :: "'a cpuRegisters_scheme \<Rightarrow> 'a cpuRegisters_scheme" where
  "MULT s =
     (let res = word_of_int (SL 0 (rRs s) * SL 0 (rRt s)) :: u64;
          s1 = wr_LO 0 (sx32 (lo32 res)) s;
          s2 = wr_HI 0 (sx32 (hi32 res)) s1
      in if Rd s \<noteq> 0 then wr_Rd 0 (UD 0 (LO s2)) s2 else s2)"

definition MULTU :: "'a cpuRegisters_scheme \<Rightarrow> 'a cpuRegisters_scheme" where
  "MULTU s =
     (let res = ucast (UL 0 (rRs s)) * ucast (UL 0 (rRt s)) :: u64;
          s1 = wr_LO 0 (sx32 (lo32 res)) s;
          s2 = wr_HI 0 (sx32 (hi32 res)) s1
      in if Rd s \<noteq> 0 then wr_Rd 0 (UD 0 (LO s2)) s2 else s2)"

section \<open>Moves and shifts\<close>

definition LUI :: "'a cpuRegisters_scheme \<Rightarrow> 'a cpuRegisters_scheme" where
  "LUI s =
     (if Rt s = 0 then s else wr_Rt 0 (sx32 (push_bit 16 (code s))) s)"

definition MFHI :: "'a cpuRegisters_scheme \<Rightarrow> 'a cpuRegisters_scheme" where
  "MFHI s =
     (if Rd s = 0 then s else wr_Rd 0 (UD 0 (HI s)) s)"

definition MFLO :: "'a cpuRegisters_scheme \<Rightarrow> 'a cpuRegisters_scheme" where
  "MFLO s =
     (if Rd s = 0 then s else wr_Rd 0 (UD 0 (LO s)) s)"

definition MTHI :: "'a cpuRegisters_scheme \<Rightarrow> 'a cpuRegisters_scheme" where
  "MTHI s =
     wr_HI 0 (UD 0 (rRs s)) s"

definition MTLO :: "'a cpuRegisters_scheme \<Rightarrow> 'a cpuRegisters_scheme" where
  "MTLO s =
     wr_LO 0 (UD 0 (rRs s)) s"

definition SRA :: "'a cpuRegisters_scheme \<Rightarrow> 'a cpuRegisters_scheme" where
  "SRA s =
     (if Rd s = 0 then s else wr_Rd 0 (sx32 (signed_drop_bit (Sa s) (UL 0 (rRt s)))) s)"

definition SRL :: "'a cpuRegisters_scheme \<Rightarrow> 'a cpuRegisters_scheme" where
  "SRL s =
     (if Rd s = 0 then s else wr_Rd 0 (sx32 (drop_bit (Sa s) (UL 0 (rRt s)))) s)"

definition SLL :: "'a cpuRegisters_scheme \<Rightarrow> 'a cpuRegisters_scheme" where
  "SLL s =
     (if Rd s = 0 then s else wr_Rd 0 (sx32 (push_bit (Sa s) (UL 0 (rRt s)))) s)"

definition DSLL :: "'a cpuRegisters_scheme \<Rightarrow> 'a cpuRegisters_scheme" where
  "DSLL s =
     (if Rd s = 0 then s else wr_Rd 0 (push_bit (Sa s) (UD 0 (rRt s))) s)"

definition DSLL32 :: "'a cpuRegisters_scheme \<Rightarrow> 'a cpuRegisters_scheme" where
  "DSLL32 s =
     (if Rd s = 0 then s else wr_Rd 0 (push_bit (Sa s + 32) (UD 0 (rRt s))) s)"

definition DSRA :: "'a cpuRegisters_scheme \<Rightarrow> 'a cpuRegisters_scheme" where
  "DSRA s =
     (if Rd s = 0 then s else wr_Rd 0 (signed_drop_bit (Sa s) (UD 0 (rRt s))) s)"

definition DSRA32 :: "'a cpuRegisters_scheme \<Rightarrow> 'a cpuRegisters_scheme" where
  "DSRA32 s =
     (if Rd s = 0 then s else wr_Rd 0 (signed_drop_bit (Sa s + 32) (UD 0 (rRt s))) s)"

definition DSRL :: "'a cpuRegisters_scheme \<Rightarrow> 'a cpuRegisters_scheme" where
  "DSRL s =
     (if Rd s = 0 then s else wr_Rd 0 (drop_bit (Sa s) (UD 0 (rRt s))) s)"

definition DSRL32 :: "'a cpuRegisters_scheme \<Rightarrow> 'a cpuRegisters_scheme" where
  "DSRL32 s =
     (if Rd s = 0 then s else wr_Rd 0 (drop_bit (Sa s + 32) (UD 0 (rRt s))) s)"

text \<open>The variable shifts mask the amount to 5 or 6 bits.\<close>

definition SLLV :: "'a cpuRegisters_scheme \<Rightarrow> 'a cpuRegisters_scheme" where
  "SLLV s =
     (if Rd s = 0 then s else wr_Rd 0 (sx32 (push_bit (unat (UL 0 (rRs s) AND 0x1f)) (UL 0 (rRt s)))) s)"

definition SRAV :: "'a cpuRegisters_scheme \<Rightarrow> 'a cpuRegisters_scheme" where
  "SRAV s =
     (if Rd s = 0 then s else wr_Rd 0 (sx32 (signed_drop_bit (unat (UL 0 (rRs s) AND 0x1f)) (UL 0 (rRt s)))) s)"

definition SRLV :: "'a cpuRegisters_scheme \<Rightarrow> 'a cpuRegisters_scheme" where
  "SRLV s =
     (if Rd s = 0 then s else wr_Rd 0 (sx32 (drop_bit (unat (UL 0 (rRs s) AND 0x1f)) (UL 0 (rRt s)))) s)"

definition DSLLV :: "'a cpuRegisters_scheme \<Rightarrow> 'a cpuRegisters_scheme" where
  "DSLLV s =
     (if Rd s = 0 then s else wr_Rd 0 (push_bit (unat (UL 0 (rRs s) AND 0x3f)) (UD 0 (rRt s))) s)"

definition DSRAV :: "'a cpuRegisters_scheme \<Rightarrow> 'a cpuRegisters_scheme" where
  "DSRAV s =
     (if Rd s = 0 then s else wr_Rd 0 (signed_drop_bit (unat (UL 0 (rRs s) AND 0x3f)) (UD 0 (rRt s))) s)"

definition DSRLV :: "'a cpuRegisters_scheme \<Rightarrow> 'a cpuRegisters_scheme" where
  "DSRLV s =
     (if Rd s = 0 then s else wr_Rd 0 (drop_bit (unat (UL 0 (rRs s) AND 0x3f)) (UD 0 (rRt s))) s)"

section \<open>Loads\<close>

text \<open>The effective address \<open>cpuRegs.GPR.r[_Rs_].UL[0] + _Imm_\<close>.\<close>

definition ea :: "'a cpuRegisters_scheme \<Rightarrow> u32" where
  "ea s = UL 0 (rRs s) + Imm32 s"

text \<open>The end of a load: \<open>if (!_Rt_) return;\<close> and the assignment to the destination.\<close>

definition load_Rt :: "u64 \<Rightarrow> 'd eeState \<Rightarrow> (unit, 'd eeState) res" where
  "load_Rt v s = Ret () (if Rt s = 0 then s else wr_Rt 0 v s)"

definition sx8 :: "u8 \<Rightarrow> u64" where
  "sx8 w = scast w"

definition sx16 :: "u16 \<Rightarrow> u64" where
  "sx16 w = scast w"

definition LB :: "'d RWFT \<Rightarrow> 'd eeState \<Rightarrow> (unit, 'd eeState) res" where
  "LB env s =
     bindR (memRead8 env (ea s) s) (\<lambda>temp. load_Rt (sx8 temp))"

definition LBU :: "'d RWFT \<Rightarrow> 'd eeState \<Rightarrow> (unit, 'd eeState) res" where
  "LBU env s =
     bindR (memRead8 env (ea s) s) (\<lambda>temp. load_Rt (ucast temp))"

definition LH :: "'d RWFT \<Rightarrow> 'd eeState \<Rightarrow> (unit, 'd eeState) res" where
  "LH env s =
     (if ea s AND 1 \<noteq> 0 then Throw (AddressError (ea s) False) s
      else bindR (memRead16 env (ea s) s) (\<lambda>temp. load_Rt (sx16 temp)))"

definition LHU :: "'d RWFT \<Rightarrow> 'd eeState \<Rightarrow> (unit, 'd eeState) res" where
  "LHU env s =
     (if ea s AND 1 \<noteq> 0 then Throw (AddressError (ea s) False) s
      else bindR (memRead16 env (ea s) s) (\<lambda>temp. load_Rt (ucast temp)))"

definition LW :: "'d RWFT \<Rightarrow> 'd eeState \<Rightarrow> (unit, 'd eeState) res" where
  "LW env s =
     (if ea s AND 3 \<noteq> 0 then Throw (AddressError (ea s) False) s
      else bindR (memRead32 env (ea s) s) (\<lambda>temp. load_Rt (sx32 temp)))"

definition LWU :: "'d RWFT \<Rightarrow> 'd eeState \<Rightarrow> (unit, 'd eeState) res" where
  "LWU env s =
     (if ea s AND 3 \<noteq> 0 then Throw (AddressError (ea s) False) s
      else bindR (memRead32 env (ea s) s) (\<lambda>temp. load_Rt (ucast temp)))"

text \<open>The constant tables of the unaligned loads and stores, indexed by the low address bits.\<close>

definition LWL_MASK :: "u32 list" where
  "LWL_MASK = [0xffffff, 0x0000ffff, 0x000000ff, 0x00000000]"

definition LWR_MASK :: "u32 list" where
  "LWR_MASK = [0x000000, 0xff000000, 0xffff0000, 0xffffff00]"

definition LDL_MASK :: "u64 list" where
  "LDL_MASK = [0x00ffffffffffffff, 0x0000ffffffffffff, 0x000000ffffffffff, 0x00000000ffffffff,
      0x0000000000ffffff, 0x000000000000ffff, 0x00000000000000ff,
      0x0000000000000000]"

definition LDR_MASK :: "u64 list" where
  "LDR_MASK = [0x0000000000000000, 0xff00000000000000, 0xffff000000000000, 0xffffff0000000000,
      0xffffffff00000000, 0xffffffffff000000, 0xffffffffffff0000,
      0xffffffffffffff00]"

definition SWL_MASK :: "u32 list" where
  "SWL_MASK = [0xffffff00, 0xffff0000, 0xff000000, 0x00000000]"

definition SWR_MASK :: "u32 list" where
  "SWR_MASK = [0x00000000, 0x000000ff, 0x0000ffff, 0x00ffffff]"

definition SDL_MASK :: "u64 list" where
  "SDL_MASK = [0xffffffffffffff00, 0xffffffffffff0000, 0xffffffffff000000, 0xffffffff00000000,
      0xffffff0000000000, 0xffff000000000000, 0xff00000000000000,
      0x0000000000000000]"

definition SDR_MASK :: "u64 list" where
  "SDR_MASK = [0x0000000000000000, 0x00000000000000ff, 0x000000000000ffff, 0x0000000000ffffff,
      0x00000000ffffffff, 0x000000ffffffffff, 0x0000ffffffffffff,
      0x00ffffffffffffff]"

definition LWL_SHIFT :: "nat list" where
  "LWL_SHIFT = [24, 16, 8, 0]"

definition LWR_SHIFT :: "nat list" where
  "LWR_SHIFT = [0, 8, 16, 24]"

definition LDR_SHIFT :: "nat list" where
  "LDR_SHIFT = [0, 8, 16, 24, 32, 40, 48, 56]"

definition LDL_SHIFT :: "nat list" where
  "LDL_SHIFT = [56, 48, 40, 32, 24, 16, 8, 0]"

definition SWR_SHIFT :: "nat list" where
  "SWR_SHIFT = [0, 8, 16, 24]"

definition SWL_SHIFT :: "nat list" where
  "SWL_SHIFT = [24, 16, 8, 0]"

definition SDL_SHIFT :: "nat list" where
  "SDL_SHIFT = [56, 48, 40, 32, 24, 16, 8, 0]"

definition SDR_SHIFT :: "nat list" where
  "SDR_SHIFT = [0, 8, 16, 24, 32, 40, 48, 56]"

text \<open>The position of an address inside its word and doubleword.\<close>

definition pos4 :: "u32 \<Rightarrow> nat" where
  "pos4 addr = unat (addr AND 3)"

definition pos8 :: "u32 \<Rightarrow> nat" where
  "pos8 addr = unat (addr AND 7)"

text \<open>What the unaligned accesses combine: register, memory word, position.\<close>

definition lwl :: "u32 \<Rightarrow> u32 \<Rightarrow> nat \<Rightarrow> u32" where
  "lwl reg mem k = (reg AND LWL_MASK ! k) OR push_bit (LWL_SHIFT ! k) mem"

definition lwr :: "u32 \<Rightarrow> u32 \<Rightarrow> nat \<Rightarrow> u32" where
  "lwr reg mem k = (reg AND LWR_MASK ! k) OR drop_bit (LWR_SHIFT ! k) mem"

definition ldl :: "u64 \<Rightarrow> u64 \<Rightarrow> nat \<Rightarrow> u64" where
  "ldl reg mem k = (reg AND LDL_MASK ! k) OR push_bit (LDL_SHIFT ! k) mem"

definition ldr :: "u64 \<Rightarrow> u64 \<Rightarrow> nat \<Rightarrow> u64" where
  "ldr reg mem k = (reg AND LDR_MASK ! k) OR drop_bit (LDR_SHIFT ! k) mem"

definition swl :: "u32 \<Rightarrow> u32 \<Rightarrow> nat \<Rightarrow> u32" where
  "swl reg mem k = drop_bit (SWL_SHIFT ! k) reg OR (mem AND SWL_MASK ! k)"

definition swr :: "u32 \<Rightarrow> u32 \<Rightarrow> nat \<Rightarrow> u32" where
  "swr reg mem k = push_bit (SWR_SHIFT ! k) reg OR (mem AND SWR_MASK ! k)"

definition sdl :: "u64 \<Rightarrow> u64 \<Rightarrow> nat \<Rightarrow> u64" where
  "sdl reg mem k = drop_bit (SDL_SHIFT ! k) reg OR (mem AND SDL_MASK ! k)"

definition sdr :: "u64 \<Rightarrow> u64 \<Rightarrow> nat \<Rightarrow> u64" where
  "sdr reg mem k = push_bit (SDR_SHIFT ! k) reg OR (mem AND SDR_MASK ! k)"

text \<open>
  \<open>LWL\<close> combines an \<open>s32\<close> with the \<open>u32\<close> mask, so its result is a \<open>u32\<close> and the assignment
  to the 64-bit register extends it with zeros. \<open>LWR\<close> sign-extends only when it loads the whole word; otherwise it writes the low 32 bits. The
  uninitialised local \<open>mem\<close> of \<open>LDL\<close>, \<open>LDR\<close>, \<open>SDL\<close> and \<open>SDR\<close>, which an unmapped physical
  address leaves as it is, is the parameter \<open>undef\<close>.
\<close>

definition LWL :: "'d RWFT \<Rightarrow> 'd eeState \<Rightarrow> (unit, 'd eeState) res" where
  "LWL env s =
     bindR (memRead32 env (ea s AND NOT 3) s)
       (\<lambda>mem t. load_Rt (ucast (lwl (UL 0 (rRt t)) mem (pos4 (ea s)))) t)"

definition LWR :: "'d RWFT \<Rightarrow> 'd eeState \<Rightarrow> (unit, 'd eeState) res" where
  "LWR env s =
     bindR (memRead32 env (ea s AND NOT 3) s)
       (\<lambda>mem t. Ret ()
          (if Rt t = 0 then t
           else let mem = lwr (UL 0 (rRt t)) mem (pos4 (ea s))
                in if pos4 (ea s) = 0 then wr_Rt 0 (sx32 mem) t else wr_Rt 0 mem t))"

text \<open>\<open>LD\<close> and \<open>LQ\<close> read straight into the destination, or into a dummy for register zero.\<close>

definition LD :: "'d RWFT \<Rightarrow> 'd eeState \<Rightarrow> (unit, 'd eeState) res" where
  "LD env s =
     (if ea s AND 7 \<noteq> 0 then Throw (AddressError (ea s) False) s
      else bindR (memRead64 env (ea s) (UD 0 (rRt s)) s) load_Rt)"

definition LDL :: "'d RWFT \<Rightarrow> u64 \<Rightarrow> 'd eeState \<Rightarrow> (unit, 'd eeState) res" where
  "LDL env undef s =
     bindR (memRead64 env (ea s AND NOT 7) undef s)
       (\<lambda>mem t. load_Rt (ldl (UD 0 (rRt t)) mem (pos8 (ea s))) t)"

definition LDR :: "'d RWFT \<Rightarrow> u64 \<Rightarrow> 'd eeState \<Rightarrow> (unit, 'd eeState) res" where
  "LDR env undef s =
     bindR (memRead64 env (ea s AND NOT 7) undef s)
       (\<lambda>mem t. load_Rt (ldr (UD 0 (rRt t)) mem (pos8 (ea s))) t)"

definition LQ :: "'d RWFT \<Rightarrow> 'd eeState \<Rightarrow> (unit, 'd eeState) res" where
  "LQ env s =
     bindR (memRead128 env (ea s AND NOT 0xf) (rRt s) s)
       (\<lambda>v t. Ret () (if Rt t = 0 then t else t\<lparr>GPR := (GPR t)(Rt t := v)\<rparr>))"

section \<open>Stores\<close>

definition SB :: "'d RWFT \<Rightarrow> 'd eeState \<Rightarrow> (unit, 'd eeState) res" where
  "SB env s =
     memWrite8 env (ea s) (UC 0 (rRt s)) s"

definition SH :: "'d RWFT \<Rightarrow> 'd eeState \<Rightarrow> (unit, 'd eeState) res" where
  "SH env s =
     (if ea s AND 1 \<noteq> 0 then Throw (AddressError (ea s) True) s
      else memWrite16 env (ea s) (US 0 (rRt s)) s)"

definition SW :: "'d RWFT \<Rightarrow> 'd eeState \<Rightarrow> (unit, 'd eeState) res" where
  "SW env s =
     (if ea s AND 3 \<noteq> 0 then Throw (AddressError (ea s) True) s
      else memWrite32 env (ea s) (UL 0 (rRt s)) s)"

definition SWL :: "'d RWFT \<Rightarrow> 'd eeState \<Rightarrow> (unit, 'd eeState) res" where
  "SWL env s =
     bindR (memRead32 env (ea s AND NOT 3) s)
       (\<lambda>mem t. memWrite32 env (ea s AND NOT 3) (swl (UL 0 (rRt t)) mem (pos4 (ea s))) t)"

definition SWR :: "'d RWFT \<Rightarrow> 'd eeState \<Rightarrow> (unit, 'd eeState) res" where
  "SWR env s =
     bindR (memRead32 env (ea s AND NOT 3) s)
       (\<lambda>mem t. memWrite32 env (ea s AND NOT 3) (swr (UL 0 (rRt t)) mem (pos4 (ea s))) t)"

text \<open>The store doubleword instruction \<open>SD\<close> shares its name with the signed lane view.\<close>

definition opSD :: "'d RWFT \<Rightarrow> 'd eeState \<Rightarrow> (unit, 'd eeState) res" where
  "opSD env s =
     (if ea s AND 7 \<noteq> 0 then Throw (AddressError (ea s) True) s
      else memWrite64 env (ea s) (UD 0 (rRt s)) s)"

definition SDL :: "'d RWFT \<Rightarrow> u64 \<Rightarrow> 'd eeState \<Rightarrow> (unit, 'd eeState) res" where
  "SDL env undef s =
     bindR (memRead64 env (ea s AND NOT 7) undef s)
       (\<lambda>mem t. memWrite64 env (ea s AND NOT 7) (sdl (UD 0 (rRt t)) mem (pos8 (ea s))) t)"

definition SDR :: "'d RWFT \<Rightarrow> u64 \<Rightarrow> 'd eeState \<Rightarrow> (unit, 'd eeState) res" where
  "SDR env undef s =
     bindR (memRead64 env (ea s AND NOT 7) undef s)
       (\<lambda>mem t. memWrite64 env (ea s AND NOT 7) (sdr (UD 0 (rRt t)) mem (pos8 (ea s))) t)"

definition SQ :: "'d RWFT \<Rightarrow> 'd eeState \<Rightarrow> (unit, 'd eeState) res" where
  "SQ env s =
     memWrite128 env (ea s AND NOT 0xf) (rRt s) s"

section \<open>Conditional moves, traps and special instructions\<close>

definition MOVZ :: "'a cpuRegisters_scheme \<Rightarrow> 'a cpuRegisters_scheme" where
  "MOVZ s =
     (if Rd s = 0 then s else if UD 0 (rRt s) = 0 then wr_Rd 0 (UD 0 (rRs s)) s else s)"

definition MOVN :: "'a cpuRegisters_scheme \<Rightarrow> 'a cpuRegisters_scheme" where
  "MOVN s =
     (if Rd s = 0 then s else if UD 0 (rRt s) \<noteq> 0 then wr_Rd 0 (UD 0 (rRs s)) s else s)"

text \<open>
  \<open>SYSCALL\<close> first looks at the BIOS call number for its logging and for the Deci2 console, which
  are host-side effects and the parameter \<open>hle\<close>; then it raises the exception.
\<close>

definition syscall_number :: "'a cpuRegisters_scheme \<Rightarrow> u8" where
  "syscall_number s = (if SL 0 (GPR s 3) < 0 then ucast (- UL 0 (GPR s 3)) else UC 0 (GPR s 3))"

definition SYSCALL ::
  "(u8 \<Rightarrow> 'a cpuRegisters_scheme \<Rightarrow> (unit, 'a cpuRegisters_scheme) res) \<Rightarrow>
   'a cpuRegisters_scheme \<Rightarrow> (unit, 'a cpuRegisters_scheme) res" where
  "SYSCALL hle s =
     bindR (hle (syscall_number s) s)
       (\<lambda>_ s. Ret () (cpuException 0x20 (branch s) (s\<lparr>pc := pc s - 4\<rparr>)))"

definition BREAK :: "'a cpuRegisters_scheme \<Rightarrow> 'a cpuRegisters_scheme" where
  "BREAK s = cpuException 0x24 (branch s) (s\<lparr>pc := pc s - 4\<rparr>)"

definition MFSA :: "'a cpuRegisters_scheme \<Rightarrow> 'a cpuRegisters_scheme" where
  "MFSA s =
     (if Rd s = 0 then s else wr_Rd 0 (ucast (sa s) :: u64) s)"

definition MTSA :: "'a cpuRegisters_scheme \<Rightarrow> 'a cpuRegisters_scheme" where
  "MTSA s =
     s\<lparr>sa := UL 0 (rRs s)\<rparr>"

definition SYNC :: "'a cpuRegisters_scheme \<Rightarrow> 'a cpuRegisters_scheme" where
  "SYNC s =
     s"

definition PREF :: "'a cpuRegisters_scheme \<Rightarrow> 'a cpuRegisters_scheme" where
  "PREF s =
     s"

definition trap :: "'a cpuRegisters_scheme \<Rightarrow> 'a cpuRegisters_scheme" where
  "trap s = cpuException 0x34 (branch s) (s\<lparr>pc := pc s - 4\<rparr>)"

definition TGE :: "'a cpuRegisters_scheme \<Rightarrow> 'a cpuRegisters_scheme" where
  "TGE s =
     (if SD 0 (rRs s) \<ge> SD 0 (rRt s) then trap s else s)"

definition TGEU :: "'a cpuRegisters_scheme \<Rightarrow> 'a cpuRegisters_scheme" where
  "TGEU s =
     (if UD 0 (rRs s) \<ge> UD 0 (rRt s) then trap s else s)"

definition TLT :: "'a cpuRegisters_scheme \<Rightarrow> 'a cpuRegisters_scheme" where
  "TLT s =
     (if SD 0 (rRs s) < SD 0 (rRt s) then trap s else s)"

definition TLTU :: "'a cpuRegisters_scheme \<Rightarrow> 'a cpuRegisters_scheme" where
  "TLTU s =
     (if UD 0 (rRs s) < UD 0 (rRt s) then trap s else s)"

definition TEQ :: "'a cpuRegisters_scheme \<Rightarrow> 'a cpuRegisters_scheme" where
  "TEQ s =
     (if SD 0 (rRs s) = SD 0 (rRt s) then trap s else s)"

definition TNE :: "'a cpuRegisters_scheme \<Rightarrow> 'a cpuRegisters_scheme" where
  "TNE s =
     (if SD 0 (rRs s) \<noteq> SD 0 (rRt s) then trap s else s)"

definition TGEI :: "'a cpuRegisters_scheme \<Rightarrow> 'a cpuRegisters_scheme" where
  "TGEI s =
     (if SD 0 (rRs s) \<ge> sint (Imm64 s) then trap s else s)"

definition TLTI :: "'a cpuRegisters_scheme \<Rightarrow> 'a cpuRegisters_scheme" where
  "TLTI s =
     (if SD 0 (rRs s) < sint (Imm64 s) then trap s else s)"

definition TEQI :: "'a cpuRegisters_scheme \<Rightarrow> 'a cpuRegisters_scheme" where
  "TEQI s =
     (if SD 0 (rRs s) = sint (Imm64 s) then trap s else s)"

definition TNEI :: "'a cpuRegisters_scheme \<Rightarrow> 'a cpuRegisters_scheme" where
  "TNEI s =
     (if SD 0 (rRs s) \<noteq> sint (Imm64 s) then trap s else s)"

definition TGEIU :: "'a cpuRegisters_scheme \<Rightarrow> 'a cpuRegisters_scheme" where
  "TGEIU s =
     (if UD 0 (rRs s) \<ge> Imm64 s then trap s else s)"

definition TLTIU :: "'a cpuRegisters_scheme \<Rightarrow> 'a cpuRegisters_scheme" where
  "TLTIU s =
     (if UD 0 (rRs s) < Imm64 s then trap s else s)"

definition MTSAB :: "'a cpuRegisters_scheme \<Rightarrow> 'a cpuRegisters_scheme" where
  "MTSAB s =
     s\<lparr>sa := push_bit 3 ((UL 0 (rRs s) AND 0xF) XOR (Imm32 s AND 0xF))\<rparr>"

definition MTSAH :: "'a cpuRegisters_scheme \<Rightarrow> 'a cpuRegisters_scheme" where
  "MTSAH s =
     s\<lparr>sa := push_bit 4 ((UL 0 (rRs s) AND 0x7) XOR (Imm32 s AND 0x7))\<rparr>"

end
