(* ===== verification/Bytes.thy ===== *)
theory Bytes
  imports Prelude
begin

text \<open>
  Words as sequences of bytes, for the unaligned loads and stores of both processors: \<open>byte i w\<close>
  is byte \<open>i\<close> of a word, least significant first, and two words are equal when their bytes are.
\<close>

definition byte :: "nat \<Rightarrow> 'a::len word \<Rightarrow> u8" where
  "byte i w = ucast (drop_bit (8 * i) w)"

lemma bit_byte: "bit (byte i w) k \<longleftrightarrow> k < 8 \<and> bit w (8 * i + k)"
  by (auto simp: byte_def bit_simps)

lemma byte_or [simp]: "byte i (a OR b) = byte i a OR byte i b"
  by (rule bit_word_eqI) (auto simp: bit_byte bit_simps)

lemma byte_and [simp]: "byte i (a AND b) = byte i a AND byte i b"
  by (rule bit_word_eqI) (auto simp: bit_byte bit_simps)

lemma byte_drop_bit: "byte i (drop_bit (8 * j) w) = byte (i + j) w"
  by (rule bit_word_eqI) (auto simp: bit_byte bit_drop_bit_eq algebra_simps)

lemma byte_push_bit:
  "8 * Suc i \<le> LENGTH('a) \<Longrightarrow>
   byte i (push_bit (8 * j) (w :: 'a::len word)) = (if j \<le> i then byte (i - j) w else 0)"
proof (rule bit_word_eqI)
  fix k :: nat
  assume l: "8 * Suc i \<le> LENGTH('a)" and k: "k < LENGTH(8)"
  show "bit (byte i (push_bit (8 * j) w)) k = bit (if j \<le> i then byte (i - j) w else 0) k"
  proof (cases "j \<le> i")
    case True
    then obtain d where "i = j + d"
      using le_Suc_ex by blast
    then show ?thesis
      using l k by (simp add: bit_byte bit_push_bit_iff algebra_simps)
  next
    case False
    then have "\<not> 8 * j \<le> 8 * i + k"
      using k by simp
    then show ?thesis
      using False by (simp add: bit_byte bit_push_bit_iff)
  qed
qed

lemma byte_le_read:
  "i < n \<Longrightarrow> 8 * Suc i \<le> LENGTH('a) \<Longrightarrow> byte i (le_read n m a :: 'a::len word) = m (a + of_nat i)"
proof (rule bit_word_eqI)
  fix k :: nat
  assume i: "i < n" and l: "8 * Suc i \<le> LENGTH('a)" and k: "k < LENGTH(8)"
  have "(8 * i + k) div 8 = i" "(8 * i + k) mod 8 = k"
    using k by simp_all
  moreover have "8 * i + k < 8 * n" "8 * i + k < LENGTH('a)"
    using i l k by simp_all
  ultimately show "bit (byte i (le_read n m a :: 'a word)) k = bit (m (a + of_nat i)) k"
    using k by (simp add: bit_byte bit_le_read)
qed

lemma byte_eqI:
  assumes "\<And>i. 8 * i < LENGTH('a) \<Longrightarrow> byte i a = byte i b"
  shows "a = (b :: 'a::len word)"
proof (rule bit_word_eqI)
  fix n assume n: "n < LENGTH('a)"
  have "8 * (n div 8) \<le> n"
    by simp
  then have "byte (n div 8) a = byte (n div 8) b"
    using n assms by (meson le_less_trans)
  then have "bit (byte (n div 8) a) (n mod 8) = bit (byte (n div 8) b) (n mod 8)"
    by simp
  then show "bit a n = bit b n"
    by (simp add: bit_byte)
qed

lemma byte_eq32I:
  fixes a b :: u32
  assumes "byte 0 a = byte 0 b" "byte 1 a = byte 1 b" "byte 2 a = byte 2 b" "byte 3 a = byte 3 b"
  shows "a = b"
proof (rule byte_eqI)
  fix i assume "8 * i < LENGTH(32)"
  then have "i < 4" by simp
  then show "byte i a = byte i b"
    using assms by (auto simp: numeral_eq_Suc less_Suc_eq)
qed

lemma byte_eq64I:
  fixes a b :: u64
  assumes "byte 0 a = byte 0 b" "byte 1 a = byte 1 b" "byte 2 a = byte 2 b" "byte 3 a = byte 3 b"
    "byte 4 a = byte 4 b" "byte 5 a = byte 5 b" "byte 6 a = byte 6 b" "byte 7 a = byte 7 b"
  shows "a = b"
proof (rule byte_eqI)
  fix i assume "8 * i < LENGTH(64)"
  then have "i < 8" by simp
  then show "byte i a = byte i b"
    using assms by (auto simp: numeral_eq_Suc less_Suc_eq)
qed

text \<open>A store writes the bytes of the value.\<close>

lemma le_write_byte:
  "n \<le> 2 ^ 32 \<Longrightarrow> le_write n v a m x = (if unat (x - a) < n then byte (unat (x - a)) v else m x)"
  by (simp add: le_write_apply byte_def)

lemma u8_mask [simp]: "(w :: u8) AND 0xFF = w"
proof -
  have "(0xFF :: u8) = - 1" by simp
  then show ?thesis by (simp only: and.right_neutral)
qed

lemma byte_numeral:
  "byte i (numeral n :: 'a::len word) = ucast (take_bit 8 (drop_bit (8 * i) (numeral n :: 'a word)))"
  unfolding byte_def by (rule bit_word_eqI) (simp only: bit_ucast_iff bit_take_bit_iff, auto)

lemma byte_out [simp]: "LENGTH('a) \<le> 8 * i \<Longrightarrow> byte i (w :: 'a::len word) = 0"
  by (rule bit_word_eqI) (auto simp: bit_byte dest: bit_imp_le_length)

lemma byte_zero [simp]: "byte i 0 = 0"
  by (simp add: byte_def)

end
