(* ===== verification/Unaligned.thy ===== *)
theory Unaligned
  imports Bytes
begin

text \<open>
  Unaligned accesses as programs use them: a pair of instructions, one for each of the two aligned
  words that an unaligned word straddles. The locale \<open>unaligned_bus\<close> is the interface between these
  instructions and a memory: aligned reads and writes of \<open>nb\<close>-byte words on a byte store, the
  place \<open>loc a\<close> of address \<open>a\<close> in the store, the addresses \<open>ok\<close> that are memory, and the four
  functions that combine a register with a memory word, with the byte each must produce.

  The client lemmas: a right store writes the bytes up to the end of the word, a left store those
  from its beginning, the pair writes the whole unaligned word and nothing else, and the load
  pair reads it. The interpretations are on the EE's 32-bit and 64-bit accesses and on the IOP's.
\<close>

lemma unat_offset:
  fixes x b :: u32
  assumes "p < 2 ^ 32"
  shows "unat (x - (b + of_nat p)) =
    (if p \<le> unat (x - b) then unat (x - b) - p else 2 ^ 32 + unat (x - b) - p)"
proof -
  have p: "unat (of_nat p :: u32) = p"
    using assms by (simp add: unat_of_nat take_bit_nat_eq_self_iff)
  have "x - (b + of_nat p) = (x - b) - of_nat p"
    by (simp add: diff_diff_eq)
  then have "unat (x - (b + of_nat p)) = unat ((x - b) - of_nat p)"
    by (rule arg_cong)
  also have "\<dots> = (if p \<le> unat (x - b) then unat (x - b) - p else unat (x - b) + 2 ^ 32 - p)"
    by (simp add: unat_sub_if' p)
  finally show ?thesis
    by (simp add: add.commute)
qed

locale unaligned_bus =
  fixes nb :: nat and al :: "u32 \<Rightarrow> u32" and pos :: "u32 \<Rightarrow> nat"
    and rd :: "'m \<Rightarrow> u32 \<Rightarrow> 'w::len word" and wr :: "u32 \<Rightarrow> 'w word \<Rightarrow> 'm \<Rightarrow> 'm"
    and store :: "'m \<Rightarrow> bytes" and loc :: "u32 \<Rightarrow> u32" and ok :: "u32 \<Rightarrow> bool"
    and ldl ldr stl str :: "'w word \<Rightarrow> 'w word \<Rightarrow> nat \<Rightarrow> 'w word"
  assumes nb: "LENGTH('w) = 8 * nb" "0 < nb" "nb \<le> 8"
    and pos_less: "pos a < nb"
    and pos_last: "pos (a + of_nat (nb - 1)) = (if pos a = 0 then nb - 1 else pos a - 1)"
    and rd: "ok a \<Longrightarrow> rd m (al a) = le_read nb (store m) (loc (al a))"
    and wr: "ok a \<Longrightarrow> store (wr (al a) v m) = le_write nb v (loc (al a)) (store m)"
    and loc: "ok a \<Longrightarrow> loc a = loc (al a) + of_nat (pos a)"
    and ldl_byte: "i < nb \<Longrightarrow> k < nb \<Longrightarrow>
      byte i (ldl r w k) = (if i + k < nb - 1 then byte i r else byte (i + k + 1 - nb) w)"
    and ldr_byte: "i < nb \<Longrightarrow> k < nb \<Longrightarrow>
      byte i (ldr r w k) = (if i + k < nb then byte (i + k) w else byte i r)"
    and stl_byte: "i < nb \<Longrightarrow> k < nb \<Longrightarrow>
      byte i (stl r w k) = (if i \<le> k then byte (i + (nb - 1 - k)) r else byte i w)"
    and str_byte: "i < nb \<Longrightarrow> k < nb \<Longrightarrow>
      byte i (str r w k) = (if k \<le> i then byte (i - k) r else byte i w)"
begin

lemma nb_small: "n \<le> nb \<Longrightarrow> n \<le> 2 ^ 32"
  using nb(3) by simp

lemma byte_rd: "ok a \<Longrightarrow> i < nb \<Longrightarrow> byte i (rd m (al a)) = store m (loc (al a) + of_nat i)"
  using nb by (simp add: rd byte_le_read)

text \<open>The aligned word's byte at distance \<open>i\<close> from its beginning.\<close>

lemma at_distance: "unat (x - b) = i \<Longrightarrow> b + of_nat i = x" for x b :: u32
  by auto

lemma store_right:
  assumes "ok a"
  shows "store (wr (al a) (str v (rd m (al a)) (pos a)) m) = le_write (nb - pos a) v (loc a) (store m)"
proof
  fix x
  let ?b = "loc (al a)" and ?p = "pos a"
  have p: "?p < nb" "?p < 2 ^ 32"
    using pos_less [of a] nb(3) by auto
  have d: "unat (x - loc a) = (if ?p \<le> unat (x - ?b) then unat (x - ?b) - ?p else 2 ^ 32 + unat (x - ?b) - ?p)"
    unfolding loc [OF assms] by (rule unat_offset [OF p(2)])
  have lhs: "store (wr (al a) (str v (rd m (al a)) ?p) m) x =
      (if unat (x - ?b) < nb then byte (unat (x - ?b)) (str v (rd m (al a)) ?p) else store m x)"
    unfolding wr [OF assms] by (rule le_write_byte [OF nb_small [OF order_refl]])
  have rhs: "le_write (nb - ?p) v (loc a) (store m) x =
      (if unat (x - loc a) < nb - ?p then byte (unat (x - loc a)) v else store m x)"
    by (rule le_write_byte) (use nb(3) in simp)
  have same: "byte (unat (x - ?b)) (rd m (al a)) = store m x" if "unat (x - ?b) < nb"
    using byte_rd [OF assms that] by simp
  show "store (wr (al a) (str v (rd m (al a)) ?p) m) x = le_write (nb - ?p) v (loc a) (store m) x"
    unfolding lhs rhs d using p(1) nb(3) same by (auto simp: str_byte)
qed

lemma store_left:
  assumes "ok a"
  shows "store (wr (al a) (stl v (rd m (al a)) (pos a)) m) x =
    (if unat (x - loc (al a)) \<le> pos a then byte (unat (x - loc (al a)) + (nb - 1 - pos a)) v else store m x)"
proof -
  let ?b = "loc (al a)" and ?p = "pos a"
  have lhs: "store (wr (al a) (stl v (rd m (al a)) ?p) m) x =
      (if unat (x - ?b) < nb then byte (unat (x - ?b)) (stl v (rd m (al a)) ?p) else store m x)"
    unfolding wr [OF assms] by (rule le_write_byte [OF nb_small [OF order_refl]])
  have same: "byte (unat (x - ?b)) (rd m (al a)) = store m x" if "unat (x - ?b) < nb"
    using byte_rd [OF assms that] by simp
  show ?thesis
    unfolding lhs using pos_less [of a] same by (auto simp: stl_byte)
qed

text \<open>
  The pair of stores: \<open>b\<close> is the address of the last byte of the unaligned word at \<open>a\<close>, and the
  two words must be neighbours in the store.
\<close>

lemma store_unaligned:
  fixes v :: "'w word" and m :: 'm
  assumes a: "ok a" and b: "ok b" "b = a + of_nat (nb - 1)" "loc b = loc a + of_nat (nb - 1)"
  defines "m1 \<equiv> wr (al a) (str v (rd m (al a)) (pos a)) m"
  shows "store (wr (al b) (stl v (rd m1 (al b)) (pos b)) m1) = le_write nb v (loc a) (store m)"
proof
  fix x
  let ?d = "unat (x - loc a)"
  have s1: "store m1 x = (if ?d < nb - pos a then byte ?d v else store m x)"
    unfolding m1_def store_right [OF a] by (rule le_write_byte) (use nb(3) in simp)
  have r: "le_write nb v (loc a) (store m) x = (if ?d < nb then byte ?d v else store m x)"
    by (rule le_write_byte [OF nb_small [OF order_refl]])
  have pb: "pos b = (if pos a = 0 then nb - 1 else pos a - 1)"
    unfolding b(2) by (rule pos_last)
  have lb: "loc (al b) = loc a + of_nat (nb - 1) - of_nat (pos b)"
    using loc [OF b(1)] b(3) by (simp add: algebra_simps)
  have q: "pos b \<le> nb - 1"
    using pos_less [of b] by simp
  then have lb': "loc (al b) = loc a + of_nat (nb - 1 - pos b)"
    unfolding lb of_nat_diff [OF q] by (simp only: add_diff_eq)
  have e: "unat (x - loc (al b)) = (if nb - 1 - pos b \<le> ?d then ?d - (nb - 1 - pos b)
      else 2 ^ 32 + ?d - (nb - 1 - pos b))"
    unfolding lb' by (rule unat_offset) (use nb(3) in simp)
  show "store (wr (al b) (stl v (rd m1 (al b)) (pos b)) m1) x = le_write nb v (loc a) (store m) x"
    unfolding store_left [OF b(1)] r s1 e using pb pos_less [of a] nb(3) by auto
qed

text \<open>The pair of loads.\<close>

lemma load_unaligned:
  assumes a: "ok a" and b: "ok b" "b = a + of_nat (nb - 1)" "loc b = loc a + of_nat (nb - 1)"
  shows "ldr (ldl r (rd m (al b)) (pos b)) (rd m (al a)) (pos a) = le_read nb (store m) (loc a)"
proof (rule byte_eqI)
  fix i assume "8 * i < LENGTH('w)"
  then have i: "i < nb"
    using nb(1) by simp
  have pa: "pos a < nb" and q: "pos b < nb"
    by (rule pos_less)+
  have pb: "pos b = (if pos a = 0 then nb - 1 else pos a - 1)"
    unfolding b(2) by (rule pos_last)
  have lb: "loc (al b) = loc a + of_nat (nb - 1) - of_nat (pos b)"
    using loc [OF b(1)] b(3) by (simp add: algebra_simps)
  have r: "byte i (le_read nb (store m) (loc a) :: 'w word) = store m (loc a + of_nat i)"
    using i nb(1) by (simp add: byte_le_read)
  show "byte i (ldr (ldl r (rd m (al b)) (pos b)) (rd m (al a)) (pos a)) =
      byte i (le_read nb (store m) (loc a) :: 'w word)"
  proof (cases "i + pos a < nb")
    case True
    have "loc (al a) + of_nat (i + pos a) = loc a + of_nat i"
      unfolding loc [OF a] by (simp add: algebra_simps)
    then show ?thesis
      unfolding r using True i pa by (simp add: ldr_byte byte_rd [OF a] del: of_nat_add)
  next
    case False
    then have pa0: "pos a \<noteq> 0"
      using i by auto
    then have j: "i + pos b + 1 - nb < nb" "\<not> i + pos b < nb - 1" and pb': "pos b + 1 = pos a"
      using i pb False pa by auto
    have eq: "loc (al b) + of_nat (i + pos b + 1 - nb) = loc a + of_nat i"
    proof -
      have "of_nat (i + pos b + 1 - nb) = (of_nat i + of_nat (pos b) + 1 - of_nat nb :: u32)"
        using False pb' by (subst of_nat_diff) auto
      moreover have "of_nat (nb - 1) = (of_nat nb - 1 :: u32)"
        using nb(2) by (subst of_nat_diff) auto
      ultimately show ?thesis
        unfolding lb by simp
    qed
    have "byte i (ldr (ldl r (rd m (al b)) (pos b)) (rd m (al a)) (pos a)) =
        byte (i + pos b + 1 - nb) (rd m (al b))"
      using i pa q False j by (simp add: ldr_byte ldl_byte)
    also have "\<dots> = store m (loc (al b) + of_nat (i + pos b + 1 - nb))"
      by (rule byte_rd [OF b(1) j(1)])
    also have "\<dots> = store m (loc a + of_nat i)"
      by (simp only: eq)
    finally show ?thesis
      unfolding r .
  qed
qed

text \<open>Reading back what the pair of stores wrote.\<close>

lemma store_load_unaligned:
  fixes v :: "'w word" and m :: 'm
  assumes "ok a" "ok b" "b = a + of_nat (nb - 1)" "loc b = loc a + of_nat (nb - 1)"
  defines "m1 \<equiv> wr (al a) (str v (rd m (al a)) (pos a)) m"
  defines "m2 \<equiv> wr (al b) (stl v (rd m1 (al b)) (pos b)) m1"
  shows "ldr (ldl r (rd m2 (al b)) (pos b)) (rd m2 (al a)) (pos a) = v"
proof -
  have "store m2 = le_write nb v (loc a) (store m)"
    unfolding m2_def m1_def by (rule store_unaligned [OF assms(1-4)])
  moreover have "take_bit (8 * nb) v = v"
    using take_bit_length_eq [of v] nb(1) by simp
  ultimately show ?thesis
    unfolding load_unaligned [OF assms(1-4)]
    by (simp add: le_read_write [OF nb_small [OF order_refl]])
qed

end

end
