(* ===== verification/MMI.thy ===== *)
theory MMI
  imports EERegs
begin

text \<open>
  The multimedia instructions of the EE interpreter, \<open>pcsx2/MMI.cpp\<close>: the second
  multiplier/divider pipe (\<open>MULT1\<close>, \<open>MADD\<close>, \<dots>), then the \<open>MMI\<close>, \<open>MMI0\<close>--\<open>MMI3\<close> classes, in the
  order of the file. An instruction is a function on the register state; \<open>if (!_Rd_) return\<close> is
  the test of the destination field, a helper \<open>static void _PADDW(int n)\<close> is \<open>PADDW_lane\<close>, and a
  run of calls \<open>_PADDW(0); \<dots>; _PADDW(3)\<close> is a \<open>fold\<close> in the same order. Writes go to the register
  in place, lane by lane, so an instruction whose destination is also a source reads what it
  has already written exactly where the code does.

  Signed 64-bit temporaries that cannot overflow are integers; sums that can wrap are words.
\<close>

section \<open>Casts used by the file\<close>

definition join32 :: "u32 \<Rightarrow> u32 \<Rightarrow> u64" where
  "join32 hi lo = push_bit 32 (ucast hi) OR ucast lo"

definition wr_Rds :: "(nat \<times> 'l::len word) list \<Rightarrow> 'a cpuRegisters_scheme \<Rightarrow> 'a cpuRegisters_scheme" where
  "wr_Rds ivs s = fold (\<lambda>(i, v). wr_gpr (Rd s) i v) ivs s"

section \<open>Non-MMI instructions: the second multiply/divide pipe\<close>

definition MADD :: "'a cpuRegisters_scheme \<Rightarrow> 'a cpuRegisters_scheme" where
  "MADD s =
     (let temp = join32 (UL 0 (HI s)) (UL 0 (LO s)) + word_of_int (SL 0 (rRs s) * SL 0 (rRt s));
          s1 = wr_LO 0 (sx32 (lo32 temp)) s;
          s2 = wr_HI 0 (sx32 (hi32 temp)) s1
      in if Rd s \<noteq> 0 then wr_Rd 0 (UD 0 (LO s2)) s2 else s2)"

definition MADDU :: "'a cpuRegisters_scheme \<Rightarrow> 'a cpuRegisters_scheme" where
  "MADDU s =
     (let tempu = join32 (UL 0 (HI s)) (UL 0 (LO s)) + ucast (UL 0 (rRs s)) * ucast (UL 0 (rRt s));
          s1 = wr_LO 0 (sx32 (lo32 tempu)) s;
          s2 = wr_HI 0 (sx32 (hi32 tempu)) s1
      in if Rd s \<noteq> 0 then wr_Rd 0 (UD 0 (LO s2)) s2 else s2)"

definition MADD1 :: "'a cpuRegisters_scheme \<Rightarrow> 'a cpuRegisters_scheme" where
  "MADD1 s =
     (let temp = join32 (UL 2 (HI s)) (UL 2 (LO s)) + word_of_int (SL 0 (rRs s) * SL 0 (rRt s));
          s1 = wr_LO 1 (sx32 (lo32 temp)) s;
          s2 = wr_HI 1 (sx32 (hi32 temp)) s1
      in if Rd s \<noteq> 0 then wr_Rd 0 (UD 1 (LO s2)) s2 else s2)"

definition MADDU1 :: "'a cpuRegisters_scheme \<Rightarrow> 'a cpuRegisters_scheme" where
  "MADDU1 s =
     (let tempu = join32 (UL 2 (HI s)) (UL 2 (LO s)) + ucast (UL 0 (rRs s)) * ucast (UL 0 (rRt s));
          s1 = wr_LO 1 (sx32 (lo32 tempu)) s;
          s2 = wr_HI 1 (sx32 (hi32 tempu)) s1
      in if Rd s \<noteq> 0 then wr_Rd 0 (UD 1 (LO s2)) s2 else s2)"

definition MFHI1 :: "'a cpuRegisters_scheme \<Rightarrow> 'a cpuRegisters_scheme" where
  "MFHI1 s = (if Rd s = 0 then s else wr_Rd 0 (UD 1 (HI s)) s)"

definition MFLO1 :: "'a cpuRegisters_scheme \<Rightarrow> 'a cpuRegisters_scheme" where
  "MFLO1 s = (if Rd s = 0 then s else wr_Rd 0 (UD 1 (LO s)) s)"

definition MTHI1 :: "'a cpuRegisters_scheme \<Rightarrow> 'a cpuRegisters_scheme" where
  "MTHI1 s = wr_HI 1 (UD 0 (rRs s)) s"

definition MTLO1 :: "'a cpuRegisters_scheme \<Rightarrow> 'a cpuRegisters_scheme" where
  "MTLO1 s = wr_LO 1 (UD 0 (rRs s)) s"

definition MULT1 :: "'a cpuRegisters_scheme \<Rightarrow> 'a cpuRegisters_scheme" where
  "MULT1 s =
     (let temp = word_of_int (SL 0 (rRs s) * SL 0 (rRt s)) :: u64;
          s1 = wr_LO 1 (sx32 (lo32 temp)) s;
          s2 = wr_HI 1 (sx32 (hi32 temp)) s1
      in if Rd s \<noteq> 0 then wr_Rd 0 (UD 1 (LO s2)) s2 else s2)"

definition MULTU1 :: "'a cpuRegisters_scheme \<Rightarrow> 'a cpuRegisters_scheme" where
  "MULTU1 s =
     (let tempu = ucast (UL 0 (rRs s)) * ucast (UL 0 (rRt s)) :: u64;
          s1 = wr_LO 1 (sx32 (lo32 tempu)) s;
          s2 = wr_HI 1 (sx32 (hi32 tempu)) s1
      in if Rd s \<noteq> 0 then wr_Rd 0 (UD 1 (LO s2)) s2 else s2)"

definition DIV1 :: "'a cpuRegisters_scheme \<Rightarrow> 'a cpuRegisters_scheme" where
  "DIV1 s =
     (if UL 0 (rRs s) = 0x80000000 \<and> UL 0 (rRt s) = 0xffffffff then
        wr_HI 1 (sx32 0) (wr_LO 1 (sx32 0x80000000) s)
      else if SL 0 (rRt s) \<noteq> 0 then
        wr_HI 1 (word_of_int (SL 0 (rRs s) smod SL 0 (rRt s)) :: u64)
          (wr_LO 1 (word_of_int (SL 0 (rRs s) sdiv SL 0 (rRt s)) :: u64) s)
      else
        wr_HI 1 (sx32 (UL 0 (rRs s)))
          (wr_LO 1 (if SL 0 (rRs s) < 0 then 1 else - 1 :: u64) s))"

definition DIVU1 :: "'a cpuRegisters_scheme \<Rightarrow> 'a cpuRegisters_scheme" where
  "DIVU1 s =
     (if UL 0 (rRt s) \<noteq> 0 then
        wr_HI 1 (sx32 (UL 0 (rRs s) mod UL 0 (rRt s)))
          (wr_LO 1 (sx32 (UL 0 (rRs s) div UL 0 (rRt s))) s)
      else wr_HI 1 (sx32 (UL 0 (rRs s))) (wr_LO 1 (- 1 :: u64) s))"

section \<open>MMI class\<close>

text \<open>
  \<open>count_leading_sign_bits\<close> (\<open>common/include/Utilities/MathUtils.h\<close>); \<open>clz_below k w\<close> counts the
  zero bits of \<open>w\<close> from bit \<open>k - 1\<close> downwards, so \<open>clz_below 32\<close> is \<open>__builtin_clz\<close>.
\<close>

primrec clz_below :: "nat \<Rightarrow> u32 \<Rightarrow> nat" where
  "clz_below 0 w = 0"
| "clz_below (Suc k) w = (if bit w k then 0 else Suc (clz_below k w))"

definition count_leading_sign_bits :: "u32 \<Rightarrow> u32" where
  "count_leading_sign_bits n =
     (let m = (if sint n < 0 then NOT n else n)
      in if m = 0 then 32 else of_nat (clz_below 32 m))"

definition PLZCW :: "'a cpuRegisters_scheme \<Rightarrow> 'a cpuRegisters_scheme" where
  "PLZCW s =
     (if Rd s = 0 then s
      else let s1 = wr_Rd 0 (count_leading_sign_bits (UL 0 (rRs s)) - 1) s
           in wr_Rd 1 (count_leading_sign_bits (UL 1 (rRs s1)) - 1) s1)"

definition PMFHL_CLAMP :: "u32 \<Rightarrow> u16" where
  "PMFHL_CLAMP src =
     (if sint src > 0x7fff then 0x7fff else if sint src < - 0x8000 then 0x8000 else ucast src)"

definition PMFHL_SLW :: "u32 \<Rightarrow> u32 \<Rightarrow> u64" where
  "PMFHL_SLW hi lo =
     (let t = sint (join32 hi lo)
      in if t \<ge> 0x7fffffff then 0x000000007fffffff
         else if t \<le> - 0x80000000 then 0xffffffff80000000
         else sx32 lo)"

definition PMFHL :: "'a cpuRegisters_scheme \<Rightarrow> 'a cpuRegisters_scheme" where
  "PMFHL s =
     (if Rd s = 0 then s
      else if Sa s = 0 then
        wr_Rds [(0, UL 0 (LO s)), (1, UL 0 (HI s)), (2, UL 2 (LO s)), (3, UL 2 (HI s))] s
      else if Sa s = 1 then
        wr_Rds [(0, UL 1 (LO s)), (1, UL 1 (HI s)), (2, UL 3 (LO s)), (3, UL 3 (HI s))] s
      else if Sa s = 2 then
        wr_Rds [(0, PMFHL_SLW (UL 0 (HI s)) (UL 0 (LO s))), (1, PMFHL_SLW (UL 2 (HI s)) (UL 2 (LO s)))] s
      else if Sa s = 3 then
        wr_Rds [(0, US 0 (LO s)), (1, US 2 (LO s)), (2, US 0 (HI s)), (3, US 2 (HI s)),
                (4, US 4 (LO s)), (5, US 6 (LO s)), (6, US 4 (HI s)), (7, US 6 (HI s))] s
      else if Sa s = 4 then
        wr_Rds [(0, PMFHL_CLAMP (UL 0 (LO s))), (1, PMFHL_CLAMP (UL 1 (LO s))),
                (2, PMFHL_CLAMP (UL 0 (HI s))), (3, PMFHL_CLAMP (UL 1 (HI s))),
                (4, PMFHL_CLAMP (UL 2 (LO s))), (5, PMFHL_CLAMP (UL 3 (LO s))),
                (6, PMFHL_CLAMP (UL 2 (HI s))), (7, PMFHL_CLAMP (UL 3 (HI s)))] s
      else s)"

definition PMTHL :: "'a cpuRegisters_scheme \<Rightarrow> 'a cpuRegisters_scheme" where
  "PMTHL s =
     (if Sa s \<noteq> 0 then s
      else wr_HI 2 (UL 3 (rRs s)) (wr_LO 2 (UL 2 (rRs s))
             (wr_HI 0 (UL 1 (rRs s)) (wr_LO 0 (UL 0 (rRs s)) s))))"

definition PSLLH_lane :: "nat \<Rightarrow> 'a cpuRegisters_scheme \<Rightarrow> 'a cpuRegisters_scheme" where
  "PSLLH_lane n s = wr_Rd n (push_bit (Sa s mod 16) (US n (rRt s))) s"

definition PSLLH :: "'a cpuRegisters_scheme \<Rightarrow> 'a cpuRegisters_scheme" where
  "PSLLH s = (if Rd s = 0 then s else fold PSLLH_lane [0, 1, 2, 3, 4, 5, 6, 7] s)"

definition PSRLH_lane :: "nat \<Rightarrow> 'a cpuRegisters_scheme \<Rightarrow> 'a cpuRegisters_scheme" where
  "PSRLH_lane n s = wr_Rd n (drop_bit (Sa s mod 16) (US n (rRt s))) s"

definition PSRLH :: "'a cpuRegisters_scheme \<Rightarrow> 'a cpuRegisters_scheme" where
  "PSRLH s = (if Rd s = 0 then s else fold PSRLH_lane [0, 1, 2, 3, 4, 5, 6, 7] s)"

definition PSRAH_lane :: "nat \<Rightarrow> 'a cpuRegisters_scheme \<Rightarrow> 'a cpuRegisters_scheme" where
  "PSRAH_lane n s = wr_Rd n (signed_drop_bit (Sa s mod 16) (US n (rRt s))) s"

definition PSRAH :: "'a cpuRegisters_scheme \<Rightarrow> 'a cpuRegisters_scheme" where
  "PSRAH s = (if Rd s = 0 then s else fold PSRAH_lane [0, 1, 2, 3, 4, 5, 6, 7] s)"

definition PSLLW_lane :: "nat \<Rightarrow> 'a cpuRegisters_scheme \<Rightarrow> 'a cpuRegisters_scheme" where
  "PSLLW_lane n s = wr_Rd n (push_bit (Sa s) (UL n (rRt s))) s"

definition PSLLW :: "'a cpuRegisters_scheme \<Rightarrow> 'a cpuRegisters_scheme" where
  "PSLLW s = (if Rd s = 0 then s else fold PSLLW_lane [0, 1, 2, 3] s)"

definition PSRLW_lane :: "nat \<Rightarrow> 'a cpuRegisters_scheme \<Rightarrow> 'a cpuRegisters_scheme" where
  "PSRLW_lane n s = wr_Rd n (drop_bit (Sa s) (UL n (rRt s))) s"

definition PSRLW :: "'a cpuRegisters_scheme \<Rightarrow> 'a cpuRegisters_scheme" where
  "PSRLW s = (if Rd s = 0 then s else fold PSRLW_lane [0, 1, 2, 3] s)"

definition PSRAW_lane :: "nat \<Rightarrow> 'a cpuRegisters_scheme \<Rightarrow> 'a cpuRegisters_scheme" where
  "PSRAW_lane n s = wr_Rd n (signed_drop_bit (Sa s) (UL n (rRt s))) s"

definition PSRAW :: "'a cpuRegisters_scheme \<Rightarrow> 'a cpuRegisters_scheme" where
  "PSRAW s = (if Rd s = 0 then s else fold PSRAW_lane [0, 1, 2, 3] s)"

section \<open>MMI0 class\<close>

definition PADDW_lane :: "nat \<Rightarrow> 'a cpuRegisters_scheme \<Rightarrow> 'a cpuRegisters_scheme" where
  "PADDW_lane n s = wr_Rd n (UL n (rRs s) + UL n (rRt s)) s"

definition PADDW :: "'a cpuRegisters_scheme \<Rightarrow> 'a cpuRegisters_scheme" where
  "PADDW s = (if Rd s = 0 then s else fold PADDW_lane [0, 1, 2, 3] s)"

definition PSUBW_lane :: "nat \<Rightarrow> 'a cpuRegisters_scheme \<Rightarrow> 'a cpuRegisters_scheme" where
  "PSUBW_lane n s = wr_Rd n (UL n (rRs s) - UL n (rRt s)) s"

definition PSUBW :: "'a cpuRegisters_scheme \<Rightarrow> 'a cpuRegisters_scheme" where
  "PSUBW s = (if Rd s = 0 then s else fold PSUBW_lane [0, 1, 2, 3] s)"

definition PCGTW_lane :: "nat \<Rightarrow> 'a cpuRegisters_scheme \<Rightarrow> 'a cpuRegisters_scheme" where
  "PCGTW_lane n s = wr_Rd n (if SL n (rRs s) > SL n (rRt s) then 0xFFFFFFFF else (0 :: u32)) s"

definition PCGTW :: "'a cpuRegisters_scheme \<Rightarrow> 'a cpuRegisters_scheme" where
  "PCGTW s = (if Rd s = 0 then s else fold PCGTW_lane [0, 1, 2, 3] s)"

definition PMAXW_lane :: "nat \<Rightarrow> 'a cpuRegisters_scheme \<Rightarrow> 'a cpuRegisters_scheme" where
  "PMAXW_lane n s = wr_Rd n (if SL n (rRs s) > SL n (rRt s) then UL n (rRs s) else UL n (rRt s)) s"

definition PMAXW :: "'a cpuRegisters_scheme \<Rightarrow> 'a cpuRegisters_scheme" where
  "PMAXW s = (if Rd s = 0 then s else fold PMAXW_lane [0, 1, 2, 3] s)"

definition PADDH_lane :: "nat \<Rightarrow> 'a cpuRegisters_scheme \<Rightarrow> 'a cpuRegisters_scheme" where
  "PADDH_lane n s = wr_Rd n (US n (rRs s) + US n (rRt s)) s"

definition PADDH :: "'a cpuRegisters_scheme \<Rightarrow> 'a cpuRegisters_scheme" where
  "PADDH s = (if Rd s = 0 then s else fold PADDH_lane [0, 1, 2, 3, 4, 5, 6, 7] s)"

definition PSUBH_lane :: "nat \<Rightarrow> 'a cpuRegisters_scheme \<Rightarrow> 'a cpuRegisters_scheme" where
  "PSUBH_lane n s = wr_Rd n (US n (rRs s) - US n (rRt s)) s"

definition PSUBH :: "'a cpuRegisters_scheme \<Rightarrow> 'a cpuRegisters_scheme" where
  "PSUBH s = (if Rd s = 0 then s else fold PSUBH_lane [0, 1, 2, 3, 4, 5, 6, 7] s)"

definition PCGTH_lane :: "nat \<Rightarrow> 'a cpuRegisters_scheme \<Rightarrow> 'a cpuRegisters_scheme" where
  "PCGTH_lane n s = wr_Rd n (if SS n (rRs s) > SS n (rRt s) then 0xFFFF else (0 :: u16)) s"

definition PCGTH :: "'a cpuRegisters_scheme \<Rightarrow> 'a cpuRegisters_scheme" where
  "PCGTH s = (if Rd s = 0 then s else fold PCGTH_lane [0, 1, 2, 3, 4, 5, 6, 7] s)"

definition PMAXH_lane :: "nat \<Rightarrow> 'a cpuRegisters_scheme \<Rightarrow> 'a cpuRegisters_scheme" where
  "PMAXH_lane n s = wr_Rd n (if SS n (rRs s) > SS n (rRt s) then US n (rRs s) else US n (rRt s)) s"

definition PMAXH :: "'a cpuRegisters_scheme \<Rightarrow> 'a cpuRegisters_scheme" where
  "PMAXH s = (if Rd s = 0 then s else fold PMAXH_lane [0, 1, 2, 3, 4, 5, 6, 7] s)"

definition PADDB_lane :: "nat \<Rightarrow> 'a cpuRegisters_scheme \<Rightarrow> 'a cpuRegisters_scheme" where
  "PADDB_lane n s = wr_Rd n (UC n (rRs s) + UC n (rRt s)) s"

definition PADDB :: "'a cpuRegisters_scheme \<Rightarrow> 'a cpuRegisters_scheme" where
  "PADDB s = (if Rd s = 0 then s else fold PADDB_lane [0..<16] s)"

definition PSUBB_lane :: "nat \<Rightarrow> 'a cpuRegisters_scheme \<Rightarrow> 'a cpuRegisters_scheme" where
  "PSUBB_lane n s = wr_Rd n (UC n (rRs s) - UC n (rRt s)) s"

definition PSUBB :: "'a cpuRegisters_scheme \<Rightarrow> 'a cpuRegisters_scheme" where
  "PSUBB s = (if Rd s = 0 then s else fold PSUBB_lane [0..<16] s)"

definition PCGTB_lane :: "nat \<Rightarrow> 'a cpuRegisters_scheme \<Rightarrow> 'a cpuRegisters_scheme" where
  "PCGTB_lane n s = wr_Rd n (if SC n (rRs s) > SC n (rRt s) then 0xFF else (0 :: u8)) s"

definition PCGTB :: "'a cpuRegisters_scheme \<Rightarrow> 'a cpuRegisters_scheme" where
  "PCGTB s = (if Rd s = 0 then s else fold PCGTB_lane [0..<16] s)"

definition PADDSW_lane :: "nat \<Rightarrow> 'a cpuRegisters_scheme \<Rightarrow> 'a cpuRegisters_scheme" where
  "PADDSW_lane n s = wr_Rd n (let t = SL n (rRs s) + SL n (rRt s)
       in if t > 0x7FFFFFFF then 0x7FFFFFFF else if t < - 0x80000000 then (0x80000000 :: u32) else word_of_int t) s"

definition PADDSW :: "'a cpuRegisters_scheme \<Rightarrow> 'a cpuRegisters_scheme" where
  "PADDSW s = (if Rd s = 0 then s else fold PADDSW_lane [0, 1, 2, 3] s)"

definition PSUBSW_lane :: "nat \<Rightarrow> 'a cpuRegisters_scheme \<Rightarrow> 'a cpuRegisters_scheme" where
  "PSUBSW_lane n s = wr_Rd n (let t = SL n (rRs s) - SL n (rRt s)
       in if t \<ge> 0x7FFFFFFF then 0x7FFFFFFF else if t < - 0x80000000 then (0x80000000 :: u32) else word_of_int t) s"

definition PSUBSW :: "'a cpuRegisters_scheme \<Rightarrow> 'a cpuRegisters_scheme" where
  "PSUBSW s = (if Rd s = 0 then s else fold PSUBSW_lane [0, 1, 2, 3] s)"

definition PEXTLW :: "'a cpuRegisters_scheme \<Rightarrow> 'a cpuRegisters_scheme" where
  "PEXTLW s =
     (if Rd s = 0 then s
      else let rs = rRs s; rt = rRt s
           in wr_Rds
             [(0, UL 0 rt), (1, UL 0 rs), (2, UL 1 rt), (3, UL 1 rs)] s)"

definition PPACW :: "'a cpuRegisters_scheme \<Rightarrow> 'a cpuRegisters_scheme" where
  "PPACW s =
     (if Rd s = 0 then s
      else let rs = rRs s; rt = rRt s
           in wr_Rds
             [(0, UL 0 rt), (1, UL 2 rt), (2, UL 0 rs), (3, UL 2 rs)] s)"

definition PADDSH_lane :: "nat \<Rightarrow> 'a cpuRegisters_scheme \<Rightarrow> 'a cpuRegisters_scheme" where
  "PADDSH_lane n s = wr_Rd n (let t = SS n (rRs s) + SS n (rRt s)
       in if t > 0x7FFF then 0x7FFF else if t < - 0x8000 then (0x8000 :: u16) else word_of_int t) s"

definition PADDSH :: "'a cpuRegisters_scheme \<Rightarrow> 'a cpuRegisters_scheme" where
  "PADDSH s = (if Rd s = 0 then s else fold PADDSH_lane [0, 1, 2, 3, 4, 5, 6, 7] s)"

definition PSUBSH_lane :: "nat \<Rightarrow> 'a cpuRegisters_scheme \<Rightarrow> 'a cpuRegisters_scheme" where
  "PSUBSH_lane n s = wr_Rd n (let t = SS n (rRs s) - SS n (rRt s)
       in if t \<ge> 0x7FFF then 0x7FFF else if t < - 0x8000 then (0x8000 :: u16) else word_of_int t) s"

definition PSUBSH :: "'a cpuRegisters_scheme \<Rightarrow> 'a cpuRegisters_scheme" where
  "PSUBSH s = (if Rd s = 0 then s else fold PSUBSH_lane [0, 1, 2, 3, 4, 5, 6, 7] s)"

definition PEXTLH :: "'a cpuRegisters_scheme \<Rightarrow> 'a cpuRegisters_scheme" where
  "PEXTLH s =
     (if Rd s = 0 then s
      else let rs = rRs s; rt = rRt s
           in wr_Rds
             [(0, US 0 rt), (1, US 0 rs), (2, US 1 rt), (3, US 1 rs), (4, US 2 rt), (5, US 2
             rs), (6, US 3 rt), (7, US 3 rs)] s)"

definition PPACH :: "'a cpuRegisters_scheme \<Rightarrow> 'a cpuRegisters_scheme" where
  "PPACH s =
     (if Rd s = 0 then s
      else let rs = rRs s; rt = rRt s
           in wr_Rds
             [(0, US 0 rt), (1, US 2 rt), (2, US 4 rt), (3, US 6 rt), (4, US 0 rs), (5, US 2
             rs), (6, US 4 rs), (7, US 6 rs)] s)"

definition PADDSB_lane :: "nat \<Rightarrow> 'a cpuRegisters_scheme \<Rightarrow> 'a cpuRegisters_scheme" where
  "PADDSB_lane n s = wr_Rd n (let t = SC n (rRs s) + SC n (rRt s)
       in if t > 0x7F then 0x7F else if t < - 128 then (0x80 :: u8) else word_of_int t) s"

definition PADDSB :: "'a cpuRegisters_scheme \<Rightarrow> 'a cpuRegisters_scheme" where
  "PADDSB s = (if Rd s = 0 then s else fold PADDSB_lane [0..<16] s)"

definition PSUBSB_lane :: "nat \<Rightarrow> 'a cpuRegisters_scheme \<Rightarrow> 'a cpuRegisters_scheme" where
  "PSUBSB_lane n s = wr_Rd n (let t = SC n (rRs s) - SC n (rRt s)
       in if t \<ge> 0x7F then 0x7F else if t < - 128 then (0x80 :: u8) else word_of_int t) s"

definition PSUBSB :: "'a cpuRegisters_scheme \<Rightarrow> 'a cpuRegisters_scheme" where
  "PSUBSB s = (if Rd s = 0 then s else fold PSUBSB_lane [0..<16] s)"

definition PEXTLB :: "'a cpuRegisters_scheme \<Rightarrow> 'a cpuRegisters_scheme" where
  "PEXTLB s =
     (if Rd s = 0 then s
      else let rs = rRs s; rt = rRt s
           in wr_Rds
             [(0, UC 0 rt), (1, UC 0 rs), (2, UC 1 rt), (3, UC 1 rs), (4, UC 2 rt), (5, UC 2
             rs), (6, UC 3 rt), (7, UC 3 rs), (8, UC 4 rt), (9, UC 4 rs), (10, UC 5 rt), (11,
             UC 5 rs), (12, UC 6 rt), (13, UC 6 rs), (14, UC 7 rt), (15, UC 7 rs)] s)"

definition PPACB :: "'a cpuRegisters_scheme \<Rightarrow> 'a cpuRegisters_scheme" where
  "PPACB s =
     (if Rd s = 0 then s
      else let rs = rRs s; rt = rRt s
           in wr_Rds
             [(0, UC 0 rt), (1, UC 2 rt), (2, UC 4 rt), (3, UC 6 rt), (4, UC 8 rt), (5, UC 10
             rt), (6, UC 12 rt), (7, UC 14 rt), (8, UC 0 rs), (9, UC 2 rs), (10, UC 4 rs),
             (11, UC 6 rs), (12, UC 8 rs), (13, UC 10 rs), (14, UC 12 rs), (15, UC 14 rs)] s)"

definition ext5 :: "u32 \<Rightarrow> u32" where
  "ext5 v =
     push_bit 3 (v AND 0x0000001F) OR push_bit 6 (v AND 0x000003E0) OR
     push_bit 9 (v AND 0x00007C00) OR push_bit 16 (v AND 0x00008000)"

definition PEXT5_lane :: "nat \<Rightarrow> 'a cpuRegisters_scheme \<Rightarrow> 'a cpuRegisters_scheme" where
  "PEXT5_lane n s = wr_Rd n (ext5 (UL n (rRt s))) s"

definition PEXT5 :: "'a cpuRegisters_scheme \<Rightarrow> 'a cpuRegisters_scheme" where
  "PEXT5 s = (if Rd s = 0 then s else fold PEXT5_lane [0, 1, 2, 3] s)"

definition pac5 :: "u32 \<Rightarrow> u32" where
  "pac5 v =
     (drop_bit 3 v AND 0x0000001F) OR (drop_bit 6 v AND 0x000003E0) OR
     (drop_bit 9 v AND 0x00007C00) OR (drop_bit 16 v AND 0x00008000)"

definition PPAC5_lane :: "nat \<Rightarrow> 'a cpuRegisters_scheme \<Rightarrow> 'a cpuRegisters_scheme" where
  "PPAC5_lane n s = wr_Rd n (pac5 (UL n (rRt s))) s"

definition PPAC5 :: "'a cpuRegisters_scheme \<Rightarrow> 'a cpuRegisters_scheme" where
  "PPAC5 s = (if Rd s = 0 then s else fold PPAC5_lane [0, 1, 2, 3] s)"

section \<open>MMI1 class\<close>

definition PABSW_lane :: "nat \<Rightarrow> 'a cpuRegisters_scheme \<Rightarrow> 'a cpuRegisters_scheme" where
  "PABSW_lane n s = wr_Rd n (if UL n (rRt s) = 0x80000000 then 0x7fffffff
       else if SL n (rRt s) < 0 then - UL n (rRt s) else UL n (rRt s)) s"

definition PABSW :: "'a cpuRegisters_scheme \<Rightarrow> 'a cpuRegisters_scheme" where
  "PABSW s = (if Rd s = 0 then s else fold PABSW_lane [0, 1, 2, 3] s)"

definition PCEQW_lane :: "nat \<Rightarrow> 'a cpuRegisters_scheme \<Rightarrow> 'a cpuRegisters_scheme" where
  "PCEQW_lane n s = wr_Rd n (if UL n (rRs s) = UL n (rRt s) then 0xFFFFFFFF else (0 :: u32)) s"

definition PCEQW :: "'a cpuRegisters_scheme \<Rightarrow> 'a cpuRegisters_scheme" where
  "PCEQW s = (if Rd s = 0 then s else fold PCEQW_lane [0, 1, 2, 3] s)"

definition PMINW_lane :: "nat \<Rightarrow> 'a cpuRegisters_scheme \<Rightarrow> 'a cpuRegisters_scheme" where
  "PMINW_lane n s = wr_Rd n (if SL n (rRs s) < SL n (rRt s) then UL n (rRs s) else UL n (rRt s)) s"

definition PMINW :: "'a cpuRegisters_scheme \<Rightarrow> 'a cpuRegisters_scheme" where
  "PMINW s = (if Rd s = 0 then s else fold PMINW_lane [0, 1, 2, 3] s)"

definition PADSBH :: "'a cpuRegisters_scheme \<Rightarrow> 'a cpuRegisters_scheme" where
  "PADSBH s =
     (if Rd s = 0 then s else fold PADDH_lane [4, 5, 6, 7] (fold PSUBH_lane [0, 1, 2, 3] s))"

definition PABSH_lane :: "nat \<Rightarrow> 'a cpuRegisters_scheme \<Rightarrow> 'a cpuRegisters_scheme" where
  "PABSH_lane n s = wr_Rd n (if US n (rRt s) = 0x8000 then 0x7fff
       else if SS n (rRt s) < 0 then - US n (rRt s) else US n (rRt s)) s"

definition PABSH :: "'a cpuRegisters_scheme \<Rightarrow> 'a cpuRegisters_scheme" where
  "PABSH s = (if Rd s = 0 then s else fold PABSH_lane [0, 1, 2, 3, 4, 5, 6, 7] s)"

definition PCEQH_lane :: "nat \<Rightarrow> 'a cpuRegisters_scheme \<Rightarrow> 'a cpuRegisters_scheme" where
  "PCEQH_lane n s = wr_Rd n (if US n (rRs s) = US n (rRt s) then 0xFFFF else (0 :: u16)) s"

definition PCEQH :: "'a cpuRegisters_scheme \<Rightarrow> 'a cpuRegisters_scheme" where
  "PCEQH s = (if Rd s = 0 then s else fold PCEQH_lane [0, 1, 2, 3, 4, 5, 6, 7] s)"

definition PMINH_lane :: "nat \<Rightarrow> 'a cpuRegisters_scheme \<Rightarrow> 'a cpuRegisters_scheme" where
  "PMINH_lane n s = wr_Rd n (if SS n (rRs s) < SS n (rRt s) then US n (rRs s) else US n (rRt s)) s"

definition PMINH :: "'a cpuRegisters_scheme \<Rightarrow> 'a cpuRegisters_scheme" where
  "PMINH s = (if Rd s = 0 then s else fold PMINH_lane [0, 1, 2, 3, 4, 5, 6, 7] s)"

definition PCEQB_lane :: "nat \<Rightarrow> 'a cpuRegisters_scheme \<Rightarrow> 'a cpuRegisters_scheme" where
  "PCEQB_lane n s = wr_Rd n (if UC n (rRs s) = UC n (rRt s) then 0xFF else (0 :: u8)) s"

definition PCEQB :: "'a cpuRegisters_scheme \<Rightarrow> 'a cpuRegisters_scheme" where
  "PCEQB s = (if Rd s = 0 then s else fold PCEQB_lane [0..<16] s)"

definition PADDUW_lane :: "nat \<Rightarrow> 'a cpuRegisters_scheme \<Rightarrow> 'a cpuRegisters_scheme" where
  "PADDUW_lane n s = wr_Rd n (let t = uint (UL n (rRs s)) + uint (UL n (rRt s))
       in if t > 0xffffffff then (0xffffffff :: u32) else word_of_int t) s"

definition PADDUW :: "'a cpuRegisters_scheme \<Rightarrow> 'a cpuRegisters_scheme" where
  "PADDUW s = (if Rd s = 0 then s else fold PADDUW_lane [0, 1, 2, 3] s)"

definition PSUBUW_lane :: "nat \<Rightarrow> 'a cpuRegisters_scheme \<Rightarrow> 'a cpuRegisters_scheme" where
  "PSUBUW_lane n s = wr_Rd n (let t = uint (UL n (rRs s)) - uint (UL n (rRt s))
       in if t \<le> 0 then (0 :: u32) else word_of_int t) s"

definition PSUBUW :: "'a cpuRegisters_scheme \<Rightarrow> 'a cpuRegisters_scheme" where
  "PSUBUW s = (if Rd s = 0 then s else fold PSUBUW_lane [0, 1, 2, 3] s)"

definition PEXTUW :: "'a cpuRegisters_scheme \<Rightarrow> 'a cpuRegisters_scheme" where
  "PEXTUW s =
     (if Rd s = 0 then s
      else let rs = rRs s; rt = rRt s
           in wr_Rds
             [(0, UL 2 rt), (1, UL 2 rs), (2, UL 3 rt), (3, UL 3 rs)] s)"

definition PADDUH_lane :: "nat \<Rightarrow> 'a cpuRegisters_scheme \<Rightarrow> 'a cpuRegisters_scheme" where
  "PADDUH_lane n s = wr_Rd n (let t = uint (US n (rRs s)) + uint (US n (rRt s))
       in if t > 0xFFFF then (0xFFFF :: u16) else word_of_int t) s"

definition PADDUH :: "'a cpuRegisters_scheme \<Rightarrow> 'a cpuRegisters_scheme" where
  "PADDUH s = (if Rd s = 0 then s else fold PADDUH_lane [0, 1, 2, 3, 4, 5, 6, 7] s)"

definition PSUBUH_lane :: "nat \<Rightarrow> 'a cpuRegisters_scheme \<Rightarrow> 'a cpuRegisters_scheme" where
  "PSUBUH_lane n s = wr_Rd n (let t = uint (US n (rRs s)) - uint (US n (rRt s))
       in if t \<le> 0 then (0 :: u16) else word_of_int t) s"

definition PSUBUH :: "'a cpuRegisters_scheme \<Rightarrow> 'a cpuRegisters_scheme" where
  "PSUBUH s = (if Rd s = 0 then s else fold PSUBUH_lane [0, 1, 2, 3, 4, 5, 6, 7] s)"

definition PEXTUH :: "'a cpuRegisters_scheme \<Rightarrow> 'a cpuRegisters_scheme" where
  "PEXTUH s =
     (if Rd s = 0 then s
      else let rs = rRs s; rt = rRt s
           in wr_Rds
             [(0, US 4 rt), (1, US 4 rs), (2, US 5 rt), (3, US 5 rs), (4, US 6 rt), (5, US 6
             rs), (6, US 7 rt), (7, US 7 rs)] s)"

definition PADDUB_lane :: "nat \<Rightarrow> 'a cpuRegisters_scheme \<Rightarrow> 'a cpuRegisters_scheme" where
  "PADDUB_lane n s = wr_Rd n (let t = uint (UC n (rRs s)) + uint (UC n (rRt s))
       in if t > 0xFF then (0xFF :: u8) else word_of_int t) s"

definition PADDUB :: "'a cpuRegisters_scheme \<Rightarrow> 'a cpuRegisters_scheme" where
  "PADDUB s = (if Rd s = 0 then s else fold PADDUB_lane [0..<16] s)"

definition PSUBUB_lane :: "nat \<Rightarrow> 'a cpuRegisters_scheme \<Rightarrow> 'a cpuRegisters_scheme" where
  "PSUBUB_lane n s = wr_Rd n (let t = uint (UC n (rRs s)) - uint (UC n (rRt s))
       in if t \<le> 0 then (0 :: u8) else word_of_int t) s"

definition PSUBUB :: "'a cpuRegisters_scheme \<Rightarrow> 'a cpuRegisters_scheme" where
  "PSUBUB s = (if Rd s = 0 then s else fold PSUBUB_lane [0..<16] s)"

definition PEXTUB :: "'a cpuRegisters_scheme \<Rightarrow> 'a cpuRegisters_scheme" where
  "PEXTUB s =
     (if Rd s = 0 then s
      else let rs = rRs s; rt = rRt s
           in wr_Rds
             [(0, UC 8 rt), (1, UC 8 rs), (2, UC 9 rt), (3, UC 9 rs), (4, UC 10 rt), (5, UC
             10 rs), (6, UC 11 rt), (7, UC 11 rs), (8, UC 12 rt), (9, UC 12 rs), (10, UC 13
             rt), (11, UC 13 rs), (12, UC 14 rt), (13, UC 14 rs), (14, UC 15 rt), (15, UC 15
             rs)] s)"

text \<open>
  \<open>QFSRV\<close> shifts the 256-bit pair \<open>rs : rt\<close> right by \<open>sa\<close> bits. The C shifts are defined for
  amounts below 64, that is for \<open>sa < 128\<close>, which is what \<open>MTSAB\<close> and \<open>MTSAH\<close> produce.
\<close>

definition QFSRV :: "'a cpuRegisters_scheme \<Rightarrow> 'a cpuRegisters_scheme" where
  "QFSRV s =
     (if Rd s = 0 then s
      else let sa_amt = unat (sa s); rs = rRs s; rt = rRt s
           in if sa_amt = 0 then
                (let s1 = wr_Rd 0 (UD 0 (rRt s)) s in wr_Rd 1 (UD 1 (rRt s1)) s1)
              else if sa_amt < 64 then
                wr_Rds [(0, drop_bit sa_amt (UD 0 rt) OR push_bit (64 - sa_amt) (UD 1 rt)),
                        (1, drop_bit sa_amt (UD 1 rt) OR push_bit (64 - sa_amt) (UD 0 rs))] s
              else
                (let d0 = drop_bit (sa_amt - 64) (UD 1 rt); d1 = drop_bit (sa_amt - 64) (UD 0 rs)
                 in if sa_amt \<noteq> 64 then
                      wr_Rds [(0, d0 OR push_bit (128 - sa_amt) (UD 0 rs)),
                              (1, d1 OR push_bit (128 - sa_amt) (UD 1 rs))] s
                    else wr_Rds [(0, d0), (1, d1)] s))"

section \<open>MMI2 class\<close>

definition PMADDW_lane :: "nat \<Rightarrow> nat \<Rightarrow> 'a cpuRegisters_scheme \<Rightarrow> 'a cpuRegisters_scheme" where
  "PMADDW_lane dd ss s =
     (let temp = SL ss (rRs s) * SL ss (rRt s);
          temp2 = (word_of_int temp :: u64) + push_bit 32 (sx32 (UL ss (HI s)));
          temp2 = (if ss = 0 \<and>
                      (UL ss (rRt s) AND 0x7FFFFFFF = 0 \<or> UL ss (rRt s) AND 0x7FFFFFFF = 0x7FFFFFFF) \<and>
                      SL ss (rRs s) \<noteq> SL ss (rRt s)
                   then temp2 + 0x70000000 else temp2);
          q = (word_of_int (sint temp2 sdiv 4294967295) :: u32);
          s1 = wr_LO dd (sx32 (word_of_int temp + UL ss (LO s))) s;
          s2 = wr_HI dd (sx32 q) s1
      in if Rd s \<noteq> 0 then
           (let s3 = wr_Rd (dd * 2) (UL (dd * 2) (LO s2)) s2
            in wr_Rd (dd * 2 + 1) (UL (dd * 2) (HI s3)) s3)
         else s2)"

definition PMADDW :: "'a cpuRegisters_scheme \<Rightarrow> 'a cpuRegisters_scheme" where
  "PMADDW s = PMADDW_lane 1 2 (PMADDW_lane 0 0 s)"

definition PSLLVW :: "'a cpuRegisters_scheme \<Rightarrow> 'a cpuRegisters_scheme" where
  "PSLLVW s =
     (if Rd s = 0 then s
      else let s1 = wr_Rd 0 (sx32 (push_bit (unat (UL 0 (rRs s) AND 0x1F)) (UL 0 (rRt s)))) s
           in wr_Rd 1 (sx32 (push_bit (unat (UL 2 (rRs s1) AND 0x1F)) (UL 2 (rRt s1)))) s1)"

definition PSRLVW :: "'a cpuRegisters_scheme \<Rightarrow> 'a cpuRegisters_scheme" where
  "PSRLVW s =
     (if Rd s = 0 then s
      else let s1 = wr_Rd 0 (sx32 (drop_bit (unat (UL 0 (rRs s) AND 0x1F)) (UL 0 (rRt s)))) s
           in wr_Rd 1 (sx32 (drop_bit (unat (UL 2 (rRs s1) AND 0x1F)) (UL 2 (rRt s1)))) s1)"

definition PMSUBW_lane :: "nat \<Rightarrow> nat \<Rightarrow> 'a cpuRegisters_scheme \<Rightarrow> 'a cpuRegisters_scheme" where
  "PMSUBW_lane dd ss s =
     (let temp = SL ss (rRs s) * SL ss (rRt s);
          temp2 = push_bit 32 (sx32 (UL ss (HI s))) - (word_of_int temp :: u64);
          q = (word_of_int (sint temp2 sdiv 4294967295) :: u32);
          s1 = wr_LO dd (sx32 (UL ss (LO s) - word_of_int temp)) s;
          s2 = wr_HI dd (sx32 q) s1
      in if Rd s \<noteq> 0 then
           (let s3 = wr_Rd (dd * 2) (UL (dd * 2) (LO s2)) s2
            in wr_Rd (dd * 2 + 1) (UL (dd * 2) (HI s3)) s3)
         else s2)"

definition PMSUBW :: "'a cpuRegisters_scheme \<Rightarrow> 'a cpuRegisters_scheme" where
  "PMSUBW s = PMSUBW_lane 1 2 (PMSUBW_lane 0 0 s)"

definition PMFHI :: "'a cpuRegisters_scheme \<Rightarrow> 'a cpuRegisters_scheme" where
  "PMFHI s = (if Rd s = 0 then s else wr_Rds [(0, UD 0 (HI s)), (1, UD 1 (HI s))] s)"

definition PMFLO :: "'a cpuRegisters_scheme \<Rightarrow> 'a cpuRegisters_scheme" where
  "PMFLO s = (if Rd s = 0 then s else wr_Rds [(0, UD 0 (LO s)), (1, UD 1 (LO s))] s)"

definition PINTH :: "'a cpuRegisters_scheme \<Rightarrow> 'a cpuRegisters_scheme" where
  "PINTH s =
     (if Rd s = 0 then s
      else let rs = rRs s; rt = rRt s
           in wr_Rds
             [(0, US 0 rt), (1, US 4 rs), (2, US 1 rt), (3, US 5 rs), (4, US 2 rt), (5, US 6
             rs), (6, US 3 rt), (7, US 7 rs)] s)"

definition PMULTW_lane :: "nat \<Rightarrow> nat \<Rightarrow> 'a cpuRegisters_scheme \<Rightarrow> 'a cpuRegisters_scheme" where
  "PMULTW_lane dd ss s =
     (let temp = word_of_int (SL ss (rRs s) * SL ss (rRt s)) :: u64;
          s1 = wr_LO dd (sx32 (lo32 temp)) s;
          s2 = wr_HI dd (sx32 (hi32 temp)) s1
      in if Rd s \<noteq> 0 then wr_Rd dd temp s2 else s2)"

definition PMULTW :: "'a cpuRegisters_scheme \<Rightarrow> 'a cpuRegisters_scheme" where
  "PMULTW s = PMULTW_lane 1 2 (PMULTW_lane 0 0 s)"

definition PDIVW_lane :: "nat \<Rightarrow> nat \<Rightarrow> 'a cpuRegisters_scheme \<Rightarrow> 'a cpuRegisters_scheme" where
  "PDIVW_lane dd ss s =
     (if UL ss (rRs s) = 0x80000000 \<and> UL ss (rRt s) = 0xffffffff then
        wr_HI dd (sx32 0) (wr_LO dd (sx32 0x80000000) s)
      else if SL ss (rRt s) \<noteq> 0 then
        wr_HI dd (word_of_int (SL ss (rRs s) smod SL ss (rRt s)) :: u64)
          (wr_LO dd (word_of_int (SL ss (rRs s) sdiv SL ss (rRt s)) :: u64) s)
      else
        wr_HI dd (sx32 (UL ss (rRs s)))
          (wr_LO dd (if SL ss (rRs s) < 0 then 1 else - 1 :: u64) s))"

definition PDIVW :: "'a cpuRegisters_scheme \<Rightarrow> 'a cpuRegisters_scheme" where
  "PDIVW s = PDIVW_lane 1 2 (PDIVW_lane 0 0 s)"

definition PCPYLD :: "'a cpuRegisters_scheme \<Rightarrow> 'a cpuRegisters_scheme" where
  "PCPYLD s =
     (if Rd s = 0 then s
      else let s1 = wr_Rd 1 (UD 0 (rRs s)) s in wr_Rd 0 (UD 0 (rRt s1)) s1)"

text \<open>The product of two signed halfwords as a 32-bit value: \<open>(s32)SS[n] * (s32)SS[n]\<close>.\<close>

definition hmul :: "nat \<Rightarrow> 'a cpuRegisters_scheme \<Rightarrow> u32" where
  "hmul n s = word_of_int (SS n (rRs s) * SS n (rRt s))"

text \<open>The copy of the even words of \<open>LO\<close> and \<open>HI\<close> to the destination that ends these instructions.\<close>

definition wr_Rd_LOHI :: "'a cpuRegisters_scheme \<Rightarrow> 'a cpuRegisters_scheme" where
  "wr_Rd_LOHI s =
     (if Rd s = 0 then s
      else wr_Rds [(0, UL 0 (LO s)), (1, UL 0 (HI s)), (2, UL 2 (LO s)), (3, UL 2 (HI s))] s)"

definition PMADDH :: "'a cpuRegisters_scheme \<Rightarrow> 'a cpuRegisters_scheme" where
  "PMADDH s =
     (let s = wr_LO 0 (UL 0 (LO s) + hmul 0 s) s;
          s = wr_LO 1 (UL 1 (LO s) + hmul 1 s) s;
          s = wr_HI 0 (UL 0 (HI s) + hmul 2 s) s;
          s = wr_HI 1 (UL 1 (HI s) + hmul 3 s) s;
          s = wr_LO 2 (UL 2 (LO s) + hmul 4 s) s;
          s = wr_LO 3 (UL 3 (LO s) + hmul 5 s) s;
          s = wr_HI 2 (UL 2 (HI s) + hmul 6 s) s;
          s = wr_HI 3 (UL 3 (HI s) + hmul 7 s) s
      in wr_Rd_LOHI s)"

definition PHMADH_LO :: "nat \<Rightarrow> nat \<Rightarrow> 'a cpuRegisters_scheme \<Rightarrow> 'a cpuRegisters_scheme" where
  "PHMADH_LO dd n s =
     (let firsttemp = hmul (n + 1) s; temp = firsttemp + hmul n s
      in wr_LO (dd + 1) (firsttemp) (wr_LO dd temp s))"

definition PHMADH_HI :: "nat \<Rightarrow> nat \<Rightarrow> 'a cpuRegisters_scheme \<Rightarrow> 'a cpuRegisters_scheme" where
  "PHMADH_HI dd n s =
     (let firsttemp = hmul (n + 1) s; temp = firsttemp + hmul n s
      in wr_HI (dd + 1) (firsttemp) (wr_HI dd temp s))"

definition PHMADH :: "'a cpuRegisters_scheme \<Rightarrow> 'a cpuRegisters_scheme" where
  "PHMADH s = wr_Rd_LOHI (PHMADH_HI 2 6 (PHMADH_LO 2 4 (PHMADH_HI 0 2 (PHMADH_LO 0 0 s))))"

definition PAND_lane :: "nat \<Rightarrow> 'a cpuRegisters_scheme \<Rightarrow> 'a cpuRegisters_scheme" where
  "PAND_lane n s = wr_Rd n (UD n (rRs s) AND UD n (rRt s)) s"

definition PAND :: "'a cpuRegisters_scheme \<Rightarrow> 'a cpuRegisters_scheme" where
  "PAND s = (if Rd s = 0 then s else fold PAND_lane [0, 1] s)"

definition PXOR_lane :: "nat \<Rightarrow> 'a cpuRegisters_scheme \<Rightarrow> 'a cpuRegisters_scheme" where
  "PXOR_lane n s = wr_Rd n (UD n (rRs s) XOR UD n (rRt s)) s"

definition PXOR :: "'a cpuRegisters_scheme \<Rightarrow> 'a cpuRegisters_scheme" where
  "PXOR s = (if Rd s = 0 then s else fold PXOR_lane [0, 1] s)"

definition PMSUBH :: "'a cpuRegisters_scheme \<Rightarrow> 'a cpuRegisters_scheme" where
  "PMSUBH s =
     (let s = wr_LO 0 (UL 0 (LO s) - hmul 0 s) s;
          s = wr_LO 1 (UL 1 (LO s) - hmul 1 s) s;
          s = wr_HI 0 (UL 0 (HI s) - hmul 2 s) s;
          s = wr_HI 1 (UL 1 (HI s) - hmul 3 s) s;
          s = wr_LO 2 (UL 2 (LO s) - hmul 4 s) s;
          s = wr_LO 3 (UL 3 (LO s) - hmul 5 s) s;
          s = wr_HI 2 (UL 2 (HI s) - hmul 6 s) s;
          s = wr_HI 3 (UL 3 (HI s) - hmul 7 s) s
      in wr_Rd_LOHI s)"

definition PHMSBH_LO :: "nat \<Rightarrow> nat \<Rightarrow> 'a cpuRegisters_scheme \<Rightarrow> 'a cpuRegisters_scheme" where
  "PHMSBH_LO dd n s =
     (let firsttemp = hmul (n + 1) s; temp = firsttemp - hmul n s
      in wr_LO (dd + 1) (NOT firsttemp) (wr_LO dd temp s))"

definition PHMSBH_HI :: "nat \<Rightarrow> nat \<Rightarrow> 'a cpuRegisters_scheme \<Rightarrow> 'a cpuRegisters_scheme" where
  "PHMSBH_HI dd n s =
     (let firsttemp = hmul (n + 1) s; temp = firsttemp - hmul n s
      in wr_HI (dd + 1) (NOT firsttemp) (wr_HI dd temp s))"

definition PHMSBH :: "'a cpuRegisters_scheme \<Rightarrow> 'a cpuRegisters_scheme" where
  "PHMSBH s = wr_Rd_LOHI (PHMSBH_HI 2 6 (PHMSBH_LO 2 4 (PHMSBH_HI 0 2 (PHMSBH_LO 0 0 s))))"

definition PEXEH :: "'a cpuRegisters_scheme \<Rightarrow> 'a cpuRegisters_scheme" where
  "PEXEH s =
     (if Rd s = 0 then s
      else let rt = rRt s
           in wr_Rds
             [(0, US 2 rt), (1, US 1 rt), (2, US 0 rt), (3, US 3 rt), (4, US 6 rt), (5, US 5
             rt), (6, US 4 rt), (7, US 7 rt)] s)"

definition PREVH :: "'a cpuRegisters_scheme \<Rightarrow> 'a cpuRegisters_scheme" where
  "PREVH s =
     (if Rd s = 0 then s
      else let rt = rRt s
           in wr_Rds
             [(0, US 3 rt), (1, US 2 rt), (2, US 1 rt), (3, US 0 rt), (4, US 7 rt), (5, US 6
             rt), (6, US 5 rt), (7, US 4 rt)] s)"

definition PMULTH :: "'a cpuRegisters_scheme \<Rightarrow> 'a cpuRegisters_scheme" where
  "PMULTH s =
     (let s = wr_LO 0 (hmul 0 s) s; s = wr_LO 1 (hmul 1 s) s;
          s = wr_HI 0 (hmul 2 s) s; s = wr_HI 1 (hmul 3 s) s;
          s = wr_LO 2 (hmul 4 s) s; s = wr_LO 3 (hmul 5 s) s;
          s = wr_HI 2 (hmul 6 s) s; s = wr_HI 3 (hmul 7 s) s
      in wr_Rd_LOHI s)"

definition PDIVBW_lane :: "nat \<Rightarrow> 'a cpuRegisters_scheme \<Rightarrow> 'a cpuRegisters_scheme" where
  "PDIVBW_lane n s =
     (if UL n (rRs s) = 0x80000000 \<and> US 0 (rRt s) = 0xffff then
        wr_HI n (0 :: u32) (wr_LO n (0x80000000 :: u32) s)
      else if US 0 (rRt s) \<noteq> 0 then
        wr_HI n (word_of_int (SL n (rRs s) smod SS 0 (rRt s)) :: u32)
          (wr_LO n (word_of_int (SL n (rRs s) sdiv SS 0 (rRt s)) :: u32) s)
      else wr_HI n (UL n (rRs s)) (wr_LO n (if SL n (rRs s) < 0 then 1 else - 1 :: u32) s))"

definition PDIVBW :: "'a cpuRegisters_scheme \<Rightarrow> 'a cpuRegisters_scheme" where
  "PDIVBW s = fold PDIVBW_lane [0, 1, 2, 3] s"

definition PEXEW :: "'a cpuRegisters_scheme \<Rightarrow> 'a cpuRegisters_scheme" where
  "PEXEW s =
     (if Rd s = 0 then s
      else let rt = rRt s
           in wr_Rds
             [(0, UL 2 rt), (1, UL 1 rt), (2, UL 0 rt), (3, UL 3 rt)] s)"

definition PROT3W :: "'a cpuRegisters_scheme \<Rightarrow> 'a cpuRegisters_scheme" where
  "PROT3W s =
     (if Rd s = 0 then s
      else let rt = rRt s
           in wr_Rds
             [(0, UL 1 rt), (1, UL 2 rt), (2, UL 0 rt), (3, UL 3 rt)] s)"

section \<open>MMI3 class\<close>

definition PMADDUW_lane :: "nat \<Rightarrow> nat \<Rightarrow> 'a cpuRegisters_scheme \<Rightarrow> 'a cpuRegisters_scheme" where
  "PMADDUW_lane dd ss s =
     (let tempu = join32 (UL ss (HI s)) (UL ss (LO s)) + ucast (UL ss (rRs s)) * ucast (UL ss (rRt s));
          s1 = wr_LO dd (sx32 (lo32 tempu)) s;
          s2 = wr_HI dd (sx32 (hi32 tempu)) s1
      in if Rd s \<noteq> 0 then wr_Rd dd tempu s2 else s2)"

definition PMADDUW :: "'a cpuRegisters_scheme \<Rightarrow> 'a cpuRegisters_scheme" where
  "PMADDUW s = PMADDUW_lane 1 2 (PMADDUW_lane 0 0 s)"

definition PSRAVW :: "'a cpuRegisters_scheme \<Rightarrow> 'a cpuRegisters_scheme" where
  "PSRAVW s =
     (if Rd s = 0 then s
      else let s1 = wr_Rd 0 (sx32 (signed_drop_bit (unat (UL 0 (rRs s) AND 0x1F)) (UL 0 (rRt s)))) s
           in wr_Rd 1 (sx32 (signed_drop_bit (unat (UL 2 (rRs s1) AND 0x1F)) (UL 2 (rRt s1)))) s1)"

definition PMTHI :: "'a cpuRegisters_scheme \<Rightarrow> 'a cpuRegisters_scheme" where
  "PMTHI s = wr_HI 1 (UD 1 (rRs s)) (wr_HI 0 (UD 0 (rRs s)) s)"

definition PMTLO :: "'a cpuRegisters_scheme \<Rightarrow> 'a cpuRegisters_scheme" where
  "PMTLO s = wr_LO 1 (UD 1 (rRs s)) (wr_LO 0 (UD 0 (rRs s)) s)"

definition PINTEH :: "'a cpuRegisters_scheme \<Rightarrow> 'a cpuRegisters_scheme" where
  "PINTEH s =
     (if Rd s = 0 then s
      else let rs = rRs s; rt = rRt s
           in wr_Rds
             [(0, US 0 rt), (1, US 0 rs), (2, US 2 rt), (3, US 2 rs), (4, US 4 rt), (5, US 4
             rs), (6, US 6 rt), (7, US 6 rs)] s)"

definition PMULTUW_lane :: "nat \<Rightarrow> nat \<Rightarrow> 'a cpuRegisters_scheme \<Rightarrow> 'a cpuRegisters_scheme" where
  "PMULTUW_lane dd ss s =
     (let tempu = ucast (UL ss (rRs s)) * ucast (UL ss (rRt s)) :: u64;
          s1 = wr_LO dd (sx32 (lo32 tempu)) s;
          s2 = wr_HI dd (sx32 (hi32 tempu)) s1
      in if Rd s \<noteq> 0 then wr_Rd dd tempu s2 else s2)"

definition PMULTUW :: "'a cpuRegisters_scheme \<Rightarrow> 'a cpuRegisters_scheme" where
  "PMULTUW s = PMULTUW_lane 1 2 (PMULTUW_lane 0 0 s)"

definition PDIVUW_lane :: "nat \<Rightarrow> nat \<Rightarrow> 'a cpuRegisters_scheme \<Rightarrow> 'a cpuRegisters_scheme" where
  "PDIVUW_lane dd ss s =
     (if UL ss (rRt s) \<noteq> 0 then
        wr_HI dd (sx32 (UL ss (rRs s) mod UL ss (rRt s)))
          (wr_LO dd (sx32 (UL ss (rRs s) div UL ss (rRt s))) s)
      else wr_HI dd (sx32 (UL ss (rRs s))) (wr_LO dd (- 1 :: u64) s))"

definition PDIVUW :: "'a cpuRegisters_scheme \<Rightarrow> 'a cpuRegisters_scheme" where
  "PDIVUW s = PDIVUW_lane 1 2 (PDIVUW_lane 0 0 s)"

definition PCPYUD :: "'a cpuRegisters_scheme \<Rightarrow> 'a cpuRegisters_scheme" where
  "PCPYUD s =
     (if Rd s = 0 then s
      else let s1 = wr_Rd 0 (UD 1 (rRs s)) s in wr_Rd 1 (UD 1 (rRt s1)) s1)"

definition POR_lane :: "nat \<Rightarrow> 'a cpuRegisters_scheme \<Rightarrow> 'a cpuRegisters_scheme" where
  "POR_lane n s = wr_Rd n (UD n (rRs s) OR UD n (rRt s)) s"

definition POR :: "'a cpuRegisters_scheme \<Rightarrow> 'a cpuRegisters_scheme" where
  "POR s = (if Rd s = 0 then s else fold POR_lane [0, 1] s)"

definition PNOR_lane :: "nat \<Rightarrow> 'a cpuRegisters_scheme \<Rightarrow> 'a cpuRegisters_scheme" where
  "PNOR_lane n s = wr_Rd n (NOT (UD n (rRs s) OR UD n (rRt s))) s"

definition PNOR :: "'a cpuRegisters_scheme \<Rightarrow> 'a cpuRegisters_scheme" where
  "PNOR s = (if Rd s = 0 then s else fold PNOR_lane [0, 1] s)"

definition PEXCH :: "'a cpuRegisters_scheme \<Rightarrow> 'a cpuRegisters_scheme" where
  "PEXCH s =
     (if Rd s = 0 then s
      else let rt = rRt s
           in wr_Rds
             [(0, US 0 rt), (1, US 2 rt), (2, US 1 rt), (3, US 3 rt), (4, US 4 rt), (5, US 6
             rt), (6, US 5 rt), (7, US 7 rt)] s)"

definition PCPYH :: "'a cpuRegisters_scheme \<Rightarrow> 'a cpuRegisters_scheme" where
  "PCPYH s =
     (if Rd s = 0 then s
      else let rt = rRt s
           in wr_Rds
             [(0, US 0 rt), (1, US 0 rt), (2, US 0 rt), (3, US 0 rt), (4, US 4 rt), (5, US 4
             rt), (6, US 4 rt), (7, US 4 rt)] s)"

definition PEXCW :: "'a cpuRegisters_scheme \<Rightarrow> 'a cpuRegisters_scheme" where
  "PEXCW s =
     (if Rd s = 0 then s
      else let rt = rRt s
           in wr_Rds
             [(0, UL 0 rt), (1, UL 2 rt), (2, UL 1 rt), (3, UL 3 rt)] s)"

end
