(* ===== verification/MMIProps.thy ===== *)
theory MMIProps
  imports MMI Arith
begin

text \<open>
  What the multimedia instructions compute, stated on whole registers. \<open>vec32\<close>, \<open>vec16\<close>,
  \<open>vec8\<close> and \<open>vec64\<close> are the specification of a three-operand lane instruction: the destination
  becomes the element-wise image of the two \<^emph>\<open>old\<close> sources, nothing else changes and a
  destination of register zero does nothing. The refinement from the in-place loops of the code
  rests on the facts of the \<open>lane_reg\<close> interpretations.
\<close>

section \<open>Element-wise images of registers\<close>

definition zip32 :: "(u32 \<Rightarrow> u32 \<Rightarrow> u32) \<Rightarrow> u128 \<Rightarrow> u128 \<Rightarrow> u128" where
  "zip32 f a b = fold (\<lambda>i. set_lane i (f (UL i a) (UL i b))) [0..<4] 0"

definition zip16 :: "(u16 \<Rightarrow> u16 \<Rightarrow> u16) \<Rightarrow> u128 \<Rightarrow> u128 \<Rightarrow> u128" where
  "zip16 f a b = fold (\<lambda>i. set_lane i (f (US i a) (US i b))) [0..<8] 0"

definition zip8 :: "(u8 \<Rightarrow> u8 \<Rightarrow> u8) \<Rightarrow> u128 \<Rightarrow> u128 \<Rightarrow> u128" where
  "zip8 f a b = fold (\<lambda>i. set_lane i (f (UC i a) (UC i b))) [0..<16] 0"

definition set_Rd :: "u128 \<Rightarrow> 'a cpuRegisters_scheme \<Rightarrow> 'a cpuRegisters_scheme" where
  "set_Rd v s = (if Rd s = 0 then s else s\<lparr>GPR := (GPR s)(Rd s := v)\<rparr>)"

definition vec32 :: "(u32 \<Rightarrow> u32 \<Rightarrow> u32) \<Rightarrow> 'a cpuRegisters_scheme \<Rightarrow> 'a cpuRegisters_scheme" where
  "vec32 f s = set_Rd (zip32 f (rRs s) (rRt s)) s"

definition vec16 :: "(u16 \<Rightarrow> u16 \<Rightarrow> u16) \<Rightarrow> 'a cpuRegisters_scheme \<Rightarrow> 'a cpuRegisters_scheme" where
  "vec16 f s = set_Rd (zip16 f (rRs s) (rRt s)) s"

definition vec8 :: "(u8 \<Rightarrow> u8 \<Rightarrow> u8) \<Rightarrow> 'a cpuRegisters_scheme \<Rightarrow> 'a cpuRegisters_scheme" where
  "vec8 f s = set_Rd (zip8 f (rRs s) (rRt s)) s"

definition vec128 :: "(u128 \<Rightarrow> u128 \<Rightarrow> u128) \<Rightarrow> 'a cpuRegisters_scheme \<Rightarrow> 'a cpuRegisters_scheme" where
  "vec128 f s = set_Rd (f (rRs s) (rRt s)) s"

context lane_reg
begin

lemma fold_put_get:
  "m \<le> n \<Longrightarrow> j < n \<Longrightarrow>
   get j (fold (\<lambda>i. put i (g i)) [0..<m] r) = (if j < m then g j else get j r)"
proof (induction m)
  case 0
  then show ?case by simp
next
  case (Suc m)
  then show ?case
    by (cases "j = m") (simp_all add: get_put_same get_put_other less_Suc_eq)
qed

text \<open>Steps on a state that embeds the register file are steps on the file.\<close>

lemma fold_state:
  assumes "\<And>m t. keep t \<Longrightarrow> keep (step m t)"
    and "\<And>m t. keep t \<Longrightarrow> step m t = upd (lane_step f rd rs rt m (regs t)) t"
    and "\<And>R t. regs (upd R t) = R" and "\<And>R Q t. upd R (upd Q t) = upd R t"
    and "\<And>t. upd (regs t) t = t"
    and "keep s"
  shows "fold step ms s = upd (fold (lane_step f rd rs rt) ms (regs s)) s"
  using assms(6)
proof (induction ms arbitrary: s)
  case Nil
  then show ?case by (simp add: assms(5))
next
  case (Cons m ms)
  have "fold step (m # ms) s = upd (fold (lane_step f rd rs rt) ms (regs (step m s))) (step m s)"
    using Cons assms(1) by simp
  then show ?case
    by (simp add: assms(2) [OF Cons.prems] assms(3,4))
qed

end

lemma UL_zip32 [simp]: "i < 4 \<Longrightarrow> UL i (zip32 f a b) = f (UL i a) (UL i b)"
  unfolding zip32_def by (subst lane32.fold_put_get) auto

lemma US_zip16 [simp]: "i < 8 \<Longrightarrow> US i (zip16 f a b) = f (US i a) (US i b)"
  unfolding zip16_def by (subst lane16.fold_put_get) auto

lemma UC_zip8 [simp]: "i < 16 \<Longrightarrow> UC i (zip8 f a b) = f (UC i a) (UC i b)"
  unfolding zip8_def by (subst lane8.fold_put_get) auto

lemma upt_lists:
  "[0, 1] = [0..<2]" "[0, 1, 2, 3] = [0..<4]" "[0, 1, 2, 3, 4, 5, 6, 7] = [0..<8]"
  by (simp_all add: upt_rec)

text \<open>A run of lane steps is the element-wise image of the sources.\<close>

lemma vec32I:
  assumes "\<And>n t. code t = code s \<Longrightarrow> op n t = wr_Rd n (f (UL n (rRs t)) (UL n (rRt t))) t"
  shows "(if Rd s = 0 then s else fold op [0, 1, 2, 3] s) = vec32 f s"
proof -
  have "fold op [0..<4] s =
      GPR_update (\<lambda>_. fold (lane32.lane_step (\<lambda>_. f) (Rd s) (Rs s) (Rt s)) [0..<4] (GPR s)) s"
    by (rule lane32.fold_state [where keep = "\<lambda>t. code t = code s" and regs = GPR])
      (simp_all add: assms wr_gpr_def lane32.lane_step_def fun_upd_def)
  also have "\<dots> = s\<lparr>GPR := (GPR s)(Rd s := zip32 f (rRs s) (rRt s))\<rparr>"
    by (subst lane32.lane_loop_eq [where z = "zip32 f (rRs s) (rRt s)"]) auto
  finally show ?thesis
    by (simp only: upt_lists vec32_def set_Rd_def)
qed

lemma vec16I:
  assumes "\<And>n t. code t = code s \<Longrightarrow> op n t = wr_Rd n (f (US n (rRs t)) (US n (rRt t))) t"
  shows "(if Rd s = 0 then s else fold op [0, 1, 2, 3, 4, 5, 6, 7] s) = vec16 f s"
proof -
  have "fold op [0..<8] s =
      GPR_update (\<lambda>_. fold (lane16.lane_step (\<lambda>_. f) (Rd s) (Rs s) (Rt s)) [0..<8] (GPR s)) s"
    by (rule lane16.fold_state [where keep = "\<lambda>t. code t = code s" and regs = GPR])
      (simp_all add: assms wr_gpr_def lane16.lane_step_def fun_upd_def)
  also have "\<dots> = s\<lparr>GPR := (GPR s)(Rd s := zip16 f (rRs s) (rRt s))\<rparr>"
    by (subst lane16.lane_loop_eq [where z = "zip16 f (rRs s) (rRt s)"]) auto
  finally show ?thesis
    by (simp only: upt_lists vec16_def set_Rd_def)
qed

lemma vec8I:
  assumes "\<And>n t. code t = code s \<Longrightarrow> op n t = wr_Rd n (f (UC n (rRs t)) (UC n (rRt t))) t"
  shows "(if Rd s = 0 then s else fold op [0..<16] s) = vec8 f s"
proof -
  have "fold op [0..<16] s =
      GPR_update (\<lambda>_. fold (lane8.lane_step (\<lambda>_. f) (Rd s) (Rs s) (Rt s)) [0..<16] (GPR s)) s"
    by (rule lane8.fold_state [where keep = "\<lambda>t. code t = code s" and regs = GPR])
      (simp_all add: assms wr_gpr_def lane8.lane_step_def fun_upd_def)
  also have "\<dots> = s\<lparr>GPR := (GPR s)(Rd s := zip8 f (rRs s) (rRt s))\<rparr>"
    by (subst lane8.lane_loop_eq [where z = "zip8 f (rRs s) (rRt s)"]) auto
  finally show ?thesis
    by (simp only: vec8_def set_Rd_def)
qed

lemma vec64I:
  assumes "\<And>n t. code t = code s \<Longrightarrow> op n t = wr_Rd n (f (UD n (rRs t)) (UD n (rRt t))) t"
    and "\<And>i a b. i < 2 \<Longrightarrow> UD i (g a b) = f (UD i a) (UD i b)"
  shows "(if Rd s = 0 then s else fold op [0, 1] s) = vec128 g s"
proof -
  have "fold op [0..<2] s =
      GPR_update (\<lambda>_. fold (lane64.lane_step (\<lambda>_. f) (Rd s) (Rs s) (Rt s)) [0..<2] (GPR s)) s"
    by (rule lane64.fold_state [where keep = "\<lambda>t. code t = code s" and regs = GPR])
      (simp_all add: assms wr_gpr_def lane64.lane_step_def fun_upd_def)
  also have "\<dots> = s\<lparr>GPR := (GPR s)(Rd s := g (rRs s) (rRt s))\<rparr>"
    by (subst lane64.lane_loop_eq [where z = "g (rRs s) (rRt s)"]) (auto simp: assms(2))
  finally show ?thesis
    by (simp only: upt_lists vec128_def set_Rd_def)
qed

section \<open>Saturating arithmetic\<close>

text \<open>Clamping of an exact integer to the range of a signed or unsigned element.\<close>

definition ssat :: "int \<Rightarrow> 'l::len word" where
  "ssat z = word_of_int (max (- (2 ^ (LENGTH('l) - 1))) (min z (2 ^ (LENGTH('l) - 1) - 1)))"

definition usat :: "int \<Rightarrow> 'l::len word" where
  "usat z = word_of_int (max 0 (min z (2 ^ LENGTH('l) - 1)))"

lemma min_elements:
  "(- 1 :: u32) = 0xFFFFFFFF" "(- 1 :: u16) = 0xFFFF" "(- 1 :: u8) = 0xFF"
  "(- 0x80000000 :: u32) = 0x80000000" "(- 0x8000 :: u16) = 0x8000" "(- 128 :: u8) = 0x80"
  by simp_all

lemma usat_diff:
  "usat (uint a - uint b) =
     (if uint a - uint b \<le> 0 then 0 else word_of_int (uint a - uint b) :: 'l::len word)"
  for a b :: "'l::len word"
proof -
  have "uint a - uint b \<le> 2 ^ LENGTH('l) - 1"
    using uint_lt2p [of a] uint_ge_0 [of b] by linarith
  then show ?thesis
    by (simp add: usat_def min_absorb1 max_def)
qed

text \<open>
  C7: the saturating additions and subtractions (\<open>PADDS*\<close>, \<open>PSUBS*\<close>, \<open>PADDU*\<close>, \<open>PSUBU*\<close>) put
  the exact sum or difference of the two signed (unsigned) elements, clamped to the element's
  range, in every element of the destination, whatever registers coincide.
\<close>

theorem saturating_arithmetic:
  "PADDSW s = vec32 (\<lambda>a b. ssat (sint a + sint b)) s \<and>
   PSUBSW s = vec32 (\<lambda>a b. ssat (sint a - sint b)) s \<and>
   PADDSH s = vec16 (\<lambda>a b. ssat (sint a + sint b)) s \<and>
   PSUBSH s = vec16 (\<lambda>a b. ssat (sint a - sint b)) s \<and>
   PADDSB s = vec8 (\<lambda>a b. ssat (sint a + sint b)) s \<and>
   PSUBSB s = vec8 (\<lambda>a b. ssat (sint a - sint b)) s \<and>
   PADDUW s = vec32 (\<lambda>a b. usat (uint a + uint b)) s \<and>
   PSUBUW s = vec32 (\<lambda>a b. usat (uint a - uint b)) s \<and>
   PADDUH s = vec16 (\<lambda>a b. usat (uint a + uint b)) s \<and>
   PSUBUH s = vec16 (\<lambda>a b. usat (uint a - uint b)) s \<and>
   PADDUB s = vec8 (\<lambda>a b. usat (uint a + uint b)) s \<and>
   PSUBUB s = vec8 (\<lambda>a b. usat (uint a - uint b)) s"
proof (intro conjI)
  show "PADDSW s = vec32 (\<lambda>a b. ssat (sint a + sint b)) s"
    unfolding PADDSW_def by (rule vec32I) (auto simp: PADDSW_lane_def Let_def ssat_def min_elements)
  show "PSUBSW s = vec32 (\<lambda>a b. ssat (sint a - sint b)) s"
    unfolding PSUBSW_def by (rule vec32I) (auto simp: PSUBSW_lane_def Let_def ssat_def min_elements)
  show "PADDSH s = vec16 (\<lambda>a b. ssat (sint a + sint b)) s"
    unfolding PADDSH_def by (rule vec16I) (auto simp: PADDSH_lane_def Let_def ssat_def min_elements)
  show "PSUBSH s = vec16 (\<lambda>a b. ssat (sint a - sint b)) s"
    unfolding PSUBSH_def by (rule vec16I) (auto simp: PSUBSH_lane_def Let_def ssat_def min_elements)
  show "PADDSB s = vec8 (\<lambda>a b. ssat (sint a + sint b)) s"
    unfolding PADDSB_def by (rule vec8I) (auto simp: PADDSB_lane_def Let_def ssat_def min_elements)
  show "PSUBSB s = vec8 (\<lambda>a b. ssat (sint a - sint b)) s"
    unfolding PSUBSB_def by (rule vec8I) (auto simp: PSUBSB_lane_def Let_def ssat_def min_elements)
  show "PADDUW s = vec32 (\<lambda>a b. usat (uint a + uint b)) s"
    unfolding PADDUW_def by (rule vec32I) (auto simp: PADDUW_lane_def Let_def usat_def min_elements)
  show "PSUBUW s = vec32 (\<lambda>a b. usat (uint a - uint b)) s"
    unfolding PSUBUW_def by (rule vec32I) (simp only: PSUBUW_lane_def Let_def usat_diff)
  show "PADDUH s = vec16 (\<lambda>a b. usat (uint a + uint b)) s"
    unfolding PADDUH_def by (rule vec16I) (auto simp: PADDUH_lane_def Let_def usat_def min_elements)
  show "PSUBUH s = vec16 (\<lambda>a b. usat (uint a - uint b)) s"
    unfolding PSUBUH_def by (rule vec16I) (simp only: PSUBUH_lane_def Let_def usat_diff)
  show "PADDUB s = vec8 (\<lambda>a b. usat (uint a + uint b)) s"
    unfolding PADDUB_def by (rule vec8I) (auto simp: PADDUB_lane_def Let_def usat_def min_elements)
  show "PSUBUB s = vec8 (\<lambda>a b. usat (uint a - uint b)) s"
    unfolding PSUBUB_def by (rule vec8I) (simp only: PSUBUB_lane_def Let_def usat_diff)
qed

section \<open>Wrapping, comparing, selecting and logical instructions\<close>

lemma word_of_int_max_sint:
  "word_of_int (max (sint a) (sint b)) = (if sint a > sint b then a else b :: 'l::len word)"
  "word_of_int (min (sint a) (sint b)) = (if sint a < sint b then a else b :: 'l::len word)"
  by (simp_all add: max_def min_def)

text \<open>
  The absolute value of the least element is clamped; the others negate without overflow.
\<close>

lemma ssat_abs:
  fixes b :: "'l::len word"
  assumes "2 \<le> LENGTH('l)"
  shows "ssat \<bar>sint b\<bar> =
     (if sint b = - (2 ^ (LENGTH('l) - 1)) then word_of_int (2 ^ (LENGTH('l) - 1) - 1)
      else if sint b < 0 then - b else b)"
proof -
  have lo: "- (2 ^ (LENGTH('l) - 1)) \<le> sint b" and hi: "sint b < 2 ^ (LENGTH('l) - 1)"
    using sint_greater_eq [of b] sint_lt [of b] by simp_all
  have neg: "word_of_int (- sint b) = - b"
    by simp
  show ?thesis
    using lo hi neg by (auto simp: ssat_def max_def min_def)
qed

lemma min_element_sint:
  "(w :: u32) = 0x80000000 \<longleftrightarrow> sint w = - (2 ^ 31)"
  "(h :: u16) = 0x8000 \<longleftrightarrow> sint h = - (2 ^ 15)"
proof -
  have "sint (0x80000000 :: u32) = - (2 ^ 31)" "sint (0x8000 :: u16) = - (2 ^ 15)"
    by simp_all
  then show "w = 0x80000000 \<longleftrightarrow> sint w = - (2 ^ 31)" "h = 0x8000 \<longleftrightarrow> sint h = - (2 ^ 15)"
    by (metis signed_word_eqI)+
qed

lemma UD_bitwise:
  "UD i (a AND b) = UD i a AND UD i b" "UD i (a OR b) = UD i a OR UD i b"
  "UD i (a XOR b) = UD i a XOR UD i b"
  by (rule bit_word_eqI; auto simp: bit_lane bit_simps)+

lemma UD_not: "i < 2 \<Longrightarrow> UD i (NOT a) = NOT (UD i a)"
  by (rule bit_word_eqI) (auto simp: bit_lane bit_not_iff)

text \<open>
  the remaining lane instructions: additions and subtractions wrap in every element,
  \<open>PCGT*\<close> and \<open>PCEQ*\<close> produce all-ones or zero masks, \<open>PMAX*\<close> and \<open>PMIN*\<close> the signed maximum and
  minimum, \<open>PABS*\<close> the absolute value with the least element clamped, and the logical
  instructions act on all 128 bits; all of them from the old sources, whatever registers coincide.
\<close>

theorem lane_instructions:
  "PADDW s = vec32 (+) s \<and> PSUBW s = vec32 (-) s \<and> PADDH s = vec16 (+) s \<and>
   PSUBH s = vec16 (-) s \<and> PADDB s = vec8 (+) s \<and> PSUBB s = vec8 (-) s \<and>
   PCGTW s = vec32 (\<lambda>a b. if sint a > sint b then - 1 else 0) s \<and>
   PCGTH s = vec16 (\<lambda>a b. if sint a > sint b then - 1 else 0) s \<and>
   PCGTB s = vec8 (\<lambda>a b. if sint a > sint b then - 1 else 0) s \<and>
   PCEQW s = vec32 (\<lambda>a b. if a = b then - 1 else 0) s \<and>
   PCEQH s = vec16 (\<lambda>a b. if a = b then - 1 else 0) s \<and>
   PCEQB s = vec8 (\<lambda>a b. if a = b then - 1 else 0) s \<and>
   PMAXW s = vec32 (\<lambda>a b. word_of_int (max (sint a) (sint b))) s \<and>
   PMAXH s = vec16 (\<lambda>a b. word_of_int (max (sint a) (sint b))) s \<and>
   PMINW s = vec32 (\<lambda>a b. word_of_int (min (sint a) (sint b))) s \<and>
   PMINH s = vec16 (\<lambda>a b. word_of_int (min (sint a) (sint b))) s \<and>
   PABSW s = vec32 (\<lambda>a b. ssat \<bar>sint b\<bar>) s \<and> PABSH s = vec16 (\<lambda>a b. ssat \<bar>sint b\<bar>) s \<and>
   PAND s = vec128 (AND) s \<and> POR s = vec128 (OR) s \<and> PXOR s = vec128 (XOR) s \<and>
   PNOR s = vec128 (\<lambda>a b. NOT (a OR b)) s"
proof (intro conjI)
  show "PADDW s = vec32 (+) s" unfolding PADDW_def by (rule vec32I) (simp add: PADDW_lane_def)
  show "PSUBW s = vec32 (-) s" unfolding PSUBW_def by (rule vec32I) (simp add: PSUBW_lane_def)
  show "PADDH s = vec16 (+) s" unfolding PADDH_def by (rule vec16I) (simp add: PADDH_lane_def)
  show "PSUBH s = vec16 (-) s" unfolding PSUBH_def by (rule vec16I) (simp add: PSUBH_lane_def)
  show "PADDB s = vec8 (+) s" unfolding PADDB_def by (rule vec8I) (simp add: PADDB_lane_def)
  show "PSUBB s = vec8 (-) s" unfolding PSUBB_def by (rule vec8I) (simp add: PSUBB_lane_def)
  show "PCGTW s = vec32 (\<lambda>a b. if sint a > sint b then - 1 else 0) s"
    unfolding PCGTW_def by (rule vec32I) (simp only: PCGTW_lane_def min_elements)
  show "PCGTH s = vec16 (\<lambda>a b. if sint a > sint b then - 1 else 0) s"
    unfolding PCGTH_def by (rule vec16I) (simp only: PCGTH_lane_def min_elements)
  show "PCGTB s = vec8 (\<lambda>a b. if sint a > sint b then - 1 else 0) s"
    unfolding PCGTB_def by (rule vec8I) (simp only: PCGTB_lane_def min_elements)
  show "PCEQW s = vec32 (\<lambda>a b. if a = b then - 1 else 0) s"
    unfolding PCEQW_def by (rule vec32I) (simp only: PCEQW_lane_def min_elements)
  show "PCEQH s = vec16 (\<lambda>a b. if a = b then - 1 else 0) s"
    unfolding PCEQH_def by (rule vec16I) (simp only: PCEQH_lane_def min_elements)
  show "PCEQB s = vec8 (\<lambda>a b. if a = b then - 1 else 0) s"
    unfolding PCEQB_def by (rule vec8I) (simp only: PCEQB_lane_def min_elements)
  show "PMAXW s = vec32 (\<lambda>a b. word_of_int (max (sint a) (sint b))) s"
    unfolding PMAXW_def by (rule vec32I) (simp only: PMAXW_lane_def word_of_int_max_sint)
  show "PMAXH s = vec16 (\<lambda>a b. word_of_int (max (sint a) (sint b))) s"
    unfolding PMAXH_def by (rule vec16I) (simp only: PMAXH_lane_def word_of_int_max_sint)
  show "PMINW s = vec32 (\<lambda>a b. word_of_int (min (sint a) (sint b))) s"
    unfolding PMINW_def by (rule vec32I) (simp only: PMINW_lane_def word_of_int_max_sint)
  show "PMINH s = vec16 (\<lambda>a b. word_of_int (min (sint a) (sint b))) s"
    unfolding PMINH_def by (rule vec16I) (simp only: PMINH_lane_def word_of_int_max_sint)
  show "PABSW s = vec32 (\<lambda>a b. ssat \<bar>sint b\<bar>) s"
    unfolding PABSW_def by (rule vec32I) (simp add: PABSW_lane_def ssat_abs min_element_sint)
  show "PABSH s = vec16 (\<lambda>a b. ssat \<bar>sint b\<bar>) s"
    unfolding PABSH_def by (rule vec16I) (simp add: PABSH_lane_def ssat_abs min_element_sint)
  show "PAND s = vec128 (AND) s"
    unfolding PAND_def by (rule vec64I) (simp_all only: PAND_lane_def UD_bitwise)
  show "POR s = vec128 (OR) s"
    unfolding POR_def by (rule vec64I) (simp_all only: POR_lane_def UD_bitwise)
  show "PXOR s = vec128 (XOR) s"
    unfolding PXOR_def by (rule vec64I) (simp_all only: PXOR_lane_def UD_bitwise)
  show "PNOR s = vec128 (\<lambda>a b. NOT (a OR b)) s"
    unfolding PNOR_def by (rule vec64I) (simp_all only: PNOR_lane_def UD_bitwise UD_not)
qed

section \<open>Interleaving, packing and permuting\<close>

definition ofUL :: "u32 list \<Rightarrow> u128" where
  "ofUL vs = fold (\<lambda>(i, v). set_lane i v) (enumerate 0 vs) 0"

definition ofUS :: "u16 list \<Rightarrow> u128" where
  "ofUS vs = fold (\<lambda>(i, v). set_lane i v) (enumerate 0 vs) 0"

definition ofUC :: "u8 list \<Rightarrow> u128" where
  "ofUC vs = fold (\<lambda>(i, v). set_lane i v) (enumerate 0 vs) 0"

lemma lanes_of [simp]:
  "length ws = 4 \<Longrightarrow> j < 4 \<Longrightarrow> UL j (ofUL ws) = ws ! j"
  "length hs = 8 \<Longrightarrow> j < 8 \<Longrightarrow> US j (ofUS hs) = hs ! j"
  "length bs = 16 \<Longrightarrow> j < 16 \<Longrightarrow> UC j (ofUC bs) = bs ! j"
  by (simp_all add: ofUL_def ofUS_def ofUC_def lane32.puts_get lane16.puts_get lane8.puts_get)

lemma wr_Rds_eq:
  "wr_Rds ivs s = s\<lparr>GPR := (GPR s)(Rd s := fold (\<lambda>(i, v). set_lane i v) ivs (GPR s (Rd s)))\<rparr>"
proof (induction ivs arbitrary: s)
  case Nil
  then show ?case by (simp add: wr_Rds_def)
next
  case (Cons iv ivs)
  obtain i v where "iv = (i, v)" by fastforce
  then show ?case
    using Cons [of "wr_Rd i v s"] by (simp add: wr_Rds_def wr_gpr_def cong: if_cong)
qed

lemma wr_Rds_full:
  "length ws = 4 \<Longrightarrow> (if Rd s = 0 then s else wr_Rds (enumerate 0 ws) s) = set_Rd (ofUL ws) s"
  "length hs = 8 \<Longrightarrow> (if Rd s = 0 then s else wr_Rds (enumerate 0 hs) s) = set_Rd (ofUS hs) s"
  "length bs = 16 \<Longrightarrow> (if Rd s = 0 then s else wr_Rds (enumerate 0 bs) s) = set_Rd (ofUC bs) s"
  using lane32.puts_full [of ws "ofUL ws"] lane16.puts_full [of hs "ofUS hs"]
    lane8.puts_full [of bs "ofUC bs"]
  by (simp_all add: wr_Rds_eq set_Rd_def)

lemma wr_RdsI:
  "ivs = enumerate 0 ws \<Longrightarrow> length ws = 4 \<Longrightarrow>
     (if Rd s = 0 then s else wr_Rds ivs s) = set_Rd (ofUL ws) s"
  "ihs = enumerate 0 hs \<Longrightarrow> length hs = 8 \<Longrightarrow>
     (if Rd s = 0 then s else wr_Rds ihs s) = set_Rd (ofUS hs) s"
  "ibs = enumerate 0 bs \<Longrightarrow> length bs = 16 \<Longrightarrow>
     (if Rd s = 0 then s else wr_Rds ibs s) = set_Rd (ofUC bs) s"
  by (simp_all only: wr_Rds_full)

text \<open>The shuffles as whole-register writes.\<close>

lemma shuffle_eqs:
  "PEXTLW s = set_Rd (ofUL [UL 0 (rRt s), UL 0 (rRs s), UL 1 (rRt s), UL 1 (rRs s)]) s"
  "PEXTUW s = set_Rd (ofUL [UL 2 (rRt s), UL 2 (rRs s), UL 3 (rRt s), UL 3 (rRs s)]) s"
  "PPACW s = set_Rd (ofUL [UL 0 (rRt s), UL 2 (rRt s), UL 0 (rRs s), UL 2 (rRs s)]) s"
  "PEXTLH s = set_Rd (ofUS [US 0 (rRt s), US 0 (rRs s), US 1 (rRt s), US 1 (rRs s), US 2
     (rRt s), US 2 (rRs s), US 3 (rRt s), US 3 (rRs s)]) s"
  "PEXTUH s = set_Rd (ofUS [US 4 (rRt s), US 4 (rRs s), US 5 (rRt s), US 5 (rRs s), US 6
     (rRt s), US 6 (rRs s), US 7 (rRt s), US 7 (rRs s)]) s"
  "PPACH s = set_Rd (ofUS [US 0 (rRt s), US 2 (rRt s), US 4 (rRt s), US 6 (rRt s), US 0 (rRs
     s), US 2 (rRs s), US 4 (rRs s), US 6 (rRs s)]) s"
  "PEXTLB s = set_Rd (ofUC [UC 0 (rRt s), UC 0 (rRs s), UC 1 (rRt s), UC 1 (rRs s), UC 2
     (rRt s), UC 2 (rRs s), UC 3 (rRt s), UC 3 (rRs s), UC 4 (rRt s), UC 4 (rRs s), UC 5
     (rRt s), UC 5 (rRs s), UC 6 (rRt s), UC 6 (rRs s), UC 7 (rRt s), UC 7 (rRs s)]) s"
  "PEXTUB s = set_Rd (ofUC [UC 8 (rRt s), UC 8 (rRs s), UC 9 (rRt s), UC 9 (rRs s), UC 10
     (rRt s), UC 10 (rRs s), UC 11 (rRt s), UC 11 (rRs s), UC 12 (rRt s), UC 12 (rRs s), UC
     13 (rRt s), UC 13 (rRs s), UC 14 (rRt s), UC 14 (rRs s), UC 15 (rRt s), UC 15 (rRs s)])
     s"
  "PPACB s = set_Rd (ofUC [UC 0 (rRt s), UC 2 (rRt s), UC 4 (rRt s), UC 6 (rRt s), UC 8 (rRt
     s), UC 10 (rRt s), UC 12 (rRt s), UC 14 (rRt s), UC 0 (rRs s), UC 2 (rRs s), UC 4 (rRs
     s), UC 6 (rRs s), UC 8 (rRs s), UC 10 (rRs s), UC 12 (rRs s), UC 14 (rRs s)]) s"
  "PINTH s = set_Rd (ofUS [US 0 (rRt s), US 4 (rRs s), US 1 (rRt s), US 5 (rRs s), US 2 (rRt
     s), US 6 (rRs s), US 3 (rRt s), US 7 (rRs s)]) s"
  "PINTEH s = set_Rd (ofUS [US 0 (rRt s), US 0 (rRs s), US 2 (rRt s), US 2 (rRs s), US 4
     (rRt s), US 4 (rRs s), US 6 (rRt s), US 6 (rRs s)]) s"
  "PEXEH s = set_Rd (ofUS [US 2 (rRt s), US 1 (rRt s), US 0 (rRt s), US 3 (rRt s), US 6 (rRt
     s), US 5 (rRt s), US 4 (rRt s), US 7 (rRt s)]) s"
  "PREVH s = set_Rd (ofUS [US 3 (rRt s), US 2 (rRt s), US 1 (rRt s), US 0 (rRt s), US 7 (rRt
     s), US 6 (rRt s), US 5 (rRt s), US 4 (rRt s)]) s"
  "PEXEW s = set_Rd (ofUL [UL 2 (rRt s), UL 1 (rRt s), UL 0 (rRt s), UL 3 (rRt s)]) s"
  "PROT3W s = set_Rd (ofUL [UL 1 (rRt s), UL 2 (rRt s), UL 0 (rRt s), UL 3 (rRt s)]) s"
  "PEXCH s = set_Rd (ofUS [US 0 (rRt s), US 2 (rRt s), US 1 (rRt s), US 3 (rRt s), US 4 (rRt
     s), US 6 (rRt s), US 5 (rRt s), US 7 (rRt s)]) s"
  "PEXCW s = set_Rd (ofUL [UL 0 (rRt s), UL 2 (rRt s), UL 1 (rRt s), UL 3 (rRt s)]) s"
  "PCPYH s = set_Rd (ofUS [US 0 (rRt s), US 0 (rRt s), US 0 (rRt s), US 0 (rRt s), US 4 (rRt
     s), US 4 (rRt s), US 4 (rRt s), US 4 (rRt s)]) s"
  unfolding PEXTLW_def PEXTUW_def PPACW_def PEXTLH_def PEXTUH_def PPACH_def PEXTLB_def PEXTUB_def
    PPACB_def PINTH_def PINTEH_def PEXEH_def PREVH_def PEXEW_def PROT3W_def PEXCH_def
    PEXCW_def PCPYH_def Let_def
  by (rule wr_RdsI; simp add: eval_nat_numeral)+

lemma all_less_numeral:
  "(\<forall>i < 4. P i) \<longleftrightarrow> P 0 \<and> P 1 \<and> P 2 \<and> P (3 :: nat)"
  "(\<forall>i < 8. P i) \<longleftrightarrow> P 0 \<and> P 1 \<and> P 2 \<and> P 3 \<and> P 4 \<and> P 5 \<and> P 6 \<and> P (7 :: nat)"
  "(\<forall>i < 16. P i) \<longleftrightarrow> P 0 \<and> P 1 \<and> P 2 \<and> P 3 \<and> P 4 \<and> P 5 \<and> P 6 \<and> P 7 \<and> P 8 \<and> P 9 \<and>
     P 10 \<and> P 11 \<and> P 12 \<and> P 13 \<and> P 14 \<and> P (15 :: nat)"
  by (simp_all add: numeral_eq_Suc All_less_Suc2)

lemma lane_extI:
  "\<forall>i < 4. UL i x = UL i y \<Longrightarrow> x = y" "\<forall>i < 8. US i x = US i y \<Longrightarrow> x = y"
  "\<forall>i < 16. UC i x = UC i y \<Longrightarrow> x = y"
  by (simp_all add: lane32.ext lane16.ext lane8.ext)

lemma run3_shuffle:
  "(\<And>t. op t = set_Rd (f (rRs t) (rRt t)) t) \<Longrightarrow> rd \<noteq> 0 \<Longrightarrow>
   GPR (run3 op rd rs rt s) q = (if q = rd then f (GPR s rs) (GPR s rt) else GPR s q)"
  by (simp add: run3_def set_Rd_def)

lemma of_lanes_id [simp]:
  "ofUL [UL 0 x, UL 1 x, UL 2 x, UL 3 x] = x"
  "ofUS [US 0 x, US 1 x, US 2 x, US 3 x, US 4 x, US 5 x, US 6 x, US 7 x] = x"
  "ofUC [UC 0 x, UC 1 x, UC 2 x, UC 3 x, UC 4 x, UC 5 x, UC 6 x, UC 7 x, UC 8 x, UC 9 x, UC 10 x,
     UC 11 x, UC 12 x, UC 13 x, UC 14 x, UC 15 x] = x"
  by (rule lane_extI, simp only: all_less_numeral, simp)+

lemmas of_lanes_id_Suc [simp] = of_lanes_id [unfolded One_nat_def]

text \<open>
  packing inverts interleaving. After \<open>PEXTL*\<close> and \<open>PEXTU*\<close> have interleaved the lower and
  the upper elements of two registers into two others, \<open>PPAC*\<close> of these gives the second source
  back, for words, halfwords and bytes.
\<close>

theorem pack_interleave:
  assumes "d \<noteq> 0" "e \<noteq> 0" "f \<noteq> 0" "d \<noteq> a" "d \<noteq> b" "d \<noteq> e"
  shows "GPR (run3 PPACW f e d (run3 PEXTUW e a b (run3 PEXTLW d a b s))) f = GPR s b \<and>
    GPR (run3 PPACH f e d (run3 PEXTUH e a b (run3 PEXTLH d a b s))) f = GPR s b \<and>
    GPR (run3 PPACB f e d (run3 PEXTUB e a b (run3 PEXTLB d a b s))) f = GPR s b"
  using assms by (simp add: run3_shuffle [OF shuffle_eqs(1)] run3_shuffle [OF shuffle_eqs(2)]
      run3_shuffle [OF shuffle_eqs(3)] run3_shuffle [OF shuffle_eqs(4)] run3_shuffle [OF shuffle_eqs(5)]
      run3_shuffle [OF shuffle_eqs(6)] run3_shuffle [OF shuffle_eqs(7)] run3_shuffle [OF shuffle_eqs(8)]
      run3_shuffle [OF shuffle_eqs(9)])

theorem pack_interleave_witness:
  "GPR (run3 PPACW 5 4 3 (run3 PEXTUW 4 1 2 (run3 PEXTLW 3 1 2
     (cpuReset_regs\<lparr>GPR := (\<lambda>_. 0)(2 := 77)\<rparr>)))) 5 = 77"
  using pack_interleave [of 3 4 5 1 2 "cpuReset_regs\<lparr>GPR := (\<lambda>_. 0)(2 := 77)\<rparr>"] by simp

text \<open>
  the exchanges are involutions and the rotation has order three: executing \<open>PEXEH\<close>,
  \<open>PREVH\<close>, \<open>PEXEW\<close>, \<open>PEXCH\<close> or \<open>PEXCW\<close> twice, or \<open>PROT3W\<close> three times, gives the source back.
\<close>

theorem permutations:
  assumes "d \<noteq> 0"
  shows "GPR (run3 PEXEH d x d (run3 PEXEH d x b s)) d = GPR s b \<and>
    GPR (run3 PREVH d x d (run3 PREVH d x b s)) d = GPR s b \<and>
    GPR (run3 PEXEW d x d (run3 PEXEW d x b s)) d = GPR s b \<and>
    GPR (run3 PEXCH d x d (run3 PEXCH d x b s)) d = GPR s b \<and>
    GPR (run3 PEXCW d x d (run3 PEXCW d x b s)) d = GPR s b \<and>
    GPR (run3 PROT3W d x d (run3 PROT3W d x d (run3 PROT3W d x b s))) d = GPR s b"
  using assms by (simp add: run3_shuffle [OF shuffle_eqs(12)] run3_shuffle [OF shuffle_eqs(13)]
      run3_shuffle [OF shuffle_eqs(14)] run3_shuffle [OF shuffle_eqs(15)]
      run3_shuffle [OF shuffle_eqs(16)] run3_shuffle [OF shuffle_eqs(17)])

theorem permutations_witness:
  "GPR (run3 PREVH 3 0 3 (run3 PREVH 3 0 2 (cpuReset_regs\<lparr>GPR := (\<lambda>_. 0)(2 := 77)\<rparr>))) 3 = 77"
  using permutations [of 3 0 2 "cpuReset_regs\<lparr>GPR := (\<lambda>_. 0)(2 := 77)\<rparr>"] by simp

section \<open>The funnel shift\<close>

lemma bit_UD_split:
  "bit (x :: u128) k \<longleftrightarrow> (if k < 64 then bit (UD 0 x) k else bit (UD 1 x) (k - 64))"
  by (auto simp: bit_lane dest: bit_imp_le_length)

lemma set_lane_UD_pair: "setUD 1 (UD 1 z) (setUD 0 (UD 0 z) x) = z"
  by (rule lane64.ext) (auto simp: less_2_cases_iff)

lemma wr_Rds_UD:
  assumes "Rd s \<noteq> 0" "UD 0 z = a" "UD 1 z = b"
  shows "wr_Rds [(0, a), (1, b)] s = set_Rd z s"
  using assms set_lane_UD_pair [of z "GPR s (Rd s)"] by (simp add: wr_Rds_eq set_Rd_def)

text \<open>The low half of \<open>rs : rt\<close> shifted right.\<close>

definition funnel_right :: "nat \<Rightarrow> u128 \<Rightarrow> u128 \<Rightarrow> u128" where
  "funnel_right n a b = ucast (drop_bit n (push_bit 128 (ucast a) OR ucast b :: 256 word))"

lemma bit_funnel_right:
  "bit (funnel_right n a b) k \<longleftrightarrow>
     k < 128 \<and> (if n + k < 128 then bit b (n + k) else bit a (n + k - 128))"
  by (auto simp: funnel_right_def bit_simps dest: bit_imp_le_length)

lemma bit_funnel64:
  fixes a b :: u64
  assumes "0 < m" "m < 64"
  shows "bit (drop_bit m a OR push_bit (64 - m) b) k \<longleftrightarrow>
     k < 64 \<and> (if m + k < 64 then bit a (m + k) else bit b (m + k - 64))"
proof (cases "m + k < 64")
  case True
  then have "\<not> 64 - m \<le> k" by arith
  with True show ?thesis
    using assms by (simp add: bit_or_iff bit_drop_bit_eq bit_push_bit_iff)
next
  case False
  then have "k - (64 - m) = m + k - 64" "64 - m \<le> k"
    using assms by arith+
  moreover have "\<not> bit a (m + k)"
    using False by (auto dest: bit_imp_le_length)
  ultimately show ?thesis
    using False by (simp add: bit_or_iff bit_drop_bit_eq bit_push_bit_iff)
qed

lemma bit_funnel_UD:
  assumes "i < 2" "k < 64"
  shows "bit (UD i (funnel_right n a b)) k =
    (let j = n + 64 * i + k in
     if j < 128 then (if j < 64 then bit (UD 0 b) j else bit (UD 1 b) (j - 64))
     else if j - 128 < 64 then bit (UD 0 a) (j - 128) else bit (UD 1 a) (j - 192))"
proof -
  have "bit (UD i (funnel_right n a b)) k = bit (funnel_right n a b) (64 * i + k)"
    using assms by (simp add: bit_lane mult.commute)
  also have "\<dots> = (let j = n + 64 * i + k in if j < 128 then bit b j else bit a (j - 128))"
    using assms by (auto simp: bit_funnel_right Let_def add.assoc)
  finally show ?thesis
    by (simp add: Let_def bit_UD_split [of b] bit_UD_split [of a] diff_diff_left)
qed

lemma UD_funnel_right:
  "0 < n \<Longrightarrow> n < 64 \<Longrightarrow> UD 0 (funnel_right n a b) = drop_bit n (UD 0 b) OR push_bit (64 - n) (UD 1 b)"
  "0 < n \<Longrightarrow> n < 64 \<Longrightarrow> UD 1 (funnel_right n a b) = drop_bit n (UD 1 b) OR push_bit (64 - n) (UD 0 a)"
  by (rule bit_word_eqI; simp add: bit_funnel_UD bit_funnel64 Let_def; arith)+

lemma UD_funnel_right_high:
  assumes "64 < n" "n < 128"
  shows "UD 0 (funnel_right n a b) = drop_bit (n - 64) (UD 1 b) OR push_bit (128 - n) (UD 0 a)"
    and "UD 1 (funnel_right n a b) = drop_bit (n - 64) (UD 0 a) OR push_bit (128 - n) (UD 1 a)"
proof -
  obtain m where m: "n = m + 64" "0 < m" "m < 64"
    using assms by (metis add.commute add_diff_cancel_left' less_diff_conv2 less_imp_le_nat
        le_add_diff_inverse zero_less_diff numeral_Bit0)
  show "UD 0 (funnel_right n a b) = drop_bit (n - 64) (UD 1 b) OR push_bit (128 - n) (UD 0 a)"
    by (rule bit_word_eqI) (use m in \<open>auto simp: bit_funnel_UD bit_funnel64 Let_def\<close>)
  show "UD 1 (funnel_right n a b) = drop_bit (n - 64) (UD 0 a) OR push_bit (128 - n) (UD 1 a)"
    by (rule bit_word_eqI) (use m in \<open>auto simp: bit_funnel_UD bit_funnel64 Let_def\<close>)
qed

lemma UD_funnel_right_64:
  "UD 0 (funnel_right 64 a b) = UD 1 b" "UD 1 (funnel_right 64 a b) = UD 0 a"
  "UD 0 (funnel_right 0 a b) = UD 0 b" "UD 1 (funnel_right 0 a b) = UD 1 b"
  by (rule bit_word_eqI; simp add: bit_funnel_UD Let_def)+

lemma QFSRV_cases:
  assumes "Rd s \<noteq> 0" "unat (sa s) = n" "n < 128"
  shows "QFSRV s = set_Rd (funnel_right n (rRs s) (rRt s)) s"
proof -
  consider "n = 0" | "0 < n" "n < 64" | "n = 64" | "64 < n"
    by linarith
  then show ?thesis
  proof cases
    case 1
    have "wr_Rd 1 (UD 1 (rRt (wr_Rd 0 (UD 0 (rRt s)) s))) (wr_Rd 0 (UD 0 (rRt s)) s) =
        set_Rd (rRt s) s"
    proof -
      have "UD 1 (rRt (wr_Rd 0 (UD 0 (rRt s)) s)) = UD 1 (rRt s)"
        by (simp add: GPR_wr_gpr frame_simps)
      then show ?thesis
        using assms(1) wr_Rds_UD [of s "rRt s"] by (simp add: wr_Rds_def frame_simps)
    qed
    moreover have "funnel_right 0 (rRs s) (rRt s) = rRt s"
      by (rule lane64.ext) (auto simp: less_2_cases_iff UD_funnel_right_64 [unfolded One_nat_def])
    ultimately show ?thesis
      using 1 assms by (simp add: QFSRV_def Let_def frame_simps)
  next
    case 2
    then show ?thesis
      using assms by (simp add: QFSRV_def Let_def 
          wr_Rds_UD [OF assms(1) UD_funnel_right [OF 2], unfolded One_nat_def])
  next
    case 3
    then show ?thesis
      using assms by (simp add: QFSRV_def Let_def
          wr_Rds_UD [OF assms(1) UD_funnel_right_64(1,2), unfolded One_nat_def])
  next
    case 4
    then show ?thesis
      using assms by (simp add: QFSRV_def Let_def
          wr_Rds_UD [OF assms(1) UD_funnel_right_high [OF 4 assms(3)], unfolded One_nat_def])
  qed
qed

text \<open>
  C8: \<open>QFSRV\<close> is the 256-bit funnel shift: for every shift amount that \<open>MTSAB\<close> and \<open>MTSAH\<close> can
  set, the destination is the low half of the concatenation \<open>rs : rt\<close> shifted right by \<open>sa\<close>
  bits, computed from the old sources.
\<close>

theorem QFSRV_funnel:
  assumes "sa s < 128"
  shows "QFSRV s = vec128 (funnel_right (unat (sa s))) s"
proof (cases "Rd s = 0")
  case True
  then show ?thesis by (simp add: QFSRV_def vec128_def set_Rd_def)
next
  case False
  have "unat (sa s) < 128"
    using assms by (simp add: word_less_nat_alt)
  from QFSRV_cases [OF False refl this] show ?thesis
    by (simp add: vec128_def)
qed

theorem QFSRV_funnel_witness:
  "QFSRV (cpuReset_regs\<lparr>sa := 72\<rparr>) =
     vec128 (funnel_right (unat (sa (cpuReset_regs\<lparr>sa := 72\<rparr>)))) (cpuReset_regs\<lparr>sa := 72\<rparr>)"
  by (rule QFSRV_funnel) simp

section \<open>The multiply-accumulate and divide pipes\<close>

lemma join32_hi_lo [simp]: "join32 (hi32 w) (lo32 w) = w"
  by (simp add: join32_def word64_hi_lo)

text \<open>
  The 64-bit accumulator of pipe \<open>p\<close>, held as two sign-extended words in the lane \<open>p\<close> of
  \<open>HI\<close> and \<open>LO\<close>, and the fact that both lanes are sign extensions.
\<close>

definition acc :: "nat \<Rightarrow> 'a cpuRegisters_scheme \<Rightarrow> u64" where
  "acc p s = join32 (UL (2 * p) (HI s)) (UL (2 * p) (LO s))"

definition extended :: "nat \<Rightarrow> 'a cpuRegisters_scheme \<Rightarrow> bool" where
  "extended p s \<longleftrightarrow> UD p (HI s) = sx32 (UL (2 * p) (HI s)) \<and> UD p (LO s) = sx32 (UL (2 * p) (LO s))"

text \<open>The state after a pipe has delivered the 64-bit result \<open>v\<close>.\<close>

definition pipe_result :: "nat \<Rightarrow> u64 \<Rightarrow> 'a cpuRegisters_scheme \<Rightarrow> 'a cpuRegisters_scheme \<Rightarrow> bool" where
  "pipe_result p v s t \<longleftrightarrow>
     acc p t = v \<and> extended p t \<and> acc (1 - p) t = acc (1 - p) s \<and>
     GPR t = (if Rd s = 0 then GPR s else (GPR s)(Rd s := setUD 0 (sx32 (lo32 v)) (rRd s)))"

lemma pipe_result_0:
  "pipe_result 0 v s
     (let s2 = wr_HI 0 (sx32 (hi32 v)) (wr_LO 0 (sx32 (lo32 v)) s)
      in if Rd s \<noteq> 0 then wr_Rd 0 (UD 0 (LO s2)) s2 else s2)"
  by (simp add: pipe_result_def acc_def extended_def UL_UD Let_def frame_simps fun_eq_iff GPR_wr_gpr)

lemma pipe_result_1:
  "pipe_result 1 v s
     (let s2 = wr_HI 1 (sx32 (hi32 v)) (wr_LO 1 (sx32 (lo32 v)) s)
      in if Rd s \<noteq> 0 then wr_Rd 0 (UD 1 (LO s2)) s2 else s2)"
  by (simp add: pipe_result_def acc_def extended_def UL_UD Let_def frame_simps fun_eq_iff GPR_wr_gpr)

text \<open>
  the two accumulator pipes: \<open>MADD\<close>/\<open>MADDU\<close> (\<open>MADD1\<close>/\<open>MADDU1\<close>) add the exact signed
  (unsigned) product to the 64-bit accumulator of pipe 0 (1) modulo \<open>2^64\<close>, and
  \<open>MULT1\<close>/\<open>MULTU1\<close> replace it by the product; \<open>HI\<close>, \<open>LO\<close> hold sign extensions of the two words,
  the other pipe is untouched and \<open>rd\<close> receives \<open>LO\<close>.
\<close>

theorem multiply_accumulate:
  "pipe_result 0 (acc 0 s + word_of_int (SL 0 (rRs s) * SL 0 (rRt s))) s (MADD s) \<and>
   pipe_result 0 (acc 0 s + word_of_int (uint (UL 0 (rRs s)) * uint (UL 0 (rRt s)))) s (MADDU s) \<and>
   pipe_result 1 (acc 1 s + word_of_int (SL 0 (rRs s) * SL 0 (rRt s))) s (MADD1 s) \<and>
   pipe_result 1 (acc 1 s + word_of_int (uint (UL 0 (rRs s)) * uint (UL 0 (rRt s)))) s (MADDU1 s) \<and>
   pipe_result 1 (word_of_int (SL 0 (rRs s) * SL 0 (rRt s))) s (MULT1 s) \<and>
   pipe_result 1 (word_of_int (uint (UL 0 (rRs s)) * uint (UL 0 (rRt s)))) s (MULTU1 s)"
proof -
  have u: "word_of_int (uint a * uint b) = (ucast a * ucast b :: u64)" for a b :: u32
    by simp
  have m: "acc 0 s = join32 (UL 0 (HI s)) (UL 0 (LO s))" "acc 1 s = join32 (UL 2 (HI s)) (UL 2 (LO s))"
    by (simp_all add: acc_def)
  show ?thesis
    unfolding u m
    using pipe_result_0 [of "join32 (UL 0 (HI s)) (UL 0 (LO s)) + word_of_int (SL 0 (rRs s) * SL 0 (rRt s))" s]
      pipe_result_0 [of "join32 (UL 0 (HI s)) (UL 0 (LO s)) + ucast (UL 0 (rRs s)) * ucast (UL 0 (rRt s))" s]
      pipe_result_1 [of "join32 (UL 2 (HI s)) (UL 2 (LO s)) + word_of_int (SL 0 (rRs s) * SL 0 (rRt s))" s]
      pipe_result_1 [of "join32 (UL 2 (HI s)) (UL 2 (LO s)) + ucast (UL 0 (rRs s)) * ucast (UL 0 (rRt s))" s]
      pipe_result_1 [of "word_of_int (SL 0 (rRs s) * SL 0 (rRt s))" s]
      pipe_result_1 [of "ucast (UL 0 (rRs s)) * ucast (UL 0 (rRt s))" s]
    unfolding MADD_def MADDU_def MADD1_def MADDU1_def MULT1_def MULTU1_def Let_def
    by (simp only: simp_thms)
qed

text \<open>Quotient and remainder as pipe \<open>p\<close> leaves them, sign-extended.\<close>

definition pipe_div :: "nat \<Rightarrow> (u32 \<Rightarrow> u32 \<Rightarrow> bool) \<Rightarrow> 'a cpuRegisters_scheme \<Rightarrow> bool" where
  "pipe_div p P t \<longleftrightarrow> extended p t \<and> P (UL (2 * p) (LO t)) (UL (2 * p) (HI t))"

lemma pipe_div_1I:
  "P q r \<Longrightarrow> pipe_div 1 P (wr_HI 1 (sx32 r) (wr_LO 1 (sx32 q) s))"
  by (simp add: pipe_div_def extended_def UL_UD frame_simps)

lemma pipe_div_0I:
  "P q r \<Longrightarrow> pipe_div 0 P (wr_HI 0 (sx32 r) (wr_LO 0 (sx32 q) s))"
  by (simp add: pipe_div_def extended_def UL_UD frame_simps)

lemma pipe_div_keep:
  "pipe_div 0 P s \<Longrightarrow> pipe_div 0 P (wr_HI 1 (r :: u64) (wr_LO 1 (q :: u64) s))"
  by (simp add: pipe_div_def extended_def UL_UD frame_simps)

text \<open>
  The three cases of a signed divide, with the values the code writes: every one is a
  sign-extended pair of words that satisfies \<open>div_result\<close>.
\<close>

definition div_writes :: "u32 \<Rightarrow> u32 \<Rightarrow> u64 \<times> u64" where
  "div_writes a b =
     (if a = 0x80000000 \<and> b = 0xffffffff then (sx32 0x80000000, sx32 0)
      else if sint b \<noteq> 0 then (word_of_int (sint a sdiv sint b), word_of_int (sint a smod sint b))
      else (if sint a < 0 then 1 else - 1, sx32 a))"

lemma div_writes:
  "\<exists>q r. div_writes a b = (sx32 q, sx32 r) \<and> div_result a b q r"
proof -
  consider "a = 0x80000000 \<and> b = 0xffffffff" | "\<not> (a = 0x80000000 \<and> b = 0xffffffff)" "b \<noteq> 0" | "b = 0"
    by auto
  then show ?thesis
  proof cases
    case 1
    then show ?thesis
      using div_result_overflow by (auto simp: div_writes_def)
  next
    case 2
    have "div_writes a b = (sx32 (word_of_int (sint a sdiv sint b)), sx32 (word_of_int (sint a smod sint b)))"
      using 2 sx32_word_of_int [OF sdiv32_range [OF 2(2) 2(1)]]
        sx32_word_of_int [OF smod32_range(2,3) [OF 2(2)]]
      by (simp only: div_writes_def if_False sint_zero_iff) simp
    then show ?thesis
      using div_result_regular [OF 2(2) 2(1)] by blast
  next
    case 3
    have "(1 :: u64) = sx32 1" "(- 1 :: u64) = sx32 0xffffffff"
      by (simp_all add: sx32_def)
    then have "div_writes a b = (sx32 (if sint a < 0 then 1 else 0xffffffff), sx32 a)"
      using 3 by (simp add: div_writes_def)
    then show ?thesis
      using div_result_zero [of a] 3 by blast
  qed
qed

lemma DIV1_writes:
  "DIV1 s = (case div_writes (UL 0 (rRs s)) (UL 0 (rRt s)) of (q, r) \<Rightarrow> wr_HI 1 r (wr_LO 1 q s))"
  by (simp add: DIV1_def div_writes_def)

lemma PDIVW_lane_writes:
  "PDIVW_lane dd ss s =
     (case div_writes (UL ss (rRs s)) (UL ss (rRt s)) of (q, r) \<Rightarrow> wr_HI dd r (wr_LO dd q s))"
  by (simp add: PDIVW_lane_def div_writes_def)

lemma divu_writes:
  "\<exists>q r. (if b \<noteq> 0 then (sx32 (a div b), sx32 (a mod b)) else (- 1, sx32 a)) = (sx32 q, sx32 r) \<and>
     divu_result a b q r"
proof (cases "b = 0")
  case True
  have "(- 1 :: u64) = sx32 (- 1)"
    by (simp add: sx32_def)
  then show ?thesis
    using True divu_result_zero [of a] by auto
next
  case False
  then show ?thesis
    using divu_result_regular by auto
qed

lemma DIVU1_writes:
  "DIVU1 s = (case (if UL 0 (rRt s) \<noteq> 0
       then (sx32 (UL 0 (rRs s) div UL 0 (rRt s)), sx32 (UL 0 (rRs s) mod UL 0 (rRt s)))
       else (- 1, sx32 (UL 0 (rRs s)))) of (q, r) \<Rightarrow> wr_HI 1 r (wr_LO 1 q s))"
  by (simp add: DIVU1_def)

lemma PDIVUW_lane_writes:
  "PDIVUW_lane dd ss s = (case (if UL ss (rRt s) \<noteq> 0
       then (sx32 (UL ss (rRs s) div UL ss (rRt s)), sx32 (UL ss (rRs s) mod UL ss (rRt s)))
       else (- 1, sx32 (UL ss (rRs s)))) of (q, r) \<Rightarrow> wr_HI dd r (wr_LO dd q s))"
  by (simp add: PDIVUW_lane_def)

text \<open>
  the divides of the second pipe and the parallel divides leave, in \<open>LO\<close> and \<open>HI\<close> of their
  pipe and sign-extended, the truncated quotient and the remainder of the two words, \<open>INT_MIN\<close>
  and 0 for \<open>INT_MIN / -1\<close>, and for a zero divisor the dividend as remainder and
  \<open>1\<close> or \<open>-1\<close> as quotient.
\<close>

theorem divide_pipes:
  "pipe_div 1 (div_result (UL 0 (rRs s)) (UL 0 (rRt s))) (DIV1 s) \<and>
   pipe_div 1 (divu_result (UL 0 (rRs s)) (UL 0 (rRt s))) (DIVU1 s) \<and>
   pipe_div 0 (div_result (UL 0 (rRs s)) (UL 0 (rRt s))) (PDIVW s) \<and>
   pipe_div 1 (div_result (UL 2 (rRs s)) (UL 2 (rRt s))) (PDIVW s) \<and>
   pipe_div 0 (divu_result (UL 0 (rRs s)) (UL 0 (rRt s))) (PDIVUW s) \<and>
   pipe_div 1 (divu_result (UL 2 (rRs s)) (UL 2 (rRt s))) (PDIVUW s)"
proof -
  obtain q r where w: "div_writes (UL 0 (rRs s)) (UL 0 (rRt s)) = (sx32 q, sx32 r)"
    and d: "div_result (UL 0 (rRs s)) (UL 0 (rRt s)) q r"
    using div_writes by blast
  obtain q2 r2 where w2: "div_writes (UL 2 (rRs s)) (UL 2 (rRt s)) = (sx32 q2, sx32 r2)"
    and d2: "div_result (UL 2 (rRs s)) (UL 2 (rRt s)) q2 r2"
    using div_writes by blast
  obtain uq ur where uw: "(if UL 0 (rRt s) \<noteq> 0
       then (sx32 (UL 0 (rRs s) div UL 0 (rRt s)), sx32 (UL 0 (rRs s) mod UL 0 (rRt s)))
       else (- 1, sx32 (UL 0 (rRs s)))) = (sx32 uq, sx32 ur)"
    and ud: "divu_result (UL 0 (rRs s)) (UL 0 (rRt s)) uq ur"
    using divu_writes by blast
  obtain uq2 ur2 where uw2: "(if UL 2 (rRt s) \<noteq> 0
       then (sx32 (UL 2 (rRs s) div UL 2 (rRt s)), sx32 (UL 2 (rRs s) mod UL 2 (rRt s)))
       else (- 1, sx32 (UL 2 (rRs s)))) = (sx32 uq2, sx32 ur2)"
    and ud2: "divu_result (UL 2 (rRs s)) (UL 2 (rRt s)) uq2 ur2"
    using divu_writes by blast
  show ?thesis
    unfolding PDIVW_def PDIVUW_def DIV1_writes DIVU1_writes PDIVW_lane_writes PDIVUW_lane_writes
    unfolding w uw prod.case frame_simps w2 uw2
    by (intro conjI pipe_div_keep pipe_div_0I [where P = "div_result _ _"] pipe_div_1I d ud d2 ud2
        pipe_div_0I)
qed

section \<open>Moves to and from the pipe registers, colour packing\<close>

text \<open>The 16-bit colour format: unpacking a pixel to 8 bits per channel and packing it again.\<close>

lemma all_less_32:
  "(\<forall>j < 32. P j) \<longleftrightarrow>
     P 0 \<and> P 1 \<and> P 2 \<and> P 3 \<and> P 4 \<and> P 5 \<and> P 6 \<and> P 7 \<and> P
     8 \<and> P 9 \<and> P 10 \<and> P 11 \<and> P 12 \<and> P 13 \<and> P 14 \<and> P 15
     \<and> P 16 \<and> P 17 \<and> P 18 \<and> P 19 \<and> P 20 \<and> P 21 \<and> P 22
     \<and> P 23 \<and> P 24 \<and> P 25 \<and> P 26 \<and> P 27 \<and> P 28 \<and> P 29
     \<and> P 30 \<and> P (31 :: nat)"
  by (simp add: numeral_eq_Suc All_less_Suc2)

lemma pac5_ext5: "pac5 (ext5 v) = v AND 0xFFFF"
proof (rule bit_word_eqI)
  fix k :: nat assume "k < LENGTH(32)"
  moreover have "\<forall>j < 32. bit (pac5 (ext5 v)) j = bit (v AND 0xFFFF) j"
    unfolding all_less_32 pac5_def ext5_def
    by (simp add: bit_or_iff bit_and_iff bit_push_bit_iff bit_drop_bit_eq)
  ultimately show "bit (pac5 (ext5 v)) k = bit (v AND 0xFFFF) k"
    by simp
qed

lemma PEXT5_PPAC5_vec:
  "PEXT5 s = vec32 (\<lambda>a b. ext5 b) s" "PPAC5 s = vec32 (\<lambda>a b. pac5 b) s"
  unfolding PEXT5_def PPAC5_def
  by (rule vec32I; simp add: PEXT5_lane_def PPAC5_lane_def)+

lemma run3_vec32:
  "(\<And>t. op t = vec32 f t) \<Longrightarrow> rd \<noteq> 0 \<Longrightarrow>
   GPR (run3 op rd rs rt s) q = (if q = rd then zip32 f (GPR s rs) (GPR s rt) else GPR s q)"
  by (simp add: run3_def vec32_def set_Rd_def)

lemma UD_from_UL: "UD 0 x = join32 (UL 1 x) (UL 0 x)" "UD 1 x = join32 (UL 3 x) (UL 2 x)"
  by (simp_all add: UL_UD [unfolded One_nat_def])

lemma fold_put_UL:
  "setUL 3 d (setUL 2 c (setUL 1 b (setUL 0 a x))) = ofUL [a, b, c, d]"
  using lane32.puts_full [of "[a, b, c, d]" "ofUL [a, b, c, d]" x]
  by (simp add: eval_nat_numeral)

text \<open>
  round trips through the pipe registers and the colour format: \<open>PMTHL\<close> (\<open>PMTHI\<close>,
  \<open>PMTLO\<close>) followed by \<open>PMFHL.LW\<close> (\<open>PMFHI\<close>, \<open>PMFLO\<close>) copies a register, and packing the
  unpacked pixels of a register returns the low 16 bits of every word.
\<close>

theorem pipe_and_colour_roundtrips:
  assumes "d \<noteq> 0"
  shows "GPR (run3 PMFHL d x y (run3 PMTHL z a w s)) d = GPR s a \<and>
    GPR (run3 PMFHI d x y (run3 PMTHI z a w s)) d = GPR s a \<and>
    GPR (run3 PMFLO d x y (run3 PMTLO z a w s)) d = GPR s a \<and>
    (\<forall>i < 4. UL i (GPR (run3 PPAC5 d x d (run3 PEXT5 d y b s)) d) = UL i (GPR s b) AND 0xFFFF)"
proof (intro conjI)
  have sa0: "Sa (s\<lparr>code := encode3 p q r\<rparr>) = 0" for s :: "'a cpuRegisters_scheme" and p q r
    by (simp add: Sa_def)
  show "GPR (run3 PMFHL d x y (run3 PMTHL z a w s)) d = GPR s a"
    using assms
    by (simp add: run3_def PMFHL_def PMTHL_def sa0 wr_Rds_eq frame_simps lane_set_lane_other
        fold_put_UL [unfolded One_nat_def])
  show "GPR (run3 PMFHI d x y (run3 PMTHI z a w s)) d = GPR s a"
    using assms set_lane_UD_pair [of "GPR s a"]
    by (simp add: run3_def PMFHI_def PMTHI_def wr_Rds_eq frame_simps)
  show "GPR (run3 PMFLO d x y (run3 PMTLO z a w s)) d = GPR s a"
    using assms set_lane_UD_pair [of "GPR s a"]
    by (simp add: run3_def PMFLO_def PMTLO_def wr_Rds_eq frame_simps)
  show "\<forall>i < 4. UL i (GPR (run3 PPAC5 d x d (run3 PEXT5 d y b s)) d) = UL i (GPR s b) AND 0xFFFF"
    using assms
    by (simp add: run3_vec32 [OF PEXT5_PPAC5_vec(1)] run3_vec32 [OF PEXT5_PPAC5_vec(2)] pac5_ext5)
qed

theorem pipe_and_colour_roundtrips_witness:
  "GPR (run3 PMFHL 3 0 0 (run3 PMTHL 0 2 0 (cpuReset_regs\<lparr>GPR := (\<lambda>_. 0)(2 := 77)\<rparr>))) 3 = 77"
  using pipe_and_colour_roundtrips [of 3 0 0 0 2 0 "cpuReset_regs\<lparr>GPR := (\<lambda>_. 0)(2 := 77)\<rparr>" 0]
  by simp

end
