(* ===== verification/EEProps.thy ===== *)
theory EEProps
  imports EEOps Unaligned MMIProps
begin

text \<open>
  Properties of the R5900 instructions of \<open>EEOps\<close>: exactness of the overflow checks, the two
  subtractions whose check is wrong, the divide and multiply instructions of pipe 0, and the
  unaligned load/store pairs, which rest on the interpretations of \<open>unaligned_bus\<close> below.
\<close>

section \<open>Positions inside words\<close>

lemma less_cases:
  "k < 4 \<Longrightarrow> k = 0 \<or> k = 1 \<or> k = 2 \<or> k = (3 :: nat)"
  "k < 8 \<Longrightarrow> k = 0 \<or> k = 1 \<or> k = 2 \<or> k = 3 \<or> k = 4 \<or> k = 5 \<or> k = 6 \<or> k = (7 :: nat)"
  by auto

lemma pos4_mod: "pos4 a = unat a mod 4"
proof -
  have "a AND 3 = take_bit 2 a"
    by (simp only: take_bit_eq_mask) (simp add: mask_eq_exp_minus_1)
  then have "pos4 a = unat (take_bit 2 a)"
    by (simp only: pos4_def)
  also have "\<dots> = take_bit 2 (unat a)"
    by (rule unsigned_take_bit_eq)
  finally show ?thesis
    by (simp add: take_bit_eq_mod)
qed

lemma pos8_mod: "pos8 a = unat a mod 8"
proof -
  have "a AND 7 = take_bit 3 a"
    by (simp only: take_bit_eq_mask) (simp add: mask_eq_exp_minus_1)
  then have "pos8 a = unat (take_bit 3 a)"
    by (simp only: pos8_def)
  also have "\<dots> = take_bit 3 (unat a)"
    by (rule unsigned_take_bit_eq)
  finally show ?thesis
    by (simp add: take_bit_eq_mod)
qed

lemma pos4_last: "pos4 (a + 3) = (if pos4 a = 0 then 3 else pos4 a - 1)"
proof -
  have "unat (a + 3) mod 4 = (unat a + 3) mod 4"
    by (simp add: unat_word_ariths mod_mod_cancel)
  also have "\<dots> = (unat a mod 4 + 3) mod 4"
    by (simp only: mod_add_left_eq)
  finally have e: "unat (a + 3) mod 4 = (unat a mod 4 + 3) mod 4" .
  have "unat a mod 4 < 4"
    by simp
  from less_cases(1) [OF this] show ?thesis
    unfolding pos4_mod e by (elim disjE) simp_all
qed

lemma pos8_last: "pos8 (a + 7) = (if pos8 a = 0 then 7 else pos8 a - 1)"
proof -
  have "unat (a + 7) mod 8 = (unat a + 7) mod 8"
    by (simp add: unat_word_ariths mod_mod_cancel)
  also have "\<dots> = (unat a mod 8 + 7) mod 8"
    by (simp only: mod_add_left_eq)
  finally have e: "unat (a + 7) mod 8 = (unat a mod 8 + 7) mod 8" .
  have "unat a mod 8 < 8"
    by simp
  from less_cases(2) [OF this] show ?thesis
    unfolding pos8_mod e by (elim disjE) simp_all
qed

section \<open>The bytes that the unaligned instructions combine\<close>

text \<open>The mask and shift tables, byte by byte.\<close>

lemma mask_bytes32:
  "\<forall>i \<in> set [0, 1, 2, 3]. \<forall>k \<in> set [0, 1, 2, 3].
     byte i (LWL_MASK ! k) = (if i + k < 3 then 0xFF else 0) \<and>
     byte i (LWR_MASK ! k) = (if i + k < 4 then 0 else 0xFF) \<and>
     byte i (SWL_MASK ! k) = (if i \<le> k then 0 else 0xFF) \<and>
     byte i (SWR_MASK ! k) = (if k \<le> i then 0 else 0xFF) \<and>
     LWL_SHIFT ! k = 8 * (3 - k) \<and> LWR_SHIFT ! k = 8 * k \<and>
     SWL_SHIFT ! k = 8 * (3 - k) \<and> SWR_SHIFT ! k = 8 * k"
  by code_simp

lemma mask_bytes64:
  "\<forall>i \<in> set [0, 1, 2, 3, 4, 5, 6, 7]. \<forall>k \<in> set [0, 1, 2, 3, 4, 5, 6, 7].
     byte i (LDL_MASK ! k) = (if i + k < 7 then 0xFF else 0) \<and>
     byte i (LDR_MASK ! k) = (if i + k < 8 then 0 else 0xFF) \<and>
     byte i (SDL_MASK ! k) = (if i \<le> k then 0 else 0xFF) \<and>
     byte i (SDR_MASK ! k) = (if k \<le> i then 0 else 0xFF) \<and>
     LDL_SHIFT ! k = 8 * (7 - k) \<and> LDR_SHIFT ! k = 8 * k \<and>
     SDL_SHIFT ! k = 8 * (7 - k) \<and> SDR_SHIFT ! k = 8 * k"
  by code_simp

lemma mask32:
  assumes "i < 4" "k < 4"
  shows "byte i (LWL_MASK ! k) = (if i + k < 3 then 0xFF else 0)"
    "byte i (LWR_MASK ! k) = (if i + k < 4 then 0 else 0xFF)"
    "byte i (SWL_MASK ! k) = (if i \<le> k then 0 else 0xFF)"
    "byte i (SWR_MASK ! k) = (if k \<le> i then 0 else 0xFF)"
    "LWL_SHIFT ! k = 8 * (3 - k)" "LWR_SHIFT ! k = 8 * k"
    "SWL_SHIFT ! k = 8 * (3 - k)" "SWR_SHIFT ! k = 8 * k"
proof -
  have "i \<in> set [0, 1, 2, 3]" "k \<in> set [0, 1, 2, 3]"
    using less_cases(1) assms by auto
  from bspec [OF bspec [OF mask_bytes32 this(1)] this(2)]
  show "byte i (LWL_MASK ! k) = (if i + k < 3 then 0xFF else 0)"
    "byte i (LWR_MASK ! k) = (if i + k < 4 then 0 else 0xFF)"
    "byte i (SWL_MASK ! k) = (if i \<le> k then 0 else 0xFF)"
    "byte i (SWR_MASK ! k) = (if k \<le> i then 0 else 0xFF)"
    "LWL_SHIFT ! k = 8 * (3 - k)" "LWR_SHIFT ! k = 8 * k"
    "SWL_SHIFT ! k = 8 * (3 - k)" "SWR_SHIFT ! k = 8 * k"
    by blast+
qed

lemma mask64:
  assumes "i < 8" "k < 8"
  shows "byte i (LDL_MASK ! k) = (if i + k < 7 then 0xFF else 0)"
    "byte i (LDR_MASK ! k) = (if i + k < 8 then 0 else 0xFF)"
    "byte i (SDL_MASK ! k) = (if i \<le> k then 0 else 0xFF)"
    "byte i (SDR_MASK ! k) = (if k \<le> i then 0 else 0xFF)"
    "LDL_SHIFT ! k = 8 * (7 - k)" "LDR_SHIFT ! k = 8 * k"
    "SDL_SHIFT ! k = 8 * (7 - k)" "SDR_SHIFT ! k = 8 * k"
proof -
  have "i \<in> set [0, 1, 2, 3, 4, 5, 6, 7]" "k \<in> set [0, 1, 2, 3, 4, 5, 6, 7]"
    using less_cases(2) [OF assms(1)] less_cases(2) [OF assms(2)] by auto
  from bspec [OF bspec [OF mask_bytes64 this(1)] this(2)]
  show "byte i (LDL_MASK ! k) = (if i + k < 7 then 0xFF else 0)"
    "byte i (LDR_MASK ! k) = (if i + k < 8 then 0 else 0xFF)"
    "byte i (SDL_MASK ! k) = (if i \<le> k then 0 else 0xFF)"
    "byte i (SDR_MASK ! k) = (if k \<le> i then 0 else 0xFF)"
    "LDL_SHIFT ! k = 8 * (7 - k)" "LDR_SHIFT ! k = 8 * k"
    "SDL_SHIFT ! k = 8 * (7 - k)" "SDR_SHIFT ! k = 8 * k"
    by blast+
qed

lemma lwl_byte:
  assumes "i < 4" "k < 4"
  shows "byte i (lwl r w k) = (if i + k < 3 then byte i r else byte (i + k + 1 - 4) w)"
  using assms by (auto simp: lwl_def mask32 [OF assms] byte_drop_bit byte_push_bit)

lemma lwr_byte:
  assumes "i < 4" "k < 4"
  shows "byte i (lwr r w k) = (if i + k < 4 then byte (i + k) w else byte i r)"
  using assms by (auto simp: lwr_def mask32 [OF assms] byte_drop_bit byte_push_bit)

lemma swl_byte:
  assumes "i < 4" "k < 4"
  shows "byte i (swl r w k) = (if i \<le> k then byte (i + (3 - k)) r else byte i w)"
  using assms by (auto simp: swl_def mask32 [OF assms] byte_drop_bit byte_push_bit)

lemma swr_byte:
  assumes "i < 4" "k < 4"
  shows "byte i (swr r w k) = (if k \<le> i then byte (i - k) r else byte i w)"
  using assms by (auto simp: swr_def mask32 [OF assms] byte_drop_bit byte_push_bit)

lemma ldl_byte:
  assumes "i < 8" "k < 8"
  shows "byte i (ldl r w k) = (if i + k < 7 then byte i r else byte (i + k + 1 - 8) w)"
  using assms by (auto simp: ldl_def mask64 [OF assms] byte_drop_bit byte_push_bit)

lemma ldr_byte:
  assumes "i < 8" "k < 8"
  shows "byte i (ldr r w k) = (if i + k < 8 then byte (i + k) w else byte i r)"
  using assms by (auto simp: ldr_def mask64 [OF assms] byte_drop_bit byte_push_bit)

lemma sdl_byte:
  assumes "i < 8" "k < 8"
  shows "byte i (sdl r w k) = (if i \<le> k then byte (i + (7 - k)) r else byte i w)"
  using assms by (auto simp: sdl_def mask64 [OF assms] byte_drop_bit byte_push_bit)

lemma sdr_byte:
  assumes "i < 8" "k < 8"
  shows "byte i (sdr r w k) = (if k \<le> i then byte (i - k) r else byte i w)"
  using assms by (auto simp: sdr_def mask64 [OF assms] byte_drop_bit byte_push_bit)

section \<open>The EE's memory as a bus for unaligned accesses\<close>

text \<open>
  With the page table fixed, an access to a host-backed address is an access to the host bytes.
\<close>

definition ee_loc :: "MapData \<Rightarrow> u32 \<Rightarrow> u32" where
  "ee_loc M a = (case vtlb_lookup M a of HostPtr p \<Rightarrow> p | Handler h q \<Rightarrow> 0)"

definition ee_rd :: "nat \<Rightarrow> MapData \<Rightarrow> bytes \<Rightarrow> u32 \<Rightarrow> 'l::len word" where
  "ee_rd n M h a = le_read n h (ee_loc M a)"

definition ee_wr :: "nat \<Rightarrow> MapData \<Rightarrow> u32 \<Rightarrow> 'l::len word \<Rightarrow> bytes \<Rightarrow> bytes" where
  "ee_wr n M a v h = le_write n v (ee_loc M a) h"

text \<open>\<open>maps_to M b n p\<close>: the \<open>n\<close> bytes from address \<open>b\<close> are the host bytes from \<open>p\<close>.\<close>

definition maps_to :: "MapData \<Rightarrow> u32 \<Rightarrow> nat \<Rightarrow> u32 \<Rightarrow> bool" where
  "maps_to M b n p \<longleftrightarrow> (\<forall>i < n. vtlb_lookup M (b + of_nat i) = HostPtr (p + of_nat i))"

definition al4 :: "u32 \<Rightarrow> u32" where "al4 a = a AND NOT 3"
definition al8 :: "u32 \<Rightarrow> u32" where "al8 a = a AND NOT 7"

definition ee_ok :: "MapData \<Rightarrow> (u32 \<Rightarrow> u32) \<Rightarrow> (u32 \<Rightarrow> nat) \<Rightarrow> u32 \<Rightarrow> bool" where
  "ee_ok M al pos a \<longleftrightarrow>
     (\<exists>p. vtlb_lookup M (al a) = HostPtr p \<and> vtlb_lookup M a = HostPtr (p + of_nat (pos a)))"

interpretation ee32: unaligned_bus 4 al4 pos4 "ee_rd 4 M" "ee_wr 4 M" "\<lambda>h. h" "ee_loc M"
    "ee_ok M al4 pos4" lwl lwr swl swr for M
proof (unfold_locales, goal_cases)
  case (4 a)
  then show ?case by (simp add: pos4_mod)
next
  case (5 a)
  then show ?case using pos4_last [of a] by simp
next
  case (8 a)
  then show ?case by (auto simp: ee_ok_def ee_loc_def)
qed (simp_all add: ee_rd_def ee_wr_def lwl_byte lwr_byte swl_byte swr_byte)

interpretation ee64: unaligned_bus 8 al8 pos8 "ee_rd 8 M" "ee_wr 8 M" "\<lambda>h. h" "ee_loc M"
    "ee_ok M al8 pos8" ldl ldr sdl sdr for M
proof (unfold_locales, goal_cases)
  case (4 a)
  then show ?case by (simp add: pos8_mod)
next
  case (5 a)
  then show ?case using pos8_last [of a] by simp
next
  case (8 a)
  then show ?case by (auto simp: ee_ok_def ee_loc_def)
qed (simp_all add: ee_rd_def ee_wr_def ldl_byte ldr_byte sdl_byte sdr_byte)

text \<open>The accessors of the interpreter on host-backed addresses.\<close>

lemma lookup_host_update [simp]: "vtlb_lookup (M\<lparr>host := h\<rparr>) = vtlb_lookup M"
  by (simp add: vtlb_lookup_def fun_eq_iff)

definition set_host :: "bytes \<Rightarrow> 'd eeState \<Rightarrow> 'd eeState" where
  "set_host h s = s\<lparr>vtlbdata := (vtlbdata s)\<lparr>host := h\<rparr>\<rparr>"

lemma set_host_frame [simp, frame_simps]:
  "GPR (set_host h s) = GPR s" "code (set_host h s) = code s" "pc (set_host h s) = pc s"
  "host (vtlbdata (set_host h s)) = h" "vtlb_lookup (vtlbdata (set_host h s)) = vtlb_lookup (vtlbdata s)"
  "set_host h (set_host k s) = set_host h s"
  by (simp_all add: set_host_def)

lemma le_read_ucast:
  "LENGTH('b) \<le> LENGTH('a) \<Longrightarrow> LENGTH('b) = 8 * n \<Longrightarrow>
   (ucast (le_read n m a :: 'a::len word) :: 'b::len word) = le_read n m a"
  by (rule bit_word_eqI) (auto simp: bit_ucast_iff bit_le_read)

lemma le_write_ucast:
  fixes v :: "'b::len word"
  assumes "8 * n \<le> LENGTH('b)" "8 * n \<le> LENGTH('a)" "n \<le> 2 ^ 32"
  shows "le_write n (ucast v :: 'a::len word) a m = le_write n v a m"
proof
  fix x
  have "byte i (ucast v :: 'a word) = byte i v" if "i < n" for i
    using that assms(1,2) by (intro bit_word_eqI) (auto simp: bit_byte bit_ucast_iff)
  then show "le_write n (ucast v :: 'a word) a m x = le_write n v a m x"
    by (simp add: le_write_byte [OF assms(3)])
qed

lemma mem32_host:
  assumes "vtlb_lookup (vtlbdata s) a = HostPtr p"
  shows "memRead32 env a s = Ret (ee_rd 4 (vtlbdata s) (host (vtlbdata s)) a) s"
    "memWrite32 env a v s = Ret () (set_host (ee_wr 4 (vtlbdata s) a v (host (vtlbdata s))) s)"
  using assms
  by (simp_all add: memRead32_def memWrite32_def vtlb_memRead_def vtlb_memWrite_def wbytes_def
      ee_rd_def ee_wr_def ee_loc_def le_read_ucast le_write_ucast set_host_def)

lemma mem64_host:
  assumes "vtlb_lookup (vtlbdata s) a = HostPtr p"
  shows "memRead64 env a old s = Ret (ee_rd 8 (vtlbdata s) (host (vtlbdata s)) a) s"
    "memWrite64 env a v s = Ret () (set_host (ee_wr 8 (vtlbdata s) a v (host (vtlbdata s))) s)"
  using assms
  by (simp_all add: memRead64_def memWrite64_def vtlb_memRead_def vtlb_memWrite_def wbytes_def
      ee_rd_def ee_wr_def ee_loc_def le_read_ucast le_write_ucast set_host_def)

text \<open>Instructions with register, base and 16-bit offset fields, fetched and executed.\<close>

definition encodeI :: "reg \<Rightarrow> reg \<Rightarrow> u16 \<Rightarrow> u32" where
  "encodeI rt rs imm = push_bit 21 (ucast rs) OR push_bit 16 (ucast rt) OR ucast imm"

lemma fields_encodeI [simp]:
  "f_Rs (encodeI rt rs imm) = rs" "f_Rt (encodeI rt rs imm) = rt" "f_Imm (encodeI rt rs imm) = imm"
  by (rule bit_word_eqI;
      auto simp: f_Rs_def f_Rt_def f_Imm_def encodeI_def bit_simps dest: bit_imp_le_length)+

definition with_code :: "u32 \<Rightarrow> 'd eeState \<Rightarrow> 'd eeState" where
  "with_code c s = s\<lparr>code := c\<rparr>"

lemma with_code_simps [simp]:
  "code (with_code c s) = c" "GPR (with_code c s) = GPR s" "vtlbdata (with_code c s) = vtlbdata s"
  "with_code c (with_code d s) = with_code c s"
  by (simp_all add: with_code_def)

lemma with_code_wr_gpr [simp]: "with_code c (wr_gpr r i v s) = wr_gpr r i v (with_code c s)"
  by (simp add: wr_gpr_def with_code_def)

lemma set_host_with_code [simp]: "code (set_host h (with_code c s)) = c"
  "with_code c (set_host h (with_code d s)) = set_host h (with_code c s)"
  by (simp_all add: with_code_def set_host_def)

lemma ea_with_code [simp]:
  "ea (with_code (encodeI rt rs d) s) = UL 0 (GPR s rs) + scast d"
  by (simp add: ea_def Imm32_def)

lemma and_not_plus_and: "(a AND NOT m) + (a AND m) = (a :: 'a::len word)"
proof -
  have "(a AND NOT m) + (a AND m) = (a AND NOT m) OR (a AND m)"
    by (rule disjunctive_add) (auto simp: bit_and_iff bit_not_iff)
  also have "\<dots> = a"
    by (rule bit_word_eqI) (auto simp: bit_or_iff bit_and_iff bit_not_iff)
  finally show ?thesis .
qed

lemma al_pos: "al4 a + of_nat (pos4 a) = a" "al8 a + of_nat (pos8 a) = a"
  using and_not_plus_and [of a 3] and_not_plus_and [of a 7]
  by (simp_all add: al4_def al8_def pos4_def pos8_def)

lemma maps_to_at: "maps_to M b n p \<Longrightarrow> i < n \<Longrightarrow> vtlb_lookup M (b + of_nat i) = HostPtr (p + of_nat i)"
  by (simp add: maps_to_def)

text \<open>
  Two neighbouring host-backed words around an address: what the locale asks of the pair.
\<close>

lemma pair4:
  assumes "maps_to M (al4 a) 8 p"
  shows "ee_ok M al4 pos4 a" "ee_ok M al4 pos4 (a + 3)" "ee_loc M (a + 3) = ee_loc M a + 3"
    "vtlb_lookup M (al4 a) = HostPtr p" "ee_loc M a = p + of_nat (pos4 a)"
    "\<exists>q. vtlb_lookup M (al4 (a + 3)) = HostPtr q"
proof -
  have k: "pos4 a < 4" "pos4 (a + 3) < 4"
    by (simp_all add: pos4_mod)
  have a: "a = al4 a + of_nat (pos4 a)"
    by (simp add: al_pos)
  have a3: "a + 3 = al4 a + of_nat (pos4 a + 3)"
    by (subst a) simp
  have al3: "al4 (a + 3) = al4 a + of_nat (if pos4 a = 0 then 0 else 4)"
  proof -
    have "al4 (a + 3) = (a + 3) - of_nat (pos4 (a + 3))"
      using al_pos(1) [of "a + 3"] by (simp add: eq_diff_eq)
    also have "\<dots> = al4 a + of_nat (pos4 a + 3) - of_nat (pos4 (a + 3))"
      by (simp only: a3)
    finally show ?thesis
      using pos4_last [of a] less_cases(1) [OF k(1)] by (elim disjE) simp_all
  qed
  have la: "vtlb_lookup M a = HostPtr (p + of_nat (pos4 a))"
    using maps_to_at [OF assms, of "pos4 a"] k(1) by (simp add: al_pos)
  have la3: "vtlb_lookup M (a + 3) = HostPtr (p + of_nat (pos4 a + 3))"
    unfolding a3 by (rule maps_to_at [OF assms]) (use k(1) in simp)
  have lal: "vtlb_lookup M (al4 a) = HostPtr p"
    using maps_to_at [OF assms, of 0] by simp
  have lal3: "vtlb_lookup M (al4 (a + 3)) = HostPtr (p + of_nat (if pos4 a = 0 then 0 else 4))"
    unfolding al3 by (rule maps_to_at [OF assms]) simp
  show "ee_ok M al4 pos4 a"
    unfolding ee_ok_def using lal la by blast
  show "ee_ok M al4 pos4 (a + 3)"
    unfolding ee_ok_def using lal3 la3 pos4_last [of a] less_cases(1) [OF k(1)]
    by (elim disjE) simp_all
  show "ee_loc M (a + 3) = ee_loc M a + 3" "ee_loc M a = p + of_nat (pos4 a)"
    by (simp_all add: ee_loc_def la la3)
  show "vtlb_lookup M (al4 a) = HostPtr p"
    by (rule lal)
  show "\<exists>q. vtlb_lookup M (al4 (a + 3)) = HostPtr q"
    using lal3 by blast
qed

lemma ee_loc_set_host [simp]:
  "ee_loc (vtlbdata (set_host h s)) = ee_loc (vtlbdata s)"
  "ee_rd n (vtlbdata (set_host h s)) = ee_rd n (vtlbdata s)"
  "ee_wr n (vtlbdata (set_host h s)) = ee_wr n (vtlbdata s)"
  by (simp_all add: ee_loc_def ee_rd_def ee_wr_def fun_eq_iff)

lemma ea_set_host [simp]: "ea (set_host h s) = ea s"
  by (simp add: ea_def Imm32_def)

lemma SWR_host:
  assumes "vtlb_lookup (vtlbdata s) (al4 (ea s)) = HostPtr p"
  shows "SWR env s = Ret () (set_host
    (ee_wr 4 (vtlbdata s) (al4 (ea s))
      (swr (UL 0 (rRt s)) (ee_rd 4 (vtlbdata s) (host (vtlbdata s)) (al4 (ea s))) (pos4 (ea s)))
      (host (vtlbdata s))) s)"
  using mem32_host [OF assms] by (simp add: SWR_def al4_def)

lemma SWL_host:
  assumes "vtlb_lookup (vtlbdata s) (al4 (ea s)) = HostPtr p"
  shows "SWL env s = Ret () (set_host
    (ee_wr 4 (vtlbdata s) (al4 (ea s))
      (swl (UL 0 (rRt s)) (ee_rd 4 (vtlbdata s) (host (vtlbdata s)) (al4 (ea s))) (pos4 (ea s)))
      (host (vtlbdata s))) s)"
  using mem32_host [OF assms] by (simp add: SWL_def al4_def)

text \<open>A concrete machine: low memory at host address \<open>0x1000\<close>, \<open>r4\<close> the base, \<open>r2\<close> the data.\<close>

definition sample_state :: "unit eeState" where
  "sample_state = ee_state
     (cpuReset_regs\<lparr>GPR := (\<lambda>_. 0)(2 := 0x11223344, 4 := 0x2001)\<rparr>)
     \<lparr>pmap = (\<lambda>_. 0), vmap = (\<lambda>_. 0x1000), ppmap = None, host = (\<lambda>a. ucast a)\<rparr>
     (\<lambda>_. zero_tlbs) ()"

definition sample_env :: "unit RWFT" where
  "sample_env = \<lparr>rd_handler = (\<lambda>_ _ _ old s. Ret old s), wr_handler = (\<lambda>_ _ _ _ s. Ret () s)\<rparr>"

lemma sample_state_simps [simp]:
  "GPR sample_state = (\<lambda>_. 0)(2 := 0x11223344, 4 := 0x2001)"
  "host (vtlbdata sample_state) = (\<lambda>a. ucast a)" "vmap (vtlbdata sample_state) = (\<lambda>_. 0x1000)"
  by (simp_all add: sample_state_def)

lemma sample_maps: "maps_to (vtlbdata sample_state) 0x2000 8 0x3000"
  unfolding maps_to_def by (simp add: numeral_eq_Suc All_less_Suc vtlb_lookup_def)

text \<open>
  C9: storing an unaligned word. \<open>SWR rt, d(rs)\<close> followed by \<open>SWL rt, d+3(rs)\<close> writes the four
  bytes of the low word of \<open>rt\<close> at the effective address, whatever its alignment, and changes
  nothing else in memory.
\<close>

theorem unaligned_store:
  assumes "maps_to (vtlbdata s) (al4 (UL 0 (GPR s rs) + scast d)) 8 p"
    and "(scast d3 :: u32) = scast d + 3"
  shows "bindR (SWR env (with_code (encodeI rt rs d) s)) (\<lambda>_ t. SWL env (with_code (encodeI rt rs d3) t)) =
    Ret () (set_host
      (le_write 4 (UL 0 (GPR s rt)) (p + of_nat (pos4 (UL 0 (GPR s rs) + scast d))) (host (vtlbdata s)))
      (with_code (encodeI rt rs d3) s))"
proof -
  let ?a = "UL 0 (GPR s rs) + scast d"
  note pr = pair4 [OF assms(1)]
  have b: "UL 0 (GPR s rs) + scast d3 = ?a + of_nat (4 - 1)"
    by (simp add: assms(2))
  have b3: "UL 0 (GPR s rs) + scast d3 = ?a + 3"
    by (simp add: assms(2))
  obtain q where q: "vtlb_lookup (vtlbdata s) (al4 (?a + 3)) = HostPtr q"
    using pr(6) by blast
  have loc3: "ee_loc (vtlbdata s) (?a + 3) = ee_loc (vtlbdata s) ?a + of_nat (4 - 1)"
    by (simp add: pr(3))
  show ?thesis
    using ee32.store_unaligned [OF pr(1,2) _ loc3, of "UL 0 (GPR s rt)" "host (vtlbdata s)"]
    by (simp add: SWR_host pr(4) SWL_host b3 q pr(5))
qed

theorem unaligned_store_witness:
  "bindR (SWR sample_env (with_code (encodeI 2 4 0) sample_state))
     (\<lambda>_ t. SWL sample_env (with_code (encodeI 2 4 3) t)) =
   Ret () (set_host (le_write 4 (0x11223344 :: u32) 0x3001 (\<lambda>a. ucast a)) (with_code (encodeI 2 4 3) sample_state))"
  using unaligned_store [of sample_state 4 0 "0x3000" 3 sample_env 2] sample_maps
  by (simp add: lane_def al4_def pos4_def)

lemma LWL_host:
  assumes "vtlb_lookup (vtlbdata s) (al4 (ea s)) = HostPtr p" "Rt s \<noteq> 0"
  shows "LWL env s = Ret () (wr_Rt 0 (ucast (lwl (UL 0 (rRt s))
      (ee_rd 4 (vtlbdata s) (host (vtlbdata s)) (al4 (ea s))) (pos4 (ea s))) :: u64) s)"
  using mem32_host(1) [OF assms(1)] assms(2) by (simp add: LWL_def al4_def load_Rt_def)

lemma LWR_host:
  assumes "vtlb_lookup (vtlbdata s) (al4 (ea s)) = HostPtr p" "Rt s \<noteq> 0"
  shows "LWR env s = Ret ()
    (let mem = lwr (UL 0 (rRt s)) (ee_rd 4 (vtlbdata s) (host (vtlbdata s)) (al4 (ea s))) (pos4 (ea s))
     in if pos4 (ea s) = 0 then wr_Rt 0 (sx32 mem) s else wr_Rt 0 mem s)"
  using mem32_host(1) [OF assms(1)] assms(2) by (simp add: LWR_def al4_def)

text \<open>
  loading an unaligned word: \<open>LWL rt, d+3(rs)\<close> followed by \<open>LWR rt, d(rs)\<close> leaves the four
  bytes at the effective address in the low word of \<open>rt\<close>, and changes no other register and no
  memory.
\<close>

theorem unaligned_load:
  assumes "maps_to (vtlbdata s) (al4 (UL 0 (GPR s rs) + scast d)) 8 p"
    and "(scast d3 :: u32) = scast d + 3" and "rt \<noteq> 0" "rt \<noteq> rs"
  shows "\<exists>t. bindR (LWL env (with_code (encodeI rt rs d3) s)) (\<lambda>_ t. LWR env (with_code (encodeI rt rs d) t)) = Ret () t \<and>
    UL 0 (GPR t rt) = le_read 4 (host (vtlbdata s)) (p + of_nat (pos4 (UL 0 (GPR s rs) + scast d))) \<and>
    vtlbdata t = vtlbdata s \<and> (\<forall>r. r \<noteq> rt \<longrightarrow> GPR t r = GPR s r)"
proof -
  let ?a = "UL 0 (GPR s rs) + scast d"
  note pr = pair4 [OF assms(1)]
  have b: "UL 0 (GPR s rs) + scast d3 = ?a + of_nat (4 - 1)"
    by (simp add: assms(2))
  have b3: "UL 0 (GPR s rs) + scast d3 = ?a + 3"
    by (simp add: assms(2))
  obtain q where q: "vtlb_lookup (vtlbdata s) (al4 (?a + 3)) = HostPtr q"
    using pr(6) by blast
  have loc3: "ee_loc (vtlbdata s) (?a + 3) = ee_loc (vtlbdata s) ?a + of_nat (4 - 1)"
    by (simp add: pr(3))
  have ld: "lwr (lwl (UL 0 (GPR s rt)) (ee_rd 4 (vtlbdata s) (host (vtlbdata s)) (al4 (?a + 3))) (pos4 (?a + 3)))
      (ee_rd 4 (vtlbdata s) (host (vtlbdata s)) (al4 ?a)) (pos4 ?a) =
      le_read 4 (host (vtlbdata s)) (p + of_nat (pos4 ?a))"
    using ee32.load_unaligned [OF pr(1,2) _ loc3] by (simp add: pr(5))
  let ?s1 = "with_code (encodeI rt rs d3) s"
  let ?v = "lwl (UL 0 (GPR s rt)) (ee_rd 4 (vtlbdata s) (host (vtlbdata s)) (al4 (?a + 3))) (pos4 (?a + 3))"
  have l: "LWL env ?s1 = Ret () (wr_gpr rt 0 (ucast ?v :: u64) ?s1)"
    using LWL_host [of ?s1 q] assms(3) q by (simp add: b3)
  let ?s2 = "wr_gpr rt 0 (ucast ?v :: u64) (with_code (encodeI rt rs d) s)"
  have ea2: "ea ?s2 = ?a" and rt2: "Rt ?s2 = rt"
    using assms(4) by (simp_all add: ea_def Imm32_def frame_simps GPR_wr_gpr)
  have "LWR env ?s2 = Ret () (let mem = le_read 4 (host (vtlbdata s)) (p + of_nat (pos4 ?a))
      in if pos4 ?a = 0 then wr_gpr rt 0 (sx32 mem) ?s2 else wr_gpr rt 0 (mem :: u32) ?s2)"
    using LWR_host [of ?s2 p env] pr(4) assms(3) unfolding ea2 rt2 by (simp add: ld GPR_wr_gpr)
  then show ?thesis
    using l by (simp add: Let_def GPR_wr_gpr)
qed

lemma sample_word: "le_read 4 (\<lambda>a. ucast a) 0x3001 = (0x04030201 :: u32)"
  by (simp only: numeral_nat One_nat_def le_read.simps) simp

theorem unaligned_load_witness:
  "\<exists>t. bindR (LWL sample_env (with_code (encodeI 3 4 3) sample_state))
       (\<lambda>_ t. LWR sample_env (with_code (encodeI 3 4 0) t)) = Ret () t \<and> UL 0 (GPR t 3) = 0x04030201"
  using unaligned_load [of sample_state 4 0 "0x3000" 3 3 sample_env] sample_maps
  by (simp add: lane_def al4_def pos4_def sample_word) blast

section \<open>Overflow\<close>

text \<open>What an overflow-checked addition must do with the exact result \<open>z\<close>, at width \<open>w\<close>.\<close>

definition checked_result :: "nat \<Rightarrow> reg \<Rightarrow> int \<Rightarrow> 'a cpuRegisters_scheme \<Rightarrow> 'a cpuRegisters_scheme" where
  "checked_result w r z s =
     (if - (2 ^ (w - 1)) \<le> z \<and> z < 2 ^ (w - 1)
      then if r = 0 then s else wr_gpr r 0 (word_of_int z :: u64) s
      else cpuException 0x30 (branch s) s)"

lemma add32_checked:
  "wr_result r (add32_Overflow x y s) = checked_result 32 r (sint x + sint y) s"
  using add32_overflow_iff [of x y]
  by (simp add: wr_result_def add32_Overflow_def checked_result_def Let_def)

lemma add64_checked:
  "wr_result r (add64_Overflow x y s) = checked_result 64 r (sint x + sint y) s"
  using add64_overflow_iff [of x y]
  by (simp add: wr_result_def add64_Overflow_def checked_result_def Let_def)

lemma sint_Imm: "sint (Imm32 s) = sint (f_Imm (code s))" "sint (Imm64 s) = sint (f_Imm (code s))"
  by (simp_all add: Imm32_def Imm64_def sint_up_scast is_up)

text \<open>
  the overflow-checked additions are exact: \<open>ADD\<close>, \<open>ADDI\<close>, \<open>DADD\<close> and \<open>DADDI\<close> write the exact
  sum of the signed operands, sign-extended, when it fits the width, and otherwise raise the
  overflow exception without writing the destination.
\<close>

theorem checked_additions:
  "ADD s = checked_result 32 (Rd s) (SL 0 (rRs s) + SL 0 (rRt s)) s \<and>
   ADDI s = checked_result 32 (Rt s) (SL 0 (rRs s) + sint (f_Imm (code s))) s \<and>
   DADD s = checked_result 64 (Rd s) (SD 0 (rRs s) + SD 0 (rRt s)) s \<and>
   DADDI s = checked_result 64 (Rt s) (SD 0 (rRs s) + sint (f_Imm (code s))) s"
  by (simp add: ADD_def ADDI_def DADD_def DADDI_def add32_checked add64_checked UL_UD sint_Imm)

lemma sint_uminus32: "sint (- b :: u32) = (if b = 0x80000000 then - (2 ^ 31) else - sint b)"
proof (cases "b = 0x80000000")
  case True
  then show ?thesis by simp
next
  case False
  have "sint b \<noteq> - (2 ^ 31)"
  proof
    assume "sint b = - (2 ^ 31)"
    then have "sint b = sint (0x80000000 :: u32)" by simp
    then show False using False signed_word_eqI by blast
  qed
  then have "sint (word_of_int (- sint b) :: u32) = - sint b"
    using sint32_range [of b] by (intro sint_word_of_int32) linarith+
  then show ?thesis
    using False by simp
qed

lemma ucast_uminus32: "(ucast (- w :: 64 word) :: 32 word) = - ucast w"
proof (transfer)
  fix k :: int
  have len: "LENGTH(32) = 32" "LENGTH(64) = 64"
    by simp_all
  have e: "take_bit 32 (take_bit 64 j) = take_bit 32 j" for j :: int
    by (simp add: take_bit_take_bit)
  have "take_bit 32 (- take_bit 64 k) = take_bit 32 (- take_bit 32 (take_bit 64 k))"
    by (rule take_bit_minus [symmetric])
  also have "\<dots> = take_bit 32 (- k)"
    unfolding e by (rule take_bit_minus)
  finally have "take_bit 32 (take_bit 64 (- k)) = take_bit 32 (- take_bit 64 k)"
    unfolding e by (rule sym)
  then show "take_bit LENGTH(32) (take_bit LENGTH(64) (- k)) = take_bit LENGTH(32) (- take_bit LENGTH(64) k)"
    unfolding len .
qed

lemma lo32_uminus: "lo32 (- w) = - lo32 w"
  unfolding lo32_def by (rule ucast_uminus32)

text \<open>
  C10: \<open>SUB\<close> is exact for every subtrahend except \<open>0x80000000\<close>. For that one the negation wraps
  before the check, so the exception is raised exactly when the difference fits (a negative
  minuend) and missed exactly when it overflows, where the wrapped result is written.
\<close>

theorem SUB_check:
  "SUB s =
     (if UL 0 (rRt s) \<noteq> 0x80000000
      then checked_result 32 (Rd s) (SL 0 (rRs s) - SL 0 (rRt s)) s
      else if SL 0 (rRs s) < 0 then cpuException 0x30 (branch s) s
      else if Rd s = 0 then s else wr_Rd 0 (word_of_int (SL 0 (rRs s) - 2 ^ 31) :: u64) s)"
proof (cases "UL 0 (rRt s) = 0x80000000")
  case True
  then have l: "lo32 (UD 0 (rRt s)) = 0x80000000"
    by (simp add: UL_UD)
  have "SUB s = checked_result 32 (Rd s) (SL 0 (rRs s) - 2 ^ 31) s"
    by (simp add: SUB_def add32_checked lo32_uminus l UL_UD)
  then show ?thesis
    using True sint32_range [of "UL 0 (rRs s)"] by (simp add: checked_result_def)
next
  case False
  have "SUB s = checked_result 32 (Rd s) (SL 0 (rRs s) + sint (- UL 0 (rRt s))) s"
    by (simp add: SUB_def add32_checked lo32_uminus UL_UD)
  then show ?thesis
    using False by (simp add: sint_uminus32)
qed

text \<open>
  the pipe-0 multiplies and divides: \<open>MULT\<close>/\<open>MULTU\<close> leave the exact 64-bit product and
  \<open>DIV\<close>/\<open>DIVU\<close> the quotient and remainder in \<open>HI:LO\<close>, sign-extended, as for the second pipe.
\<close>

theorem multiply_divide:
  "pipe_result 0 (word_of_int (SL 0 (rRs s) * SL 0 (rRt s))) s (MULT s) \<and>
   pipe_result 0 (word_of_int (uint (UL 0 (rRs s)) * uint (UL 0 (rRt s)))) s (MULTU s) \<and>
   pipe_div 0 (div_result (UL 0 (rRs s)) (UL 0 (rRt s))) (DIV s) \<and>
   pipe_div 0 (divu_result (UL 0 (rRs s)) (UL 0 (rRt s))) (DIVU s)"
proof (intro conjI)
  have u: "word_of_int (uint a * uint b) = (ucast a * ucast b :: u64)" for a b :: u32
    by simp
  show "pipe_result 0 (word_of_int (SL 0 (rRs s) * SL 0 (rRt s))) s (MULT s)"
    using pipe_result_0 [of "word_of_int (SL 0 (rRs s) * SL 0 (rRt s))" s]
    unfolding MULT_def Let_def by (simp only: simp_thms)
  show "pipe_result 0 (word_of_int (uint (UL 0 (rRs s)) * uint (UL 0 (rRt s)))) s (MULTU s)"
    using pipe_result_0 [of "ucast (UL 0 (rRs s)) * ucast (UL 0 (rRt s))" s]
    unfolding MULTU_def Let_def u by (simp only: simp_thms)
  have "DIV s = PDIVW_lane 0 0 s" "DIVU s = PDIVUW_lane 0 0 s"
    by (simp_all add: DIV_def PDIVW_lane_def DIVU_def PDIVUW_lane_def)
  then show "pipe_div 0 (div_result (UL 0 (rRs s)) (UL 0 (rRt s))) (DIV s)"
    "pipe_div 0 (divu_result (UL 0 (rRs s)) (UL 0 (rRt s))) (DIVU s)"
    using div_writes [of "UL 0 (rRs s)" "UL 0 (rRt s)"] divu_writes [of "UL 0 (rRt s)" "UL 0 (rRs s)"]
    by (auto simp only: PDIVW_lane_writes PDIVUW_lane_writes prod.case intro!: pipe_div_0I)
qed

end
