(* ===== verification/EECop0.thy ===== *)
theory EECop0
  imports EEMem
begin

text \<open>
  The system coprocessor: \<open>pcsx2/COP0.cpp\<close> (performance counters, \<open>MFC0\<close>/\<open>MTC0\<close>, the TLB
  instructions, the coprocessor condition) and the timer test of \<open>pcsx2/R5900.cpp\<close>. The exception
  return and the interrupt enables are in \<open>EEExc\<close>, the branches on the condition in \<open>EEInterp\<close>.

  \<open>eeMem->Scratch\<close>, the host address of the scratchpad, is an argument. \<open>Cpu->Clear\<close> has an empty
  body for the interpreter. An index above 47 writes beyond the array \<open>tlb[48]\<close> in the code; in the
  model the entries are a function of the index, and only the first 48 are searched.
\<close>

section \<open>Operations\<close>

definition WriteCP0Status :: "u32 \<Rightarrow> 'a cpuRegisters_scheme \<Rightarrow> 'a cpuRegisters_scheme" where
  "WriteCP0Status v s = cpuSetNextEventDelta 4 (upd_CP0 CP0_Status v s)"

definition PERF_ShouldCountEvent :: "u32 \<Rightarrow> bool" where
  "PERF_ShouldCountEvent evt \<longleftrightarrow> evt \<in> {1, 2, 3, 12, 13, 14, 15}"

definition pccr_Event0 :: "u32 \<Rightarrow> u32" where "pccr_Event0 w = drop_bit 5 w AND 0x1f"
definition pccr_Event1 :: "u32 \<Rightarrow> u32" where "pccr_Event1 w = drop_bit 15 w AND 0x1f"

text \<open>\<open>incr = cycle - last; if (incr == 0) incr++\<close>.\<close>

definition elapsed :: "u32 \<Rightarrow> u32 \<Rightarrow> u32" where
  "elapsed now prev = (let incr = now - prev in if incr = 0 then incr + 1 else incr)"

definition COP0_UpdatePCCR :: "'d eeState \<Rightarrow> 'd eeState" where
  "COP0_UpdatePCCR s =
     (let s = (if pccr s AND 0xf \<noteq> 0 \<and> PERF_ShouldCountEvent (pccr_Event0 (pccr s))
               then s\<lparr>pcr0 := pcr0 s + elapsed (cycle s) (s_iLastPERFCycle0 s),
                      s_iLastPERFCycle0 := cycle s\<rparr> else s)
      in if bit (pccr s) 14 \<and> PERF_ShouldCountEvent (pccr_Event1 (pccr s))
         then s\<lparr>pcr1 := pcr1 s + elapsed (cycle s) (s_iLastPERFCycle1 s),
                s_iLastPERFCycle1 := cycle s\<rparr> else s)"

text \<open>
  The cases of \<open>switch (_Rd_)\<close>: 9 falls through to the default, 24 only logs.
\<close>

definition MFC0 :: "'d eeState \<Rightarrow> 'd eeState" where
  "MFC0 s =
     (if Rd s \<noteq> 9 \<and> Rt s = 0 then s
      else if Rd s = 12 then wr_Rt 0 (sx32 (CP0 s (Rd s) AND 0xf0c79c1f)) s
      else if Rd s = 25 then
        (if Imm32 s AND 1 = 0 then wr_Rt 0 (sx32 (pccr s)) s
         else let s = COP0_UpdatePCCR s
              in wr_Rt 0 (sx32 (if Imm32 s AND 2 = 0 then pcr0 s else pcr1 s)) s)
      else if Rd s = 24 then s
      else if Rd s = 9 then
        (let s = upd_CP0 CP0_Count (CP0 s CP0_Count + elapsed (cycle s) (s_iLastCOP0Cycle s)) s;
             s = s\<lparr>s_iLastCOP0Cycle := cycle s\<rparr>
         in if Rt s = 0 then s else wr_Rt 0 (ucast (CP0 s (Rd s)) :: u64) s)
      else wr_Rt 0 (ucast (CP0 s (Rd s)) :: u64) s)"

definition MTC0 :: "'d eeState \<Rightarrow> 'd eeState" where
  "MTC0 s =
     (let v = UL 0 (rRt s)
      in if Rd s = 9 then upd_CP0 9 v (s\<lparr>s_iLastCOP0Cycle := cycle s\<rparr>)
         else if Rd s = 12 then WriteCP0Status v s
         else if Rd s = 24 then s
         else if Rd s = 25 then
           (if Imm32 s AND 1 = 0 then
              (if Imm32 s AND 0x3E \<noteq> 0 then s else (COP0_UpdatePCCR s)\<lparr>pccr := v\<rparr>)
            else if Imm32 s AND 2 = 0 then s\<lparr>pcr0 := v, s_iLastPERFCycle0 := cycle s\<rparr>
            else s\<lparr>pcr1 := v, s_iLastPERFCycle1 := cycle s\<rparr>)
         else upd_CP0 (Rd s) v s)"

text \<open>
  The page loops of \<open>MapTLB\<close> and \<open>UnmapTLB\<close>: \<open>n\<close> pages from \<open>addr\<close>, those that match the entry
  under the mask.
\<close>

primrec TLB_pages ::
  "nat \<Rightarrow> u32 \<Rightarrow> u32 \<Rightarrow> u32 \<Rightarrow> (u32 \<Rightarrow> MapData \<Rightarrow> MapData) \<Rightarrow> MapData \<Rightarrow> MapData" where
  "TLB_pages 0 addr msk vpn f m = m"
| "TLB_pages (Suc n) addr msk vpn f m =
     TLB_pages n (addr + 1) msk vpn f (if addr AND msk = vpn AND msk then f addr m else m)"

definition TLB_mask :: "tlbs \<Rightarrow> u32" where
  "TLB_mask e = push_bit 1 (NOT (tlb_Mask e)) AND 0xfffff"

definition MapTLB :: "u32 \<Rightarrow> tlbs \<Rightarrow> MapData \<Rightarrow> MapData" where
  "MapTLB Scratch e m =
     (let m = (if tlb_S e \<noteq> 0 then vtlb_VMapBuffer (tlb_VPN2 e) Scratch 0x4000 m else m);
          vpn = drop_bit 12 (tlb_VPN2 e); n = unat (tlb_Mask e + 1)
      in if tlb_VPN2 e = 0x70000000 then m
         else
           (let m = (if tlb_EntryLo0 e AND 2 \<noteq> 0
                     then (let saddr = vpn in TLB_pages n saddr (TLB_mask e) vpn
                       (\<lambda>addr. memSetPageAddr (push_bit 12 addr) (tlb_PFN0 e + push_bit 12 (addr - saddr))) m)
                     else m)
            in if tlb_EntryLo1 e AND 2 \<noteq> 0
               then (let saddr = vpn + tlb_Mask e + 1 in TLB_pages n saddr (TLB_mask e) vpn
                 (\<lambda>addr. memSetPageAddr (push_bit 12 addr) (tlb_PFN1 e + push_bit 12 (addr - saddr))) m)
               else m))"

definition UnmapTLB :: "tlbs \<Rightarrow> MapData \<Rightarrow> MapData" where
  "UnmapTLB e m =
     (let vpn = drop_bit 12 (tlb_VPN2 e); n = unat (tlb_Mask e + 1)
      in if tlb_S e \<noteq> 0 then vtlb_VMapUnmap (tlb_VPN2 e) 0x4000 m
         else
           (let m = (if tlb_EntryLo0 e AND 2 \<noteq> 0
                     then TLB_pages n vpn (TLB_mask e) vpn (\<lambda>addr. memClearPageAddr (push_bit 12 addr)) m
                     else m)
            in if tlb_EntryLo1 e AND 2 \<noteq> 0
               then TLB_pages n (vpn + tlb_Mask e + 1) (TLB_mask e) vpn
                      (\<lambda>addr. memClearPageAddr (push_bit 12 addr)) m
               else m))"

text \<open>The entry that \<open>WriteTLB\<close> builds from the registers, and its effect.\<close>

definition TLB_entry :: "'a cpuRegisters_scheme \<Rightarrow> tlbs" where
  "TLB_entry s =
     (let PageMask = CP0 s CP0_PageMask; EntryHi = CP0 s CP0_EntryHi;
          EntryLo0 = CP0 s CP0_EntryLo0; EntryLo1 = CP0 s CP0_EntryLo1;
          Mask = drop_bit 13 PageMask AND 0xfff
      in \<lparr>tlb_PageMask = PageMask, tlb_EntryHi = EntryHi, tlb_EntryLo0 = EntryLo0,
          tlb_EntryLo1 = EntryLo1, tlb_Mask = Mask, tlb_nMask = NOT Mask AND 0xfff,
          tlb_G = EntryLo0 AND EntryLo1 AND 1, tlb_ASID = EntryHi AND 0xfff,
          tlb_VPN2 = push_bit 13 (drop_bit 13 EntryHi AND NOT Mask),
          tlb_PFN0 = push_bit 12 ((drop_bit 6 EntryLo0 AND 0xFFFFF) AND NOT Mask),
          tlb_PFN1 = push_bit 12 ((drop_bit 6 EntryLo1 AND 0xFFFFF) AND NOT Mask),
          tlb_S = EntryLo0 AND 0x80000000\<rparr>)"

definition WriteTLB :: "u32 \<Rightarrow> nat \<Rightarrow> 'd eeState \<Rightarrow> 'd eeState" where
  "WriteTLB Scratch i s =
     s\<lparr>tlb := (tlb s)(i := TLB_entry s), vtlbdata := MapTLB Scratch (TLB_entry s) (vtlbdata s)\<rparr>"

definition TLBR :: "'d eeState \<Rightarrow> 'd eeState" where
  "TLBR s =
     (let e = tlb s (unat (CP0 s CP0_Index AND 0x3f));
          g = drop_bit 12 (tlb_EntryHi e) AND 1
      in upd_CP0 CP0_EntryLo1 ((tlb_EntryLo1 e AND NOT 1) OR g)
          (upd_CP0 CP0_EntryLo0 ((tlb_EntryLo0 e AND NOT 1) OR g)
            (upd_CP0 CP0_EntryHi (tlb_EntryHi e AND NOT (tlb_PageMask e OR 0x1f00))
              (upd_CP0 CP0_PageMask (tlb_PageMask e) s))))"

text \<open>The common body of \<open>TLBWI\<close> and \<open>TLBWR\<close>; the fields written twice are written once.\<close>

definition replace_TLB :: "u32 \<Rightarrow> nat \<Rightarrow> 'd eeState \<Rightarrow> 'd eeState" where
  "replace_TLB Scratch j s =
     WriteTLB Scratch j (s\<lparr>vtlbdata := UnmapTLB (tlb s j) (vtlbdata s)\<rparr>)"

definition TLBWI :: "u32 \<Rightarrow> 'd eeState \<Rightarrow> 'd eeState" where
  "TLBWI Scratch s = replace_TLB Scratch (unat (CP0 s CP0_Index AND 0x3f)) s"

definition TLBWR :: "u32 \<Rightarrow> 'd eeState \<Rightarrow> 'd eeState" where
  "TLBWR Scratch s = replace_TLB Scratch (unat (CP0 s CP0_Random AND 0x3f)) s"

text \<open>
  \<open>TLBP\<close>: the code reads \<open>EntryHi\<close> through a union whose bit fields start at the low end:
  \<open>VPN2\<close> is bits 0 to 18, \<open>ASID\<close> bits 24 to 31.
\<close>

definition TLBP_match :: "u32 \<Rightarrow> tlbs \<Rightarrow> bool" where
  "TLBP_match EntryHi e \<longleftrightarrow>
     tlb_VPN2 e = NOT (tlb_Mask e) AND (EntryHi AND 0x7ffff) \<and>
     (tlb_G e AND 1 \<noteq> 0 \<or> tlb_ASID e AND 0xff = drop_bit 24 EntryHi)"

definition TLBP :: "'d eeState \<Rightarrow> 'd eeState" where
  "TLBP s =
     upd_CP0 CP0_Index
       (case List.find (\<lambda>i. TLBP_match (CP0 s CP0_EntryHi) (tlb s i)) [0..<48] of
          Some i \<Rightarrow> of_nat i | None \<Rightarrow> 0x80000000) s"

definition CPCOND0 :: "u32 \<Rightarrow> u32 \<Rightarrow> bool" where
  "CPCOND0 CIS CPC \<longleftrightarrow> (CIS OR NOT CPC) AND 0x3FF = 0x3ff"

definition cpuTestTIMR :: "'d eeState \<Rightarrow> 'd eeState" where
  "cpuTestTIMR s =
     (let s = upd_CP0 CP0_Count (CP0 s CP0_Count + (cycle s - s_iLastCOP0Cycle s)) s;
          s = s\<lparr>s_iLastCOP0Cycle := cycle s\<rparr>
      in if CP0 s CP0_Status AND 0x8000 \<noteq> 0 \<and> CP0 s CP0_Compare \<le> CP0 s CP0_Count \<and>
            CP0 s CP0_Count < CP0 s CP0_Compare + 1000
         then cpuException 0x808000 (branch s) s else s)"

section \<open>Frames\<close>

lemma upd_CP0_ee [simp]:
  "vtlbdata (upd_CP0 r v s) = vtlbdata s" "tlb (upd_CP0 r v s) = tlb s"
  "s_iLastCOP0Cycle (upd_CP0 r v s) = s_iLastCOP0Cycle s"
  by (simp_all add: upd_CP0_def)

lemma UpdatePCCR_frame [simp]:
  "GPR (COP0_UpdatePCCR s) = GPR s" "CP0 (COP0_UpdatePCCR s) = CP0 s" "code (COP0_UpdatePCCR s) = code s"
  "cycle (COP0_UpdatePCCR s) = cycle s" "pc (COP0_UpdatePCCR s) = pc s"
  "branch (COP0_UpdatePCCR s) = branch s" "vtlbdata (COP0_UpdatePCCR s) = vtlbdata s"
  by (simp_all add: COP0_UpdatePCCR_def Let_def)

lemma r0_zero_cop0 [inv_intros]:
  "r0_zero s \<Longrightarrow> r0_zero (WriteCP0Status v s)" "r0_zero s \<Longrightarrow> r0_zero (COP0_UpdatePCCR s)"
  "r0_zero s \<Longrightarrow> r0_zero (MTC0 s)" "r0_zero s \<Longrightarrow> r0_zero (TLBR s)"
  "r0_zero s \<Longrightarrow> r0_zero (TLBWI Sc s)" "r0_zero s \<Longrightarrow> r0_zero (TLBWR Sc s)"
  "r0_zero s \<Longrightarrow> r0_zero (TLBP s)" "r0_zero s \<Longrightarrow> r0_zero (cpuTestTIMR s)"
  by (simp_all add: r0_zero_def WriteCP0Status_def MTC0_def Let_def TLBR_def TLBWI_def TLBWR_def
      replace_TLB_def WriteTLB_def TLBP_def cpuTestTIMR_def)

lemma r0_zero_MFC0 [inv_intros]: "r0_zero s \<Longrightarrow> r0_zero (MFC0 s)"
  by (auto simp: r0_zero_def MFC0_def Let_def GPR_wr_gpr)

section \<open>The count register\<close>

lemma elapsed_pos: "elapsed a b \<noteq> 0"
  by (simp add: elapsed_def Let_def)

text \<open>
  reading \<open>Count\<close> always advances it, so that a loop that polls it cannot stall: two reads
  give different values even when no cycle has elapsed in between, provided fewer than \<open>2^32\<close>
  have; and the second is the first plus the cycles elapsed, at least one.
\<close>

theorem count_advances:
  assumes "Rd s = 9" "Rt s \<noteq> 0" "code t = code s" "s_iLastCOP0Cycle t = cycle s"
    "CP0 t CP0_Count = CP0 (MFC0 s) CP0_Count"
  shows "UL 0 (GPR (MFC0 t) (Rt s)) = UL 0 (GPR (MFC0 s) (Rt s)) + elapsed (cycle t) (cycle s) \<and>
    UL 0 (GPR (MFC0 t) (Rt s)) \<noteq> UL 0 (GPR (MFC0 s) (Rt s)) \<and>
    s_iLastCOP0Cycle (MFC0 t) = cycle t"
  using assms elapsed_pos [of "cycle t" "cycle s"]
  by (simp add: MFC0_def Let_def GPR_wr_gpr frame_simps)

section \<open>The TLB and the page tables\<close>

text \<open>
  The entries the hardware knows: page masks of the form \<open>2^k - 1\<close>, virtual page pairs aligned to
  the size of the pair, page-aligned frames.
\<close>

definition wf_TLB :: "nat \<Rightarrow> tlbs \<Rightarrow> bool" where
  "wf_TLB k e \<longleftrightarrow> k \<le> 12 \<and> tlb_Mask e = mask k \<and> (\<forall>n < 13 + k. \<not> bit (tlb_VPN2 e) n) \<and>
     tlb_PFN0 e AND 4095 = 0 \<and> tlb_PFN1 e AND 4095 = 0"

text \<open>The size of one page of the pair, in bytes.\<close>

definition TLB_bytes :: "tlbs \<Rightarrow> u32" where
  "TLB_bytes e = push_bit 12 (tlb_Mask e + 1)"

lemma frame_aligned: "push_bit 12 (w :: u32) AND 4095 = 0"
  by (rule bit_word_eqI) (auto simp: page_mask bit_and_iff bit_push_bit_iff bit_mask_iff simp del: bit_numeral_word_iff)

lemma wf_TLB_entry:
  "k \<le> 12 \<Longrightarrow> tlb_Mask (TLB_entry s) = mask k \<Longrightarrow> wf_TLB k (TLB_entry s)"
  unfolding wf_TLB_def TLB_entry_def Let_def tlbs.simps
  by (intro conjI allI impI)
    (simp_all only: frame_aligned bit_push_bit_iff bit_and_iff bit_not_iff bit_mask_iff, auto)

lemma mask_plus1: "mask k + 1 = (2 ^ k :: u32)"
  by (simp add: mask_eq_exp_minus_1)

lemma unat_power_lower: "n < 32 \<Longrightarrow> unat (2 ^ n :: u32) = 2 ^ n"
proof -
  assume "n < 32"
  then have "(2 :: nat) ^ n < 2 ^ 32"
    by (intro power_strict_increasing) simp_all
  then have "unat (of_nat (2 ^ n) :: u32) = 2 ^ n"
    by (simp only: unat_of_nat) simp
  then show ?thesis
    by simp
qed

lemma wf_TLB_bytes:
  assumes "wf_TLB k e"
  shows "TLB_bytes e = 2 ^ (12 + k)" "unat (TLB_bytes e) = 2 ^ (12 + k)" "unat (tlb_Mask e + 1) = 2 ^ k"
    "TLB_bytes e AND 4095 = 0" "pages (TLB_bytes e) = 2 ^ k" "unat (TLB_bytes e) \<le> 2 ^ 24"
proof -
  have k: "k \<le> 12" and m: "tlb_Mask e = mask k"
    using assms by (simp_all add: wf_TLB_def)
  show a: "TLB_bytes e = 2 ^ (12 + k)"
    by (simp add: TLB_bytes_def m mask_plus1 push_bit_eq_mult power_add)
  show b: "unat (TLB_bytes e) = 2 ^ (12 + k)"
    unfolding a using k by (subst unat_power_lower) simp_all
  show "unat (tlb_Mask e + 1) = 2 ^ k"
    unfolding m mask_plus1 using k by (subst unat_power_lower) simp_all
  show "TLB_bytes e AND 4095 = 0"
    unfolding TLB_bytes_def by (rule frame_aligned)
  show "pages (TLB_bytes e) = 2 ^ k"
    unfolding pages_def b by (simp add: power_add)
  show "unat (TLB_bytes e) \<le> 2 ^ 24"
    unfolding b using k by (intro power_increasing) simp_all
qed

lemma TLB_pages_set:
  "(\<And>i. i < n \<Longrightarrow> (a + of_nat i) AND msk = vpn AND msk) \<Longrightarrow>
   TLB_pages n a msk vpn (\<lambda>x. memSetPageAddr (push_bit 12 x) (p + push_bit 12 (x - b))) m =
   VMap_pages n (push_bit 12 a) (p + push_bit 12 (a - b)) m"
proof (induction n arbitrary: a m)
  case 0
  then show ?case by simp
next
  case (Suc n)
  have 0: "a AND msk = vpn AND msk"
    using Suc.prems [of 0] by simp
  have step: "push_bit 12 (a + 1) = push_bit 12 a + 0x1000"
    "p + push_bit 12 (a + 1 - b) = p + push_bit 12 (a - b) + 0x1000"
    by (simp_all add: push_bit_eq_mult algebra_simps)
  have "TLB_pages n (a + 1) msk vpn (\<lambda>x. memSetPageAddr (push_bit 12 x) (p + push_bit 12 (x - b))) m' =
      VMap_pages n (push_bit 12 (a + 1)) (p + push_bit 12 (a + 1 - b)) m'" for m'
    by (rule Suc.IH) (use Suc.prems [of "Suc i" for i] in \<open>simp add: add.assoc\<close>)
  then show ?case
    by (simp only: TLB_pages.simps VMap_pages.simps 0 simp_thms if_True step)
      (simp add: memSetPageAddr_def vtlb_VMap_def pages_def)
qed

lemma TLB_pages_clear:
  "(\<And>i. i < n \<Longrightarrow> (a + of_nat i) AND msk = vpn AND msk) \<Longrightarrow>
   TLB_pages n a msk vpn (\<lambda>x. memClearPageAddr (push_bit 12 x)) m = VMapUnmap_pages n (push_bit 12 a) m"
proof (induction n arbitrary: a m)
  case 0
  then show ?case by simp
next
  case (Suc n)
  have 0: "a AND msk = vpn AND msk"
    using Suc.prems [of 0] by simp
  have step: "push_bit 12 (a + 1) = push_bit 12 a + 0x1000"
    by (simp add: push_bit_eq_mult algebra_simps)
  have "TLB_pages n (a + 1) msk vpn (\<lambda>x. memClearPageAddr (push_bit 12 x)) m' =
      VMapUnmap_pages n (push_bit 12 (a + 1)) m'" for m'
    by (rule Suc.IH) (use Suc.prems [of "Suc i" for i] in \<open>simp add: add.assoc\<close>)
  then show ?case
    by (simp only: TLB_pages.simps VMapUnmap_pages.simps 0 simp_thms if_True step)
      (simp add: memClearPageAddr_def vtlb_VMapUnmap_def pages_def)
qed

text \<open>Every page of the pair matches the entry.\<close>

lemma TLB_match:
  assumes wf: "wf_TLB k e" and i: "i < 2 ^ (k + 1)"
  shows "(drop_bit 12 (tlb_VPN2 e) + of_nat i) AND TLB_mask e = drop_bit 12 (tlb_VPN2 e) AND TLB_mask e"
proof -
  let ?v = "drop_bit 12 (tlb_VPN2 e)"
  have k: "k \<le> 12" and m: "tlb_Mask e = mask k" and v: "\<forall>n < 13 + k. \<not> bit (tlb_VPN2 e) n"
    using wf by (simp_all add: wf_TLB_def)
  have lo: "\<not> bit (of_nat i :: u32) n" if "k < n" for n
  proof -
    have "i < 2 ^ n"
      using i power_increasing [of "k + 1" n "2 :: nat"] that by simp
    then have "unat (of_nat i :: u32) < 2 ^ n"
      by (simp add: unat_of_nat le_less_trans [OF mod_less_eq_dividend])
    then have "\<not> bit (unat (of_nat i :: u32)) n"
      by (simp add: bit_iff_odd)
    then show ?thesis
      using bit_imp_le_length [of "of_nat i :: u32" n] by (auto simp: bit_unsigned_iff)
  qed
  have hi: "\<not> bit ?v n" if "n \<le> k" for n
    using v that by (simp add: bit_drop_bit_eq)
  have "?v + of_nat i = ?v OR of_nat i"
    by (rule disjunctive_add) (use lo hi in \<open>meson not_le\<close>)
  moreover have "k < n" if "bit (TLB_mask e) n" for n
    using that unfolding TLB_mask_def m bit_and_iff bit_push_bit_iff bit_not_iff bit_mask_iff by auto
  ultimately show ?thesis
    by (intro bit_word_eqI) (auto simp: bit_and_iff bit_or_iff lo)
qed

lemma VPN2_aligned:
  assumes "wf_TLB k e"
  shows "push_bit 12 (drop_bit 12 (tlb_VPN2 e)) = tlb_VPN2 e" "tlb_VPN2 e AND 4095 = 0"
    "push_bit 12 (drop_bit 12 (tlb_VPN2 e) + tlb_Mask e + 1) = tlb_VPN2 e + TLB_bytes e"
    "(tlb_VPN2 e + TLB_bytes e) AND 4095 = 0"
proof -
  have v: "\<not> bit (tlb_VPN2 e) n" if "n < 12" for n
    using assms that by (simp add: wf_TLB_def)
  show a: "push_bit 12 (drop_bit 12 (tlb_VPN2 e)) = tlb_VPN2 e"
  proof (rule bit_word_eqI)
    fix n
    show "bit (push_bit 12 (drop_bit 12 (tlb_VPN2 e))) n = bit (tlb_VPN2 e) n" if "n < LENGTH(32)"
      using that v [of n] by (cases "n < 12") (simp_all add: bit_push_bit_iff bit_drop_bit_eq)
  qed
  then show "tlb_VPN2 e AND 4095 = 0"
    using frame_aligned [of "drop_bit 12 (tlb_VPN2 e)"] by simp
  have "push_bit 12 (drop_bit 12 (tlb_VPN2 e) + tlb_Mask e + 1) =
      push_bit 12 (drop_bit 12 (tlb_VPN2 e)) + TLB_bytes e"
    by (simp add: TLB_bytes_def push_bit_eq_mult algebra_simps)
  then show b: "push_bit 12 (drop_bit 12 (tlb_VPN2 e) + tlb_Mask e + 1) = tlb_VPN2 e + TLB_bytes e"
    by (simp only: a)
  show "(tlb_VPN2 e + TLB_bytes e) AND 4095 = 0"
    unfolding b [symmetric] by (rule frame_aligned)
qed

lemma TLB_match2:
  assumes wf: "wf_TLB k e" and i: "i < 2 ^ k"
  shows "(drop_bit 12 (tlb_VPN2 e) + tlb_Mask e + 1 + of_nat i) AND TLB_mask e =
    drop_bit 12 (tlb_VPN2 e) AND TLB_mask e"
proof -
  have "tlb_Mask e + 1 = of_nat (2 ^ k)"
    using wf by (simp add: wf_TLB_def mask_plus1)
  then have e: "drop_bit 12 (tlb_VPN2 e) + tlb_Mask e + 1 + of_nat i =
      drop_bit 12 (tlb_VPN2 e) + of_nat (2 ^ k + i)"
    by (simp only: add.assoc of_nat_add)
  have "2 ^ k + i < 2 ^ (k + 1)"
    using i by simp
  from TLB_match [OF wf this] show ?thesis
    unfolding e .
qed

lemma MapTLB_regions:
  assumes "wf_TLB k e" "tlb_S e = 0" "tlb_VPN2 e \<noteq> 0x70000000"
  shows "MapTLB Sc e m =
    (let m = (if tlb_EntryLo0 e AND 2 \<noteq> 0 then vtlb_VMap (tlb_VPN2 e) (tlb_PFN0 e) (TLB_bytes e) m else m)
     in if tlb_EntryLo1 e AND 2 \<noteq> 0
        then vtlb_VMap (tlb_VPN2 e + TLB_bytes e) (tlb_PFN1 e) (TLB_bytes e) m else m)"
  using TLB_pages_set [of "2 ^ k" "drop_bit 12 (tlb_VPN2 e)" "TLB_mask e" "drop_bit 12 (tlb_VPN2 e)"
      "tlb_PFN0 e" "drop_bit 12 (tlb_VPN2 e)"]
    TLB_pages_set [of "2 ^ k" "drop_bit 12 (tlb_VPN2 e) + tlb_Mask e + 1" "TLB_mask e"
      "drop_bit 12 (tlb_VPN2 e)" "tlb_PFN1 e" "drop_bit 12 (tlb_VPN2 e) + tlb_Mask e + 1"]
    TLB_match [OF assms(1)] TLB_match2 [OF assms(1)]
  by (simp only: MapTLB_def Let_def assms(2,3) wf_TLB_bytes(3,5) [OF assms(1)] VPN2_aligned [OF assms(1)]
      vtlb_VMap_def simp_thms if_False diff_self push_bit_of_0 add_0_right)
    (simp add: trans_less_add2)

lemma UnmapTLB_regions:
  assumes "wf_TLB k e" "tlb_S e = 0"
  shows "UnmapTLB e m =
    (let m = (if tlb_EntryLo0 e AND 2 \<noteq> 0 then vtlb_VMapUnmap (tlb_VPN2 e) (TLB_bytes e) m else m)
     in if tlb_EntryLo1 e AND 2 \<noteq> 0 then vtlb_VMapUnmap (tlb_VPN2 e + TLB_bytes e) (TLB_bytes e) m else m)"
  using TLB_pages_clear [of "2 ^ k" "drop_bit 12 (tlb_VPN2 e)" "TLB_mask e" "drop_bit 12 (tlb_VPN2 e)"]
    TLB_pages_clear [of "2 ^ k" "drop_bit 12 (tlb_VPN2 e) + tlb_Mask e + 1" "TLB_mask e"
      "drop_bit 12 (tlb_VPN2 e)"]
    TLB_match [OF assms(1)] TLB_match2 [OF assms(1)]
  by (simp only: UnmapTLB_def Let_def assms(2) wf_TLB_bytes(3,5) [OF assms(1)] VPN2_aligned [OF assms(1)]
      vtlb_VMapUnmap_def simp_thms if_False)
    (simp add: trans_less_add2)

text \<open>The two halves of a pair do not overlap.\<close>

lemma pair_halves:
  assumes "wf_TLB k e" "off < TLB_bytes e"
  shows "v + off - v < TLB_bytes e" "\<not> v + off - (v + TLB_bytes e) < TLB_bytes e"
    "v + TLB_bytes e + off - (v + TLB_bytes e) < TLB_bytes e" "\<not> v + TLB_bytes e + off - v < TLB_bytes e"
    "\<not> a - v < 2 * TLB_bytes e \<Longrightarrow> \<not> a - v < TLB_bytes e \<and> \<not> a - (v + TLB_bytes e) < TLB_bytes e"
proof -
  let ?sz = "TLB_bytes e"
  have sz: "unat ?sz \<le> 2 ^ 24" and off: "unat off < unat ?sz"
    using assms by (simp_all only: wf_TLB_bytes(6) [OF assms(1)] word_less_nat_alt)
  show "v + off - v < ?sz" "v + ?sz + off - (v + ?sz) < ?sz"
    using assms(2) by simp_all
  have "unat (?sz + off) = unat ?sz + unat off"
    using sz off by (simp add: unat_word_ariths(1))
  then show "\<not> v + ?sz + off - v < ?sz"
    by (simp add: word_less_nat_alt algebra_simps)
  have "unat (off - ?sz) = 2 ^ 32 + unat off - unat ?sz"
    using off by (simp add: unat_sub_if' word_le_nat_alt)
  then have "\<not> off - ?sz < ?sz"
    using sz by (simp add: word_less_nat_alt)
  then show "\<not> v + off - (v + ?sz) < ?sz"
    by (simp add: algebra_simps)
  assume "\<not> a - v < 2 * ?sz"
  moreover have "unat (2 * ?sz) = 2 * unat ?sz"
    using sz by (simp add: unat_word_ariths(2))
  ultimately have d: "2 * unat ?sz \<le> unat (a - v)"
    by (simp add: word_less_nat_alt)
  then have "unat (a - v - ?sz) = unat (a - v) - unat ?sz"
    by (simp add: unat_sub word_le_nat_alt)
  then have "\<not> a - v - ?sz < ?sz"
    using d by (simp add: word_less_nat_alt)
  then show "\<not> a - v < ?sz \<and> \<not> a - (v + ?sz) < ?sz"
    using d by (simp add: word_less_nat_alt diff_diff_eq)
qed

section \<open>TLB properties\<close>

lemma MapTLB_even:
  assumes "wf_pmap m" "wf_TLB k e" "tlb_S e = 0" "tlb_VPN2 e \<noteq> 0x70000000" "off < TLB_bytes e"
    "tlb_EntryLo0 e AND 2 \<noteq> 0" "(tlb_PFN0 e + off) AND 0x7ffff000 \<noteq> 0x7ffff000"
  shows "vtlb_lookup (MapTLB Sc e m) (tlb_VPN2 e + off) = phys_target m (tlb_PFN0 e + off)"
proof -
  note al = VPN2_aligned(2,4) [OF assms(2)] wf_TLB_bytes(4) [OF assms(2)]
  have pf: "tlb_PFN0 e AND 4095 = 0" "tlb_PFN1 e AND 4095 = 0"
    using assms(2) by (simp_all add: wf_TLB_def)
  have "vtlb_lookup (vtlb_VMap (tlb_VPN2 e) (tlb_PFN0 e) (TLB_bytes e) m) (tlb_VPN2 e + off) =
      phys_target m (tlb_PFN0 e + off)"
    using VMap_lookup [OF assms(1) al(1) pf(1) al(3) pair_halves(1) [OF assms(2,5)]] assms(7) by simp
  then show ?thesis
    using VMap_lookup_other [OF al(2) pf(2) al(3) pair_halves(2) [OF assms(2,5)]]
    by (simp add: MapTLB_regions [OF assms(2-4)] Let_def assms(6))
qed

lemma MapTLB_odd:
  assumes "wf_pmap m" "wf_TLB k e" "tlb_S e = 0" "tlb_VPN2 e \<noteq> 0x70000000" "off < TLB_bytes e"
    "tlb_EntryLo1 e AND 2 \<noteq> 0" "(tlb_PFN1 e + off) AND 0x7ffff000 \<noteq> 0x7ffff000"
  shows "vtlb_lookup (MapTLB Sc e m) (tlb_VPN2 e + TLB_bytes e + off) = phys_target m (tlb_PFN1 e + off)"
proof -
  note al = VPN2_aligned(2,4) [OF assms(2)] wf_TLB_bytes(4) [OF assms(2)]
  have pf: "tlb_PFN1 e AND 4095 = 0"
    using assms(2) by (simp add: wf_TLB_def)
  define m' where "m' = (if tlb_EntryLo0 e AND 2 \<noteq> 0
    then vtlb_VMap (tlb_VPN2 e) (tlb_PFN0 e) (TLB_bytes e) m else m)"
  have "pmap m' = pmap m"
    by (simp add: m'_def)
  note p = pmap_only [OF this]
  have "vtlb_lookup (vtlb_VMap (tlb_VPN2 e + TLB_bytes e) (tlb_PFN1 e) (TLB_bytes e) m')
      (tlb_VPN2 e + TLB_bytes e + off) = phys_target m' (tlb_PFN1 e + off)"
    using VMap_lookup [of m', OF _ al(2) pf al(3) pair_halves(3) [OF assms(2,5)]] assms(1,7) p(1) by simp
  then show ?thesis
    by (simp add: MapTLB_regions [OF assms(2-4)] Let_def assms(6) m'_def [symmetric] p(2))
qed

lemma MapTLB_other:
  assumes "wf_TLB k e" "tlb_S e = 0" "tlb_VPN2 e \<noteq> 0x70000000" "\<not> a - tlb_VPN2 e < 2 * TLB_bytes e"
  shows "vtlb_lookup (MapTLB Sc e m) a = vtlb_lookup m a"
proof -
  have pf: "tlb_PFN0 e AND 4095 = 0" "tlb_PFN1 e AND 4095 = 0"
    using assms(1) by (simp_all add: wf_TLB_def)
  have "0 < TLB_bytes e"
    using wf_TLB_bytes(2) [OF assms(1)] by (simp add: word_less_nat_alt)
  then show ?thesis
    using VMap_lookup_other VPN2_aligned(2,4) [OF assms(1)] wf_TLB_bytes(4) [OF assms(1)] pf
      pair_halves(5) [OF assms(1) _ assms(4)]
    by (simp add: MapTLB_regions [OF assms(1-3)] Let_def)
qed

text \<open>
  C11: writing a TLB entry maps its page pair: after \<open>WriteTLB\<close> every address in the valid half of
  the pair selected by \<open>EntryHi\<close> and \<open>PageMask\<close> is looked up at the physical frame of its
  \<open>EntryLo\<close> register, for all page sizes from 4 KB to 16 MB, and no address outside the pair changes.
\<close>

theorem TLB_write_maps:
  fixes s :: "'d eeState" and Sc :: u32 and i :: nat
  defines "e \<equiv> TLB_entry s" and "m \<equiv> vtlbdata s"
  defines "m' \<equiv> vtlbdata (WriteTLB Sc i s)"
  assumes "wf_pmap m" "k \<le> 12" "tlb_Mask e = mask k" "tlb_S e = 0" "tlb_VPN2 e \<noteq> 0x70000000"
  shows "(off < TLB_bytes e \<and> CP0 s CP0_EntryLo0 AND 2 \<noteq> 0 \<and>
      (tlb_PFN0 e + off) AND 0x7ffff000 \<noteq> 0x7ffff000 \<longrightarrow>
      vtlb_lookup m' (tlb_VPN2 e + off) = phys_target m (tlb_PFN0 e + off)) \<and>
    (off < TLB_bytes e \<and> CP0 s CP0_EntryLo1 AND 2 \<noteq> 0 \<and>
      (tlb_PFN1 e + off) AND 0x7ffff000 \<noteq> 0x7ffff000 \<longrightarrow>
      vtlb_lookup m' (tlb_VPN2 e + TLB_bytes e + off) = phys_target m (tlb_PFN1 e + off)) \<and>
    (\<not> a - tlb_VPN2 e < 2 * TLB_bytes e \<longrightarrow> vtlb_lookup m' a = vtlb_lookup m a)"
proof -
  have wf: "wf_TLB k e"
    unfolding e_def using assms(5,6) by (intro wf_TLB_entry) (simp_all add: e_def)
  have lo: "CP0 s CP0_EntryLo0 = tlb_EntryLo0 e" "CP0 s CP0_EntryLo1 = tlb_EntryLo1 e"
    by (simp_all add: e_def TLB_entry_def Let_def)
  have m': "m' = MapTLB Sc e m"
    by (simp add: m'_def WriteTLB_def e_def m_def)
  show ?thesis
    unfolding m' lo
    using MapTLB_even [OF assms(4) wf assms(7,8)] MapTLB_odd [OF assms(4) wf assms(7,8)]
      MapTLB_other [OF wf assms(7,8)] by blast
qed

text \<open>A state with 4-KB pages at \<open>0x00404000\<close>, frames \<open>0x100\<close> and \<open>0x200\<close>.\<close>

definition TLB_sample :: "unit eeState" where
  "TLB_sample = ee_state
     (cpuReset_regs\<lparr>CP0 := (\<lambda>_. 0)(CP0_EntryHi := 0x00404000, CP0_EntryLo0 := 0x42, CP0_EntryLo1 := 0x82)\<rparr>)
     sample_map (\<lambda>_. zero_tlbs\<lparr>tlb_VPN2 := 0x80000\<rparr>) ()"

lemma TLB_sample_simps:
  "vtlbdata TLB_sample = sample_map" "tlb_VPN2 (TLB_entry TLB_sample) = 0x00404000"
  "tlb_Mask (TLB_entry TLB_sample) = mask 0" "tlb_S (TLB_entry TLB_sample) = 0"
  "tlb_PFN0 (TLB_entry TLB_sample) = 0x1000" "CP0 TLB_sample 2 = 0x42"
  by (simp_all add: TLB_sample_def TLB_entry_def Let_def mask_eq_exp_minus_1)

theorem TLB_write_maps_witness:
  "vtlb_lookup (vtlbdata (WriteTLB 0 5 TLB_sample)) 0x00404010 = HostPtr 0x00401010"
  using TLB_write_maps [of TLB_sample 0 "0x10" 0 5] wf_sample_map
  by (simp add: TLB_sample_simps TLB_bytes_def mask_eq_exp_minus_1 phys_target_def page_of_def)
    (simp add: sample_map_def)

lemma Unmap_halves:
  assumes "wf_TLB k e" "tlb_S e = 0" "off < TLB_bytes e"
  shows "tlb_EntryLo0 e AND 2 \<noteq> 0 \<Longrightarrow> tlb_VPN2 e + off \<noteq> 0xffffffff \<Longrightarrow>
      vtlb_lookup (UnmapTLB e m) (tlb_VPN2 e + off) = unmapped_target (tlb_VPN2 e + off)"
    "tlb_EntryLo1 e AND 2 \<noteq> 0 \<Longrightarrow> tlb_VPN2 e + TLB_bytes e + off \<noteq> 0xffffffff \<Longrightarrow>
      vtlb_lookup (UnmapTLB e m) (tlb_VPN2 e + TLB_bytes e + off) =
        unmapped_target (tlb_VPN2 e + TLB_bytes e + off)"
proof -
  note al = VPN2_aligned(2,4) [OF assms(1)] wf_TLB_bytes(4) [OF assms(1)]
  note h = pair_halves [OF assms(1,3)]
  show "vtlb_lookup (UnmapTLB e m) (tlb_VPN2 e + off) = unmapped_target (tlb_VPN2 e + off)"
    if "tlb_EntryLo0 e AND 2 \<noteq> 0" "tlb_VPN2 e + off \<noteq> 0xffffffff"
    using Unmap_lookup [OF al(1,3) h(1) that(2)] Unmap_lookup_other [OF al(2,3) h(2)]
    by (simp add: UnmapTLB_regions [OF assms(1,2)] Let_def that(1))
  show "vtlb_lookup (UnmapTLB e m) (tlb_VPN2 e + TLB_bytes e + off) =
      unmapped_target (tlb_VPN2 e + TLB_bytes e + off)"
    if "tlb_EntryLo1 e AND 2 \<noteq> 0" "tlb_VPN2 e + TLB_bytes e + off \<noteq> 0xffffffff"
    using Unmap_lookup [OF al(2,3) h(3) that(2)]
    by (simp add: UnmapTLB_regions [OF assms(1,2)] Let_def that(1))
qed



text \<open>
  the probe misreads \<open>EntryHi\<close>: its union puts the page number at bits 0 to 18, so an entry
  for a virtual page at or above \<open>0x00080000\<close> is never found: when every entry maps such pages,
  \<open>TLBP\<close> reports a miss whatever \<open>EntryHi\<close> holds, even the value the entry was written with.
\<close>

theorem TLBP_never_matches:
  assumes "\<forall>i < 48. 0x80000 \<le> tlb_VPN2 (tlb s i)"
  shows "CP0 (TLBP s) CP0_Index = 0x80000000"
proof -
  have "\<not> TLBP_match h (tlb s i)" if "i < 48" for h i
  proof
    assume "TLBP_match h (tlb s i)"
    then have "tlb_VPN2 (tlb s i) = NOT (tlb_Mask (tlb s i)) AND (h AND 0x7ffff)"
      by (simp add: TLBP_match_def)
    also have "\<dots> \<le> h AND 0x7ffff"
      by (rule word_and_le1)
    also have "\<dots> \<le> 0x7ffff"
      by (rule word_and_le1)
    finally show False
      using assms that by (auto simp: word_le_nat_alt)
  qed
  then have "List.find (\<lambda>i. TLBP_match (CP0 s CP0_EntryHi) (tlb s i)) [0..<48] = None"
    by (simp add: find_None_iff)
  then show ?thesis
    by (simp add: TLBP_def)
qed

theorem TLBP_never_matches_witness:
  "CP0 (TLBP TLB_sample) CP0_Index = 0x80000000"
  using TLBP_never_matches [of TLB_sample]
  by (simp add: TLB_sample_def)

text \<open>Witness for the count register.\<close>

definition MFC0_count :: "u32" where
  "MFC0_count = push_bit 26 0x10 OR push_bit 16 2 OR push_bit 11 9"

theorem count_advances_witness:
  "UL 0 (GPR (MFC0 (MFC0 (TLB_sample\<lparr>code := MFC0_count\<rparr>))) 2) = 2"
proof -
  let ?s = "TLB_sample\<lparr>code := MFC0_count\<rparr>"
  have f: "Rd ?s = 9" "Rt ?s = 2"
    by (simp_all add: MFC0_count_def f_Rd_def f_Rt_def)
  have c: "cycle ?s = 0" "s_iLastCOP0Cycle ?s = 0" "CP0 ?s 9 = 0"
    by (simp_all add: TLB_sample_def cpuReset_regs_def)
  have m: "MFC0 ?s = wr_gpr 2 0 (1 :: u64) ((upd_CP0 9 1 ?s)\<lparr>s_iLastCOP0Cycle := 0\<rparr>)"
    by (simp only: MFC0_def Let_def f c) (simp add: elapsed_def c f [simplified])
  have t: "code (MFC0 ?s) = code ?s" "s_iLastCOP0Cycle (MFC0 ?s) = cycle ?s" "cycle (MFC0 ?s) = 0"
    "CP0 (MFC0 ?s) 9 = 1" "UL 0 (GPR (MFC0 ?s) 2) = 1"
    unfolding m using c by (simp_all add: frame_simps GPR_wr_gpr UL_UD lo32_def) (simp add: wr_gpr_def upd_CP0_def)
  show ?thesis
    using count_advances [of ?s "MFC0 ?s"] f t c by (simp add: elapsed_def)
qed

end
