(* ===== verification/EEFpu.thy ===== *)
theory EEFpu
  imports EEMem
begin

text \<open>
  The EE's floating point unit, \<open>pcsx2/FPU.cpp\<close>: clamping and flags, arithmetic, comparisons,
  conversions, moves, loads and stores. The conditional branches are in \<open>EEInterp\<close>.

  The host's single-precision arithmetic (under the rounding and denormal modes the emulator sets)
  is the parameter \<open>host_fpu\<close>, on bit patterns; \<open>h_div_sqrt a b\<close> is \<open>a / sqrt(b)\<close>. What is proved
  about results assumes only that the operations on finite operands give no NaN.
\<close>

record host_fpu =
  h_add :: "u32 \<Rightarrow> u32 \<Rightarrow> u32"
  h_sub :: "u32 \<Rightarrow> u32 \<Rightarrow> u32"
  h_mul :: "u32 \<Rightarrow> u32 \<Rightarrow> u32"
  h_div :: "u32 \<Rightarrow> u32 \<Rightarrow> u32"
  h_sqrt :: "u32 \<Rightarrow> u32"
  h_div_sqrt :: "u32 \<Rightarrow> u32 \<Rightarrow> u32"
  h_lt :: "u32 \<Rightarrow> u32 \<Rightarrow> bool"
  h_le :: "u32 \<Rightarrow> u32 \<Rightarrow> bool"
  h_eq :: "u32 \<Rightarrow> u32 \<Rightarrow> bool"
  h_of_s32 :: "u32 \<Rightarrow> u32"
  h_to_s32 :: "u32 \<Rightarrow> u32"

abbreviation (input) PosInfinity :: u32 where "PosInfinity \<equiv> 0x7f800000"
abbreviation (input) posFmax :: u32 where "posFmax \<equiv> 0x7F7FFFFF"
abbreviation (input) FPUflagC :: u32 where "FPUflagC \<equiv> 0x00800000"
abbreviation (input) FPUflagI :: u32 where "FPUflagI \<equiv> 0x00020000"
abbreviation (input) FPUflagD :: u32 where "FPUflagD \<equiv> 0x00010000"
abbreviation (input) FPUflagO :: u32 where "FPUflagO \<equiv> 0x00008000"
abbreviation (input) FPUflagU :: u32 where "FPUflagU \<equiv> 0x00004000"
abbreviation (input) FPUflagSI :: u32 where "FPUflagSI \<equiv> 0x00000040"
abbreviation (input) FPUflagSD :: u32 where "FPUflagSD \<equiv> 0x00000020"
abbreviation (input) FPUflagSO :: u32 where "FPUflagSO \<equiv> 0x00000010"
abbreviation (input) FPUflagSU :: u32 where "FPUflagSU \<equiv> 0x00000008"

section \<open>Registers\<close>

abbreviation FtVal where "FtVal s \<equiv> fpr s (Rt s)"
abbreviation FsVal where "FsVal s \<equiv> fpr s (Rd s)"
abbreviation ContVal where "ContVal s \<equiv> fprc s 31"

text \<open>\<open>_Fd_\<close> is the field of the shift amount.\<close>

definition wr_fpr :: "reg \<Rightarrow> u32 \<Rightarrow> 'd eeState \<Rightarrow> 'd eeState" where
  "wr_fpr r v s = s\<lparr>fpr := (fpr s)(r := v)\<rparr>"

abbreviation wr_Fd where "wr_Fd v s \<equiv> wr_fpr (f_Sa (code s)) v s"

definition set_Cont :: "u32 \<Rightarrow> 'd eeState \<Rightarrow> 'd eeState" where
  "set_Cont v s = s\<lparr>fprc := (fprc s)(31 := v)\<rparr>"

definition orFPUFlags :: "u32 \<Rightarrow> 'd eeState \<Rightarrow> 'd eeState" where
  "orFPUFlags fl s = set_Cont (ContVal s OR fl) s"

definition clearFPUFlags :: "u32 \<Rightarrow> 'd eeState \<Rightarrow> 'd eeState" where
  "clearFPUFlags fl s = set_Cont (ContVal s AND NOT fl) s"

section \<open>Clamping\<close>

text \<open>
  The checks take the value of the register they adjust and return its new value, the flags to
  raise and whether they fired.
\<close>

definition checkOverflow :: "u32 \<Rightarrow> u32 \<Rightarrow> bool \<times> u32 \<times> u32" where
  "checkOverflow x fl =
     (if x AND NOT 0x80000000 = PosInfinity then (True, (x AND 0x80000000) OR posFmax, fl) else (False, x, 0))"

definition checkUnderflow :: "u32 \<Rightarrow> u32 \<Rightarrow> bool \<times> u32 \<times> u32" where
  "checkUnderflow x fl =
     (if x AND 0x7F800000 = 0 \<and> x AND 0x007FFFFF \<noteq> 0 then (True, x AND 0x80000000, fl) else (False, x, 0))"

definition fpuDouble :: "u32 \<Rightarrow> u32" where
  "fpuDouble f =
     (if f AND 0x7f800000 = 0 then f AND 0x80000000
      else if f AND 0x7f800000 = 0x7f800000 then (f AND 0x80000000) OR 0x7f7fffff
      else f)"

text \<open>
  The end of an arithmetic instruction: the result \<open>x\<close> is checked for overflow with the flags \<open>fo\<close>
  and, if that did not fire, for underflow with the flags \<open>fu\<close>.
\<close>

definition clamp :: "u32 \<Rightarrow> u32 \<Rightarrow> u32 \<Rightarrow> u32 \<times> u32" where
  "clamp x fo fu = (let (ov, x, fl) = checkOverflow x fo
                    in if ov then (x, fl) else let (un, x, fl) = checkUnderflow x fu in (x, fl))"

definition finish_Fd :: "u32 \<Rightarrow> u32 \<Rightarrow> u32 \<Rightarrow> 'd eeState \<Rightarrow> 'd eeState" where
  "finish_Fd x fo fu s = (let (v, fl) = clamp x fo fu in orFPUFlags fl (wr_Fd v s))"

definition finish_ACC :: "u32 \<Rightarrow> u32 \<Rightarrow> u32 \<Rightarrow> 'd eeState \<Rightarrow> 'd eeState" where
  "finish_ACC x fo fu s = (let (v, fl) = clamp x fo fu in orFPUFlags fl (s\<lparr>ACC := v\<rparr>))"

abbreviation (input) OF where "OF \<equiv> FPUflagO OR FPUflagSO"
abbreviation (input) UF where "UF \<equiv> FPUflagU OR FPUflagSU"

section \<open>Arithmetic\<close>

definition ABS_S :: "'d eeState \<Rightarrow> 'd eeState" where
  "ABS_S s = clearFPUFlags (FPUflagO OR FPUflagU) (wr_Fd (FsVal s AND 0x7fffffff) s)"

definition ADD_S :: "host_fpu \<Rightarrow> 'd eeState \<Rightarrow> 'd eeState" where
  "ADD_S h s = finish_Fd (h_add h (fpuDouble (FsVal s)) (fpuDouble (FtVal s))) OF UF s"

definition ADDA_S :: "host_fpu \<Rightarrow> 'd eeState \<Rightarrow> 'd eeState" where
  "ADDA_S h s = finish_ACC (h_add h (fpuDouble (FsVal s)) (fpuDouble (FtVal s))) OF UF s"

definition SUB_S :: "host_fpu \<Rightarrow> 'd eeState \<Rightarrow> 'd eeState" where
  "SUB_S h s = finish_Fd (h_sub h (fpuDouble (FsVal s)) (fpuDouble (FtVal s))) OF UF s"

definition SUBA_S :: "host_fpu \<Rightarrow> 'd eeState \<Rightarrow> 'd eeState" where
  "SUBA_S h s = finish_ACC (h_sub h (fpuDouble (FsVal s)) (fpuDouble (FtVal s))) OF UF s"

definition MUL_S :: "host_fpu \<Rightarrow> 'd eeState \<Rightarrow> 'd eeState" where
  "MUL_S h s = finish_Fd (h_mul h (fpuDouble (FsVal s)) (fpuDouble (FtVal s))) OF UF s"

definition MULA_S :: "host_fpu \<Rightarrow> 'd eeState \<Rightarrow> 'd eeState" where
  "MULA_S h s = finish_ACC (h_mul h (fpuDouble (FsVal s)) (fpuDouble (FtVal s))) OF UF s"

definition MADD_S :: "host_fpu \<Rightarrow> 'd eeState \<Rightarrow> 'd eeState" where
  "MADD_S h s =
     (let temp = h_mul h (fpuDouble (FsVal s)) (fpuDouble (FtVal s))
      in finish_Fd (h_add h (fpuDouble (ACC s)) (fpuDouble temp)) OF UF s)"

definition MSUB_S :: "host_fpu \<Rightarrow> 'd eeState \<Rightarrow> 'd eeState" where
  "MSUB_S h s =
     (let temp = h_mul h (fpuDouble (FsVal s)) (fpuDouble (FtVal s))
      in finish_Fd (h_sub h (fpuDouble (ACC s)) (fpuDouble temp)) OF UF s)"

definition MADDA_S :: "host_fpu \<Rightarrow> 'd eeState \<Rightarrow> 'd eeState" where
  "MADDA_S h s =
     finish_ACC (h_add h (ACC s) (h_mul h (fpuDouble (FsVal s)) (fpuDouble (FtVal s)))) OF UF s"

definition MSUBA_S :: "host_fpu \<Rightarrow> 'd eeState \<Rightarrow> 'd eeState" where
  "MSUBA_S h s =
     finish_ACC (h_sub h (ACC s) (h_mul h (fpuDouble (FsVal s)) (fpuDouble (FtVal s)))) OF UF s"

definition checkDivideByZero :: "u32 \<Rightarrow> u32 \<Rightarrow> u32 \<Rightarrow> u32 \<Rightarrow> (u32 \<times> u32) option" where
  "checkDivideByZero divisor dividend fl1 fl2 =
     (if divisor AND 0x7F800000 = 0
      then Some (((divisor XOR dividend) AND 0x80000000) OR posFmax,
                 if dividend AND 0x7F800000 = 0 then fl2 else fl1)
      else None)"

definition DIV_S :: "host_fpu \<Rightarrow> 'd eeState \<Rightarrow> 'd eeState" where
  "DIV_S h s =
     (case checkDivideByZero (FtVal s) (FsVal s) (FPUflagD OR FPUflagSD) (FPUflagI OR FPUflagSI) of
        Some (v, fl) \<Rightarrow> wr_Fd v (orFPUFlags fl s)
      | None \<Rightarrow> finish_Fd (h_div h (fpuDouble (FsVal s)) (fpuDouble (FtVal s))) 0 0 s)"

definition SQRT_S :: "host_fpu \<Rightarrow> 'd eeState \<Rightarrow> 'd eeState" where
  "SQRT_S h s =
     clearFPUFlags FPUflagD
       (if FtVal s AND 0x7F800000 = 0 then wr_Fd 0 s
        else if FtVal s AND 0x80000000 \<noteq> 0 then
          wr_Fd (h_sqrt h (fpuDouble (FtVal s) AND 0x7fffffff)) (orFPUFlags (FPUflagI OR FPUflagSI) s)
        else wr_Fd (h_sqrt h (fpuDouble (FtVal s))) s)"

definition RSQRT_S :: "host_fpu \<Rightarrow> 'd eeState \<Rightarrow> 'd eeState" where
  "RSQRT_S h s =
     (if FtVal s AND 0x7F800000 = 0 then
        wr_Fd (((FsVal s XOR FtVal s) AND 0x80000000) OR posFmax) (orFPUFlags (FPUflagD OR FPUflagSD) s)
      else if FtVal s AND 0x80000000 \<noteq> 0 then
        (let temp = h_sqrt h (fpuDouble (FtVal s) AND 0x7fffffff)
         in finish_Fd (h_div h (fpuDouble (FsVal s)) (fpuDouble temp)) 0 0
              (orFPUFlags (FPUflagI OR FPUflagSI) s))
      else finish_Fd (h_div_sqrt h (fpuDouble (FsVal s)) (fpuDouble (FtVal s))) 0 0 s)"

text \<open>\<open>std::max(a, b)\<close> is \<open>a < b ? b : a\<close>, \<open>std::min(a, b)\<close> is \<open>b < a ? b : a\<close>.\<close>

definition MAX_S :: "host_fpu \<Rightarrow> 'd eeState \<Rightarrow> 'd eeState" where
  "MAX_S h s =
     clearFPUFlags (FPUflagO OR FPUflagU)
       (wr_Fd (if h_lt h (FsVal s) (FtVal s) then FtVal s else FsVal s) s)"

definition MIN_S :: "host_fpu \<Rightarrow> 'd eeState \<Rightarrow> 'd eeState" where
  "MIN_S h s =
     clearFPUFlags (FPUflagO OR FPUflagU)
       (wr_Fd (if h_lt h (FtVal s) (FsVal s) then FtVal s else FsVal s) s)"

definition NEG_S :: "'d eeState \<Rightarrow> 'd eeState" where
  "NEG_S s = clearFPUFlags (FPUflagO OR FPUflagU) (wr_Fd (FsVal s XOR 0x80000000) s)"

definition MOV_S :: "'d eeState \<Rightarrow> 'd eeState" where
  "MOV_S s = wr_Fd (FsVal s) s"

section \<open>Comparisons and conversions\<close>

definition C_cond_S :: "bool \<Rightarrow> 'd eeState \<Rightarrow> 'd eeState" where
  "C_cond_S b s = (if b then orFPUFlags FPUflagC s else clearFPUFlags FPUflagC s)"

definition C_EQ :: "host_fpu \<Rightarrow> 'd eeState \<Rightarrow> 'd eeState" where
  "C_EQ h s = C_cond_S (h_eq h (FsVal s) (FtVal s)) s"

definition C_LE :: "host_fpu \<Rightarrow> 'd eeState \<Rightarrow> 'd eeState" where
  "C_LE h s = C_cond_S (h_le h (FsVal s) (FtVal s)) s"

definition C_LT :: "host_fpu \<Rightarrow> 'd eeState \<Rightarrow> 'd eeState" where
  "C_LT h s = C_cond_S (h_lt h (FsVal s) (FtVal s)) s"

definition C_F :: "'d eeState \<Rightarrow> 'd eeState" where
  "C_F s = clearFPUFlags FPUflagC s"

definition CVT_S :: "host_fpu \<Rightarrow> 'd eeState \<Rightarrow> 'd eeState" where
  "CVT_S h s = wr_Fd (fpuDouble (h_of_s32 h (FsVal s))) s"

definition CVT_W :: "host_fpu \<Rightarrow> 'd eeState \<Rightarrow> 'd eeState" where
  "CVT_W h s =
     (if FsVal s AND 0x7F800000 \<le> 0x4E800000 then wr_Fd (h_to_s32 h (FsVal s)) s
      else if FsVal s AND 0x80000000 = 0 then wr_Fd 0x7fffffff s
      else wr_Fd 0x80000000 s)"

section \<open>Moves, loads and stores\<close>

definition CFC1 :: "'d eeState \<Rightarrow> 'd eeState" where
  "CFC1 s =
     (if Rt s = 0 then s
      else wr_Rt 0 (sx32 (if 16 \<le> Rd s then fprc s 31 else fprc s 0)) s)"

definition CTC1 :: "'d eeState \<Rightarrow> 'd eeState" where
  "CTC1 s = (if Rd s \<noteq> 31 then s else s\<lparr>fprc := (fprc s)(Rd s := UL 0 (rRt s))\<rparr>)"

definition MFC1 :: "'d eeState \<Rightarrow> 'd eeState" where
  "MFC1 s = (if Rt s = 0 then s else wr_Rt 0 (sx32 (FsVal s)) s)"

definition MTC1 :: "'d eeState \<Rightarrow> 'd eeState" where
  "MTC1 s = wr_fpr (Rd s) (UL 0 (rRt s)) s"

definition LWC1 :: "'d RWFT \<Rightarrow> 'd eeState \<Rightarrow> (unit, 'd eeState) res" where
  "LWC1 env s =
     (let addr = UL 0 (rRs s) + Imm32 s
      in if addr AND 3 \<noteq> 0 then Ret () s
         else bindR (memRead32 env addr s) (\<lambda>v s. Ret () (wr_fpr (Rt s) v s)))"

definition SWC1 :: "'d RWFT \<Rightarrow> 'd eeState \<Rightarrow> (unit, 'd eeState) res" where
  "SWC1 env s =
     (let addr = UL 0 (rRs s) + Imm32 s
      in if addr AND 3 \<noteq> 0 then Ret () s else memWrite32 env addr (fpr s (Rt s)) s)"

section \<open>Frames\<close>

lemma fpu_frame [simp, frame_simps]:
  "GPR (wr_fpr r v s) = GPR s" "GPR (set_Cont w s) = GPR s" "GPR (orFPUFlags w s) = GPR s"
  "GPR (clearFPUFlags w s) = GPR s" "GPR (C_cond_S b s) = GPR s" "GPR (finish_Fd x fo fu s) = GPR s"
  "GPR (finish_ACC x fo fu s) = GPR s"
  "code (wr_fpr r v s) = code s" "code (set_Cont w s) = code s" "code (orFPUFlags w s) = code s"
  "code (clearFPUFlags w s) = code s" "fpr (set_Cont w s) = fpr s" "fpr (orFPUFlags w s) = fpr s"
  "fpr (clearFPUFlags w s) = fpr s" "ACC (set_Cont w s) = ACC s" "ACC (orFPUFlags w s) = ACC s"
  "ACC (wr_fpr r v s) = ACC s" "ACC (clearFPUFlags w s) = ACC s"
  "fpr (wr_fpr r v s) = (fpr s)(r := v)" "fprc (wr_fpr r v s) = fprc s"
  by (simp_all add: wr_fpr_def set_Cont_def orFPUFlags_def clearFPUFlags_def C_cond_S_def
      finish_Fd_def finish_ACC_def split: prod.splits)

lemma r0_zero_fpu [inv_intros]:
  assumes "r0_zero s"
  shows "r0_zero (ABS_S s)" "r0_zero (ADD_S h s)" "r0_zero (ADDA_S h s)" "r0_zero (SUB_S h s)"
    "r0_zero (SUBA_S h s)" "r0_zero (MUL_S h s)" "r0_zero (MULA_S h s)" "r0_zero (MADD_S h s)"
    "r0_zero (MSUB_S h s)" "r0_zero (MADDA_S h s)" "r0_zero (MSUBA_S h s)" "r0_zero (DIV_S h s)"
    "r0_zero (SQRT_S h s)" "r0_zero (RSQRT_S h s)" "r0_zero (MAX_S h s)" "r0_zero (MIN_S h s)"
    "r0_zero (NEG_S s)" "r0_zero (MOV_S s)" "r0_zero (C_EQ h s)" "r0_zero (C_LE h s)"
    "r0_zero (C_LT h s)" "r0_zero (C_F s)" "r0_zero (CVT_S h s)" "r0_zero (CVT_W h s)"
    "r0_zero (CFC1 s)" "r0_zero (CTC1 s)" "r0_zero (MFC1 s)" "r0_zero (MTC1 s)"
  using assms
  by (simp_all add: r0_zero_def ABS_S_def ADD_S_def ADDA_S_def SUB_S_def SUBA_S_def MUL_S_def
      MULA_S_def MADD_S_def MSUB_S_def MADDA_S_def MSUBA_S_def DIV_S_def SQRT_S_def RSQRT_S_def
      MAX_S_def MIN_S_def NEG_S_def MOV_S_def C_EQ_def C_LE_def C_LT_def C_F_def CVT_S_def CVT_W_def
      CFC1_def CTC1_def MFC1_def MTC1_def Let_def GPR_wr_gpr split: option.splits)

section \<open>The numbers of the FPU\<close>

text \<open>
  The unit has no infinities, NaNs or denormals: its numbers are the bit patterns with an exponent
  below 255 and, when the exponent is 0, no mantissa.
\<close>

definition f_finite :: "u32 \<Rightarrow> bool" where
  "f_finite x \<longleftrightarrow> x AND 0x7f800000 \<noteq> 0x7f800000"

definition f_nan :: "u32 \<Rightarrow> bool" where
  "f_nan x \<longleftrightarrow> x AND 0x7f800000 = 0x7f800000 \<and> x AND 0x007fffff \<noteq> 0"

definition ps2_float :: "u32 \<Rightarrow> bool" where
  "ps2_float x \<longleftrightarrow> f_finite x \<and> (x AND 0x7f800000 = 0 \<longrightarrow> x AND 0x007fffff = 0)"

text \<open>
  What is assumed of the host (IEEE 754): a product or quotient of finite numbers (the divisor not
  zero), a sum or difference with a finite first operand and no NaN, are not NaN; nor is the square
  root of a number without sign.
\<close>

definition host_ok :: "host_fpu \<Rightarrow> bool" where
  "host_ok h \<longleftrightarrow>
     (\<forall>a b. f_finite a \<and> f_finite b \<longrightarrow> \<not> f_nan (h_mul h a b)) \<and>
     (\<forall>a b. f_finite a \<and> \<not> f_nan b \<longrightarrow> \<not> f_nan (h_add h a b) \<and> \<not> f_nan (h_sub h a b)) \<and>
     (\<forall>a b. f_finite a \<and> f_finite b \<and> b AND 0x7f800000 \<noteq> 0 \<longrightarrow> \<not> f_nan (h_div h a b))"

lemma and_sign_or: "((x AND 0x80000000) OR (k :: u32)) AND m = ((x AND 0x80000000) AND m) OR (k AND m)"
  by (rule bit_word_eqI) (auto simp: bit_simps simp del: bit_numeral_word_iff)

lemma sign_masks: "(x AND 0x80000000) AND 0x7f800000 = (0 :: u32)" "(x AND 0x80000000) AND 0x007fffff = (0 :: u32)"
  by (simp_all add: and.assoc)

lemma Fmax_ps2: "ps2_float ((x AND 0x80000000) OR 0x7f7fffff)"
  by (simp only: ps2_float_def f_finite_def and_sign_or sign_masks) simp

lemma zero_ps2: "ps2_float (x AND 0x80000000)"
  by (simp only: ps2_float_def f_finite_def sign_masks) simp

lemma fpuDouble_ps2: "ps2_float (fpuDouble x)"
proof -
  consider "x AND 0x7f800000 = 0" | "x AND 0x7f800000 = 0x7f800000"
    | "x AND 0x7f800000 \<noteq> 0" "x AND 0x7f800000 \<noteq> 0x7f800000" by blast
  then show ?thesis
  proof cases
    case 1
    then show ?thesis using zero_ps2 by (simp add: fpuDouble_def)
  next
    case 2
    then show ?thesis using Fmax_ps2 by (simp add: fpuDouble_def)
  next
    case 3
    then show ?thesis by (simp add: fpuDouble_def ps2_float_def f_finite_def)
  qed
qed

lemma not_sign: "NOT 0x80000000 = (0x7fffffff :: u32)"
  by code_simp

lemma all_ones: "0x80000000 OR 0x7f800000 OR 0x007fffff = (- 1 :: u32)"
  by code_simp

lemma ps2_finite: "ps2_float x \<Longrightarrow> f_finite x"
  by (simp add: ps2_float_def)

lemma finite_not_nan: "f_finite x \<Longrightarrow> \<not> f_nan x"
  by (simp add: f_finite_def f_nan_def)

lemma fpuDouble_eq: "ps2_float x \<Longrightarrow> fpuDouble x = x"
proof -
  assume p: "ps2_float x"
  have "x = (x AND 0x80000000) OR (x AND 0x7f800000) OR (x AND 0x007fffff)"
  proof -
    have "x = x AND (0x80000000 OR 0x7f800000 OR 0x007fffff)"
      unfolding all_ones by simp
    then show ?thesis
      by (simp only: bit.conj_disj_distrib or.assoc)
  qed
  then show ?thesis
    using p by (auto simp: ps2_float_def f_finite_def fpuDouble_def)
qed

lemma inf_iff: "x AND NOT 0x80000000 = PosInfinity \<longleftrightarrow> x AND 0x7f800000 = 0x7f800000 \<and> x AND 0x007fffff = 0"
proof -
  have split: "x AND NOT 0x80000000 = (x AND 0x7f800000) OR (x AND 0x007fffff)"
    unfolding not_sign by (simp flip: bit.conj_disj_distrib)
  have "x AND 0x7f800000 = (x AND NOT 0x80000000) AND 0x7f800000"
    "x AND 0x007fffff = (x AND NOT 0x80000000) AND 0x007fffff"
    by (simp_all add: and.assoc)
  then show ?thesis
    using split by auto
qed

lemma clamp_ps2: "\<not> f_nan x \<Longrightarrow> ps2_float (fst (clamp x fo fu))"
proof -
  assume n: "\<not> f_nan x"
  show ?thesis
  proof (cases "x AND NOT 0x80000000 = PosInfinity")
    case True
    then show ?thesis
      using Fmax_ps2 by (simp add: clamp_def checkOverflow_def)
  next
    case False
    then have f: "f_finite x"
      using n by (simp only: inf_iff f_finite_def f_nan_def) blast
    show ?thesis
      using False f zero_ps2 [of x]
      by (auto simp: clamp_def checkOverflow_def checkUnderflow_def ps2_float_def)
  qed
qed

lemma finish_value [simp]:
  "fpr (finish_Fd x fo fu s) = (fpr s)(f_Sa (code s) := fst (clamp x fo fu))"
  "ACC (finish_ACC x fo fu s) = fst (clamp x fo fu)"
  by (simp_all add: finish_Fd_def finish_ACC_def split: prod.splits)

lemma host_okD:
  assumes "host_ok h"
  shows "f_finite a \<Longrightarrow> f_finite b \<Longrightarrow> \<not> f_nan (h_mul h a b)"
    "f_finite a \<Longrightarrow> \<not> f_nan b \<Longrightarrow> \<not> f_nan (h_add h a b)"
    "f_finite a \<Longrightarrow> \<not> f_nan b \<Longrightarrow> \<not> f_nan (h_sub h a b)"
    "f_finite a \<Longrightarrow> f_finite b \<Longrightarrow> b AND 0x7f800000 \<noteq> 0 \<Longrightarrow> \<not> f_nan (h_div h a b)"
  using assms by (auto simp: host_ok_def)

lemma fpuDouble_nonzero: "x AND 0x7f800000 \<noteq> 0 \<Longrightarrow> fpuDouble x AND 0x7f800000 \<noteq> 0"
proof -
  assume a: "x AND 0x7f800000 \<noteq> 0"
  show ?thesis
  proof (cases "x AND 0x7f800000 = 0x7f800000")
    case True
    then have "fpuDouble x = (x AND 0x80000000) OR 0x7f7fffff"
      by (simp add: fpuDouble_def)
    then show ?thesis
      by (simp only: and_sign_or sign_masks) simp
  next
    case False
    then show ?thesis
      using a by (simp add: fpuDouble_def)
  qed
qed

lemmas fpu_closed = host_okD finite_not_nan ps2_finite fpuDouble_ps2 clamp_ps2 fpuDouble_nonzero

text \<open>
  C13: the arithmetic is closed: on a host that gives no NaN for finite operands, every arithmetic
  instruction leaves a number of the unit (no infinity, NaN or denormal) in its destination,
  whatever the operand registers hold; the accumulating forms do so when the accumulator holds one.
\<close>

theorem fpu_arithmetic_closed:
  assumes "host_ok h"
  shows "(\<forall>t \<in> {ADD_S h s, SUB_S h s, MUL_S h s, DIV_S h s, MADD_S h s, MSUB_S h s}.
      ps2_float (fpr t (f_Sa (code s)))) \<and>
    (\<forall>t \<in> {ADDA_S h s, SUBA_S h s, MULA_S h s}. ps2_float (ACC t)) \<and>
    (ps2_float (ACC s) \<longrightarrow> ps2_float (ACC (MADDA_S h s)) \<and> ps2_float (ACC (MSUBA_S h s)))"
proof -
  have "ps2_float (fpr (ADD_S h s) (f_Sa (code s)))" "ps2_float (fpr (SUB_S h s) (f_Sa (code s)))"
    "ps2_float (fpr (MUL_S h s) (f_Sa (code s)))"
    "ps2_float (ACC (ADDA_S h s))" "ps2_float (ACC (SUBA_S h s))" "ps2_float (ACC (MULA_S h s))"
    by (simp_all add: ADD_S_def SUB_S_def MUL_S_def ADDA_S_def SUBA_S_def MULA_S_def assms fpu_closed)
  moreover have "ps2_float (fpr (MADD_S h s) (f_Sa (code s)))" "ps2_float (fpr (MSUB_S h s) (f_Sa (code s)))"
    by (simp_all add: MADD_S_def MSUB_S_def Let_def assms fpu_closed)
  moreover have "ps2_float (fpr (DIV_S h s) (f_Sa (code s)))"
    using Fmax_ps2 by (simp add: DIV_S_def checkDivideByZero_def assms fpu_closed)
  moreover have "ps2_float (ACC (MADDA_S h s))" "ps2_float (ACC (MSUBA_S h s))" if "ps2_float (ACC s)"
    using that by (simp_all add: MADDA_S_def MSUBA_S_def assms fpu_closed)
  ultimately show ?thesis
    by blast
qed

text \<open>A host whose sums are exact when an operand is zero and overflow otherwise.\<close>

definition sample_host :: host_fpu where
  "sample_host =
     \<lparr>h_add = (\<lambda>a b. if a = 0 then b else 0x7f800000), h_sub = (\<lambda>a b. if b = 0 then a else 0x7f800000),
      h_mul = (\<lambda>a b. if a = 0 \<or> b = 0 then 0 else 0x7f800000), h_div = (\<lambda>a b. 0x7f800000),
      h_sqrt = (\<lambda>a. a), h_div_sqrt = (\<lambda>a b. a), h_lt = (<), h_le = (\<le>), h_eq = (=),
      h_of_s32 = (\<lambda>a. a), h_to_s32 = (\<lambda>a. a)\<rparr>"

lemma sample_host_ok: "host_ok sample_host"
proof -
  have "\<not> f_nan 0x7f800000" "\<not> f_nan 0"
    by (simp_all add: f_nan_def)
  then show ?thesis
    by (auto simp: host_ok_def sample_host_def finite_not_nan)
qed

theorem fpu_arithmetic_closed_witness:
  "ps2_float (fpr (DIV_S sample_host (ee_state cpuReset_regs sample_map (\<lambda>_. zero_tlbs) ())) 0)"
  using fpu_arithmetic_closed [OF sample_host_ok, of "ee_state cpuReset_regs sample_map (\<lambda>_. zero_tlbs) ()"]
  by (simp add: cpuReset_regs_def f_Sa_def)

text \<open>
  overflow and underflow: an infinite result becomes the largest number of its sign and raises
  the overflow flags, a denormal one becomes the zero of its sign and raises the underflow flags,
  any other is stored as it is and no flag is raised.
\<close>

theorem fpu_clamping:
  "clamp x fo fu =
    (if x AND 0x7fffffff = 0x7f800000 then ((x AND 0x80000000) OR 0x7F7FFFFF, fo)
     else if x AND 0x7f800000 = 0 \<and> x AND 0x7fffff \<noteq> 0 then (x AND 0x80000000, fu)
     else (x, 0)) \<and>
   (ps2_float x \<longrightarrow> clamp x fo fu = (x, 0) \<and> fpuDouble x = x)"
proof -
  have c: "clamp x fo fu =
    (if x AND 0x7fffffff = 0x7f800000 then ((x AND 0x80000000) OR 0x7F7FFFFF, fo)
     else if x AND 0x7f800000 = 0 \<and> x AND 0x7fffff \<noteq> 0 then (x AND 0x80000000, fu)
     else (x, 0))"
    unfolding clamp_def checkOverflow_def checkUnderflow_def not_sign by simp
  moreover have "clamp x fo fu = (x, 0)" if "ps2_float x"
    using that inf_iff [of x, unfolded not_sign] unfolding c by (auto simp: ps2_float_def f_finite_def)
  ultimately show ?thesis
    using fpuDouble_eq by blast
qed

theorem fpu_clamping_witness:
  "clamp 0xff800000 FPUflagO FPUflagU = (0xff7fffff, FPUflagO)"
  using fpu_clamping [of "0xff800000" "FPUflagO" "FPUflagU"] by simp

text \<open>The sticky flags \<open>SI\<close>, \<open>SD\<close>, \<open>SO\<close>, \<open>SU\<close> are bits 6, 5, 4 and 3 of \<open>FCR31\<close>.\<close>

definition sticky_le :: "'d eeState \<Rightarrow> 'd eeState \<Rightarrow> bool" where
  "sticky_le s t \<longleftrightarrow> (\<forall>n \<in> {3, 4, 5, 6}. bit (ContVal s) n \<longrightarrow> bit (ContVal t) n)"

lemma sticky_steps [simp]:
  "sticky_le s s" "sticky_le s (wr_fpr r v t) \<longleftrightarrow> sticky_le s t" "sticky_le s (t\<lparr>ACC := v\<rparr>) \<longleftrightarrow> sticky_le s t"
  "sticky_le s t \<Longrightarrow> sticky_le s (orFPUFlags fl t)"
  by (auto simp: sticky_le_def wr_fpr_def orFPUFlags_def set_Cont_def bit_or_iff)

lemma sticky_clear:
  "sticky_le s t \<Longrightarrow> fl AND 0x78 = 0 \<Longrightarrow> sticky_le s (clearFPUFlags fl t)"
proof -
  assume a: "sticky_le s t" and f: "fl AND 0x78 = 0"
  have "\<not> bit fl n" if "n \<in> {3, 4, 5, 6}" for n
  proof -
    have "\<not> bit (fl AND 0x78) n"
      by (simp add: f)
    then show ?thesis
      using that by (auto simp: bit_and_iff)
  qed
  then show ?thesis
    using a by (auto simp: sticky_le_def clearFPUFlags_def set_Cont_def bit_and_iff bit_not_iff
        dest: bit_imp_le_length)
qed

lemma sticky_finish [simp]: "sticky_le s t \<Longrightarrow> sticky_le s (finish_Fd x fo fu t)"
  "sticky_le s t \<Longrightarrow> sticky_le s (finish_ACC x fo fu t)"
  by (simp_all add: finish_Fd_def finish_ACC_def split: prod.splits)

text \<open>
  the sticky flags of \<open>FCR31\<close> record every event: no instruction of the unit except \<open>CTC1\<close>
  clears one.
\<close>

theorem fpu_flags_sticky:
  "list_all (sticky_le s) [ABS_S s, ADD_S h s, ADDA_S h s, SUB_S h s, SUBA_S h s, MUL_S h s, MULA_S h s, MADD_S h s,
      MSUB_S h s, MADDA_S h s, MSUBA_S h s, DIV_S h s, SQRT_S h s, RSQRT_S h s, MAX_S h s, MIN_S h s,
      NEG_S s, MOV_S s, C_EQ h s, C_LE h s, C_LT h s, C_F s, CVT_S h s, CVT_W h s, MTC1 s]"
proof -
  have "sticky_le s (ABS_S s)" "sticky_le s (MAX_S h s)" "sticky_le s (MIN_S h s)" "sticky_le s (NEG_S s)"
    "sticky_le s (MOV_S s)" "sticky_le s (MTC1 s)" "sticky_le s (C_F s)" "sticky_le s (CVT_S h s)"
    "sticky_le s (CVT_W h s)" "sticky_le s (SQRT_S h s)"
    by (simp_all add: sticky_clear ABS_S_def MAX_S_def MIN_S_def NEG_S_def MOV_S_def MTC1_def C_F_def
        CVT_S_def CVT_W_def SQRT_S_def)
  moreover have "sticky_le s (C_cond_S b s)" for b
    by (simp add: sticky_clear C_cond_S_def)
  then have "sticky_le s (C_EQ h s)" "sticky_le s (C_LE h s)" "sticky_le s (C_LT h s)"
    by (simp_all add: C_EQ_def C_LE_def C_LT_def)
  moreover have "sticky_le s (ADD_S h s)" "sticky_le s (ADDA_S h s)" "sticky_le s (SUB_S h s)"
    "sticky_le s (SUBA_S h s)" "sticky_le s (MUL_S h s)" "sticky_le s (MULA_S h s)"
    "sticky_le s (MADD_S h s)" "sticky_le s (MSUB_S h s)" "sticky_le s (MADDA_S h s)"
    "sticky_le s (MSUBA_S h s)" "sticky_le s (DIV_S h s)" "sticky_le s (RSQRT_S h s)"
    by (simp_all add: ADD_S_def ADDA_S_def SUB_S_def SUBA_S_def MUL_S_def MULA_S_def MADD_S_def
        MSUB_S_def MADDA_S_def MSUBA_S_def DIV_S_def RSQRT_S_def Let_def split: option.splits)
  ultimately show ?thesis
    by simp
qed

end
