(* ===== verification/EEInterp.thy ===== *)
theory EEInterp
  imports EEOps EECop0 EEFpu MMI
begin

text \<open>
  The EE interpreter: the opcode tables of \<open>pcsx2/R5900OpcodeTables.cpp\<close> with the decoder
  \<open>GetInstruction\<close>, the event test \<open>_cpuEventTest_Shared\<close> of \<open>pcsx2/R5900.cpp\<close>, and the fetch and
  execute step, the branches with their delay slots and the run loop of \<open>pcsx2/Interpreter.cpp\<close>.

  An interpreted instruction runs its delay slot by a nested call of \<open>execI\<close>, and that instruction
  can itself be a branch: the nesting is bounded only by the host's stack. The first argument of
  \<open>execI\<close> is the number of nested calls left; running out is the error \<open>StackOverflow\<close>.

  Other components enter through the environment \<open>ee_env\<close>: the memory handlers, the interrupt
  lines, the counters, the DMA callbacks, the IOP and VU0 time slices, the high-level system calls
  and the instructions implemented in \<open>VUops.cpp\<close>, \<open>VU0.cpp\<close> and \<open>Cache.cpp\<close>. The debugger hooks
  (\<open>EXTRA_DEBUG\<close>) are compiled out, the Goemon TLB hack is off.
\<close>

section \<open>Environment\<close>

record 'd ee_env =
  ee_mem :: "'d RWFT"
  ee_fpu :: host_fpu
  Scratch :: u32
  ee_undef :: "'d eeState \<Rightarrow> u64"
  ee_ints :: "'d eeState \<Rightarrow> u32 \<times> 'd eeState"
  nextsCounter :: "'d eeState \<Rightarrow> u32"
  nextCounter :: "'d eeState \<Rightarrow> u32"
  hsync_sCycle :: "'d eeState \<Rightarrow> u32"
  hsync_CycleT :: "'d eeState \<Rightarrow> u32"
  rcntUpdate :: "'d eeState \<Rightarrow> 'd eeState"
  rcntUpdate_hScanline :: "'d eeState \<Rightarrow> 'd eeState"
  dmac_off :: "'d eeState \<Rightarrow> bool"
  dma_callback :: "nat \<Rightarrow> 'd eeState \<Rightarrow> 'd eeState"
  iopEventTest :: "'d eeState \<Rightarrow> 'd eeState"
  iop_ExecuteBlock :: "u32 \<Rightarrow> 'd eeState \<Rightarrow> u32 \<times> 'd eeState"
  iop_until_event :: "'d eeState \<Rightarrow> u32"
  vu0_ExecuteBlock :: "'d eeState \<Rightarrow> 'd eeState"
  dmac_CIS :: "'d eeState \<Rightarrow> u32"
  dmac_CPC :: "'d eeState \<Rightarrow> u32"
  vif1_VEW :: "'d eeState \<Rightarrow> bool"
  ee_hle :: "u8 \<Rightarrow> 'd eeState \<Rightarrow> (unit, 'd eeState) res"
  ee_ext :: "string \<Rightarrow> 'd eeState \<Rightarrow> (unit, 'd eeState) res"

section \<open>The event test\<close>

text \<open>
  \<open>EEsCycle\<close> is an \<open>s32\<close>. \<open>iop_until_event\<close> is \<open>g_iopNextEventCycle - psxRegs.cycle\<close>.
\<close>

definition cpuEventTest_Shared :: "'d ee_env \<Rightarrow> 'd eeState \<Rightarrow> 'd eeState" where
  "cpuEventTest_Shared env s =
     (let s = s\<lparr>eeEventTestIsActive := True, g_nextEventCycle := cycle s + 3072\<rparr>;
          (m, s) = ee_ints env s;
          s = cpuTestExceptions m s;
          s = (if cpuTestCycle (nextsCounter env s) (nextCounter env s) s
               then COP0_UpdatePCCR (rcntUpdate env s) else s);
          s = rcntUpdate_hScanline env s;
          s = cpuTestTIMR s;
          s = cpuTestInterrupts (dmac_off env s) (dma_callback env) s;
          s = s\<lparr>EEsCycle := EEsCycle s + (cycle s - EEoCycle s), EEoCycle := cycle s\<rparr>;
          s = (if sint (EEsCycle s) > 0 then s\<lparr>iopEventAction := True\<rparr> else s);
          s = iopEventTest env s;
          s = (if iopEventAction s
               then let (c, s) = iop_ExecuteBlock env (EEsCycle s) s
                    in s\<lparr>EEsCycle := c, iopEventAction := False\<rparr>
               else s);
          s = vu0_ExecuteBlock env s;
          s = (if sint (EEsCycle s) > 192 then cpuSetNextEventDelta 48 s else s);
          s = cpuSetNextEventDelta (iop_until_event env s * 8 - EEsCycle s) s;
          s = cpuSetNextEvent (hsync_sCycle env s) (hsync_CycleT env s) s;
          s = cpuSetNextEvent (nextsCounter env s) (nextCounter env s) s
      in s\<lparr>eeEventTestIsActive := False\<rparr>)"

abbreviation intEventTest where "intEventTest \<equiv> cpuEventTest_Shared"

section \<open>Branches\<close>

text \<open>
  An instruction receives the environment and \<open>rec\<close>, the call of \<open>execI\<close> for its delay slot.
\<close>

type_synonym 'd exec = "'d eeState \<Rightarrow> (unit, 'd eeState) res"

definition doBranch_shared :: "'d exec \<Rightarrow> u32 \<Rightarrow> 'd exec" where
  "doBranch_shared rec tar s =
     bindR (rec (s\<lparr>branch := 1\<rparr>))
       (\<lambda>_ s. Ret () (if branch s \<noteq> 0 then s\<lparr>pc := tar, branch := 0\<rparr> else s))"

definition add_block_cycles :: "'d eeState \<Rightarrow> 'd eeState" where
  "add_block_cycles s =
     s\<lparr>cycle := cycle s + drop_bit 3 (cpuBlockCycles s), cpuBlockCycles := cpuBlockCycles s AND 7\<rparr>"

definition doBranch :: "'d ee_env \<Rightarrow> 'd exec \<Rightarrow> u32 \<Rightarrow> 'd exec" where
  "doBranch env rec target s =
     bindR (doBranch_shared rec target s) (\<lambda>_ s. Ret () (intEventTest env (add_block_cycles s)))"

text \<open>\<open>intDoBranch\<close>, for the coprocessor branches: the same, as \<open>Cpu == &intCpu\<close> here.\<close>

definition intDoBranch :: "'d ee_env \<Rightarrow> 'd exec \<Rightarrow> u32 \<Rightarrow> 'd exec" where
  "intDoBranch env rec target s =
     bindR (doBranch_shared rec target s) (\<lambda>_ s. Ret () (intEventTest env (add_block_cycles s)))"

definition SetLink :: "reg \<Rightarrow> 'a cpuRegisters_scheme \<Rightarrow> 'a cpuRegisters_scheme" where
  "SetLink r s = wr_gpr r 0 (ucast (pc s + 4) :: u64) s"

definition J :: "'d ee_env \<Rightarrow> 'd exec \<Rightarrow> 'd exec" where
  "J env rec s = doBranch env rec (JumpTarget s) s"

definition JAL :: "'d ee_env \<Rightarrow> 'd exec \<Rightarrow> 'd exec" where
  "JAL env rec s = (let s = SetLink 31 s in doBranch env rec (JumpTarget s) s)"

definition BEQ :: "'d ee_env \<Rightarrow> 'd exec \<Rightarrow> 'd exec" where
  "BEQ env rec s =
     (if UD 0 (rRs s) = UD 0 (rRt s) then doBranch env rec (BranchTarget s) s
      else Ret () (intEventTest env s))"

definition BNE :: "'d ee_env \<Rightarrow> 'd exec \<Rightarrow> 'd exec" where
  "BNE env rec s =
     (if UD 0 (rRs s) \<noteq> UD 0 (rRt s) then doBranch env rec (BranchTarget s) s
      else Ret () (intEventTest env s))"

definition BGEZ :: "'d ee_env \<Rightarrow> 'd exec \<Rightarrow> 'd exec" where
  "BGEZ env rec s = (if SD 0 (rRs s) \<ge> 0 then doBranch env rec (BranchTarget s) s else Ret () s)"

definition BGEZAL :: "'d ee_env \<Rightarrow> 'd exec \<Rightarrow> 'd exec" where
  "BGEZAL env rec s =
     (let s = SetLink 31 s
      in if SD 0 (rRs s) \<ge> 0 then doBranch env rec (BranchTarget s) s else Ret () s)"

definition BGTZ :: "'d ee_env \<Rightarrow> 'd exec \<Rightarrow> 'd exec" where
  "BGTZ env rec s = (if SD 0 (rRs s) > 0 then doBranch env rec (BranchTarget s) s else Ret () s)"

definition BLEZ :: "'d ee_env \<Rightarrow> 'd exec \<Rightarrow> 'd exec" where
  "BLEZ env rec s = (if SD 0 (rRs s) \<le> 0 then doBranch env rec (BranchTarget s) s else Ret () s)"

definition BLTZ :: "'d ee_env \<Rightarrow> 'd exec \<Rightarrow> 'd exec" where
  "BLTZ env rec s = (if SD 0 (rRs s) < 0 then doBranch env rec (BranchTarget s) s else Ret () s)"

definition BLTZAL :: "'d ee_env \<Rightarrow> 'd exec \<Rightarrow> 'd exec" where
  "BLTZAL env rec s =
     (let s = SetLink 31 s
      in if SD 0 (rRs s) < 0 then doBranch env rec (BranchTarget s) s else Ret () s)"

text \<open>Branch likely: when not taken, the delay slot is skipped.\<close>

definition BEQL :: "'d ee_env \<Rightarrow> 'd exec \<Rightarrow> 'd exec" where
  "BEQL env rec s =
     (if UD 0 (rRs s) = UD 0 (rRt s) then doBranch env rec (BranchTarget s) s
      else Ret () (intEventTest env (s\<lparr>pc := pc s + 4\<rparr>)))"

definition BNEL :: "'d ee_env \<Rightarrow> 'd exec \<Rightarrow> 'd exec" where
  "BNEL env rec s =
     (if UD 0 (rRs s) \<noteq> UD 0 (rRt s) then doBranch env rec (BranchTarget s) s
      else Ret () (intEventTest env (s\<lparr>pc := pc s + 4\<rparr>)))"

definition BLEZL :: "'d ee_env \<Rightarrow> 'd exec \<Rightarrow> 'd exec" where
  "BLEZL env rec s =
     (if SD 0 (rRs s) \<le> 0 then doBranch env rec (BranchTarget s) s
      else Ret () (intEventTest env (s\<lparr>pc := pc s + 4\<rparr>)))"

definition BGTZL :: "'d ee_env \<Rightarrow> 'd exec \<Rightarrow> 'd exec" where
  "BGTZL env rec s =
     (if SD 0 (rRs s) > 0 then doBranch env rec (BranchTarget s) s
      else Ret () (intEventTest env (s\<lparr>pc := pc s + 4\<rparr>)))"

definition BLTZL :: "'d ee_env \<Rightarrow> 'd exec \<Rightarrow> 'd exec" where
  "BLTZL env rec s =
     (if SD 0 (rRs s) < 0 then doBranch env rec (BranchTarget s) s
      else Ret () (intEventTest env (s\<lparr>pc := pc s + 4\<rparr>)))"

definition BGEZL :: "'d ee_env \<Rightarrow> 'd exec \<Rightarrow> 'd exec" where
  "BGEZL env rec s =
     (if SD 0 (rRs s) \<ge> 0 then doBranch env rec (BranchTarget s) s
      else Ret () (intEventTest env (s\<lparr>pc := pc s + 4\<rparr>)))"

definition BLTZALL :: "'d ee_env \<Rightarrow> 'd exec \<Rightarrow> 'd exec" where
  "BLTZALL env rec s =
     (let s = SetLink 31 s
      in if SD 0 (rRs s) < 0 then doBranch env rec (BranchTarget s) s
         else Ret () (intEventTest env (s\<lparr>pc := pc s + 4\<rparr>)))"

definition BGEZALL :: "'d ee_env \<Rightarrow> 'd exec \<Rightarrow> 'd exec" where
  "BGEZALL env rec s =
     (let s = SetLink 31 s
      in if SD 0 (rRs s) \<ge> 0 then doBranch env rec (BranchTarget s) s
         else Ret () (intEventTest env (s\<lparr>pc := pc s + 4\<rparr>)))"

definition JR :: "'d ee_env \<Rightarrow> 'd exec \<Rightarrow> 'd exec" where
  "JR env rec s = doBranch env rec (UL 0 (rRs s)) s"

definition JALR :: "'d ee_env \<Rightarrow> 'd exec \<Rightarrow> 'd exec" where
  "JALR env rec s =
     (let temp = UL 0 (rRs s); s = (if Rd s \<noteq> 0 then SetLink (Rd s) s else s)
      in doBranch env rec temp s)"

text \<open>The branches on the conditions of the coprocessors: \<open>pcsx2/COP0.cpp\<close>, \<open>FPU.cpp\<close>, \<open>COP2.cpp\<close>.\<close>

definition BC0F :: "'d ee_env \<Rightarrow> 'd exec \<Rightarrow> 'd exec" where
  "BC0F env rec s =
     (if \<not> CPCOND0 (dmac_CIS env s) (dmac_CPC env s) then intDoBranch env rec (BranchTarget s) s else Ret () s)"

definition BC0T :: "'d ee_env \<Rightarrow> 'd exec \<Rightarrow> 'd exec" where
  "BC0T env rec s =
     (if CPCOND0 (dmac_CIS env s) (dmac_CPC env s) then intDoBranch env rec (BranchTarget s) s else Ret () s)"

definition BC0FL :: "'d ee_env \<Rightarrow> 'd exec \<Rightarrow> 'd exec" where
  "BC0FL env rec s =
     (if \<not> CPCOND0 (dmac_CIS env s) (dmac_CPC env s) then intDoBranch env rec (BranchTarget s) s
      else Ret () (s\<lparr>pc := pc s + 4\<rparr>))"

definition BC0TL :: "'d ee_env \<Rightarrow> 'd exec \<Rightarrow> 'd exec" where
  "BC0TL env rec s =
     (if CPCOND0 (dmac_CIS env s) (dmac_CPC env s) then intDoBranch env rec (BranchTarget s) s
      else Ret () (s\<lparr>pc := pc s + 4\<rparr>))"

definition BC1F :: "'d ee_env \<Rightarrow> 'd exec \<Rightarrow> 'd exec" where
  "BC1F env rec s =
     (if ContVal s AND FPUflagC = 0 then intDoBranch env rec (BranchTarget s) s
      else Ret () s)"

definition BC1T :: "'d ee_env \<Rightarrow> 'd exec \<Rightarrow> 'd exec" where
  "BC1T env rec s =
     (if ContVal s AND FPUflagC \<noteq> 0 then intDoBranch env rec (BranchTarget s) s
      else Ret () s)"

definition BC1FL :: "'d ee_env \<Rightarrow> 'd exec \<Rightarrow> 'd exec" where
  "BC1FL env rec s =
     (if ContVal s AND FPUflagC = 0 then intDoBranch env rec (BranchTarget s) s
      else Ret () (s\<lparr>pc := pc s + 4\<rparr>))"

definition BC1TL :: "'d ee_env \<Rightarrow> 'd exec \<Rightarrow> 'd exec" where
  "BC1TL env rec s =
     (if ContVal s AND FPUflagC \<noteq> 0 then intDoBranch env rec (BranchTarget s) s
      else Ret () (s\<lparr>pc := pc s + 4\<rparr>))"

definition BC2F :: "'d ee_env \<Rightarrow> 'd exec \<Rightarrow> 'd exec" where
  "BC2F env rec s =
     (if \<not> vif1_VEW env s then intDoBranch env rec (BranchTarget s) s else Ret () s)"

definition BC2T :: "'d ee_env \<Rightarrow> 'd exec \<Rightarrow> 'd exec" where
  "BC2T env rec s =
     (if vif1_VEW env s then intDoBranch env rec (BranchTarget s) s else Ret () s)"

definition BC2FL :: "'d ee_env \<Rightarrow> 'd exec \<Rightarrow> 'd exec" where
  "BC2FL env rec s =
     (if \<not> vif1_VEW env s then intDoBranch env rec (BranchTarget s) s
      else Ret () (s\<lparr>pc := pc s + 4\<rparr>))"

definition BC2TL :: "'d ee_env \<Rightarrow> 'd exec \<Rightarrow> 'd exec" where
  "BC2TL env rec s =
     (if vif1_VEW env s then intDoBranch env rec (BranchTarget s) s
      else Ret () (s\<lparr>pc := pc s + 4\<rparr>))"

text \<open>\<open>COP2\<close> dispatches on \<open>_Rs_\<close>, the class \<open>COP2_BC2\<close> on \<open>_Rt_\<close>.\<close>

definition COP2_BC2 :: "'d ee_env \<Rightarrow> 'd exec \<Rightarrow> 'd exec" where
  "COP2_BC2 env rec s =
     (if Rt s = 0 then BC2F env rec s else if Rt s = 1 then BC2T env rec s
      else if Rt s = 2 then BC2FL env rec s else if Rt s = 3 then BC2TL env rec s
      else Ret () s)"

definition COP2 :: "'d ee_env \<Rightarrow> 'd exec \<Rightarrow> 'd exec" where
  "COP2 env rec s =
     (if Rs s = 1 then ee_ext env ''QMFC2'' s else if Rs s = 2 then ee_ext env ''CFC2'' s
      else if Rs s = 5 then ee_ext env ''QMTC2'' s else if Rs s = 6 then ee_ext env ''CTC2'' s
      else if Rs s = 8 then COP2_BC2 env rec s
      else if 16 \<le> Rs s then ee_ext env ''COP2_SPECIAL'' s
      else Ret () s)"

section \<open>Opcode tables\<close>

text \<open>
  A table entry is an instruction, with its name, its cycle count and its interpreter function, or
  a class of instructions (\<open>getsubclass\<close> is not null) with a table of its own. The flags, which only
  the recompiler and the debugger read, are left out.
\<close>

datatype opclass = C_SPECIAL | C_REGIMM | C_MMI | C_MMI0 | C_MMI1 | C_MMI2 | C_MMI3
  | C_COP0 | C_COP0_BC0 | C_COP0_C0 | C_COP1 | C_COP1_BC1 | C_COP1_S | C_COP1_W

datatype 'd entry = Op string u32 "'d ee_env \<Rightarrow> 'd exec \<Rightarrow> 'd exec" | Sub opclass

definition reg_op :: "('d eeState \<Rightarrow> 'd eeState) \<Rightarrow> 'd ee_env \<Rightarrow> 'd exec \<Rightarrow> 'd exec" where
  "reg_op f env rec s = Ret () (f s)"

definition mem_op :: "('d RWFT \<Rightarrow> 'd exec) \<Rightarrow> 'd ee_env \<Rightarrow> 'd exec \<Rightarrow> 'd exec" where
  "mem_op f env rec s = f (ee_mem env) s"

definition op_J :: "'d entry" where "op_J = Op ''J'' 9 J"
definition op_JAL :: "'d entry" where "op_JAL = Op ''JAL'' 9 JAL"
definition op_BEQ :: "'d entry" where "op_BEQ = Op ''BEQ'' 11 BEQ"
definition op_BNE :: "'d entry" where "op_BNE = Op ''BNE'' 11 BNE"
definition op_BLEZ :: "'d entry" where "op_BLEZ = Op ''BLEZ'' 11 BLEZ"
definition op_BGTZ :: "'d entry" where "op_BGTZ = Op ''BGTZ'' 11 BGTZ"
definition op_ADDI :: "'d entry" where "op_ADDI = Op ''ADDI'' 9 (reg_op ADDI)"
definition op_ADDIU :: "'d entry" where "op_ADDIU = Op ''ADDIU'' 9 (reg_op ADDIU)"
definition op_SLTI :: "'d entry" where "op_SLTI = Op ''SLTI'' 9 (reg_op SLTI)"
definition op_SLTIU :: "'d entry" where "op_SLTIU = Op ''SLTIU'' 9 (reg_op SLTIU)"
definition op_ANDI :: "'d entry" where "op_ANDI = Op ''ANDI'' 9 (reg_op ANDI)"
definition op_ORI :: "'d entry" where "op_ORI = Op ''ORI'' 9 (reg_op ORI)"
definition op_XORI :: "'d entry" where "op_XORI = Op ''XORI'' 9 (reg_op XORI)"
definition op_LUI :: "'d entry" where "op_LUI = Op ''LUI'' 9 (reg_op LUI)"
definition op_COP2 :: "'d entry" where "op_COP2 = Op ''COP2'' 9 COP2"
definition op_Unknown :: "'d entry" where "op_Unknown = Op ''Unknown'' 9 (reg_op (\<lambda>s. s))"
definition op_BEQL :: "'d entry" where "op_BEQL = Op ''BEQL'' 11 BEQL"
definition op_BNEL :: "'d entry" where "op_BNEL = Op ''BNEL'' 11 BNEL"
definition op_BLEZL :: "'d entry" where "op_BLEZL = Op ''BLEZL'' 11 BLEZL"
definition op_BGTZL :: "'d entry" where "op_BGTZL = Op ''BGTZL'' 11 BGTZL"
definition op_DADDI :: "'d entry" where "op_DADDI = Op ''DADDI'' 9 (reg_op DADDI)"
definition op_DADDIU :: "'d entry" where "op_DADDIU = Op ''DADDIU'' 9 (reg_op DADDIU)"
definition op_LDL :: "'d entry" where "op_LDL = Op ''LDL'' 14 (\<lambda>env rec s. LDL (ee_mem env) (ee_undef env s) s)"
definition op_LDR :: "'d entry" where "op_LDR = Op ''LDR'' 14 (\<lambda>env rec s. LDR (ee_mem env) (ee_undef env s) s)"
definition op_LQ :: "'d entry" where "op_LQ = Op ''LQ'' 14 (mem_op LQ)"
definition op_SQ :: "'d entry" where "op_SQ = Op ''SQ'' 14 (mem_op SQ)"
definition op_LB :: "'d entry" where "op_LB = Op ''LB'' 14 (mem_op LB)"
definition op_LH :: "'d entry" where "op_LH = Op ''LH'' 14 (mem_op LH)"
definition op_LWL :: "'d entry" where "op_LWL = Op ''LWL'' 14 (mem_op LWL)"
definition op_LW :: "'d entry" where "op_LW = Op ''LW'' 14 (mem_op LW)"
definition op_LBU :: "'d entry" where "op_LBU = Op ''LBU'' 14 (mem_op LBU)"
definition op_LHU :: "'d entry" where "op_LHU = Op ''LHU'' 14 (mem_op LHU)"
definition op_LWR :: "'d entry" where "op_LWR = Op ''LWR'' 14 (mem_op LWR)"
definition op_LWU :: "'d entry" where "op_LWU = Op ''LWU'' 14 (mem_op LWU)"
definition op_SB :: "'d entry" where "op_SB = Op ''SB'' 14 (mem_op SB)"
definition op_SH :: "'d entry" where "op_SH = Op ''SH'' 14 (mem_op SH)"
definition op_SWL :: "'d entry" where "op_SWL = Op ''SWL'' 14 (mem_op SWL)"
definition op_SW :: "'d entry" where "op_SW = Op ''SW'' 14 (mem_op SW)"
definition op_SDL :: "'d entry" where "op_SDL = Op ''SDL'' 14 (\<lambda>env rec s. SDL (ee_mem env) (ee_undef env s) s)"
definition op_SDR :: "'d entry" where "op_SDR = Op ''SDR'' 14 (\<lambda>env rec s. SDR (ee_mem env) (ee_undef env s) s)"
definition op_SWR :: "'d entry" where "op_SWR = Op ''SWR'' 14 (mem_op SWR)"
definition op_CACHE :: "'d entry" where "op_CACHE = Op ''CACHE'' 9 (\<lambda>env rec. ee_ext env ''CACHE'')"
definition op_LWC1 :: "'d entry" where "op_LWC1 = Op ''LWC1'' 14 (mem_op LWC1)"
definition op_PREF :: "'d entry" where "op_PREF = Op ''PREF'' 9 (reg_op PREF)"
definition op_LQC2 :: "'d entry" where "op_LQC2 = Op ''LQC2'' 14 (\<lambda>env rec. ee_ext env ''LQC2'')"
definition op_LD :: "'d entry" where "op_LD = Op ''LD'' 14 (mem_op LD)"
definition op_SWC1 :: "'d entry" where "op_SWC1 = Op ''SWC1'' 14 (mem_op SWC1)"
definition op_SQC2 :: "'d entry" where "op_SQC2 = Op ''SQC2'' 14 (\<lambda>env rec. ee_ext env ''SQC2'')"
definition op_SD :: "'d entry" where "op_SD = Op ''SD'' 14 (mem_op opSD)"
definition op_SLL :: "'d entry" where "op_SLL = Op ''SLL'' 9 (reg_op SLL)"
definition op_SRL :: "'d entry" where "op_SRL = Op ''SRL'' 9 (reg_op SRL)"
definition op_SRA :: "'d entry" where "op_SRA = Op ''SRA'' 9 (reg_op SRA)"
definition op_SLLV :: "'d entry" where "op_SLLV = Op ''SLLV'' 9 (reg_op SLLV)"
definition op_SRLV :: "'d entry" where "op_SRLV = Op ''SRLV'' 9 (reg_op SRLV)"
definition op_SRAV :: "'d entry" where "op_SRAV = Op ''SRAV'' 9 (reg_op SRAV)"
definition op_JR :: "'d entry" where "op_JR = Op ''JR'' 9 JR"
definition op_JALR :: "'d entry" where "op_JALR = Op ''JALR'' 9 JALR"
definition op_MOVZ :: "'d entry" where "op_MOVZ = Op ''MOVZ'' 9 (reg_op MOVZ)"
definition op_MOVN :: "'d entry" where "op_MOVN = Op ''MOVN'' 9 (reg_op MOVN)"
definition op_SYSCALL :: "'d entry" where "op_SYSCALL = Op ''SYSCALL'' 9 (\<lambda>env rec. SYSCALL (ee_hle env))"
definition op_BREAK :: "'d entry" where "op_BREAK = Op ''BREAK'' 9 (reg_op BREAK)"
definition op_SYNC :: "'d entry" where "op_SYNC = Op ''SYNC'' 9 (reg_op SYNC)"
definition op_MFHI :: "'d entry" where "op_MFHI = Op ''MFHI'' 9 (reg_op MFHI)"
definition op_MTHI :: "'d entry" where "op_MTHI = Op ''MTHI'' 9 (reg_op MTHI)"
definition op_MFLO :: "'d entry" where "op_MFLO = Op ''MFLO'' 9 (reg_op MFLO)"
definition op_MTLO :: "'d entry" where "op_MTLO = Op ''MTLO'' 9 (reg_op MTLO)"
definition op_DSLLV :: "'d entry" where "op_DSLLV = Op ''DSLLV'' 9 (reg_op DSLLV)"
definition op_DSRLV :: "'d entry" where "op_DSRLV = Op ''DSRLV'' 9 (reg_op DSRLV)"
definition op_DSRAV :: "'d entry" where "op_DSRAV = Op ''DSRAV'' 9 (reg_op DSRAV)"
definition op_MULT :: "'d entry" where "op_MULT = Op ''MULT'' 16 (reg_op MULT)"
definition op_MULTU :: "'d entry" where "op_MULTU = Op ''MULTU'' 16 (reg_op MULTU)"
definition op_DIV :: "'d entry" where "op_DIV = Op ''DIV'' 112 (reg_op DIV)"
definition op_DIVU :: "'d entry" where "op_DIVU = Op ''DIVU'' 112 (reg_op DIVU)"
definition op_ADD :: "'d entry" where "op_ADD = Op ''ADD'' 9 (reg_op ADD)"
definition op_ADDU :: "'d entry" where "op_ADDU = Op ''ADDU'' 9 (reg_op ADDU)"
definition op_SUB :: "'d entry" where "op_SUB = Op ''SUB'' 9 (reg_op SUB)"
definition op_SUBU :: "'d entry" where "op_SUBU = Op ''SUBU'' 9 (reg_op SUBU)"
definition op_AND :: "'d entry" where "op_AND = Op ''AND'' 9 (reg_op opAND)"
definition op_OR :: "'d entry" where "op_OR = Op ''OR'' 9 (reg_op opOR)"
definition op_XOR :: "'d entry" where "op_XOR = Op ''XOR'' 9 (reg_op opXOR)"
definition op_NOR :: "'d entry" where "op_NOR = Op ''NOR'' 9 (reg_op opNOR)"
definition op_MFSA :: "'d entry" where "op_MFSA = Op ''MFSA'' 9 (reg_op MFSA)"
definition op_MTSA :: "'d entry" where "op_MTSA = Op ''MTSA'' 9 (reg_op MTSA)"
definition op_SLT :: "'d entry" where "op_SLT = Op ''SLT'' 9 (reg_op SLT)"
definition op_SLTU :: "'d entry" where "op_SLTU = Op ''SLTU'' 9 (reg_op SLTU)"
definition op_DADD :: "'d entry" where "op_DADD = Op ''DADD'' 9 (reg_op DADD)"
definition op_DADDU :: "'d entry" where "op_DADDU = Op ''DADDU'' 9 (reg_op DADDU)"
definition op_DSUB :: "'d entry" where "op_DSUB = Op ''DSUB'' 9 (reg_op DSUB)"
definition op_DSUBU :: "'d entry" where "op_DSUBU = Op ''DSUBU'' 9 (reg_op DSUBU)"
definition op_TGE :: "'d entry" where "op_TGE = Op ''TGE'' 11 (reg_op TGE)"
definition op_TGEU :: "'d entry" where "op_TGEU = Op ''TGEU'' 11 (reg_op TGEU)"
definition op_TLT :: "'d entry" where "op_TLT = Op ''TLT'' 11 (reg_op TLT)"
definition op_TLTU :: "'d entry" where "op_TLTU = Op ''TLTU'' 11 (reg_op TLTU)"
definition op_TEQ :: "'d entry" where "op_TEQ = Op ''TEQ'' 11 (reg_op TEQ)"
definition op_TNE :: "'d entry" where "op_TNE = Op ''TNE'' 11 (reg_op TNE)"
definition op_DSLL :: "'d entry" where "op_DSLL = Op ''DSLL'' 9 (reg_op DSLL)"
definition op_DSRL :: "'d entry" where "op_DSRL = Op ''DSRL'' 9 (reg_op DSRL)"
definition op_DSRA :: "'d entry" where "op_DSRA = Op ''DSRA'' 9 (reg_op DSRA)"
definition op_DSLL32 :: "'d entry" where "op_DSLL32 = Op ''DSLL32'' 9 (reg_op DSLL32)"
definition op_DSRL32 :: "'d entry" where "op_DSRL32 = Op ''DSRL32'' 9 (reg_op DSRL32)"
definition op_DSRA32 :: "'d entry" where "op_DSRA32 = Op ''DSRA32'' 9 (reg_op DSRA32)"
definition op_BLTZ :: "'d entry" where "op_BLTZ = Op ''BLTZ'' 11 BLTZ"
definition op_BGEZ :: "'d entry" where "op_BGEZ = Op ''BGEZ'' 11 BGEZ"
definition op_BLTZL :: "'d entry" where "op_BLTZL = Op ''BLTZL'' 11 BLTZL"
definition op_BGEZL :: "'d entry" where "op_BGEZL = Op ''BGEZL'' 11 BGEZL"
definition op_TGEI :: "'d entry" where "op_TGEI = Op ''TGEI'' 11 (reg_op TGEI)"
definition op_TGEIU :: "'d entry" where "op_TGEIU = Op ''TGEIU'' 11 (reg_op TGEIU)"
definition op_TLTI :: "'d entry" where "op_TLTI = Op ''TLTI'' 11 (reg_op TLTI)"
definition op_TLTIU :: "'d entry" where "op_TLTIU = Op ''TLTIU'' 11 (reg_op TLTIU)"
definition op_TEQI :: "'d entry" where "op_TEQI = Op ''TEQI'' 11 (reg_op TEQI)"
definition op_TNEI :: "'d entry" where "op_TNEI = Op ''TNEI'' 11 (reg_op TNEI)"
definition op_BLTZAL :: "'d entry" where "op_BLTZAL = Op ''BLTZAL'' 11 BLTZAL"
definition op_BGEZAL :: "'d entry" where "op_BGEZAL = Op ''BGEZAL'' 11 BGEZAL"
definition op_BLTZALL :: "'d entry" where "op_BLTZALL = Op ''BLTZALL'' 11 BLTZALL"
definition op_BGEZALL :: "'d entry" where "op_BGEZALL = Op ''BGEZALL'' 11 BGEZALL"
definition op_MTSAB :: "'d entry" where "op_MTSAB = Op ''MTSAB'' 9 (reg_op MTSAB)"
definition op_MTSAH :: "'d entry" where "op_MTSAH = Op ''MTSAH'' 9 (reg_op MTSAH)"
definition op_MADD :: "'d entry" where "op_MADD = Op ''MADD'' 16 (reg_op MADD)"
definition op_MADDU :: "'d entry" where "op_MADDU = Op ''MADDU'' 16 (reg_op MADDU)"
definition op_MMI_Unknown :: "'d entry" where "op_MMI_Unknown = Op ''MMI_Unknown'' 9 (reg_op (\<lambda>s. s))"
definition op_PLZCW :: "'d entry" where "op_PLZCW = Op ''PLZCW'' 14 (reg_op PLZCW)"
definition op_MFHI1 :: "'d entry" where "op_MFHI1 = Op ''MFHI1'' 9 (reg_op MFHI1)"
definition op_MTHI1 :: "'d entry" where "op_MTHI1 = Op ''MTHI1'' 9 (reg_op MTHI1)"
definition op_MFLO1 :: "'d entry" where "op_MFLO1 = Op ''MFLO1'' 9 (reg_op MFLO1)"
definition op_MTLO1 :: "'d entry" where "op_MTLO1 = Op ''MTLO1'' 9 (reg_op MTLO1)"
definition op_MULT1 :: "'d entry" where "op_MULT1 = Op ''MULT1'' 16 (reg_op MULT1)"
definition op_MULTU1 :: "'d entry" where "op_MULTU1 = Op ''MULTU1'' 16 (reg_op MULTU1)"
definition op_DIV1 :: "'d entry" where "op_DIV1 = Op ''DIV1'' 112 (reg_op DIV1)"
definition op_DIVU1 :: "'d entry" where "op_DIVU1 = Op ''DIVU1'' 112 (reg_op DIVU1)"
definition op_MADD1 :: "'d entry" where "op_MADD1 = Op ''MADD1'' 16 (reg_op MADD1)"
definition op_MADDU1 :: "'d entry" where "op_MADDU1 = Op ''MADDU1'' 16 (reg_op MADDU1)"
definition op_PMFHL :: "'d entry" where "op_PMFHL = Op ''PMFHL'' 14 (reg_op PMFHL)"
definition op_PMTHL :: "'d entry" where "op_PMTHL = Op ''PMTHL'' 14 (reg_op PMTHL)"
definition op_PSLLH :: "'d entry" where "op_PSLLH = Op ''PSLLH'' 14 (reg_op PSLLH)"
definition op_PSRLH :: "'d entry" where "op_PSRLH = Op ''PSRLH'' 14 (reg_op PSRLH)"
definition op_PSRAH :: "'d entry" where "op_PSRAH = Op ''PSRAH'' 14 (reg_op PSRAH)"
definition op_PSLLW :: "'d entry" where "op_PSLLW = Op ''PSLLW'' 14 (reg_op PSLLW)"
definition op_PSRLW :: "'d entry" where "op_PSRLW = Op ''PSRLW'' 14 (reg_op PSRLW)"
definition op_PSRAW :: "'d entry" where "op_PSRAW = Op ''PSRAW'' 14 (reg_op PSRAW)"
definition op_PADDW :: "'d entry" where "op_PADDW = Op ''PADDW'' 14 (reg_op PADDW)"
definition op_PSUBW :: "'d entry" where "op_PSUBW = Op ''PSUBW'' 14 (reg_op PSUBW)"
definition op_PCGTW :: "'d entry" where "op_PCGTW = Op ''PCGTW'' 14 (reg_op PCGTW)"
definition op_PMAXW :: "'d entry" where "op_PMAXW = Op ''PMAXW'' 14 (reg_op PMAXW)"
definition op_PADDH :: "'d entry" where "op_PADDH = Op ''PADDH'' 14 (reg_op PADDH)"
definition op_PSUBH :: "'d entry" where "op_PSUBH = Op ''PSUBH'' 14 (reg_op PSUBH)"
definition op_PCGTH :: "'d entry" where "op_PCGTH = Op ''PCGTH'' 14 (reg_op PCGTH)"
definition op_PMAXH :: "'d entry" where "op_PMAXH = Op ''PMAXH'' 14 (reg_op PMAXH)"
definition op_PADDB :: "'d entry" where "op_PADDB = Op ''PADDB'' 14 (reg_op PADDB)"
definition op_PSUBB :: "'d entry" where "op_PSUBB = Op ''PSUBB'' 14 (reg_op PSUBB)"
definition op_PCGTB :: "'d entry" where "op_PCGTB = Op ''PCGTB'' 14 (reg_op PCGTB)"
definition op_PADDSW :: "'d entry" where "op_PADDSW = Op ''PADDSW'' 14 (reg_op PADDSW)"
definition op_PSUBSW :: "'d entry" where "op_PSUBSW = Op ''PSUBSW'' 14 (reg_op PSUBSW)"
definition op_PEXTLW :: "'d entry" where "op_PEXTLW = Op ''PEXTLW'' 14 (reg_op PEXTLW)"
definition op_PPACW :: "'d entry" where "op_PPACW = Op ''PPACW'' 14 (reg_op PPACW)"
definition op_PADDSH :: "'d entry" where "op_PADDSH = Op ''PADDSH'' 14 (reg_op PADDSH)"
definition op_PSUBSH :: "'d entry" where "op_PSUBSH = Op ''PSUBSH'' 14 (reg_op PSUBSH)"
definition op_PEXTLH :: "'d entry" where "op_PEXTLH = Op ''PEXTLH'' 14 (reg_op PEXTLH)"
definition op_PPACH :: "'d entry" where "op_PPACH = Op ''PPACH'' 14 (reg_op PPACH)"
definition op_PADDSB :: "'d entry" where "op_PADDSB = Op ''PADDSB'' 14 (reg_op PADDSB)"
definition op_PSUBSB :: "'d entry" where "op_PSUBSB = Op ''PSUBSB'' 14 (reg_op PSUBSB)"
definition op_PEXTLB :: "'d entry" where "op_PEXTLB = Op ''PEXTLB'' 14 (reg_op PEXTLB)"
definition op_PPACB :: "'d entry" where "op_PPACB = Op ''PPACB'' 14 (reg_op PPACB)"
definition op_PEXT5 :: "'d entry" where "op_PEXT5 = Op ''PEXT5'' 14 (reg_op PEXT5)"
definition op_PPAC5 :: "'d entry" where "op_PPAC5 = Op ''PPAC5'' 14 (reg_op PPAC5)"
definition op_PABSW :: "'d entry" where "op_PABSW = Op ''PABSW'' 14 (reg_op PABSW)"
definition op_PCEQW :: "'d entry" where "op_PCEQW = Op ''PCEQW'' 14 (reg_op PCEQW)"
definition op_PMINW :: "'d entry" where "op_PMINW = Op ''PMINW'' 14 (reg_op PMINW)"
definition op_PADSBH :: "'d entry" where "op_PADSBH = Op ''PADSBH'' 14 (reg_op PADSBH)"
definition op_PABSH :: "'d entry" where "op_PABSH = Op ''PABSH'' 14 (reg_op PABSH)"
definition op_PCEQH :: "'d entry" where "op_PCEQH = Op ''PCEQH'' 14 (reg_op PCEQH)"
definition op_PMINH :: "'d entry" where "op_PMINH = Op ''PMINH'' 14 (reg_op PMINH)"
definition op_PCEQB :: "'d entry" where "op_PCEQB = Op ''PCEQB'' 14 (reg_op PCEQB)"
definition op_PADDUW :: "'d entry" where "op_PADDUW = Op ''PADDUW'' 14 (reg_op PADDUW)"
definition op_PSUBUW :: "'d entry" where "op_PSUBUW = Op ''PSUBUW'' 14 (reg_op PSUBUW)"
definition op_PEXTUW :: "'d entry" where "op_PEXTUW = Op ''PEXTUW'' 14 (reg_op PEXTUW)"
definition op_PADDUH :: "'d entry" where "op_PADDUH = Op ''PADDUH'' 14 (reg_op PADDUH)"
definition op_PSUBUH :: "'d entry" where "op_PSUBUH = Op ''PSUBUH'' 14 (reg_op PSUBUH)"
definition op_PEXTUH :: "'d entry" where "op_PEXTUH = Op ''PEXTUH'' 14 (reg_op PEXTUH)"
definition op_PADDUB :: "'d entry" where "op_PADDUB = Op ''PADDUB'' 14 (reg_op PADDUB)"
definition op_PSUBUB :: "'d entry" where "op_PSUBUB = Op ''PSUBUB'' 14 (reg_op PSUBUB)"
definition op_PEXTUB :: "'d entry" where "op_PEXTUB = Op ''PEXTUB'' 14 (reg_op PEXTUB)"
definition op_QFSRV :: "'d entry" where "op_QFSRV = Op ''QFSRV'' 14 (reg_op QFSRV)"
definition op_PMADDW :: "'d entry" where "op_PMADDW = Op ''PMADDW'' 24 (reg_op PMADDW)"
definition op_PSLLVW :: "'d entry" where "op_PSLLVW = Op ''PSLLVW'' 14 (reg_op PSLLVW)"
definition op_PSRLVW :: "'d entry" where "op_PSRLVW = Op ''PSRLVW'' 14 (reg_op PSRLVW)"
definition op_PMSUBW :: "'d entry" where "op_PMSUBW = Op ''PMSUBW'' 24 (reg_op PMSUBW)"
definition op_PMFHI :: "'d entry" where "op_PMFHI = Op ''PMFHI'' 24 (reg_op PMFHI)"
definition op_PMFLO :: "'d entry" where "op_PMFLO = Op ''PMFLO'' 24 (reg_op PMFLO)"
definition op_PINTH :: "'d entry" where "op_PINTH = Op ''PINTH'' 14 (reg_op PINTH)"
definition op_PMULTW :: "'d entry" where "op_PMULTW = Op ''PMULTW'' 24 (reg_op PMULTW)"
definition op_PDIVW :: "'d entry" where "op_PDIVW = Op ''PDIVW'' 176 (reg_op PDIVW)"
definition op_PCPYLD :: "'d entry" where "op_PCPYLD = Op ''PCPYLD'' 14 (reg_op PCPYLD)"
definition op_PMADDH :: "'d entry" where "op_PMADDH = Op ''PMADDH'' 24 (reg_op PMADDH)"
definition op_PHMADH :: "'d entry" where "op_PHMADH = Op ''PHMADH'' 24 (reg_op PHMADH)"
definition op_PAND :: "'d entry" where "op_PAND = Op ''PAND'' 14 (reg_op PAND)"
definition op_PXOR :: "'d entry" where "op_PXOR = Op ''PXOR'' 14 (reg_op PXOR)"
definition op_PMSUBH :: "'d entry" where "op_PMSUBH = Op ''PMSUBH'' 24 (reg_op PMSUBH)"
definition op_PHMSBH :: "'d entry" where "op_PHMSBH = Op ''PHMSBH'' 24 (reg_op PHMSBH)"
definition op_PEXEH :: "'d entry" where "op_PEXEH = Op ''PEXEH'' 14 (reg_op PEXEH)"
definition op_PREVH :: "'d entry" where "op_PREVH = Op ''PREVH'' 14 (reg_op PREVH)"
definition op_PMULTH :: "'d entry" where "op_PMULTH = Op ''PMULTH'' 24 (reg_op PMULTH)"
definition op_PDIVBW :: "'d entry" where "op_PDIVBW = Op ''PDIVBW'' 176 (reg_op PDIVBW)"
definition op_PEXEW :: "'d entry" where "op_PEXEW = Op ''PEXEW'' 14 (reg_op PEXEW)"
definition op_PROT3W :: "'d entry" where "op_PROT3W = Op ''PROT3W'' 14 (reg_op PROT3W)"
definition op_PMADDUW :: "'d entry" where "op_PMADDUW = Op ''PMADDUW'' 24 (reg_op PMADDUW)"
definition op_PSRAVW :: "'d entry" where "op_PSRAVW = Op ''PSRAVW'' 14 (reg_op PSRAVW)"
definition op_PMTHI :: "'d entry" where "op_PMTHI = Op ''PMTHI'' 14 (reg_op PMTHI)"
definition op_PMTLO :: "'d entry" where "op_PMTLO = Op ''PMTLO'' 14 (reg_op PMTLO)"
definition op_PINTEH :: "'d entry" where "op_PINTEH = Op ''PINTEH'' 14 (reg_op PINTEH)"
definition op_PMULTUW :: "'d entry" where "op_PMULTUW = Op ''PMULTUW'' 24 (reg_op PMULTUW)"
definition op_PDIVUW :: "'d entry" where "op_PDIVUW = Op ''PDIVUW'' 176 (reg_op PDIVUW)"
definition op_PCPYUD :: "'d entry" where "op_PCPYUD = Op ''PCPYUD'' 14 (reg_op PCPYUD)"
definition op_POR :: "'d entry" where "op_POR = Op ''POR'' 14 (reg_op POR)"
definition op_PNOR :: "'d entry" where "op_PNOR = Op ''PNOR'' 14 (reg_op PNOR)"
definition op_PEXCH :: "'d entry" where "op_PEXCH = Op ''PEXCH'' 14 (reg_op PEXCH)"
definition op_PCPYH :: "'d entry" where "op_PCPYH = Op ''PCPYH'' 14 (reg_op PCPYH)"
definition op_PEXCW :: "'d entry" where "op_PEXCW = Op ''PEXCW'' 14 (reg_op PEXCW)"
definition op_MFC0 :: "'d entry" where "op_MFC0 = Op ''MFC0'' 7 (reg_op MFC0)"
definition op_COP0_Unknown :: "'d entry" where "op_COP0_Unknown = Op ''COP0_Unknown'' 9 (reg_op (\<lambda>s. s))"
definition op_MTC0 :: "'d entry" where "op_MTC0 = Op ''MTC0'' 7 (reg_op MTC0)"
definition op_BC0F :: "'d entry" where "op_BC0F = Op ''BC0F'' 11 BC0F"
definition op_BC0T :: "'d entry" where "op_BC0T = Op ''BC0T'' 11 BC0T"
definition op_BC0FL :: "'d entry" where "op_BC0FL = Op ''BC0FL'' 11 BC0FL"
definition op_BC0TL :: "'d entry" where "op_BC0TL = Op ''BC0TL'' 11 BC0TL"
definition op_TLBR :: "'d entry" where "op_TLBR = Op ''TLBR'' 7 (reg_op TLBR)"
definition op_TLBWI :: "'d entry" where "op_TLBWI = Op ''TLBWI'' 7 (\<lambda>env rec s. Ret () (TLBWI (Scratch env) s))"
definition op_TLBWR :: "'d entry" where "op_TLBWR = Op ''TLBWR'' 7 (\<lambda>env rec s. Ret () (TLBWR (Scratch env) s))"
definition op_TLBP :: "'d entry" where "op_TLBP = Op ''TLBP'' 7 (reg_op TLBP)"
definition op_ERET :: "'d entry" where "op_ERET = Op ''ERET'' 7 (reg_op ERET)"
definition op_EI :: "'d entry" where "op_EI = Op ''EI'' 7 (reg_op EI)"
definition op_DI :: "'d entry" where "op_DI = Op ''DI'' 7 (reg_op DI)"
definition op_MFC1 :: "'d entry" where "op_MFC1 = Op ''MFC1'' 7 (reg_op MFC1)"
definition op_COP1_Unknown :: "'d entry" where "op_COP1_Unknown = Op ''COP1_Unknown'' 9 (reg_op (\<lambda>s. s))"
definition op_CFC1 :: "'d entry" where "op_CFC1 = Op ''CFC1'' 7 (reg_op CFC1)"
definition op_MTC1 :: "'d entry" where "op_MTC1 = Op ''MTC1'' 7 (reg_op MTC1)"
definition op_CTC1 :: "'d entry" where "op_CTC1 = Op ''CTC1'' 7 (reg_op CTC1)"
definition op_BC1F :: "'d entry" where "op_BC1F = Op ''BC1F'' 11 BC1F"
definition op_BC1T :: "'d entry" where "op_BC1T = Op ''BC1T'' 11 BC1T"
definition op_BC1FL :: "'d entry" where "op_BC1FL = Op ''BC1FL'' 11 BC1FL"
definition op_BC1TL :: "'d entry" where "op_BC1TL = Op ''BC1TL'' 11 BC1TL"
definition op_ADD_S :: "'d entry" where "op_ADD_S = Op ''ADD_S'' 7 (\<lambda>env rec s. Ret () (ADD_S (ee_fpu env) s))"
definition op_SUB_S :: "'d entry" where "op_SUB_S = Op ''SUB_S'' 7 (\<lambda>env rec s. Ret () (SUB_S (ee_fpu env) s))"
definition op_MUL_S :: "'d entry" where "op_MUL_S = Op ''MUL_S'' 32 (\<lambda>env rec s. Ret () (MUL_S (ee_fpu env) s))"
definition op_DIV_S :: "'d entry" where "op_DIV_S = Op ''DIV_S'' 48 (\<lambda>env rec s. Ret () (DIV_S (ee_fpu env) s))"
definition op_SQRT_S :: "'d entry" where "op_SQRT_S = Op ''SQRT_S'' 48 (\<lambda>env rec s. Ret () (SQRT_S (ee_fpu env) s))"
definition op_ABS_S :: "'d entry" where "op_ABS_S = Op ''ABS_S'' 7 (reg_op ABS_S)"
definition op_MOV_S :: "'d entry" where "op_MOV_S = Op ''MOV_S'' 7 (reg_op MOV_S)"
definition op_NEG_S :: "'d entry" where "op_NEG_S = Op ''NEG_S'' 7 (reg_op NEG_S)"
definition op_RSQRT_S :: "'d entry" where "op_RSQRT_S = Op ''RSQRT_S'' 64 (\<lambda>env rec s. Ret () (RSQRT_S (ee_fpu env) s))"
definition op_ADDA_S :: "'d entry" where "op_ADDA_S = Op ''ADDA_S'' 7 (\<lambda>env rec s. Ret () (ADDA_S (ee_fpu env) s))"
definition op_SUBA_S :: "'d entry" where "op_SUBA_S = Op ''SUBA_S'' 7 (\<lambda>env rec s. Ret () (SUBA_S (ee_fpu env) s))"
definition op_MULA_S :: "'d entry" where "op_MULA_S = Op ''MULA_S'' 32 (\<lambda>env rec s. Ret () (MULA_S (ee_fpu env) s))"
definition op_MADD_S :: "'d entry" where "op_MADD_S = Op ''MADD_S'' 32 (\<lambda>env rec s. Ret () (MADD_S (ee_fpu env) s))"
definition op_MSUB_S :: "'d entry" where "op_MSUB_S = Op ''MSUB_S'' 32 (\<lambda>env rec s. Ret () (MSUB_S (ee_fpu env) s))"
definition op_MADDA_S :: "'d entry" where "op_MADDA_S = Op ''MADDA_S'' 32 (\<lambda>env rec s. Ret () (MADDA_S (ee_fpu env) s))"
definition op_MSUBA_S :: "'d entry" where "op_MSUBA_S = Op ''MSUBA_S'' 32 (\<lambda>env rec s. Ret () (MSUBA_S (ee_fpu env) s))"
definition op_CVT_W :: "'d entry" where "op_CVT_W = Op ''CVT_W'' 7 (\<lambda>env rec s. Ret () (CVT_W (ee_fpu env) s))"
definition op_MAX_S :: "'d entry" where "op_MAX_S = Op ''MAX_S'' 7 (\<lambda>env rec s. Ret () (MAX_S (ee_fpu env) s))"
definition op_MIN_S :: "'d entry" where "op_MIN_S = Op ''MIN_S'' 7 (\<lambda>env rec s. Ret () (MIN_S (ee_fpu env) s))"
definition op_C_F :: "'d entry" where "op_C_F = Op ''C_F'' 7 (reg_op C_F)"
definition op_C_EQ :: "'d entry" where "op_C_EQ = Op ''C_EQ'' 7 (\<lambda>env rec s. Ret () (C_EQ (ee_fpu env) s))"
definition op_C_LT :: "'d entry" where "op_C_LT = Op ''C_LT'' 7 (\<lambda>env rec s. Ret () (C_LT (ee_fpu env) s))"
definition op_C_LE :: "'d entry" where "op_C_LE = Op ''C_LE'' 7 (\<lambda>env rec s. Ret () (C_LE (ee_fpu env) s))"
definition op_CVT_S :: "'d entry" where "op_CVT_S = Op ''CVT_S'' 7 (\<lambda>env rec s. Ret () (CVT_S (ee_fpu env) s))"

definition tbl_Standard :: "'d entry list" where
  "tbl_Standard =
     [Sub C_SPECIAL, Sub C_REGIMM, op_J, op_JAL, op_BEQ, op_BNE, op_BLEZ, op_BGTZ, op_ADDI,
      op_ADDIU, op_SLTI, op_SLTIU, op_ANDI, op_ORI, op_XORI, op_LUI, Sub C_COP0, Sub C_COP1,
      op_COP2, op_Unknown, op_BEQL, op_BNEL, op_BLEZL, op_BGTZL, op_DADDI, op_DADDIU, op_LDL,
      op_LDR, Sub C_MMI, op_Unknown, op_LQ, op_SQ, op_LB, op_LH, op_LWL, op_LW, op_LBU, op_LHU,
      op_LWR, op_LWU, op_SB, op_SH, op_SWL, op_SW, op_SDL, op_SDR, op_SWR, op_CACHE, op_Unknown,
      op_LWC1, op_Unknown, op_PREF, op_Unknown, op_Unknown, op_LQC2, op_LD, op_Unknown, op_SWC1,
      op_Unknown, op_Unknown, op_Unknown, op_Unknown, op_SQC2, op_SD]"

definition tbl_Special :: "'d entry list" where
  "tbl_Special =
     [op_SLL, op_Unknown, op_SRL, op_SRA, op_SLLV, op_Unknown, op_SRLV, op_SRAV, op_JR, op_JALR,
      op_MOVZ, op_MOVN, op_SYSCALL, op_BREAK, op_Unknown, op_SYNC, op_MFHI, op_MTHI, op_MFLO,
      op_MTLO, op_DSLLV, op_Unknown, op_DSRLV, op_DSRAV, op_MULT, op_MULTU, op_DIV, op_DIVU,
      op_Unknown, op_Unknown, op_Unknown, op_Unknown, op_ADD, op_ADDU, op_SUB, op_SUBU, op_AND,
      op_OR, op_XOR, op_NOR, op_MFSA, op_MTSA, op_SLT, op_SLTU, op_DADD, op_DADDU, op_DSUB,
      op_DSUBU, op_TGE, op_TGEU, op_TLT, op_TLTU, op_TEQ, op_Unknown, op_TNE, op_Unknown,
      op_DSLL, op_Unknown, op_DSRL, op_DSRA, op_DSLL32, op_Unknown, op_DSRL32, op_DSRA32]"

definition tbl_RegImm :: "'d entry list" where
  "tbl_RegImm =
     [op_BLTZ, op_BGEZ, op_BLTZL, op_BGEZL, op_Unknown, op_Unknown, op_Unknown, op_Unknown,
      op_TGEI, op_TGEIU, op_TLTI, op_TLTIU, op_TEQI, op_Unknown, op_TNEI, op_Unknown, op_BLTZAL,
      op_BGEZAL, op_BLTZALL, op_BGEZALL, op_Unknown, op_Unknown, op_Unknown, op_Unknown,
      op_MTSAB, op_MTSAH, op_Unknown, op_Unknown, op_Unknown, op_Unknown, op_Unknown, op_Unknown]"

definition tbl_MMI :: "'d entry list" where
  "tbl_MMI =
     [op_MADD, op_MADDU, op_MMI_Unknown, op_MMI_Unknown, op_PLZCW, op_MMI_Unknown,
      op_MMI_Unknown, op_MMI_Unknown, Sub C_MMI0, Sub C_MMI2, op_MMI_Unknown, op_MMI_Unknown,
      op_MMI_Unknown, op_MMI_Unknown, op_MMI_Unknown, op_MMI_Unknown, op_MFHI1, op_MTHI1,
      op_MFLO1, op_MTLO1, op_MMI_Unknown, op_MMI_Unknown, op_MMI_Unknown, op_MMI_Unknown,
      op_MULT1, op_MULTU1, op_DIV1, op_DIVU1, op_MMI_Unknown, op_MMI_Unknown, op_MMI_Unknown,
      op_MMI_Unknown, op_MADD1, op_MADDU1, op_MMI_Unknown, op_MMI_Unknown, op_MMI_Unknown,
      op_MMI_Unknown, op_MMI_Unknown, op_MMI_Unknown, Sub C_MMI1, Sub C_MMI3, op_MMI_Unknown,
      op_MMI_Unknown, op_MMI_Unknown, op_MMI_Unknown, op_MMI_Unknown, op_MMI_Unknown, op_PMFHL,
      op_PMTHL, op_MMI_Unknown, op_MMI_Unknown, op_PSLLH, op_MMI_Unknown, op_PSRLH, op_PSRAH,
      op_MMI_Unknown, op_MMI_Unknown, op_MMI_Unknown, op_MMI_Unknown, op_PSLLW, op_MMI_Unknown,
      op_PSRLW, op_PSRAW]"

definition tbl_MMI0 :: "'d entry list" where
  "tbl_MMI0 =
     [op_PADDW, op_PSUBW, op_PCGTW, op_PMAXW, op_PADDH, op_PSUBH, op_PCGTH, op_PMAXH, op_PADDB,
      op_PSUBB, op_PCGTB, op_MMI_Unknown, op_MMI_Unknown, op_MMI_Unknown, op_MMI_Unknown,
      op_MMI_Unknown, op_PADDSW, op_PSUBSW, op_PEXTLW, op_PPACW, op_PADDSH, op_PSUBSH, op_PEXTLH,
      op_PPACH, op_PADDSB, op_PSUBSB, op_PEXTLB, op_PPACB, op_MMI_Unknown, op_MMI_Unknown,
      op_PEXT5, op_PPAC5]"

definition tbl_MMI1 :: "'d entry list" where
  "tbl_MMI1 =
     [op_MMI_Unknown, op_PABSW, op_PCEQW, op_PMINW, op_PADSBH, op_PABSH, op_PCEQH, op_PMINH,
      op_MMI_Unknown, op_MMI_Unknown, op_PCEQB, op_MMI_Unknown, op_MMI_Unknown, op_MMI_Unknown,
      op_MMI_Unknown, op_MMI_Unknown, op_PADDUW, op_PSUBUW, op_PEXTUW, op_MMI_Unknown, op_PADDUH,
      op_PSUBUH, op_PEXTUH, op_MMI_Unknown, op_PADDUB, op_PSUBUB, op_PEXTUB, op_QFSRV,
      op_MMI_Unknown, op_MMI_Unknown, op_MMI_Unknown, op_MMI_Unknown]"

definition tbl_MMI2 :: "'d entry list" where
  "tbl_MMI2 =
     [op_PMADDW, op_MMI_Unknown, op_PSLLVW, op_PSRLVW, op_PMSUBW, op_MMI_Unknown, op_MMI_Unknown,
      op_MMI_Unknown, op_PMFHI, op_PMFLO, op_PINTH, op_MMI_Unknown, op_PMULTW, op_PDIVW,
      op_PCPYLD, op_MMI_Unknown, op_PMADDH, op_PHMADH, op_PAND, op_PXOR, op_PMSUBH, op_PHMSBH,
      op_MMI_Unknown, op_MMI_Unknown, op_MMI_Unknown, op_MMI_Unknown, op_PEXEH, op_PREVH,
      op_PMULTH, op_PDIVBW, op_PEXEW, op_PROT3W]"

definition tbl_MMI3 :: "'d entry list" where
  "tbl_MMI3 =
     [op_PMADDUW, op_MMI_Unknown, op_MMI_Unknown, op_PSRAVW, op_MMI_Unknown, op_MMI_Unknown,
      op_MMI_Unknown, op_MMI_Unknown, op_PMTHI, op_PMTLO, op_PINTEH, op_MMI_Unknown, op_PMULTUW,
      op_PDIVUW, op_PCPYUD, op_MMI_Unknown, op_MMI_Unknown, op_MMI_Unknown, op_POR, op_PNOR,
      op_MMI_Unknown, op_MMI_Unknown, op_MMI_Unknown, op_MMI_Unknown, op_MMI_Unknown,
      op_MMI_Unknown, op_PEXCH, op_PCPYH, op_MMI_Unknown, op_MMI_Unknown, op_PEXCW,
      op_MMI_Unknown]"

definition tbl_COP0 :: "'d entry list" where
  "tbl_COP0 =
     [op_MFC0, op_COP0_Unknown, op_COP0_Unknown, op_COP0_Unknown, op_MTC0, op_COP0_Unknown,
      op_COP0_Unknown, op_COP0_Unknown, Sub C_COP0_BC0, op_COP0_Unknown, op_COP0_Unknown,
      op_COP0_Unknown, op_COP0_Unknown, op_COP0_Unknown, op_COP0_Unknown, op_COP0_Unknown,
      Sub C_COP0_C0, op_COP0_Unknown, op_COP0_Unknown, op_COP0_Unknown, op_COP0_Unknown,
      op_COP0_Unknown, op_COP0_Unknown, op_COP0_Unknown, op_COP0_Unknown, op_COP0_Unknown,
      op_COP0_Unknown, op_COP0_Unknown, op_COP0_Unknown, op_COP0_Unknown, op_COP0_Unknown,
      op_COP0_Unknown]"

definition tbl_COP0_BC0 :: "'d entry list" where
  "tbl_COP0_BC0 =
     [op_BC0F, op_BC0T, op_BC0FL, op_BC0TL, op_COP0_Unknown, op_COP0_Unknown, op_COP0_Unknown,
      op_COP0_Unknown, op_COP0_Unknown, op_COP0_Unknown, op_COP0_Unknown, op_COP0_Unknown,
      op_COP0_Unknown, op_COP0_Unknown, op_COP0_Unknown, op_COP0_Unknown, op_COP0_Unknown,
      op_COP0_Unknown, op_COP0_Unknown, op_COP0_Unknown, op_COP0_Unknown, op_COP0_Unknown,
      op_COP0_Unknown, op_COP0_Unknown, op_COP0_Unknown, op_COP0_Unknown, op_COP0_Unknown,
      op_COP0_Unknown, op_COP0_Unknown, op_COP0_Unknown, op_COP0_Unknown, op_COP0_Unknown]"

definition tbl_COP0_C0 :: "'d entry list" where
  "tbl_COP0_C0 =
     [op_COP0_Unknown, op_TLBR, op_TLBWI, op_COP0_Unknown, op_COP0_Unknown, op_COP0_Unknown,
      op_TLBWR, op_COP0_Unknown, op_TLBP, op_COP0_Unknown, op_COP0_Unknown, op_COP0_Unknown,
      op_COP0_Unknown, op_COP0_Unknown, op_COP0_Unknown, op_COP0_Unknown, op_COP0_Unknown,
      op_COP0_Unknown, op_COP0_Unknown, op_COP0_Unknown, op_COP0_Unknown, op_COP0_Unknown,
      op_COP0_Unknown, op_COP0_Unknown, op_ERET, op_COP0_Unknown, op_COP0_Unknown,
      op_COP0_Unknown, op_COP0_Unknown, op_COP0_Unknown, op_COP0_Unknown, op_COP0_Unknown,
      op_COP0_Unknown, op_COP0_Unknown, op_COP0_Unknown, op_COP0_Unknown, op_COP0_Unknown,
      op_COP0_Unknown, op_COP0_Unknown, op_COP0_Unknown, op_COP0_Unknown, op_COP0_Unknown,
      op_COP0_Unknown, op_COP0_Unknown, op_COP0_Unknown, op_COP0_Unknown, op_COP0_Unknown,
      op_COP0_Unknown, op_COP0_Unknown, op_COP0_Unknown, op_COP0_Unknown, op_COP0_Unknown,
      op_COP0_Unknown, op_COP0_Unknown, op_COP0_Unknown, op_COP0_Unknown, op_EI, op_DI,
      op_COP0_Unknown, op_COP0_Unknown, op_COP0_Unknown, op_COP0_Unknown, op_COP0_Unknown,
      op_COP0_Unknown]"

definition tbl_COP1 :: "'d entry list" where
  "tbl_COP1 =
     [op_MFC1, op_COP1_Unknown, op_CFC1, op_COP1_Unknown, op_MTC1, op_COP1_Unknown, op_CTC1,
      op_COP1_Unknown, Sub C_COP1_BC1, op_COP1_Unknown, op_COP1_Unknown, op_COP1_Unknown,
      op_COP1_Unknown, op_COP1_Unknown, op_COP1_Unknown, op_COP1_Unknown, Sub C_COP1_S,
      op_COP1_Unknown, op_COP1_Unknown, op_COP1_Unknown, Sub C_COP1_W, op_COP1_Unknown,
      op_COP1_Unknown, op_COP1_Unknown, op_COP1_Unknown, op_COP1_Unknown, op_COP1_Unknown,
      op_COP1_Unknown, op_COP1_Unknown, op_COP1_Unknown, op_COP1_Unknown, op_COP1_Unknown]"

definition tbl_COP1_BC1 :: "'d entry list" where
  "tbl_COP1_BC1 =
     [op_BC1F, op_BC1T, op_BC1FL, op_BC1TL, op_COP1_Unknown, op_COP1_Unknown, op_COP1_Unknown,
      op_COP1_Unknown, op_COP1_Unknown, op_COP1_Unknown, op_COP1_Unknown, op_COP1_Unknown,
      op_COP1_Unknown, op_COP1_Unknown, op_COP1_Unknown, op_COP1_Unknown, op_COP1_Unknown,
      op_COP1_Unknown, op_COP1_Unknown, op_COP1_Unknown, op_COP1_Unknown, op_COP1_Unknown,
      op_COP1_Unknown, op_COP1_Unknown, op_COP1_Unknown, op_COP1_Unknown, op_COP1_Unknown,
      op_COP1_Unknown, op_COP1_Unknown, op_COP1_Unknown, op_COP1_Unknown, op_COP1_Unknown]"

definition tbl_COP1_S :: "'d entry list" where
  "tbl_COP1_S =
     [op_ADD_S, op_SUB_S, op_MUL_S, op_DIV_S, op_SQRT_S, op_ABS_S, op_MOV_S, op_NEG_S,
      op_COP1_Unknown, op_COP1_Unknown, op_COP1_Unknown, op_COP1_Unknown, op_COP1_Unknown,
      op_COP1_Unknown, op_COP1_Unknown, op_COP1_Unknown, op_COP1_Unknown, op_COP1_Unknown,
      op_COP1_Unknown, op_COP1_Unknown, op_COP1_Unknown, op_COP1_Unknown, op_RSQRT_S,
      op_COP1_Unknown, op_ADDA_S, op_SUBA_S, op_MULA_S, op_COP1_Unknown, op_MADD_S, op_MSUB_S,
      op_MADDA_S, op_MSUBA_S, op_COP1_Unknown, op_COP1_Unknown, op_COP1_Unknown, op_COP1_Unknown,
      op_CVT_W, op_COP1_Unknown, op_COP1_Unknown, op_COP1_Unknown, op_MAX_S, op_MIN_S,
      op_COP1_Unknown, op_COP1_Unknown, op_COP1_Unknown, op_COP1_Unknown, op_COP1_Unknown,
      op_COP1_Unknown, op_C_F, op_COP1_Unknown, op_C_EQ, op_COP1_Unknown, op_C_LT,
      op_COP1_Unknown, op_C_LE, op_COP1_Unknown, op_COP1_Unknown, op_COP1_Unknown,
      op_COP1_Unknown, op_COP1_Unknown, op_COP1_Unknown, op_COP1_Unknown, op_COP1_Unknown,
      op_COP1_Unknown]"

definition tbl_COP1_W :: "'d entry list" where
  "tbl_COP1_W =
     [op_COP1_Unknown, op_COP1_Unknown, op_COP1_Unknown, op_COP1_Unknown, op_COP1_Unknown,
      op_COP1_Unknown, op_COP1_Unknown, op_COP1_Unknown, op_COP1_Unknown, op_COP1_Unknown,
      op_COP1_Unknown, op_COP1_Unknown, op_COP1_Unknown, op_COP1_Unknown, op_COP1_Unknown,
      op_COP1_Unknown, op_COP1_Unknown, op_COP1_Unknown, op_COP1_Unknown, op_COP1_Unknown,
      op_COP1_Unknown, op_COP1_Unknown, op_COP1_Unknown, op_COP1_Unknown, op_COP1_Unknown,
      op_COP1_Unknown, op_COP1_Unknown, op_COP1_Unknown, op_COP1_Unknown, op_COP1_Unknown,
      op_COP1_Unknown, op_COP1_Unknown, op_CVT_S, op_COP1_Unknown, op_COP1_Unknown,
      op_COP1_Unknown, op_COP1_Unknown, op_COP1_Unknown, op_COP1_Unknown, op_COP1_Unknown,
      op_COP1_Unknown, op_COP1_Unknown, op_COP1_Unknown, op_COP1_Unknown, op_COP1_Unknown,
      op_COP1_Unknown, op_COP1_Unknown, op_COP1_Unknown, op_COP1_Unknown, op_COP1_Unknown,
      op_COP1_Unknown, op_COP1_Unknown, op_COP1_Unknown, op_COP1_Unknown, op_COP1_Unknown,
      op_COP1_Unknown, op_COP1_Unknown, op_COP1_Unknown, op_COP1_Unknown, op_COP1_Unknown,
      op_COP1_Unknown, op_COP1_Unknown, op_COP1_Unknown, op_COP1_Unknown]"

fun the_table :: "opclass \<Rightarrow> 'd entry list" where
  "the_table C_SPECIAL = tbl_Special"
| "the_table C_REGIMM = tbl_RegImm"
| "the_table C_MMI = tbl_MMI"
| "the_table C_MMI0 = tbl_MMI0"
| "the_table C_MMI1 = tbl_MMI1"
| "the_table C_MMI2 = tbl_MMI2"
| "the_table C_MMI3 = tbl_MMI3"
| "the_table C_COP0 = tbl_COP0"
| "the_table C_COP0_BC0 = tbl_COP0_BC0"
| "the_table C_COP0_C0 = tbl_COP0_C0"
| "the_table C_COP1 = tbl_COP1"
| "the_table C_COP1_BC1 = tbl_COP1_BC1"
| "the_table C_COP1_S = tbl_COP1_S"
| "the_table C_COP1_W = tbl_COP1_W"

text \<open>The field that indexes the table of a class.\<close>

fun the_index :: "opclass \<Rightarrow> u32 \<Rightarrow> nat" where
  "the_index C_SPECIAL op = unat (op AND 0x3F)"
| "the_index C_REGIMM op = unat (drop_bit 16 op AND 0x1F)"
| "the_index C_MMI op = unat (op AND 0x3F)"
| "the_index C_MMI0 op = unat (drop_bit 6 op AND 0x1F)"
| "the_index C_MMI1 op = unat (drop_bit 6 op AND 0x1F)"
| "the_index C_MMI2 op = unat (drop_bit 6 op AND 0x1F)"
| "the_index C_MMI3 op = unat (drop_bit 6 op AND 0x1F)"
| "the_index C_COP0 op = unat (drop_bit 21 op AND 0x1F)"
| "the_index C_COP0_BC0 op = unat (drop_bit 16 op AND 0x03)"
| "the_index C_COP0_C0 op = unat (op AND 0x3F)"
| "the_index C_COP1 op = unat (drop_bit 21 op AND 0x1F)"
| "the_index C_COP1_BC1 op = unat (drop_bit 16 op AND 0x1F)"
| "the_index C_COP1_S op = unat (op AND 0x3F)"
| "the_index C_COP1_W op = unat (op AND 0x3F)"

definition getsubclass :: "opclass \<Rightarrow> u32 \<Rightarrow> 'd entry" where
  "getsubclass c op = the_table c ! the_index c op"

text \<open>
  \<open>while (opcode->getsubclass != NULL) opcode = &opcode->getsubclass(op)\<close>: the classes nest at most
  two deep below the main table, which \<open>the_depth\<close> measures.
\<close>

fun the_depth :: "'d entry \<Rightarrow> nat" where
  "the_depth (Op n c f) = 0"
| "the_depth (Sub c) = (if c \<in> {C_SPECIAL, C_REGIMM, C_MMI0, C_MMI1, C_MMI2, C_MMI3, C_COP0_BC0,
     C_COP0_C0, C_COP1_BC1, C_COP1_S, C_COP1_W} then 1 else 2)"

definition decode_step :: "u32 \<Rightarrow> 'd entry \<Rightarrow> 'd entry" where
  "decode_step op e = (case e of Op n c f \<Rightarrow> e | Sub c \<Rightarrow> getsubclass c op)"

definition GetInstruction :: "u32 \<Rightarrow> 'd entry" where
  "GetInstruction op = (decode_step op ^^ 2) (tbl_Standard ! unat (drop_bit 26 op))"

text \<open>The tables cover their indices, and the classes in them are one level further down.\<close>

lemma masked_less:
  "unat ((w :: u32) AND 0x3F) < 64" "unat (w AND 0x1F) < 32" "unat (w AND 0x03) < 4"
  "unat (w AND 63) < 64" "unat (w AND 31) < 32" "unat (w AND 3) < 4"
  using word_and_le1 [of w 63] word_and_le1 [of w 31] word_and_le1 [of w 3]
  by (simp_all add: word_le_nat_alt)

lemma opcode_less: "unat (drop_bit 26 (w :: u32)) < 64"
proof -
  have "unat w < 2 ^ 32"
    using unsigned_less [of w] by simp
  then show ?thesis
    by (simp add: drop_bit_eq_div unat_div less_mult_imp_div_less)
qed

lemma table_length:
  "length tbl_Standard = 64" "length tbl_Special = 64" "length tbl_RegImm = 32"
      "length tbl_MMI = 64" "length tbl_MMI0 = 32" "length tbl_MMI1 = 32"
      "length tbl_MMI2 = 32" "length tbl_MMI3 = 32" "length tbl_COP0 = 32"
      "length tbl_COP0_BC0 = 32" "length tbl_COP0_C0 = 64" "length tbl_COP1 = 32"
      "length tbl_COP1_BC1 = 32" "length tbl_COP1_S = 64" "length tbl_COP1_W = 64"
  by (simp_all add: tbl_Standard_def tbl_Special_def tbl_RegImm_def tbl_MMI_def tbl_MMI0_def tbl_MMI1_def
      tbl_MMI2_def tbl_MMI3_def tbl_COP0_def tbl_COP0_BC0_def tbl_COP0_C0_def tbl_COP1_def
      tbl_COP1_BC1_def tbl_COP1_S_def tbl_COP1_W_def)

lemma the_index_less: "the_index c op < length (the_table c)"
  using less_le_trans [OF masked_less(3) [of "drop_bit 16 op"], of 32]
  by (cases c) (simp_all add: table_length masked_less)

lemma table_depth: "list_all (\<lambda>e. the_depth e < the_depth (Sub c)) (the_table c)"
  by (cases c) (simp_all add: tbl_Standard_def tbl_Special_def tbl_RegImm_def tbl_MMI_def tbl_MMI0_def tbl_MMI1_def
      tbl_MMI2_def tbl_MMI3_def tbl_COP0_def tbl_COP0_BC0_def tbl_COP0_C0_def tbl_COP1_def
      tbl_COP1_BC1_def tbl_COP1_S_def tbl_COP1_W_def
      op_J_def op_JAL_def op_BEQ_def op_BNE_def op_BLEZ_def op_BGTZ_def op_ADDI_def
      op_ADDIU_def op_SLTI_def op_SLTIU_def op_ANDI_def op_ORI_def op_XORI_def op_LUI_def
      op_COP2_def op_Unknown_def op_BEQL_def op_BNEL_def op_BLEZL_def op_BGTZL_def
      op_DADDI_def op_DADDIU_def op_LDL_def op_LDR_def op_LQ_def op_SQ_def op_LB_def op_LH_def
      op_LWL_def op_LW_def op_LBU_def op_LHU_def op_LWR_def op_LWU_def op_SB_def op_SH_def
      op_SWL_def op_SW_def op_SDL_def op_SDR_def op_SWR_def op_CACHE_def op_LWC1_def
      op_PREF_def op_LQC2_def op_LD_def op_SWC1_def op_SQC2_def op_SD_def op_SLL_def
      op_SRL_def op_SRA_def op_SLLV_def op_SRLV_def op_SRAV_def op_JR_def op_JALR_def
      op_MOVZ_def op_MOVN_def op_SYSCALL_def op_BREAK_def op_SYNC_def op_MFHI_def op_MTHI_def
      op_MFLO_def op_MTLO_def op_DSLLV_def op_DSRLV_def op_DSRAV_def op_MULT_def op_MULTU_def
      op_DIV_def op_DIVU_def op_ADD_def op_ADDU_def op_SUB_def op_SUBU_def op_AND_def
      op_OR_def op_XOR_def op_NOR_def op_MFSA_def op_MTSA_def op_SLT_def op_SLTU_def
      op_DADD_def op_DADDU_def op_DSUB_def op_DSUBU_def op_TGE_def op_TGEU_def op_TLT_def
      op_TLTU_def op_TEQ_def op_TNE_def op_DSLL_def op_DSRL_def op_DSRA_def op_DSLL32_def
      op_DSRL32_def op_DSRA32_def op_BLTZ_def op_BGEZ_def op_BLTZL_def op_BGEZL_def
      op_TGEI_def op_TGEIU_def op_TLTI_def op_TLTIU_def op_TEQI_def op_TNEI_def op_BLTZAL_def
      op_BGEZAL_def op_BLTZALL_def op_BGEZALL_def op_MTSAB_def op_MTSAH_def op_MADD_def
      op_MADDU_def op_MMI_Unknown_def op_PLZCW_def op_MFHI1_def op_MTHI1_def op_MFLO1_def
      op_MTLO1_def op_MULT1_def op_MULTU1_def op_DIV1_def op_DIVU1_def op_MADD1_def
      op_MADDU1_def op_PMFHL_def op_PMTHL_def op_PSLLH_def op_PSRLH_def op_PSRAH_def
      op_PSLLW_def op_PSRLW_def op_PSRAW_def op_PADDW_def op_PSUBW_def op_PCGTW_def
      op_PMAXW_def op_PADDH_def op_PSUBH_def op_PCGTH_def op_PMAXH_def op_PADDB_def
      op_PSUBB_def op_PCGTB_def op_PADDSW_def op_PSUBSW_def op_PEXTLW_def op_PPACW_def
      op_PADDSH_def op_PSUBSH_def op_PEXTLH_def op_PPACH_def op_PADDSB_def op_PSUBSB_def
      op_PEXTLB_def op_PPACB_def op_PEXT5_def op_PPAC5_def op_PABSW_def op_PCEQW_def
      op_PMINW_def op_PADSBH_def op_PABSH_def op_PCEQH_def op_PMINH_def op_PCEQB_def
      op_PADDUW_def op_PSUBUW_def op_PEXTUW_def op_PADDUH_def op_PSUBUH_def op_PEXTUH_def
      op_PADDUB_def op_PSUBUB_def op_PEXTUB_def op_QFSRV_def op_PMADDW_def op_PSLLVW_def
      op_PSRLVW_def op_PMSUBW_def op_PMFHI_def op_PMFLO_def op_PINTH_def op_PMULTW_def
      op_PDIVW_def op_PCPYLD_def op_PMADDH_def op_PHMADH_def op_PAND_def op_PXOR_def
      op_PMSUBH_def op_PHMSBH_def op_PEXEH_def op_PREVH_def op_PMULTH_def op_PDIVBW_def
      op_PEXEW_def op_PROT3W_def op_PMADDUW_def op_PSRAVW_def op_PMTHI_def op_PMTLO_def
      op_PINTEH_def op_PMULTUW_def op_PDIVUW_def op_PCPYUD_def op_POR_def op_PNOR_def
      op_PEXCH_def op_PCPYH_def op_PEXCW_def op_MFC0_def op_COP0_Unknown_def op_MTC0_def
      op_BC0F_def op_BC0T_def op_BC0FL_def op_BC0TL_def op_TLBR_def op_TLBWI_def op_TLBWR_def
      op_TLBP_def op_ERET_def op_EI_def op_DI_def op_MFC1_def op_COP1_Unknown_def op_CFC1_def
      op_MTC1_def op_CTC1_def op_BC1F_def op_BC1T_def op_BC1FL_def op_BC1TL_def op_ADD_S_def
      op_SUB_S_def op_MUL_S_def op_DIV_S_def op_SQRT_S_def op_ABS_S_def op_MOV_S_def
      op_NEG_S_def op_RSQRT_S_def op_ADDA_S_def op_SUBA_S_def op_MULA_S_def op_MADD_S_def
      op_MSUB_S_def op_MADDA_S_def op_MSUBA_S_def op_CVT_W_def op_MAX_S_def op_MIN_S_def
      op_C_F_def op_C_EQ_def op_C_LT_def op_C_LE_def op_CVT_S_def)

lemma Standard_depth:
  "length (tbl_Standard :: 'd entry list) = 64"
  "list_all (\<lambda>e. the_depth e \<le> 2) (tbl_Standard :: 'd entry list)"
  by (simp_all add: tbl_Standard_def
      op_J_def op_JAL_def op_BEQ_def op_BNE_def op_BLEZ_def op_BGTZ_def op_ADDI_def
      op_ADDIU_def op_SLTI_def op_SLTIU_def op_ANDI_def op_ORI_def op_XORI_def op_LUI_def
      op_COP2_def op_Unknown_def op_BEQL_def op_BNEL_def op_BLEZL_def op_BGTZL_def
      op_DADDI_def op_DADDIU_def op_LDL_def op_LDR_def op_LQ_def op_SQ_def op_LB_def op_LH_def
      op_LWL_def op_LW_def op_LBU_def op_LHU_def op_LWR_def op_LWU_def op_SB_def op_SH_def
      op_SWL_def op_SW_def op_SDL_def op_SDR_def op_SWR_def op_CACHE_def op_LWC1_def
      op_PREF_def op_LQC2_def op_LD_def op_SWC1_def op_SQC2_def op_SD_def op_SLL_def
      op_SRL_def op_SRA_def op_SLLV_def op_SRLV_def op_SRAV_def op_JR_def op_JALR_def
      op_MOVZ_def op_MOVN_def op_SYSCALL_def op_BREAK_def op_SYNC_def op_MFHI_def op_MTHI_def
      op_MFLO_def op_MTLO_def op_DSLLV_def op_DSRLV_def op_DSRAV_def op_MULT_def op_MULTU_def
      op_DIV_def op_DIVU_def op_ADD_def op_ADDU_def op_SUB_def op_SUBU_def op_AND_def
      op_OR_def op_XOR_def op_NOR_def op_MFSA_def op_MTSA_def op_SLT_def op_SLTU_def
      op_DADD_def op_DADDU_def op_DSUB_def op_DSUBU_def op_TGE_def op_TGEU_def op_TLT_def
      op_TLTU_def op_TEQ_def op_TNE_def op_DSLL_def op_DSRL_def op_DSRA_def op_DSLL32_def
      op_DSRL32_def op_DSRA32_def op_BLTZ_def op_BGEZ_def op_BLTZL_def op_BGEZL_def
      op_TGEI_def op_TGEIU_def op_TLTI_def op_TLTIU_def op_TEQI_def op_TNEI_def op_BLTZAL_def
      op_BGEZAL_def op_BLTZALL_def op_BGEZALL_def op_MTSAB_def op_MTSAH_def op_MADD_def
      op_MADDU_def op_MMI_Unknown_def op_PLZCW_def op_MFHI1_def op_MTHI1_def op_MFLO1_def
      op_MTLO1_def op_MULT1_def op_MULTU1_def op_DIV1_def op_DIVU1_def op_MADD1_def
      op_MADDU1_def op_PMFHL_def op_PMTHL_def op_PSLLH_def op_PSRLH_def op_PSRAH_def
      op_PSLLW_def op_PSRLW_def op_PSRAW_def op_PADDW_def op_PSUBW_def op_PCGTW_def
      op_PMAXW_def op_PADDH_def op_PSUBH_def op_PCGTH_def op_PMAXH_def op_PADDB_def
      op_PSUBB_def op_PCGTB_def op_PADDSW_def op_PSUBSW_def op_PEXTLW_def op_PPACW_def
      op_PADDSH_def op_PSUBSH_def op_PEXTLH_def op_PPACH_def op_PADDSB_def op_PSUBSB_def
      op_PEXTLB_def op_PPACB_def op_PEXT5_def op_PPAC5_def op_PABSW_def op_PCEQW_def
      op_PMINW_def op_PADSBH_def op_PABSH_def op_PCEQH_def op_PMINH_def op_PCEQB_def
      op_PADDUW_def op_PSUBUW_def op_PEXTUW_def op_PADDUH_def op_PSUBUH_def op_PEXTUH_def
      op_PADDUB_def op_PSUBUB_def op_PEXTUB_def op_QFSRV_def op_PMADDW_def op_PSLLVW_def
      op_PSRLVW_def op_PMSUBW_def op_PMFHI_def op_PMFLO_def op_PINTH_def op_PMULTW_def
      op_PDIVW_def op_PCPYLD_def op_PMADDH_def op_PHMADH_def op_PAND_def op_PXOR_def
      op_PMSUBH_def op_PHMSBH_def op_PEXEH_def op_PREVH_def op_PMULTH_def op_PDIVBW_def
      op_PEXEW_def op_PROT3W_def op_PMADDUW_def op_PSRAVW_def op_PMTHI_def op_PMTLO_def
      op_PINTEH_def op_PMULTUW_def op_PDIVUW_def op_PCPYUD_def op_POR_def op_PNOR_def
      op_PEXCH_def op_PCPYH_def op_PEXCW_def op_MFC0_def op_COP0_Unknown_def op_MTC0_def
      op_BC0F_def op_BC0T_def op_BC0FL_def op_BC0TL_def op_TLBR_def op_TLBWI_def op_TLBWR_def
      op_TLBP_def op_ERET_def op_EI_def op_DI_def op_MFC1_def op_COP1_Unknown_def op_CFC1_def
      op_MTC1_def op_CTC1_def op_BC1F_def op_BC1T_def op_BC1FL_def op_BC1TL_def op_ADD_S_def
      op_SUB_S_def op_MUL_S_def op_DIV_S_def op_SQRT_S_def op_ABS_S_def op_MOV_S_def
      op_NEG_S_def op_RSQRT_S_def op_ADDA_S_def op_SUBA_S_def op_MULA_S_def op_MADD_S_def
      op_MSUB_S_def op_MADDA_S_def op_MSUBA_S_def op_CVT_W_def op_MAX_S_def op_MIN_S_def
      op_C_F_def op_C_EQ_def op_C_LT_def op_C_LE_def op_CVT_S_def)

lemma decode_step_depth: "the_depth (decode_step op e) \<le> the_depth e - 1"
proof (cases e)
  case (Sub c)
  then show ?thesis
    using table_depth [of c] the_index_less [of c op]
    by (auto simp: decode_step_def getsubclass_def list_all_length)
qed (simp add: decode_step_def)

lemma depth_0: "the_depth e = 0 \<Longrightarrow> \<exists>n c f. e = Op n c f"
  by (cases e) (simp_all split: if_splits)

lemma GetInstruction_depth: "the_depth (GetInstruction op :: 'd entry) = 0"
proof -
  let ?e = "tbl_Standard ! unat (drop_bit 26 op) :: 'd entry"
  have "the_depth ?e \<le> 2"
    using Standard_depth(2) [where ?'d = 'd] opcode_less [of op]
    by (simp add: list_all_length Standard_depth(1))
  moreover have "the_depth (decode_step op (decode_step op ?e)) \<le> the_depth ?e - 2"
    using decode_step_depth [of op "decode_step op ?e"] decode_step_depth [of op ?e] by linarith
  ultimately show ?thesis
    by (simp add: GetInstruction_def eval_nat_numeral)
qed

text \<open>
  decoding always ends at an instruction: for each of the \<open>2^32\<close> words the loop over the class
  tables stays within the tables and reaches an entry that is not a class, so that every fetched
  word has an interpreter function.
\<close>

theorem decode_total: "\<exists>n c f. (GetInstruction op :: 'd entry) = Op n c f"
  by (rule depth_0) (rule GetInstruction_depth)

section \<open>Execution\<close>

text \<open>
  \<open>execI\<close>: the program counter advances before the fetch, which can raise an exception itself.
\<close>

fun execI :: "nat \<Rightarrow> 'd ee_env \<Rightarrow> 'd eeState \<Rightarrow> (unit, 'd eeState) res" where
  "execI 0 env s = Throw StackOverflow s"
| "execI (Suc n) env s =
     bindR (memRead32 (ee_mem env) (pc s) (s\<lparr>pc := pc s + 4\<rparr>))
       (\<lambda>c s. let s = s\<lparr>code := c\<rparr>
              in case GetInstruction c of
                   Op nm cycles interp \<Rightarrow>
                     interp env (execI n env) (s\<lparr>cpuBlockCycles := cpuBlockCycles s + cycles\<rparr>)
                 | Sub cl \<Rightarrow> Ret () s)"

text \<open>
  The run loop of \<open>intExecute\<close> for \<open>k\<close> instructions: a cancelled instruction resumes the loop (at the
  exception handler), any other error leaves it.
\<close>

primrec intExecute :: "nat \<Rightarrow> nat \<Rightarrow> 'd ee_env \<Rightarrow> 'd eeState \<Rightarrow> (unit, 'd eeState) res" where
  "intExecute 0 n env s = Ret () s"
| "intExecute (Suc k) n env s =
     (case execI n env s of
        Ret u t \<Rightarrow> intExecute k n env t
      | Throw e t \<Rightarrow> if e = CancelInstruction then intExecute k n env t else Throw e t)"

end
