(* ===== verification/EEInv.thy ===== *)
theory EEInv
  imports EEInterp
begin

text \<open>
  The invariant of the EE's register file: register zero stays zero. One lemma per group of
  instructions, then the memory accessors, the event test, the branches and the tables; the theorem
  for the interpreter is in \<open>EEInterpProps\<close>.
\<close>

section \<open>Multimedia instructions\<close>

text \<open>An operation, indexed by lanes, that keeps the zero register while its destination is not it.\<close>

definition keep_r0 :: "(nat \<Rightarrow> 'a cpuRegisters_scheme \<Rightarrow> 'a cpuRegisters_scheme) \<Rightarrow> bool" where
  "keep_r0 f \<longleftrightarrow> (\<forall>n t. r0_zero t \<and> Rd t \<noteq> 0 \<longrightarrow> r0_zero (f n t) \<and> Rd (f n t) \<noteq> 0)"

lemma keep_r0_fold': "keep_r0 f \<Longrightarrow> r0_zero s \<Longrightarrow> Rd s \<noteq> 0 \<Longrightarrow> r0_zero (fold f ns s) \<and> Rd (fold f ns s) \<noteq> 0"
  by (induction ns arbitrary: s) (simp_all add: keep_r0_def)

lemmas keep_r0_fold = keep_r0_fold' [THEN conjunct1] keep_r0_fold' [THEN conjunct2]

lemma r0_wr_Rds: "r0_zero s \<Longrightarrow> Rd s \<noteq> 0 \<Longrightarrow> r0_zero (wr_Rds ivs s)"
proof -
  assume d: "Rd s \<noteq> 0"
  have "r0_zero t \<Longrightarrow> r0_zero (fold (\<lambda>(i, v). wr_gpr (Rd s) i v) ivs t)" for t
    using d by (induction ivs arbitrary: t) (auto simp: r0_zero_wr)
  then show "r0_zero s \<Longrightarrow> r0_zero (wr_Rds ivs s)"
    by (simp add: wr_Rds_def)
qed

lemma r0_LOHI: "r0_zero s \<Longrightarrow> r0_zero (wr_Rd_LOHI s)"
  by (simp add: wr_Rd_LOHI_def r0_wr_Rds Let_def)

lemma r0_PDIVBW_lane: "r0_zero s \<Longrightarrow> r0_zero (PDIVBW_lane n s)"
  by (simp add: PDIVBW_lane_def r0_zero_wr)

lemma r0_PDIVBW [inv_intros]: "r0_zero s \<Longrightarrow> r0_zero (PDIVBW s)"
  by (simp add: PDIVBW_def r0_PDIVBW_lane)

lemma keep_r0_lanes:
  "keep_r0 PSLLH_lane" "keep_r0 PSRLH_lane" "keep_r0 PSRAH_lane" "keep_r0 PSLLW_lane"
  "keep_r0 PSRLW_lane" "keep_r0 PSRAW_lane" "keep_r0 PADDW_lane" "keep_r0 PSUBW_lane"
  "keep_r0 PCGTW_lane" "keep_r0 PMAXW_lane" "keep_r0 PADDH_lane" "keep_r0 PSUBH_lane"
  "keep_r0 PCGTH_lane" "keep_r0 PMAXH_lane" "keep_r0 PADDB_lane" "keep_r0 PSUBB_lane"
  "keep_r0 PCGTB_lane" "keep_r0 PADDSW_lane" "keep_r0 PSUBSW_lane" "keep_r0 PADDSH_lane"
  "keep_r0 PSUBSH_lane" "keep_r0 PADDSB_lane" "keep_r0 PSUBSB_lane" "keep_r0 PEXT5_lane"
  "keep_r0 PPAC5_lane" "keep_r0 PABSW_lane" "keep_r0 PCEQW_lane" "keep_r0 PMINW_lane"
  "keep_r0 PABSH_lane" "keep_r0 PCEQH_lane" "keep_r0 PMINH_lane" "keep_r0 PCEQB_lane"
  "keep_r0 PADDUW_lane" "keep_r0 PSUBUW_lane" "keep_r0 PADDUH_lane" "keep_r0 PSUBUH_lane"
  "keep_r0 PADDUB_lane" "keep_r0 PSUBUB_lane" "keep_r0 PAND_lane" "keep_r0 PXOR_lane"
  "keep_r0 PDIVBW_lane" "keep_r0 POR_lane" "keep_r0 PNOR_lane"
  by (simp_all add: keep_r0_def r0_zero_def GPR_wr_gpr frame_simps Let_def
      PSLLH_lane_def PSRLH_lane_def PSRAH_lane_def PSLLW_lane_def PSRLW_lane_def PSRAW_lane_def
      PADDW_lane_def PSUBW_lane_def PCGTW_lane_def PMAXW_lane_def PADDH_lane_def PSUBH_lane_def
      PCGTH_lane_def PMAXH_lane_def PADDB_lane_def PSUBB_lane_def PCGTB_lane_def PADDSW_lane_def
      PSUBSW_lane_def PADDSH_lane_def PSUBSH_lane_def PADDSB_lane_def PSUBSB_lane_def
      PEXT5_lane_def PPAC5_lane_def PABSW_lane_def PCEQW_lane_def PMINW_lane_def PABSH_lane_def
      PCEQH_lane_def PMINH_lane_def PCEQB_lane_def PADDUW_lane_def PSUBUW_lane_def PADDUH_lane_def
      PSUBUH_lane_def PADDUB_lane_def PSUBUB_lane_def PAND_lane_def PXOR_lane_def PDIVBW_lane_def
      POR_lane_def PNOR_lane_def)

lemma keep_r0_pair_lanes:
  assumes "r0_zero s"
  shows
    "r0_zero (PMADDW_lane i j s)" "r0_zero (PMSUBW_lane i j s)" "r0_zero (PMULTW_lane i j s)"
    "r0_zero (PDIVW_lane i j s)" "r0_zero (PHMADH_LO i j s)" "r0_zero (PHMADH_HI i j s)"
    "r0_zero (PHMSBH_LO i j s)" "r0_zero (PHMSBH_HI i j s)" "r0_zero (PMADDUW_lane i j s)"
    "r0_zero (PMULTUW_lane i j s)" "r0_zero (PDIVUW_lane i j s)"
  using assms by (simp_all add: r0_zero_def GPR_wr_gpr frame_simps Let_def
      PMADDW_lane_def PMSUBW_lane_def PMULTW_lane_def PDIVW_lane_def PHMADH_LO_def PHMADH_HI_def
      PHMSBH_LO_def PHMSBH_HI_def PMADDUW_lane_def PMULTUW_lane_def PDIVUW_lane_def)

lemma r0_MMI_1 [inv_intros]:
  assumes "r0_zero s"
  shows
    "r0_zero (MADD s)" "r0_zero (MADDU s)" "r0_zero (MADD1 s)" "r0_zero (MADDU1 s)"
    "r0_zero (MFHI1 s)" "r0_zero (MFLO1 s)" "r0_zero (MTHI1 s)" "r0_zero (MTLO1 s)"
    "r0_zero (MULT1 s)" "r0_zero (MULTU1 s)" "r0_zero (DIV1 s)" "r0_zero (DIVU1 s)"
    "r0_zero (PLZCW s)" "r0_zero (PMFHL s)" "r0_zero (PMTHL s)" "r0_zero (PSLLH s)"
    "r0_zero (PSRLH s)" "r0_zero (PSRAH s)" "r0_zero (PSLLW s)" "r0_zero (PSRLW s)"
    "r0_zero (PSRAW s)" "r0_zero (PADDW s)" "r0_zero (PSUBW s)" "r0_zero (PCGTW s)"
    "r0_zero (PMAXW s)"
  using assms
  by (simp_all del: fold_simps fold_Nil fold_Cons 
      add: keep_r0_fold keep_r0_lanes keep_r0_pair_lanes r0_wr_Rds r0_LOHI r0_zero_wr frame_simps Let_def
      MADD_def MADDU_def MADD1_def MADDU1_def MFHI1_def MFLO1_def MTHI1_def MTLO1_def MULT1_def
      MULTU1_def DIV1_def DIVU1_def PLZCW_def PMFHL_def PMTHL_def PSLLH_def PSRLH_def PSRAH_def
      PSLLW_def PSRLW_def PSRAW_def PADDW_def PSUBW_def PCGTW_def PMAXW_def)

lemma r0_MMI_2 [inv_intros]:
  assumes "r0_zero s"
  shows
    "r0_zero (PADDH s)" "r0_zero (PSUBH s)" "r0_zero (PCGTH s)" "r0_zero (PMAXH s)"
    "r0_zero (PADDB s)" "r0_zero (PSUBB s)" "r0_zero (PCGTB s)" "r0_zero (PADDSW s)"
    "r0_zero (PSUBSW s)" "r0_zero (PEXTLW s)" "r0_zero (PPACW s)" "r0_zero (PADDSH s)"
    "r0_zero (PSUBSH s)" "r0_zero (PEXTLH s)" "r0_zero (PPACH s)" "r0_zero (PADDSB s)"
    "r0_zero (PSUBSB s)" "r0_zero (PEXTLB s)" "r0_zero (PPACB s)" "r0_zero (PEXT5 s)"
    "r0_zero (PPAC5 s)" "r0_zero (PABSW s)" "r0_zero (PCEQW s)" "r0_zero (PMINW s)"
    "r0_zero (PADSBH s)"
  using assms
  by (simp_all del: fold_simps fold_Nil fold_Cons 
      add: keep_r0_fold keep_r0_lanes keep_r0_pair_lanes r0_wr_Rds r0_LOHI r0_zero_wr frame_simps Let_def
      PADDH_def PSUBH_def PCGTH_def PMAXH_def PADDB_def PSUBB_def PCGTB_def PADDSW_def PSUBSW_def
      PEXTLW_def PPACW_def PADDSH_def PSUBSH_def PEXTLH_def PPACH_def PADDSB_def PSUBSB_def
      PEXTLB_def PPACB_def PEXT5_def PPAC5_def PABSW_def PCEQW_def PMINW_def PADSBH_def)

lemma r0_MMI_3 [inv_intros]:
  assumes "r0_zero s"
  shows
    "r0_zero (PABSH s)" "r0_zero (PCEQH s)" "r0_zero (PMINH s)" "r0_zero (PCEQB s)"
    "r0_zero (PADDUW s)" "r0_zero (PSUBUW s)" "r0_zero (PEXTUW s)" "r0_zero (PADDUH s)"
    "r0_zero (PSUBUH s)" "r0_zero (PEXTUH s)" "r0_zero (PADDUB s)" "r0_zero (PSUBUB s)"
    "r0_zero (PEXTUB s)" "r0_zero (QFSRV s)" "r0_zero (PMADDW s)" "r0_zero (PSLLVW s)"
    "r0_zero (PSRLVW s)" "r0_zero (PMSUBW s)" "r0_zero (PMFHI s)" "r0_zero (PMFLO s)"
    "r0_zero (PINTH s)" "r0_zero (PMULTW s)" "r0_zero (PDIVW s)" "r0_zero (PCPYLD s)"
    "r0_zero (PMADDH s)"
  using assms
  by (simp_all del: fold_simps fold_Nil fold_Cons 
      add: keep_r0_fold keep_r0_lanes keep_r0_pair_lanes r0_wr_Rds r0_LOHI r0_zero_wr frame_simps Let_def
      PABSH_def PCEQH_def PMINH_def PCEQB_def PADDUW_def PSUBUW_def PEXTUW_def PADDUH_def
      PSUBUH_def PEXTUH_def PADDUB_def PSUBUB_def PEXTUB_def QFSRV_def PMADDW_def PSLLVW_def
      PSRLVW_def PMSUBW_def PMFHI_def PMFLO_def PINTH_def PMULTW_def PDIVW_def PCPYLD_def
      PMADDH_def)

lemma r0_MMI_4 [inv_intros]:
  assumes "r0_zero s"
  shows
    "r0_zero (PHMADH s)" "r0_zero (PAND s)" "r0_zero (PXOR s)" "r0_zero (PMSUBH s)"
    "r0_zero (PHMSBH s)" "r0_zero (PEXEH s)" "r0_zero (PREVH s)" "r0_zero (PMULTH s)"
    "r0_zero (PEXEW s)" "r0_zero (PROT3W s)" "r0_zero (PMADDUW s)" "r0_zero (PSRAVW s)"
    "r0_zero (PMTHI s)" "r0_zero (PMTLO s)" "r0_zero (PINTEH s)" "r0_zero (PMULTUW s)"
    "r0_zero (PDIVUW s)" "r0_zero (PCPYUD s)" "r0_zero (POR s)" "r0_zero (PNOR s)"
    "r0_zero (PEXCH s)" "r0_zero (PCPYH s)" "r0_zero (PEXCW s)"
  using assms
  by (simp_all del: fold_simps fold_Nil fold_Cons 
      add: keep_r0_fold keep_r0_lanes keep_r0_pair_lanes r0_wr_Rds r0_LOHI r0_zero_wr frame_simps Let_def
      PHMADH_def PAND_def PXOR_def PMSUBH_def PHMSBH_def PEXEH_def PREVH_def PMULTH_def PEXEW_def
      PROT3W_def PMADDUW_def PSRAVW_def PMTHI_def PMTLO_def PINTEH_def PMULTUW_def PDIVUW_def
      PCPYUD_def POR_def PNOR_def PEXCH_def PCPYH_def PEXCW_def)

section \<open>The instructions of \<open>R5900OpcodeImpl.cpp\<close>\<close>

lemma r0_wr_result: "r0_zero (snd p) \<Longrightarrow> r0_zero (wr_result r p)"
  by (cases p) (simp add: wr_result_def r0_zero_wr split: option.split)

lemma r0_Overflow:
  "r0_zero s \<Longrightarrow> r0_zero (snd (add32_Overflow x y s))" "r0_zero s \<Longrightarrow> r0_zero (snd (add64_Overflow u v s))"
  by (simp_all add: add32_Overflow_def add64_Overflow_def Let_def r0_zero_exc)

lemma r0_fields [simp]:
  "r0_zero (s\<lparr>sa := v\<rparr>) = r0_zero s" "r0_zero (s\<lparr>pc := v\<rparr>) = r0_zero s"
  "r0_zero (s\<lparr>code := v\<rparr>) = r0_zero s" "r0_zero (s\<lparr>branch := v\<rparr>) = r0_zero s"
  "r0_zero (s\<lparr>cycle := v\<rparr>) = r0_zero s" "r0_zero (s\<lparr>g_nextEventCycle := v\<rparr>) = r0_zero s"
  "r0_zero (s\<lparr>interrupt := v\<rparr>) = r0_zero s"
  by (simp_all add: r0_zero_def)

lemma r0_ee_fields [simp]:
  "r0_zero (s\<lparr>vtlbdata := m\<rparr>) = r0_zero s" "r0_zero (s\<lparr>cpuBlockCycles := v\<rparr>) = r0_zero s"
  "r0_zero (s\<lparr>EEsCycle := v\<rparr>) = r0_zero s" "r0_zero (s\<lparr>EEoCycle := v\<rparr>) = r0_zero s"
  "r0_zero (s\<lparr>iopEventAction := b\<rparr>) = r0_zero s" "r0_zero (s\<lparr>eeEventTestIsActive := b\<rparr>) = r0_zero s"
  by (simp_all add: r0_zero_def)

lemma r0_ops_1 [inv_intros]:
  assumes "r0_zero s"
  shows
    "r0_zero (ADDI s)" "r0_zero (ADDIU s)" "r0_zero (DADDI s)" "r0_zero (DADDIU s)"
    "r0_zero (ANDI s)" "r0_zero (ORI s)" "r0_zero (XORI s)" "r0_zero (SLTI s)" "r0_zero (SLTIU s)"
    "r0_zero (ADD s)" "r0_zero (DADD s)" "r0_zero (SUB s)" "r0_zero (DSUB s)" "r0_zero (ADDU s)"
    "r0_zero (DADDU s)" "r0_zero (SUBU s)" "r0_zero (DSUBU s)" "r0_zero (opAND s)"
    "r0_zero (opOR s)" "r0_zero (opXOR s)" "r0_zero (opNOR s)" "r0_zero (SLT s)"
    "r0_zero (SLTU s)" "r0_zero (DIV s)" "r0_zero (DIVU s)"
  using assms
  by (simp_all add: r0_wr_result r0_Overflow r0_zero_wr r0_zero_exc frame_simps Let_def
      ADDI_def ADDIU_def DADDI_def DADDIU_def ANDI_def ORI_def XORI_def SLTI_def SLTIU_def ADD_def
      DADD_def SUB_def DSUB_def ADDU_def DADDU_def SUBU_def DSUBU_def opAND_def opOR_def opXOR_def
      opNOR_def SLT_def SLTU_def DIV_def DIVU_def)

lemma r0_ops_2 [inv_intros]:
  assumes "r0_zero s"
  shows
    "r0_zero (MULT s)" "r0_zero (MULTU s)" "r0_zero (LUI s)" "r0_zero (MFHI s)" "r0_zero (MFLO s)"
    "r0_zero (MTHI s)" "r0_zero (MTLO s)" "r0_zero (SRA s)" "r0_zero (SRL s)" "r0_zero (SLL s)"
    "r0_zero (DSLL s)" "r0_zero (DSLL32 s)" "r0_zero (DSRA s)" "r0_zero (DSRA32 s)"
    "r0_zero (DSRL s)" "r0_zero (DSRL32 s)" "r0_zero (SLLV s)" "r0_zero (SRAV s)"
    "r0_zero (SRLV s)" "r0_zero (DSLLV s)" "r0_zero (DSRAV s)" "r0_zero (DSRLV s)"
    "r0_zero (MOVZ s)" "r0_zero (MOVN s)" "r0_zero (BREAK s)"
  using assms
  by (simp_all add: r0_wr_result r0_Overflow r0_zero_wr r0_zero_exc frame_simps Let_def
      MULT_def MULTU_def LUI_def MFHI_def MFLO_def MTHI_def MTLO_def SRA_def SRL_def SLL_def
      DSLL_def DSLL32_def DSRA_def DSRA32_def DSRL_def DSRL32_def SLLV_def SRAV_def SRLV_def
      DSLLV_def DSRAV_def DSRLV_def MOVZ_def MOVN_def BREAK_def)

lemma r0_ops_3 [inv_intros]:
  assumes "r0_zero s"
  shows
    "r0_zero (MFSA s)" "r0_zero (MTSA s)" "r0_zero (SYNC s)" "r0_zero (PREF s)" "r0_zero (trap s)"
    "r0_zero (TGE s)" "r0_zero (TGEU s)" "r0_zero (TLT s)" "r0_zero (TLTU s)" "r0_zero (TEQ s)"
    "r0_zero (TNE s)" "r0_zero (TGEI s)" "r0_zero (TLTI s)" "r0_zero (TEQI s)" "r0_zero (TNEI s)"
    "r0_zero (TGEIU s)" "r0_zero (TLTIU s)" "r0_zero (MTSAB s)" "r0_zero (MTSAH s)"
  using assms
  by (simp_all add: r0_wr_result r0_Overflow r0_zero_wr r0_zero_exc frame_simps Let_def
      MFSA_def MTSA_def SYNC_def PREF_def trap_def TGE_def TGEU_def TLT_def TLTU_def TEQ_def
      TNE_def TGEI_def TLTI_def TEQI_def TNEI_def TGEIU_def TLTIU_def MTSAB_def MTSAH_def)

section \<open>Memory access\<close>

definition handlers_ok :: "'d RWFT \<Rightarrow> bool" where
  "handlers_ok env \<longleftrightarrow>
     (\<forall>w h a v s. r0_zero s \<longrightarrow> holdsR r0_zero (rd_handler env w h a v s) \<and>
                               holdsR r0_zero (wr_handler env w h a v s))"

lemma r0_vtlb:
  assumes "handlers_ok env" "r0_zero s"
  shows "holdsR r0_zero (vtlb_memRead env w a v s)" "holdsR r0_zero (vtlb_memWrite env w a v s)"
  using assms
  by (simp_all add: vtlb_memRead_def vtlb_memWrite_def handler_read_def handler_write_def vtlb_Miss_def
      cpuTlbMissR_def cpuTlbMissW_def handlers_ok_def r0_zero_exc split: vtarget.split)

lemma r0_mem:
  assumes "handlers_ok env" "r0_zero s"
  shows "holdsR r0_zero (memRead8 env a s)" "holdsR r0_zero (memRead16 env a s)"
    "holdsR r0_zero (memRead32 env a s)" "holdsR r0_zero (memRead64 env a u s)"
    "holdsR r0_zero (memRead128 env a q s)" "holdsR r0_zero (memWrite8 env a b s)"
    "holdsR r0_zero (memWrite16 env a h s)" "holdsR r0_zero (memWrite32 env a w s)"
    "holdsR r0_zero (memWrite64 env a d s)" "holdsR r0_zero (memWrite128 env a q s)"
  using r0_vtlb [OF assms]
  by (auto simp: memRead8_def memRead16_def memRead32_def memRead64_def memRead128_def memWrite8_def
      memWrite16_def memWrite32_def memWrite64_def memWrite128_def intro!: holdsR_bindR)

lemma r0_load_Rt: "r0_zero s \<Longrightarrow> holdsR r0_zero (load_Rt v s)"
  by (simp add: load_Rt_def r0_zero_wr)

lemma r0_loads:
  assumes "handlers_ok env" "r0_zero s"
  shows "holdsR r0_zero (LB env s)" "holdsR r0_zero (LBU env s)" "holdsR r0_zero (LH env s)"
    "holdsR r0_zero (LHU env s)" "holdsR r0_zero (LW env s)" "holdsR r0_zero (LWU env s)"
    "holdsR r0_zero (LWL env s)" "holdsR r0_zero (LWR env s)" "holdsR r0_zero (LD env s)"
    "holdsR r0_zero (LDL env u s)" "holdsR r0_zero (LDR env u s)" "holdsR r0_zero (LQ env s)"
    "holdsR r0_zero (LWC1 env s)"
proof -
  note i = holdsR_bindR [OF r0_mem(1) [OF assms]] holdsR_bindR [OF r0_mem(2) [OF assms]]
    holdsR_bindR [OF r0_mem(3) [OF assms]] holdsR_bindR [OF r0_mem(4) [OF assms]]
    holdsR_bindR [OF r0_mem(5) [OF assms]]
  show "holdsR r0_zero (LB env s)" "holdsR r0_zero (LBU env s)" "holdsR r0_zero (LH env s)"
    "holdsR r0_zero (LHU env s)" "holdsR r0_zero (LW env s)" "holdsR r0_zero (LWU env s)"
    "holdsR r0_zero (LWL env s)" "holdsR r0_zero (LD env s)"
    "holdsR r0_zero (LDL env u s)" "holdsR r0_zero (LDR env u s)"
    using assms(2)
    by (auto simp: LB_def LBU_def LH_def LHU_def LW_def LWU_def LWL_def LD_def LDL_def LDR_def
        r0_load_Rt intro!: i)
  show "holdsR r0_zero (LWR env s)"
    using assms(2) by (auto simp: LWR_def Let_def r0_zero_wr intro!: i)
  show "holdsR r0_zero (LQ env s)" "holdsR r0_zero (LWC1 env s)"
    using assms(2) by (auto simp: LQ_def LWC1_def Let_def r0_zero_def wr_fpr_def intro!: i)
qed

lemma r0_stores:
  assumes "handlers_ok env" "r0_zero s"
  shows "holdsR r0_zero (SB env s)" "holdsR r0_zero (SH env s)" "holdsR r0_zero (SW env s)"
    "holdsR r0_zero (SWL env s)" "holdsR r0_zero (SWR env s)" "holdsR r0_zero (opSD env s)"
    "holdsR r0_zero (SDL env u s)" "holdsR r0_zero (SDR env u s)" "holdsR r0_zero (SQ env s)"
    "holdsR r0_zero (SWC1 env s)"
proof -
  note i = holdsR_bindR [OF r0_mem(3) [OF assms]] holdsR_bindR [OF r0_mem(4) [OF assms]]
  note w = r0_mem [OF assms(1)]
  show "holdsR r0_zero (SB env s)" "holdsR r0_zero (SH env s)" "holdsR r0_zero (SW env s)"
    "holdsR r0_zero (opSD env s)" "holdsR r0_zero (SQ env s)" "holdsR r0_zero (SWC1 env s)"
    using assms(2) by (simp_all add: SB_def SH_def SW_def opSD_def SQ_def SWC1_def Let_def w)
  show "holdsR r0_zero (SWL env s)" "holdsR r0_zero (SWR env s)" "holdsR r0_zero (SDL env u s)"
    "holdsR r0_zero (SDR env u s)"
    using w by (auto simp: SWL_def SWR_def SDL_def SDR_def intro!: i)
qed

lemma r0_SYSCALL:
  "(\<And>k t. r0_zero t \<Longrightarrow> holdsR r0_zero (hle k t)) \<Longrightarrow> r0_zero s \<Longrightarrow> holdsR r0_zero (SYSCALL hle s)"
  by (auto simp: SYSCALL_def r0_zero_exc intro!: holdsR_bindR)

section \<open>The environment and the branches\<close>

definition env_ok :: "'d ee_env \<Rightarrow> bool" where
  "env_ok env \<longleftrightarrow> handlers_ok (ee_mem env) \<and>
     (\<forall>s. r0_zero s \<longrightarrow>
        r0_zero (snd (ee_ints env s)) \<and> r0_zero (rcntUpdate env s) \<and> r0_zero (rcntUpdate_hScanline env s) \<and>
        (\<forall>n. r0_zero (dma_callback env n s)) \<and> r0_zero (iopEventTest env s) \<and>
        (\<forall>c. r0_zero (snd (iop_ExecuteBlock env c s))) \<and> r0_zero (vu0_ExecuteBlock env s) \<and>
        (\<forall>k. holdsR r0_zero (ee_hle env k s)) \<and> (\<forall>n. holdsR r0_zero (ee_ext env n s)))"

lemma r0_TESTINT:
  "(\<And>t. r0_zero t \<Longrightarrow> r0_zero (cb t)) \<Longrightarrow> r0_zero s \<Longrightarrow> r0_zero (TESTINT n cb s)"
  by (simp add: TESTINT_def r0_zero_exc cpuClearInt_def)

lemma r0_TESTINTs:
  "(\<And>n t. r0_zero t \<Longrightarrow> r0_zero (cb n t)) \<Longrightarrow> r0_zero s \<Longrightarrow> r0_zero (fold (\<lambda>n. TESTINT n (cb n)) ns s)"
  by (induction ns arbitrary: s) (simp_all add: r0_TESTINT)

lemma r0_cpuTestInterrupts:
  "(\<And>n t. r0_zero t \<Longrightarrow> r0_zero (cb n t)) \<Longrightarrow> r0_zero s \<Longrightarrow> r0_zero (cpuTestInterrupts d cb s)"
  using r0_TESTINTs [of cb] by (simp add: cpuTestInterrupts_def Let_def del: fold_simps fold_Cons)

lemma r0_event_test [inv_intros]:
  assumes "env_ok env" "r0_zero s"
  shows "r0_zero (cpuEventTest_Shared env s)"
proof -
  define s1 where "s1 = cpuTestExceptions (fst (ee_ints env (s\<lparr>eeEventTestIsActive := True,
    g_nextEventCycle := cycle s + 3072\<rparr>))) (snd (ee_ints env (s\<lparr>eeEventTestIsActive := True,
    g_nextEventCycle := cycle s + 3072\<rparr>)))"
  have 1: "r0_zero s1"
    using assms by (simp add: s1_def cpuTestExceptions_def env_ok_def r0_zero_exc)
  define s2 where "s2 = (if cpuTestCycle (nextsCounter env s1) (nextCounter env s1) s1
    then COP0_UpdatePCCR (rcntUpdate env s1) else s1)"
  have 2: "r0_zero s2"
    using assms(1) 1 by (simp add: s2_def env_ok_def r0_zero_cop0)
  define s3 where "s3 = cpuTestTIMR (rcntUpdate_hScanline env s2)"
  have 3: "r0_zero s3"
    using assms(1) 2 by (simp add: s3_def env_ok_def r0_zero_cop0)
  define s4 where "s4 = cpuTestInterrupts (dmac_off env s3) (dma_callback env) s3"
  have 4: "r0_zero s4"
    using assms(1) 3 by (simp add: s4_def env_ok_def r0_cpuTestInterrupts)
  define s5 where "s5 = s4\<lparr>EEsCycle := EEsCycle s4 + (cycle s4 - EEoCycle s4), EEoCycle := cycle s4\<rparr>"
  define s6 where "s6 = iopEventTest env (if sint (EEsCycle s5) > 0 then s5\<lparr>iopEventAction := True\<rparr> else s5)"
  have 6: "r0_zero s6"
    using assms(1) 4 by (simp add: s6_def s5_def env_ok_def)
  define s7 where "s7 = (if iopEventAction s6
    then let (c, s) = iop_ExecuteBlock env (EEsCycle s6) s6 in s\<lparr>EEsCycle := c, iopEventAction := False\<rparr>
    else s6)"
  have 7: "r0_zero s7"
    using assms(1) 6 by (simp add: s7_def env_ok_def case_prod_beta)
  define s8 where "s8 = vu0_ExecuteBlock env s7"
  have 8: "r0_zero s8"
    using assms(1) 7 by (simp add: s8_def env_ok_def)
  have "cpuEventTest_Shared env s =
    (let s = (if sint (EEsCycle s8) > 192 then cpuSetNextEventDelta 48 s8 else s8);
         s = cpuSetNextEventDelta (iop_until_event env s * 8 - EEsCycle s) s;
         s = cpuSetNextEvent (hsync_sCycle env s) (hsync_CycleT env s) s;
         s = cpuSetNextEvent (nextsCounter env s) (nextCounter env s) s
     in s\<lparr>eeEventTestIsActive := False\<rparr>)"
    unfolding cpuEventTest_Shared_def Let_def case_prod_beta s8_def s7_def s6_def s5_def s4_def s3_def
      s2_def s1_def by (rule refl)
  then show ?thesis
    using 8 by (simp add: Let_def r0_zero_exc)
qed

lemma r0_doBranch:
  assumes "env_ok env" "\<And>t. r0_zero t \<Longrightarrow> holdsR r0_zero (rec t)" "r0_zero s"
  shows "holdsR r0_zero (doBranch env rec a s)" "holdsR r0_zero (intDoBranch env rec a s)"
proof -
  have sh: "holdsR r0_zero (doBranch_shared rec a s)"
    using assms(2) [of "s\<lparr>branch := 1\<rparr>"] assms(3)
    by (auto simp: doBranch_shared_def intro!: holdsR_bindR)
  have st: "holdsR r0_zero (Ret () (intEventTest env (add_block_cycles t)))" if "r0_zero t" for t
    using that r0_event_test [OF assms(1)] by (simp add: add_block_cycles_def)
  show "holdsR r0_zero (doBranch env rec a s)" "holdsR r0_zero (intDoBranch env rec a s)"
    unfolding doBranch_def intDoBranch_def using sh st by (auto intro!: holdsR_bindR)
qed

lemma r0_SetLink: "r0_zero s \<Longrightarrow> r \<noteq> 0 \<Longrightarrow> r0_zero (SetLink r s)"
  by (simp add: SetLink_def r0_zero_wr)

section \<open>The opcode tables\<close>

text \<open>The condition on a table entry, under which \<open>execI\<close> keeps the invariant.\<close>

definition op_ok :: "'d ee_env \<Rightarrow> 'd entry \<Rightarrow> bool" where
  "op_ok env e \<longleftrightarrow>
     (case e of Op n c f \<Rightarrow>
        \<forall>rec s. (\<forall>t. r0_zero t \<longrightarrow> holdsR r0_zero (rec t)) \<longrightarrow> r0_zero s \<longrightarrow> holdsR r0_zero (f env rec s)
      | Sub c \<Rightarrow> True)"

lemma op_ok_Op [simp]:
  "op_ok env (Op n c f) \<longleftrightarrow>
     (\<forall>rec s. (\<forall>t. r0_zero t \<longrightarrow> holdsR r0_zero (rec t)) \<longrightarrow> r0_zero s \<longrightarrow> holdsR r0_zero (f env rec s))"
  "op_ok env (Sub cl)"
  by (simp_all add: op_ok_def)

lemma ops_ok_1:
  assumes "env_ok env"
  shows
    "op_ok env op_ADDI" "op_ok env op_ADDIU" "op_ok env op_SLTI" "op_ok env op_SLTIU"
    "op_ok env op_ANDI" "op_ok env op_ORI" "op_ok env op_XORI" "op_ok env op_LUI"
    "op_ok env op_Unknown" "op_ok env op_DADDI" "op_ok env op_DADDIU" "op_ok env op_LDL"
    "op_ok env op_LDR" "op_ok env op_LQ" "op_ok env op_SQ" "op_ok env op_LB" "op_ok env op_LH"
    "op_ok env op_LWL" "op_ok env op_LW" "op_ok env op_LBU" "op_ok env op_LHU" "op_ok env op_LWR"
    "op_ok env op_LWU" "op_ok env op_SB" "op_ok env op_SH" "op_ok env op_SWL" "op_ok env op_SW"
    "op_ok env op_SDL" "op_ok env op_SDR" "op_ok env op_SWR"
  using assms
  by (simp_all add: reg_op_def mem_op_def env_ok_def inv_intros r0_loads r0_stores r0_SYSCALL
      op_ADDI_def op_ADDIU_def op_SLTI_def op_SLTIU_def op_ANDI_def op_ORI_def op_XORI_def
      op_LUI_def op_Unknown_def op_DADDI_def op_DADDIU_def op_LDL_def op_LDR_def op_LQ_def
      op_SQ_def op_LB_def op_LH_def op_LWL_def op_LW_def op_LBU_def op_LHU_def op_LWR_def
      op_LWU_def op_SB_def op_SH_def op_SWL_def op_SW_def op_SDL_def op_SDR_def op_SWR_def)

lemma ops_ok_2:
  assumes "env_ok env"
  shows
    "op_ok env op_CACHE" "op_ok env op_LWC1" "op_ok env op_PREF" "op_ok env op_LQC2"
    "op_ok env op_LD" "op_ok env op_SWC1" "op_ok env op_SQC2" "op_ok env op_SD" "op_ok env op_SLL"
    "op_ok env op_SRL" "op_ok env op_SRA" "op_ok env op_SLLV" "op_ok env op_SRLV"
    "op_ok env op_SRAV" "op_ok env op_MOVZ" "op_ok env op_MOVN" "op_ok env op_SYSCALL"
    "op_ok env op_BREAK" "op_ok env op_SYNC" "op_ok env op_MFHI" "op_ok env op_MTHI"
    "op_ok env op_MFLO" "op_ok env op_MTLO" "op_ok env op_DSLLV" "op_ok env op_DSRLV"
    "op_ok env op_DSRAV" "op_ok env op_MULT" "op_ok env op_MULTU" "op_ok env op_DIV"
    "op_ok env op_DIVU"
  using assms
  by (simp_all add: reg_op_def mem_op_def env_ok_def inv_intros r0_loads r0_stores r0_SYSCALL
      op_CACHE_def op_LWC1_def op_PREF_def op_LQC2_def op_LD_def op_SWC1_def op_SQC2_def op_SD_def
      op_SLL_def op_SRL_def op_SRA_def op_SLLV_def op_SRLV_def op_SRAV_def op_MOVZ_def op_MOVN_def
      op_SYSCALL_def op_BREAK_def op_SYNC_def op_MFHI_def op_MTHI_def op_MFLO_def op_MTLO_def
      op_DSLLV_def op_DSRLV_def op_DSRAV_def op_MULT_def op_MULTU_def op_DIV_def op_DIVU_def)

lemma ops_ok_3:
  assumes "env_ok env"
  shows
    "op_ok env op_ADD" "op_ok env op_ADDU" "op_ok env op_SUB" "op_ok env op_SUBU"
    "op_ok env op_AND" "op_ok env op_OR" "op_ok env op_XOR" "op_ok env op_NOR" "op_ok env op_MFSA"
    "op_ok env op_MTSA" "op_ok env op_SLT" "op_ok env op_SLTU" "op_ok env op_DADD"
    "op_ok env op_DADDU" "op_ok env op_DSUB" "op_ok env op_DSUBU" "op_ok env op_TGE"
    "op_ok env op_TGEU" "op_ok env op_TLT" "op_ok env op_TLTU" "op_ok env op_TEQ"
    "op_ok env op_TNE" "op_ok env op_DSLL" "op_ok env op_DSRL" "op_ok env op_DSRA"
    "op_ok env op_DSLL32" "op_ok env op_DSRL32" "op_ok env op_DSRA32" "op_ok env op_TGEI"
    "op_ok env op_TGEIU"
  using assms
  by (simp_all add: reg_op_def mem_op_def env_ok_def inv_intros r0_loads r0_stores r0_SYSCALL
      op_ADD_def op_ADDU_def op_SUB_def op_SUBU_def op_AND_def op_OR_def op_XOR_def op_NOR_def
      op_MFSA_def op_MTSA_def op_SLT_def op_SLTU_def op_DADD_def op_DADDU_def op_DSUB_def
      op_DSUBU_def op_TGE_def op_TGEU_def op_TLT_def op_TLTU_def op_TEQ_def op_TNE_def op_DSLL_def
      op_DSRL_def op_DSRA_def op_DSLL32_def op_DSRL32_def op_DSRA32_def op_TGEI_def op_TGEIU_def)

lemma ops_ok_4:
  assumes "env_ok env"
  shows
    "op_ok env op_TLTI" "op_ok env op_TLTIU" "op_ok env op_TEQI" "op_ok env op_TNEI"
    "op_ok env op_MTSAB" "op_ok env op_MTSAH" "op_ok env op_MADD" "op_ok env op_MADDU"
    "op_ok env op_MMI_Unknown" "op_ok env op_PLZCW" "op_ok env op_MFHI1" "op_ok env op_MTHI1"
    "op_ok env op_MFLO1" "op_ok env op_MTLO1" "op_ok env op_MULT1" "op_ok env op_MULTU1"
    "op_ok env op_DIV1" "op_ok env op_DIVU1" "op_ok env op_MADD1" "op_ok env op_MADDU1"
    "op_ok env op_PMFHL" "op_ok env op_PMTHL" "op_ok env op_PSLLH" "op_ok env op_PSRLH"
    "op_ok env op_PSRAH" "op_ok env op_PSLLW" "op_ok env op_PSRLW" "op_ok env op_PSRAW"
    "op_ok env op_PADDW" "op_ok env op_PSUBW"
  using assms
  by (simp_all add: reg_op_def mem_op_def env_ok_def inv_intros r0_loads r0_stores r0_SYSCALL
      op_TLTI_def op_TLTIU_def op_TEQI_def op_TNEI_def op_MTSAB_def op_MTSAH_def op_MADD_def
      op_MADDU_def op_MMI_Unknown_def op_PLZCW_def op_MFHI1_def op_MTHI1_def op_MFLO1_def
      op_MTLO1_def op_MULT1_def op_MULTU1_def op_DIV1_def op_DIVU1_def op_MADD1_def op_MADDU1_def
      op_PMFHL_def op_PMTHL_def op_PSLLH_def op_PSRLH_def op_PSRAH_def op_PSLLW_def op_PSRLW_def
      op_PSRAW_def op_PADDW_def op_PSUBW_def)

lemma ops_ok_5:
  assumes "env_ok env"
  shows
    "op_ok env op_PCGTW" "op_ok env op_PMAXW" "op_ok env op_PADDH" "op_ok env op_PSUBH"
    "op_ok env op_PCGTH" "op_ok env op_PMAXH" "op_ok env op_PADDB" "op_ok env op_PSUBB"
    "op_ok env op_PCGTB" "op_ok env op_PADDSW" "op_ok env op_PSUBSW" "op_ok env op_PEXTLW"
    "op_ok env op_PPACW" "op_ok env op_PADDSH" "op_ok env op_PSUBSH" "op_ok env op_PEXTLH"
    "op_ok env op_PPACH" "op_ok env op_PADDSB" "op_ok env op_PSUBSB" "op_ok env op_PEXTLB"
    "op_ok env op_PPACB" "op_ok env op_PEXT5" "op_ok env op_PPAC5" "op_ok env op_PABSW"
    "op_ok env op_PCEQW" "op_ok env op_PMINW" "op_ok env op_PADSBH" "op_ok env op_PABSH"
    "op_ok env op_PCEQH" "op_ok env op_PMINH"
  using assms
  by (simp_all add: reg_op_def mem_op_def env_ok_def inv_intros r0_loads r0_stores r0_SYSCALL
      op_PCGTW_def op_PMAXW_def op_PADDH_def op_PSUBH_def op_PCGTH_def op_PMAXH_def op_PADDB_def
      op_PSUBB_def op_PCGTB_def op_PADDSW_def op_PSUBSW_def op_PEXTLW_def op_PPACW_def
      op_PADDSH_def op_PSUBSH_def op_PEXTLH_def op_PPACH_def op_PADDSB_def op_PSUBSB_def
      op_PEXTLB_def op_PPACB_def op_PEXT5_def op_PPAC5_def op_PABSW_def op_PCEQW_def op_PMINW_def
      op_PADSBH_def op_PABSH_def op_PCEQH_def op_PMINH_def)

lemma ops_ok_6:
  assumes "env_ok env"
  shows
    "op_ok env op_PCEQB" "op_ok env op_PADDUW" "op_ok env op_PSUBUW" "op_ok env op_PEXTUW"
    "op_ok env op_PADDUH" "op_ok env op_PSUBUH" "op_ok env op_PEXTUH" "op_ok env op_PADDUB"
    "op_ok env op_PSUBUB" "op_ok env op_PEXTUB" "op_ok env op_QFSRV" "op_ok env op_PMADDW"
    "op_ok env op_PSLLVW" "op_ok env op_PSRLVW" "op_ok env op_PMSUBW" "op_ok env op_PMFHI"
    "op_ok env op_PMFLO" "op_ok env op_PINTH" "op_ok env op_PMULTW" "op_ok env op_PDIVW"
    "op_ok env op_PCPYLD" "op_ok env op_PMADDH" "op_ok env op_PHMADH" "op_ok env op_PAND"
    "op_ok env op_PXOR" "op_ok env op_PMSUBH" "op_ok env op_PHMSBH" "op_ok env op_PEXEH"
    "op_ok env op_PREVH" "op_ok env op_PMULTH"
  using assms
  by (simp_all add: reg_op_def mem_op_def env_ok_def inv_intros r0_loads r0_stores r0_SYSCALL
      op_PCEQB_def op_PADDUW_def op_PSUBUW_def op_PEXTUW_def op_PADDUH_def op_PSUBUH_def
      op_PEXTUH_def op_PADDUB_def op_PSUBUB_def op_PEXTUB_def op_QFSRV_def op_PMADDW_def
      op_PSLLVW_def op_PSRLVW_def op_PMSUBW_def op_PMFHI_def op_PMFLO_def op_PINTH_def
      op_PMULTW_def op_PDIVW_def op_PCPYLD_def op_PMADDH_def op_PHMADH_def op_PAND_def op_PXOR_def
      op_PMSUBH_def op_PHMSBH_def op_PEXEH_def op_PREVH_def op_PMULTH_def)

lemma ops_ok_7:
  assumes "env_ok env"
  shows
    "op_ok env op_PDIVBW" "op_ok env op_PEXEW" "op_ok env op_PROT3W" "op_ok env op_PMADDUW"
    "op_ok env op_PSRAVW" "op_ok env op_PMTHI" "op_ok env op_PMTLO" "op_ok env op_PINTEH"
    "op_ok env op_PMULTUW" "op_ok env op_PDIVUW" "op_ok env op_PCPYUD" "op_ok env op_POR"
    "op_ok env op_PNOR" "op_ok env op_PEXCH" "op_ok env op_PCPYH" "op_ok env op_PEXCW"
    "op_ok env op_MFC0" "op_ok env op_COP0_Unknown" "op_ok env op_MTC0" "op_ok env op_TLBR"
    "op_ok env op_TLBWI" "op_ok env op_TLBWR" "op_ok env op_TLBP" "op_ok env op_ERET"
    "op_ok env op_EI" "op_ok env op_DI" "op_ok env op_MFC1" "op_ok env op_COP1_Unknown"
    "op_ok env op_CFC1" "op_ok env op_MTC1"
  using assms
  by (simp_all add: reg_op_def mem_op_def env_ok_def inv_intros r0_loads r0_stores r0_SYSCALL
      op_PDIVBW_def op_PEXEW_def op_PROT3W_def op_PMADDUW_def op_PSRAVW_def op_PMTHI_def
      op_PMTLO_def op_PINTEH_def op_PMULTUW_def op_PDIVUW_def op_PCPYUD_def op_POR_def op_PNOR_def
      op_PEXCH_def op_PCPYH_def op_PEXCW_def op_MFC0_def op_COP0_Unknown_def op_MTC0_def
      op_TLBR_def op_TLBWI_def op_TLBWR_def op_TLBP_def op_ERET_def op_EI_def op_DI_def
      op_MFC1_def op_COP1_Unknown_def op_CFC1_def op_MTC1_def)

lemma ops_ok_8:
  assumes "env_ok env"
  shows
    "op_ok env op_CTC1" "op_ok env op_ADD_S" "op_ok env op_SUB_S" "op_ok env op_MUL_S"
    "op_ok env op_DIV_S" "op_ok env op_SQRT_S" "op_ok env op_ABS_S" "op_ok env op_MOV_S"
    "op_ok env op_NEG_S" "op_ok env op_RSQRT_S" "op_ok env op_ADDA_S" "op_ok env op_SUBA_S"
    "op_ok env op_MULA_S" "op_ok env op_MADD_S" "op_ok env op_MSUB_S" "op_ok env op_MADDA_S"
    "op_ok env op_MSUBA_S" "op_ok env op_CVT_W" "op_ok env op_MAX_S" "op_ok env op_MIN_S"
    "op_ok env op_C_F" "op_ok env op_C_EQ" "op_ok env op_C_LT" "op_ok env op_C_LE"
    "op_ok env op_CVT_S"
  using assms
  by (simp_all add: reg_op_def mem_op_def env_ok_def inv_intros r0_loads r0_stores r0_SYSCALL
      op_CTC1_def op_ADD_S_def op_SUB_S_def op_MUL_S_def op_DIV_S_def op_SQRT_S_def op_ABS_S_def
      op_MOV_S_def op_NEG_S_def op_RSQRT_S_def op_ADDA_S_def op_SUBA_S_def op_MULA_S_def
      op_MADD_S_def op_MSUB_S_def op_MADDA_S_def op_MSUBA_S_def op_CVT_W_def op_MAX_S_def
      op_MIN_S_def op_C_F_def op_C_EQ_def op_C_LT_def op_C_LE_def op_CVT_S_def)

lemma ops_ok_9:
  assumes "env_ok env"
  shows
    "op_ok env op_J" "op_ok env op_JAL" "op_ok env op_BEQ" "op_ok env op_BNE" "op_ok env op_BLEZ"
    "op_ok env op_BGTZ" "op_ok env op_COP2" "op_ok env op_BEQL" "op_ok env op_BNEL"
    "op_ok env op_BLEZL" "op_ok env op_BGTZL" "op_ok env op_JR" "op_ok env op_JALR"
    "op_ok env op_BLTZ" "op_ok env op_BGEZ" "op_ok env op_BLTZL" "op_ok env op_BGEZL"
    "op_ok env op_BLTZAL" "op_ok env op_BGEZAL" "op_ok env op_BLTZALL" "op_ok env op_BGEZALL"
    "op_ok env op_BC0F" "op_ok env op_BC0T" "op_ok env op_BC0FL" "op_ok env op_BC0TL"
    "op_ok env op_BC1F" "op_ok env op_BC1T" "op_ok env op_BC1FL" "op_ok env op_BC1TL"
  using assms r0_event_test [OF assms]
  by (simp_all add: r0_doBranch [OF assms] r0_SetLink Let_def COP2_BC2_def BC2F_def BC2T_def
      BC2FL_def BC2TL_def env_ok_def
      op_J_def J_def op_JAL_def JAL_def op_BEQ_def BEQ_def op_BNE_def BNE_def op_BLEZ_def BLEZ_def
      op_BGTZ_def BGTZ_def op_COP2_def COP2_def op_BEQL_def BEQL_def op_BNEL_def BNEL_def
      op_BLEZL_def BLEZL_def op_BGTZL_def BGTZL_def op_JR_def JR_def op_JALR_def JALR_def
      op_BLTZ_def BLTZ_def op_BGEZ_def BGEZ_def op_BLTZL_def BLTZL_def op_BGEZL_def BGEZL_def
      op_BLTZAL_def BLTZAL_def op_BGEZAL_def BGEZAL_def op_BLTZALL_def BLTZALL_def
      op_BGEZALL_def BGEZALL_def op_BC0F_def BC0F_def op_BC0T_def BC0T_def op_BC0FL_def BC0FL_def
      op_BC0TL_def BC0TL_def op_BC1F_def BC1F_def op_BC1T_def BC1T_def op_BC1FL_def BC1FL_def
      op_BC1TL_def BC1TL_def)

lemmas ops_ok =
  ops_ok_1 ops_ok_2 ops_ok_3 ops_ok_4 ops_ok_5 ops_ok_6 ops_ok_7 ops_ok_8 ops_ok_9

lemma tables_ok: "env_ok env \<Longrightarrow> list_all (op_ok env) (the_table c)"
  by (cases c) (simp_all add: tbl_Special_def tbl_RegImm_def tbl_MMI_def tbl_MMI0_def tbl_MMI1_def tbl_MMI2_def tbl_MMI3_def tbl_COP0_def tbl_COP0_BC0_def tbl_COP0_C0_def tbl_COP1_def tbl_COP1_BC1_def tbl_COP1_S_def tbl_COP1_W_def ops_ok)

lemma Standard_ok: "env_ok env \<Longrightarrow> list_all (op_ok env) tbl_Standard"
  by (simp add: tbl_Standard_def ops_ok)

section \<open>The nesting depth\<close>

text \<open>
  \<open>more_depth r q\<close>: the call \<open>q\<close> has at least the stack of \<open>r\<close>. Instructions other than branches
  do not run a delay slot; branches run the one call.
\<close>

definition overflowed :: "('v, 's) res \<Rightarrow> bool" where
  "overflowed r \<longleftrightarrow> (case r of Ret v s \<Rightarrow> False | Throw e s \<Rightarrow> e = StackOverflow)"

lemma overflowed_simps [simp]:
  "\<not> overflowed (Ret v s)" "overflowed (Throw e s) \<longleftrightarrow> e = StackOverflow"
  by (simp_all add: overflowed_def)

definition more_depth :: "('s \<Rightarrow> ('v, 's) res) \<Rightarrow> ('s \<Rightarrow> ('v, 's) res) \<Rightarrow> bool" where
  "more_depth r q \<longleftrightarrow> (\<forall>t. \<not> overflowed (r t) \<longrightarrow> q t = r t)"

definition op_plain :: "'d ee_env \<Rightarrow> 'd entry \<Rightarrow> bool" where
  "op_plain env e \<longleftrightarrow> (case e of Op n c f \<Rightarrow> \<forall>r q s. f env r s = f env q s | Sub c \<Rightarrow> True)"

definition op_mono :: "'d ee_env \<Rightarrow> 'd entry \<Rightarrow> bool" where
  "op_mono env e \<longleftrightarrow>
     (case e of Op n c f \<Rightarrow> \<forall>r q. more_depth r q \<longrightarrow> more_depth (f env r) (f env q) | Sub c \<Rightarrow> True)"

lemma mono_const: "more_depth f f"
  by (simp add: more_depth_def)

lemma plain_mono: "op_plain env e \<Longrightarrow> op_mono env e"
  unfolding op_plain_def op_mono_def more_depth_def
  by (auto split: entry.split)

lemma mono_Sub: "op_mono env (Sub c)"
  by (simp add: op_mono_def)

lemma mono_bindR:
  assumes "more_depth r q" "\<not> overflowed (bindR (r s) f)"
  shows "q s = r s"
  using assms by (cases "r s") (auto simp: more_depth_def overflowed_def)

lemma mono_doBranch:
  assumes "more_depth r q"
  shows "\<not> overflowed (doBranch env r a s) \<Longrightarrow> doBranch env q a s = doBranch env r a s"
    "\<not> overflowed (intDoBranch env r a s) \<Longrightarrow> intDoBranch env q a s = intDoBranch env r a s"
  unfolding doBranch_def intDoBranch_def doBranch_shared_def bindR_assoc
  by (simp_all add: mono_bindR [OF assms])

lemma ops_plain_1:
  "op_plain env op_ADDI" "op_plain env op_ADDIU" "op_plain env op_SLTI" "op_plain env op_SLTIU"
  "op_plain env op_ANDI" "op_plain env op_ORI" "op_plain env op_XORI" "op_plain env op_LUI"
  "op_plain env op_Unknown" "op_plain env op_DADDI" "op_plain env op_DADDIU" "op_plain env op_LDL"
  "op_plain env op_LDR" "op_plain env op_LQ" "op_plain env op_SQ" "op_plain env op_LB"
  "op_plain env op_LH" "op_plain env op_LWL" "op_plain env op_LW" "op_plain env op_LBU"
  "op_plain env op_LHU" "op_plain env op_LWR" "op_plain env op_LWU" "op_plain env op_SB"
  "op_plain env op_SH" "op_plain env op_SWL" "op_plain env op_SW" "op_plain env op_SDL"
  "op_plain env op_SDR" "op_plain env op_SWR" "op_plain env op_CACHE" "op_plain env op_LWC1"
  "op_plain env op_PREF" "op_plain env op_LQC2" "op_plain env op_LD" "op_plain env op_SWC1"
  "op_plain env op_SQC2" "op_plain env op_SD" "op_plain env op_SLL" "op_plain env op_SRL"
  "op_plain env op_SRA" "op_plain env op_SLLV" "op_plain env op_SRLV" "op_plain env op_SRAV"
  "op_plain env op_MOVZ" "op_plain env op_MOVN" "op_plain env op_SYSCALL" "op_plain env op_BREAK"
  "op_plain env op_SYNC" "op_plain env op_MFHI" "op_plain env op_MTHI" "op_plain env op_MFLO"
  "op_plain env op_MTLO" "op_plain env op_DSLLV" "op_plain env op_DSRLV" "op_plain env op_DSRAV"
  "op_plain env op_MULT" "op_plain env op_MULTU" "op_plain env op_DIV" "op_plain env op_DIVU"
  by (simp_all add: op_plain_def reg_op_def mem_op_def
      op_ADDI_def op_ADDIU_def op_SLTI_def op_SLTIU_def op_ANDI_def op_ORI_def op_XORI_def
      op_LUI_def op_Unknown_def op_DADDI_def op_DADDIU_def op_LDL_def op_LDR_def op_LQ_def
      op_SQ_def op_LB_def op_LH_def op_LWL_def op_LW_def op_LBU_def op_LHU_def op_LWR_def
      op_LWU_def op_SB_def op_SH_def op_SWL_def op_SW_def op_SDL_def op_SDR_def op_SWR_def
      op_CACHE_def op_LWC1_def op_PREF_def op_LQC2_def op_LD_def op_SWC1_def op_SQC2_def op_SD_def
      op_SLL_def op_SRL_def op_SRA_def op_SLLV_def op_SRLV_def op_SRAV_def op_MOVZ_def op_MOVN_def
      op_SYSCALL_def op_BREAK_def op_SYNC_def op_MFHI_def op_MTHI_def op_MFLO_def op_MTLO_def
      op_DSLLV_def op_DSRLV_def op_DSRAV_def op_MULT_def op_MULTU_def op_DIV_def op_DIVU_def)

lemma ops_plain_2:
  "op_plain env op_ADD" "op_plain env op_ADDU" "op_plain env op_SUB" "op_plain env op_SUBU"
  "op_plain env op_AND" "op_plain env op_OR" "op_plain env op_XOR" "op_plain env op_NOR"
  "op_plain env op_MFSA" "op_plain env op_MTSA" "op_plain env op_SLT" "op_plain env op_SLTU"
  "op_plain env op_DADD" "op_plain env op_DADDU" "op_plain env op_DSUB" "op_plain env op_DSUBU"
  "op_plain env op_TGE" "op_plain env op_TGEU" "op_plain env op_TLT" "op_plain env op_TLTU"
  "op_plain env op_TEQ" "op_plain env op_TNE" "op_plain env op_DSLL" "op_plain env op_DSRL"
  "op_plain env op_DSRA" "op_plain env op_DSLL32" "op_plain env op_DSRL32"
  "op_plain env op_DSRA32" "op_plain env op_TGEI" "op_plain env op_TGEIU" "op_plain env op_TLTI"
  "op_plain env op_TLTIU" "op_plain env op_TEQI" "op_plain env op_TNEI" "op_plain env op_MTSAB"
  "op_plain env op_MTSAH" "op_plain env op_MADD" "op_plain env op_MADDU"
  "op_plain env op_MMI_Unknown" "op_plain env op_PLZCW" "op_plain env op_MFHI1"
  "op_plain env op_MTHI1" "op_plain env op_MFLO1" "op_plain env op_MTLO1" "op_plain env op_MULT1"
  "op_plain env op_MULTU1" "op_plain env op_DIV1" "op_plain env op_DIVU1" "op_plain env op_MADD1"
  "op_plain env op_MADDU1" "op_plain env op_PMFHL" "op_plain env op_PMTHL" "op_plain env op_PSLLH"
  "op_plain env op_PSRLH" "op_plain env op_PSRAH" "op_plain env op_PSLLW" "op_plain env op_PSRLW"
  "op_plain env op_PSRAW" "op_plain env op_PADDW" "op_plain env op_PSUBW"
  by (simp_all add: op_plain_def reg_op_def mem_op_def
      op_ADD_def op_ADDU_def op_SUB_def op_SUBU_def op_AND_def op_OR_def op_XOR_def op_NOR_def
      op_MFSA_def op_MTSA_def op_SLT_def op_SLTU_def op_DADD_def op_DADDU_def op_DSUB_def
      op_DSUBU_def op_TGE_def op_TGEU_def op_TLT_def op_TLTU_def op_TEQ_def op_TNE_def op_DSLL_def
      op_DSRL_def op_DSRA_def op_DSLL32_def op_DSRL32_def op_DSRA32_def op_TGEI_def op_TGEIU_def
      op_TLTI_def op_TLTIU_def op_TEQI_def op_TNEI_def op_MTSAB_def op_MTSAH_def op_MADD_def
      op_MADDU_def op_MMI_Unknown_def op_PLZCW_def op_MFHI1_def op_MTHI1_def op_MFLO1_def
      op_MTLO1_def op_MULT1_def op_MULTU1_def op_DIV1_def op_DIVU1_def op_MADD1_def op_MADDU1_def
      op_PMFHL_def op_PMTHL_def op_PSLLH_def op_PSRLH_def op_PSRAH_def op_PSLLW_def op_PSRLW_def
      op_PSRAW_def op_PADDW_def op_PSUBW_def)

lemma ops_plain_3:
  "op_plain env op_PCGTW" "op_plain env op_PMAXW" "op_plain env op_PADDH" "op_plain env op_PSUBH"
  "op_plain env op_PCGTH" "op_plain env op_PMAXH" "op_plain env op_PADDB" "op_plain env op_PSUBB"
  "op_plain env op_PCGTB" "op_plain env op_PADDSW" "op_plain env op_PSUBSW"
  "op_plain env op_PEXTLW" "op_plain env op_PPACW" "op_plain env op_PADDSH"
  "op_plain env op_PSUBSH" "op_plain env op_PEXTLH" "op_plain env op_PPACH"
  "op_plain env op_PADDSB" "op_plain env op_PSUBSB" "op_plain env op_PEXTLB"
  "op_plain env op_PPACB" "op_plain env op_PEXT5" "op_plain env op_PPAC5" "op_plain env op_PABSW"
  "op_plain env op_PCEQW" "op_plain env op_PMINW" "op_plain env op_PADSBH" "op_plain env op_PABSH"
  "op_plain env op_PCEQH" "op_plain env op_PMINH" "op_plain env op_PCEQB" "op_plain env op_PADDUW"
  "op_plain env op_PSUBUW" "op_plain env op_PEXTUW" "op_plain env op_PADDUH"
  "op_plain env op_PSUBUH" "op_plain env op_PEXTUH" "op_plain env op_PADDUB"
  "op_plain env op_PSUBUB" "op_plain env op_PEXTUB" "op_plain env op_QFSRV"
  "op_plain env op_PMADDW" "op_plain env op_PSLLVW" "op_plain env op_PSRLVW"
  "op_plain env op_PMSUBW" "op_plain env op_PMFHI" "op_plain env op_PMFLO" "op_plain env op_PINTH"
  "op_plain env op_PMULTW" "op_plain env op_PDIVW" "op_plain env op_PCPYLD"
  "op_plain env op_PMADDH" "op_plain env op_PHMADH" "op_plain env op_PAND" "op_plain env op_PXOR"
  "op_plain env op_PMSUBH" "op_plain env op_PHMSBH" "op_plain env op_PEXEH"
  "op_plain env op_PREVH" "op_plain env op_PMULTH"
  by (simp_all add: op_plain_def reg_op_def mem_op_def
      op_PCGTW_def op_PMAXW_def op_PADDH_def op_PSUBH_def op_PCGTH_def op_PMAXH_def op_PADDB_def
      op_PSUBB_def op_PCGTB_def op_PADDSW_def op_PSUBSW_def op_PEXTLW_def op_PPACW_def
      op_PADDSH_def op_PSUBSH_def op_PEXTLH_def op_PPACH_def op_PADDSB_def op_PSUBSB_def
      op_PEXTLB_def op_PPACB_def op_PEXT5_def op_PPAC5_def op_PABSW_def op_PCEQW_def op_PMINW_def
      op_PADSBH_def op_PABSH_def op_PCEQH_def op_PMINH_def op_PCEQB_def op_PADDUW_def
      op_PSUBUW_def op_PEXTUW_def op_PADDUH_def op_PSUBUH_def op_PEXTUH_def op_PADDUB_def
      op_PSUBUB_def op_PEXTUB_def op_QFSRV_def op_PMADDW_def op_PSLLVW_def op_PSRLVW_def
      op_PMSUBW_def op_PMFHI_def op_PMFLO_def op_PINTH_def op_PMULTW_def op_PDIVW_def
      op_PCPYLD_def op_PMADDH_def op_PHMADH_def op_PAND_def op_PXOR_def op_PMSUBH_def
      op_PHMSBH_def op_PEXEH_def op_PREVH_def op_PMULTH_def)

lemma ops_plain_4:
  "op_plain env op_PDIVBW" "op_plain env op_PEXEW" "op_plain env op_PROT3W"
  "op_plain env op_PMADDUW" "op_plain env op_PSRAVW" "op_plain env op_PMTHI"
  "op_plain env op_PMTLO" "op_plain env op_PINTEH" "op_plain env op_PMULTUW"
  "op_plain env op_PDIVUW" "op_plain env op_PCPYUD" "op_plain env op_POR" "op_plain env op_PNOR"
  "op_plain env op_PEXCH" "op_plain env op_PCPYH" "op_plain env op_PEXCW" "op_plain env op_MFC0"
  "op_plain env op_COP0_Unknown" "op_plain env op_MTC0" "op_plain env op_TLBR"
  "op_plain env op_TLBWI" "op_plain env op_TLBWR" "op_plain env op_TLBP" "op_plain env op_ERET"
  "op_plain env op_EI" "op_plain env op_DI" "op_plain env op_MFC1" "op_plain env op_COP1_Unknown"
  "op_plain env op_CFC1" "op_plain env op_MTC1" "op_plain env op_CTC1" "op_plain env op_ADD_S"
  "op_plain env op_SUB_S" "op_plain env op_MUL_S" "op_plain env op_DIV_S" "op_plain env op_SQRT_S"
  "op_plain env op_ABS_S" "op_plain env op_MOV_S" "op_plain env op_NEG_S"
  "op_plain env op_RSQRT_S" "op_plain env op_ADDA_S" "op_plain env op_SUBA_S"
  "op_plain env op_MULA_S" "op_plain env op_MADD_S" "op_plain env op_MSUB_S"
  "op_plain env op_MADDA_S" "op_plain env op_MSUBA_S" "op_plain env op_CVT_W"
  "op_plain env op_MAX_S" "op_plain env op_MIN_S" "op_plain env op_C_F" "op_plain env op_C_EQ"
  "op_plain env op_C_LT" "op_plain env op_C_LE" "op_plain env op_CVT_S"
  by (simp_all add: op_plain_def reg_op_def mem_op_def
      op_PDIVBW_def op_PEXEW_def op_PROT3W_def op_PMADDUW_def op_PSRAVW_def op_PMTHI_def
      op_PMTLO_def op_PINTEH_def op_PMULTUW_def op_PDIVUW_def op_PCPYUD_def op_POR_def op_PNOR_def
      op_PEXCH_def op_PCPYH_def op_PEXCW_def op_MFC0_def op_COP0_Unknown_def op_MTC0_def
      op_TLBR_def op_TLBWI_def op_TLBWR_def op_TLBP_def op_ERET_def op_EI_def op_DI_def
      op_MFC1_def op_COP1_Unknown_def op_CFC1_def op_MTC1_def op_CTC1_def op_ADD_S_def
      op_SUB_S_def op_MUL_S_def op_DIV_S_def op_SQRT_S_def op_ABS_S_def op_MOV_S_def op_NEG_S_def
      op_RSQRT_S_def op_ADDA_S_def op_SUBA_S_def op_MULA_S_def op_MADD_S_def op_MSUB_S_def
      op_MADDA_S_def op_MSUBA_S_def op_CVT_W_def op_MAX_S_def op_MIN_S_def op_C_F_def op_C_EQ_def
      op_C_LT_def op_C_LE_def op_CVT_S_def)

lemma ops_branch_mono:
  "op_mono env op_J" "op_mono env op_JAL" "op_mono env op_BEQ" "op_mono env op_BNE"
  "op_mono env op_BLEZ" "op_mono env op_BGTZ" "op_mono env op_COP2" "op_mono env op_BEQL"
  "op_mono env op_BNEL" "op_mono env op_BLEZL" "op_mono env op_BGTZL" "op_mono env op_JR"
  "op_mono env op_JALR" "op_mono env op_BLTZ" "op_mono env op_BGEZ" "op_mono env op_BLTZL"
  "op_mono env op_BGEZL" "op_mono env op_BLTZAL" "op_mono env op_BGEZAL" "op_mono env op_BLTZALL"
  "op_mono env op_BGEZALL" "op_mono env op_BC0F" "op_mono env op_BC0T" "op_mono env op_BC0FL"
  "op_mono env op_BC0TL" "op_mono env op_BC1F" "op_mono env op_BC1T" "op_mono env op_BC1FL"
  "op_mono env op_BC1TL"
  by (simp_all add: op_mono_def more_depth_def mono_doBranch [unfolded more_depth_def] mono_const Let_def COP2_BC2_def BC2F_def BC2T_def
      BC2FL_def BC2TL_def
      op_J_def J_def op_JAL_def JAL_def op_BEQ_def BEQ_def op_BNE_def BNE_def op_BLEZ_def BLEZ_def
      op_BGTZ_def BGTZ_def op_COP2_def COP2_def op_BEQL_def BEQL_def op_BNEL_def BNEL_def
      op_BLEZL_def BLEZL_def op_BGTZL_def BGTZL_def op_JR_def JR_def op_JALR_def JALR_def
      op_BLTZ_def BLTZ_def op_BGEZ_def BGEZ_def op_BLTZL_def BLTZL_def op_BGEZL_def BGEZL_def
      op_BLTZAL_def BLTZAL_def op_BGEZAL_def BGEZAL_def op_BLTZALL_def BLTZALL_def
      op_BGEZALL_def BGEZALL_def op_BC0F_def BC0F_def op_BC0T_def BC0T_def op_BC0FL_def BC0FL_def
      op_BC0TL_def BC0TL_def op_BC1F_def BC1F_def op_BC1T_def BC1T_def op_BC1FL_def BC1FL_def
      op_BC1TL_def BC1TL_def)

lemmas ops_mono =
  ops_plain_1 [THEN plain_mono] ops_plain_2 [THEN plain_mono] ops_plain_3 [THEN plain_mono]
  ops_plain_4 [THEN plain_mono] ops_branch_mono

lemma tables_mono: "list_all (op_mono env) (the_table c)"
  by (cases c) (simp_all add: tbl_Special_def tbl_RegImm_def tbl_MMI_def tbl_MMI0_def tbl_MMI1_def tbl_MMI2_def tbl_MMI3_def tbl_COP0_def tbl_COP0_BC0_def tbl_COP0_C0_def tbl_COP1_def tbl_COP1_BC1_def tbl_COP1_S_def tbl_COP1_W_def ops_mono mono_Sub)

lemma Standard_mono: "list_all (op_mono env) tbl_Standard"
  by (simp add: tbl_Standard_def ops_mono mono_Sub)

section \<open>Decoded instructions\<close>

text \<open>What holds of every table entry holds of the decoded instruction.\<close>

lemma GetInstruction_all:
  assumes t: "\<And>c. list_all P (the_table c)" and s: "list_all P (tbl_Standard :: 'd entry list)"
  shows "P (GetInstruction op :: 'd entry)"
proof -
  let ?e = "tbl_Standard ! unat (drop_bit 26 op) :: 'd entry"
  have step: "P e \<Longrightarrow> P (decode_step op e)" for e
    using t the_index_less by (auto simp: decode_step_def getsubclass_def list_all_length split: entry.split)
  have "P ?e"
    using s opcode_less [of op] by (simp add: list_all_length Standard_depth(1))
  then show ?thesis
    by (simp add: GetInstruction_def eval_nat_numeral step)
qed

end
