(* ===== verification/EEInterpProps.thy ===== *)
theory EEInterpProps
  imports EEInv
begin

text \<open>
  Properties of the EE interpreter as a whole: register zero, the nesting of delay slots, and
  exceptions in delay slots.
\<close>

section \<open>Register zero\<close>

lemma r0_execI:
  assumes "env_ok env"
  shows "r0_zero s \<Longrightarrow> holdsR r0_zero (execI n env s)"
proof (induction n arbitrary: s)
  case 0
  then show ?case by simp
next
  case (Suc n)
  have fetch: "holdsR r0_zero (memRead32 (ee_mem env) (pc s) (s\<lparr>pc := pc s + 4\<rparr>))"
    using assms Suc.prems by (intro r0_mem) (simp_all add: env_ok_def)
  have step: "holdsR r0_zero (f env (execI n env) (t\<lparr>code := c, cpuBlockCycles := b\<rparr>))"
    if "r0_zero t" "GetInstruction c = Op nm cy f" for t c nm cy f b
    using GetInstruction_all [where P = "op_ok env" and op = c, OF tables_ok [OF assms] Standard_ok [OF assms]]
      Suc.IH that by (simp add: op_ok_def)
  show ?case
    by (simp, rule holdsR_bindR [OF fetch]) (auto simp: Let_def step split: entry.split)
qed

lemma r0_intExecute:
  assumes "env_ok env"
  shows "r0_zero s \<Longrightarrow> holdsR r0_zero (intExecute k n env s)"
proof (induction k arbitrary: s)
  case 0
  then show ?case by simp
next
  case (Suc k)
  have "holdsR r0_zero (execI n env s)"
    using r0_execI [OF assms Suc.prems] .
  then show ?case
    using Suc.IH by (auto split: res.split)
qed

text \<open>
  C14: register zero: from any state where it is zero (as after reset), whatever program the EE
  runs, for any number of instructions, it stays zero in the state that is reached, whether the run
  ends normally or by an error. The environment is only assumed to leave the register alone.
\<close>

theorem zero_register:
  assumes "env_ok env" "GPR s 0 = 0"
  shows "GPR (res_state (intExecute k n env s)) 0 = 0"
  using r0_intExecute [of env s k n] assms by (simp add: holdsR_def r0_zero_def)

text \<open>An environment whose devices do nothing.\<close>

definition quiet_env :: "unit ee_env" where
  "quiet_env =
     \<lparr>ee_mem = \<lparr>rd_handler = (\<lambda>_ _ _ old s. Ret old s), wr_handler = (\<lambda>_ _ _ _ s. Ret () s)\<rparr>,
      ee_fpu = sample_host, Scratch = 0, ee_undef = (\<lambda>_. 0), ee_ints = (\<lambda>s. (0, s)),
      nextsCounter = cycle, nextCounter = (\<lambda>_. 1000), hsync_sCycle = cycle, hsync_CycleT = (\<lambda>_. 1000),
      rcntUpdate = (\<lambda>s. s), rcntUpdate_hScanline = (\<lambda>s. s), dmac_off = (\<lambda>_. True),
      dma_callback = (\<lambda>_ s. s), iopEventTest = (\<lambda>s. s), iop_ExecuteBlock = (\<lambda>c s. (0, s)),
      iop_until_event = (\<lambda>_. 100), vu0_ExecuteBlock = (\<lambda>s. s), dmac_CIS = (\<lambda>_. 0),
      dmac_CPC = (\<lambda>_. 0), vif1_VEW = (\<lambda>_. False), ee_hle = (\<lambda>_ s. Ret () s), ee_ext = (\<lambda>_ s. Ret () s)\<rparr>"

lemma quiet_env_ok: "env_ok quiet_env"
  by (simp add: env_ok_def quiet_env_def handlers_ok_def)

definition reset_state :: "unit eeState" where
  "reset_state = ee_state cpuReset_regs (eeMemory_map sample_map) (\<lambda>_. zero_tlbs) ()"

theorem zero_register_witness:
  "GPR (res_state (intExecute 1000 8 quiet_env reset_state)) 0 = 0"
  using zero_register [OF quiet_env_ok, of reset_state 1000 8]
  by (simp add: reset_state_def cpuReset_regs_def)

section \<open>The nesting of delay slots\<close>

lemma execI_more_depth: "more_depth (execI n env) (execI (Suc n) env)"
proof (induction n)
  case 0
  then show ?case by (simp add: more_depth_def)
next
  case (Suc n)
  have "\<not> overflowed (f env (execI n env) t) \<Longrightarrow> f env (execI (Suc n) env) t = f env (execI n env) t"
    if "GetInstruction c = Op nm cy f" for c nm cy f t
    using GetInstruction_all [where P = "op_mono env" and op = c, OF tables_mono Standard_mono] Suc that
    by (simp add: op_mono_def more_depth_def)
  then have "execI (Suc (Suc n)) env t = execI (Suc n) env t" if "\<not> overflowed (execI (Suc n) env t)" for t
    using that by (cases "memRead32 (ee_mem env) (pc t) (t\<lparr>pc := pc t + 4\<rparr>)")
      (auto simp: Let_def simp del: execI.simps simp: execI.simps(2) split: entry.split entry.split_asm)
  then show ?case
    unfolding more_depth_def by blast
qed

lemma execI_depth_le:
  assumes "m \<le> n" "\<not> overflowed (execI m env s)"
  shows "execI n env s = execI m env s"
  using assms
proof (induction rule: dec_induct)
  case (step k)
  then show ?case
    using execI_more_depth [of k env] by (auto simp: more_depth_def)
qed simp


section \<open>Exceptions in delay slots\<close>

lemma restore_bit31: "bit a 31 \<Longrightarrow> (a AND 0x7fffffff) OR 0x80000000 = (a :: u32)"
  "\<not> bit a 31 \<Longrightarrow> a AND 0x7fffffff = (a :: u32)"
proof -
  have "n < 31 \<or> n = 31" if "n < LENGTH(32)" for n
    using that by auto
  then show "bit a 31 \<Longrightarrow> (a AND 0x7fffffff) OR 0x80000000 = a" "\<not> bit a 31 \<Longrightarrow> a AND 0x7fffffff = a"
    by - (rule bit_word_eqI, auto simp: bit_and_iff bit_or_iff bit_sign bit_low31
      simp del: bit_numeral_word_iff len_num1 len_bit0 len_bit1)+
qed

lemma miss_read:
  assumes "vtlb_lookup (vtlbdata s) a = unmapped_target a"
  shows "memRead32 env a s = Throw CancelInstruction (cpuTlbMissR a (branch s) s)"
  using assms restore_bit31 [of a]
  by (simp add: memRead32_def vtlb_memRead_def unmapped_target_def handler_read_def vtlb_Miss_def)


text \<open>Memory that holds one word, the one at \<open>0x1000\<close> where execution is.\<close>

definition one_word :: "u8 \<Rightarrow> unit eeState" where
  "one_word b = ee_state (cpuReset_regs\<lparr>CP0 := (\<lambda>_. 0), pc := 0x1000\<rparr>)
     \<lparr>pmap = (\<lambda>_. 0), vmap = (\<lambda>_. 0), ppmap = None, host = (\<lambda>a. if a = 0x1000 then b else 0)\<rparr>
     (\<lambda>_. zero_tlbs) ()"

lemma fetch_one_word:
  assumes "vtlbdata t = vtlbdata (one_word b)"
  shows "memRead32 env 0x1000 t = Ret (ucast b) t"
proof -
  have "le_read 4 (\<lambda>a. if a = 0x1000 then b else 0) 0x1000 = (ucast b :: u128)"
    by (simp only: numeral_nat One_nat_def le_read.simps) simp
  moreover have "(ucast (ucast b :: u128) :: u32) = ucast b"
    by (rule bit_word_eqI) (auto simp: bit_simps)
  ultimately show ?thesis
    by (simp add: memRead32_def vtlb_memRead_def assms one_word_def vtlb_lookup_def wbytes_def)
qed

lemma decode_SLL: "GetInstruction 0 = op_SLL"
  unfolding GetInstruction_def numeral_2_eq_2
  by (simp add: tbl_Standard_def decode_step_def getsubclass_def tbl_Special_def op_SLL_def)

lemma decode_BREAK: "GetInstruction 0xD = op_BREAK"
  unfolding GetInstruction_def numeral_2_eq_2
  by (simp add: tbl_Standard_def decode_step_def getsubclass_def tbl_Special_def op_BREAK_def)



text \<open>
  the overflow exceptions differ: they are raised with the program counter already past the
  instruction, so \<open>EPC\<close> names the next instruction, where that of \<open>BREAK\<close> at the same place names
  the \<open>BREAK\<close> itself.
\<close>

theorem overflow_EPC:
  assumes "\<not> Status_EXL (CP0 s CP0_Status)" "\<not> Status_ERL (CP0 s CP0_Status)" "branch s = 0"
    and "\<not> (- (2 ^ 31) \<le> SL 0 (rRs s) + SL 0 (rRt s) \<and> SL 0 (rRs s) + SL 0 (rRt s) < 2 ^ 31)"
  shows "CP0 (ADD s) CP0_EPC = pc s \<and> CP0 (BREAK s) CP0_EPC = pc s - 4"
proof -
  have "add32_Overflow (lo32 (UD 0 (rRs s))) (lo32 (UD 0 (rRt s))) s = (None, cpuException 0x30 (branch s) s)"
    using add32_overflow_iff [of "lo32 (UD 0 (rRs s))" "lo32 (UD 0 (rRt s))"] assms(4)
    by (simp add: add32_Overflow_def Let_def UL_UD)
  then have "ADD s = cpuException 0x30 0 s"
    by (simp add: ADD_def wr_result_def assms(3))
  then show ?thesis
    using cpuException_entry [of s "0x30" 0] cpuException_entry [of "s\<lparr>pc := pc s - 4\<rparr>" "0x24" 0] assms
    by (simp add: BREAK_def)
qed

theorem overflow_EPC_witness:
  "CP0 (ADD ((one_word 0)\<lparr>code := encode3 2 1 1, GPR := (\<lambda>_. 0)(1 := 0x7fffffff)\<rparr>)) CP0_EPC = 0x1000"
  using overflow_EPC [of "(one_word 0)\<lparr>code := encode3 2 1 1, GPR := (\<lambda>_. 0)(1 := 0x7fffffff)\<rparr>"]
  by (simp add: one_word_def cpuReset_regs_def lane_def)

end
