(* ===== verification/IopMem.thy ===== *)
theory IopMem
  imports EEExc Bytes
begin

text \<open>
  The IOP's state and its memory (\<open>pcsx2/R3000A.h\<close>, \<open>pcsx2/IopMem.h\<close>, \<open>pcsx2/IopMem.cpp\<close>): the
  look-up tables built by \<open>iopMemoryReserve::Reset\<close> and the accessors \<open>iopMemRead8\<close> to
  \<open>iopMemWrite32\<close> with the SBUS registers shared with the EE.

  The handlers of the hardware pages (\<open>pcsx2/ps2/Iop\<close>) and of the DEV9 and SPU2 plugins are the
  parameter \<open>iop_env\<close>, functions of the whole state. \<open>psxCpu->Clear\<close> is empty for the interpreter.
\<close>

section \<open>State\<close>

text \<open>
  The host memory that IOP addresses reach: the structure \<open>IopVM_MemoryAllocMess\<close> (\<open>Main\<close> at offset
  0, \<open>P\<close> at 0x200000, \<open>Sif\<close> at 0x210000), \<open>iopHw\<close>, \<open>eeHw\<close> and the EE's two ROM areas. A host
  pointer is an area with an offset, and a null pointer is \<open>None\<close>.
\<close>

datatype iop_area = IopVM | IopHw | EeHw | EeROM | EeROM1

type_synonym host_ptr = "iop_area \<times> u32"

text \<open>
  \<open>struct psxRegisters\<close>, the statics of \<open>R3000A.cpp\<close> and \<open>R3000AInterpreter.cpp\<close>, memory, and what
  of the EE the IOP touches: its registers (for \<open>cpuSetNextEventDelta\<close>), \<open>eeEventTestIsActive\<close>.
  \<open>psxMemWLUT\<close> holds the write table from index 0 and the read table from index 0x2000.
\<close>

record 'd iopState =
  iGPR :: "reg \<Rightarrow> u32"
  iHi :: u32
  iLo :: u32
  iCP0 :: "reg \<Rightarrow> u32"
  iCP2D :: "reg \<Rightarrow> u32"
  iCP2C :: "reg \<Rightarrow> u32"
  ipc :: u32
  icode :: u32
  icycle :: u32
  iinterrupt :: u32
  isCycle :: "reg \<Rightarrow> u32"
  ieCycle :: "reg \<Rightarrow> u32"
  g_iopNextEventCycle :: u32
  slice :: iop_slice
  iEventAction :: bool
  iEventTestIsActive :: bool
  psxNextCounter :: u32
  psxNextsCounter :: u32
  iopIsDelaySlot :: bool
  branch2 :: bool
  branchPC :: u32
  areas :: "iop_area \<Rightarrow> bytes"
  psxMemWLUT :: "nat \<Rightarrow> host_ptr option"
  eeRegs :: cpuRegisters
  eeTestActive :: bool
  idev :: 'd

abbreviation (input) iStatus :: reg where "iStatus \<equiv> 12"
abbreviation (input) iCause :: reg where "iCause \<equiv> 13"
abbreviation (input) iEPC :: reg where "iEPC \<equiv> 14"
abbreviation (input) iPRid :: reg where "iPRid \<equiv> 15"

text \<open>
  The operations of other components that the IOP calls: hardware pages (with their page), devices,
  the module import hook, the BIOS hook, the GTE, the counters and the event callbacks.
\<close>

datatype gte_op = gteRTPS | gteNCLIP | gteOP | gteDPCS | gteINTPL | gteMVMVA | gteNCDS | gteCDP
  | gteNCDT | gteNCCS | gteCC | gteNCS | gteNCT | gteSQR | gteDCPL | gteDPCT | gteAVSZ3 | gteAVSZ4
  | gteRTPT | gteGPF | gteGPL | gteNCCT | gteMFC2 | gteCFC2 | gteMTC2 | gteCTC2 | gteLWC2 | gteSWC2

record 'd iop_env =
  HwRead8 :: "u32 \<Rightarrow> u32 \<Rightarrow> 'd iopState \<Rightarrow> u8 \<times> 'd iopState"
  HwRead16 :: "u32 \<Rightarrow> u32 \<Rightarrow> 'd iopState \<Rightarrow> u16 \<times> 'd iopState"
  HwRead32 :: "u32 \<Rightarrow> u32 \<Rightarrow> 'd iopState \<Rightarrow> u32 \<times> 'd iopState"
  HwWrite8 :: "u32 \<Rightarrow> u32 \<Rightarrow> u8 \<Rightarrow> 'd iopState \<Rightarrow> 'd iopState"
  HwWrite16 :: "u32 \<Rightarrow> u32 \<Rightarrow> u16 \<Rightarrow> 'd iopState \<Rightarrow> 'd iopState"
  HwWrite32 :: "u32 \<Rightarrow> u32 \<Rightarrow> u32 \<Rightarrow> 'd iopState \<Rightarrow> 'd iopState"
  psxHw4Read8 :: "u32 \<Rightarrow> 'd iopState \<Rightarrow> u8 \<times> 'd iopState"
  psxHw4Write8 :: "u32 \<Rightarrow> u8 \<Rightarrow> 'd iopState \<Rightarrow> 'd iopState"
  DEV9read8 :: "u32 \<Rightarrow> 'd iopState \<Rightarrow> u8 \<times> 'd iopState"
  DEV9read16 :: "u32 \<Rightarrow> 'd iopState \<Rightarrow> u16 \<times> 'd iopState"
  DEV9read32 :: "u32 \<Rightarrow> 'd iopState \<Rightarrow> u32 \<times> 'd iopState"
  DEV9write8 :: "u32 \<Rightarrow> u8 \<Rightarrow> 'd iopState \<Rightarrow> 'd iopState"
  DEV9write16 :: "u32 \<Rightarrow> u16 \<Rightarrow> 'd iopState \<Rightarrow> 'd iopState"
  DEV9write32 :: "u32 \<Rightarrow> u32 \<Rightarrow> 'd iopState \<Rightarrow> 'd iopState"
  SPU2read :: "u32 \<Rightarrow> 'd iopState \<Rightarrow> u16 \<times> 'd iopState"
  SPU2write :: "u32 \<Rightarrow> u16 \<Rightarrow> 'd iopState \<Rightarrow> 'd iopState"
  irxImport :: "u32 \<Rightarrow> u32 \<Rightarrow> 'd iopState \<Rightarrow> bool \<times> 'd iopState"
  psxBiosCall :: "'d iopState \<Rightarrow> 'd iopState"
  gte :: "gte_op \<Rightarrow> 'd iopState \<Rightarrow> 'd iopState"
  psxRcntUpdate :: "'d iopState \<Rightarrow> 'd iopState"
  iopEvent :: "nat \<Rightarrow> 'd iopState \<Rightarrow> 'd iopState"
  CurrentIRX :: bool

section \<open>Host memory\<close>

definition host_rd :: "nat \<Rightarrow> host_ptr \<Rightarrow> 'd iopState \<Rightarrow> 'l::len word" where
  "host_rd n p s = le_read n (areas s (fst p)) (snd p)"

definition host_wr :: "nat \<Rightarrow> host_ptr \<Rightarrow> 'l::len word \<Rightarrow> 'd iopState \<Rightarrow> 'd iopState" where
  "host_wr n p v s =
     s\<lparr>areas := (areas s)(fst p := le_write n v (snd p) (areas s (fst p)))\<rparr>"

text \<open>The pointers behind the macros \<open>psxHu\<close>, \<open>psxSu\<close> and \<open>psHu\<close>, of every width.\<close>

definition psxHu :: "u32 \<Rightarrow> host_ptr" where
  "psxHu mem = (IopHw, mem AND 0xffff)"

definition psxSu :: "u32 \<Rightarrow> host_ptr" where
  "psxSu mem = (IopVM, 0x210000 + (mem AND 0xff))"

definition psHu :: "u32 \<Rightarrow> host_ptr" where
  "psHu mem = (EeHw, mem AND 0xffff)"

definition SBUS :: "u32 \<Rightarrow> host_ptr" where
  "SBUS r = psHu (0x1000F200 + r)"

section \<open>The tables\<close>

definition LUT_Main :: "nat \<Rightarrow> host_ptr" where
  "LUT_Main i = (IopVM, push_bit 16 (of_nat (i AND 0x1f)))"

definition iopMemoryReserve_Reset :: "nat \<Rightarrow> host_ptr option" where
  "iopMemoryReserve_Reset =
     (let t = (\<lambda>_. None);
          t = fold (\<lambda>i t. t(i + 0 := Some (LUT_Main i), i + 0x2000 := Some (LUT_Main i))) [0..<0x80] t;
          t = t(0x2000 + 0x1f00 := Some (IopVM, 0x200000));
          t = t(0x2000 + 0x1f80 := Some (IopHw, 0));
          t = t(0x1f00 := Some (IopVM, 0x200000));
          t = t(0x1f80 := Some (IopHw, 0));
          t = fold (\<lambda>i t. t(i + 0x2000 + 0x1fc0 := Some (EeROM, push_bit 16 (of_nat i)))) [0..<0x40] t;
          t = fold (\<lambda>i t. t(i + 0x2000 + 0x1e00 := Some (EeROM1, push_bit 16 (of_nat i)))) [0..<4] t
      in t(0x2000 + 0x1d00 := Some (IopVM, 0x210000)))"

definition WLUT :: "'d iopState \<Rightarrow> u32 \<Rightarrow> host_ptr option" where
  "WLUT s t = psxMemWLUT s (unat t)"

definition RLUT :: "'d iopState \<Rightarrow> u32 \<Rightarrow> host_ptr option" where
  "RLUT s t = psxMemWLUT s (0x2000 + unat t)"

definition at_off :: "host_ptr \<Rightarrow> u32 \<Rightarrow> host_ptr" where
  "at_off p mem = (fst p, snd p + (mem AND 0xffff))"

section \<open>Reads\<close>

definition hw_page :: "u32 \<Rightarrow> bool" where
  "hw_page mem \<longleftrightarrow> mem AND 0xf000 = 0x1000 \<or> mem AND 0xf000 = 0x3000 \<or> mem AND 0xf000 = 0x8000"

definition iopMemRead8 :: "'d iop_env \<Rightarrow> u32 \<Rightarrow> 'd iopState \<Rightarrow> u8 \<times> 'd iopState" where
  "iopMemRead8 env mem s =
     (let mem = mem AND 0x1fffffff; t = drop_bit 16 mem
      in if t = 0x1f80 then
           (if hw_page mem then HwRead8 env (mem AND 0xf000) mem s else (host_rd 1 (psxHu mem) s, s))
         else if t = 0x1f40 then psxHw4Read8 env mem s
         else case RLUT s t of
             Some p \<Rightarrow> (host_rd 1 (at_off p mem) s, s)
           | None \<Rightarrow> if t = 0x1000 then DEV9read8 env mem s else (0, s))"

definition iopMemRead16 :: "'d iop_env \<Rightarrow> u32 \<Rightarrow> 'd iopState \<Rightarrow> u16 \<times> 'd iopState" where
  "iopMemRead16 env mem s =
     (let mem = mem AND 0x1fffffff; t = drop_bit 16 mem
      in if t = 0x1f80 then
           (if hw_page mem then HwRead16 env (mem AND 0xf000) mem s else (host_rd 2 (psxHu mem) s, s))
         else case RLUT s t of
             Some p \<Rightarrow>
               if t = 0x1d00 then
                 (if mem AND 0xF0 = 0x00 then host_rd 2 (SBUS 0x00) s
                  else if mem AND 0xF0 = 0x10 then host_rd 2 (SBUS 0x10) s
                  else if mem AND 0xF0 = 0x40 then host_rd 2 (SBUS 0x40) s OR 0x0002
                  else if mem AND 0xF0 = 0x60 then 0
                  else host_rd 2 (psxHu mem) s, s)
               else (host_rd 2 (at_off p mem) s, s)
           | None \<Rightarrow> if t = 0x1F90 then SPU2read env mem s
                     else if t = 0x1000 then DEV9read16 env mem s else (0, s))"

definition iopMemRead32 :: "'d iop_env \<Rightarrow> u32 \<Rightarrow> 'd iopState \<Rightarrow> u32 \<times> 'd iopState" where
  "iopMemRead32 env mem s =
     (let mem = mem AND 0x1fffffff; t = drop_bit 16 mem
      in if t = 0x1f80 then
           (if hw_page mem then HwRead32 env (mem AND 0xf000) mem s else (host_rd 4 (psxHu mem) s, s))
         else case RLUT s t of
             Some p \<Rightarrow>
               if t = 0x1d00 then
                 (if mem AND 0x8F0 = 0x00 then host_rd 4 (SBUS 0x00) s
                  else if mem AND 0x8F0 = 0x10 then host_rd 4 (SBUS 0x10) s
                  else if mem AND 0x8F0 = 0x20 then host_rd 4 (SBUS 0x20) s
                  else if mem AND 0x8F0 = 0x30 then host_rd 4 (SBUS 0x30) s
                  else if mem AND 0x8F0 = 0x40 then host_rd 4 (SBUS 0x40) s OR 0xF0000002
                  else if mem AND 0x8F0 = 0x60 then 0
                  else host_rd 4 (psxHu mem) s, s)
               else (host_rd 4 (at_off p mem) s, s)
           | None \<Rightarrow> if t = 0x1000 then DEV9read32 env mem s else (0, s))"

section \<open>Writes\<close>

text \<open>\<open>Status\<close> bit 16 isolates the data cache: stores do not reach memory.\<close>

definition cache_isolated :: "'d iopState \<Rightarrow> bool" where
  "cache_isolated s \<longleftrightarrow> iCP0 s iStatus AND 0x10000 \<noteq> 0"

definition iopMemWrite8 :: "'d iop_env \<Rightarrow> u32 \<Rightarrow> u8 \<Rightarrow> 'd iopState \<Rightarrow> 'd iopState" where
  "iopMemWrite8 env mem v s =
     (let mem = mem AND 0x1fffffff; t = drop_bit 16 mem
      in if t = 0x1f80 then
           (if hw_page mem then HwWrite8 env (mem AND 0xf000) mem v s else host_wr 1 (psxHu mem) v s)
         else if t = 0x1f40 then psxHw4Write8 env mem v s
         else case (if cache_isolated s then None else WLUT s t) of
             Some p \<Rightarrow> host_wr 1 (at_off p mem) v s
           | None \<Rightarrow> if t = 0x1d00 then host_wr 1 (psxSu mem) v s
                     else if t = 0x1000 then DEV9write8 env mem v s else s)"

text \<open>The control register of the SBUS as the IOP writes it, for both widths.\<close>

definition SBUS_control :: "nat \<Rightarrow> 'l::len word \<Rightarrow> 'd iopState \<Rightarrow> 'd iopState" where
  "SBUS_control n v s =
     (let temp = v AND 0xF0;
          s = (if v AND 0x20 \<noteq> 0 \<or> v AND 0x80 \<noteq> 0
               then let s = host_wr n (SBUS 0x40) (host_rd n (SBUS 0x40) s AND NOT (0xF000 :: 'l word)) s
                    in host_wr n (SBUS 0x40) (host_rd n (SBUS 0x40) s OR (0x2000 :: 'l word)) s
               else s)
      in if host_rd n (SBUS 0x40) s AND temp \<noteq> 0
         then host_wr n (SBUS 0x40) (host_rd n (SBUS 0x40) s AND NOT temp) s
         else host_wr n (SBUS 0x40) (host_rd n (SBUS 0x40) s OR temp) s)"

definition iopMemWrite16 :: "'d iop_env \<Rightarrow> u32 \<Rightarrow> u16 \<Rightarrow> 'd iopState \<Rightarrow> 'd iopState" where
  "iopMemWrite16 env mem v s =
     (let mem = mem AND 0x1fffffff; t = drop_bit 16 mem
      in if t = 0x1f80 then
           (if hw_page mem then HwWrite16 env (mem AND 0xf000) mem v s else host_wr 2 (psxHu mem) v s)
         else case (if cache_isolated s then None else WLUT s t) of
             Some p \<Rightarrow> host_wr 2 (at_off p mem) v s
           | None \<Rightarrow>
               if t = 0x1d00 then
                 (if mem AND 0x8f0 = 0x10 then host_wr 2 (SBUS 0x10) v s
                  else if mem AND 0x8f0 = 0x40 then SBUS_control 2 v s
                  else if mem AND 0x8f0 = 0x60 then host_wr 4 (SBUS 0x60) (0 :: u32) s
                  else host_wr 2 (psxSu mem) v s)
               else if t = 0x1F90 then SPU2write env mem v s
               else if t = 0x1000 then DEV9write16 env mem v s else s)"

definition iopMemWrite32 :: "'d iop_env \<Rightarrow> u32 \<Rightarrow> u32 \<Rightarrow> 'd iopState \<Rightarrow> 'd iopState" where
  "iopMemWrite32 env mem v s =
     (let mem = mem AND 0x1fffffff; t = drop_bit 16 mem
      in if t = 0x1f80 then
           (if hw_page mem then HwWrite32 env (mem AND 0xf000) mem v s else host_wr 4 (psxHu mem) v s)
         else case (if cache_isolated s then None else WLUT s t) of
             Some p \<Rightarrow> host_wr 4 (at_off p mem) v s
           | None \<Rightarrow>
               if t = 0x1d00 then
                 (if mem AND 0x8f0 = 0x00 then s
                  else if mem AND 0x8f0 = 0x10 then host_wr 4 (SBUS 0x10) v s
                  else if mem AND 0x8f0 = 0x20
                  then host_wr 4 (SBUS 0x20) (host_rd 4 (SBUS 0x20) s AND NOT v) s
                  else if mem AND 0x8f0 = 0x30
                  then host_wr 4 (SBUS 0x30) (host_rd 4 (SBUS 0x30) s OR v) s
                  else if mem AND 0x8f0 = 0x40 then SBUS_control 4 v s
                  else if mem AND 0x8f0 = 0x60 then host_wr 4 (SBUS 0x60) (0 :: u32) s
                  else host_wr 4 (psxSu mem) v s)
               else if t = 0x1000 then DEV9write32 env mem v s else s)"

section \<open>The memory map\<close>

lemma tables:
  "n < 0x2000 \<Longrightarrow> iopMemoryReserve_Reset n =
     (if n < 0x80 then Some (LUT_Main n) else if n = 0x1f00 then Some (IopVM, 0x200000)
      else if n = 0x1f80 then Some (IopHw, 0) else None)"
  "n < 0x2000 \<Longrightarrow> iopMemoryReserve_Reset (0x2000 + n) =
     (if n < 0x80 then Some (LUT_Main n) else if n = 0x1f00 then Some (IopVM, 0x200000)
      else if n = 0x1f80 then Some (IopHw, 0) else if n = 0x1d00 then Some (IopVM, 0x210000)
      else if 0x1e00 \<le> n \<and> n < 0x1e04 then Some (EeROM1, push_bit 16 (of_nat (n - 0x1e00)))
      else if 0x1fc0 \<le> n then Some (EeROM, push_bit 16 (of_nat (n - 0x1fc0))) else None)"
  unfolding iopMemoryReserve_Reset_def Let_def add.assoc fold_upd
  by (simp_all add: fold_upd2 [where c = 0, simplified])

lemma unat_page: "unat (drop_bit 16 (w :: u32)) = unat w div 0x10000"
  by (simp add: drop_bit_eq_div unat_div)

lemma low_mask:
  "(0xffff :: u32) = mask 16" "(0x1f :: u32) = mask 5" "(0x1fffff :: u32) = mask 21" "(0x1fffffff :: u32) = mask 29"
  by (simp_all add: mask_eq_exp_minus_1)

definition in_ram :: "u32 \<Rightarrow> bool" where
  "in_ram a \<longleftrightarrow> unat (a AND 0x1fffffff) < 0x800000"

lemma ram_page:
  assumes "psxMemWLUT s = iopMemoryReserve_Reset" "in_ram a"
  defines "t \<equiv> drop_bit 16 (a AND 0x1fffffff)"
  obtains p where "RLUT s t = Some p" "WLUT s t = Some p"
    "at_off p (a AND 0x1fffffff) = (IopVM, a AND 0x1fffff)"
    "t \<noteq> 0x1f80" "t \<noteq> 0x1f40" "t \<noteq> 0x1d00" "t \<noteq> 0x1000" "t \<noteq> 0x1f90"
proof -
  have "unat t = unat (a AND 0x1fffffff) div 0x10000"
    unfolding t_def by (rule unat_page)
  then have t: "unat t < 0x80"
    using assms(2) by (simp add: in_ram_def)
  have n: "of_nat (unat t AND 0x1f) = t AND 0x1f"
    by (simp add: of_nat_and_eq)
  have "push_bit 16 (t AND 0x1f) + ((a AND 0x1fffffff) AND 0xffff) =
      push_bit 16 (t AND 0x1f) OR ((a AND 0x1fffffff) AND 0xffff)"
    by (rule disjunctive_add) (auto simp: t_def bit_simps low_mask)
  also have "\<dots> = a AND 0x1fffff"
    by (rule bit_word_eqI) (auto simp: t_def bit_simps low_mask)
  finally have e: "at_off (LUT_Main (unat t)) (a AND 0x1fffffff) = (IopVM, a AND 0x1fffff)"
    by (simp only: at_off_def LUT_Main_def n fst_conv snd_conv)
  show thesis
    by (rule that [OF _ _ e]) (use t assms(1) in \<open>auto simp: RLUT_def WLUT_def tables\<close>)
qed

lemma ram_access:
  assumes "psxMemWLUT s = iopMemoryReserve_Reset" "in_ram a"
  defines "p \<equiv> (IopVM, a AND 0x1fffff)"
  shows "iopMemRead8 env a s = (host_rd 1 p s, s)" "iopMemRead16 env a s = (host_rd 2 p s, s)"
    "iopMemRead32 env a s = (host_rd 4 p s, s)"
    "iopMemWrite8 env a v8 s = (if cache_isolated s then s else host_wr 1 p v8 s)"
    "iopMemWrite16 env a v16 s = (if cache_isolated s then s else host_wr 2 p v16 s)"
    "iopMemWrite32 env a v32 s = (if cache_isolated s then s else host_wr 4 p v32 s)"
proof -
  obtain q where q: "RLUT s (drop_bit 16 (a AND 0x1fffffff)) = Some q"
      "WLUT s (drop_bit 16 (a AND 0x1fffffff)) = Some q" "at_off q (a AND 0x1fffffff) = p"
    and t: "drop_bit 16 (a AND 0x1fffffff) \<noteq> 0x1f80" "drop_bit 16 (a AND 0x1fffffff) \<noteq> 0x1f40"
      "drop_bit 16 (a AND 0x1fffffff) \<noteq> 0x1d00" "drop_bit 16 (a AND 0x1fffffff) \<noteq> 0x1000"
      "drop_bit 16 (a AND 0x1fffffff) \<noteq> 0x1f90"
    unfolding p_def using ram_page [OF assms(1,2)] by blast
  note d = iopMemRead8_def iopMemRead16_def iopMemRead32_def iopMemWrite8_def iopMemWrite16_def
    iopMemWrite32_def Let_def
  show "iopMemRead8 env a s = (host_rd 1 p s, s)" "iopMemRead16 env a s = (host_rd 2 p s, s)"
    "iopMemRead32 env a s = (host_rd 4 p s, s)"
    "iopMemWrite8 env a v8 s = (if cache_isolated s then s else host_wr 1 p v8 s)"
    "iopMemWrite16 env a v16 s = (if cache_isolated s then s else host_wr 2 p v16 s)"
    "iopMemWrite32 env a v32 s = (if cache_isolated s then s else host_wr 4 p v32 s)"
    unfolding d using q t by (auto simp only: if_False if_True option.case split: if_split)
qed

end
