(* ===== verification/IopCpu.thy ===== *)
theory IopCpu
  imports IopMem Arith
begin

text \<open>
  The IOP's processor: exceptions and event scheduling (\<open>pcsx2/R3000A.cpp\<close>), the instructions
  and their tables (\<open>pcsx2/R3000AOpcodeTables.cpp\<close>), the branches and the interpreter's loops
  (\<open>pcsx2/R3000AInterpreter.cpp\<close>).

  A branch executes its delay slot by calling \<open>execI\<close> again; \<open>iop_execI\<close> has the number of calls
  that may be nested as its first argument and answers \<open>None\<close> when they run out.
\<close>

section \<open>Reset\<close>

text \<open>The assignments of \<open>psxReset\<close> to the registers and the scheduler, before it resets other parts.\<close>

definition psxReset :: "'d iopState \<Rightarrow> 'd iopState" where
  "psxReset s =
     s\<lparr>iGPR := (\<lambda>_. 0), iHi := 0, iLo := 0,
       iCP0 := (\<lambda>_. 0)(iStatus := 0x10900000, iPRid := 0x0000001f),
       iCP2D := (\<lambda>_. 0), iCP2C := (\<lambda>_. 0), ipc := 0xbfc00000, icode := 0, icycle := 0, iinterrupt := 0,
       isCycle := (\<lambda>_. 0), ieCycle := (\<lambda>_. 0),
       slice := \<lparr>iopBreak = 0, iopCycleEE = -1\<rparr>, g_iopNextEventCycle := 0 + 4\<rparr>"

section \<open>Exceptions\<close>

definition iset_CP0 :: "reg \<Rightarrow> u32 \<Rightarrow> 'd iopState \<Rightarrow> 'd iopState" where
  "iset_CP0 r v s = s\<lparr>iCP0 := (iCP0 s)(r := v)\<rparr>"

definition psxException :: "u32 \<Rightarrow> bool \<Rightarrow> 'd iopState \<Rightarrow> 'd iopState" where
  "psxException excode bd s =
     (let s = iset_CP0 iCause (iCP0 s iCause AND NOT 0x7f) s;
          s = iset_CP0 iCause (iCP0 s iCause OR excode) s;
          s = (if bd then iset_CP0 iEPC (ipc s - 4) (iset_CP0 iCause (iCP0 s iCause OR 0x80000000) s)
               else iset_CP0 iEPC (ipc s) s);
          s = s\<lparr>ipc := (if iCP0 s iStatus AND 0x400000 \<noteq> 0 then 0xbfc00180 else 0x80000080)\<rparr>
      in iset_CP0 iStatus
           ((iCP0 s iStatus AND NOT 0x3f) OR push_bit 2 (iCP0 s iStatus AND 0xf)) s)"

section \<open>Events\<close>

definition psxSetNextBranch :: "u32 \<Rightarrow> u32 \<Rightarrow> 'd iopState \<Rightarrow> 'd iopState" where
  "psxSetNextBranch startCycle delta s =
     (if sint (g_iopNextEventCycle s - startCycle) > sint delta
      then s\<lparr>g_iopNextEventCycle := startCycle + delta\<rparr> else s)"

definition psxSetNextBranchDelta :: "u32 \<Rightarrow> 'd iopState \<Rightarrow> 'd iopState" where
  "psxSetNextBranchDelta delta s = psxSetNextBranch (icycle s) delta s"

definition psxTestCycle :: "u32 \<Rightarrow> u32 \<Rightarrow> 'd iopState \<Rightarrow> bool" where
  "psxTestCycle startCycle delta s \<longleftrightarrow> sint (icycle s - startCycle) \<ge> sint delta"

text \<open>The event numbers of \<open>enum IopEventId\<close>.\<close>

abbreviation (input) IopEvt_SIF2 :: nat where "IopEvt_SIF2 \<equiv> 0"
abbreviation (input) IopEvt_Cdvd :: nat where "IopEvt_Cdvd \<equiv> 1"
abbreviation (input) IopEvt_SIF0 :: nat where "IopEvt_SIF0 \<equiv> 2"
abbreviation (input) IopEvt_SIF1 :: nat where "IopEvt_SIF1 \<equiv> 3"
abbreviation (input) IopEvt_Dma11 :: nat where "IopEvt_Dma11 \<equiv> 4"
abbreviation (input) IopEvt_Dma12 :: nat where "IopEvt_Dma12 \<equiv> 5"
abbreviation (input) IopEvt_SIO :: nat where "IopEvt_SIO \<equiv> 6"
abbreviation (input) IopEvt_Cdrom :: nat where "IopEvt_Cdrom \<equiv> 7"
abbreviation (input) IopEvt_CdromRead :: nat where "IopEvt_CdromRead \<equiv> 8"
abbreviation (input) IopEvt_CdvdRead :: nat where "IopEvt_CdvdRead \<equiv> 9"
abbreviation (input) IopEvt_DEV9 :: nat where "IopEvt_DEV9 \<equiv> 10"
abbreviation (input) IopEvt_USB :: nat where "IopEvt_USB \<equiv> 11"

text \<open>
  \<open>PSX_INT\<close>: a negative \<open>iopCycleEE\<close> means that the EE is running; its next event test is then
  brought forward too, eight EE cycles for one of the IOP.
\<close>

definition PSX_INT :: "nat \<Rightarrow> u32 \<Rightarrow> 'd iopState \<Rightarrow> 'd iopState" where
  "PSX_INT n ecycle s =
     (let s = s\<lparr>iinterrupt := iinterrupt s OR push_bit n 1,
                isCycle := (isCycle s)(of_nat n := icycle s),
                ieCycle := (ieCycle s)(of_nat n := ecycle)\<rparr>;
          s = psxSetNextBranchDelta ecycle s
      in if sint (iopCycleEE (slice s)) < 0
         then s\<lparr>eeRegs := cpuSetNextEventDelta ((g_iopNextEventCycle s - icycle s) * 8) (eeRegs s)\<rparr>
         else s)"

definition IopTestEvent :: "nat \<Rightarrow> ('d iopState \<Rightarrow> 'd iopState) \<Rightarrow> 'd iopState \<Rightarrow> 'd iopState" where
  "IopTestEvent n callback s =
     (if \<not> bit (iinterrupt s) n then s
      else if psxTestCycle (isCycle s (of_nat n)) (ieCycle s (of_nat n)) s
      then callback (s\<lparr>iinterrupt := iinterrupt s AND NOT (push_bit n 1)\<rparr>)
      else psxSetNextBranch (isCycle s (of_nat n)) (ieCycle s (of_nat n)) s)"

definition ICFG_PS1 :: "'d iopState \<Rightarrow> bool" where
  "ICFG_PS1 s \<longleftrightarrow> host_rd 4 (psxHu 0x1f801450) s AND (8 :: u32) \<noteq> 0"

definition psxTestInterrupts :: "'d iop_env \<Rightarrow> 'd iopState \<Rightarrow> 'd iopState" where
  "psxTestInterrupts env s =
     (let test = (\<lambda>n. IopTestEvent n (iopEvent env n));
          s = fold test [IopEvt_SIF0, IopEvt_SIF1, IopEvt_SIF2] s;
          s = (if ICFG_PS1 s then test IopEvt_SIO s else s);
          s = test IopEvt_CdvdRead s;
          rare = [IopEvt_Cdvd, IopEvt_Dma11, IopEvt_Dma12, IopEvt_Cdrom, IopEvt_CdromRead, IopEvt_DEV9,
            IopEvt_USB]
      in if \<exists>n \<in> set rare. bit (iinterrupt s) n then fold test rare s else s)"

text \<open>The interrupt controller: \<open>0x1070\<close> status, \<open>0x1074\<close> mask, \<open>0x1078\<close> master enable.\<close>

definition intc_pending :: "'d iopState \<Rightarrow> bool" where
  "intc_pending s \<longleftrightarrow> host_rd 4 (psxHu 0x1078) s \<noteq> (0 :: u32) \<and>
     (host_rd 4 (psxHu 0x1070) s AND host_rd 4 (psxHu 0x1074) s) \<noteq> (0 :: u32)"

definition iopEventTest :: "'d iop_env \<Rightarrow> 'd iopState \<Rightarrow> 'd iopState" where
  "iopEventTest env s =
     (let s = (if psxTestCycle (psxNextsCounter s) (psxNextCounter s) s
               then (psxRcntUpdate env s)\<lparr>iEventAction := True\<rparr>
               else s\<lparr>g_iopNextEventCycle := psxNextsCounter s + psxNextCounter s\<rparr>);
          s = (if iinterrupt s \<noteq> 0
               then (psxTestInterrupts env (s\<lparr>iEventTestIsActive := True\<rparr>))\<lparr>iEventTestIsActive := False\<rparr>
               else s)
      in if intc_pending s \<and> iCP0 s iStatus AND 0xFE01 \<ge> 0x401
         then (psxException 0 False s)\<lparr>iEventAction := True\<rparr> else s)"

definition iopTestIntc :: "'d iopState \<Rightarrow> 'd iopState" where
  "iopTestIntc s =
     (if \<not> intc_pending s then s
      else if \<not> eeTestActive s
      then s\<lparr>eeRegs := cpuSetNextEventDelta 16 (eeRegs s), iEventAction := True\<rparr>
      else if \<not> iEventTestIsActive s then psxSetNextBranchDelta 2 s
      else s)"

section \<open>Instruction fields and registers\<close>

abbreviation iRd where "iRd s \<equiv> f_Rd (icode s)"
abbreviation iRt where "iRt s \<equiv> f_Rt (icode s)"
abbreviation iRs where "iRs s \<equiv> f_Rs (icode s)"
abbreviation irRs where "irRs s \<equiv> iGPR s (iRs s)"
abbreviation irRt where "irRt s \<equiv> iGPR s (iRt s)"

definition iSa :: "'d iopState \<Rightarrow> nat" where "iSa s = unat (f_Sa (icode s))"
definition iImm :: "'d iopState \<Rightarrow> u32" where "iImm s = scast (f_Imm (icode s))"
definition iImmU :: "'d iopState \<Rightarrow> u32" where "iImmU s = ucast (f_Imm (icode s))"

definition iJumpTarget :: "'d iopState \<Rightarrow> u32" where
  "iJumpTarget s = push_bit 2 (icode s AND 0x03ffffff) + (ipc s AND 0xf0000000)"

definition iBranchTarget :: "'d iopState \<Rightarrow> u32" where
  "iBranchTarget s = iImm s * 4 + ipc s"

definition iset :: "reg \<Rightarrow> u32 \<Rightarrow> 'd iopState \<Rightarrow> 'd iopState" where
  "iset r v s = s\<lparr>iGPR := (iGPR s)(r := v)\<rparr>"

text \<open>Results into \<open>rd\<close> and \<open>rt\<close>, which instructions drop when the destination is register 0.\<close>

definition to_Rd :: "u32 \<Rightarrow> 'd iopState \<Rightarrow> 'd iopState" where
  "to_Rd v s = (if iRd s = 0 then s else iset (iRd s) v s)"

definition to_Rt :: "u32 \<Rightarrow> 'd iopState \<Rightarrow> 'd iopState" where
  "to_Rt v s = (if iRt s = 0 then s else iset (iRt s) v s)"

section \<open>Arithmetic\<close>

definition psxADDI :: "'d iopState \<Rightarrow> 'd iopState" where "psxADDI s = to_Rt (irRs s + iImm s) s"
definition psxADDIU :: "'d iopState \<Rightarrow> 'd iopState" where "psxADDIU s = to_Rt (irRs s + iImm s) s"
definition psxANDI :: "'d iopState \<Rightarrow> 'd iopState" where "psxANDI s = to_Rt (irRs s AND iImmU s) s"
definition psxORI :: "'d iopState \<Rightarrow> 'd iopState" where "psxORI s = to_Rt (irRs s OR iImmU s) s"
definition psxXORI :: "'d iopState \<Rightarrow> 'd iopState" where "psxXORI s = to_Rt (irRs s XOR iImmU s) s"
definition psxSLTI :: "'d iopState \<Rightarrow> 'd iopState" where
  "psxSLTI s = to_Rt (of_bool (sint (irRs s) < sint (iImm s))) s"
definition psxSLTIU :: "'d iopState \<Rightarrow> 'd iopState" where
  "psxSLTIU s = to_Rt (of_bool (irRs s < iImm s)) s"

definition psxADD :: "'d iopState \<Rightarrow> 'd iopState" where "psxADD s = to_Rd (irRs s + irRt s) s"
definition psxADDU :: "'d iopState \<Rightarrow> 'd iopState" where "psxADDU s = to_Rd (irRs s + irRt s) s"
definition psxSUB :: "'d iopState \<Rightarrow> 'd iopState" where "psxSUB s = to_Rd (irRs s - irRt s) s"
definition psxSUBU :: "'d iopState \<Rightarrow> 'd iopState" where "psxSUBU s = to_Rd (irRs s - irRt s) s"
definition psxAND :: "'d iopState \<Rightarrow> 'd iopState" where "psxAND s = to_Rd (irRs s AND irRt s) s"
definition psxOR :: "'d iopState \<Rightarrow> 'd iopState" where "psxOR s = to_Rd (irRs s OR irRt s) s"
definition psxXOR :: "'d iopState \<Rightarrow> 'd iopState" where "psxXOR s = to_Rd (irRs s XOR irRt s) s"
definition psxNOR :: "'d iopState \<Rightarrow> 'd iopState" where "psxNOR s = to_Rd (NOT (irRs s OR irRt s)) s"
definition psxSLT :: "'d iopState \<Rightarrow> 'd iopState" where
  "psxSLT s = to_Rd (of_bool (sint (irRs s) < sint (irRt s))) s"
definition psxSLTU :: "'d iopState \<Rightarrow> 'd iopState" where
  "psxSLTU s = to_Rd (of_bool (irRs s < irRt s)) s"

definition psxDIV :: "'d iopState \<Rightarrow> 'd iopState" where
  "psxDIV s =
     (if irRt s = 0 then s\<lparr>iLo := (if sint (irRs s) < 0 then 1 else 0xFFFFFFFF), iHi := irRs s\<rparr>
      else if irRs s = 0x80000000 \<and> irRt s = 0xFFFFFFFF then s\<lparr>iLo := 0x80000000, iHi := 0\<rparr>
      else s\<lparr>iLo := word_of_int (sint (irRs s) sdiv sint (irRt s)),
             iHi := word_of_int (sint (irRs s) smod sint (irRt s))\<rparr>)"

definition psxDIVU :: "'d iopState \<Rightarrow> 'd iopState" where
  "psxDIVU s =
     (if irRt s = 0 then s\<lparr>iLo := 0xFFFFFFFF, iHi := irRs s\<rparr>
      else s\<lparr>iLo := irRs s div irRt s, iHi := irRs s mod irRt s\<rparr>)"

definition psxMULT :: "'d iopState \<Rightarrow> 'd iopState" where
  "psxMULT s =
     (let res = scast (irRs s) * scast (irRt s) :: u64 in s\<lparr>iLo := lo32 res, iHi := hi32 res\<rparr>)"

definition psxMULTU :: "'d iopState \<Rightarrow> 'd iopState" where
  "psxMULTU s =
     (let res = ucast (irRs s) * ucast (irRt s) :: u64 in s\<lparr>iLo := lo32 res, iHi := hi32 res\<rparr>)"

text \<open>
  The variable shifts do not reduce the amount to its low five bits; the host's 32-bit shift
  instructions do, which is what the model has.
\<close>

definition psxSLL :: "'d iopState \<Rightarrow> 'd iopState" where "psxSLL s = to_Rd (push_bit (iSa s) (irRt s)) s"
definition psxSRA :: "'d iopState \<Rightarrow> 'd iopState" where
  "psxSRA s = to_Rd (signed_drop_bit (iSa s) (irRt s)) s"
definition psxSRL :: "'d iopState \<Rightarrow> 'd iopState" where "psxSRL s = to_Rd (drop_bit (iSa s) (irRt s)) s"
definition psxSLLV :: "'d iopState \<Rightarrow> 'd iopState" where
  "psxSLLV s = to_Rd (push_bit (unat (irRs s AND 31)) (irRt s)) s"
definition psxSRAV :: "'d iopState \<Rightarrow> 'd iopState" where
  "psxSRAV s = to_Rd (signed_drop_bit (unat (irRs s AND 31)) (irRt s)) s"
definition psxSRLV :: "'d iopState \<Rightarrow> 'd iopState" where
  "psxSRLV s = to_Rd (drop_bit (unat (irRs s AND 31)) (irRt s)) s"

definition psxLUI :: "'d iopState \<Rightarrow> 'd iopState" where "psxLUI s = to_Rt (push_bit 16 (icode s)) s"
definition psxMFHI :: "'d iopState \<Rightarrow> 'd iopState" where "psxMFHI s = to_Rd (iHi s) s"
definition psxMFLO :: "'d iopState \<Rightarrow> 'd iopState" where "psxMFLO s = to_Rd (iLo s) s"
definition psxMTHI :: "'d iopState \<Rightarrow> 'd iopState" where "psxMTHI s = s\<lparr>iHi := irRs s\<rparr>"
definition psxMTLO :: "'d iopState \<Rightarrow> 'd iopState" where "psxMTLO s = s\<lparr>iLo := irRs s\<rparr>"

section \<open>Exceptions and coprocessor 0\<close>

definition psxBREAK :: "'d iopState \<Rightarrow> 'd iopState" where
  "psxBREAK s = psxException 0x24 (iopIsDelaySlot s) (s\<lparr>ipc := ipc s - 4\<rparr>)"

definition psxSYSCALL :: "'d iopState \<Rightarrow> 'd iopState" where
  "psxSYSCALL s = psxException 0x20 (iopIsDelaySlot s) (s\<lparr>ipc := ipc s - 4\<rparr>)"

definition psxRFE :: "'d iopState \<Rightarrow> 'd iopState" where
  "psxRFE s = iset_CP0 iStatus
     ((iCP0 s iStatus AND 0xfffffff0) OR drop_bit 2 (iCP0 s iStatus AND 0x3c)) s"

definition psxMFC0 :: "'d iopState \<Rightarrow> 'd iopState" where "psxMFC0 s = to_Rt (iCP0 s (iRd s)) s"
definition psxCFC0 :: "'d iopState \<Rightarrow> 'd iopState" where "psxCFC0 s = to_Rt (iCP0 s (iRd s)) s"
definition psxMTC0 :: "'d iopState \<Rightarrow> 'd iopState" where "psxMTC0 s = iset_CP0 (iRd s) (irRt s) s"
definition psxCTC0 :: "'d iopState \<Rightarrow> 'd iopState" where "psxCTC0 s = iset_CP0 (iRd s) (irRt s) s"

text \<open>An unknown instruction only prints a warning.\<close>

definition psxNULL :: "'d iopState \<Rightarrow> 'd iopState" where "psxNULL s = s"

section \<open>Loads and stores\<close>

text \<open>A read of memory and its use; the read happens even when the destination is register 0.\<close>

definition load_iRt ::
  "(u32 \<Rightarrow> 'd iopState \<Rightarrow> 'l::len word \<times> 'd iopState) \<Rightarrow> ('l word \<Rightarrow> u32) \<Rightarrow> 'd iopState \<Rightarrow> 'd iopState" where
  "load_iRt rd ext s = (let (v, s) = rd (irRs s + iImm s) s in to_Rt (ext v) s)"

definition psxLB :: "'d iop_env \<Rightarrow> 'd iopState \<Rightarrow> 'd iopState" where
  "psxLB env = load_iRt (iopMemRead8 env) scast"
definition psxLBU :: "'d iop_env \<Rightarrow> 'd iopState \<Rightarrow> 'd iopState" where
  "psxLBU env = load_iRt (iopMemRead8 env) ucast"
definition psxLH :: "'d iop_env \<Rightarrow> 'd iopState \<Rightarrow> 'd iopState" where
  "psxLH env = load_iRt (iopMemRead16 env) scast"
definition psxLHU :: "'d iop_env \<Rightarrow> 'd iopState \<Rightarrow> 'd iopState" where
  "psxLHU env = load_iRt (iopMemRead16 env) ucast"
definition psxLW :: "'d iop_env \<Rightarrow> 'd iopState \<Rightarrow> 'd iopState" where
  "psxLW env = load_iRt (iopMemRead32 env) (\<lambda>v. v)"

text \<open>The address, its aligned word, and the bit position in it.\<close>

definition oB :: "'d iopState \<Rightarrow> u32" where "oB s = irRs s + iImm s"
definition iop_shift :: "u32 \<Rightarrow> nat" where "iop_shift a = unat (push_bit 3 (a AND 3))"

definition iop_lwl :: "u32 \<Rightarrow> u32 \<Rightarrow> nat \<Rightarrow> u32" where
  "iop_lwl reg mem shift = (reg AND drop_bit shift 0x00ffffff) OR push_bit (24 - shift) mem"
definition iop_lwr :: "u32 \<Rightarrow> u32 \<Rightarrow> nat \<Rightarrow> u32" where
  "iop_lwr reg mem shift = (reg AND push_bit (24 - shift) 0xffffff00) OR drop_bit shift mem"
definition iop_swl :: "u32 \<Rightarrow> u32 \<Rightarrow> nat \<Rightarrow> u32" where
  "iop_swl reg mem shift = drop_bit (24 - shift) reg OR (mem AND push_bit shift 0xffffff00)"
definition iop_swr :: "u32 \<Rightarrow> u32 \<Rightarrow> nat \<Rightarrow> u32" where
  "iop_swr reg mem shift = push_bit shift reg OR (mem AND drop_bit (24 - shift) 0x00ffffff)"

definition psxLWL :: "'d iop_env \<Rightarrow> 'd iopState \<Rightarrow> 'd iopState" where
  "psxLWL env s =
     (let shift = iop_shift (oB s); (mem, s) = iopMemRead32 env (oB s AND 0xfffffffc) s
      in to_Rt (iop_lwl (irRt s) mem shift) s)"
definition psxLWR :: "'d iop_env \<Rightarrow> 'd iopState \<Rightarrow> 'd iopState" where
  "psxLWR env s =
     (let shift = iop_shift (oB s); (mem, s) = iopMemRead32 env (oB s AND 0xfffffffc) s
      in to_Rt (iop_lwr (irRt s) mem shift) s)"

definition psxSB :: "'d iop_env \<Rightarrow> 'd iopState \<Rightarrow> 'd iopState" where
  "psxSB env s = iopMemWrite8 env (oB s) (ucast (irRt s)) s"
definition psxSH :: "'d iop_env \<Rightarrow> 'd iopState \<Rightarrow> 'd iopState" where
  "psxSH env s = iopMemWrite16 env (oB s) (ucast (irRt s)) s"
definition psxSW :: "'d iop_env \<Rightarrow> 'd iopState \<Rightarrow> 'd iopState" where
  "psxSW env s = iopMemWrite32 env (oB s) (irRt s) s"
definition psxSWL :: "'d iop_env \<Rightarrow> 'd iopState \<Rightarrow> 'd iopState" where
  "psxSWL env s =
     (let shift = iop_shift (oB s); (mem, s) = iopMemRead32 env (oB s AND 0xfffffffc) s
      in iopMemWrite32 env (oB s AND 0xfffffffc) (iop_swl (irRt s) mem shift) s)"
definition psxSWR :: "'d iop_env \<Rightarrow> 'd iopState \<Rightarrow> 'd iopState" where
  "psxSWR env s =
     (let shift = iop_shift (oB s); (mem, s) = iopMemRead32 env (oB s AND 0xfffffffc) s
      in iopMemWrite32 env (oB s AND 0xfffffffc) (iop_swr (irRt s) mem shift) s)"

section \<open>Branches\<close>

text \<open>
  An instruction receives the environment and \<open>rec\<close>, the call of \<open>execI\<close> for its delay slot.
  The target is kept in \<open>branchPC\<close>, which a branch in the delay slot overwrites.
\<close>

type_synonym 'd iop_exec = "'d iopState \<Rightarrow> 'd iopState option"
type_synonym 'd iop_op = "'d iop_env \<Rightarrow> 'd iop_exec \<Rightarrow> 'd iop_exec"

definition iop_doBranch :: "'d iop_env \<Rightarrow> 'd iop_exec \<Rightarrow> u32 \<Rightarrow> 'd iop_exec" where
  "iop_doBranch env rec tar s =
     (case rec (s\<lparr>branch2 := True, iopIsDelaySlot := True, branchPC := tar\<rparr>) of
        None \<Rightarrow> None
      | Some s \<Rightarrow> Some (iopEventTest env (s\<lparr>iopIsDelaySlot := False, ipc := branchPC s\<rparr>)))"

definition iSetLink :: "reg \<Rightarrow> 'd iopState \<Rightarrow> 'd iopState" where
  "iSetLink r s = iset r (ipc s + 4) s"

definition branch_if :: "bool \<Rightarrow> 'd iop_op" where
  "branch_if c env rec s = (if c then iop_doBranch env rec (iBranchTarget s) s else Some s)"

definition psxBGEZ :: "'d iop_op" where "psxBGEZ env rec s = branch_if (sint (irRs s) \<ge> 0) env rec s"
definition psxBGEZAL :: "'d iop_op" where
  "psxBGEZAL env rec s = (let s = iSetLink 31 s in branch_if (sint (irRs s) \<ge> 0) env rec s)"
definition psxBGTZ :: "'d iop_op" where "psxBGTZ env rec s = branch_if (sint (irRs s) > 0) env rec s"
definition psxBLEZ :: "'d iop_op" where "psxBLEZ env rec s = branch_if (sint (irRs s) \<le> 0) env rec s"
definition psxBLTZ :: "'d iop_op" where "psxBLTZ env rec s = branch_if (sint (irRs s) < 0) env rec s"
definition psxBLTZAL :: "'d iop_op" where
  "psxBLTZAL env rec s = (let s = iSetLink 31 s in branch_if (sint (irRs s) < 0) env rec s)"
definition psxBEQ :: "'d iop_op" where "psxBEQ env rec s = branch_if (irRs s = irRt s) env rec s"
definition psxBNE :: "'d iop_op" where "psxBNE env rec s = branch_if (irRs s \<noteq> irRt s) env rec s"

text \<open>
  \<open>psxJ\<close> first looks for the import table of a module behind the jump; \<open>irxImport\<close> stands for
  \<open>irxImportExec\<close> with the table \<open>irxImportTableAddr\<close> finds for this address.
\<close>

definition psxJ :: "'d iop_op" where
  "psxJ env rec s =
     (let (delayslot, s) = iopMemRead32 env (ipc s) s;
          (hooked, s) = (if drop_bit 16 delayslot = 0x2400
                         then irxImport env (ipc s) (delayslot AND 0xffff) s else (False, s))
      in if hooked then Some s else iop_doBranch env rec (iJumpTarget s) s)"

definition psxJAL :: "'d iop_op" where
  "psxJAL env rec s = (let s = iSetLink 31 s in iop_doBranch env rec (iJumpTarget s) s)"

definition psxJR :: "'d iop_op" where "psxJR env rec s = iop_doBranch env rec (irRs s) s"

definition psxJALR :: "'d iop_op" where
  "psxJALR env rec s =
     (let s = (if iRd s \<noteq> 0 then iSetLink (iRd s) s else s) in iop_doBranch env rec (irRs s) s)"

section \<open>The instruction tables\<close>

definition plain :: "('d iopState \<Rightarrow> 'd iopState) \<Rightarrow> 'd iop_op" where
  "plain f env rec s = Some (f s)"
definition memop :: "('d iop_env \<Rightarrow> 'd iopState \<Rightarrow> 'd iopState) \<Rightarrow> 'd iop_op" where
  "memop f env rec s = Some (f env s)"
definition gteop :: "gte_op \<Rightarrow> 'd iop_op" where
  "gteop g env rec s = Some (gte env g s)"

definition psxSPC :: "'d iop_op list" where
  "psxSPC = [
     plain psxSLL, plain psxNULL, plain psxSRL, plain psxSRA, plain psxSLLV, plain psxNULL,
     plain psxSRLV, plain psxSRAV, psxJR, psxJALR, plain psxNULL, plain psxNULL, plain psxSYSCALL,
     plain psxBREAK, plain psxNULL, plain psxNULL, plain psxMFHI, plain psxMTHI, plain psxMFLO,
     plain psxMTLO, plain psxNULL, plain psxNULL, plain psxNULL, plain psxNULL, plain psxMULT,
     plain psxMULTU, plain psxDIV, plain psxDIVU, plain psxNULL, plain psxNULL, plain psxNULL,
     plain psxNULL, plain psxADD, plain psxADDU, plain psxSUB, plain psxSUBU, plain psxAND,
     plain psxOR, plain psxXOR, plain psxNOR, plain psxNULL, plain psxNULL, plain psxSLT,
     plain psxSLTU, plain psxNULL, plain psxNULL, plain psxNULL, plain psxNULL, plain psxNULL,
     plain psxNULL, plain psxNULL, plain psxNULL, plain psxNULL, plain psxNULL, plain psxNULL,
     plain psxNULL, plain psxNULL, plain psxNULL, plain psxNULL, plain psxNULL, plain psxNULL,
     plain psxNULL, plain psxNULL, plain psxNULL]"

definition psxREG :: "'d iop_op list" where
  "psxREG = [
     psxBLTZ, psxBGEZ, plain psxNULL, plain psxNULL, plain psxNULL, plain psxNULL, plain psxNULL,
     plain psxNULL, plain psxNULL, plain psxNULL, plain psxNULL, plain psxNULL, plain psxNULL,
     plain psxNULL, plain psxNULL, plain psxNULL, psxBLTZAL, psxBGEZAL, plain psxNULL,
     plain psxNULL, plain psxNULL, plain psxNULL, plain psxNULL, plain psxNULL, plain psxNULL,
     plain psxNULL, plain psxNULL, plain psxNULL, plain psxNULL, plain psxNULL, plain psxNULL,
     plain psxNULL]"

definition psxCP0 :: "'d iop_op list" where
  "psxCP0 = [
     plain psxMFC0, plain psxNULL, plain psxCFC0, plain psxNULL, plain psxMTC0, plain psxNULL,
     plain psxCTC0, plain psxNULL, plain psxNULL, plain psxNULL, plain psxNULL, plain psxNULL,
     plain psxNULL, plain psxNULL, plain psxNULL, plain psxNULL, plain psxRFE, plain psxNULL,
     plain psxNULL, plain psxNULL, plain psxNULL, plain psxNULL, plain psxNULL, plain psxNULL,
     plain psxNULL, plain psxNULL, plain psxNULL, plain psxNULL, plain psxNULL, plain psxNULL,
     plain psxNULL, plain psxNULL]"

definition psxCP2BSC :: "'d iop_op list" where
  "psxCP2BSC = [
     gteop gteMFC2, plain psxNULL, gteop gteCFC2, plain psxNULL, gteop gteMTC2, plain psxNULL,
     gteop gteCTC2, plain psxNULL, plain psxNULL, plain psxNULL, plain psxNULL, plain psxNULL,
     plain psxNULL, plain psxNULL, plain psxNULL, plain psxNULL, plain psxNULL, plain psxNULL,
     plain psxNULL, plain psxNULL, plain psxNULL, plain psxNULL, plain psxNULL, plain psxNULL,
     plain psxNULL, plain psxNULL, plain psxNULL, plain psxNULL, plain psxNULL, plain psxNULL,
     plain psxNULL, plain psxNULL]"

definition psxBASIC :: "'d iop_op" where
  "psxBASIC env rec s = (psxCP2BSC ! unat (iRs s)) env rec s"

definition psxCP2 :: "'d iop_op list" where
  "psxCP2 = [
     psxBASIC, gteop gteRTPS, plain psxNULL, plain psxNULL, plain psxNULL, plain psxNULL,
     gteop gteNCLIP, plain psxNULL, plain psxNULL, plain psxNULL, plain psxNULL, plain psxNULL,
     gteop gteOP, plain psxNULL, plain psxNULL, plain psxNULL, gteop gteDPCS, gteop gteINTPL,
     gteop gteMVMVA, gteop gteNCDS, gteop gteCDP, plain psxNULL, gteop gteNCDT, plain psxNULL,
     plain psxNULL, plain psxNULL, plain psxNULL, gteop gteNCCS, gteop gteCC, plain psxNULL,
     gteop gteNCS, plain psxNULL, gteop gteNCT, plain psxNULL, plain psxNULL, plain psxNULL,
     plain psxNULL, plain psxNULL, plain psxNULL, plain psxNULL, gteop gteSQR, gteop gteDCPL,
     gteop gteDPCT, plain psxNULL, plain psxNULL, gteop gteAVSZ3, gteop gteAVSZ4, plain psxNULL,
     gteop gteRTPT, plain psxNULL, plain psxNULL, plain psxNULL, plain psxNULL, plain psxNULL,
     plain psxNULL, plain psxNULL, plain psxNULL, plain psxNULL, plain psxNULL, plain psxNULL,
     plain psxNULL, gteop gteGPF, gteop gteGPL, gteop gteNCCT]"

definition psxSPECIAL :: "'d iop_op" where
  "psxSPECIAL env rec s = (psxSPC ! unat (Funct (icode s))) env rec s"

definition psxREGIMM :: "'d iop_op" where
  "psxREGIMM env rec s = (psxREG ! unat (iRt s)) env rec s"

definition psxCOP0 :: "'d iop_op" where
  "psxCOP0 env rec s = (psxCP0 ! unat (iRs s)) env rec s"

definition psxCOP2 :: "'d iop_op" where
  "psxCOP2 env rec s = (psxCP2 ! unat (Funct (icode s))) env rec s"

definition psxBSC :: "'d iop_op list" where
  "psxBSC = [
     psxSPECIAL, psxREGIMM, psxJ, psxJAL, psxBEQ, psxBNE, psxBLEZ, psxBGTZ, plain psxADDI,
     plain psxADDIU, plain psxSLTI, plain psxSLTIU, plain psxANDI, plain psxORI, plain psxXORI,
     plain psxLUI, psxCOP0, plain psxNULL, psxCOP2, plain psxNULL, plain psxNULL, plain psxNULL,
     plain psxNULL, plain psxNULL, plain psxNULL, plain psxNULL, plain psxNULL, plain psxNULL,
     plain psxNULL, plain psxNULL, plain psxNULL, plain psxNULL, memop psxLB, memop psxLH,
     memop psxLWL, memop psxLW, memop psxLBU, memop psxLHU, memop psxLWR, plain psxNULL,
     memop psxSB, memop psxSH, memop psxSWL, memop psxSW, plain psxNULL, plain psxNULL,
     memop psxSWR, plain psxNULL, plain psxNULL, plain psxNULL, gteop gteLWC2, plain psxNULL,
     plain psxNULL, plain psxNULL, plain psxNULL, plain psxNULL, plain psxNULL, plain psxNULL,
     gteop gteSWC2, plain psxNULL, plain psxNULL, plain psxNULL, plain psxNULL, plain psxNULL]"

section \<open>The interpreter\<close>

definition irx_inject :: "'d iop_env \<Rightarrow> 'd iopState \<Rightarrow> 'd iopState" where
  "irx_inject env s =
     (if ipc s = 0x1630 \<and> CurrentIRX env
      then let (v, s) = iopMemRead32 env 0x20018 s
           in if v = 0x1F then iopMemWrite32 env 0x20094 0xbffc0000 s else s
      else s)"

definition iop_fetch :: "'d iop_env \<Rightarrow> 'd iopState \<Rightarrow> 'd iopState" where
  "iop_fetch env s =
     (let s = irx_inject env s;
          (c, s) = iopMemRead32 env (ipc s) s;
          s = s\<lparr>icode := c, ipc := ipc s + 4, icycle := icycle s + 1\<rparr>
      in s\<lparr>slice := (slice s)\<lparr>iopCycleEE := iopCycleEE (slice s) - (if ICFG_PS1 s then 9 else 8)\<rparr>\<rparr>)"

primrec iop_execI :: "nat \<Rightarrow> 'd iop_env \<Rightarrow> 'd iop_exec" where
  "iop_execI 0 env s = None"
| "iop_execI (Suc n) env s =
     (let s = iop_fetch env s in (psxBSC ! unat (drop_bit 26 (icode s))) env (iop_execI n env) s)"

text \<open>
  \<open>intExecuteBlock\<close>: the inner loop runs to the end of a branch, the outer one while the slice that
  the EE has handed over lasts. Neither need end, so both are partial functions; \<open>n\<close> is the nesting
  bound of each instruction.
\<close>

partial_function (option) iop_run_branch :: "nat \<Rightarrow> 'd iop_env \<Rightarrow> 'd iopState \<Rightarrow> 'd iopState option" where
  "iop_run_branch n env s =
     (if branch2 s then Some s
      else case iop_execI n env s of None \<Rightarrow> None | Some s \<Rightarrow> iop_run_branch n env s)"

definition bios_entry :: "'d iopState \<Rightarrow> bool" where
  "bios_entry s \<longleftrightarrow> ICFG_PS1 s \<and>
     (ipc s AND 0x1fffffff = 0xa0 \<or> ipc s AND 0x1fffffff = 0xb0 \<or> ipc s AND 0x1fffffff = 0xc0)"

partial_function (option) iop_run_slice :: "nat \<Rightarrow> 'd iop_env \<Rightarrow> 'd iopState \<Rightarrow> 'd iopState option" where
  "iop_run_slice n env s =
     (if sint (iopCycleEE (slice s)) > 0
      then case iop_run_branch n env ((if bios_entry s then psxBiosCall env s else s)\<lparr>branch2 := False\<rparr>) of
             None \<Rightarrow> None
           | Some s \<Rightarrow> iop_run_slice n env s
      else Some s)"

definition iop_intExecuteBlock :: "nat \<Rightarrow> 'd iop_env \<Rightarrow> u32 \<Rightarrow> 'd iopState \<Rightarrow> (u32 \<times> 'd iopState) option" where
  "iop_intExecuteBlock n env eeCycles s =
     map_option (\<lambda>s. (iopBreak (slice s) + iopCycleEE (slice s), s))
       (iop_run_slice n env (s\<lparr>slice := \<lparr>iopBreak = 0, iopCycleEE = eeCycles\<rparr>\<rparr>))"

end
