(* ===== verification/IopInv.thy ===== *)
theory IopInv
  imports IopCpu
begin

text \<open>
  What holds along every run of the IOP. The locale \<open>iop_progress\<close> is the contract between the
  interpreter and a relation \<open>R n s t\<close> (\<open>t\<close> is reached from \<open>s\<close> in \<open>n\<close> instructions): it composes,
  each primitive update and each operation of the environment stays inside it, and fetching an
  instruction counts one. Its lemmas carry it over all instructions, the event test, nested delay
  slots and the loops of \<open>intExecuteBlock\<close>. \<open>IopProps\<close> interprets it for register zero, for the
  read-only memory and for the accounting of cycles.
\<close>

definition advances :: "(nat \<Rightarrow> 'd iopState \<Rightarrow> 'd iopState \<Rightarrow> bool) \<Rightarrow> nat \<Rightarrow> 'd iop_exec \<Rightarrow> bool" where
  "advances R d ex \<longleftrightarrow> (\<forall>s t. ex s = Some t \<longrightarrow> (\<exists>n \<le> d. R n s t))"

definition op_advances :: "(nat \<Rightarrow> 'd iopState \<Rightarrow> 'd iopState \<Rightarrow> bool) \<Rightarrow> 'd iop_env \<Rightarrow> 'd iop_op \<Rightarrow> bool" where
  "op_advances R env oper \<longleftrightarrow> (\<forall>d rec. advances R d rec \<longrightarrow> advances R d (oper env rec))"

lemma table_lengths [simp]:
  "length psxSPC = 64" "length psxREG = 32" "length psxCP0 = 32" "length psxCP2BSC = 32"
  "length psxCP2 = 64" "length psxBSC = 64"
  by (simp_all add: psxSPC_def psxREG_def psxCP0_def psxCP2BSC_def psxCP2_def psxBSC_def)

locale iop_progress =
  fixes R :: "nat \<Rightarrow> 'd iopState \<Rightarrow> 'd iopState \<Rightarrow> bool" and env :: "'d iop_env"
  assumes refl: "R 0 s s"
    and step: "R m s t \<Longrightarrow> R n t u \<Longrightarrow> R (m + n) s u"
    and gpr: "r \<noteq> 0 \<Longrightarrow> R 0 s (iset r v s)"
    and hi: "R 0 s (s\<lparr>iHi := w\<rparr>)" and lo: "R 0 s (s\<lparr>iLo := w\<rparr>)"
    and cp0: "R 0 s (iset_CP0 r w s)" and pc_upd: "R 0 s (s\<lparr>ipc := w\<rparr>)"
    and flags: "R 0 s (s\<lparr>branch2 := b\<rparr>)" "R 0 s (s\<lparr>iopIsDelaySlot := b\<rparr>)" "R 0 s (s\<lparr>branchPC := w\<rparr>)"
    and events: "R 0 s (s\<lparr>iinterrupt := w\<rparr>)" "R 0 s (s\<lparr>g_iopNextEventCycle := w\<rparr>)"
      "R 0 s (s\<lparr>iEventAction := b\<rparr>)" "R 0 s (s\<lparr>iEventTestIsActive := b\<rparr>)"
    and reads: "R 0 s (snd (iopMemRead8 env a s))" "R 0 s (snd (iopMemRead16 env a s))"
      "R 0 s (snd (iopMemRead32 env a s))"
    and writes: "R 0 s (iopMemWrite8 env a v8 s)" "R 0 s (iopMemWrite16 env a v16 s)"
      "R 0 s (iopMemWrite32 env a v32 s)"
    and hooks: "R 0 s (snd (irxImport env a w s))" "R 0 s (psxBiosCall env s)" "R 0 s (gte env g s)"
      "R 0 s (psxRcntUpdate env s)" "R 0 s (iopEvent env k s)"
    and fetch: "R 1 s (iop_fetch env s)"
begin

lemma then0: "R n s t \<Longrightarrow> R 0 t u \<Longrightarrow> R n s u"
  using step [of n s t 0 u] by simp

lemma first0: "R 0 s t \<Longrightarrow> R n t u \<Longrightarrow> R n s u"
  using step [of 0 s t n u] by simp

text \<open>Each update at the end of a path.\<close>

lemma if_step: "(c \<Longrightarrow> R n s t) \<Longrightarrow> (\<not> c \<Longrightarrow> R n s u) \<Longrightarrow> R n s (if c then t else u)"
  by simp

lemma to_Rd_step: "R 0 s (to_Rd v s)" and to_Rt_step: "R 0 s (to_Rt v s)"
  by (simp_all add: to_Rd_def to_Rt_def refl gpr)

lemmas prim_steps =
  then0 [OF _ hi] then0 [OF _ lo] then0 [OF _ cp0] then0 [OF _ pc_upd]
  then0 [OF _ flags(1)] then0 [OF _ flags(2)] then0 [OF _ flags(3)]
  then0 [OF _ events(1)] then0 [OF _ events(2)] then0 [OF _ events(3)] then0 [OF _ events(4)]
  then0 [OF _ hooks(2)] then0 [OF _ hooks(3)] then0 [OF _ hooks(4)] then0 [OF _ hooks(5)]
  then0 [OF _ writes(1)] then0 [OF _ writes(2)] then0 [OF _ writes(3)]
  then0 [OF _ to_Rd_step] then0 [OF _ to_Rt_step]

lemma exception_step: "R n s t \<Longrightarrow> R n s (psxException c bd t)"
  unfolding psxException_def Let_def by (intro prim_steps if_step)

lemma next_branch_step: "R n s t \<Longrightarrow> R n s (psxSetNextBranch c d t)"
  unfolding psxSetNextBranch_def by (intro prim_steps if_step)

lemma IopTestEvent_step: "R n s t \<Longrightarrow> R n s (IopTestEvent k (iopEvent env k) t)"
  unfolding IopTestEvent_def by (intro prim_steps if_step next_branch_step)

lemma IopTestEvents_step:
  "R n s t \<Longrightarrow> R n s (fold (\<lambda>k. IopTestEvent k (iopEvent env k)) ks t)"
  by (induction ks arbitrary: t) (simp_all add: IopTestEvent_step)

lemma event_test_step: "R n s t \<Longrightarrow> R n s (iopEventTest env t)"
  unfolding iopEventTest_def psxTestInterrupts_def Let_def
  by (intro prim_steps if_step exception_step IopTestEvents_step IopTestEvent_step)

section \<open>Instructions\<close>

lemma plain_ops:
  "R 0 s (psxADDI s)" "R 0 s (psxADDIU s)" "R 0 s (psxANDI s)" "R 0 s (psxORI s)" "R 0 s (psxXORI s)"
  "R 0 s (psxSLTI s)" "R 0 s (psxSLTIU s)" "R 0 s (psxADD s)" "R 0 s (psxADDU s)" "R 0 s (psxSUB s)"
  "R 0 s (psxSUBU s)" "R 0 s (psxAND s)" "R 0 s (psxOR s)" "R 0 s (psxXOR s)" "R 0 s (psxNOR s)"
  "R 0 s (psxSLT s)" "R 0 s (psxSLTU s)" "R 0 s (psxSLL s)" "R 0 s (psxSRA s)" "R 0 s (psxSRL s)"
  "R 0 s (psxSLLV s)" "R 0 s (psxSRAV s)" "R 0 s (psxSRLV s)" "R 0 s (psxLUI s)" "R 0 s (psxMFHI s)"
  "R 0 s (psxMFLO s)" "R 0 s (psxMFC0 s)" "R 0 s (psxCFC0 s)" "R 0 s (psxNULL s)"
  by (simp_all add: to_Rd_step to_Rt_step refl psxADDI_def psxADDIU_def psxANDI_def psxORI_def
      psxXORI_def psxSLTI_def psxSLTIU_def psxADD_def psxADDU_def psxSUB_def psxSUBU_def psxAND_def
      psxOR_def psxXOR_def psxNOR_def psxSLT_def psxSLTU_def psxSLL_def psxSRA_def psxSRL_def
      psxSLLV_def psxSRAV_def psxSRLV_def psxLUI_def psxMFHI_def psxMFLO_def psxMFC0_def psxCFC0_def
      psxNULL_def)

lemma HiLo_step: "R n s t \<Longrightarrow> R n s (t\<lparr>iLo := w, iHi := v\<rparr>)"
  by (intro prim_steps)

lemma special_ops:
  "R 0 s (psxDIV s)" "R 0 s (psxDIVU s)" "R 0 s (psxMULT s)" "R 0 s (psxMULTU s)" "R 0 s (psxMTHI s)"
  "R 0 s (psxMTLO s)" "R 0 s (psxBREAK s)" "R 0 s (psxSYSCALL s)" "R 0 s (psxRFE s)" "R 0 s (psxMTC0 s)"
  "R 0 s (psxCTC0 s)"
  unfolding psxDIV_def psxDIVU_def psxMULT_def psxMULTU_def psxMTHI_def psxMTLO_def psxBREAK_def
    psxSYSCALL_def psxRFE_def psxMTC0_def psxCTC0_def Let_def
  by (intro prim_steps if_step exception_step HiLo_step refl)+

text \<open>A read and what is done with its result.\<close>

lemma read_step:
  "(\<And>v t. R 0 s t \<Longrightarrow> R 0 s (f v t)) \<Longrightarrow> R 0 s (snd p) \<Longrightarrow> R 0 s (let (v, t) = p in f v t)"
  by (simp add: split_beta)

lemma mem_ops:
  "R 0 s (psxLB env s)" "R 0 s (psxLBU env s)" "R 0 s (psxLH env s)" "R 0 s (psxLHU env s)"
  "R 0 s (psxLW env s)" "R 0 s (psxLWL env s)" "R 0 s (psxLWR env s)" "R 0 s (psxSB env s)"
  "R 0 s (psxSH env s)" "R 0 s (psxSW env s)" "R 0 s (psxSWL env s)" "R 0 s (psxSWR env s)"
  unfolding psxLB_def psxLBU_def psxLH_def psxLHU_def psxLW_def load_iRt_def psxSB_def psxSH_def psxSW_def
    psxLWL_def psxLWR_def psxSWL_def psxSWR_def Let_def [of "iop_shift _"]
  by (intro read_step prim_steps reads writes refl | assumption)+

section \<open>Branches and tables\<close>

lemma lifted_ops:
  "(\<And>s. R 0 s (f s)) \<Longrightarrow> op_advances R env (plain f)"
  "(\<And>s. R 0 s (g env s)) \<Longrightarrow> op_advances R env (memop g)"
  "op_advances R env (gteop h)"
  using hooks(3) by (auto simp: op_advances_def advances_def plain_def memop_def gteop_def)

lemma doBranch_step:
  assumes "advances R d rec" "R 0 s t" "iop_doBranch env rec tar t = Some u"
  shows "\<exists>n \<le> d. R n s u"
proof -
  let ?t = "t\<lparr>branch2 := True, iopIsDelaySlot := True, branchPC := tar\<rparr>"
  obtain v where v: "rec ?t = Some v"
    and u: "u = iopEventTest env (v\<lparr>iopIsDelaySlot := False, ipc := branchPC v\<rparr>)"
    using assms(3) by (auto simp: iop_doBranch_def split: option.splits)
  obtain n where n: "n \<le> d" "R n ?t v"
    using assms(1) v unfolding advances_def by blast
  have "R 0 s ?t"
    by (intro prim_steps assms(2))
  then have "R n s v"
    using n(2) by (rule first0)
  then have "R n s u"
    unfolding u by (intro prim_steps event_test_step)
  with n(1) show ?thesis by blast
qed

lemma branch_step:
  "advances R d rec \<Longrightarrow> R 0 s t \<Longrightarrow> branch_if c env rec t = Some u \<Longrightarrow> \<exists>n \<le> d. R n s u"
  using doBranch_step [of d rec s t] by (cases c) (auto simp: branch_if_def)

lemma link_step: "r \<noteq> 0 \<Longrightarrow> R 0 s (iSetLink r s)"
  by (simp add: iSetLink_def gpr)

lemma link31: "R 0 s (iSetLink 31 s)"
  by (rule link_step) simp

lemma branch_ops:
  "op_advances R env psxBGEZ" "op_advances R env psxBGEZAL" "op_advances R env psxBGTZ"
  "op_advances R env psxBLEZ" "op_advances R env psxBLTZ" "op_advances R env psxBLTZAL"
  "op_advances R env psxBEQ" "op_advances R env psxBNE" "op_advances R env psxJAL"
  "op_advances R env psxJR" "op_advances R env psxJALR"
  using refl
  by (auto simp: op_advances_def advances_def [of R _ "psxBGEZ _ _"] advances_def [of R _ "psxBGEZAL _ _"]
      advances_def [of R _ "psxBGTZ _ _"] advances_def [of R _ "psxBLEZ _ _"] advances_def [of R _ "psxBLTZ _ _"]
      advances_def [of R _ "psxBLTZAL _ _"] advances_def [of R _ "psxBEQ _ _"] advances_def [of R _ "psxBNE _ _"]
      advances_def [of R _ "psxJAL _ _"] advances_def [of R _ "psxJR _ _"] advances_def [of R _ "psxJALR _ _"]
      psxBGEZ_def psxBGEZAL_def psxBGTZ_def psxBLEZ_def psxBLTZ_def psxBLTZAL_def psxBEQ_def psxBNE_def
      psxJAL_def psxJR_def psxJALR_def Let_def
      intro: branch_step doBranch_step link31 link_step)

lemma J_op: "op_advances R env psxJ"
  unfolding op_advances_def
proof (intro allI impI)
  fix d :: nat and rec :: "'d iop_exec"
  assume r: "advances R d rec"
  show "advances R d (psxJ env rec)"
    unfolding advances_def
  proof (intro allI impI)
    fix s t assume j: "psxJ env rec s = Some t"
    obtain w s1 where w: "iopMemRead32 env (ipc s) s = (w, s1)"
      by fastforce
    obtain h s2 where h: "(if drop_bit 16 w = 0x2400 then irxImport env (ipc s1) (w AND 0xffff) s1
        else (False, s1)) = (h, s2)"
      by fastforce
    have "R 0 s s1"
      using reads(3) [of s "ipc s"] by (simp add: w)
    moreover have "R 0 s1 s2"
      using hooks(1) [of s1 "ipc s1" "w AND 0xffff"] refl h by (auto split: if_splits)
    ultimately have "R 0 s s2"
      by (rule then0)
    then show "\<exists>n \<le> d. R n s t"
      using j doBranch_step [OF r] unfolding psxJ_def Let_def w h prod.case
      by (auto split: if_splits)
  qed
qed

lemmas all_ops = lifted_ops plain_ops special_ops mem_ops branch_ops J_op

lemma sub_tables:
  "list_all (op_advances R env) psxSPC" "list_all (op_advances R env) psxREG"
  "list_all (op_advances R env) psxCP0" "list_all (op_advances R env) psxCP2BSC"
  by (simp_all add: psxSPC_def psxREG_def psxCP0_def psxCP2BSC_def all_ops)

lemma dispatch:
  assumes "list_all (op_advances R env) xs" "\<And>s. ix s < length xs"
    and "\<And>rec s. oper env rec s = (xs ! ix s) env rec s"
  shows "op_advances R env oper"
proof -
  have "op_advances R env (xs ! ix s)" for s
    using assms(1,2) by (simp add: list_all_length)
  then show ?thesis
    unfolding op_advances_def advances_def assms(3) by blast
qed

lemma reg_index: "unat (r :: reg) < 32"
  using unsigned_less [of r] by simp

lemma funct_index: "unat (Funct w) < 64"
  using unsigned_less [of "Funct w"] by simp

lemma table_ops:
  "op_advances R env psxBASIC" "op_advances R env psxSPECIAL" "op_advances R env psxREGIMM"
  "op_advances R env psxCOP0"
proof -
  show "op_advances R env psxBASIC"
    by (rule dispatch [where ix = "\<lambda>s. unat (iRs s)", OF sub_tables(4)])
      (simp_all add: reg_index psxBASIC_def)
  show "op_advances R env psxSPECIAL"
    by (rule dispatch [where ix = "\<lambda>s. unat (Funct (icode s))", OF sub_tables(1)])
      (simp_all add: funct_index psxSPECIAL_def)
  show "op_advances R env psxREGIMM"
    by (rule dispatch [where ix = "\<lambda>s. unat (iRt s)", OF sub_tables(2)])
      (simp_all add: reg_index psxREGIMM_def)
  show "op_advances R env psxCOP0"
    by (rule dispatch [where ix = "\<lambda>s. unat (iRs s)", OF sub_tables(3)])
      (simp_all add: reg_index psxCOP0_def)
qed

lemma COP2_table: "list_all (op_advances R env) psxCP2"
  by (simp add: psxCP2_def all_ops table_ops)

lemma COP2_op: "op_advances R env psxCOP2"
  by (rule dispatch [where ix = "\<lambda>s. unat (Funct (icode s))", OF COP2_table])
    (simp_all add: funct_index psxCOP2_def)

lemma basic_table: "list_all (op_advances R env) psxBSC"
  by (simp add: psxBSC_def all_ops table_ops COP2_op)

lemma opcode_index: "unat (drop_bit 26 (w :: u32)) < 64"
proof -
  have "unat w < 2 ^ 32"
    using unsigned_less [of w] by simp
  then show ?thesis
    by (simp add: drop_bit_eq_div unat_div)
qed

section \<open>The interpreter\<close>

text \<open>One call of \<open>execI\<close>: at least one instruction, at most one for each nested call.\<close>

lemma execI_progress: "iop_execI d env s = Some t \<Longrightarrow> \<exists>n. 1 \<le> n \<and> n \<le> d \<and> R n s t"
proof (induction d arbitrary: s t)
  case 0
  then show ?case by simp
next
  case (Suc d)
  let ?s = "iop_fetch env s"
  have "op_advances R env (psxBSC ! unat (drop_bit 26 (icode ?s)))"
    using basic_table opcode_index [of "icode ?s"] by (simp add: list_all_length psxBSC_def)
  moreover have "advances R d (iop_execI d env)"
    unfolding advances_def using Suc.IH by blast
  ultimately obtain n where n: "n \<le> d" "R n ?s t"
    using Suc.prems unfolding op_advances_def advances_def iop_execI.simps Let_def by blast
  have "R (1 + n) s t"
    by (rule step [OF fetch n(2)])
  with n(1) show ?case
    by (intro exI [of _ "1 + n"]) simp
qed

lemma run_branch_progress:
  assumes "iop_run_branch d env s = Some t"
  shows "\<exists>n. R n s t"
proof -
  have "e = env \<longrightarrow> (\<exists>n. R n s t)" if "iop_run_branch d e s = Some t" for e
  proof (rule iop_run_branch.raw_induct [where P = "\<lambda>d e s t. e = env \<longrightarrow> (\<exists>n. R n s t)", OF _ that])
    fix rb :: "nat \<Rightarrow> 'd iop_env \<Rightarrow> 'd iopState \<Rightarrow> 'd iopState option" and d e s t
    assume IH: "\<And>d e s t. rb d e s = Some t \<Longrightarrow> e = env \<longrightarrow> (\<exists>n. R n s t)"
      and b: "(if branch2 s then Some s
        else case iop_execI d e s of None \<Rightarrow> None | Some s \<Rightarrow> rb d e s) = Some t"
    show "e = env \<longrightarrow> (\<exists>n. R n s t)"
      using b IH refl execI_progress step
      by (cases "branch2 s") (auto split: option.splits, blast+)
  qed
  with assms show ?thesis by blast
qed

lemma run_slice_progress:
  assumes "iop_run_slice d env s = Some t"
  shows "\<exists>n. R n s t"
proof -
  have "e = env \<longrightarrow> (\<exists>n. R n s t)" if "iop_run_slice d e s = Some t" for e
  proof (rule iop_run_slice.raw_induct [where P = "\<lambda>d e s t. e = env \<longrightarrow> (\<exists>n. R n s t)", OF _ that])
    fix rs :: "nat \<Rightarrow> 'd iop_env \<Rightarrow> 'd iopState \<Rightarrow> 'd iopState option" and d e s t
    assume IH: "\<And>d e s t. rs d e s = Some t \<Longrightarrow> e = env \<longrightarrow> (\<exists>n. R n s t)"
      and b: "(if sint (iopCycleEE (slice s)) > 0
        then case iop_run_branch d e ((if bios_entry s then psxBiosCall e s else s)\<lparr>branch2 := False\<rparr>) of
               None \<Rightarrow> None | Some s \<Rightarrow> rs d e s
        else Some s) = Some t"
    show "e = env \<longrightarrow> (\<exists>n. R n s t)"
    proof (intro impI)
      assume e: "e = env"
      let ?u = "(if bios_entry s then psxBiosCall env s else s)\<lparr>branch2 := False\<rparr>"
      have u: "R 0 s ?u"
        by (intro prim_steps if_step refl)
      show "\<exists>n. R n s t"
      proof (cases "sint (iopCycleEE (slice s)) > 0")
        case True
        then obtain v where v: "iop_run_branch d env ?u = Some v" "rs d env v = Some t"
          using b e by (auto split: option.splits)
        then obtain m n where "R m ?u v" "R n v t"
          using run_branch_progress IH by blast
        then show ?thesis
          using first0 [OF u] step by blast
      next
        case False
        then show ?thesis
          using b refl by auto
      qed
    qed
  qed
  with assms show ?thesis by blast
qed

end

end
