(* ===== verification/IopProps.thy ===== *)
theory IopProps
  imports IopInv Unaligned
begin

text \<open>
  Properties of the IOP: the interpretations of \<open>iop_progress\<close> (register zero, read-only memory,
  cycle accounting), of \<open>unaligned_bus\<close> on main memory, exceptions, and event scheduling.
\<close>

section \<open>What the environment keeps\<close>

text \<open>\<open>env_all P env\<close>: every operation of the environment takes a state to one related by \<open>P\<close>.\<close>

definition env_all :: "('d iopState \<Rightarrow> 'd iopState \<Rightarrow> bool) \<Rightarrow> 'd iop_env \<Rightarrow> bool" where
  "env_all P env \<longleftrightarrow>
     (\<forall>s p a. P s (snd (HwRead8 env p a s)) \<and> P s (snd (HwRead16 env p a s)) \<and> P s (snd (HwRead32 env p a s))) \<and>
     (\<forall>s p a b h w. P s (HwWrite8 env p a b s) \<and> P s (HwWrite16 env p a h s) \<and> P s (HwWrite32 env p a w s)) \<and>
     (\<forall>s a b. P s (snd (psxHw4Read8 env a s)) \<and> P s (psxHw4Write8 env a b s)) \<and>
     (\<forall>s a. P s (snd (DEV9read8 env a s)) \<and> P s (snd (DEV9read16 env a s)) \<and> P s (snd (DEV9read32 env a s))) \<and>
     (\<forall>s a b h w. P s (DEV9write8 env a b s) \<and> P s (DEV9write16 env a h s) \<and> P s (DEV9write32 env a w s)) \<and>
     (\<forall>s a h. P s (snd (SPU2read env a s)) \<and> P s (SPU2write env a h s)) \<and>
     (\<forall>s a w. P s (snd (irxImport env a w s))) \<and>
     (\<forall>s g k. P s (psxBiosCall env s) \<and> P s (gte env g s) \<and> P s (psxRcntUpdate env s) \<and> P s (iopEvent env k s))"

lemma env_allD:
  assumes "env_all P env"
  shows "P s (snd (HwRead8 env p a s))" "P s (snd (HwRead16 env p a s))" "P s (snd (HwRead32 env p a s))"
    "P s (HwWrite8 env p a b s)" "P s (HwWrite16 env p a h s)" "P s (HwWrite32 env p a w s)"
    "P s (snd (psxHw4Read8 env a s))" "P s (psxHw4Write8 env a b s)"
    "P s (snd (DEV9read8 env a s))" "P s (snd (DEV9read16 env a s))" "P s (snd (DEV9read32 env a s))"
    "P s (DEV9write8 env a b s)" "P s (DEV9write16 env a h s)" "P s (DEV9write32 env a w s)"
    "P s (snd (SPU2read env a s))" "P s (SPU2write env a h s)" "P s (snd (irxImport env a w s))"
    "P s (psxBiosCall env s)" "P s (gte env g s)" "P s (psxRcntUpdate env s)" "P s (iopEvent env k s)"
  using assms by (simp_all add: env_all_def)

definition writable :: "'d iopState \<Rightarrow> host_ptr \<Rightarrow> bool" where
  "writable s p \<longleftrightarrow> fst p \<in> {IopVM, IopHw, EeHw} \<or>
     (\<exists>t q m. unat t < 0x2000 \<and> WLUT s t = Some q \<and> p = at_off q m)"

lemma page_less: "unat (drop_bit 16 (a AND 0x1fffffff) :: u32) < 0x2000"
proof -
  have "unat (a AND 0x1fffffff) \<le> unat (0x1fffffff :: u32)"
    by (metis word_and_le1 word_le_nat_alt)
  then show ?thesis
    unfolding unat_page by simp
qed

lemma writable_pointers:
  "writable s (psxHu m)" "writable s (psxSu m)" "writable s (SBUS r)"
  "WLUT s (drop_bit 16 (a AND 0x1fffffff)) = Some q \<Longrightarrow> writable s (at_off q m)"
proof -
  show "writable s (psxHu m)" "writable s (psxSu m)" "writable s (SBUS r)"
    by (simp_all add: writable_def psxHu_def psxSu_def SBUS_def psHu_def)
  show "writable s (at_off q m)" if "WLUT s (drop_bit 16 (a AND 0x1fffffff)) = Some q"
    unfolding writable_def using that page_less [of a] by blast
qed

lemma reads_all:
  assumes "env_all P env" "\<And>s. P s s"
  shows "P s (snd (iopMemRead8 env a s))" "P s (snd (iopMemRead16 env a s))" "P s (snd (iopMemRead32 env a s))"
  using assms(2) env_allD [OF assms(1)]
  unfolding iopMemRead8_def iopMemRead16_def iopMemRead32_def Let_def
  by (auto split: option.split)

lemma writes_all:
  assumes env: "env_all P env" and refl: "\<And>s. P s s" and trans: "\<And>s t u. P s t \<Longrightarrow> P t u \<Longrightarrow> P s u"
    and host1: "\<And>n p v s. writable s p \<Longrightarrow> P s (host_wr n p (v :: u8) s)"
    and host2: "\<And>n p v s. writable s p \<Longrightarrow> P s (host_wr n p (v :: u16) s)"
    and host4: "\<And>n p v s. writable s p \<Longrightarrow> P s (host_wr n p (v :: u32) s)"
  shows "P s (iopMemWrite8 env a v8 s)" "P s (iopMemWrite16 env a v16 s)" "P s (iopMemWrite32 env a v32 s)"
proof -
  have if_P: "(c \<Longrightarrow> P s t) \<Longrightarrow> (\<not> c \<Longrightarrow> P s u) \<Longrightarrow> P s (if c then t else u)" for c s t u
    by simp
  have case_P: "P s (case if c then None else x of None \<Rightarrow> t | Some q \<Rightarrow> f q)"
    if "P s t" "\<And>q. x = Some q \<Longrightarrow> P s (f q)" for c x s t and f :: "host_ptr \<Rightarrow> _"
    using that by (cases x) simp_all
  have sbus: "P s (host_wr 2 (SBUS r) (h :: u16) t)" "P s (host_wr 4 (SBUS r) (w :: u32) t)"
    if "P s t" for s t r h w
    using trans [OF that] host2 host4 writable_pointers(3) by blast+
  have control: "P s (SBUS_control 2 (h :: u16) s)" "P s (SBUS_control 4 (w :: u32) s)" for s h w
    unfolding SBUS_control_def Let_def by (intro sbus if_P refl)+
  show "P s (iopMemWrite8 env a v8 s)"
    unfolding iopMemWrite8_def Let_def
    by (intro if_P case_P host1 writable_pointers refl env_allD [OF env] | assumption)+
  show "P s (iopMemWrite16 env a v16 s)"
    unfolding iopMemWrite16_def Let_def
    by (intro if_P case_P host2 sbus control writable_pointers refl env_allD [OF env] | assumption)+
  show "P s (iopMemWrite32 env a v32 s)"
    unfolding iopMemWrite32_def Let_def
    by (intro if_P case_P host4 sbus control writable_pointers refl env_allD [OF env] | assumption)+
qed

section \<open>Three relations that every run keeps\<close>

lemma step_fields [simp]:
  "iGPR (iset_CP0 r w s) = iGPR s" "areas (iset_CP0 r w s) = areas s" "slice (iset_CP0 r w s) = slice s"
  "icycle (iset_CP0 r w s) = icycle s" "psxMemWLUT (iset_CP0 r w s) = psxMemWLUT s"
  "iGPR (iset r v s) = (iGPR s)(r := v)" "areas (iset r v s) = areas s" "slice (iset r v s) = slice s"
  "icycle (iset r v s) = icycle s" "psxMemWLUT (iset r v s) = psxMemWLUT s"
  "iGPR (host_wr n q u s) = iGPR s" "slice (host_wr n q u s) = slice s" "icycle (host_wr n q u s) = icycle s"
  "psxMemWLUT (host_wr n q u s) = psxMemWLUT s"
  "areas (host_wr n q u s) = (areas s)(fst q := le_write n u (snd q) (areas s (fst q)))"
  by (simp_all add: iset_CP0_def iset_def host_wr_def)

lemma inject_all:
  assumes "\<And>a s. P s (snd (iopMemRead32 env a s))" "\<And>a v s. P s (iopMemWrite32 env a v s)"
    and "\<And>s. P s s" "\<And>s t u. P s t \<Longrightarrow> P t u \<Longrightarrow> P s u"
  shows "P s (irx_inject env s)"
proof -
  have "P s (iopMemWrite32 env a v (snd (iopMemRead32 env b s)))" for a b v
    using assms(1,2) by (rule assms(4))
  then show ?thesis
    using assms(1,3) by (simp add: irx_inject_def split_beta Let_def)
qed

definition keeps_r0 :: "'d iopState \<Rightarrow> 'd iopState \<Rightarrow> bool" where
  "keeps_r0 s t \<longleftrightarrow> (iGPR s 0 = 0 \<longrightarrow> iGPR t 0 = 0)"

definition keeps_ROM :: "'d iopState \<Rightarrow> 'd iopState \<Rightarrow> bool" where
  "keeps_ROM s t \<longleftrightarrow> (psxMemWLUT s = iopMemoryReserve_Reset \<longrightarrow>
     psxMemWLUT t = iopMemoryReserve_Reset \<and> areas t EeROM = areas s EeROM \<and> areas t EeROM1 = areas s EeROM1)"

definition slice_total :: "'d iopState \<Rightarrow> u32" where
  "slice_total s = iopBreak (slice s) + iopCycleEE (slice s)"

definition keeps_slice :: "'d iopState \<Rightarrow> 'd iopState \<Rightarrow> bool" where
  "keeps_slice s t \<longleftrightarrow> icycle t = icycle s \<and> slice_total t = slice_total s"

lemma keeps_refl: "keeps_r0 s s" "keeps_ROM s s" "keeps_slice s s"
  by (simp_all add: keeps_r0_def keeps_ROM_def keeps_slice_def)

lemma keeps_trans:
  "keeps_r0 s t \<Longrightarrow> keeps_r0 t u \<Longrightarrow> keeps_r0 s u"
  "keeps_ROM s t \<Longrightarrow> keeps_ROM t u \<Longrightarrow> keeps_ROM s u"
  "keeps_slice s t \<Longrightarrow> keeps_slice t u \<Longrightarrow> keeps_slice s u"
  by (auto simp: keeps_r0_def keeps_ROM_def keeps_slice_def)

lemma WLUT_no_ROM:
  assumes "psxMemWLUT s = iopMemoryReserve_Reset" "writable s p"
  shows "fst p \<in> {IopVM, IopHw, EeHw}"
  using assms by (auto simp: writable_def WLUT_def tables at_off_def LUT_Main_def split: if_splits)

lemma keeps_host:
  "keeps_r0 s (host_wr n p v s)" "keeps_slice s (host_wr n p v s)"
  "writable s p \<Longrightarrow> keeps_ROM s (host_wr n p v s)"
  using WLUT_no_ROM [of s p]
  by (auto simp: keeps_r0_def keeps_ROM_def keeps_slice_def slice_total_def)

lemma stores_keeps_r0:
  assumes "env_all keeps_r0 env"
  shows "keeps_r0 s (iopMemWrite8 env a v8 s)" "keeps_r0 s (iopMemWrite16 env a v16 s)"
    "keeps_r0 s (iopMemWrite32 env a v32 s)"
  by (rule writes_all [where P = keeps_r0, OF assms keeps_refl(1)]; (erule (1) keeps_trans(1) | erule keeps_host | rule keeps_host))+

lemma stores_keeps_ROM:
  assumes "env_all keeps_ROM env"
  shows "keeps_ROM s (iopMemWrite8 env a v8 s)" "keeps_ROM s (iopMemWrite16 env a v16 s)"
    "keeps_ROM s (iopMemWrite32 env a v32 s)"
  by (rule writes_all [where P = keeps_ROM, OF assms keeps_refl(2)]; (erule (1) keeps_trans(2) | erule keeps_host | rule keeps_host))+

lemma stores_keeps_slice:
  assumes "env_all keeps_slice env"
  shows "keeps_slice s (iopMemWrite8 env a v8 s)" "keeps_slice s (iopMemWrite16 env a v16 s)"
    "keeps_slice s (iopMemWrite32 env a v32 s)"
  by (rule writes_all [where P = keeps_slice, OF assms keeps_refl(3)]; (erule (1) keeps_trans(3) | erule keeps_host | rule keeps_host))+

lemmas keeps_stores = stores_keeps_r0 stores_keeps_ROM stores_keeps_slice

lemmas keeps_reads =
  reads_all [where P = keeps_r0, OF _ keeps_refl(1)] reads_all [where P = keeps_ROM, OF _ keeps_refl(2)]
  reads_all [where P = keeps_slice, OF _ keeps_refl(3)]

lemma keeps_prims:
  "keeps_r0 s (s\<lparr>iHi := w\<rparr>)" "keeps_r0 s (s\<lparr>iLo := w\<rparr>)"
  "keeps_r0 s (iset_CP0 r w s)" "keeps_r0 s (s\<lparr>ipc := w\<rparr>)"
  "keeps_r0 s (s\<lparr>branch2 := b\<rparr>)"
  "keeps_r0 s (s\<lparr>iopIsDelaySlot := b\<rparr>)"
  "keeps_r0 s (s\<lparr>branchPC := w\<rparr>)" "keeps_r0 s (s\<lparr>iinterrupt := w\<rparr>)"
  "keeps_r0 s (s\<lparr>g_iopNextEventCycle := w\<rparr>)"
  "keeps_r0 s (s\<lparr>iEventAction := b\<rparr>)"
  "keeps_r0 s (s\<lparr>iEventTestIsActive := b\<rparr>)"
  "keeps_ROM s (s\<lparr>iHi := w\<rparr>)" "keeps_ROM s (s\<lparr>iLo := w\<rparr>)"
  "keeps_ROM s (iset_CP0 r w s)" "keeps_ROM s (s\<lparr>ipc := w\<rparr>)"
  "keeps_ROM s (s\<lparr>branch2 := b\<rparr>)"
  "keeps_ROM s (s\<lparr>iopIsDelaySlot := b\<rparr>)"
  "keeps_ROM s (s\<lparr>branchPC := w\<rparr>)" "keeps_ROM s (s\<lparr>iinterrupt := w\<rparr>)"
  "keeps_ROM s (s\<lparr>g_iopNextEventCycle := w\<rparr>)"
  "keeps_ROM s (s\<lparr>iEventAction := b\<rparr>)"
  "keeps_ROM s (s\<lparr>iEventTestIsActive := b\<rparr>)"
  "keeps_slice s (s\<lparr>iHi := w\<rparr>)" "keeps_slice s (s\<lparr>iLo := w\<rparr>)"
  "keeps_slice s (iset_CP0 r w s)" "keeps_slice s (s\<lparr>ipc := w\<rparr>)"
  "keeps_slice s (s\<lparr>branch2 := b\<rparr>)"
  "keeps_slice s (s\<lparr>iopIsDelaySlot := b\<rparr>)"
  "keeps_slice s (s\<lparr>branchPC := w\<rparr>)"
  "keeps_slice s (s\<lparr>iinterrupt := w\<rparr>)"
  "keeps_slice s (s\<lparr>g_iopNextEventCycle := w\<rparr>)"
  "keeps_slice s (s\<lparr>iEventAction := b\<rparr>)"
  "keeps_slice s (s\<lparr>iEventTestIsActive := b\<rparr>)"
  "r \<noteq> 0 \<Longrightarrow> keeps_r0 s (iset r w s)" "keeps_ROM s (iset r w s)" "keeps_slice s (iset r w s)"
  by (simp_all add: keeps_r0_def keeps_ROM_def keeps_slice_def slice_total_def)

text \<open>A fetch: the path to the state whose counters it moves.\<close>

definition fetched :: "'d iop_env \<Rightarrow> 'd iopState \<Rightarrow> 'd iopState" where
  "fetched env s = snd (iopMemRead32 env (ipc (irx_inject env s)) (irx_inject env s))"

lemma fetch_fields:
  "iGPR (iop_fetch env s) = iGPR (fetched env s)" "areas (iop_fetch env s) = areas (fetched env s)"
  "psxMemWLUT (iop_fetch env s) = psxMemWLUT (fetched env s)"
  "icycle (iop_fetch env s) = icycle (fetched env s) + 1"
  "slice_total (iop_fetch env s) + (if ICFG_PS1 (fetched env s) then 9 else 8) = slice_total (fetched env s)"
  by (auto simp: iop_fetch_def fetched_def Let_def split_beta slice_total_def ICFG_PS1_def host_rd_def)

lemma fetched_all:
  assumes "\<And>a s. P s (snd (iopMemRead32 env a s))" "\<And>a v s. P s (iopMemWrite32 env a v s)"
    and "\<And>s. P s s" "\<And>s t u. P s t \<Longrightarrow> P t u \<Longrightarrow> P s u"
  shows "P s (fetched env s)"
  unfolding fetched_def using inject_all [of P env s, OF assms] assms(1) by (rule assms(4))

lemma fetched_r0: "env_all keeps_r0 env \<Longrightarrow> keeps_r0 s (fetched env s)"
  by (rule fetched_all) (erule keeps_reads keeps_stores keeps_trans(1) | rule keeps_refl | assumption)+

lemma fetched_ROM: "env_all keeps_ROM env \<Longrightarrow> keeps_ROM s (fetched env s)"
  by (rule fetched_all) (erule keeps_reads keeps_stores keeps_trans(2) | rule keeps_refl | assumption)+

lemma fetched_slice: "env_all keeps_slice env \<Longrightarrow> keeps_slice s (fetched env s)"
  by (rule fetched_all) (erule keeps_reads keeps_stores keeps_trans(3) | rule keeps_refl | assumption)+

interpretation zero: iop_progress "\<lambda>n s t. env_all keeps_r0 env \<longrightarrow> keeps_r0 s t" env for env
proof (unfold_locales, simp_all add: keeps_refl env_allD keeps_stores keeps_reads keeps_prims, goal_cases)
  case 1
  then show ?case by (blast intro: keeps_trans)
next
  case 2
  then show ?case using fetched_r0 by (auto simp: keeps_r0_def fetch_fields)
qed

interpretation rom: iop_progress "\<lambda>n s t. env_all keeps_ROM env \<longrightarrow> keeps_ROM s t" env for env
proof (unfold_locales, simp_all add: keeps_refl env_allD keeps_stores keeps_reads keeps_prims, goal_cases)
  case 1
  then show ?case by (blast intro: keeps_trans)
next
  case 2
  then show ?case using fetched_ROM by (auto simp: keeps_ROM_def fetch_fields)
qed

text \<open>\<open>spends n s t\<close>: \<open>n\<close> instructions, each worth 8 or 9 cycles of the EE's clock.\<close>

definition spends :: "nat \<Rightarrow> 'd iopState \<Rightarrow> 'd iopState \<Rightarrow> bool" where
  "spends n s t \<longleftrightarrow> icycle t = icycle s + of_nat n \<and>
     (\<exists>k \<le> n. slice_total t + of_nat (8 * n + k) = slice_total s)"

lemma spends_0: "spends 0 s t \<longleftrightarrow> keeps_slice s t"
  by (auto simp: spends_def keeps_slice_def)

lemma spends_step: "spends m s t \<Longrightarrow> spends n t u \<Longrightarrow> spends (m + n) s u"
proof -
  assume "spends m s t" "spends n t u"
  then obtain k l where le: "k \<le> m" "l \<le> n"
    and c: "icycle t = icycle s + of_nat m" "icycle u = icycle t + of_nat n"
    and e: "slice_total s = slice_total t + of_nat (8 * m + k)"
      "slice_total t = slice_total u + of_nat (8 * n + l)"
    unfolding spends_def by metis
  show ?thesis
    unfolding spends_def c e using le by (intro conjI exI [of _ "k + l"]) (simp_all add: algebra_simps)
qed

lemma spends_fetch: "env_all keeps_slice env \<Longrightarrow> spends 1 s (iop_fetch env s)"
proof -
  assume "env_all keeps_slice env"
  from fetched_slice [OF this, of s] fetch_fields(4,5) [of env s] show ?thesis
    unfolding spends_def keeps_slice_def
    by (intro conjI exI [of _ "if ICFG_PS1 (fetched env s) then 1 else 0"]) (auto split: if_splits)
qed

interpretation acct: iop_progress "\<lambda>n s t. env_all keeps_slice env \<longrightarrow> spends n s t" env for env
proof (unfold_locales,
    simp_all add: spends_0 keeps_refl env_allD keeps_stores keeps_reads keeps_prims spends_fetch [simplified], goal_cases)
  case 1
  then show ?case by (blast intro: spends_step)
qed

section \<open>A sample machine\<close>

text \<open>Devices that answer 0 and do nothing, and the state after reset with given memory.\<close>

definition quiet_iop :: "unit iop_env" where
  "quiet_iop =
     \<lparr>HwRead8 = (\<lambda>_ _ s. (0, s)), HwRead16 = (\<lambda>_ _ s. (0, s)), HwRead32 = (\<lambda>_ _ s. (0, s)),
      HwWrite8 = (\<lambda>_ _ _ s. s), HwWrite16 = (\<lambda>_ _ _ s. s), HwWrite32 = (\<lambda>_ _ _ s. s),
      psxHw4Read8 = (\<lambda>_ s. (0, s)), psxHw4Write8 = (\<lambda>_ _ s. s),
      DEV9read8 = (\<lambda>_ s. (0, s)), DEV9read16 = (\<lambda>_ s. (0, s)), DEV9read32 = (\<lambda>_ s. (0, s)),
      DEV9write8 = (\<lambda>_ _ s. s), DEV9write16 = (\<lambda>_ _ s. s), DEV9write32 = (\<lambda>_ _ s. s),
      SPU2read = (\<lambda>_ s. (0, s)), SPU2write = (\<lambda>_ _ s. s), irxImport = (\<lambda>_ _ s. (False, s)),
      psxBiosCall = (\<lambda>s. s), gte = (\<lambda>_ s. s), psxRcntUpdate = (\<lambda>s. s), iopEvent = (\<lambda>_ s. s),
      CurrentIRX = False\<rparr>"

lemma quiet_iop_all: "(\<And>s. P s s) \<Longrightarrow> env_all P quiet_iop"
  by (simp add: env_all_def quiet_iop_def)

definition iop_sample :: "bytes \<Rightarrow> unit iopState" where
  "iop_sample ram =
     psxReset \<lparr>iGPR = (\<lambda>_. 0), iHi = 0, iLo = 0, iCP0 = (\<lambda>_. 0), iCP2D = (\<lambda>_. 0), iCP2C = (\<lambda>_. 0),
       ipc = 0, icode = 0, icycle = 0, iinterrupt = 0, isCycle = (\<lambda>_. 0), ieCycle = (\<lambda>_. 0),
       g_iopNextEventCycle = 0, slice = \<lparr>iopBreak = 0, iopCycleEE = 0\<rparr>, iEventAction = False,
       iEventTestIsActive = False, psxNextCounter = 1000, psxNextsCounter = 0, iopIsDelaySlot = False,
       branch2 = False, branchPC = 0, areas = (\<lambda>_ _. 0)(IopVM := ram),
       psxMemWLUT = iopMemoryReserve_Reset, eeRegs = cpuReset_regs, eeTestActive = False, idev = ()\<rparr>"

lemma iop_sample_simps [simp]:
  "iGPR (iop_sample r) = (\<lambda>_. 0)" "psxMemWLUT (iop_sample r) = iopMemoryReserve_Reset"
  "areas (iop_sample r) = (\<lambda>_ _. 0)(IopVM := r)" "ipc (iop_sample r) = 0xbfc00000"
  "\<not> cache_isolated (iop_sample r)" "icycle (iop_sample r) = 0"
  "iCP0 (iop_sample r) iStatus = 0x10900000" "iinterrupt (iop_sample r) = 0"
  "slice (iop_sample r) = \<lparr>iopBreak = 0, iopCycleEE = -1\<rparr>" "psxNextCounter (iop_sample r) = 1000"
  "psxNextsCounter (iop_sample r) = 0" "eeRegs (iop_sample r) = cpuReset_regs"
  "g_iopNextEventCycle (iop_sample r) = 4"
  by (simp_all add: iop_sample_def psxReset_def cache_isolated_def)

section \<open>Runs\<close>

text \<open>
  register zero of the IOP stays zero through every instruction, with nested delay slots, and
  through every time slice that \<open>intExecuteBlock\<close> runs, whatever the program; the rest of the
  machine is only assumed to leave the register alone.
\<close>

theorem iop_zero_register:
  assumes "env_all keeps_r0 env" "iGPR s 0 = 0"
  shows "pred_option (\<lambda>t. iGPR t 0 = 0) (iop_execI d env s) \<and>
    pred_option (\<lambda>(c, t). iGPR t 0 = 0) (iop_intExecuteBlock d env eeCycles s)"
proof -
  have "iGPR t 0 = 0" if "iop_execI d env s = Some t" for t
    using zero.execI_progress [OF that] assms by (auto simp: keeps_r0_def)
  moreover have "iGPR t 0 = 0" if "iop_run_slice d env (s\<lparr>slice := x\<rparr>) = Some t" for t x
    using zero.run_slice_progress [OF that] assms by (auto simp: keeps_r0_def)
  ultimately show ?thesis
    by (auto simp: iop_intExecuteBlock_def pred_option_def)
qed

theorem iop_zero_register_witness:
  "pred_option (\<lambda>(c, t). iGPR t 0 = 0) (iop_intExecuteBlock 4 quiet_iop 100 (iop_sample (\<lambda>_. 0)))"
  using iop_zero_register [of quiet_iop "iop_sample (\<lambda>_. 0)" 4 100] by (simp add: quiet_iop_all keeps_refl)



text \<open>
  the accounting of time between the processors: one call of \<open>execI\<close> with at most \<open>d\<close> nested
  calls executes between 1 and \<open>d\<close> instructions, and the EE cycles left (with those set aside by an
  event that broke the slice) fall by 8 for each, 9 when the IOP is in its PS1 mode. So no cycle of
  a slice is lost or counted twice, even by events that end it early.
\<close>

theorem iop_cycle_accounting:
  assumes "env_all keeps_slice env"
  shows "pred_option (\<lambda>t. \<exists>n k. 1 \<le> n \<and> n \<le> d \<and> k \<le> n \<and> icycle t = icycle s + of_nat n \<and>
    slice_total t + of_nat (8 * n + k) = slice_total s) (iop_execI d env s)"
proof -
  have "\<exists>n. 1 \<le> n \<and> n \<le> d \<and> spends n s t" if "iop_execI d env s = Some t" for t
    using acct.execI_progress [OF that] assms by blast
  then show ?thesis
    unfolding pred_option_def spends_def by (cases "iop_execI d env s") (simp_all, metis)
qed

theorem iop_cycle_accounting_witness:
  "pred_option (\<lambda>t. \<exists>n k. 1 \<le> n \<and> n \<le> 2 \<and> k \<le> n \<and> icycle t = 0 + of_nat n \<and>
     slice_total t + of_nat (8 * n + k) = -1) (iop_execI 2 quiet_iop (iop_sample (\<lambda>_. 0)))"
  using iop_cycle_accounting [of quiet_iop 2 "iop_sample (\<lambda>_. 0)"]
  by (simp only: quiet_iop_all keeps_refl slice_total_def iop_sample_simps iop_slice.simps) simp

section \<open>Exceptions\<close>

lemma iset_CP0_frame [simp]:
  "iinterrupt (iset_CP0 r v s) = iinterrupt s" "psxNextCounter (iset_CP0 r v s) = psxNextCounter s"
  "psxNextsCounter (iset_CP0 r v s) = psxNextsCounter s"
  "ipc (iset_CP0 r v s) = ipc s" "iCP0 (iset_CP0 r v s) = (iCP0 s)(r := v)"
  by (simp_all add: iset_CP0_def)

lemma exception_fields:
  "iCP0 (psxException c bd s) iEPC = (if bd then ipc s - 4 else ipc s)"
  "iCP0 (psxException c bd s) iCause =
     ((iCP0 s iCause AND NOT 0x7f) OR c) OR (if bd then 0x80000000 else 0)"
  "iCP0 (psxException c bd s) iStatus = (iCP0 s iStatus AND NOT 0x3f) OR push_bit 2 (iCP0 s iStatus AND 0xf)"
  "ipc (psxException c bd s) = (if iCP0 s iStatus AND 0x400000 \<noteq> 0 then 0xbfc00180 else 0x80000080)"
  "iGPR (psxException c bd s) = iGPR s" "areas (psxException c bd s) = areas s"
  by (simp_all add: psxException_def Let_def)

lemma RFE_fields:
  "iCP0 (psxRFE s) iStatus = (iCP0 s iStatus AND 0xfffffff0) OR drop_bit 2 (iCP0 s iStatus AND 0x3c)"
  "iGPR (psxRFE s) = iGPR s" "areas (psxRFE s) = areas s"
  by (simp_all add: psxRFE_def)

lemma low_bits:
  "(0x3f :: u32) = mask 6" "(0xf :: u32) = mask 4" "(0x3c :: u32) = push_bit 2 (mask 4)"
  "(0x30 :: u32) = push_bit 4 (mask 2)" "(0xc :: u32) = push_bit 2 (mask 2)" "(0xfffffff0 :: u32) = NOT (mask 4)"
  by code_simp+

lemma RFE_restores:
  fixes S :: u32
  defines "E \<equiv> (S AND NOT 0x3f) OR push_bit 2 (S AND 0xf)"
  shows "(E AND 0xfffffff0) OR drop_bit 2 (E AND 0x3c) = (S AND NOT 0x30) OR push_bit 2 (S AND 0xc)"
  unfolding E_def low_bits
  by (rule bit_word_eqI) (auto simp: bit_simps)

lemma exception_disables:
  fixes S :: u32
  shows "\<not> bit ((S AND NOT 0x3f) OR push_bit 2 (S AND 0xf)) 0"
  by (simp add: bit_simps)


section \<open>Interrupts\<close>

lemma and_three_bits:
  "(S :: u32) AND (2 ^ a OR (2 ^ b OR 2 ^ c)) =
     (if bit S a then 2 ^ a else 0) OR ((if bit S b then 2 ^ b else 0) OR (if bit S c then 2 ^ c else 0))"
  by (rule bit_word_eqI) (auto simp: bit_and_iff bit_or_iff bit_exp_iff)

lemma gate_bits:
  "(S :: u32) AND 0xFE01 \<ge> 0x401 \<longleftrightarrow> S AND 0xF800 \<noteq> 0 \<or> bit S 10 \<and> (bit S 0 \<or> bit S 9)"
proof (cases "S AND 0xF800 = 0")
  case True
  have "(0xFE01 :: u32) = 0xF800 OR (2 ^ 10 OR (2 ^ 9 OR 2 ^ 0))"
    by code_simp
  then have "S AND 0xFE01 = (S AND 0xF800) OR (S AND (2 ^ 10 OR (2 ^ 9 OR 2 ^ 0)))"
    by (simp only: bit.conj_disj_distrib)
  also have "\<dots> = (if bit S 10 then 2 ^ 10 else 0) OR ((if bit S 9 then 2 ^ 9 else 0) OR (if bit S 0 then 2 ^ 0 else 0))"
    unfolding True and_three_bits by (simp only: or.left_neutral)
  finally have "S AND 0xFE01 = (if bit S 10 then 0x400 else 0) OR ((if bit S 9 then 0x200 else 0) OR (if bit S 0 then 1 else 0))"
    by simp
  moreover have "\<not> (0x401 :: u32) \<le> 1"
    by code_simp
  ultimately show ?thesis
    using True by simp
next
  case False
  let ?H = "S AND 0xF800"
  have "?H = 0xF800 AND (S AND 0xFE01)"
  proof -
    have "(0xF800 :: u32) = 0xF800 AND 0xFE01" by simp
    then show ?thesis by (metis and.assoc and.commute)
  qed
  also have "\<dots> \<le> S AND 0xFE01"
    by (rule word_and_le1)
  finally have le: "?H \<le> S AND 0xFE01" .
  have "2 ^ 11 \<le> ?H"
  proof (rule ccontr)
    assume "\<not> 2 ^ 11 \<le> ?H"
    then have "?H AND mask 11 = ?H"
      by (intro less_mask_eq) simp
    moreover have "?H AND mask 11 = S AND (0xF800 AND mask 11)"
      by (simp only: and.assoc)
    moreover have "(0xF800 :: u32) AND mask 11 = 0"
      by code_simp
    ultimately show False using False by (simp only: bit.conj_zero_right)
  qed
  moreover have "(0x401 :: u32) \<le> 2 ^ 11"
    by simp
  ultimately have "0x401 \<le> S AND 0xFE01"
    using le by (meson order_trans)
  then show ?thesis
    using False by blast
qed


text \<open>
  C20: when the IOP takes a hardware interrupt. With no event due and a request pending in the
  interrupt controller, the event test enters the exception exactly when one of the mask bits 11 to
  15 of \<open>Status\<close> is set, or bit 10 together with the enable bit 0 or with bit 9: the comparison
  \<open>(Status & 0xFE01) >= 0x401\<close> looks at bit 0 only for a machine that uses no mask bit but 10.
  So for the mask 0x400 the enable bit decides, and for any other, higher mask the interrupt is
  taken even inside a handler, where the enable bit is clear.
\<close>

theorem iop_interrupt_gate:
  assumes "intc_pending s" "iinterrupt s = 0" "\<not> psxTestCycle (psxNextsCounter s) (psxNextCounter s) s"
  defines "S \<equiv> iCP0 s iStatus" and "u \<equiv> s\<lparr>g_iopNextEventCycle := psxNextsCounter s + psxNextCounter s\<rparr>"
  shows "iopEventTest env s =
    (if S AND 0xF800 \<noteq> 0 \<or> bit S 10 \<and> (bit S 0 \<or> bit S 9)
     then (psxException 0 False u)\<lparr>iEventAction := True\<rparr> else u)"
proof -
  have "intc_pending u"
    using assms(1) by (simp add: u_def intc_pending_def host_rd_def)
  moreover have "iinterrupt u = 0" "iCP0 u iStatus = S"
    using assms(2) by (simp_all add: u_def S_def)
  ultimately show ?thesis
    using assms(3) by (auto simp: iopEventTest_def Let_def gate_bits u_def [symmetric])
qed

definition pending_sample :: "u32 \<Rightarrow> unit iopState" where
  "pending_sample st = iset_CP0 iStatus st (iop_sample (\<lambda>_. 0))\<lparr>areas := (\<lambda>_ _. 1)\<rparr>"

theorem iop_interrupt_gate_witness:
  "ipc (iopEventTest quiet_iop (pending_sample 0x0800)) = 0x80000080"
proof -
  have p: "intc_pending (pending_sample st)" for st
  proof -
    have "le_read 4 (\<lambda>_. 1) a = (0x01010101 :: u32)" for a
      by (simp only: numeral_nat One_nat_def le_read.simps) simp
    then show ?thesis
      by (simp add: intc_pending_def host_rd_def psxHu_def pending_sample_def)
  qed
  have "(0x0800 :: u32) AND 0xF800 \<noteq> 0"
    by code_simp
  then show ?thesis
    using iop_interrupt_gate [of "pending_sample 0x0800" quiet_iop] p
    by (simp add: pending_sample_def psxTestCycle_def exception_fields)
qed

section \<open>Exceptions in delay slots\<close>

lemma nth_SPC_SYSCALL: "(psxBSC ! 0) env rec s = psxSPECIAL env rec s" "psxSPC ! 12 = plain psxSYSCALL"
  by (simp_all add: psxBSC_def psxSPC_def)

text \<open>
  an exception in a delay slot is lost. When the slot of a taken branch is \<open>SYSCALL\<close> (in main
  memory), the exception is entered: \<open>EPC\<close> is the branch, \<open>Cause\<close> has the branch-delay bit and
  the code, the mode bits are pushed. But \<open>doBranch\<close> then overwrites the program counter with the
  target, so the handler is never reached and the program goes on with interrupts off.
\<close>

theorem iop_delay_slot_lost:
  assumes "psxMemWLUT s = iopMemoryReserve_Reset" "in_ram (ipc s)" "\<not> CurrentIRX env"
    and "le_read 4 (areas s IopVM) (ipc s AND 0x1fffff) = (0x0000000c :: u32)"
  shows "\<exists>t. iop_doBranch env (iop_execI (Suc n) env) tar s = Some (iopEventTest env t) \<and>
    ipc t = tar \<and> iCP0 t iEPC = ipc s - 4 \<and>
    iCP0 t iCause = ((iCP0 s iCause AND NOT 0x7f) OR 0x20) OR 0x80000000 \<and>
    iCP0 t iStatus = (iCP0 s iStatus AND NOT 0x3f) OR push_bit 2 (iCP0 s iStatus AND 0xf)"
proof -
  let ?s = "s\<lparr>branch2 := True, iopIsDelaySlot := True, branchPC := tar\<rparr>"
  have r: "iopMemRead32 env (ipc ?s) ?s = (0xc, ?s)"
    using ram_access(3) [of ?s "ipc s" env] assms by (simp add: host_rd_def)
  define f where "f = iop_fetch env ?s"
  have f: "icode f = 0xc" "ipc f = ipc s + 4" "iCP0 f = iCP0 s" "iopIsDelaySlot f" "branchPC f = tar"
    using r assms(3) by (simp_all add: f_def iop_fetch_def irx_inject_def Let_def)
  have "iop_execI (Suc n) env ?s = Some (psxSYSCALL f)"
    using f(1) by (simp add: f_def [symmetric] nth_SPC_SYSCALL psxSPECIAL_def Funct_def plain_def)
  then have "iop_doBranch env (iop_execI (Suc n) env) tar s =
      Some (iopEventTest env ((psxSYSCALL f)\<lparr>iopIsDelaySlot := False, ipc := branchPC (psxSYSCALL f)\<rparr>))"
    by (simp add: iop_doBranch_def del: iop_execI.simps)
  moreover have "branchPC (psxSYSCALL f) = tar"
    using f(5) by (simp add: psxSYSCALL_def psxException_def Let_def iset_CP0_def)
  ultimately show ?thesis
    using f by (intro exI [of _ "(psxSYSCALL f)\<lparr>iopIsDelaySlot := False, ipc := tar\<rparr>"])
      (simp add: psxSYSCALL_def exception_fields)
qed

definition syscall_slot :: "unit iopState" where
  "syscall_slot = (iop_sample (\<lambda>a. if a = 0x1000 then 0x0c else 0))\<lparr>ipc := 0x80001000\<rparr>"

theorem iop_delay_slot_lost_witness:
  "\<exists>t. iop_doBranch quiet_iop (iop_execI 1 quiet_iop) 0x80002000 syscall_slot = Some (iopEventTest quiet_iop t) \<and>
     ipc t = 0x80002000 \<and> iCP0 t iEPC = 0x80000ffc"
proof -
  have "le_read 4 (\<lambda>a. if a = 0x1000 then 0x0c else 0) 0x1000 = (0x0000000c :: u32)"
    by (simp only: numeral_nat One_nat_def le_read.simps) simp
  then show ?thesis
    using iop_delay_slot_lost [of syscall_slot quiet_iop 0 "0x80002000"]
    by (auto simp: syscall_slot_def in_ram_def quiet_iop_def)
qed

section \<open>Events\<close>

lemma set_next_branch:
  "sint (g_iopNextEventCycle (psxSetNextBranch c d s) - c) = min (sint (g_iopNextEventCycle s - c)) (sint d)"
  by (simp add: psxSetNextBranch_def)

lemma PSX_INT_fields:
  "iinterrupt (PSX_INT n e s) = iinterrupt s OR 2 ^ n"
  "isCycle (PSX_INT n e s) = (isCycle s)(of_nat n := icycle s)"
  "ieCycle (PSX_INT n e s) = (ieCycle s)(of_nat n := e)"
  by (simp_all add: PSX_INT_def Let_def psxSetNextBranchDelta_def psxSetNextBranch_def)

text \<open>
  events of the IOP are not lost. After \<open>PSX_INT\<close> has scheduled event \<open>n\<close>, and as long as
  nothing reschedules it, every test of it either runs its callback, with the request cleared, because
  the delay has passed, or leaves it pending with the next event test no later than its due time.
  And when the EE was the one running, its own next event test is no later than eight times the
  IOP's distance to its next event.
\<close>

theorem iop_event_fires:
  assumes "iinterrupt s = iinterrupt (PSX_INT n e s0)" "isCycle s = isCycle (PSX_INT n e s0)"
    and "ieCycle s = ieCycle (PSX_INT n e s0)" "n < 32"
  shows "(if sint (icycle s - icycle s0) \<ge> sint e
      then IopTestEvent n cb s = cb (s\<lparr>iinterrupt := iinterrupt s AND NOT (push_bit n 1)\<rparr>)
      else bit (iinterrupt (IopTestEvent n cb s)) n \<and>
        sint (g_iopNextEventCycle (IopTestEvent n cb s) - icycle s0) \<le> sint e) \<and>
    (sint (iopCycleEE (slice s0)) < 0 \<longrightarrow>
      (let t = PSX_INT n e s0 in sint (g_nextEventCycle (eeRegs t) - cycle (eeRegs t)) \<le>
         sint ((g_iopNextEventCycle t - icycle t) * 8)))"
proof -
  have f: "bit (iinterrupt s) n" "isCycle s (of_nat n) = icycle s0" "ieCycle s (of_nat n) = e"
    using assms by (simp_all add: PSX_INT_fields bit_or_exp)
  then have "if sint (icycle s - icycle s0) \<ge> sint e
      then IopTestEvent n cb s = cb (s\<lparr>iinterrupt := iinterrupt s AND NOT (push_bit n 1)\<rparr>)
      else bit (iinterrupt (IopTestEvent n cb s)) n \<and>
        sint (g_iopNextEventCycle (IopTestEvent n cb s) - icycle s0) \<le> sint e"
    using set_next_branch [of "icycle s0" e s]
    by (auto simp: IopTestEvent_def psxTestCycle_def) (simp add: psxSetNextBranch_def)
  moreover have "sint (g_nextEventCycle (eeRegs t) - cycle (eeRegs t)) \<le> sint ((g_iopNextEventCycle t - icycle t) * 8)"
    if "t = PSX_INT n e s0" "sint (iopCycleEE (slice s0)) < 0" for t
    using that by (simp add: PSX_INT_def Let_def psxSetNextBranchDelta_def psxSetNextBranch_def
        cpuSetNextEventDelta_def cpuSetNextEvent_def)
  ultimately show ?thesis
    by (simp add: Let_def)
qed

theorem iop_event_fires_witness:
  "bit (iinterrupt (IopTestEvent 2 id (PSX_INT 2 100 (iop_sample (\<lambda>_. 0))))) 2 \<and>
   sint (g_nextEventCycle (eeRegs (PSX_INT 2 100 (iop_sample (\<lambda>_. 0))))) \<le> 32"
  using iop_event_fires [of "PSX_INT 2 100 (iop_sample (\<lambda>_. 0))" 2 100 "iop_sample (\<lambda>_. 0)" id]
  by (simp add: PSX_INT_def Let_def psxSetNextBranchDelta_def psxSetNextBranch_def cpuSetNextEventDelta_def
      cpuSetNextEvent_def cpuReset_regs_def)

section \<open>Memory\<close>

text \<open>
  C18: the IOP's main memory. In every mirror of its 2 MB, and at every width, a load gives the bytes
  at the offset, and a store changes exactly its bytes there and nothing else, so that a load at any
  address of the same offset returns what was stored; while the cache is isolated a store does
  nothing.
\<close>

theorem iop_main_memory:
  fixes v8 :: u8 and v16 :: u16 and v32 :: u32
  assumes "psxMemWLUT s = iopMemoryReserve_Reset" "in_ram a" "in_ram b" "a AND 0x1fffff = b AND 0x1fffff"
  defines "p \<equiv> a AND 0x1fffff" and "m \<equiv> areas s IopVM"
  shows "(if cache_isolated s
     then iopMemWrite8 env a v8 s = s \<and> iopMemWrite16 env a v16 s = s \<and> iopMemWrite32 env a v32 s = s
     else iopMemWrite8 env a v8 s = s\<lparr>areas := (areas s)(IopVM := le_write 1 v8 p m)\<rparr> \<and>
       iopMemWrite16 env a v16 s = s\<lparr>areas := (areas s)(IopVM := le_write 2 v16 p m)\<rparr> \<and>
       iopMemWrite32 env a v32 s = s\<lparr>areas := (areas s)(IopVM := le_write 4 v32 p m)\<rparr> \<and>
       fst (iopMemRead8 env b (iopMemWrite8 env a v8 s)) = v8 \<and>
       fst (iopMemRead16 env b (iopMemWrite16 env a v16 s)) = v16 \<and>
       fst (iopMemRead32 env b (iopMemWrite32 env a v32 s)) = v32) \<and>
    iopMemRead8 env b s = (le_read 1 m p, s) \<and> iopMemRead16 env b s = (le_read 2 m p, s) \<and>
    iopMemRead32 env b s = (le_read 4 m p, s)"
proof -
  have r: "take_bit 8 v8 = v8" "take_bit 16 v16 = v16" "take_bit 32 v32 = v32"
    using take_bit_length_eq [of v8] take_bit_length_eq [of v16] take_bit_length_eq [of v32] by simp_all
  have t: "psxMemWLUT (host_wr n q (v :: 'l::len word) s) = iopMemoryReserve_Reset" for n q v
    using assms(1) by simp
  note w = ram_access(4-6) [OF assms(1,2)] and rd = ram_access(1-3) [OF assms(1,3)]
  note rt = ram_access(1-3) [OF t assms(3)]
  show ?thesis
    unfolding w rd p_def m_def
    using r by (simp add: rt assms(4) host_rd_def le_read_write) (simp add: host_wr_def)
qed

theorem iop_main_memory_witness:
  "fst (iopMemRead32 quiet_iop 0xa0201000
     (iopMemWrite32 quiet_iop 0x80001000 0x12345678 (iop_sample (\<lambda>_. 0)))) = 0x12345678"
proof -
  have "in_ram 0x80001000" "in_ram 0xa0201000" "(0x80001000 :: u32) AND 0x1fffff = 0xa0201000 AND 0x1fffff"
    by (simp_all add: in_ram_def)
  from iop_main_memory [OF iop_sample_simps(2) this, of "\<lambda>_. 0" quiet_iop 0 0 "0x12345678"]
  show ?thesis
    unfolding if_not_P [OF iop_sample_simps(5)] by blast
qed

lemma sif_page:
  assumes "psxMemWLUT s = iopMemoryReserve_Reset"
  shows "RLUT s 0x1d00 = Some (IopVM, 0x210000)" "WLUT s 0x1d00 = None"
  using assms tables(2) [where n = "0x1d00"] by (simp_all add: RLUT_def WLUT_def tables)

lemma host_rd_wr: "n \<le> 4 \<Longrightarrow> 8 * n = LENGTH('l) \<Longrightarrow> host_rd n p (host_wr n p (v :: 'l::len word) s) = v"
  using take_bit_length_eq [of v] by (simp add: host_rd_def le_read_write)

lemma host_rd_other: "fst p \<noteq> fst q \<Longrightarrow> host_rd n p (host_wr k q v s) = host_rd n p s"
  by (simp add: host_rd_def)

text \<open>
  the SBUS registers as the IOP sees them: it cannot write MSCOM; what it writes to SMCOM it reads
  back; writing MSFLG clears the bits written, writing SMFLG sets them. A register without a case
  (here 0x1d000050) loses what is written: the store goes to \<open>iopMem->Sif\<close>, the load reads
  \<open>iopHw\<close>.
\<close>

theorem iop_SBUS_registers:
  assumes "psxMemWLUT s = iopMemoryReserve_Reset"
  shows "iopMemWrite32 env 0x1d000000 v s = s \<and>
    fst (iopMemRead32 env 0x1d000010 (iopMemWrite32 env 0x1d000010 v s)) = v \<and>
    fst (iopMemRead32 env 0x1d000020 (iopMemWrite32 env 0x1d000020 v s)) =
      fst (iopMemRead32 env 0x1d000020 s) AND NOT v \<and>
    fst (iopMemRead32 env 0x1d000030 (iopMemWrite32 env 0x1d000030 v s)) =
      fst (iopMemRead32 env 0x1d000030 s) OR v \<and>
    fst (iopMemRead32 env 0x1d000050 (iopMemWrite32 env 0x1d000050 v s)) =
      fst (iopMemRead32 env 0x1d000050 s)"
proof -
  note sp = sif_page [OF assms]
  have "psxMemWLUT (host_wr n q (u :: u32) s) = iopMemoryReserve_Reset" for n q u
    using assms by simp
  note sp' = sif_page [OF this]
  show ?thesis
    by (simp add: iopMemRead32_def iopMemWrite32_def Let_def sp sp' host_rd_wr)
      (simp add: host_rd_other psxHu_def psxSu_def)
qed

theorem iop_SBUS_registers_witness:
  "fst (iopMemRead32 quiet_iop 0x1d000010 (iopMemWrite32 quiet_iop 0x1d000010 7 (iop_sample (\<lambda>_. 0)))) = 7"
  using iop_SBUS_registers [of "iop_sample (\<lambda>_. 0)" quiet_iop 7] by simp

end
