(* ===== verification/IopUnaligned.thy ===== *)
theory IopUnaligned
  imports IopProps EEProps
begin

text \<open>
  The IOP's unaligned accesses: its four combining functions, written with shifts, are the table
  driven ones of the EE, and the interpretation of \<open>unaligned_bus\<close> on the IOP's main memory gives
  the instruction pairs their meaning.
\<close>

section \<open>The combining functions\<close>

lemma iop_shift_pos4: "iop_shift a = 8 * pos4 a"
proof -
  have "a AND 3 < 4"
    by (rule le_less_trans [OF word_and_le1]) simp
  then have l: "unat (a AND 3) < 4"
    by (simp add: word_less_nat_alt)
  then show ?thesis
    by (simp add: iop_shift_def pos4_def push_bit_eq_mult unat_word_ariths)
qed

lemma shifted_masks:
  "(72057589742960640 :: u32) = 0" "(1099511562240 :: u32) = 4294901760" "(281474959933440 :: u32) = 4278190080"
  "(281470681743360 :: u32) = 0" "(1099494850560 :: u32) = 4278190080" "(1095216660480 :: u32) = 0"
  by code_simp+

lemma iop_combine:
  assumes "k < 4"
  shows "iop_lwl r m (8 * k) = lwl r m k" "iop_lwr r m (8 * k) = lwr r m k"
    "iop_swl r m (8 * k) = swl r m k" "iop_swr r m (8 * k) = swr r m k"
proof -
  from less_cases(1) [OF assms]
  have "iop_lwl r m (8 * k) = lwl r m k \<and> iop_lwr r m (8 * k) = lwr r m k \<and>
      iop_swl r m (8 * k) = swl r m k \<and> iop_swr r m (8 * k) = swr r m k"
    by (elim disjE)
      (simp_all add: iop_lwl_def lwl_def LWL_MASK_def LWL_SHIFT_def iop_lwr_def lwr_def LWR_MASK_def
        LWR_SHIFT_def iop_swl_def swl_def SWL_MASK_def SWL_SHIFT_def iop_swr_def swr_def SWR_MASK_def
        SWR_SHIFT_def or.commute shifted_masks)
  then show "iop_lwl r m (8 * k) = lwl r m k" "iop_lwr r m (8 * k) = lwr r m k"
    "iop_swl r m (8 * k) = swl r m k" "iop_swr r m (8 * k) = swr r m k"
    by blast+
qed

section \<open>Main memory as a bus\<close>

definition ram_off :: "u32 \<Rightarrow> u32" where "ram_off a = a AND 0x1fffff"
definition ram_rd :: "bytes \<Rightarrow> u32 \<Rightarrow> u32" where "ram_rd h a = le_read 4 h (ram_off a)"
definition ram_wr :: "u32 \<Rightarrow> u32 \<Rightarrow> bytes \<Rightarrow> bytes" where "ram_wr a v h = le_write 4 v (ram_off a) h"

lemma ram_off_al4: "ram_off a = ram_off (al4 a) + of_nat (pos4 a)"
proof -
  have "ram_off (al4 a) + (a AND 3) = ram_off (al4 a) OR (a AND 3)"
    by (rule disjunctive_add) (auto simp only: ram_off_def al4_def bit_and_iff bit_not_iff)
  also have "\<dots> = ram_off a"
  proof (rule bit_word_eqI)
    fix n :: nat
    have "bit (3 :: u32) n \<Longrightarrow> bit (0x1fffff :: u32) n"
    proof -
      have "(3 :: u32) = mask 2" by (simp add: mask_eq_exp_minus_1)
      then show "bit (3 :: u32) n \<Longrightarrow> bit (0x1fffff :: u32) n"
        by (simp only: low_mask bit_mask_iff) auto
    qed
    then show "bit (ram_off (al4 a) OR (a AND 3)) n = bit (ram_off a) n"
      unfolding ram_off_def al4_def by (auto simp only: bit_and_iff bit_or_iff bit_not_iff dest: bit_imp_possible_bit)
  qed
  finally show ?thesis
    by (simp add: pos4_def)
qed

interpretation iop_ram: unaligned_bus 4 al4 pos4 ram_rd ram_wr "\<lambda>h. h" ram_off "\<lambda>_. True" lwl lwr swl swr
proof (unfold_locales, goal_cases)
  case (4 a)
  then show ?case by (simp add: pos4_mod)
next
  case (5 a)
  then show ?case using pos4_last [of a] by simp
next
  case (8 a)
  show ?case by (rule ram_off_al4)
qed (simp_all add: ram_rd_def ram_wr_def lwl_byte lwr_byte swl_byte swr_byte)

section \<open>The instructions on main memory\<close>

definition with_icode :: "u32 \<Rightarrow> 'd iopState \<Rightarrow> 'd iopState" where
  "with_icode c s = s\<lparr>icode := c\<rparr>"

definition set_ram :: "bytes \<Rightarrow> 'd iopState \<Rightarrow> 'd iopState" where
  "set_ram h s = s\<lparr>areas := (areas s)(IopVM := h)\<rparr>"

lemma ram_frame [simp]:
  "iGPR (set_ram h s) = iGPR s" "icode (set_ram h s) = icode s" "psxMemWLUT (set_ram h s) = psxMemWLUT s"
  "areas (set_ram h s) IopVM = h" "cache_isolated (set_ram h s) = cache_isolated s"
  "set_ram h (set_ram k s) = set_ram h s" "with_icode c (set_ram h s) = set_ram h (with_icode c s)"
  "iGPR (with_icode c s) = iGPR s" "icode (with_icode c s) = c" "areas (with_icode c s) = areas s"
  "psxMemWLUT (with_icode c s) = psxMemWLUT s" "cache_isolated (with_icode c s) = cache_isolated s"
  "with_icode c (with_icode d s) = with_icode c s" "areas (iset r v s) = areas s"
  "with_icode c (iset r v s) = iset r v (with_icode c s)" "psxMemWLUT (iset r v s) = psxMemWLUT s"
  by (simp_all add: set_ram_def with_icode_def cache_isolated_def iset_def)

lemma oB_with_icode [simp]: "oB (with_icode (encodeI rt rs d) s) = iGPR s rs + scast d"
  by (simp add: oB_def iImm_def)

lemma oB_frame [simp]: "oB (set_ram h s) = oB s" "cache_isolated (iset r v s) = cache_isolated s"
  "icode (iset r v s) = icode s"
  "r \<noteq> rs \<Longrightarrow> oB (iset r v (with_icode (encodeI rt rs d) s)) = iGPR s rs + scast d"
  by (simp_all add: oB_def iImm_def cache_isolated_def iset_def)

lemma ram_word:
  assumes "psxMemWLUT s = iopMemoryReserve_Reset" "in_ram a" "\<not> cache_isolated s"
  shows "iopMemRead32 env (al4 a) s = (ram_rd (areas s IopVM) (al4 a), s)"
    "iopMemWrite32 env (al4 a) v s = set_ram (ram_wr (al4 a) v (areas s IopVM)) s"
proof -
  have "al4 a AND 0x1fffffff = NOT 3 AND (a AND 0x1fffffff)"
    by (simp only: al4_def and.assoc and.left_commute)
  also have "\<dots> \<le> a AND 0x1fffffff"
    by (rule word_and_le1)
  finally have "al4 a AND 0x1fffffff \<le> a AND 0x1fffffff" .
  then have "in_ram (al4 a)"
    using assms(2) by (simp add: in_ram_def word_le_nat_alt)
  from ram_access [OF assms(1) this] assms(3)
  show "iopMemRead32 env (al4 a) s = (ram_rd (areas s IopVM) (al4 a), s)"
    "iopMemWrite32 env (al4 a) v s = set_ram (ram_wr (al4 a) v (areas s IopVM)) s"
    by (simp_all add: ram_rd_def ram_wr_def ram_off_def host_rd_def host_wr_def set_ram_def)
qed

lemma al4_mask: "a AND 0xfffffffc = al4 a"
proof -
  have "(0xfffffffc :: u32) = NOT 3"
    by code_simp
  then show ?thesis
    by (simp only: al4_def)
qed

lemma pos4_less [simp]: "pos4 a < 4"
  by (simp add: pos4_mod)

lemma store_ops:
  assumes "psxMemWLUT s = iopMemoryReserve_Reset" "in_ram (oB s)" "\<not> cache_isolated s"
  defines "h \<equiv> areas s IopVM" and "a \<equiv> oB s"
  shows "psxSWL env s = set_ram (ram_wr (al4 a) (swl (irRt s) (ram_rd h (al4 a)) (pos4 a)) h) s"
    "psxSWR env s = set_ram (ram_wr (al4 a) (swr (irRt s) (ram_rd h (al4 a)) (pos4 a)) h) s"
    "psxLWL env s = to_Rt (lwl (irRt s) (ram_rd h (al4 a)) (pos4 a)) s"
    "psxLWR env s = to_Rt (lwr (irRt s) (ram_rd h (al4 a)) (pos4 a)) s"
  using ram_word [OF assms(1-3)]
  by (simp_all add: psxSWL_def psxSWR_def psxLWL_def psxLWR_def al4_mask iop_shift_pos4 iop_combine
      h_def a_def Let_def)

lemma ram_off_3:
  assumes "unat (a AND 0x1fffff) \<le> 0x1ffffc"
  shows "ram_off (a + 3) = ram_off a + 3"
proof -
  have m: "unat (w AND 0x1fffff) = unat w mod 2 ^ 21" for w :: u32
  proof -
    have "unat (take_bit 21 w) = take_bit 21 (unat w)"
      by (rule unsigned_take_bit_eq)
    then show ?thesis
      by (simp only: low_mask take_bit_eq_mask [of 21 w, symmetric] take_bit_eq_mod [of 21 "unat w"])
  qed
  have "unat (a + 3) mod 2 ^ 21 = (unat a + 3) mod 2 ^ 21"
    by (simp add: unat_word_ariths mod_mod_cancel)
  also have "\<dots> = (unat a mod 2 ^ 21 + 3) mod 2 ^ 21"
    by (simp only: mod_add_left_eq)
  also have "\<dots> = unat a mod 2 ^ 21 + 3"
    using assms unfolding m by simp
  finally have "unat (ram_off (a + 3)) = unat (ram_off a) + 3"
    by (simp only: ram_off_def m)
  moreover have "unat (ram_off a + 3) = unat (ram_off a) + 3"
    using assms by (simp add: ram_off_def unat_word_ariths)
  ultimately show ?thesis
    by (simp only: word_unat_eq_iff)
qed

text \<open>An address whose word lies in the main memory, not across its end.\<close>

definition ram_word_at :: "u32 \<Rightarrow> bool" where
  "ram_word_at a \<longleftrightarrow> in_ram a \<and> in_ram (a + 3) \<and> unat (a AND 0x1fffff) \<le> 0x1ffffc"

text \<open>
  C21: the IOP's unaligned word accesses on main memory: \<open>SWR rt, d(rs)\<close> followed by
  \<open>SWL rt, d+3(rs)\<close> writes the four bytes of \<open>rt\<close> at the effective address (in every mirror, the
  2 MB are the same bytes) and changes nothing else; \<open>LWL rt, d+3(rs)\<close> followed by
  \<open>LWR rt, d(rs)\<close> loads the word from there.
\<close>

theorem iop_unaligned:
  fixes d d3 :: u16
  assumes "psxMemWLUT s = iopMemoryReserve_Reset" "\<not> cache_isolated s"
    and "ram_word_at (iGPR s rs + scast d)" "(scast d3 :: u32) = scast d + 3" "rt \<noteq> rs" "rt \<noteq> 0"
  defines "a \<equiv> (iGPR s rs + scast d) AND 0x1fffff"
  shows "psxSWL env (with_icode (encodeI rt rs d3) (psxSWR env (with_icode (encodeI rt rs d) s))) =
      set_ram (le_write 4 (iGPR s rt) a (areas s IopVM)) (with_icode (encodeI rt rs d3) s) \<and>
    iGPR (psxLWR env (with_icode (encodeI rt rs d) (psxLWL env (with_icode (encodeI rt rs d3) s)))) =
      (iGPR s)(rt := le_read 4 (areas s IopVM) a)"
proof (intro conjI)
  let ?b = "iGPR s rs + scast d"
  have w: "in_ram ?b" "in_ram (?b + 3)" "ram_off (?b + 3) = ram_off ?b + of_nat (4 - 1)"
    using assms(3) ram_off_3 [of ?b] by (simp_all add: ram_word_at_def)
  have b3: "iGPR s rs + scast d3 = ?b + 3"
    by (simp add: assms(4))
  have a: "a = ram_off ?b"
    by (simp add: a_def ram_off_def)
  have b': "?b + 3 = ?b + of_nat (4 - 1)"
    by simp
  show "psxSWL env (with_icode (encodeI rt rs d3) (psxSWR env (with_icode (encodeI rt rs d) s))) =
      set_ram (le_write 4 (iGPR s rt) a (areas s IopVM)) (with_icode (encodeI rt rs d3) s)"
    using iop_ram.store_unaligned [OF TrueI TrueI b' w(3), of "iGPR s rt" "areas s IopVM"] assms(1,2) w(1,2)
    by (simp add: store_ops b3 a)
  have "iGPR (psxLWL env (with_icode (encodeI rt rs d3) s)) = (iGPR s)(rt :=
      lwl (iGPR s rt) (ram_rd (areas s IopVM) (al4 (?b + 3))) (pos4 (?b + 3)))"
    using assms(1,2,6) w(2) by (simp add: store_ops b3 to_Rt_def iset_def)
  show "iGPR (psxLWR env (with_icode (encodeI rt rs d) (psxLWL env (with_icode (encodeI rt rs d3) s)))) =
      (iGPR s)(rt := le_read 4 (areas s IopVM) a)"
    using iop_ram.load_unaligned [OF TrueI TrueI b' w(3), of "iGPR s rt" "areas s IopVM"] assms(1,2,5,6) w(1,2)
    by (simp add: store_ops b3 a to_Rt_def)
qed

theorem iop_unaligned_witness:
  "psxSWL quiet_iop (with_icode (encodeI 2 4 4) (psxSWR quiet_iop (with_icode (encodeI 2 4 1)
     (iset 4 0x80001000 (iset 2 0x11223344 (iop_sample (\<lambda>_. 0))))))) =
   set_ram (le_write 4 (0x11223344 :: u32) 0x1001 (\<lambda>_. 0)) (with_icode (encodeI 2 4 4)
     (iset 4 0x80001000 (iset 2 0x11223344 (iop_sample (\<lambda>_. 0)))))"
  using iop_unaligned [of "iset 4 0x80001000 (iset 2 0x11223344 (iop_sample (\<lambda>_. 0)))" 4 1 4 2 quiet_iop]
  by (simp add: ram_word_at_def in_ram_def)

end
