(* ===== verification/SifFifo.thy ===== *)
theory SifFifo
  imports Prelude
begin

text \<open>
  The FIFO between the EE and the IOP (\<open>struct sifFifo\<close>, \<open>pcsx2/Sif.h\<close>): a ring of 128 words with
  \<open>memcpy\<close> in two parts at the wrap. The locale \<open>word_fifo\<close> is what the DMA code relies on, a queue
  of words; the interpretation shows that the ring is one while \<open>fifo_ok\<close> holds.
\<close>

section \<open>The ring\<close>

record sifFifo =
  fdata :: "u32 list"
  readPos :: nat
  writePos :: nat
  fsize :: int

definition sif_free :: "sifFifo \<Rightarrow> int" where
  "sif_free f = 128 - fsize f"

text \<open>\<open>memcpy(&data[pos], ws, \<dots>)\<close> and the other direction.\<close>

definition copy_in :: "nat \<Rightarrow> 'a list \<Rightarrow> 'a list \<Rightarrow> 'a list" where
  "copy_in pos ws d = take pos d @ ws @ drop (pos + length ws) d"

definition copy_out :: "nat \<Rightarrow> nat \<Rightarrow> 'a list \<Rightarrow> 'a list" where
  "copy_out pos n d = take n (drop pos d)"

text \<open>
  \<open>write(from, words)\<close>: \<open>from\<close> is the list of words at the pointer, at least \<open>words\<close> of them.
\<close>

definition fifo_write :: "u32 list \<Rightarrow> int \<Rightarrow> sifFifo \<Rightarrow> sifFifo" where
  "fifo_write from words f =
     (if words > 0 then
        let wP0 = min (128 - int (writePos f)) words;
            wP1 = words - wP0;
            d = copy_in (writePos f) (take (nat wP0) from) (fdata f);
            d = copy_in 0 (take (nat wP1) (drop (nat wP0) from)) d
        in f\<lparr>fdata := d, writePos := (writePos f + nat words) AND 127, fsize := fsize f + words\<rparr>
      else f)"

definition fifo_read :: "int \<Rightarrow> sifFifo \<Rightarrow> u32 list \<times> sifFifo" where
  "fifo_read words f =
     (if words > 0 then
        let wP0 = min (128 - int (readPos f)) words;
            wP1 = words - wP0
        in (copy_out (readPos f) (nat wP0) (fdata f) @ copy_out 0 (nat wP1) (fdata f),
            f\<lparr>readPos := (readPos f + nat words) AND 127, fsize := fsize f - words\<rparr>)
      else ([], f))"

definition fifo_clear :: "sifFifo \<Rightarrow> sifFifo" where
  "fifo_clear f = \<lparr>fdata = replicate 128 0, readPos = 0, writePos = 0, fsize = 0\<rparr>"

section \<open>The queue it implements\<close>

definition fifo_ok :: "sifFifo \<Rightarrow> bool" where
  "fifo_ok f \<longleftrightarrow> length (fdata f) = 128 \<and> readPos f < 128 \<and> 0 \<le> fsize f \<and> fsize f \<le> 128 \<and>
     writePos f = (readPos f + nat (fsize f)) mod 128"

definition fifo_words :: "sifFifo \<Rightarrow> u32 list" where
  "fifo_words f = take (nat (fsize f)) (rotate (readPos f) (fdata f))"

lemma and_127: "(n :: nat) AND 127 = n mod 128"
proof -
  have "(127 :: nat) = mask 7"
    by (simp add: mask_eq_exp_minus_1)
  then show ?thesis
    by (simp only: take_bit_eq_mask [symmetric]) (simp add: take_bit_eq_mod)
qed

lemma nth_words:
  "fifo_ok f \<Longrightarrow> i < nat (fsize f) \<Longrightarrow> fifo_words f ! i = fdata f ! ((readPos f + i) mod 128)"
  by (clarsimp simp: fifo_words_def fifo_ok_def nth_rotate add.commute)

lemma length_words: "fifo_ok f \<Longrightarrow> length (fifo_words f) = nat (fsize f)"
  by (auto simp: fifo_words_def fifo_ok_def)

lemma length_copy_in [simp]: "pos + length ws \<le> length d \<Longrightarrow> length (copy_in pos ws d) = length d"
  by (simp add: copy_in_def)

lemma nth_copy_in:
  "pos + length ws \<le> length d \<Longrightarrow> i < length d \<Longrightarrow>
   copy_in pos ws d ! i = (if pos \<le> i \<and> i < pos + length ws then ws ! (i - pos) else d ! i)"
  by (auto simp: copy_in_def nth_append)

text \<open>The ring after a write, word by word.\<close>

lemma fifo_write_fields:
  assumes "length (fdata f) = 128" "writePos f < 128" "length ws \<le> 128"
  defines "g \<equiv> fifo_write ws (int (length ws)) f"
  defines "k \<equiv> min (128 - writePos f) (length ws)"
  shows "fdata g = copy_in 0 (drop k ws) (copy_in (writePos f) (take k ws) (fdata f))"
    "length (fdata g) = 128" "writePos g = (writePos f + length ws) mod 128"
    "fsize g = fsize f + int (length ws)" "readPos g = readPos f"
proof -
  have wp0: "nat (min (128 - int (writePos f)) (int (length ws))) = k"
    using assms(2) by (auto simp: k_def min_def)
  have wp1: "nat (int (length ws) - min (128 - int (writePos f)) (int (length ws))) = length ws - k"
    using assms(2) by (auto simp: k_def min_def)
  have n: "length ws = 0 \<Longrightarrow> ws = [] \<and> k = 0"
    by (simp add: k_def)
  show g: "fdata g = copy_in 0 (drop k ws) (copy_in (writePos f) (take k ws) (fdata f))"
    unfolding g_def fifo_write_def Let_def wp0 wp1 by (auto simp: copy_in_def dest: n)
  show "writePos g = (writePos f + length ws) mod 128" "fsize g = fsize f + int (length ws)"
    "readPos g = readPos f"
    using assms(2) by (auto simp: g_def fifo_write_def Let_def and_127)
  have "writePos f + k \<le> 128" "length ws - k \<le> 128"
    using assms(2,3) by (auto simp: k_def)
  then show "length (fdata g) = 128"
    unfolding g using assms(1) by (simp add: k_def)
qed

lemma fifo_write_ring:
  assumes "length (fdata f) = 128" "writePos f < 128" "length ws \<le> 128" "j < 128"
  shows "fdata (fifo_write ws (int (length ws)) f) ! ((writePos f + j) mod 128) =
      (if j < length ws then ws ! j else fdata f ! ((writePos f + j) mod 128))"
proof -
  define k where "k = min (128 - writePos f) (length ws)"
  have kl: "k \<le> length ws" "writePos f + k \<le> 128"
    using assms(2) by (auto simp: k_def)
  define d where "d = copy_in (writePos f) (take k ws) (fdata f)"
  have k: "writePos f + length (take k ws) \<le> length (fdata f)"
    using kl assms(1) by simp
  have l: "length d = 128"
    using length_copy_in [OF k] assms(1) by (simp add: d_def)
  have k': "0 + length (drop k ws) \<le> length d"
    using assms(3) by (simp add: l)
  define q where "q = (writePos f + j) mod 128"
  have q: "q < 128" "q = (if writePos f + j < 128 then writePos f + j else writePos f + j - 128)"
    using assms(2,4) by (simp_all add: q_def le_mod_geq)
  have q1: "q < length (fdata f)" "q < length d"
    using q(1) assms(1) l by simp_all
  have "copy_in 0 (drop k ws) d ! q = (if q < length ws - k then ws ! (k + q) else d ! q)"
    using nth_copy_in [OF k' q1(2)] kl by simp
  moreover have "d ! q = (if writePos f \<le> q \<and> q < writePos f + k then ws ! (q - writePos f) else fdata f ! q)"
    using nth_copy_in [OF k q1(1)] kl by (auto simp: d_def)
  ultimately have "copy_in 0 (drop k ws) d ! q = (if j < length ws then ws ! j else fdata f ! q)"
    using q(2) assms(2-4) kl by (auto simp: k_def min_def split: if_splits)
  then show ?thesis
    unfolding fifo_write_fields(1) [OF assms(1-3)] q_def d_def k_def .
qed

text \<open>The words that a read returns.\<close>

lemma fifo_read_words:
  assumes "fifo_ok f" "n \<le> nat (fsize f)"
  shows "fst (fifo_read (int n) f) = take n (fifo_words f)"
proof -
  have f: "length (fdata f) = 128" "readPos f < 128" "n \<le> 128"
    using assms by (auto simp: fifo_ok_def)
  define k where "k = min (128 - readPos f) n"
  have wp: "nat (min (128 - int (readPos f)) (int n)) = k" "nat (int n - min (128 - int (readPos f)) (int n)) = n - k"
    using f(2) by (auto simp: k_def min_def)
  have "fst (fifo_read (int n) f) = take k (drop (readPos f) (fdata f)) @ take (n - k) (fdata f)"
    unfolding fifo_read_def Let_def wp by (auto simp: copy_out_def k_def)
  also have "\<dots> = take n (drop (readPos f) (fdata f) @ take (readPos f) (fdata f))"
    using f by (auto simp: k_def min_def)
  also have "drop (readPos f) (fdata f) @ take (readPos f) (fdata f) = rotate (readPos f) (fdata f)"
    using f by (simp add: rotate_drop_take)
  finally show ?thesis
    using assms(2) by (simp add: fifo_words_def)
qed

lemma fifo_read_fields:
  "readPos (snd (fifo_read (int n) f)) = (if n = 0 then readPos f else (readPos f + n) mod 128)"
  "fsize (snd (fifo_read (int n) f)) = fsize f - int n"
  "fdata (snd (fifo_read (int n) f)) = fdata f" "writePos (snd (fifo_read (int n) f)) = writePos f"
  by (auto simp: fifo_read_def Let_def and_127)

text \<open>The four laws.\<close>

lemma words_write:
  assumes "fifo_ok f" "int (length ws) \<le> sif_free f"
  shows "fifo_ok (fifo_write ws (int (length ws)) f)"
    "fifo_words (fifo_write ws (int (length ws)) f) = fifo_words f @ ws"
proof -
  have f: "length (fdata f) = 128" "writePos f < 128" "length ws \<le> 128"
    and s: "0 \<le> fsize f" "fsize f + int (length ws) \<le> 128" "readPos f < 128"
    and w: "writePos f = (readPos f + nat (fsize f)) mod 128"
    using assms by (auto simp: fifo_ok_def sif_free_def)
  note g = fifo_write_fields [OF f]
  let ?g = "fifo_write ws (int (length ws)) f"
  have sz: "nat (fsize ?g) = nat (fsize f) + length ws"
    using s by (simp add: g(4) nat_add_distrib)
  show ok: "fifo_ok ?g"
    using s w g(2) unfolding fifo_ok_def g(3-5) by (auto simp: nat_add_distrib mod_add_left_eq add.assoc)
  show "fifo_words ?g = fifo_words f @ ws"
  proof (rule nth_equalityI)
    show "length (fifo_words ?g) = length (fifo_words f @ ws)"
      by (simp add: length_words ok assms(1) sz)
  next
    fix i assume i: "i < length (fifo_words ?g)"
    then have i': "i < nat (fsize ?g)"
      by (simp add: length_words ok)
    have r: "fifo_words ?g ! i = fdata ?g ! ((readPos f + i) mod 128)"
      using nth_words [OF ok i'] by (simp add: g)
    define n where "n = nat (fsize f)"
    have n: "n + length ws \<le> 128" "i < n + length ws"
      using s i' by (simp_all add: n_def sz)
    show "fifo_words ?g ! i = (fifo_words f @ ws) ! i"
    proof (cases "i < n")
      case False
      have "(writePos f + (i - n)) mod 128 = (readPos f + i) mod 128"
      proof -
        obtain d where "i = n + d"
          using False le_Suc_ex not_less by blast
        then show ?thesis
          by (simp add: w n_def [symmetric] mod_add_left_eq add.assoc)
      qed
      moreover have "i - n < length ws" "i - n < 128"
        using n False by auto
      ultimately show ?thesis
        using fifo_write_ring [OF f, of "i - n"] False n length_words [OF assms(1)]
        by (simp add: r nth_append n_def [symmetric])
    next
      case True
      have "(writePos f + (128 - n + i)) mod 128 = (readPos f + i) mod 128"
      proof -
        have "(writePos f + (128 - n + i)) mod 128 = (readPos f + n + (128 - n + i)) mod 128"
          by (simp only: w n_def [symmetric] mod_add_left_eq)
        also have "readPos f + n + (128 - n + i) = readPos f + i + 128"
          using n by simp
        finally show ?thesis by simp
      qed
      moreover have "\<not> 128 - n + i < length ws" "128 - n + i < 128"
        using n True by auto
      ultimately show ?thesis
        using fifo_write_ring [OF f, of "128 - n + i"] True n nth_words [OF assms(1), of i]
          length_words [OF assms(1)]
        by (simp add: r nth_append n_def [symmetric])
    qed
  qed
qed

lemma words_read:
  assumes "fifo_ok f" "int n \<le> fsize f"
  shows "fifo_ok (snd (fifo_read (int n) f))"
    "fst (fifo_read (int n) f) @ fifo_words (snd (fifo_read (int n) f)) = fifo_words f"
    "length (fst (fifo_read (int n) f)) = n"
proof -
  have f: "length (fdata f) = 128" "readPos f < 128" "0 \<le> fsize f" "fsize f \<le> 128" "n \<le> nat (fsize f)"
    "writePos f = (readPos f + nat (fsize f)) mod 128"
    using assms by (auto simp: fifo_ok_def)
  let ?g = "snd (fifo_read (int n) f)"
  have sz: "nat (fsize ?g) = nat (fsize f) - n"
    using f by (simp add: fifo_read_fields nat_diff_distrib)
  have "(readPos ?g + nat (fsize ?g)) mod 128 = (readPos f + nat (fsize f)) mod 128"
  proof -
    obtain d where d: "nat (fsize f) = n + d"
      using f(5) le_Suc_ex by blast
    show ?thesis
      unfolding sz fifo_read_fields(1) d by (simp add: mod_add_left_eq add.assoc)
  qed
  then show ok: "fifo_ok ?g"
    using f assms(2) unfolding fifo_ok_def fifo_read_fields by auto
  show "length (fst (fifo_read (int n) f)) = n"
    using f(5) by (simp add: fifo_read_words [OF assms(1)] length_words [OF assms(1)])
  have "fifo_words ?g = drop n (fifo_words f)"
  proof (rule nth_equalityI)
    show "length (fifo_words ?g) = length (drop n (fifo_words f))"
      by (simp add: length_words ok assms(1) sz)
  next
    fix i assume "i < length (fifo_words ?g)"
    then have i: "i < nat (fsize ?g)" "n + i < nat (fsize f)"
      by (simp_all add: length_words ok sz)
    have "(readPos ?g + i) mod 128 = (readPos f + (n + i)) mod 128"
      unfolding fifo_read_fields by (simp add: mod_add_left_eq add.assoc)
    then show "fifo_words ?g ! i = drop n (fifo_words f) ! i"
      using nth_words [OF ok i(1)] nth_words [OF assms(1) i(2)] f(5)
      by (simp add: fifo_read_fields(3) length_words [OF assms(1)])
  qed
  then show "fst (fifo_read (int n) f) @ fifo_words ?g = fifo_words f"
    using fifo_read_words [OF assms(1) f(5)] by simp
qed

section \<open>The interface\<close>

text \<open>
  What the DMA code relies on: \<open>queued\<close> is the queue's contents, \<open>ok\<close> its
  valid states.
\<close>

locale word_fifo =
  fixes empty :: 'q and put :: "'w list \<Rightarrow> 'q \<Rightarrow> 'q" and get :: "nat \<Rightarrow> 'q \<Rightarrow> 'w list \<times> 'q"
    and queued :: "'q \<Rightarrow> 'w list" and ok :: "'q \<Rightarrow> bool" and capacity :: nat
  assumes empty: "ok empty" "queued empty = []"
    and put: "ok q \<Longrightarrow> length (queued q) + length ws \<le> capacity \<Longrightarrow>
      ok (put ws q) \<and> queued (put ws q) = queued q @ ws"
    and get: "ok q \<Longrightarrow> n \<le> length (queued q) \<Longrightarrow>
      ok (snd (get n q)) \<and> fst (get n q) @ queued (snd (get n q)) = queued q \<and> length (fst (get n q)) = n"
begin

lemma get_take: "ok q \<Longrightarrow> n \<le> length (queued q) \<Longrightarrow> fst (get n q) = take n (queued q)"
  using get [of q n] by (metis append_eq_conv_conj)

lemma get_drop: "ok q \<Longrightarrow> n \<le> length (queued q) \<Longrightarrow> queued (snd (get n q)) = drop n (queued q)"
  using get [of q n] by (metis append_eq_conv_conj)

end

definition fifo_put :: "u32 list \<Rightarrow> sifFifo \<Rightarrow> sifFifo" where
  "fifo_put ws f = fifo_write ws (int (length ws)) f"

definition fifo_get :: "nat \<Rightarrow> sifFifo \<Rightarrow> u32 list \<times> sifFifo" where
  "fifo_get n f = fifo_read (int n) f"

definition fifo_init :: sifFifo where
  "fifo_init = \<lparr>fdata = replicate 128 0, readPos = 0, writePos = 0, fsize = 0\<rparr>"

lemma size_words: "fifo_ok f \<Longrightarrow> fsize f = int (length (fifo_words f))"
  using length_words [of f] by (simp add: fifo_ok_def)

interpretation sif: word_fifo fifo_init fifo_put fifo_get fifo_words fifo_ok 128
proof (unfold_locales, goal_cases)
  case 1
  then show ?case by (simp add: fifo_init_def fifo_ok_def)
next
  case 2
  then show ?case by (simp add: fifo_init_def fifo_words_def)
next
  case (3 q ws)
  then show ?case
    using words_write [of q ws] size_words [of q] by (simp add: fifo_put_def sif_free_def)
next
  case (4 q n)
  then show ?case
    using words_read [of q n] size_words [of q] by (simp add: fifo_get_def)
qed

text \<open>
  C22: The ring buffer is a queue. From any valid state, a write that fits appends its words to the
  contents, a read that finds enough words returns the oldest ones and removes them, both across
  the wrap and up to the full 128 words; both keep the state valid, and clearing empties it.
\<close>

theorem sif_fifo_queue:
  assumes "fifo_ok f" "fsize f + int (length ws) \<le> 128" "int n \<le> fsize f"
  shows "fifo_ok (fifo_write ws (int (length ws)) f) \<and>
    fifo_words (fifo_write ws (int (length ws)) f) = fifo_words f @ ws \<and>
    fifo_ok (snd (fifo_read (int n) f)) \<and> fst (fifo_read (int n) f) = take n (fifo_words f) \<and>
    fifo_words (snd (fifo_read (int n) f)) = drop n (fifo_words f) \<and>
    fifo_ok (fifo_clear f) \<and> fifo_words (fifo_clear f) = []"
  using sif.put [OF assms(1), of ws] sif.get [OF assms(1), of n] sif.get_take [OF assms(1), of n]
    sif.get_drop [OF assms(1), of n] sif.empty assms(2,3) size_words [OF assms(1)]
  by (simp add: fifo_put_def fifo_get_def fifo_clear_def fifo_init_def)

definition wrapped_sample :: sifFifo where
  "wrapped_sample = \<lparr>fdata = map of_nat [0..<128], readPos = 126, writePos = 2, fsize = 4\<rparr>"

theorem sif_fifo_queue_witness:
  "fst (fifo_read 3 wrapped_sample) = [126, 127, 0] \<and>
   fifo_words (fifo_write [7, 8] 2 wrapped_sample) = [126, 127, 0, 1, 7, 8]"
proof -
  have ok: "fifo_ok wrapped_sample"
    by (simp add: fifo_ok_def wrapped_sample_def)
  have w: "fifo_words wrapped_sample = [126, 127, 0, 1]"
    by code_simp
  from sif_fifo_queue [OF ok, of "[7, 8]" 3] show ?thesis
    unfolding w by (simp add: wrapped_sample_def)
qed

end
