(* ===== verification/IopIrq.thy ===== *)
theory IopIrq
  imports IopCpu
begin

text \<open>
  Interrupt requests of the IOP's devices (\<open>pcsx2/IopIrq.cpp\<close>) and of its DMA controller
  (\<open>psxDmaInterrupt\<close> and \<open>psxDmaInterrupt2\<close>, \<open>pcsx2/IopHw.cpp\<close>), and the EE's \<open>hwIntcIrq\<close> and
  \<open>hwDmacIrq\<close> (\<open>pcsx2/Hw.cpp\<close>), which the shared DMA channels raise.
\<close>

definition hw_or :: "host_ptr \<Rightarrow> u32 \<Rightarrow> 'd iopState \<Rightarrow> 'd iopState" where
  "hw_or p v s = host_wr 4 p (host_rd 4 p s OR v) s"

definition iopIntcIrq :: "nat \<Rightarrow> 'd iopState \<Rightarrow> 'd iopState" where
  "iopIntcIrq irqType s = iopTestIntc (hw_or (psxHu 0x1070) (push_bit irqType 1) s)"

definition dev9Irq :: "u32 \<Rightarrow> 'd iopState \<Rightarrow> 'd iopState" where
  "dev9Irq cycles = PSX_INT IopEvt_DEV9 cycles"

definition usbIrq :: "u32 \<Rightarrow> 'd iopState \<Rightarrow> 'd iopState" where
  "usbIrq cycles = PSX_INT IopEvt_USB cycles"

text \<open>The plugins' handlers: \<open>None\<close> is the null pointer; they answer 1 to raise the interrupt.\<close>

definition dev9Interrupt ::
  "('d iopState \<Rightarrow> u32 \<times> 'd iopState) option \<Rightarrow> 'd iopState \<Rightarrow> 'd iopState" where
  "dev9Interrupt h s =
     (case h of None \<Rightarrow> iopIntcIrq 13 s
      | Some f \<Rightarrow> (let (r, s) = f s in if r \<noteq> 1 then s else iopIntcIrq 13 s))"

definition usbInterrupt ::
  "('d iopState \<Rightarrow> u32 \<times> 'd iopState) option \<Rightarrow> 'd iopState \<Rightarrow> 'd iopState" where
  "usbInterrupt h s =
     (case h of None \<Rightarrow> iopIntcIrq 22 s
      | Some f \<Rightarrow> (let (r, s) = f s in if r \<noteq> 1 then s else iopIntcIrq 22 s))"

definition fwIrq :: "'d iopState \<Rightarrow> 'd iopState" where "fwIrq = iopIntcIrq 24"
definition spu2Irq :: "'d iopState \<Rightarrow> 'd iopState" where "spu2Irq = iopIntcIrq 9"

section \<open>The IOP's DMA interrupts\<close>

text \<open>The first channel below 6 that is enabled and flagged, for the request 33.\<close>

definition flagged_channel :: "u32 \<Rightarrow> nat option" where
  "flagged_channel icr = List.find (\<lambda>i. bit icr (16 + i) \<and> bit icr (24 + i)) [0..<6]"

definition master_irq :: "host_ptr \<Rightarrow> 'd iopState \<Rightarrow> 'd iopState" where
  "master_irq icr s = (if bit (host_rd 4 icr s :: u32) 23 then hw_or icr 0x80000000 s else s)"

definition psxDmaInterrupt :: "nat \<Rightarrow> 'd iopState \<Rightarrow> 'd iopState" where
  "psxDmaInterrupt n s =
     (let icr = psxHu 0x10f4
      in if n = 33 then
           (case flagged_channel (host_rd 4 icr s) of
              None \<Rightarrow> s
            | Some i \<Rightarrow>
                (let s = master_irq icr s
                 in iopIntcIrq 3 (iset_CP0 iCause (iCP0 s iCause AND NOT 0x7C) s)))
         else if bit (host_rd 4 icr s :: u32) (16 + n)
         then iopIntcIrq 3 (master_irq icr (hw_or icr (push_bit (24 + n) 1) s))
         else s)"

definition psxDmaInterrupt2 :: "nat \<Rightarrow> 'd iopState \<Rightarrow> 'd iopState" where
  "psxDmaInterrupt2 n s =
     (let icr = psxHu 0x1574
      in if n = 33 then
           (case flagged_channel (host_rd 4 icr s) of
              None \<Rightarrow> s
            | Some i \<Rightarrow> iopIntcIrq 3 (master_irq icr s))
         else if bit (host_rd 4 icr s :: u32) (16 + n)
         then iopIntcIrq 3 (master_irq icr (hw_or icr (push_bit (24 + n) 1) s))
         else s)"

section \<open>The EE's interrupt and DMA controllers\<close>

text \<open>The EE's registers and the time slice, which its interrupt tests may cut short.\<close>

definition on_ee ::
  "(iop_slice \<times> cpuRegisters \<Rightarrow> iop_slice \<times> cpuRegisters) \<Rightarrow> 'd iopState \<Rightarrow> 'd iopState" where
  "on_ee f s = (let (i, r) = f (slice s, eeRegs s) in s\<lparr>slice := i, eeRegs := r\<rparr>)"

definition hwIntcIrq :: "nat \<Rightarrow> 'd iopState \<Rightarrow> 'd iopState" where
  "hwIntcIrq n s =
     (let s = hw_or (psHu 0x1000f000) (push_bit n 1) s;
          pending = (host_rd 4 (psHu 0x1000f000) s AND host_rd 4 (psHu 0x1000f010) s \<noteq> (0 :: u32))
      in if bit (host_rd 4 (psHu 0x1000f010) s :: u32) n
         then on_ee (cpuTestINTCInts pending (eeTestActive s)) s else s)"

definition hwDmacIrq :: "nat \<Rightarrow> 'd iopState \<Rightarrow> 'd iopState" where
  "hwDmacIrq n s =
     (let s = hw_or (psHu 0x1000e010) (push_bit n 1) s;
          pending = (host_rd 2 (psHu 0xe012) s AND host_rd 2 (psHu 0xe010) s \<noteq> (0 :: u16) \<or>
            host_rd 2 (psHu 0xe010) s AND 0x8000 \<noteq> (0 :: u16))
      in if bit (host_rd 2 (psHu 0x1000e012) s :: u16) n
         then on_ee (cpuTestDMACInts pending (eeTestActive s)) s else s)"

end
