(* ===== verification/Sif0.thy ===== *)
theory Sif0
  imports SifFifo IopIrq
begin

text \<open>
  The SIF0 DMA channel, from the IOP to the EE (\<open>pcsx2/Sif0.cpp\<close>): the two halves work on the FIFO
  in turns until neither can move. The EE's channel registers (\<open>struct DMACh\<close>, \<open>pcsx2/Dmac.h\<close>) and
  the IOP's (\<open>hw_dma9\<close>) are fields here, the DMA controller's and the SBUS registers are in the
  hardware pages of \<open>IopMem\<close>. The static flag \<open>done\<close>, which nothing reads, is left out.
\<close>

section \<open>State\<close>

record DMACh =
  ch_chcr :: u32
  ch_madr :: u32
  ch_qwc :: u16
  ch_tadr :: u32

record sif_unit =
  fifo :: sifFifo
  ee_end :: bool
  ee_busy :: bool
  ee_cycles :: u32
  iop_end :: bool
  iop_busy :: bool
  iop_cycles :: u32
  iop_counter :: int
  sd_data :: u32
  sd_words :: u32
  sd_tag_lo :: u32
  sd_tag_hi :: u32

text \<open>The memory that the EE's DMA reaches (\<open>eeMem\<close>): an area and an offset are a host pointer.\<close>

datatype ee_area = eeMain | eeScratch | eeZeroRead | eeZeroWrite

record 'd sifSys =
  unit :: sif_unit
  ch :: DMACh
  dma_madr :: u32
  dma_tadr :: u32
  dma_chcr :: u32
  eeMem :: "ee_area \<Rightarrow> bytes"
  iopS :: "'d iopState"

text \<open>Bit fields of \<open>tDMA_CHCR\<close> and \<open>tDMA_TAG\<close>, and the enumerations of \<open>Dmac.h\<close>.\<close>

definition chcr_MOD :: "u32 \<Rightarrow> u32" where "chcr_MOD w = drop_bit 2 w AND 3"
definition chcr_TIE :: "u32 \<Rightarrow> bool" where "chcr_TIE w = bit w 7"
definition chcr_STR :: "u32 \<Rightarrow> bool" where "chcr_STR w = bit w 8"
definition tag_QWC :: "u32 \<Rightarrow> u16" where "tag_QWC w = ucast w"
definition tag_ID :: "u32 \<Rightarrow> u32" where "tag_ID w = drop_bit 28 w AND 7"
definition tag_IRQ :: "u32 \<Rightarrow> bool" where "tag_IRQ w = bit w 31"

abbreviation (input) NORMAL_MODE :: u32 where "NORMAL_MODE \<equiv> 0"
abbreviation (input) CHAIN_MODE :: u32 where "CHAIN_MODE \<equiv> 1"
abbreviation (input) TAG_CNTS :: u32 where "TAG_CNTS \<equiv> 0"
abbreviation (input) TAG_END :: u32 where "TAG_END \<equiv> 7"
abbreviation (input) STS_SIF0 :: u32 where "STS_SIF0 \<equiv> 1"
abbreviation (input) DMAC_SIF0 :: nat where "DMAC_SIF0 \<equiv> 5"
abbreviation (input) BIAS :: u32 where "BIAS \<equiv> 2"

abbreviation (input) dmac_CTRL :: host_ptr where "dmac_CTRL \<equiv> (EeHw, 0xe000)"
abbreviation (input) dmac_STAT :: host_ptr where "dmac_STAT \<equiv> (EeHw, 0xe010)"
abbreviation (input) dmac_STADR :: host_ptr where "dmac_STADR \<equiv> (EeHw, 0xe060)"

definition ctrl_STS :: "u32 \<Rightarrow> u32" where "ctrl_STS w = drop_bit 4 w AND 3"

definition upd_unit :: "(sif_unit \<Rightarrow> sif_unit) \<Rightarrow> 'd sifSys \<Rightarrow> 'd sifSys" where
  "upd_unit f s = s\<lparr>unit := f (unit s)\<rparr>"

definition upd_ch :: "(DMACh \<Rightarrow> DMACh) \<Rightarrow> 'd sifSys \<Rightarrow> 'd sifSys" where
  "upd_ch f s = s\<lparr>ch := f (ch s)\<rparr>"

definition upd_iop :: "('d iopState \<Rightarrow> 'd iopState) \<Rightarrow> 'd sifSys \<Rightarrow> 'd sifSys" where
  "upd_iop f s = s\<lparr>iopS := f (iopS s)\<rparr>"

section \<open>Memory\<close>

text \<open>Copies of words between a byte store and the FIFO.\<close>

primrec load_words :: "nat \<Rightarrow> u32 \<Rightarrow> bytes \<Rightarrow> u32 list" where
  "load_words 0 a m = []"
| "load_words (Suc n) a m = le_read 4 m a # load_words n (a + 4) m"

primrec store_words :: "u32 list \<Rightarrow> u32 \<Rightarrow> bytes \<Rightarrow> bytes" where
  "store_words [] a m = m"
| "store_words (w # ws) a m = store_words ws (a + 4) (le_write 4 w a m)"

definition iopPhysMem :: "u32 \<Rightarrow> u32" where
  "iopPhysMem addr = addr AND 0x1fffff"

definition iop_ram :: "'d sifSys \<Rightarrow> bytes" where
  "iop_ram s = areas (iopS s) IopVM"

definition dmaGetAddr :: "u32 \<Rightarrow> bool \<Rightarrow> (ee_area \<times> u32) option" where
  "dmaGetAddr addr write =
     (if bit addr 31 then Some (eeScratch, addr AND 0x3ff0)
      else let addr = addr AND 0x1ffffff0
           in if addr < 0x2000000 then Some (eeMain, addr)
              else if addr < 0x10000000 then Some (if write then eeZeroWrite else eeZeroRead, 0)
              else if addr < 0x10004000 then Some (eeScratch, addr AND 0x3ff0)
              else None)"

text \<open>\<open>DMACh::getAddr\<close>: an invalid address is a bus error that stops the channel.\<close>

definition getAddr :: "u32 \<Rightarrow> nat \<Rightarrow> bool \<Rightarrow> 'd sifSys \<Rightarrow> (ee_area \<times> u32) option \<times> 'd sifSys" where
  "getAddr addr num write s =
     (case dmaGetAddr addr write of
        Some p \<Rightarrow> (Some p, s)
      | None \<Rightarrow>
          (None, upd_ch (\<lambda>c. c\<lparr>ch_chcr := ch_chcr c AND NOT 0x100\<rparr>)
             (upd_iop (\<lambda>i. hw_or dmac_STAT (push_bit num 1) (hw_or dmac_STAT 0x8000 i)) s)))"

text \<open>\<open>chcrTransfer\<close> and \<open>qwcTransfer\<close>.\<close>

definition unsafeTransfer :: "u32 \<Rightarrow> DMACh \<Rightarrow> DMACh" where
  "unsafeTransfer tag c =
     c\<lparr>ch_chcr := (ch_chcr c AND 0xffff) OR (tag AND 0xffff0000), ch_qwc := tag_QWC tag\<rparr>"

section \<open>The handlers\<close>

definition Sif0Init :: "'d sifSys \<Rightarrow> 'd sifSys" where
  "Sif0Init = upd_unit (\<lambda>u. u\<lparr>ee_cycles := 0, iop_cycles := 0\<rparr>)"

definition WriteFifoToEE :: "'d sifSys \<Rightarrow> 'd sifSys" where
  "WriteFifoToEE s =
     (let readSize = min (int (unat (ch_qwc (ch s)))) (fsize (fifo (unit s)) div 4);
          (ptag, s) = getAddr (ch_madr (ch s)) DMAC_SIF0 True s
      in case ptag of
           None \<Rightarrow> s
         | Some (area, off) \<Rightarrow>
             (let (ws, f) = fifo_read (readSize * 4) (fifo (unit s));
                  s = s\<lparr>eeMem := (eeMem s)(area := store_words ws off (eeMem s area))\<rparr>;
                  s = upd_ch (\<lambda>c. c\<lparr>ch_madr := ch_madr c + of_int (readSize * 16),
                        ch_qwc := ch_qwc c - of_int readSize\<rparr>) s
              in upd_unit (\<lambda>u. u\<lparr>fifo := f, ee_cycles := ee_cycles u + of_int readSize\<rparr>) s))"

definition WriteIOPtoFifo :: "'d sifSys \<Rightarrow> 'd sifSys" where
  "WriteIOPtoFifo s =
     (let writeSize = min (iop_counter (unit s)) (sif_free (fifo (unit s)));
          ws = load_words (nat writeSize) (iopPhysMem (dma_madr s)) (iop_ram s);
          s = upd_unit (\<lambda>u. u\<lparr>fifo := fifo_write ws writeSize (fifo u),
                iop_cycles := iop_cycles u + of_int (writeSize div 4),
                iop_counter := iop_counter u - writeSize\<rparr>) s
      in s\<lparr>dma_madr := dma_madr s + of_int (writeSize * 4)\<rparr>)"

definition ProcessEETag :: "'d sifSys \<Rightarrow> 'd sifSys" where
  "ProcessEETag s =
     (let (tag, f) = fifo_read 4 (fifo (unit s));
          s = upd_unit (\<lambda>u. u\<lparr>fifo := f\<rparr>) s;
          s = upd_ch (\<lambda>c. (unsafeTransfer (tag ! 0) c)\<lparr>ch_madr := tag ! 1\<rparr>) s;
          s = (if chcr_TIE (ch_chcr (ch s)) \<and> tag_IRQ (tag ! 0) then upd_unit (\<lambda>u. u\<lparr>ee_end := True\<rparr>) s else s)
      in if tag_ID (tag ! 0) = TAG_CNTS then
           (if ctrl_STS (host_rd 4 dmac_CTRL (iopS s)) = STS_SIF0
            then upd_iop (\<lambda>i. host_wr 4 dmac_STADR ((host_rd 4 dmac_STADR i AND 0x80000000 :: u32) OR
                   ((ch_madr (ch s) + ucast (ch_qwc (ch s)) * 16) AND 0x7fffffff)) i) s
            else s)
         else if tag_ID (tag ! 0) = TAG_END then upd_unit (\<lambda>u. u\<lparr>ee_end := True\<rparr>) s
         else s)"

text \<open>
  The IOP's tag has four words; the code sends the last two to the EE and skips two more places of
  the ring, which keep what was there.
\<close>

definition ProcessIOPTag :: "'d sifSys \<Rightarrow> 'd sifSys" where
  "ProcessIOPTag s =
     (let p = iopPhysMem (dma_tadr s);
          d = le_read 4 (iop_ram s) p :: u32;
          words = (le_read 4 (iop_ram s) (p + 4) + 3 :: u32) AND 0xfffffffc;
          f = fifo_write (load_words 2 (iopPhysMem (dma_tadr s + 8)) (iop_ram s)) 2 (fifo (unit s));
          f = f\<lparr>writePos := (writePos f + 2) AND 127, fsize := fsize f + 2\<rparr>;
          s = upd_unit (\<lambda>u. u\<lparr>fifo := f, sd_data := d, sd_words := words,
                sd_tag_lo := le_read 4 (iop_ram s) (p + 8), sd_tag_hi := le_read 4 (iop_ram s) (p + 12),
                iop_counter := uint (words AND 0xFFFFC),
                iop_end := iop_end u \<or> tag_IRQ d \<or> tag_ID d AND 4 \<noteq> 0\<rparr>) s
      in s\<lparr>dma_tadr := dma_tadr s + 16, dma_madr := d AND 0xFFFFFF\<rparr>)"

definition EndEE :: "bool \<Rightarrow> 'd sifSys \<Rightarrow> 'd sifSys" where
  "EndEE hack s =
     (let s = upd_unit (\<lambda>u. u\<lparr>ee_end := False, ee_busy := False,
                ee_cycles := (if ee_cycles u = 0 then 1 else ee_cycles u)\<rparr>) s
      in upd_iop (on_ee (CPU_INT hack DMAC_SIF0 (ee_cycles (unit s) * BIAS))) s)"

definition EndIOP :: "'d sifSys \<Rightarrow> 'd sifSys" where
  "EndIOP s =
     (let s = upd_unit (\<lambda>u. u\<lparr>sd_data := 0, iop_end := False, iop_busy := False,
                iop_cycles := (if iop_cycles u = 0 then 1 else iop_cycles u)\<rparr>) s
      in upd_iop (PSX_INT IopEvt_SIF0 (iop_cycles (unit s))) s)"

definition HandleEETransfer :: "bool \<Rightarrow> 'd sifSys \<Rightarrow> 'd sifSys" where
  "HandleEETransfer hack s =
     (if \<not> chcr_STR (ch_chcr (ch s)) then upd_unit (\<lambda>u. u\<lparr>ee_end := False, ee_busy := False\<rparr>) s
      else
        (let s = (if ch_qwc (ch s) \<le> 0 then
                    if chcr_MOD (ch_chcr (ch s)) = NORMAL_MODE \<or> ee_end (unit s) then EndEE hack s
                    else if fsize (fifo (unit s)) \<ge> 4 then ProcessEETag s else s
                  else s)
         in if ch_qwc (ch s) > 0 \<and> fsize (fifo (unit s)) > 0 then WriteFifoToEE s else s))"

definition HandleIOPTransfer :: "'d sifSys \<Rightarrow> 'd sifSys" where
  "HandleIOPTransfer s =
     (if iop_counter (unit s) \<le> 0 then
        if iop_end (unit s) then EndIOP s else ProcessIOPTag s
      else if sif_free (fifo (unit s)) > 0 then WriteIOPtoFifo s else s)"

definition Sif0End :: "'d sifSys \<Rightarrow> 'd sifSys" where
  "Sif0End = upd_iop (\<lambda>i.
     let i = host_wr 4 (SBUS 0x40) (host_rd 4 (SBUS 0x40) i AND NOT 0x20 :: u32) i
     in host_wr 4 (SBUS 0x40) (host_rd 4 (SBUS 0x40) i AND NOT 0x2000 :: u32) i)"

section \<open>The loop\<close>

definition iop_ready :: "sif_unit \<Rightarrow> bool" where
  "iop_ready u \<longleftrightarrow> iop_busy u \<and> (sif_free (fifo u) > 0 \<or> iop_end u \<and> iop_counter u = 0)"

definition ee_ready :: "'d sifSys \<Rightarrow> bool" where
  "ee_ready s \<longleftrightarrow> ee_busy (unit s) \<and>
     (fsize (fifo (unit s)) \<ge> 4 \<or> ee_end (unit s) \<and> ch_qwc (ch s) = 0)"

text \<open>One pass of the loop's body, with \<open>BusyCheck\<close>.\<close>

definition sif0_pass :: "bool \<Rightarrow> 'd sifSys \<Rightarrow> nat \<times> 'd sifSys" where
  "sif0_pass hack s =
     (let (b, s) = (if iop_ready (unit s) then (1, HandleIOPTransfer s) else (0, s))
      in if ee_ready s then (b + 1, HandleEETransfer hack s) else (b, s))"

partial_function (option) sif0_loop :: "bool \<Rightarrow> 'd sifSys \<Rightarrow> 'd sifSys option" where
  "sif0_loop hack s =
     (case sif0_pass hack s of (b, s) \<Rightarrow> if b > 0 then sif0_loop hack s else Some s)"

definition SIF0Dma :: "bool \<Rightarrow> 'd sifSys \<Rightarrow> 'd sifSys option" where
  "SIF0Dma hack s = map_option Sif0End (sif0_loop hack (Sif0Init s))"

section \<open>Starts and interrupts\<close>

definition dmaSIF0 :: "bool \<Rightarrow> 'd sifSys \<Rightarrow> 'd sifSys option" where
  "dmaSIF0 hack s =
     (let s = upd_iop (hw_or (SBUS 0x40) 0x2000) s
      in SIF0Dma hack (upd_unit (\<lambda>u. u\<lparr>ee_busy := True, ee_end := False\<rparr>) s))"

definition psxDma9 :: "bool \<Rightarrow> 'd sifSys \<Rightarrow> 'd sifSys option" where
  "psxDma9 hack s = SIF0Dma hack (upd_unit (\<lambda>u. u\<lparr>iop_busy := True, iop_end := False\<rparr>) s)"

definition sif0Interrupt :: "'d sifSys \<Rightarrow> 'd sifSys" where
  "sif0Interrupt s = upd_iop (psxDmaInterrupt2 2) (s\<lparr>dma_chcr := dma_chcr s AND NOT 0x01000000\<rparr>)"

definition EEsif0Interrupt :: "'d sifSys \<Rightarrow> 'd sifSys" where
  "EEsif0Interrupt s =
     upd_ch (\<lambda>c. c\<lparr>ch_chcr := ch_chcr c AND NOT 0x100\<rparr>) (upd_iop (hwDmacIrq DMAC_SIF0) s)"

end
