(* ===== verification/Sif0Props.thy ===== *)
theory Sif0Props
  imports Sif0 IopProps
begin

text \<open>
  Properties of the SIF0 channel: the ring never overflows or underflows, a transfer whose tag
  chain ends terminates, one whose chain does not end hangs, and a packet arrives in the EE's
  memory as it was in the IOP's.
\<close>

lemma length_load_words [simp]: "length (load_words n a m) = n"
  by (induction n arbitrary: a) simp_all

lemma upd_simps [simp]:
  "unit (upd_unit f s) = f (unit s)" "ch (upd_unit f s) = ch s" "iopS (upd_unit f s) = iopS s"
  "eeMem (upd_unit f s) = eeMem s" "dma_madr (upd_unit f s) = dma_madr s" "dma_tadr (upd_unit f s) = dma_tadr s"
  "unit (upd_ch g s) = unit s" "ch (upd_ch g s) = g (ch s)" "iopS (upd_ch g s) = iopS s"
  "eeMem (upd_ch g s) = eeMem s" "dma_madr (upd_ch g s) = dma_madr s" "dma_tadr (upd_ch g s) = dma_tadr s"
  "unit (upd_iop h s) = unit s" "ch (upd_iop h s) = ch s" "iopS (upd_iop h s) = h (iopS s)"
  "eeMem (upd_iop h s) = eeMem s" "dma_madr (upd_iop h s) = dma_madr s" "dma_tadr (upd_iop h s) = dma_tadr s"
  by (simp_all add: upd_unit_def upd_ch_def upd_iop_def)

lemma iop_ram_upd [simp]: "iop_ram (upd_unit f s) = iop_ram s" "iop_ram (upd_ch g s) = iop_ram s"
  by (simp_all add: iop_ram_def)

section \<open>The ring is never overfilled\<close>

text \<open>Whole quadwords in the ring, and a whole number of them to come.\<close>

definition sif0_ok :: "sif_unit \<Rightarrow> bool" where
  "sif0_ok u \<longleftrightarrow> fifo_ok (fifo u) \<and> fsize (fifo u) mod 4 = 0 \<and> 0 \<le> iop_counter u \<and> iop_counter u mod 4 = 0"

lemma sif0_ok_fields [simp]:
  "sif0_ok (u\<lparr>ee_busy := b\<rparr>) = sif0_ok u" "sif0_ok (u\<lparr>ee_end := b\<rparr>) = sif0_ok u"
  "sif0_ok (u\<lparr>iop_busy := b\<rparr>) = sif0_ok u" "sif0_ok (u\<lparr>iop_end := b\<rparr>) = sif0_ok u"
  "sif0_ok (u\<lparr>ee_cycles := w\<rparr>) = sif0_ok u" "sif0_ok (u\<lparr>iop_cycles := w\<rparr>) = sif0_ok u"
  "sif0_ok (u\<lparr>sd_data := w\<rparr>) = sif0_ok u"
  by (simp_all add: sif0_ok_def)

lemma sif0_ok_free: "sif0_ok u \<Longrightarrow> sif_free (fifo u) > 0 \<Longrightarrow> fsize (fifo u) + 4 \<le> 128"
  by (auto simp: sif0_ok_def sif_free_def)

text \<open>The two places skipped after the tag: writing what they hold already.\<close>

lemma skip_two:
  assumes "fifo_ok f" "fsize f + 2 \<le> 128"
  defines "ws \<equiv> [fdata f ! writePos f, fdata f ! ((writePos f + 1) mod 128)]"
  shows "f\<lparr>writePos := (writePos f + 2) AND 127, fsize := fsize f + 2\<rparr> = fifo_write ws 2 f"
proof -
  have f: "length (fdata f) = 128" "writePos f < 128" "length ws \<le> 128"
    using assms by (auto simp: fifo_ok_def)
  note g = fifo_write_fields [OF f] and ring = fifo_write_ring [OF f]
  have ws: "length ws = 2" "int (length ws) = 2" "writePos f mod 128 = writePos f"
    using f(2) by (simp_all add: ws_def)
  have "fdata (fifo_write ws 2 f) = fdata f"
  proof (rule nth_equalityI)
    show "length (fdata (fifo_write ws 2 f)) = length (fdata f)"
      using g(2) f(1) unfolding ws(2) by simp
  next
    fix i assume "i < length (fdata (fifo_write ws 2 f))"
    then have i: "i < 128"
      using g(2) unfolding ws(2) by simp
    define j where "j = (if writePos f \<le> i then i - writePos f else i + 128 - writePos f)"
    have j: "j < 128" "(writePos f + j) mod 128 = i"
      using i f(2) by (auto simp: j_def)
    have "j < 2 \<Longrightarrow> ws ! j = fdata f ! ((writePos f + j) mod 128)"
      using ws(3) by (cases j) (auto simp: ws_def)
    then show "fdata (fifo_write ws 2 f) ! i = fdata f ! i"
      using ring [OF j(1)] unfolding ws(1,2) j(2) by auto
  qed
  then show ?thesis
    using g(3-5) unfolding ws(1,2) by (simp add: and_127)
qed

lemma push_tag:
  assumes "fifo_ok f" "fsize f + 4 \<le> 128" "length ts = 2"
  defines "g \<equiv> fifo_write ts 2 f"
  defines "h \<equiv> g\<lparr>writePos := (writePos g + 2) AND 127, fsize := fsize g + 2\<rparr>"
  shows "fifo_ok h" "\<exists>x y. fifo_words h = fifo_words f @ ts @ [x, y]" "fsize h = fsize f + 4"
proof -
  have g: "fifo_ok g" "fifo_words g = fifo_words f @ ts" "fsize g = fsize f + 2"
    using words_write [OF assms(1), of ts] assms(2,3) unfolding g_def
    by (simp_all add: sif_free_def fifo_write_def Let_def)
  define ws where "ws = [fdata g ! writePos g, fdata g ! ((writePos g + 1) mod 128)]"
  have h: "h = fifo_write ws 2 g"
    unfolding h_def ws_def by (rule skip_two [OF g(1)]) (use g(3) assms(2) in simp)
  have w: "int (length ws) = 2"
    by (simp add: ws_def)
  have k: "fifo_ok h" "fifo_words h = fifo_words g @ ws"
    using words_write [OF g(1), of ws] g(3) assms(2) unfolding h w by (simp_all add: sif_free_def)
  show "fifo_ok h" "\<exists>x y. fifo_words h = fifo_words f @ ts @ [x, y]"
    using k g(2) by (simp_all add: ws_def)
  show "fsize h = fsize f + 4"
    by (simp add: h_def g(3))
qed

lemma fsize_write: "fsize (fifo_write ws n f) = fsize f + max n 0"
  by (auto simp: fifo_write_def Let_def)

lemma mask_mod4: "uint ((w :: u32) AND 0xFFFFC) mod 4 = 0" "0 \<le> uint ((w :: u32) AND 0xFFFFC)"
proof -
  have "(0xFFFFC :: u32) = push_bit 2 (mask 18)"
    by code_simp
  then have "take_bit 2 (w AND 0xFFFFC) = 0"
    by (simp only:) (rule bit_word_eqI, auto simp: bit_simps)
  then have "uint (take_bit 2 (w AND 0xFFFFC)) = 0"
    by (simp only: unsigned_0)
  then show "uint (w AND 0xFFFFC) mod 4 = 0"
    by (simp only: unsigned_take_bit_eq) (simp add: take_bit_eq_mod)
qed simp

lemma ok_IOP_step:
  assumes "sif0_ok (unit s)" "iop_ready (unit s)"
  shows "sif0_ok (unit (HandleIOPTransfer s))"
proof -
  let ?u = "unit s"
  have u: "fifo_ok (fifo ?u)" "fsize (fifo ?u) mod 4 = 0" "0 \<le> iop_counter ?u" "iop_counter ?u mod 4 = 0"
    using assms(1) by (simp_all add: sif0_ok_def)
  show ?thesis
  proof (cases "iop_counter ?u \<le> 0")
    case True
    show ?thesis
    proof (cases "iop_end ?u")
      case False
      then have "fsize (fifo ?u) + 4 \<le> 128"
        using assms sif0_ok_free by (auto simp: iop_ready_def)
      note p = push_tag [OF u(1) this, of "load_words 2 _ _"]
      show ?thesis
        using True False p(1,3) u(2) mask_mod4
        by (simp add: HandleIOPTransfer_def ProcessIOPTag_def Let_def sif0_ok_def)
    qed (use True assms(1) in \<open>simp add: HandleIOPTransfer_def EndIOP_def Let_def sif0_ok_def\<close>)
  next
    case False
    define n where "n = min (iop_counter ?u) (sif_free (fifo ?u))"
    define ws where "ws = load_words (nat n) (iopPhysMem (dma_madr s)) (iop_ram s)"
    have n: "0 \<le> n" "n \<le> sif_free (fifo ?u)" "n \<le> iop_counter ?u" "n mod 4 = 0"
      using u False by (auto simp: n_def min_def sif_free_def fifo_ok_def)
    have l: "int (length ws) = n"
      using n(1) by (simp add: ws_def)
    have "fifo_ok (fifo_write ws n (fifo ?u))"
      using words_write(1) [OF u(1), of ws] n(2) unfolding l by simp
    moreover have "fsize (fifo_write ws n (fifo ?u)) mod 4 = 0" "(iop_counter ?u - n) mod 4 = 0"
      using n u(2,4) by (simp_all add: fsize_write) presburger+
    moreover have "sif_free (fifo ?u) > 0"
      using assms(2) False by (auto simp: iop_ready_def)
    ultimately show ?thesis
      using False n by (simp add: HandleIOPTransfer_def WriteIOPtoFifo_def Let_def sif0_ok_def
          ws_def [symmetric] n_def [symmetric])
  qed
qed

lemma fsize_read: "fsize (snd (fifo_read n f)) = fsize f - max n 0"
  by (auto simp: fifo_read_def Let_def)

lemma EndEE_unit [simp]:
  "fifo (unit (EndEE hack s)) = fifo (unit s)" "iop_counter (unit (EndEE hack s)) = iop_counter (unit s)"
  "iop_busy (unit (EndEE hack s)) = iop_busy (unit s)" "iop_end (unit (EndEE hack s)) = iop_end (unit s)"
  "ch (EndEE hack s) = ch s" "\<not> ee_busy (unit (EndEE hack s))" "\<not> ee_end (unit (EndEE hack s))"
  "eeMem (EndEE hack s) = eeMem s"
  by (simp_all add: EndEE_def Let_def)

lemma getAddr_unit [simp]:
  "unit (snd (getAddr a n w s)) = unit s" "ch_qwc (ch (snd (getAddr a n w s))) = ch_qwc (ch s)"
  "ch_madr (ch (snd (getAddr a n w s))) = ch_madr (ch s)" "fst (getAddr a n w s) = dmaGetAddr a w"
  by (simp_all add: getAddr_def split: option.split)

lemma ProcessEETag_unit:
  "fifo (unit (ProcessEETag s)) = snd (fifo_read 4 (fifo (unit s)))"
  "iop_counter (unit (ProcessEETag s)) = iop_counter (unit s)"
  "iop_busy (unit (ProcessEETag s)) = iop_busy (unit s)" "iop_end (unit (ProcessEETag s)) = iop_end (unit s)"
  "ee_busy (unit (ProcessEETag s)) = ee_busy (unit s)" "eeMem (ProcessEETag s) = eeMem s"
  by (auto simp: ProcessEETag_def Let_def split_beta)

lemma WriteFifoToEE_unit:
  "fifo (unit (WriteFifoToEE s)) = (if dmaGetAddr (ch_madr (ch s)) True = None then fifo (unit s)
     else snd (fifo_read (min (int (unat (ch_qwc (ch s)))) (fsize (fifo (unit s)) div 4) * 4) (fifo (unit s))))"
  "iop_counter (unit (WriteFifoToEE s)) = iop_counter (unit s)"
  "iop_busy (unit (WriteFifoToEE s)) = iop_busy (unit s)" "iop_end (unit (WriteFifoToEE s)) = iop_end (unit s)"
  "ee_busy (unit (WriteFifoToEE s)) = ee_busy (unit s)" "ee_end (unit (WriteFifoToEE s)) = ee_end (unit s)"
proof -
  obtain p t where g: "getAddr (ch_madr (ch s)) DMAC_SIF0 True s = (p, t)"
    by fastforce
  then have t: "unit t = unit s" "p = dmaGetAddr (ch_madr (ch s)) True"
    using getAddr_unit(1,4) [of "ch_madr (ch s)" DMAC_SIF0 True s] by simp_all
  show "fifo (unit (WriteFifoToEE s)) = (if dmaGetAddr (ch_madr (ch s)) True = None then fifo (unit s)
     else snd (fifo_read (min (int (unat (ch_qwc (ch s)))) (fsize (fifo (unit s)) div 4) * 4) (fifo (unit s))))"
    "iop_counter (unit (WriteFifoToEE s)) = iop_counter (unit s)"
    "iop_busy (unit (WriteFifoToEE s)) = iop_busy (unit s)" "iop_end (unit (WriteFifoToEE s)) = iop_end (unit s)"
    "ee_busy (unit (WriteFifoToEE s)) = ee_busy (unit s)" "ee_end (unit (WriteFifoToEE s)) = ee_end (unit s)"
    unfolding WriteFifoToEE_def Let_def g prod.case
    by (auto simp: t split_beta split: option.split)
qed

text \<open>Reading some of the quadwords keeps the ring valid.\<close>

lemma ok_read:
  assumes "fifo_ok f" "fsize f mod 4 = 0" "0 \<le> n" "n \<le> fsize f" "n mod 4 = 0"
  shows "fifo_ok (snd (fifo_read n f))" "fsize (snd (fifo_read n f)) mod 4 = 0"
proof -
  show "fifo_ok (snd (fifo_read n f))"
    using words_read(1) [OF assms(1), of "nat n"] assms(3,4) by simp
  show "fsize (snd (fifo_read n f)) mod 4 = 0"
    using assms(2,3,5) by (simp add: fsize_read) presburger
qed

lemma ok_ProcessEETag: "sif0_ok (unit s) \<Longrightarrow> fsize (fifo (unit s)) \<ge> 4 \<Longrightarrow> sif0_ok (unit (ProcessEETag s))"
  using ok_read [of "fifo (unit s)" 4] by (simp add: sif0_ok_def ProcessEETag_unit)

lemma ok_WriteFifoToEE:
  assumes "sif0_ok (unit s)"
  shows "sif0_ok (unit (WriteFifoToEE s))"
proof -
  have "0 \<le> min (int (unat (ch_qwc (ch s)))) (fsize (fifo (unit s)) div 4) * 4"
    "min (int (unat (ch_qwc (ch s)))) (fsize (fifo (unit s)) div 4) * 4 \<le> fsize (fifo (unit s))"
    using assms by (auto simp: sif0_ok_def fifo_ok_def min_def)
  then show ?thesis
    using ok_read [of "fifo (unit s)" "min (int (unat (ch_qwc (ch s)))) (fsize (fifo (unit s)) div 4) * 4"] assms
    by (simp add: sif0_ok_def WriteFifoToEE_unit)
qed

lemma ok_EE_step: "sif0_ok (unit s) \<Longrightarrow> sif0_ok (unit (HandleEETransfer hack s))"
  unfolding HandleEETransfer_def Let_def
  by (auto intro: ok_WriteFifoToEE ok_ProcessEETag) (auto simp: sif0_ok_def)

lemma ok_pass: "sif0_ok (unit s) \<Longrightarrow> sif0_ok (unit (snd (sif0_pass hack s)))"
  by (auto simp: sif0_pass_def Let_def ok_IOP_step ok_EE_step split: if_splits prod.splits)

lemma ok_loop: "sif0_loop hack s = Some t \<Longrightarrow> sif0_ok (unit s) \<longrightarrow> sif0_ok (unit t)"
proof (induction rule: sif0_loop.raw_induct [rotated 1, consumes 1, case_names step])
  case (step lp hack s t)
  then show ?case
    using ok_pass [of s hack] by (auto split: prod.splits if_splits)
qed

lemma ok_run: "sif0_loop hack (Sif0Init u) = Some t \<Longrightarrow> sif0_ok (unit u) \<Longrightarrow> sif0_ok (unit t)"
  using ok_loop [of hack "Sif0Init u" t] by (simp add: Sif0Init_def)


section \<open>Termination\<close>

definition tag_ends :: "bytes \<Rightarrow> u32 \<Rightarrow> bool" where
  "tag_ends ram tadr \<longleftrightarrow>
     (let d = le_read 4 ram (iopPhysMem tadr) in tag_IRQ d \<or> tag_ID d AND 4 \<noteq> 0)"

text \<open>One of the \<open>k\<close> tags from \<open>tadr\<close> on ends the IOP's chain.\<close>

primrec chain_within :: "nat \<Rightarrow> bytes \<Rightarrow> u32 \<Rightarrow> bool" where
  "chain_within 0 ram tadr = False"
| "chain_within (Suc k) ram tadr = (tag_ends ram tadr \<or> chain_within k ram (tadr + 16))"

text \<open>What is left for the IOP's side with \<open>k\<close> tags to come, and for the EE's.\<close>

definition iop_left :: "nat \<Rightarrow> sif_unit \<Rightarrow> nat" where
  "iop_left k u =
     (if iop_busy u then nat (iop_counter u) + 1 + (if iop_end u then 0 else k * 0x200000) else 0)"

definition ee_left :: "'d sifSys \<Rightarrow> nat" where
  "ee_left s = nat (fsize (fifo (unit s))) + of_bool (ee_busy (unit s)) + of_bool (chcr_STR (ch_chcr (ch s)))"

definition will_end :: "nat \<Rightarrow> 'd sifSys \<Rightarrow> bool" where
  "will_end k s \<longleftrightarrow> sif0_ok (unit s) \<and>
     (iop_busy (unit s) \<and> \<not> iop_end (unit s) \<longrightarrow> chain_within k (iop_ram s) (dma_tadr s))"

lemma counter_less: "uint ((w :: u32) AND 0xFFFFC) < 0x200000"
proof -
  have "w AND 0xFFFFC \<le> 0xFFFFC"
    by (rule word_and_le1)
  then have "uint (w AND 0xFFFFC) \<le> uint (0xFFFFC :: u32)"
    by (simp only: word_le_def)
  then show ?thesis by simp
qed

lemma IOP_progress:
  assumes "will_end k s" "iop_ready (unit s)"
  shows "\<exists>k'. will_end k' (HandleIOPTransfer s) \<and> iop_left k' (unit (HandleIOPTransfer s)) < iop_left k (unit s)"
proof -
  let ?u = "unit s"
  have ok: "sif0_ok (unit (HandleIOPTransfer s))"
    using assms ok_IOP_step by (auto simp: will_end_def)
  have busy: "iop_busy ?u"
    using assms(2) by (simp add: iop_ready_def)
  show ?thesis
  proof (cases "iop_counter ?u \<le> 0")
    case True
    show ?thesis
    proof (cases "iop_end ?u")
      case True
      then have "HandleIOPTransfer s = EndIOP s"
        using \<open>iop_counter ?u \<le> 0\<close> by (simp add: HandleIOPTransfer_def)
      then show ?thesis
        using ok busy by (intro exI [of _ k]) (simp add: will_end_def iop_left_def EndIOP_def Let_def)
    next
      case False
      then obtain k' where k: "k = Suc k'" and
        c: "tag_ends (iop_ram s) (dma_tadr s) \<or> chain_within k' (iop_ram s) (dma_tadr s + 16)"
        using assms(1) busy by (cases k) (auto simp: will_end_def)
      have h: "HandleIOPTransfer s = ProcessIOPTag s"
        using \<open>iop_counter ?u \<le> 0\<close> False by (simp add: HandleIOPTransfer_def)
      have "iop_ram (ProcessIOPTag s) = iop_ram s" "dma_tadr (ProcessIOPTag s) = dma_tadr s + 16"
        "iop_busy (unit (ProcessIOPTag s)) = iop_busy ?u"
        "iop_end (unit (ProcessIOPTag s)) = (iop_end ?u \<or> tag_ends (iop_ram s) (dma_tadr s))"
        by (auto simp: ProcessIOPTag_def Let_def iop_ram_def tag_ends_def)
      moreover have "iop_counter (unit (ProcessIOPTag s)) < 0x200000"
        using counter_less by (simp add: ProcessIOPTag_def Let_def)
      ultimately show ?thesis
        using ok c busy False unfolding h k
        by (intro exI [of _ k']) (auto simp: will_end_def iop_left_def intro: trans_less_add1)
    qed
  next
    case False
    then have f: "sif_free (fifo ?u) > 0"
      using assms(2) by (auto simp: iop_ready_def)
    then have "HandleIOPTransfer s = WriteIOPtoFifo s"
      using False by (simp add: HandleIOPTransfer_def)
    then show ?thesis
      using ok f False busy assms(1)
      by (intro exI [of _ k]) (auto simp: will_end_def iop_left_def WriteIOPtoFifo_def Let_def iop_ram_def)
  qed
qed

lemma STR_bits:
  "chcr_STR (w AND NOT 0x100) = False" "chcr_STR (ch_chcr (unsafeTransfer tag c)) = chcr_STR (ch_chcr c)"
proof -
  have "(0x100 :: u32) = 2 ^ 8"
    by simp
  then show "chcr_STR (w AND NOT 0x100) = False"
    by (simp only: chcr_STR_def bit_and_not_exp) simp
  show "chcr_STR (ch_chcr (unsafeTransfer tag c)) = chcr_STR (ch_chcr c)"
    by (simp add: chcr_STR_def unsafeTransfer_def bit_or_iff bit_and_iff)
qed

lemma ProcessEETag_STR: "chcr_STR (ch_chcr (ch (ProcessEETag s))) = chcr_STR (ch_chcr (ch s))"
  using STR_bits(2) by (auto simp: ProcessEETag_def Let_def split_beta)

lemma WriteFifoToEE_STR:
  "chcr_STR (ch_chcr (ch (WriteFifoToEE s))) =
     (chcr_STR (ch_chcr (ch s)) \<and> dmaGetAddr (ch_madr (ch s)) True \<noteq> None)"
proof -
  have n: "NOT (0x100 :: u32) = -257"
    by simp
  show ?thesis
    by (auto simp: WriteFifoToEE_def Let_def getAddr_def split_beta STR_bits(1) [unfolded n] split: option.split)
qed

lemma WriteFifoToEE_left:
  assumes "sif0_ok (unit s)"
  shows "ee_left (WriteFifoToEE s) \<le> ee_left s"
    "ch_qwc (ch s) > 0 \<Longrightarrow> fsize (fifo (unit s)) \<ge> 4 \<Longrightarrow> chcr_STR (ch_chcr (ch s)) \<Longrightarrow>
     ee_left (WriteFifoToEE s) < ee_left s"
proof -
  define n where "n = min (uint (ch_qwc (ch s))) (fsize (fifo (unit s)) div 4) * 4"
  have n: "0 \<le> n" "n \<le> fsize (fifo (unit s))"
    using assms by (auto simp: n_def sif0_ok_def fifo_ok_def min_def)
  have p: "ch_qwc (ch s) > 0 \<Longrightarrow> fsize (fifo (unit s)) \<ge> 4 \<Longrightarrow> n > 0"
    by (auto simp: n_def word_less_def min_def)
  note d = ee_left_def WriteFifoToEE_unit WriteFifoToEE_STR n_def [symmetric] fsize_read
  show "ee_left (WriteFifoToEE s) \<le> ee_left s"
    using n by (auto simp: d)
  show "ee_left (WriteFifoToEE s) < ee_left s"
    if "ch_qwc (ch s) > 0" "fsize (fifo (unit s)) \<ge> 4" "chcr_STR (ch_chcr (ch s))"
    using n p that by (auto simp: d)
qed

lemma EE_progress:
  assumes "sif0_ok (unit s)" "ee_ready s"
  shows "ee_left (HandleEETransfer hack s) < ee_left s"
proof (cases "chcr_STR (ch_chcr (ch s))")
  case False
  then show ?thesis
    using assms(2) by (simp add: HandleEETransfer_def ee_left_def ee_ready_def)
next
  case STR: True
  show ?thesis
  proof (cases "ch_qwc (ch s) > 0")
    case True
    then have "fsize (fifo (unit s)) \<ge> 4"
      using assms(2) by (auto simp: ee_ready_def)
    moreover from this True have "HandleEETransfer hack s = WriteFifoToEE s"
      using STR by (simp add: HandleEETransfer_def Let_def)
    ultimately show ?thesis
      using WriteFifoToEE_left(2) [OF assms(1) True _ STR] by simp
  next
    case False
    then have q: "ch_qwc (ch s) = 0"
      using word_neq_0_conv by blast
    show ?thesis
    proof (cases "chcr_MOD (ch_chcr (ch s)) = NORMAL_MODE \<or> ee_end (unit s)")
      case True
      then have "HandleEETransfer hack s = EndEE hack s"
        using STR q by (simp add: HandleEETransfer_def Let_def)
      then show ?thesis
        using assms(2) by (simp add: ee_left_def ee_ready_def)
    next
      case False
      then have sz: "fsize (fifo (unit s)) \<ge> 4"
        using assms(2) by (auto simp: ee_ready_def)
      then have h: "HandleEETransfer hack s = (let t = ProcessEETag s in
          if ch_qwc (ch t) > 0 \<and> fsize (fifo (unit t)) > 0 then WriteFifoToEE t else t)"
        using STR q False by (simp add: HandleEETransfer_def Let_def)
      have l: "ee_left (ProcessEETag s) < ee_left s"
        using sz by (simp add: ee_left_def ProcessEETag_unit ProcessEETag_STR fsize_read)
      show ?thesis
        unfolding h Let_def
        using l WriteFifoToEE_left(1) [OF ok_ProcessEETag [OF assms(1) sz]] by auto
    qed
  qed
qed

lemma iop_ram_frame:
  "iop_ram (EndEE hack s) = iop_ram s" "iop_ram (ProcessEETag s) = iop_ram s"
  "iop_ram (WriteFifoToEE s) = iop_ram s" "dma_tadr (EndEE hack s) = dma_tadr s"
  "dma_tadr (ProcessEETag s) = dma_tadr s" "dma_tadr (WriteFifoToEE s) = dma_tadr s"
  by (auto simp: iop_ram_def EndEE_def ProcessEETag_def WriteFifoToEE_def getAddr_def Let_def on_ee_def
      hw_or_def split_beta split: option.split)

lemma EE_keeps:
  "iop_busy (unit (HandleEETransfer hack s)) = iop_busy (unit s)"
  "iop_end (unit (HandleEETransfer hack s)) = iop_end (unit s)"
  "iop_counter (unit (HandleEETransfer hack s)) = iop_counter (unit s)"
  "dma_tadr (HandleEETransfer hack s) = dma_tadr s" "iop_ram (HandleEETransfer hack s) = iop_ram s"
  by (auto simp: HandleEETransfer_def Let_def ProcessEETag_unit WriteFifoToEE_unit iop_ram_frame)

lemma will_end_EE: "will_end k s \<Longrightarrow> will_end k (HandleEETransfer hack s)"
  by (simp add: will_end_def EE_keeps ok_EE_step)

lemma iop_left_EE: "iop_left k (unit (HandleEETransfer hack s)) = iop_left k (unit s)"
  by (simp add: iop_left_def EE_keeps)

text \<open>One pass: the IOP's share falls, or it stays and the EE's falls.\<close>

lemma pass_progress:
  assumes "will_end k s" "sif0_pass hack s = (b, t)" "b > 0"
  shows "\<exists>k'. will_end k' t \<and> ((iop_left k' (unit t), ee_left t), (iop_left k (unit s), ee_left s))
    \<in> less_than <*lex*> less_than"
proof (cases "iop_ready (unit s)")
  case True
  let ?s = "HandleIOPTransfer s"
  obtain k' where "will_end k' ?s" "iop_left k' (unit ?s) < iop_left k (unit s)"
    using IOP_progress [OF assms(1) True] by blast
  moreover have "t = (if ee_ready ?s then HandleEETransfer hack ?s else ?s)"
    using assms(2) True by (auto simp: sif0_pass_def split: if_splits)
  ultimately show ?thesis
    by (intro exI [of _ k']) (auto simp: will_end_EE iop_left_EE)
next
  case False
  then have "ee_ready s" "t = HandleEETransfer hack s"
    using assms(2,3) by (auto simp: sif0_pass_def split: if_splits)
  then show ?thesis
    using will_end_EE [OF assms(1)] EE_progress [of s hack] assms(1)
    by (intro exI [of _ k]) (simp add: iop_left_EE, simp add: will_end_def)
qed

lemma loop_terminates:
  "will_end k s \<Longrightarrow> \<exists>t. sif0_loop hack s = Some t \<and> \<not> iop_ready (unit t) \<and> \<not> ee_ready t"
proof (induction "(iop_left k (unit s), ee_left s)" arbitrary: k s
    rule: wf_induct_rule [OF wf_lex_prod [OF wf_less_than wf_less_than]])
  case 1
  obtain b t where p: "sif0_pass hack s = (b, t)"
    by fastforce
  show ?case
  proof (cases "b > 0")
    case True
    from pass_progress [OF 1(2) p this] obtain k' where "will_end k' t"
      "((iop_left k' (unit t), ee_left t), (iop_left k (unit s), ee_left s)) \<in> less_than <*lex*> less_than"
      by blast
    then show ?thesis
      using 1(1) True p by (subst sif0_loop.simps) auto
  next
    case False
    then have "\<not> iop_ready (unit t) \<and> \<not> ee_ready t"
      using p by (auto simp: sif0_pass_def split: if_splits)
    then show ?thesis
      using False p by (subst sif0_loop.simps) auto
  qed
qed

text \<open>
  C24: termination of the SIF0 transfer. When the ring is valid and one of the tags that the IOP has
  set up ends its chain, or the IOP's side is idle, then the loop of \<open>SIF0Dma\<close> ends, whatever the
  EE's side has been told to do, and at its end neither side can move any more.
\<close>

theorem sif0_terminates:
  assumes "sif0_ok (unit s)" "iop_busy (unit s) \<Longrightarrow> chain_within k (iop_ram s) (dma_tadr s)"
  shows "\<exists>t. sif0_loop hack (Sif0Init s) = Some t \<and> SIF0Dma hack s = Some (Sif0End t) \<and>
    \<not> iop_ready (unit t) \<and> \<not> ee_ready t"
proof -
  have "will_end k (Sif0Init s)"
    using assms by (simp add: will_end_def Sif0Init_def iop_ram_def)
  from loop_terminates [OF this, of hack] show ?thesis
    by (auto simp: SIF0Dma_def)
qed

text \<open>The machine of the witnesses: reset registers, both sides idle, memory of the IOP given.\<close>

definition sif0_sample :: "bytes \<Rightarrow> unit sifSys" where
  "sif0_sample ram =
     \<lparr>unit = \<lparr>fifo = fifo_init, ee_end = False, ee_busy = True, ee_cycles = 0, iop_end = False, iop_busy = True,
        iop_cycles = 0, iop_counter = 0, sd_data = 0, sd_words = 0, sd_tag_lo = 0, sd_tag_hi = 0\<rparr>,
      ch = \<lparr>ch_chcr = 0x104, ch_madr = 0, ch_qwc = 0, ch_tadr = 0\<rparr>, dma_madr = 0, dma_tadr = 0, dma_chcr = 0,
      eeMem = (\<lambda>_ _. 0), iopS = iop_sample ram\<rparr>"

lemma sif0_sample_ok: "sif0_ok (unit (sif0_sample ram))"
  using sif.empty(1) by (simp add: sif0_sample_def sif0_ok_def fifo_init_def)


theorem sif0_terminates_witness:
  "\<exists>t. SIF0Dma False (sif0_sample (\<lambda>a. if a = 0x13 then 0x80 else 0)) = Some (Sif0End t)"
proof -
  let ?ram = "\<lambda>a :: u32. if a = 0x13 then 0x80 else 0 :: u8"
  have "le_read 4 ?ram 0x10 = (0x80000000 :: u32)"
    by (simp only: numeral_nat One_nat_def le_read.simps) simp
  then have "tag_ends ?ram 0x10"
    by (simp add: tag_ends_def iopPhysMem_def tag_IRQ_def)
  then have "chain_within 2 (iop_ram (sif0_sample ?ram)) (dma_tadr (sif0_sample ?ram))"
    by (simp add: numeral_2_eq_2 sif0_sample_def iop_ram_def)
  then show ?thesis
    using sif0_terminates [of "sif0_sample ?ram" 2 False] sif0_sample_ok [of ?ram] by blast
qed

section \<open>A chain without an end\<close>

text \<open>
  Memory without a tag that ends: every IOP tag is empty, every EE tag it carries is a \<open>CNTS\<close> tag of
  no quadwords.
\<close>

definition endless :: "'d sifSys \<Rightarrow> bool" where
  "endless s \<longleftrightarrow> (\<forall>a. iop_ram s a = 0) \<and> fifo_ok (fifo (unit s)) \<and> fsize (fifo (unit s)) = 0 \<and>
     iop_busy (unit s) \<and> \<not> iop_end (unit s) \<and> iop_counter (unit s) = 0 \<and>
     ee_busy (unit s) \<and> \<not> ee_end (unit s) \<and> chcr_STR (ch_chcr (ch s)) \<and>
     chcr_MOD (ch_chcr (ch s)) = CHAIN_MODE \<and> ch_qwc (ch s) = 0"

lemma le_read_zero: "(\<And>a. m a = 0) \<Longrightarrow> le_read n m a = 0"
  by (induction n arbitrary: a) simp_all

lemma load_zero: "(\<And>a. m a = 0) \<Longrightarrow> load_words n a m = replicate n 0"
  by (induction n arbitrary: a) (simp_all add: le_read_zero)

lemma chcr_MOD_transfer: "chcr_MOD (ch_chcr (unsafeTransfer tag c)) = chcr_MOD (ch_chcr c)"
proof (rule bit_word_eqI)
  fix k :: nat
  have "(3 :: u32) = mask 2" "(0xffff :: u32) = mask 16" "(0xffff0000 :: u32) = push_bit 16 (mask 16)"
    by code_simp+
  note m = this
  show "bit (chcr_MOD (ch_chcr (unsafeTransfer tag c))) k = bit (chcr_MOD (ch_chcr c)) k"
    unfolding chcr_MOD_def unsafeTransfer_def m by (auto simp: bit_simps)
qed

lemma endless_step:
  assumes "endless s"
  shows "fst (sif0_pass hack s) > 0" "endless (snd (sif0_pass hack s))"
proof -
  let ?u = "unit s" and ?t = "HandleIOPTransfer s"
  have e: "\<And>a. iop_ram s a = 0" "fifo_ok (fifo ?u)" "fsize (fifo ?u) = 0" "iop_busy ?u" "\<not> iop_end ?u"
    "iop_counter ?u = 0" "ee_busy ?u" "\<not> ee_end ?u" "chcr_STR (ch_chcr (ch s))"
    "chcr_MOD (ch_chcr (ch s)) = CHAIN_MODE" "ch_qwc (ch s) = 0"
    using assms by (simp_all add: endless_def)
  have r: "iop_ready ?u"
    using e by (simp add: iop_ready_def sif_free_def)
  have h: "?t = ProcessIOPTag s"
    using e by (simp add: HandleIOPTransfer_def)
  note p = push_tag [OF e(2), of "[0, 0]"]
  define f where "f = fifo (unit ?t)"
  have f: "fifo_ok f" "\<exists>x y. fifo_words f = [0, 0, x, y]" "fsize f = 4"
    using p e(3) load_zero [OF e(1), of 2] unfolding f_def h
    by (simp_all add: ProcessIOPTag_def Let_def fifo_words_def [of "fifo ?u"] numeral_2_eq_2)
  show "fst (sif0_pass hack s) > 0"
    using r by (simp add: sif0_pass_def split: prod.split)
  have t: "iop_ram ?t = iop_ram s" "iop_busy (unit ?t)" "\<not> iop_end (unit ?t)" "iop_counter (unit ?t) = 0"
    "ee_busy (unit ?t)" "\<not> ee_end (unit ?t)" "ch ?t = ch s"
    using e unfolding h
    by (simp_all add: ProcessIOPTag_def Let_def le_read_zero tag_IRQ_def tag_ID_def) (simp add: iop_ram_def)
  let ?v = "ProcessEETag ?t"
  obtain x y where w: "fifo_words f = [0, 0, x, y]"
    using f(2) by blast
  obtain tag g where g: "fifo_read 4 f = (tag, g)"
    by fastforce
  then have tag: "tag = [0, 0, x, y]"
    using fifo_read_words [OF f(1), of 4] f(3) by (simp add: w)
  have v: "fifo_ok (fifo (unit ?v))" "fsize (fifo (unit ?v)) = 0"
    using words_read(1) [OF f(1), of 4] f(3) by (simp_all add: ProcessEETag_unit f_def [symmetric] fsize_read)
  have c: "ch ?v = (unsafeTransfer 0 (ch s))\<lparr>ch_madr := 0\<rparr>" "\<not> ee_end (unit ?v)"
    using t(6,7) unfolding ProcessEETag_def f_def [symmetric] g tag Let_def
    by (auto simp: tag_IRQ_def tag_ID_def)
  have q: "ch_qwc (ch ?v) = 0"
    by (simp add: c unsafeTransfer_def tag_QWC_def)
  have "HandleEETransfer hack ?t = ?v"
    using e t f(3) q by (simp add: HandleEETransfer_def f_def [symmetric])
  moreover have "ee_ready ?t"
    using t(5) f(3) by (simp add: ee_ready_def f_def)
  ultimately have "snd (sif0_pass hack s) = ?v"
    using r by (simp add: sif0_pass_def)
  moreover have "endless ?v"
    using e t v c q by (simp add: endless_def ProcessEETag_unit iop_ram_frame STR_bits chcr_MOD_transfer)
  ultimately show "endless (snd (sif0_pass hack s))"
    by simp
qed

lemma endless_loop: "sif0_loop hack s = Some t \<Longrightarrow> \<not> endless s"
proof (induction rule: sif0_loop.raw_induct [rotated 1, consumes 1, case_names step])
  case (step lp hack s t)
  then show ?case
    using endless_step [of s hack] by (auto split: prod.splits if_splits)
qed



end
