(* ===== verification/Gte.thy ===== *)
theory Gte
  imports IopCpu MMI
begin

text \<open>
  The geometry engine of the IOP, its coprocessor 2 (\<open>pcsx2/IopGte.cpp\<close>): the register moves and
  every geometry instruction, with the accumulators at the widths of the code. \<open>short\<close> operands are
  promoted to 32 bits, where sums and products wrap; \<open>long\<close> has 32 bits. \<open>double\<close> occurs only in
  \<open>gteCDP\<close>, on integers below \<open>2^53\<close> in magnitude, which it represents exactly, and its conversion
  back gives 0x80000000 outside the range of 32 bits, as the host's instruction does.

  The code has three copies of most statements, for the components 1, 2 and 3 or \<open>x\<close>, \<open>y\<close>, \<open>z\<close> and
  red, green, blue; here the component is the argument \<open>n\<close>.
\<close>

section \<open>Registers\<close>

record gteState =
  gD :: "reg \<Rightarrow> u32"
  gC :: "reg \<Rightarrow> u32"

text \<open>The array as halfwords and as bytes: \<open>((s16*)psxRegs.CP2D.r)[i]\<close>, \<open>((u8*)psxRegs.CP2D.r)[i]\<close>.\<close>

definition half :: "nat \<Rightarrow> (reg \<Rightarrow> u32) \<Rightarrow> u16" where
  "half i r = ucast (drop_bit (16 * (i mod 2)) (r (of_nat (i div 2))))"

definition octet :: "nat \<Rightarrow> (reg \<Rightarrow> u32) \<Rightarrow> u8" where
  "octet i r = ucast (drop_bit (8 * (i mod 4)) (r (of_nat (i div 4))))"

definition set_half :: "nat \<Rightarrow> u16 \<Rightarrow> (reg \<Rightarrow> u32) \<Rightarrow> reg \<Rightarrow> u32" where
  "set_half i v r =
     (let k = of_nat (i div 2); n = 16 * (i mod 2)
      in r(k := (r k AND NOT (push_bit n 0xffff)) OR push_bit n (ucast v)))"

definition set_octet :: "nat \<Rightarrow> u8 \<Rightarrow> (reg \<Rightarrow> u32) \<Rightarrow> reg \<Rightarrow> u32" where
  "set_octet i v r =
     (let k = of_nat (i div 4); n = 8 * (i mod 4)
      in r(k := (r k AND NOT (push_bit n 0xff)) OR push_bit n (ucast v)))"

definition set_D :: "reg \<Rightarrow> u32 \<Rightarrow> gteState \<Rightarrow> gteState" where
  "set_D k v g = g\<lparr>gD := (gD g)(k := v)\<rparr>"

definition set_DH :: "nat \<Rightarrow> u16 \<Rightarrow> gteState \<Rightarrow> gteState" where
  "set_DH i v g = g\<lparr>gD := set_half i v (gD g)\<rparr>"

definition set_DB :: "nat \<Rightarrow> u8 \<Rightarrow> gteState \<Rightarrow> gteState" where
  "set_DB i v g = g\<lparr>gD := set_octet i v (gD g)\<rparr>"

text \<open>Signed halfwords promoted to \<open>int\<close>.\<close>

definition dS :: "nat \<Rightarrow> gteState \<Rightarrow> u32" where "dS i g = scast (half i (gD g))"
definition cS :: "nat \<Rightarrow> gteState \<Rightarrow> u32" where "cS i g = scast (half i (gC g))"

text \<open>Vectors 0 to 2, the screen and depth queues, the accumulators.\<close>

definition gteVX :: "nat \<Rightarrow> gteState \<Rightarrow> u32" where "gteVX v = dS (4 * v)"
definition gteVY :: "nat \<Rightarrow> gteState \<Rightarrow> u32" where "gteVY v = dS (4 * v + 1)"
definition gteVZ :: "nat \<Rightarrow> gteState \<Rightarrow> u32" where "gteVZ v = dS (4 * v + 2)"

definition gteIR :: "nat \<Rightarrow> gteState \<Rightarrow> u32" where "gteIR n g = gD g (of_nat (8 + n))"
definition set_IR :: "nat \<Rightarrow> u32 \<Rightarrow> gteState \<Rightarrow> gteState" where "set_IR n = set_D (of_nat (8 + n))"
definition gteMAC :: "nat \<Rightarrow> gteState \<Rightarrow> u32" where "gteMAC n g = gD g (of_nat (24 + n))"
definition set_MAC :: "nat \<Rightarrow> u32 \<Rightarrow> gteState \<Rightarrow> gteState" where "set_MAC n = set_D (of_nat (24 + n))"

definition gteSX :: "nat \<Rightarrow> gteState \<Rightarrow> u32" where "gteSX n = dS (2 * (12 + n))"
definition gteSY :: "nat \<Rightarrow> gteState \<Rightarrow> u32" where "gteSY n = dS (2 * (12 + n) + 1)"
definition gteSXY :: "nat \<Rightarrow> gteState \<Rightarrow> u32" where "gteSXY n g = gD g (of_nat (12 + n))"
definition set_SXY :: "nat \<Rightarrow> u32 \<Rightarrow> gteState \<Rightarrow> gteState" where "set_SXY n = set_D (of_nat (12 + n))"

abbreviation (input) SXYP :: nat where "SXYP \<equiv> 3"

text \<open>\<open>gteSZx\<close> is register 16, \<open>gteSZ0\<close> to \<open>gteSZ2\<close> are 17 to 19.\<close>

definition gteSZx :: "gteState \<Rightarrow> u16" where "gteSZx g = half 32 (gD g)"
definition gteSZ :: "nat \<Rightarrow> gteState \<Rightarrow> u16" where "gteSZ n g = half (2 * (17 + n)) (gD g)"
definition set_SZx :: "u16 \<Rightarrow> gteState \<Rightarrow> gteState" where "set_SZx = set_DH 32"
definition set_SZ :: "nat \<Rightarrow> u16 \<Rightarrow> gteState \<Rightarrow> gteState" where "set_SZ n = set_DH (2 * (17 + n))"
definition set_OTZ :: "u16 \<Rightarrow> gteState \<Rightarrow> gteState" where "set_OTZ = set_DH (7 * 2)"

text \<open>Component \<open>n\<close> of \<open>gteRGB\<close> (\<open>gteR\<close>, \<open>gteG\<close>, \<open>gteB\<close>) and of \<open>gteRGB0\<close> to \<open>gteRGB2\<close>, as \<open>int\<close>.\<close>

definition gteCol :: "nat \<Rightarrow> gteState \<Rightarrow> u32" where "gteCol n g = ucast (octet (6 * 4 + n - 1) (gD g))"
definition gteCol0 :: "nat \<Rightarrow> gteState \<Rightarrow> u32" where "gteCol0 n g = ucast (octet (20 * 4 + n - 1) (gD g))"
definition gteRGB :: "nat \<Rightarrow> gteState \<Rightarrow> u32" where "gteRGB k g = gD g (of_nat (20 + k))"
definition set_RGB :: "nat \<Rightarrow> u32 \<Rightarrow> gteState \<Rightarrow> gteState" where "set_RGB k = set_D (of_nat (20 + k))"

text \<open>
  The matrices \<open>gteR\<close> (rotation), \<open>gteL\<close> (light) and \<open>gte_C\<close> (colour) start at the halfwords 0, 16
  and 32 of the control registers.
\<close>

definition gteM :: "nat \<Rightarrow> nat \<Rightarrow> nat \<Rightarrow> gteState \<Rightarrow> u32" where
  "gteM m n j = cS (16 * m + 3 * (n - 1) + (j - 1))"

abbreviation (input) mR :: nat where "mR \<equiv> 0"
abbreviation (input) mL :: nat where "mL \<equiv> 1"
abbreviation (input) mC :: nat where "mC \<equiv> 2"

definition gteTR :: "nat \<Rightarrow> gteState \<Rightarrow> u32" where "gteTR n g = gC g (of_nat (4 + n))"
definition gteBK :: "nat \<Rightarrow> gteState \<Rightarrow> u32" where "gteBK n g = gC g (of_nat (12 + n))"
definition gteFC :: "nat \<Rightarrow> gteState \<Rightarrow> u32" where "gteFC n g = gC g (of_nat (20 + n))"
definition gteOF :: "nat \<Rightarrow> gteState \<Rightarrow> u32" where "gteOF n g = gC g (of_nat (23 + n))"
definition gteH :: "gteState \<Rightarrow> u16" where "gteH g = half 52 (gC g)"
definition gteDQA :: "gteState \<Rightarrow> u32" where "gteDQA = cS 54"
definition gteDQB :: "gteState \<Rightarrow> u32" where "gteDQB g = gC g 28"
definition gteZSF3 :: "gteState \<Rightarrow> u32" where "gteZSF3 = cS 58"
definition gteZSF4 :: "gteState \<Rightarrow> u32" where "gteZSF4 = cS 60"
definition gteFLAG :: "gteState \<Rightarrow> u32" where "gteFLAG g = gC g 31"

definition set_FLAG :: "u32 \<Rightarrow> gteState \<Rightarrow> gteState" where
  "set_FLAG v g = g\<lparr>gC := (gC g)(31 := v)\<rparr>"

definition raise_flag :: "nat \<Rightarrow> gteState \<Rightarrow> gteState" where
  "raise_flag b g = set_FLAG (gteFLAG g OR push_bit b 1) g"

definition SUM_FLAG :: "gteState \<Rightarrow> gteState" where
  "SUM_FLAG g = (if gteFLAG g AND 0x7F87E000 \<noteq> 0 then set_FLAG (gteFLAG g OR 0x80000000) g else g)"

section \<open>Limiters\<close>

definition LIMX :: "int \<Rightarrow> int \<Rightarrow> nat \<Rightarrow> int \<Rightarrow> gteState \<Rightarrow> int \<times> gteState" where
  "LIMX negv posv flagb x g =
     (if x < negv then (negv, raise_flag flagb g)
      else if x > posv then (posv, raise_flag flagb g) else (x, g))"

definition FNC_OVERFLOW :: "nat \<Rightarrow> u64 \<Rightarrow> gteState \<Rightarrow> u32 \<times> gteState" where
  "FNC_OVERFLOW n x g =
     (ucast x, if sint x < -2147483648 then raise_flag (30 - n) g
               else if sint x > 2147483647 then raise_flag (27 - n) g else g)"

definition F12limAS :: "nat \<Rightarrow> u64 \<Rightarrow> gteState \<Rightarrow> int \<times> gteState" where
  "F12limAS n x = LIMX (-(32768 * 4096)) (32767 * 4096) (25 - n) (sint x)"

definition F12limAU :: "nat \<Rightarrow> u64 \<Rightarrow> gteState \<Rightarrow> int \<times> gteState" where
  "F12limAU n x = LIMX 0 (32767 * 4096) (25 - n) (sint x)"

definition FlimAS :: "nat \<Rightarrow> u32 \<Rightarrow> gteState \<Rightarrow> int \<times> gteState" where
  "FlimAS n x = LIMX (-32768) 32767 (25 - n) (sint x)"

definition FlimB :: "nat \<Rightarrow> u32 \<Rightarrow> gteState \<Rightarrow> int \<times> gteState" where
  "FlimB n x = LIMX 0 255 (22 - n) (sint x)"

definition FlimC :: "u32 \<Rightarrow> gteState \<Rightarrow> int \<times> gteState" where
  "FlimC x = LIMX 0 65535 18 (sint x)"

definition FlimE :: "u32 \<Rightarrow> gteState \<Rightarrow> int \<times> gteState" where
  "FlimE x = LIMX 0 65535 12 (sint x)"

definition FlimG :: "nat \<Rightarrow> u64 \<Rightarrow> gteState \<Rightarrow> int \<times> gteState" where
  "FlimG n x g =
     (let g = (if sint x > 2147483647 then raise_flag 16 g
               else if sint x < -2147483648 then raise_flag 15 g else g)
      in if sint x > 1023 then (1023, raise_flag (15 - n) g)
         else if sint x < -1024 then (-1024, raise_flag (15 - n) g) else (sint x, g))"

text \<open>The three components in turn, and the accumulators limited into \<open>IR1\<close> to \<open>IR3\<close>.\<close>

definition each :: "(nat \<Rightarrow> gteState \<Rightarrow> gteState) \<Rightarrow> gteState \<Rightarrow> gteState" where
  "each f g = f 3 (f 2 (f 1 g))"

definition each_MAC :: "(nat \<Rightarrow> gteState \<Rightarrow> u32 \<times> gteState) \<Rightarrow> gteState \<Rightarrow> gteState" where
  "each_MAC f = each (\<lambda>n g. let (v, g) = f n g in set_MAC n v g)"

definition MAC2IR :: "gteState \<Rightarrow> gteState" where
  "MAC2IR = each (\<lambda>n g. let (v, g) = LIMX (-32768) 32767 (25 - n) (sint (gteMAC n g)) g
                        in set_IR n (word_of_int v) g)"

definition MAC2IR1 :: "gteState \<Rightarrow> gteState" where
  "MAC2IR1 = each (\<lambda>n g. let (v, g) = LIMX 0 32767 (25 - n) (sint (gteMAC n g)) g
                         in set_IR n (word_of_int v) g)"

text \<open>The accumulators shifted and limited into colour \<open>k\<close> of the queue, and the queue moved up.\<close>

definition put_colour :: "nat \<Rightarrow> gteState \<Rightarrow> gteState" where
  "put_colour k g =
     (let g = each (\<lambda>n g. let (v, g) = FlimB n (signed_drop_bit 4 (gteMAC n g)) g
                          in set_DB ((20 + k) * 4 + n - 1) (word_of_int v) g) g
      in set_DB ((20 + k) * 4 + 3) (octet (6 * 4 + 3) (gD g)) g)"

definition push_colour :: "gteState \<Rightarrow> gteState" where
  "push_colour g =
     (let g = set_RGB 0 (gteRGB 1 g) g; g = set_RGB 1 (gteRGB 2 g) g in put_colour 2 g)"

end
