(* ===== verification/GteOps.thy ===== *)
theory GteOps
  imports Gte
begin

text \<open>
  The instructions of the geometry engine (\<open>pcsx2/IopGte.cpp\<close>) over the registers and limiters of
  \<open>Gte\<close>, and their effect on the state of the IOP, for the entries of its instruction tables.
\<close>

section \<open>Products\<close>

text \<open>Row \<open>n\<close> of matrix \<open>m\<close> times a vector, in 32 bits, and the vectors it is used with.\<close>

definition row :: "nat \<Rightarrow> nat \<Rightarrow> (nat \<Rightarrow> u32) \<Rightarrow> gteState \<Rightarrow> u32" where
  "row m n w g = gteM m n 1 g * w 1 + gteM m n 2 g * w 2 + gteM m n 3 g * w 3"

definition vec :: "nat \<Rightarrow> gteState \<Rightarrow> nat \<Rightarrow> u32" where
  "vec v g j = (if j = 1 then gteVX v g else if j = 2 then gteVY v g else gteVZ v g)"

definition vecIR :: "gteState \<Rightarrow> nat \<Rightarrow> u32" where "vecIR g j = gteIR j g"

definition shortIR :: "gteState \<Rightarrow> nat \<Rightarrow> u32" where
  "shortIR g j = scast (ucast (gteIR j g) :: u16)"

text \<open>Three limited values, and their flags.\<close>

definition three :: "(nat \<Rightarrow> gteState \<Rightarrow> int \<times> gteState) \<Rightarrow> gteState \<Rightarrow> (nat \<Rightarrow> u32) \<times> gteState" where
  "three f g =
     (let (a, g) = f 1 g; (b, g) = f 2 g; (c, g) = f 3 g
      in (\<lambda>n. word_of_int (if n = 1 then a else if n = 2 then b else c), g))"

section \<open>Perspective\<close>

definition GTE_RTPS1 :: "nat \<Rightarrow> gteState \<Rightarrow> gteState" where
  "GTE_RTPS1 v = each_MAC (\<lambda>n g.
     FNC_OVERFLOW n (scast (signed_drop_bit 12 (row mR n (vec v g) g) + gteTR n g)) g)"

definition GTE_DSZ :: "nat \<Rightarrow> gteState \<Rightarrow> u64 \<times> gteState" where
  "GTE_DSZ v g =
     (if gteSZ v g = 0 then (0x20000, raise_flag 17 g)
      else let q = push_bit 32 (ucast (gteH g)) div push_bit 16 (ucast (gteSZ v g)) :: u64
           in if q > 0x20000 then (0x20000, raise_flag 17 g) else (q, g))"

definition screen :: "nat \<Rightarrow> u64 \<Rightarrow> gteState \<Rightarrow> u64" where
  "screen n fdsz g =
     signed_drop_bit 16 (scast (gteOF n g) + signed_drop_bit 16 (push_bit 16 (scast (gteIR n g)) * fdsz))"

definition GTE_RTPS2 :: "nat \<Rightarrow> gteState \<Rightarrow> u64 \<times> gteState" where
  "GTE_RTPS2 v g =
     (let (fdsz, g) = GTE_DSZ v g;
          (x, g) = FlimG 1 (screen 1 fdsz g) g;
          g = set_DH (2 * (12 + v)) (word_of_int x) g;
          (y, g) = FlimG 2 (screen 2 fdsz g) g;
          g = set_DH (2 * (12 + v) + 1) (word_of_int y) g
      in (fdsz, g))"

definition GTE_RTPS3 :: "u64 \<Rightarrow> gteState \<Rightarrow> gteState" where
  "GTE_RTPS3 fdsz g =
     (let fdsz = scast (gteDQB g) + signed_drop_bit 8 (push_bit 8 (scast (gteDQA g)) * fdsz);
          g = set_MAC 0 (ucast fdsz) g;
          (v, g) = FlimE (ucast (signed_drop_bit 12 fdsz)) g
      in set_IR 0 (word_of_int v) g)"

definition lim_SZ :: "nat \<Rightarrow> gteState \<Rightarrow> gteState" where
  "lim_SZ k g = (let (z, g) = FlimC (gteMAC 3 g) g in set_SZ k (word_of_int z) g)"

definition lim_IR12 :: "gteState \<Rightarrow> gteState" where
  "lim_IR12 g =
     (let (x, g) = FlimAS 1 (gteMAC 1 g) g; g = set_IR 1 (word_of_int x) g;
          (y, g) = FlimAS 2 (gteMAC 2 g) g in set_IR 2 (word_of_int y) g)"

definition gte_RTPS :: "gteState \<Rightarrow> gteState" where
  "gte_RTPS g =
     (let g = set_FLAG 0 g;
          g = GTE_RTPS1 0 g;
          g = MAC2IR g;
          g = set_SZx (gteSZ 0 g) g;
          g = set_SZ 0 (gteSZ 1 g) g;
          g = set_SZ 1 (gteSZ 2 g) g;
          g = lim_SZ 2 g;
          g = set_SXY 0 (gteSXY 1 g) g;
          g = set_SXY 1 (gteSXY 2 g) g;
          (fdsz, g) = GTE_RTPS2 2 g;
          g = set_SXY SXYP (gteSXY 2 g) g
      in SUM_FLAG (GTE_RTPS3 fdsz g))"

definition gte_RTPT :: "gteState \<Rightarrow> gteState" where
  "gte_RTPT g =
     (let g = set_FLAG 0 g;
          g = set_SZx (gteSZ 2 g) g;
          g = snd (GTE_RTPS2 0 (lim_IR12 (lim_SZ 0 (GTE_RTPS1 0 g))));
          g = snd (GTE_RTPS2 1 (lim_IR12 (lim_SZ 1 (GTE_RTPS1 1 g))));
          (fdsz, g) = GTE_RTPS2 2 (lim_SZ 2 (MAC2IR (GTE_RTPS1 2 g)));
          g = set_SXY SXYP (gteSXY 2 g) g
      in SUM_FLAG (GTE_RTPS3 fdsz g))"

section \<open>General products\<close>

definition mvmva_product :: "u32 \<Rightarrow> nat \<Rightarrow> gteState \<Rightarrow> u64" where
  "mvmva_product ins n g =
     (let sel = ins AND 0x78000
      in if sel = 0x00000 then scast (row mR n (vec 0 g) g)
         else if sel = 0x08000 then scast (row mR n (vec 1 g) g)
         else if sel = 0x10000 then scast (row mR n (vec 2 g) g)
         else if sel = 0x18000 then scast (row mR n (shortIR g) g)
         else if sel = 0x20000 then scast (row mL n (vec 0 g) g)
         else if sel = 0x28000 then scast (row mL n (vec 1 g) g)
         else if sel = 0x30000 then scast (row mL n (vec 2 g) g)
         else if sel = 0x38000 then scast (row mL n (shortIR g) g)
         else if sel = 0x40000 then scast (row mC n (vec 0 g) g)
         else if sel = 0x48000 then scast (row mC n (vec 1 g) g)
         else if sel = 0x50000 then scast (row mC n (vec 2 g) g)
         else if sel = 0x58000 then scast (row mC n (shortIR g) g)
         else 0)"

definition mvmva_shift :: "u32 \<Rightarrow> u64 \<Rightarrow> u64" where
  "mvmva_shift ins x = (if ins AND 0x80000 \<noteq> 0 then signed_drop_bit 12 x else x)"

definition mvmva_add :: "u32 \<Rightarrow> nat \<Rightarrow> gteState \<Rightarrow> u64" where
  "mvmva_add ins n g =
     (let cv = ins AND 0x6000
      in if cv = 0x0000 then scast (gteTR n g)
         else if cv = 0x2000 then scast (gteBK n g)
         else if cv = 0x4000 then scast (gteFC n g) else 0)"

definition gte_MVMVA :: "u32 \<Rightarrow> gteState \<Rightarrow> gteState" where
  "gte_MVMVA ins g =
     (let s = (\<lambda>n. mvmva_shift ins (mvmva_product ins n g) + mvmva_add ins n g);
          g = each_MAC (\<lambda>n. FNC_OVERFLOW n (s n)) (set_FLAG 0 g)
      in SUM_FLAG (if ins AND 0x400 \<noteq> 0 then MAC2IR1 g else MAC2IR g))"

definition gte_NCLIP :: "gteState \<Rightarrow> gteState" where
  "gte_NCLIP g =
     (let g = set_FLAG 0 g
      in SUM_FLAG (set_MAC 0 (gteSX 0 g * (gteSY 1 g - gteSY 2 g) + gteSX 1 g * (gteSY 2 g - gteSY 0 g) +
           gteSX 2 g * (gteSY 0 g - gteSY 1 g)) g))"

definition avsz :: "u32 \<Rightarrow> gteState \<Rightarrow> gteState" where
  "avsz x g =
     (let g = set_MAC 0 (signed_drop_bit 12 x) (set_FLAG 0 g);
          (v, g) = FlimC (gteMAC 0 g) g
      in SUM_FLAG (set_OTZ (word_of_int v) g))"

definition gte_AVSZ3 :: "gteState \<Rightarrow> gteState" where
  "gte_AVSZ3 g = avsz ((ucast (gteSZ 0 g) + ucast (gteSZ 1 g) + ucast (gteSZ 2 g)) * gteZSF3 g) g"

definition gte_AVSZ4 :: "gteState \<Rightarrow> gteState" where
  "gte_AVSZ4 g =
     avsz ((ucast (gteSZx g) + ucast (gteSZ 0 g) + ucast (gteSZ 1 g) + ucast (gteSZ 2 g)) * gteZSF4 g) g"

text \<open>The bit \<open>sf\<close> of the instruction: a shift by 12.\<close>

definition sf :: "u32 \<Rightarrow> u32 \<Rightarrow> u32" where
  "sf ins x = (if ins AND 0x80000 \<noteq> 0 then signed_drop_bit 12 x else x)"

definition gte_SQR :: "u32 \<Rightarrow> gteState \<Rightarrow> gteState" where
  "gte_SQR ins g =
     SUM_FLAG (MAC2IR1 (each_MAC (\<lambda>n g. FNC_OVERFLOW n (scast (sf ins (gteIR n g * gteIR n g))) g)
       (set_FLAG 0 g)))"

definition cross :: "nat \<Rightarrow> gteState \<Rightarrow> u32" where
  "cross n g =
     (let D = (\<lambda>i. gteM mR i i g)
      in if n = 1 then D 2 * gteIR 3 g - D 3 * gteIR 2 g
         else if n = 2 then D 3 * gteIR 1 g - D 1 * gteIR 3 g
         else D 1 * gteIR 2 g - D 2 * gteIR 1 g)"

definition gte_OP :: "u32 \<Rightarrow> gteState \<Rightarrow> gteState" where
  "gte_OP ins g =
     SUM_FLAG (MAC2IR (each_MAC (\<lambda>n g. FNC_OVERFLOW n (scast (sf ins (cross n g))) g) (set_FLAG 0 g)))"

section \<open>Light and colour\<close>

definition light :: "nat \<Rightarrow> gteState \<Rightarrow> (nat \<Rightarrow> u32) \<times> gteState" where
  "light v = three (\<lambda>n g. F12limAU n (scast (signed_drop_bit 12 (row mL n (vec v g) g))) g)"

definition background :: "(nat \<Rightarrow> u32) \<Rightarrow> gteState \<Rightarrow> (nat \<Rightarrow> u32) \<times> gteState" where
  "background ll = three (\<lambda>n g. F12limAU n (scast (gteBK n g + signed_drop_bit 12 (row mC n ll g))) g)"

definition GTE_NCCS :: "nat \<Rightarrow> gteState \<Rightarrow> gteState" where
  "GTE_NCCS v g =
     (let (ll, g) = light v g; (rr, g) = background ll g
      in each (\<lambda>n g. set_MAC n (ucast (signed_drop_bit 20
           (ucast (push_bit 12 (gteCol n g)) * scast (rr n) :: u64))) g) g)"

definition GTE_NCDS :: "nat \<Rightarrow> gteState \<Rightarrow> gteState" where
  "GTE_NCDS v g =
     (let (ll, g) = light v g; (rr, g) = background ll g;
          r0 = (\<lambda>n. ucast (signed_drop_bit 12 (ucast (push_bit 12 (gteCol n g)) * scast (rr n) :: u64)) :: u32)
      in each_MAC (\<lambda>n g.
           let (d, g) = F12limAS n (scast (push_bit 8 (gteFC n g)) - scast (r0 n)) g
           in (ucast (signed_drop_bit 8 (scast (r0 n) +
                 signed_drop_bit 12 (scast (gteIR 0 g) * word_of_int d :: u64))), g)) g)"

definition GTE_NCS :: "nat \<Rightarrow> gteState \<Rightarrow> gteState" where
  "GTE_NCS v g =
     (let (ll, g) = light v g; (rr, g) = background ll g in each (\<lambda>n. set_MAC n (rr n)) g)"

text \<open>One colour pushed on the queue, or all three replaced.\<close>

definition single :: "(nat \<Rightarrow> gteState \<Rightarrow> gteState) \<Rightarrow> gteState \<Rightarrow> gteState" where
  "single f g = SUM_FLAG (MAC2IR1 (push_colour (f 0 (set_FLAG 0 g))))"

definition triple :: "(nat \<Rightarrow> gteState \<Rightarrow> gteState) \<Rightarrow> gteState \<Rightarrow> gteState" where
  "triple f g =
     (let g = put_colour 0 (f 0 (set_FLAG 0 g)); g = put_colour 1 (f 1 g); g = put_colour 2 (f 2 g)
      in SUM_FLAG (MAC2IR1 g))"

definition gte_NCCS :: "gteState \<Rightarrow> gteState" where "gte_NCCS = single GTE_NCCS"
definition gte_NCCT :: "gteState \<Rightarrow> gteState" where "gte_NCCT = triple GTE_NCCS"
definition gte_NCDS :: "gteState \<Rightarrow> gteState" where "gte_NCDS = single GTE_NCDS"
definition gte_NCDT :: "gteState \<Rightarrow> gteState" where "gte_NCDT = triple GTE_NCDS"
definition gte_NCS :: "gteState \<Rightarrow> gteState" where "gte_NCS = single GTE_NCS"
definition gte_NCT :: "gteState \<Rightarrow> gteState" where "gte_NCT = triple GTE_NCS"

section \<open>Depth cueing and interpolation\<close>

text \<open>A difference limited to 16 bits and weighted with \<open>IR0\<close>.\<close>

definition cue :: "nat \<Rightarrow> u32 \<Rightarrow> gteState \<Rightarrow> u32 \<times> gteState" where
  "cue n x g = (let (d, g) = FlimAS n (gteFC n g - x) g in (gteIR 0 g * word_of_int d, g))"

definition cue_colour :: "(nat \<Rightarrow> gteState \<Rightarrow> u32) \<Rightarrow> gteState \<Rightarrow> gteState" where
  "cue_colour col = each_MAC (\<lambda>n g.
     let c = push_bit 4 (col n g); (w, g) = cue n c g in (c + signed_drop_bit 12 w, g))"

definition gte_DPCS :: "gteState \<Rightarrow> gteState" where
  "gte_DPCS g = SUM_FLAG (push_colour (MAC2IR (set_FLAG 0 (cue_colour gteCol g))))"

definition gte_DPCT :: "gteState \<Rightarrow> gteState" where
  "gte_DPCT g =
     (let g = push_colour (cue_colour gteCol0 g);
          g = push_colour (cue_colour gteCol0 g)
      in SUM_FLAG (push_colour (MAC2IR (set_FLAG 0 (cue_colour gteCol0 g)))))"

definition gte_DCPL :: "gteState \<Rightarrow> gteState" where
  "gte_DCPL g =
     (let g = each_MAC (\<lambda>n g.
            let p = gteCol n g * gteIR n g; (w, g) = cue n (signed_drop_bit 12 p) g
            in (signed_drop_bit 8 (p + w), g)) g
      in SUM_FLAG (push_colour (MAC2IR (set_FLAG 0 g))))"

definition gte_INTPL :: "gteState \<Rightarrow> gteState" where
  "gte_INTPL g =
     (let g = each_MAC (\<lambda>n g.
            let (w, g) = cue n (gteIR n g) g in (gteIR n g + signed_drop_bit 12 w, g)) g
      in SUM_FLAG (push_colour (MAC2IR (set_FLAG 0 g))))"

definition gte_GPF :: "u32 \<Rightarrow> gteState \<Rightarrow> gteState" where
  "gte_GPF ins g =
     (let g = each_MAC (\<lambda>n g. FNC_OVERFLOW n (scast (sf ins (gteIR 0 g * gteIR n g))) g) (set_FLAG 0 g)
      in SUM_FLAG (push_colour (MAC2IR g)))"

definition gte_GPL :: "u32 \<Rightarrow> gteState \<Rightarrow> gteState" where
  "gte_GPL ins g =
     (let g = each_MAC (\<lambda>n g. FNC_OVERFLOW n (scast (gteMAC n g + sf ins (gteIR 0 g * gteIR n g))) g)
            (set_FLAG 0 g)
      in SUM_FLAG (push_colour (MAC2IR g)))"

definition gte_CC :: "gteState \<Rightarrow> gteState" where
  "gte_CC g =
     (let (rr, g) = three (\<lambda>n g.
            let (v, g) = FNC_OVERFLOW n (scast (gteBK n g + signed_drop_bit 12 (row mC n (vecIR g) g))) g
            in (sint v, g)) (set_FLAG 0 g);
          g = each (\<lambda>n g. set_MAC n (signed_drop_bit 8 (gteCol n g * rr n)) g) g
      in SUM_FLAG (push_colour (MAC2IR1 g)))"

text \<open>\<open>gteCDP\<close>: exact integers for the values of type \<open>double\<close>.\<close>

definition NC_OVERFLOW :: "nat \<Rightarrow> int \<Rightarrow> gteState \<Rightarrow> int \<times> gteState" where
  "NC_OVERFLOW n x g =
     (x, if x < -2147483648 then raise_flag (30 - n) g
         else if x > 2147483647 then raise_flag (27 - n) g else g)"

definition limAS :: "nat \<Rightarrow> int \<Rightarrow> gteState \<Rightarrow> int \<times> gteState" where
  "limAS n = LIMX (-32768) 32767 (25 - n)"

definition double_to_s32 :: "int \<Rightarrow> u32" where
  "double_to_s32 x = (if -2147483648 \<le> x \<and> x \<le> 2147483647 then word_of_int x else 0x80000000)"

definition gte_CDP :: "gteState \<Rightarrow> gteState" where
  "gte_CDP g =
     (let (rr, g) = three (\<lambda>n g. NC_OVERFLOW n (sint (gteBK n g + row mC n (vecIR g) g)) g) (set_FLAG 0 g);
          g = each_MAC (\<lambda>n g.
            let p = uint (gteCol n g) * sint (rr n); (d, g) = limAS n (sint (gteFC n g) - p) g
            in (double_to_s32 (p + sint (gteIR 0 g) * d), g)) g
      in SUM_FLAG (push_colour (MAC2IR1 g)))"

section \<open>Register moves\<close>

definition MFC2 :: "reg \<Rightarrow> gteState \<Rightarrow> u32 \<times> gteState" where
  "MFC2 r g =
     (if r = 29 then
        let v = ((signed_drop_bit 7 (gteIR 1 g) AND 0x1f) OR
                 push_bit 5 (signed_drop_bit 7 (gteIR 2 g) AND 0x1f)) OR
                push_bit 10 (signed_drop_bit 7 (gteIR 3 g) AND 0x1f)
        in (v, set_D 29 v g)
      else (gD g r, g))"

definition MTC2 :: "u32 \<Rightarrow> reg \<Rightarrow> gteState \<Rightarrow> gteState" where
  "MTC2 v r g =
     (if r = 8 \<or> r = 9 \<or> r = 10 \<or> r = 11 then set_D r (scast (ucast v :: u16)) g
      else if r = 15 then
        (let g = set_SXY 0 (gteSXY 1 g) g; g = set_SXY 1 (gteSXY 2 g) g; g = set_SXY 2 v g
         in set_SXY SXYP v g)
      else if r = 16 \<or> r = 17 \<or> r = 18 \<or> r = 19 then set_D r (v AND 0xffff) g
      else if r = 28 then
        (let g = set_D 28 v g; g = set_IR 1 (push_bit 7 (v AND 0x1f)) g;
             g = set_IR 2 (push_bit 7 (drop_bit 5 v AND 0x1f)) g
         in set_IR 3 (push_bit 7 (drop_bit 10 v AND 0x1f)) g)
      else if r = 30 then set_D 31 (count_leading_sign_bits v) (set_D 30 v g)
      else set_D r v g)"

section \<open>The instructions on the state of the IOP\<close>

definition gte_of :: "'d iopState \<Rightarrow> gteState" where
  "gte_of s = \<lparr>gD = iCP2D s, gC = iCP2C s\<rparr>"

definition put_gte :: "gteState \<Rightarrow> 'd iopState \<Rightarrow> 'd iopState" where
  "put_gte g s = s\<lparr>iCP2D := gD g, iCP2C := gC g\<rparr>"

definition with_gte :: "(gteState \<Rightarrow> gteState) \<Rightarrow> 'd iopState \<Rightarrow> 'd iopState" where
  "with_gte f s = put_gte (f (gte_of s)) s"

definition gte_MFC2 :: "'d iopState \<Rightarrow> 'd iopState" where
  "gte_MFC2 s =
     (if iRt s = 0 then s
      else let (v, g) = MFC2 (iRd s) (gte_of s) in iset (iRt s) v (put_gte g s))"

definition gte_CFC2 :: "'d iopState \<Rightarrow> 'd iopState" where
  "gte_CFC2 s = (if iRt s = 0 then s else iset (iRt s) (iCP2C s (iRd s)) s)"

definition gte_MTC2 :: "'d iopState \<Rightarrow> 'd iopState" where
  "gte_MTC2 s = with_gte (MTC2 (irRt s) (iRd s)) s"

definition gte_CTC2 :: "'d iopState \<Rightarrow> 'd iopState" where
  "gte_CTC2 s = s\<lparr>iCP2C := (iCP2C s)(iRd s := irRt s)\<rparr>"

definition gte_LWC2 :: "'d iop_env \<Rightarrow> 'd iopState \<Rightarrow> 'd iopState" where
  "gte_LWC2 env s = (let (v, s) = iopMemRead32 env (oB s) s in with_gte (MTC2 v (iRt s)) s)"

definition gte_SWC2 :: "'d iop_env \<Rightarrow> 'd iopState \<Rightarrow> 'd iopState" where
  "gte_SWC2 env s =
     (let (v, g) = MFC2 (iRt s) (gte_of s) in iopMemWrite32 env (oB s) v (put_gte g s))"

fun gte_exec :: "'d iop_env \<Rightarrow> gte_op \<Rightarrow> 'd iopState \<Rightarrow> 'd iopState" where
  "gte_exec env gteRTPS s = with_gte gte_RTPS s"
| "gte_exec env gteRTPT s = with_gte gte_RTPT s"
| "gte_exec env gteMVMVA s = with_gte (gte_MVMVA (icode s)) s"
| "gte_exec env gteNCLIP s = with_gte gte_NCLIP s"
| "gte_exec env gteAVSZ3 s = with_gte gte_AVSZ3 s"
| "gte_exec env gteAVSZ4 s = with_gte gte_AVSZ4 s"
| "gte_exec env gteSQR s = with_gte (gte_SQR (icode s)) s"
| "gte_exec env gteOP s = with_gte (gte_OP (icode s)) s"
| "gte_exec env gteNCCS s = with_gte gte_NCCS s"
| "gte_exec env gteNCCT s = with_gte gte_NCCT s"
| "gte_exec env gteNCDS s = with_gte gte_NCDS s"
| "gte_exec env gteNCDT s = with_gte gte_NCDT s"
| "gte_exec env gteNCS s = with_gte gte_NCS s"
| "gte_exec env gteNCT s = with_gte gte_NCT s"
| "gte_exec env gteDPCS s = with_gte gte_DPCS s"
| "gte_exec env gteDPCT s = with_gte gte_DPCT s"
| "gte_exec env gteDCPL s = with_gte gte_DCPL s"
| "gte_exec env gteINTPL s = with_gte gte_INTPL s"
| "gte_exec env gteGPF s = with_gte (gte_GPF (icode s)) s"
| "gte_exec env gteGPL s = with_gte (gte_GPL (icode s)) s"
| "gte_exec env gteCC s = with_gte gte_CC s"
| "gte_exec env gteCDP s = with_gte gte_CDP s"
| "gte_exec env gteMFC2 s = gte_MFC2 s"
| "gte_exec env gteCFC2 s = gte_CFC2 s"
| "gte_exec env gteMTC2 s = gte_MTC2 s"
| "gte_exec env gteCTC2 s = gte_CTC2 s"
| "gte_exec env gteLWC2 s = gte_LWC2 env s"
| "gte_exec env gteSWC2 s = gte_SWC2 env s"

text \<open>The machine with this geometry engine in place of the parameter.\<close>

definition with_GTE :: "'d iop_env \<Rightarrow> 'd iop_env" where
  "with_GTE env = env\<lparr>gte := gte_exec env\<rparr>"

end
