(* ===== verification/GteProps.thy ===== *)
theory GteProps
  imports GteOps
begin

text \<open>
  Properties of the geometry engine: which flags its instructions can raise, what its limiters and its
  perspective transformation compute, its queues and register moves.
\<close>

section \<open>Halfwords and widths\<close>

lemma half_upd: "half i (r(k := v)) = (if of_nat (i div 2) = k then ucast (drop_bit (16 * (i mod 2)) v) else half i r)"
  by (simp add: half_def)

lemma half_set_half:
  assumes "i < 64" "j < 64"
  shows "half i (set_half j v r) = (if i = j then v else half i r)"
proof -
  have m: "NOT (0xffff :: u32) = NOT (mask 16)" "(0xffff :: u32) = mask 16"
    by (simp_all add: mask_eq_exp_minus_1)
  have e: "(of_nat (i div 2) = (of_nat (j div 2) :: reg)) \<longleftrightarrow> i div 2 = j div 2"
    using assms by (simp add: word_of_nat_eq_iff take_bit_nat_eq_self)
  show ?thesis
  proof (cases "i div 2 = j div 2")
    case False
    then show ?thesis
      using e by (auto simp: half_def set_half_def Let_def)
  next
    case True
    then have "i = j \<or> (i mod 2 = 0 \<and> j mod 2 = 1) \<or> (i mod 2 = 1 \<and> j mod 2 = 0)"
      by presburger
    then show ?thesis
      using True by (auto simp: half_def set_half_def Let_def m intro!: bit_word_eqI) (auto simp: bit_simps dest: bit_imp_le_length)
  qed
qed

lemma set_half_other: "k \<noteq> of_nat (i div 2) \<Longrightarrow> set_half i v r k = r k"
  by (simp add: set_half_def Let_def)

lemma s32_range: "-2147483648 \<le> sint (x :: u32)" "sint (x :: u32) \<le> 2147483647"
  using sint_range_size [of x] by (simp_all add: word_size)

lemma sint_scast64 [simp]: "sint (scast (x :: u32) :: u64) = sint x"
  using s32_range [of x] by (simp add: signed_scast_eq signed_take_bit_int_eq_self_iff)

lemma FNC_32 [simp]: "FNC_OVERFLOW n (scast (x :: u32)) g = (x, g)"
proof -
  have "ucast (scast x :: u64) = x"
    by (rule bit_word_eqI) (auto simp: bit_simps)
  then show ?thesis
    using s32_range [of x] by (simp add: FNC_OVERFLOW_def)
qed

section \<open>Flags\<close>

text \<open>The overflow flags of the accumulators 1 to 3 (bit 24 is also the flag of \<open>IR1\<close>).\<close>

definition MAC_flags :: "gteState \<Rightarrow> u32" where
  "MAC_flags g = gteFLAG g AND 0x7E000000"

lemma FLAG_simps [simp]:
  "gteFLAG (set_D k v g) = gteFLAG g" "gteFLAG (set_DH i h g) = gteFLAG g" "gteFLAG (set_DB i x g) = gteFLAG g"
  "gteFLAG (set_FLAG v g) = v" "gteFLAG (raise_flag b g) = gteFLAG g OR push_bit b 1"
  "gteFLAG (set_MAC n v g) = gteFLAG g" "gteFLAG (set_IR n v g) = gteFLAG g" "gteFLAG (set_SXY n v g) = gteFLAG g"
  "gteFLAG (set_SZ n h g) = gteFLAG g" "gteFLAG (set_SZx h g) = gteFLAG g" "gteFLAG (set_OTZ h g) = gteFLAG g"
  "gteFLAG (set_RGB n v g) = gteFLAG g"
  by (simp_all add: gteFLAG_def set_D_def set_DH_def set_DB_def set_FLAG_def raise_flag_def set_MAC_def
      set_IR_def set_SXY_def set_SZ_def set_SZx_def set_OTZ_def set_RGB_def)

lemma MAC_mask: "(0x7E000000 :: u32) = push_bit 25 (mask 6)"
  by (simp add: mask_eq_exp_minus_1)

lemma MAC_flags_set [simp]:
  "MAC_flags (set_D k v g) = MAC_flags g" "MAC_flags (set_DH i h g) = MAC_flags g"
  "MAC_flags (set_DB i x g) = MAC_flags g" "MAC_flags (set_FLAG 0 g) = 0"
  "MAC_flags (set_MAC n v g) = MAC_flags g" "MAC_flags (set_IR n v g) = MAC_flags g"
  "MAC_flags (set_SXY n v g) = MAC_flags g" "MAC_flags (set_SZ n h g) = MAC_flags g"
  "MAC_flags (set_SZx h g) = MAC_flags g" "MAC_flags (set_OTZ h g) = MAC_flags g"
  "MAC_flags (set_RGB n v g) = MAC_flags g"
  by (simp_all add: MAC_flags_def)

lemma MAC_flags_raise [simp]: "b < 25 \<Longrightarrow> MAC_flags (raise_flag b g) = MAC_flags g"
  unfolding MAC_flags_def FLAG_simps MAC_mask
  by (rule bit_word_eqI) (auto simp: bit_simps)

lemma MAC_flags_SUM [simp]: "MAC_flags (SUM_FLAG g) = MAC_flags g"
proof -
  have "(w OR 0x80000000) AND 0x7E000000 = w AND (0x7E000000 :: u32)" for w
    unfolding bit.conj_disj_distrib2 by simp
  then show ?thesis
    by (simp add: SUM_FLAG_def MAC_flags_def)
qed

lemma MAC_flags_LIMX [simp]: "b < 25 \<Longrightarrow> MAC_flags (snd (LIMX lo hi b x g)) = MAC_flags g"
  by (simp add: LIMX_def)

lemma MAC_flags_limits [simp]:
  "0 < n \<Longrightarrow> MAC_flags (snd (F12limAS n y g)) = MAC_flags g"
  "0 < n \<Longrightarrow> MAC_flags (snd (F12limAU n y g)) = MAC_flags g"
  "0 < n \<Longrightarrow> MAC_flags (snd (FlimAS n x g)) = MAC_flags g"
  "MAC_flags (snd (FlimB n x g)) = MAC_flags g" "MAC_flags (snd (FlimC x g)) = MAC_flags g"
  "MAC_flags (snd (FlimE x g)) = MAC_flags g" "MAC_flags (snd (FlimG n y g)) = MAC_flags g"
  "0 < n \<Longrightarrow> MAC_flags (snd (limAS n i g)) = MAC_flags g"
  by (simp_all add: F12limAS_def F12limAU_def FlimAS_def FlimB_def FlimC_def FlimE_def FlimG_def limAS_def Let_def)

lemma MAC_flags_each: "(\<And>n g. 0 < n \<Longrightarrow> MAC_flags (f n g) = MAC_flags g) \<Longrightarrow> MAC_flags (each f g) = MAC_flags g"
  by (simp add: each_def)

lemma MAC_flags_each_MAC:
  "(\<And>n g. 0 < n \<Longrightarrow> MAC_flags (snd (f n g)) = MAC_flags g) \<Longrightarrow> MAC_flags (each_MAC f g) = MAC_flags g"
  by (simp add: each_MAC_def MAC_flags_each split_beta Let_def)

lemma MAC_flags_three:
  "(\<And>n g. 0 < n \<Longrightarrow> MAC_flags (snd (f n g)) = MAC_flags g) \<Longrightarrow> MAC_flags (snd (three f g)) = MAC_flags g"
  by (simp add: three_def split_beta Let_def)

lemmas MAC_flags_steps = MAC_flags_each MAC_flags_each_MAC MAC_flags_three split_beta Let_def

lemma MAC_flags_parts [simp]:
  "MAC_flags (MAC2IR g) = MAC_flags g" "MAC_flags (MAC2IR1 g) = MAC_flags g"
  "MAC_flags (put_colour k g) = MAC_flags g" "MAC_flags (push_colour g) = MAC_flags g"
  "MAC_flags (GTE_RTPS1 v g) = MAC_flags g" "MAC_flags (snd (GTE_RTPS2 v g)) = MAC_flags g"
  "MAC_flags (GTE_RTPS3 d g) = MAC_flags g" "MAC_flags (lim_SZ v g) = MAC_flags g"
  "MAC_flags (lim_IR12 g) = MAC_flags g" "MAC_flags (GTE_NCCS v g) = MAC_flags g"
  "MAC_flags (GTE_NCDS v g) = MAC_flags g" "MAC_flags (GTE_NCS v g) = MAC_flags g"
  by (simp_all add: MAC2IR_def MAC2IR1_def put_colour_def push_colour_def GTE_RTPS1_def GTE_RTPS2_def
      GTE_RTPS3_def GTE_DSZ_def lim_SZ_def lim_IR12_def GTE_NCCS_def GTE_NCDS_def GTE_NCS_def light_def
      background_def MAC_flags_steps)

definition gte_ones :: gteState where
  "gte_ones = \<lparr>gD = \<lambda>_. 0x7fff7fff, gC = \<lambda>_. 0x7fff7fff\<rparr>"

lemma gte_ones_row: "sint (row mR 1 (vec 0 gte_ones) gte_ones) = 3 * 0x7fff * 0x7fff - 2 ^ 32"
  by (simp add: gte_ones_def row_def vec_def gteM_def cS_def gteVX_def gteVY_def gteVZ_def dS_def half_def)


text \<open>The control registers without the flags, which no instruction changes.\<close>

definition ctl :: "gteState \<Rightarrow> reg \<Rightarrow> u32" where
  "ctl g = (gC g)(31 := 0)"

lemma ctl_set [simp]:
  "ctl (set_D k v g) = ctl g" "ctl (set_DH i h g) = ctl g" "ctl (set_DB i x g) = ctl g" "ctl (set_FLAG v g) = ctl g"
  "ctl (raise_flag b g) = ctl g" "ctl (set_MAC n v g) = ctl g" "ctl (set_IR n v g) = ctl g"
  "ctl (set_SXY n v g) = ctl g" "ctl (set_SZ n h g) = ctl g" "ctl (set_SZx h g) = ctl g" "ctl (set_OTZ h g) = ctl g"
  "ctl (set_RGB n v g) = ctl g" "ctl (SUM_FLAG g) = ctl g"
  by (simp_all add: ctl_def set_D_def set_DH_def set_DB_def set_FLAG_def raise_flag_def set_MAC_def
      set_IR_def set_SXY_def set_SZ_def set_SZx_def set_OTZ_def set_RGB_def SUM_FLAG_def)

lemma ctl_reads:
  assumes "ctl g = ctl h"
  shows "i < 62 \<Longrightarrow> cS i g = cS i h" "i < 62 \<Longrightarrow> half i (gC g) = half i (gC h)" "k \<noteq> 31 \<Longrightarrow> gC g k = gC h k"
proof -
  show k: "gC g k = gC h k" if "k \<noteq> 31" for k
    using fun_cong [OF assms, of k] that by (simp add: ctl_def)
  show "half i (gC g) = half i (gC h)" if "i < 62"
  proof -
    have "unat (of_nat (i div 2) :: reg) = i div 2"
      using that by (simp add: unat_of_nat)
    moreover have "i div 2 \<noteq> 31"
      using that by simp
    ultimately have "(of_nat (i div 2) :: reg) \<noteq> 31"
      by (auto dest: arg_cong [of _ _ unat])
    then show ?thesis
      by (simp add: half_def k)
  qed
  then show "cS i g = cS i h" if "i < 62"
    using that by (simp add: cS_def)
qed

lemma LIMX_simps [simp]:
  "ctl (snd (LIMX lo hi b x g)) = ctl g" "gD (snd (LIMX lo hi b x g)) = gD g"
  "lo \<le> hi \<Longrightarrow> fst (LIMX lo hi b x g) = max lo (min hi x)"
  by (simp_all add: LIMX_def raise_flag_def set_FLAG_def ctl_def)

lemma gD_set [simp]:
  "gD (set_D k v g) = (gD g)(k := v)" "gD (set_DH i h g) = set_half i h (gD g)" "gD (set_DB i x g) = set_octet i x (gD g)"
  "gD (set_FLAG v g) = gD g" "gD (raise_flag b g) = gD g" "gD (SUM_FLAG g) = gD g"
  by (simp_all add: set_D_def set_DH_def set_DB_def set_FLAG_def raise_flag_def SUM_FLAG_def)

lemma gD_FlimG [simp]: "gD (snd (FlimG n x g)) = gD g" "ctl (snd (FlimG n x g)) = ctl g"
  "fst (FlimG n x g) = max (-1024) (min 1023 (sint x))"
  by (auto simp: FlimG_def Let_def)

lemma limits_simps [simp]:
  "gD (snd (FlimAS n x g)) = gD g" "ctl (snd (FlimAS n x g)) = ctl g"
  "fst (FlimAS n x g) = max (-32768) (min 32767 (sint x))"
  "gD (snd (FlimB n x g)) = gD g" "ctl (snd (FlimB n x g)) = ctl g"
  "fst (FlimB n x g) = max 0 (min 255 (sint x))"
  "gD (snd (FlimC x g)) = gD g" "ctl (snd (FlimC x g)) = ctl g" "fst (FlimC x g) = max 0 (min 65535 (sint x))"
  "gD (snd (FlimE x g)) = gD g" "ctl (snd (FlimE x g)) = ctl g" "fst (FlimE x g) = max 0 (min 65535 (sint x))"
  by (simp_all add: FlimAS_def FlimB_def FlimC_def FlimE_def)

lemma ctl_each [simp]: "(\<And>n g. ctl (f n g) = ctl g) \<Longrightarrow> ctl (each f g) = ctl g"
  by (simp add: each_def)

lemma gteM_cong: "ctl g = ctl h \<Longrightarrow> m \<le> 2 \<Longrightarrow> n \<le> 3 \<Longrightarrow> j \<le> 3 \<Longrightarrow> gteM m n j g = gteM m n j h"
  unfolding gteM_def by (rule ctl_reads(1)) simp_all

lemma row_cong: "ctl g = ctl h \<Longrightarrow> m \<le> 2 \<Longrightarrow> n \<le> 3 \<Longrightarrow> row m n w g = row m n w h"
  by (simp add: row_def gteM_cong [of g h])

lemma ctl_values:
  assumes "ctl g = ctl h"
  shows "n \<le> 3 \<Longrightarrow> gteTR n g = gteTR n h" "n \<le> 3 \<Longrightarrow> gteBK n g = gteBK n h" "n \<le> 3 \<Longrightarrow> gteFC n g = gteFC n h"
    "n \<le> 3 \<Longrightarrow> gteOF n g = gteOF n h" "gteH g = gteH h" "gteDQA g = gteDQA h" "gteDQB g = gteDQB h"
    "gteZSF3 g = gteZSF3 h" "gteZSF4 g = gteZSF4 h"
proof -
  have n: "of_nat (4 + n) \<noteq> (31 :: reg)" "of_nat (12 + n) \<noteq> (31 :: reg)" "of_nat (20 + n) \<noteq> (31 :: reg)"
    "of_nat (23 + n) \<noteq> (31 :: reg)" if "n \<le> 3" for n :: nat
  proof -
    have "n \<in> {0, 1, 2, 3}" using that by auto
    then show "of_nat (4 + n) \<noteq> (31 :: reg)" "of_nat (12 + n) \<noteq> (31 :: reg)" "of_nat (20 + n) \<noteq> (31 :: reg)"
      "of_nat (23 + n) \<noteq> (31 :: reg)" by auto
  qed
  show "n \<le> 3 \<Longrightarrow> gteTR n g = gteTR n h" "n \<le> 3 \<Longrightarrow> gteBK n g = gteBK n h" "n \<le> 3 \<Longrightarrow> gteFC n g = gteFC n h"
    "n \<le> 3 \<Longrightarrow> gteOF n g = gteOF n h"
    unfolding gteTR_def gteBK_def gteFC_def gteOF_def by (rule ctl_reads(3) [OF assms], erule n)+
  show "gteH g = gteH h" "gteDQA g = gteDQA h" "gteDQB g = gteDQB h" "gteZSF3 g = gteZSF3 h" "gteZSF4 g = gteZSF4 h"
    by (simp_all add: gteH_def gteDQA_def gteDQB_def gteZSF3_def gteZSF4_def ctl_reads [OF assms])
qed

lemma vec_cong: "gD g = gD h \<Longrightarrow> vec v g = vec v h"
  by (rule ext) (simp add: vec_def gteVX_def gteVY_def gteVZ_def dS_def)

section \<open>Perspective\<close>

lemma vec_MAC:
  assumes "v < 3" "n \<in> {1, 2, 3}"
  shows "vec v (set_MAC n x g) = vec v g"
proof (rule ext)
  fix j
  have "v \<in> {0, 1, 2}"
    using assms(1) by auto
  then show "vec v (set_MAC n x g) j = vec v g j"
    using assms(2) by (auto simp: vec_def gteVX_def gteVY_def gteVZ_def dS_def set_MAC_def half_upd)
qed

lemma RTPS1_state:
  fixes g :: gteState
  assumes "v < 3"
  defines "mac \<equiv> \<lambda>n. signed_drop_bit 12 (row mR n (vec v g) g) + gteTR n g"
  shows "GTE_RTPS1 v g = set_MAC 3 (mac 3) (set_MAC 2 (mac 2) (set_MAC 1 (mac 1) g))"
proof -
  have "row mR n w (set_MAC k x h) = row mR n w h" "gteTR n (set_MAC k x h) = gteTR n h" if "n \<le> 3" for n w k x h
    using that by (simp_all add: row_cong [of "set_MAC k x h" h] ctl_values(1) [of "set_MAC k x h" h])
  then show ?thesis
    by (simp add: GTE_RTPS1_def each_MAC_def each_def mac_def vec_MAC assms(1))
qed

lemma MAC2IR_values:
  "gD (MAC2IR g) = (gD g)
     (9 := word_of_int (max (-32768) (min 32767 (sint (gteMAC 1 g)))),
      10 := word_of_int (max (-32768) (min 32767 (sint (gteMAC 2 g)))),
      11 := word_of_int (max (-32768) (min 32767 (sint (gteMAC 3 g)))))"
  "ctl (MAC2IR g) = ctl g"
  by (simp_all add: MAC2IR_def each_def split_beta Let_def set_IR_def gteMAC_def)

lemma lim_SZ_values:
  "gD (lim_SZ k g) = set_half (2 * (17 + k)) (word_of_int (max 0 (min 65535 (sint (gteMAC 3 g))))) (gD g)"
  "ctl (lim_SZ k g) = ctl g"
  by (simp_all add: lim_SZ_def split_beta Let_def set_SZ_def)

lemma lim_IR12_values:
  "gD (lim_IR12 g) = (gD g)
     (9 := word_of_int (max (-32768) (min 32767 (sint (gteMAC 1 g)))),
      10 := word_of_int (max (-32768) (min 32767 (sint (gteMAC 2 g)))))"
  "ctl (lim_IR12 g) = ctl g"
  by (simp_all add: lim_IR12_def split_beta Let_def set_IR_def gteMAC_def)

text \<open>The ratio \<open>H / SZ\<close> with 16 fraction bits, limited to 2.\<close>

definition ratio :: "u16 \<Rightarrow> u16 \<Rightarrow> int" where
  "ratio h z = (if z = 0 then 0x20000 else min 0x20000 (uint h * 65536 div uint z))"

lemma DSZ_value: "fst (GTE_DSZ v g) = word_of_int (ratio (gteH g) (gteSZ v g))"
  and DSZ_state: "gD (snd (GTE_DSZ v g)) = gD g" "ctl (snd (GTE_DSZ v g)) = ctl g"
proof -
  let ?h = "uint (gteH g)" and ?z = "uint (gteSZ v g)"
  have h: "0 \<le> ?h" "?h < 65536" "0 \<le> ?z" "?z < 65536"
    using uint_lt2p [of "gteH g"] uint_lt2p [of "gteSZ v g"] by simp_all
  have "uint (push_bit 32 (ucast (gteH g)) :: u64) = ?h * 4294967296"
    using h by (simp add: push_bit_eq_mult uint_word_ariths unsigned_ucast_eq take_bit_eq_mod)
  moreover have "uint (push_bit 16 (ucast (gteSZ v g)) :: u64) = ?z * 65536"
    using h by (simp add: push_bit_eq_mult uint_word_ariths unsigned_ucast_eq take_bit_eq_mod)
  ultimately have q: "uint (push_bit 32 (ucast (gteH g)) div push_bit 16 (ucast (gteSZ v g)) :: u64) =
      ?h * 65536 div ?z"
    using div_mult_mult2 [of 65536 "?h * 65536" ?z] by (simp add: uint_div)
  then have "push_bit 32 (ucast (gteH g)) div push_bit 16 (ucast (gteSZ v g)) = (word_of_int (?h * 65536 div ?z) :: u64)"
    by (metis word_of_int_uint)
  then show "fst (GTE_DSZ v g) = word_of_int (ratio (gteH g) (gteSZ v g))"
    using q by (auto simp: GTE_DSZ_def ratio_def Let_def word_less_def min_def)
  show "gD (snd (GTE_DSZ v g)) = gD g" "ctl (snd (GTE_DSZ v g)) = ctl g"
    by (simp_all add: GTE_DSZ_def Let_def)
qed

lemma s64_exact: "-9223372036854775808 \<le> i \<Longrightarrow> i < 9223372036854775808 \<Longrightarrow> sint (word_of_int i :: u64) = i"
  by (simp add: signed_of_int signed_take_bit_int_eq_self_iff)

lemma s16_exact: "-32768 \<le> i \<Longrightarrow> i < 32768 \<Longrightarrow> sint (word_of_int i :: u16) = i"
  by (simp add: signed_of_int signed_take_bit_int_eq_self_iff)

lemma s32_exact: "-2147483648 \<le> i \<Longrightarrow> i < 2147483648 \<Longrightarrow> sint (word_of_int i :: u32) = i"
  by (simp add: signed_of_int signed_take_bit_int_eq_self_iff)

lemma ratio_range: "0 \<le> ratio h z" "ratio h z \<le> 0x20000"
  by (simp_all add: ratio_def div_int_pos_iff)

lemma scast_word_of_int: "(scast (x :: u32) :: u64) = word_of_int (sint x)"
  by (metis sint_scast64 of_int_sint)

definition clamp_to :: "int \<Rightarrow> int \<Rightarrow> int \<Rightarrow> int" where
  "clamp_to lo hi x = max lo (min hi x)"

lemma clamp_exact [simp]:
  "sint (word_of_int (clamp_to (-32768) 32767 x) :: u32) = clamp_to (-32768) 32767 x"
  "sint (word_of_int (clamp_to (-1024) 1023 x) :: u16) = clamp_to (-1024) 1023 x"
  "uint (word_of_int (clamp_to 0 65535 x) :: u16) = clamp_to 0 65535 x"
  by (rule s32_exact s16_exact; simp add: clamp_to_def)+ (simp add: clamp_to_def unsigned_of_int take_bit_int_eq_self_iff)

lemma sint_scast32: "sint (scast (x :: u16) :: u32) = sint x"
  using sint_range_size [of x] by (simp add: word_size signed_scast_eq signed_take_bit_int_eq_self_iff)

lemma s64_eqI: "sint (w :: u64) = i \<Longrightarrow> w = word_of_int i"
  by auto

lemma screen_exact:
  assumes "-32768 \<le> sint (gteIR n g)" "sint (gteIR n g) \<le> 32767" "0 \<le> r" "r \<le> 0x20000"
  shows "sint (screen n (word_of_int r) g) = (sint (gteOF n g) + sint (gteIR n g) * r) div 65536"
proof -
  let ?x = "sint (gteIR n g)" and ?o = "sint (gteOF n g)"
  have "\<bar>?x\<bar> \<le> 32768"
    using assms by (simp add: abs_le_iff)
  then have "\<bar>?x * r\<bar> \<le> 32768 * 0x20000"
    unfolding abs_mult using assms(3,4) by (intro mult_mono) simp_all
  then have b: "-4294967296 \<le> ?x * r" "?x * r \<le> 4294967296"
    by simp_all
  have o: "-2147483648 \<le> ?o" "?o \<le> 2147483647"
    by (rule s32_range)+
  have "push_bit 16 (scast (gteIR n g)) * word_of_int r = (word_of_int ((?x * r) * 65536) :: u64)"
  proof -
    have e: "(2 :: u64) ^ 16 = of_int 65536"
      by simp
    show ?thesis
      unfolding scast_word_of_int push_bit_eq_mult e of_int_mult [symmetric] by (simp only: mult_ac)
  qed
  moreover have "sint (word_of_int ((?x * r) * 65536) :: u64) = (?x * r) * 65536"
    using b by (intro s64_exact) linarith+
  ultimately have "sint (signed_drop_bit 16 (push_bit 16 (scast (gteIR n g)) * word_of_int r) :: u64) = ?x * r"
    by (simp add: sint_signed_drop_bit_eq drop_bit_eq_div)
  then have i: "signed_drop_bit 16 (push_bit 16 (scast (gteIR n g)) * word_of_int r) = (word_of_int (?x * r) :: u64)"
    by (rule s64_eqI)
  have "sint (word_of_int (?o + ?x * r) :: u64) = ?o + ?x * r"
    using b o by (intro s64_exact) simp_all
  then show ?thesis
    unfolding screen_def i
    by (simp only: scast_word_of_int of_int_add [symmetric] sint_signed_drop_bit_eq drop_bit_eq_div) simp
qed

lemma RTPS2_values:
  "gD (snd (GTE_RTPS2 v g)) =
     set_half (2 * (12 + v) + 1)
       (word_of_int (max (-1024) (min 1023 (sint (screen 2 (fst (GTE_DSZ v g)) g)))))
     (set_half (2 * (12 + v))
       (word_of_int (max (-1024) (min 1023 (sint (screen 1 (fst (GTE_DSZ v g)) g))))) (gD g))" (is ?D)
  "ctl (snd (GTE_RTPS2 v g)) = ctl g" "fst (GTE_RTPS2 v g) = fst (GTE_DSZ v g)"
  if "v < 3"
proof -
  obtain d h where d: "GTE_DSZ v g = (d, h)"
    by fastforce
  have h: "gD h = gD g" "ctl h = ctl g"
    using DSZ_state [of v g] by (simp_all add: d)
  have v: "v = 0 \<or> v = 1 \<or> v = 2"
    using that by auto
  have s: "screen 1 d h = screen 1 d g" "screen 2 d (set_DH (2 * (12 + v)) x (snd (FlimG 1 y h))) = screen 2 d g" for x y
  proof -
    have o: "gteOF n h = gteOF n g" "gteOF n (set_DH i x (snd (FlimG m y h))) = gteOF n g" if "n \<le> 3" for n m i x y
      by (rule ctl_values(4); simp add: h that)+
    show "screen 1 d h = screen 1 d g" "screen 2 d (set_DH (2 * (12 + v)) x (snd (FlimG 1 y h))) = screen 2 d g"
      using v by (auto simp: screen_def gteIR_def o h set_half_other)
  qed
  show ?D "ctl (snd (GTE_RTPS2 v g)) = ctl g" "fst (GTE_RTPS2 v g) = fst (GTE_DSZ v g)"
    by (simp_all add: GTE_RTPS2_def split_beta Let_def d h s [simplified])
qed

lemma RTPS3_values:
  "gD (GTE_RTPS3 d g) k = (if k = 8 \<or> k = 24 then gD (GTE_RTPS3 d g) k else gD g k)" "ctl (GTE_RTPS3 d g) = ctl g"
  "0 \<le> sint (gteIR 0 (GTE_RTPS3 d g))" "sint (gteIR 0 (GTE_RTPS3 d g)) \<le> 65535"
  by (auto simp: GTE_RTPS3_def Let_def split_beta set_MAC_def set_IR_def gteIR_def s32_exact)


text \<open>The state before the division: the vertex transformed and the queues moved up.\<close>

definition rtps_vertex :: "gteState \<Rightarrow> gteState" where
  "rtps_vertex g =
     (let g = MAC2IR (GTE_RTPS1 0 (set_FLAG 0 g)); g = set_SZx (gteSZ 0 g) g; g = set_SZ 0 (gteSZ 1 g) g;
          g = set_SZ 1 (gteSZ 2 g) g; g = lim_SZ 2 g; g = set_SXY 0 (gteSXY 1 g) g
      in set_SXY 1 (gteSXY 2 g) g)"

lemmas gte_reads = gteMAC_def gteIR_def gteSZ_def gteSZx_def gteSXY_def
lemmas gte_writes = set_MAC_def set_IR_def set_SZ_def set_SZx_def set_SXY_def half_upd half_set_half set_half_other

definition rtps_mac :: "gteState \<Rightarrow> nat \<Rightarrow> u32" where
  "rtps_mac g n = signed_drop_bit 12 (row mR n (vec 0 g) g) + gteTR n g"

lemma rtps_vertex_values:
  fixes g :: gteState
  defines "mac \<equiv> rtps_mac g" and "b \<equiv> rtps_vertex g"
  shows "gteMAC 1 b = mac 1" "gteMAC 2 b = mac 2" "gteMAC 3 b = mac 3"
    "gteIR 1 b = word_of_int (clamp_to (-32768) 32767 (sint (mac 1)))"
    "gteIR 2 b = word_of_int (clamp_to (-32768) 32767 (sint (mac 2)))"
    "gteIR 3 b = word_of_int (clamp_to (-32768) 32767 (sint (mac 3)))"
    "gteSZx b = gteSZ 0 g" "gteSZ 0 b = gteSZ 1 g" "gteSZ 1 b = gteSZ 2 g"
    "gteSZ 2 b = word_of_int (clamp_to 0 65535 (sint (mac 3)))"
    "gteSXY 0 b = gteSXY 1 g" "gteSXY 1 b = gteSXY 2 g" "ctl b = ctl g"
proof -
  define a where "a = MAC2IR (GTE_RTPS1 0 (set_FLAG 0 g))"
  have ca: "ctl a = ctl g"
    by (simp add: a_def MAC2IR_values RTPS1_state)
  have c: "row mR n w (set_FLAG 0 g) = row mR n w g" "gteTR n (set_FLAG 0 g) = gteTR n g" if "n \<le> 3" for n w
    by (rule row_cong ctl_values(1); use that in simp)+
  have v: "vec 0 (set_FLAG 0 g) = vec 0 g"
    by (rule vec_cong) simp
  have a: "gteMAC 1 a = mac 1" "gteMAC 2 a = mac 2" "gteMAC 3 a = mac 3"
    "gteIR 1 a = word_of_int (clamp_to (-32768) 32767 (sint (mac 1)))"
    "gteIR 2 a = word_of_int (clamp_to (-32768) 32767 (sint (mac 2)))"
    "gteIR 3 a = word_of_int (clamp_to (-32768) 32767 (sint (mac 3)))"
    "gteSZ 0 a = gteSZ 0 g" "gteSZ 1 a = gteSZ 1 g" "gteSZ 2 a = gteSZ 2 g"
    "gteSXY 1 a = gteSXY 1 g" "gteSXY 2 a = gteSXY 2 g"
    using c v by (simp_all add: a_def MAC2IR_values RTPS1_state gte_reads gte_writes mac_def rtps_mac_def clamp_to_def)
  show "gteMAC 1 b = mac 1" "gteMAC 2 b = mac 2" "gteMAC 3 b = mac 3"
    "gteIR 1 b = word_of_int (clamp_to (-32768) 32767 (sint (mac 1)))"
    "gteIR 2 b = word_of_int (clamp_to (-32768) 32767 (sint (mac 2)))"
    "gteIR 3 b = word_of_int (clamp_to (-32768) 32767 (sint (mac 3)))"
    "gteSZx b = gteSZ 0 g" "gteSZ 0 b = gteSZ 1 g" "gteSZ 1 b = gteSZ 2 g"
    "gteSZ 2 b = word_of_int (clamp_to 0 65535 (sint (mac 3)))"
    "gteSXY 0 b = gteSXY 1 g" "gteSXY 1 b = gteSXY 2 g" "ctl b = ctl g"
    using a ca
    by (simp_all add: b_def rtps_vertex_def a_def [symmetric] Let_def lim_SZ_values gte_reads gte_writes clamp_to_def)
qed

text \<open>
  C26: the perspective transformation is the fixed-point projection of the rotated and translated vertex.
  The accumulators are the rows of the rotation matrix times the vertex, plus the translation;
  \<open>IR1\<close> to \<open>IR3\<close> and the depth are the accumulators clamped to 16 bits; the screen coordinates are
  \<open>OF + IR * (H / SZ)\<close>, with the ratio limited to 2, rounded down and clamped to -1024 .. 1023, and
  no bit is lost in between; both queues move up by one, and \<open>IR0\<close> is in range.
\<close>

theorem gte_projection:
  fixes g :: gteState
  defines "t \<equiv> gte_RTPS g"
  shows "list_all (\<lambda>n. gteMAC n t = signed_drop_bit 12 (row mR n (vec 0 g) g) + gteTR n g \<and>
       sint (gteIR n t) = clamp_to (-32768) 32767 (sint (gteMAC n t))) [1, 2, 3] \<and>
     uint (gteSZ 2 t) = clamp_to 0 65535 (sint (gteMAC 3 t)) \<and>
     sint (gteSX 2 t) = clamp_to (-1024) 1023
       ((sint (gteOF 1 g) + sint (gteIR 1 t) * ratio (gteH g) (gteSZ 2 t)) div 65536) \<and>
     sint (gteSY 2 t) = clamp_to (-1024) 1023
       ((sint (gteOF 2 g) + sint (gteIR 2 t) * ratio (gteH g) (gteSZ 2 t)) div 65536) \<and>
     gteSZx t = gteSZ 0 g \<and> gteSZ 0 t = gteSZ 1 g \<and> gteSZ 1 t = gteSZ 2 g \<and>
     gteSXY 0 t = gteSXY 1 g \<and> gteSXY 1 t = gteSXY 2 g \<and> gteSXY SXYP t = gteSXY 2 t \<and>
     0 \<le> sint (gteIR 0 t) \<and> sint (gteIR 0 t) \<le> 65535"
proof -
  define mac where "mac = rtps_mac g"
  define b where "b = rtps_vertex g"
  note b = rtps_vertex_values [of g, folded mac_def b_def]
  define h where "h = snd (GTE_RTPS2 2 b)"
  define d where "d = fst (GTE_RTPS2 2 b)"
  have t: "t = SUM_FLAG (GTE_RTPS3 d (set_SXY SXYP (gteSXY 2 h) h))"
    by (simp add: t_def gte_RTPS_def Let_def split_beta b_def rtps_vertex_def h_def d_def)
  have IR: "-32768 \<le> sint (gteIR n b) \<and> sint (gteIR n b) \<le> 32767 \<and>
      sint (gteIR n b) = clamp_to (-32768) 32767 (sint (mac n))" if "n \<in> {1, 2, 3}" for n
  proof -
    have "gteIR n b = word_of_int (clamp_to (-32768) 32767 (sint (mac n)))"
      using that b(4-6) by auto
    then show ?thesis
      by (simp only: clamp_exact) (simp add: clamp_to_def)
  qed
  define r where "r = ratio (gteH g) (gteSZ 2 b)"
  have d: "d = word_of_int r" "0 \<le> r" "r \<le> 0x20000"
    by (simp_all add: d_def RTPS2_values DSZ_value r_def ctl_values(5) [OF b(13)] ratio_range)
  have sc: "sint (screen n d b) = (sint (gteOF n g) + sint (gteIR n b) * r) div 65536" if "n \<in> {1, 2}" for n
    unfolding d(1) using that IR [of n] d(2,3) ctl_values(4) [OF b(13), of n] by (subst screen_exact) auto
  have dd: "fst (GTE_DSZ 2 b) = d"
    by (simp add: d_def RTPS2_values)
  have h: "gteSX 2 h = scast (word_of_int (clamp_to (-1024) 1023 (sint (screen 1 d b))) :: u16)"
    "gteSY 2 h = scast (word_of_int (clamp_to (-1024) 1023 (sint (screen 2 d b))) :: u16)"
    "gteMAC 1 h = gteMAC 1 b" "gteMAC 2 h = gteMAC 2 b" "gteMAC 3 h = gteMAC 3 b"
    "gteIR 1 h = gteIR 1 b" "gteIR 2 h = gteIR 2 b" "gteIR 3 h = gteIR 3 b"
    "gteSZx h = gteSZx b" "gteSZ 0 h = gteSZ 0 b" "gteSZ 1 h = gteSZ 1 b" "gteSZ 2 h = gteSZ 2 b"
    "gteSXY 0 h = gteSXY 0 b" "gteSXY 1 h = gteSXY 1 b"
    by (simp_all add: h_def RTPS2_values dd gteSX_def gteSY_def dS_def gte_reads gte_writes clamp_to_def)
  have tD: "k \<noteq> 8 \<Longrightarrow> k \<noteq> 24 \<Longrightarrow> gD t k = (if k = 15 then gteSXY 2 h else gD h k)" for k
    unfolding t gD_set by (subst RTPS3_values) (simp add: set_SXY_def)
  have th: "half i (gD t) = half i (gD h)" if "i \<in> {26, 27, 28, 29, 32, 34, 36, 38}" for i
    using that by (auto simp: half_def tD)
  have e: "gteMAC 1 t = mac 1" "gteMAC 2 t = mac 2" "gteMAC 3 t = mac 3"
    "gteIR 1 t = gteIR 1 b" "gteIR 2 t = gteIR 2 b" "gteIR 3 t = gteIR 3 b"
    "gteSZx t = gteSZ 0 g" "gteSZ 0 t = gteSZ 1 g" "gteSZ 1 t = gteSZ 2 g" "gteSZ 2 t = gteSZ 2 b"
    "gteSXY 0 t = gteSXY 1 g" "gteSXY 1 t = gteSXY 2 g" "gteSXY SXYP t = gteSXY 2 t"
    "gteSX 2 t = gteSX 2 h" "gteSY 2 t = gteSY 2 h"
    using h b by (simp_all add: gte_reads gteSX_def gteSY_def dS_def tD th)
  have z: "0 \<le> sint (gteIR 0 t)" "sint (gteIR 0 t) \<le> 65535"
    using RTPS3_values(3,4) by (simp_all add: t gteIR_def)
  have u: "uint (gteSZ 2 b) = clamp_to 0 65535 (sint (mac 3))"
    unfolding b(10) by simp
  have m: "mac n = signed_drop_bit 12 (row mR n (vec 0 g) g) + gteTR n g" for n
    by (simp add: mac_def rtps_mac_def)
  show ?thesis
    using z u IR [of 1] IR [of 2] IR [of 3] sc [of 1] sc [of 2]
    by (simp only: list.pred_inject e h(1,2) sint_scast32 clamp_exact m r_def) simp
qed


section \<open>The colour queue\<close>

lemma octet_upd: "octet i (r(k := v)) = (if of_nat (i div 4) = k then ucast (drop_bit (8 * (i mod 4)) v) else octet i r)"
  by (simp add: octet_def)

lemma octet_set_octet:
  assumes "i < 128" "j < 128"
  shows "octet i (set_octet j v r) = (if i = j then v else octet i r)"
proof -
  have m: "(0xff :: u32) = mask 8"
    by (simp add: mask_eq_exp_minus_1)
  have e: "(of_nat (i div 4) = (of_nat (j div 4) :: reg)) \<longleftrightarrow> i div 4 = j div 4"
    using assms by (simp add: word_of_nat_eq_iff take_bit_nat_eq_self)
  have b: "ucast (drop_bit (8 * p) ((w AND NOT (push_bit (8 * q) (mask 8))) OR push_bit (8 * q) (ucast v))) =
      (if p = q then v else ucast (drop_bit (8 * p) w :: u32))" if "p < 4" "q < 4" for p q :: nat and w :: u32
  proof (rule bit_word_eqI)
    fix n assume "n < LENGTH(8)"
    then have n: "n < 8" "8 * p + n < 32" "p < q \<Longrightarrow> 8 * p + n < 8 * q" "q < p \<Longrightarrow> 8 * q + 8 \<le> 8 * p + n"
      using that by auto
    then show "bit (ucast (drop_bit (8 * p) ((w AND NOT (push_bit (8 * q) (mask 8))) OR push_bit (8 * q) (ucast v))) :: u8) n =
        bit (if p = q then v else ucast (drop_bit (8 * p) w)) n"
      using that by (cases p q rule: linorder_cases) (auto simp: bit_simps dest: bit_imp_le_length)
  qed
  show ?thesis
  proof (cases "i div 4 = j div 4")
    case False
    then show ?thesis
      using e by (auto simp: octet_def set_octet_def Let_def)
  next
    case True
    moreover have "i = j \<longleftrightarrow> i mod 4 = j mod 4"
      using True by (metis div_mult_mod_eq)
    ultimately show ?thesis
      unfolding octet_def set_octet_def Let_def m fun_upd_apply
      using b [of "i mod 4" "j mod 4" "r (of_nat (j div 4))"] by (simp only:) simp
  qed
qed

lemma set_octet_other: "k \<noteq> of_nat (i div 4) \<Longrightarrow> set_octet i v r k = r k"
  by (simp add: set_octet_def Let_def)

text \<open>Component \<open>n\<close> of a colour: the accumulator without its fraction, clamped to a byte.\<close>

definition colour :: "u32 \<Rightarrow> u8" where
  "colour x = word_of_int (clamp_to 0 255 (sint x div 16))"

lemma gteMAC_colour:
  assumes "80 \<le> i" "i < 92" "n \<le> 3"
  shows "gteMAC n (set_DB i x h) = gteMAC n h"
proof -
  have "i div 4 = 20 \<or> i div 4 = 21 \<or> i div 4 = 22"
    using assms by auto
  moreover have "n = 0 \<or> n = 1 \<or> n = 2 \<or> n = 3"
    using assms by auto
  ultimately show ?thesis
    by (auto simp: gteMAC_def set_octet_other)
qed

lemma gteMAC_FlimB: "gteMAC n (snd (FlimB j x h)) = gteMAC n h"
  by (simp add: gteMAC_def)

lemma colour_lim: "word_of_int (max 0 (min 255 (sint (signed_drop_bit 4 x)))) = colour x"
  by (simp add: colour_def clamp_to_def sint_signed_drop_bit_eq drop_bit_eq_div)

lemma put_colour_values:
  assumes "k \<le> 2"
  shows "octet (4 * (20 + k)) (gD (put_colour k g)) = colour (gteMAC 1 g)"
    "octet (4 * (20 + k) + 1) (gD (put_colour k g)) = colour (gteMAC 2 g)"
    "octet (4 * (20 + k) + 2) (gD (put_colour k g)) = colour (gteMAC 3 g)"
    "octet (4 * (20 + k) + 3) (gD (put_colour k g)) = octet 27 (gD g)"
    "r \<noteq> of_nat (20 + k) \<Longrightarrow> gD (put_colour k g) r = gD g r" "ctl (put_colour k g) = ctl g"
proof -
  have "k = 0 \<or> k = 1 \<or> k = 2"
    using assms by auto
  then show "octet (4 * (20 + k)) (gD (put_colour k g)) = colour (gteMAC 1 g)"
    "octet (4 * (20 + k) + 1) (gD (put_colour k g)) = colour (gteMAC 2 g)"
    "octet (4 * (20 + k) + 2) (gD (put_colour k g)) = colour (gteMAC 3 g)"
    "octet (4 * (20 + k) + 3) (gD (put_colour k g)) = octet 27 (gD g)"
    "r \<noteq> of_nat (20 + k) \<Longrightarrow> gD (put_colour k g) r = gD g r" "ctl (put_colour k g) = ctl g"
    by (auto simp: put_colour_def each_def split_beta Let_def gteMAC_colour gteMAC_FlimB colour_lim
        octet_set_octet set_octet_other)
qed

lemma MAC2IR1_values:
  "gD (MAC2IR1 g) = (gD g)
     (9 := word_of_int (max 0 (min 32767 (sint (gteMAC 1 g)))),
      10 := word_of_int (max 0 (min 32767 (sint (gteMAC 2 g)))),
      11 := word_of_int (max 0 (min 32767 (sint (gteMAC 3 g)))))"
  "ctl (MAC2IR1 g) = ctl g"
  by (simp_all add: MAC2IR1_def each_def split_beta Let_def set_IR_def gteMAC_def)

text \<open>Registers that a step leaves alone.\<close>

definition only_MAC :: "gteState \<Rightarrow> gteState \<Rightarrow> bool" where
  "only_MAC g h \<longleftrightarrow> (\<forall>k. k \<notin> {25, 26, 27} \<longrightarrow> gD h k = gD g k)"

lemma only_MAC_refl [simp]: "only_MAC g g"
  by (simp add: only_MAC_def)

lemma only_MAC_step:
  "only_MAC g (snd (LIMX lo hi b x h)) = only_MAC g h" "only_MAC g (set_FLAG v h) = only_MAC g h"
  "only_MAC g (raise_flag b h) = only_MAC g h"
  "only_MAC g (snd (FlimAS n w h)) = only_MAC g h"
  by (simp_all add: only_MAC_def)

lemma only_MAC_limits:
  "only_MAC g (snd (F12limAS n y h)) = only_MAC g h" "only_MAC g (snd (F12limAU n y h)) = only_MAC g h"
  "only_MAC g (snd (FNC_OVERFLOW n y h)) = only_MAC g h" "only_MAC g (snd (NC_OVERFLOW n i h)) = only_MAC g h"
  "only_MAC g (snd (limAS n i h)) = only_MAC g h"
  by (simp_all add: F12limAS_def F12limAU_def FNC_OVERFLOW_def NC_OVERFLOW_def limAS_def only_MAC_step)

lemma only_MAC_set: "n \<in> {1, 2, 3} \<Longrightarrow> only_MAC g h \<Longrightarrow> only_MAC g (set_MAC n x h)"
  by (auto simp: only_MAC_def set_MAC_def)

lemma only_MAC_each:
  "(\<And>n h. n \<in> {1, 2, 3} \<Longrightarrow> only_MAC g h \<Longrightarrow> only_MAC g (f n h)) \<Longrightarrow> only_MAC g h \<Longrightarrow> only_MAC g (each f h)"
  by (simp add: each_def)

lemma only_MAC_each_MAC:
  assumes "\<And>n h. only_MAC g h \<Longrightarrow> only_MAC g (snd (f n h))" "only_MAC g h"
  shows "only_MAC g (each_MAC f h)"
  unfolding each_MAC_def by (rule only_MAC_each [OF _ assms(2)]) (auto simp: split_beta Let_def only_MAC_set assms(1))

lemma only_MAC_three:
  "(\<And>n h. only_MAC g h \<Longrightarrow> only_MAC g (snd (f n h))) \<Longrightarrow> only_MAC g h \<Longrightarrow> only_MAC g (snd (three f h))"
  by (simp add: three_def split_beta Let_def)

lemmas only_MAC_rules = only_MAC_each only_MAC_each_MAC only_MAC_three only_MAC_set

lemma only_MAC_colours:
  "only_MAC g h \<Longrightarrow> only_MAC g (GTE_NCCS v h)" "only_MAC g h \<Longrightarrow> only_MAC g (GTE_NCDS v h)"
  "only_MAC g h \<Longrightarrow> only_MAC g (GTE_NCS v h)"
proof -
  have l: "only_MAC g (snd (light v h))" "only_MAC g (snd (background ll h))" if "only_MAC g h" for ll h
    using that by (simp_all add: light_def background_def only_MAC_three only_MAC_limits)
  assume h: "only_MAC g h"
  show "only_MAC g (GTE_NCCS v h)" "only_MAC g (GTE_NCS v h)"
    unfolding GTE_NCCS_def GTE_NCS_def split_beta Let_def
    by (rule only_MAC_each, erule (1) only_MAC_set, intro l h)+
  show "only_MAC g (GTE_NCDS v h)"
    unfolding GTE_NCDS_def split_beta Let_def
    by (rule only_MAC_each_MAC) (simp_all add: only_MAC_limits l h)
qed

text \<open>What an instruction leaves that pushes a colour.\<close>

definition pushed :: "int \<Rightarrow> gteState \<Rightarrow> gteState \<Rightarrow> bool" where
  "pushed lo g t \<longleftrightarrow> gteRGB 0 t = gteRGB 1 g \<and> gteRGB 1 t = gteRGB 2 g \<and>
     list_all (\<lambda>n. octet (87 + n) (gD t) = colour (gteMAC n t) \<and>
       sint (gteIR n t) = clamp_to lo 32767 (sint (gteMAC n t))) [1, 2, 3] \<and>
     octet 91 (gD t) = octet 27 (gD g)"

lemma clamp_IR: "lo = 0 \<or> lo = -32768 \<Longrightarrow> sint (word_of_int (clamp_to lo 32767 x) :: u32) = clamp_to lo 32767 x"
  by (rule s32_exact) (auto simp: clamp_to_def)

lemma pushed_tails:
  assumes "only_MAC g h"
  shows "pushed 0 g (SUM_FLAG (MAC2IR1 (push_colour h)))" "pushed 0 g (SUM_FLAG (push_colour (MAC2IR1 h)))"
    "pushed (-32768) g (SUM_FLAG (push_colour (MAC2IR h)))"
proof -
  have h: "gD h 6 = gD g 6" "gD h 21 = gD g 21" "gD h 22 = gD g 22"
    using assms by (simp_all add: only_MAC_def)
  then have c: "octet 27 (gD h) = octet 27 (gD g)"
    by (simp add: octet_def)
  have p: "push_colour x = put_colour 2 (set_RGB 1 (gD x 22) (set_RGB 0 (gD x 21) x))" for x
    by (simp add: push_colour_def Let_def gteRGB_def set_RGB_def)
  note v = put_colour_values [of 2, simplified]
  note d = pushed_def p gteRGB_def set_RGB_def gteMAC_def gteIR_def v octet_upd MAC2IR1_values MAC2IR_values h c
  show "pushed 0 g (SUM_FLAG (MAC2IR1 (push_colour h)))" "pushed 0 g (SUM_FLAG (push_colour (MAC2IR1 h)))"
    using clamp_IR [of 0] by (simp_all add: d) (simp_all add: clamp_to_def)
  show "pushed (-32768) g (SUM_FLAG (push_colour (MAC2IR h)))"
    by (simp add: d clamp_to_def clamp_exact(1) [unfolded clamp_to_def])
qed

text \<open>
  every instruction that produces one colour moves the colour queue up by one, keeps the code byte
  of \<open>RGB\<close>, and leaves in the newest entry each accumulator divided by 16 and clamped to a byte; and
  \<open>IR1\<close> to \<open>IR3\<close> are the accumulators clamped to 16 bits, to non-negative values after the light
  instructions. So no colour or component can leave its range.
\<close>

theorem gte_colour_queue:
  "list_all (\<lambda>f. pushed 0 g (f g)) [gte_NCCS, gte_NCDS, gte_NCS, gte_CC, gte_CDP] \<and>
   list_all (\<lambda>f. pushed (-32768) g (f g)) [gte_DPCS, gte_DCPL, gte_INTPL, gte_GPF ins, gte_GPL ins]"
proof -
  have f: "only_MAC g (set_FLAG 0 g)"
    by (simp add: only_MAC_step)
  have cue: "only_MAC g (snd (cue n x h)) = only_MAC g h" for n x h
    by (simp add: cue_def split_beta Let_def only_MAC_step)
  have three: "only_MAC g (snd (three u (set_FLAG 0 g)))" if "\<And>n h. only_MAC g (snd (u n h)) = only_MAC g h" for u
    by (rule only_MAC_three) (simp_all add: that f)
  have m: "only_MAC g (each_MAC u h)" if "\<And>n h. only_MAC g (snd (u n h)) = only_MAC g h" "only_MAC g h" for u h
    by (rule only_MAC_each_MAC) (simp_all add: that)
  have "pushed 0 g (gte_NCCS g)" "pushed 0 g (gte_NCDS g)" "pushed 0 g (gte_NCS g)"
    unfolding gte_NCCS_def gte_NCDS_def gte_NCS_def single_def
    by (intro pushed_tails only_MAC_colours f)+
  moreover have "pushed 0 g (gte_CC g)"
    unfolding gte_CC_def split_beta Let_def
    by (intro pushed_tails only_MAC_each only_MAC_set three) (simp_all add: only_MAC_limits)
  moreover have "pushed 0 g (gte_CDP g)"
    unfolding gte_CDP_def split_beta Let_def
    by (intro pushed_tails m three) (simp_all add: only_MAC_limits)
  moreover have "pushed (-32768) g (gte_DPCS g)" "pushed (-32768) g (gte_DCPL g)" "pushed (-32768) g (gte_INTPL g)"
    unfolding gte_DPCS_def gte_DCPL_def gte_INTPL_def cue_colour_def split_beta Let_def
    by (intro pushed_tails; simp only: only_MAC_step; intro m; simp add: cue)+
  moreover have "pushed (-32768) g (gte_GPF ins g)" "pushed (-32768) g (gte_GPL ins g)"
    unfolding gte_GPF_def gte_GPL_def Let_def
    by (intro pushed_tails m f; simp only: only_MAC_limits)+
  ultimately show ?thesis
    by simp
qed

section \<open>Register moves\<close>

text \<open>
  register moves. \<open>IRGB\<close> written and \<open>ORGB\<close> read give the low 15 bits back, as the colour passes
  through \<open>IR1\<close> to \<open>IR3\<close>; a write of \<open>SXYP\<close> pushes the screen queue and is read back; \<open>IR\<close> and depth
  registers keep the low half, sign-extended or not; \<open>LZCR\<close> counts the sign bits of \<open>LZCS\<close>; every
  other register reads back what was written.
\<close>

theorem gte_register_moves:
  "fst (MFC2 29 (MTC2 v 28 g)) = v AND 0x7fff \<and>
   (let t = MTC2 v 15 g in gteSXY 0 t = gteSXY 1 g \<and> gteSXY 1 t = gteSXY 2 g \<and> gteSXY 2 t = v \<and>
      fst (MFC2 15 t) = v) \<and>
   list_all (\<lambda>r. fst (MFC2 r (MTC2 v r g)) = scast (ucast v :: u16)) [8, 9, 10, 11] \<and>
   list_all (\<lambda>r. fst (MFC2 r (MTC2 v r g)) = v AND 0xffff) [16, 17, 18, 19] \<and>
   fst (MFC2 31 (MTC2 v 30 g)) = count_leading_sign_bits v \<and>
   list_all (\<lambda>r. fst (MFC2 r (MTC2 v r g)) = v)
     [0, 1, 2, 3, 4, 5, 6, 7, 12, 13, 14, 20, 21, 22, 23, 24, 25, 26, 27, 28, 30, 31]"
proof -
  have m: "(0x7fff :: u32) = mask 15" "(0x1f :: u32) = mask 5"
    by (simp_all add: mask_eq_exp_minus_1)
  have s: "signed_drop_bit 7 (push_bit 7 (x AND 0x1f)) = x AND 0x1f" for x :: u32
    unfolding m by (rule bit_word_eqI) (auto simp: bit_simps)
  have a: "10 + (n - 10) = (if 10 \<le> n then n else 10)" "5 + (n - 5) = (if 5 \<le> n then n else 5)" for n :: nat
    by simp_all
  have "((v AND 0x1f) OR push_bit 5 (drop_bit 5 v AND 0x1f)) OR push_bit 10 (drop_bit 10 v AND 0x1f) = v AND 0x7fff"
    unfolding m by (rule bit_word_eqI) (auto simp: bit_simps a split: if_splits)
  then have "fst (MFC2 29 (MTC2 v 28 g)) = v AND 0x7fff"
    by (simp add: MFC2_def MTC2_def Let_def gteIR_def set_IR_def s and.assoc del: push_bit_and)
  then show ?thesis
    by (simp add: MFC2_def MTC2_def Let_def gteSXY_def set_SXY_def set_IR_def)
qed

section \<open>Clipping\<close>

text \<open>
  \<open>NCLIP\<close> is the oriented area of the triangle on the screen: for coordinates in the range that the
  perspective transformation produces, the 32-bit expression is exactly the cross product of two
  edges, so its sign is the triangle's orientation. Nothing but \<open>MAC0\<close> and \<open>FLAG\<close> changes.
\<close>

definition on_screen :: "u32 \<Rightarrow> bool" where
  "on_screen x \<longleftrightarrow> -1024 \<le> sint x \<and> sint x \<le> 1023"

theorem gte_clip_area:
  assumes "list_all (\<lambda>i. on_screen (gteSX i g) \<and> on_screen (gteSY i g)) [0, 1, 2]"
  defines "x \<equiv> \<lambda>i. sint (gteSX i g)" and "y \<equiv> \<lambda>i. sint (gteSY i g)"
  shows "sint (gteMAC 0 (gte_NCLIP g)) = (x 1 - x 0) * (y 2 - y 0) - (x 2 - x 0) * (y 1 - y 0) \<and>
    gteFLAG (gte_NCLIP g) = 0 \<and> (\<forall>k. k \<noteq> 24 \<longrightarrow> gD (gte_NCLIP g) k = gD g k)"
proof -
  have r: "-1024 \<le> x i \<and> x i \<le> 1023" "-1024 \<le> y i \<and> y i \<le> 1023" if "i \<in> {0, 1, 2}" for i
    using assms(1) that by (auto simp: on_screen_def x_def y_def)
  have p: "\<bar>a * (b - c)\<bar> \<le> 1024 * 2047" if "-1024 \<le> a \<and> a \<le> 1023" "-1024 \<le> b \<and> b \<le> 1023" "-1024 \<le> c \<and> c \<le> 1023" for a b c :: int
    unfolding abs_mult using that by (intro mult_mono) auto
  define i where "i = x 0 * (y 1 - y 2) + x 1 * (y 2 - y 0) + x 2 * (y 0 - y 1)"
  have w: "gteSX j g = word_of_int (x j)" "gteSY j g = word_of_int (y j)" for j
    by (simp_all add: x_def y_def)
  have e: "gteSX j (set_FLAG 0 g) = gteSX j g" "gteSY j (set_FLAG 0 g) = gteSY j g" for j
    by (simp_all add: gteSX_def gteSY_def dS_def)
  have "gteMAC 0 (gte_NCLIP g) = word_of_int i"
    by (simp add: gte_NCLIP_def Let_def gteMAC_def set_MAC_def e w i_def)
  also have "sint \<dots> = i"
    using p [OF r(1) r(2) r(2), of 0 1 2] p [OF r(1) r(2) r(2), of 1 2 0] p [OF r(1) r(2) r(2), of 2 0 1]
    by (intro s32_exact) (simp_all add: i_def abs_le_iff)
  also have "i = (x 1 - x 0) * (y 2 - y 0) - (x 2 - x 0) * (y 1 - y 0)"
    by (simp add: i_def algebra_simps)
  finally have "sint (gteMAC 0 (gte_NCLIP g)) = (x 1 - x 0) * (y 2 - y 0) - (x 2 - x 0) * (y 1 - y 0)" .
  moreover have "gteFLAG (gte_NCLIP g) = 0 \<and> (\<forall>k. k \<noteq> 24 \<longrightarrow> gD (gte_NCLIP g) k = gD g k)"
    by (simp add: gte_NCLIP_def Let_def SUM_FLAG_def set_MAC_def)
  ultimately show ?thesis
    by (rule conjI)
qed


definition triangle :: gteState where
  "triangle = \<lparr>gD = (\<lambda>_. 0)(13 := 10, 14 := 0xA0000), gC = \<lambda>_. 0\<rparr>"

theorem gte_clip_area_witness: "sint (gteMAC 0 (gte_NCLIP triangle)) = 100"
proof -
  have t: "list_all (\<lambda>i. on_screen (gteSX i triangle) \<and> on_screen (gteSY i triangle)) [0, 1, 2]"
    by (simp add: triangle_def on_screen_def gteSX_def gteSY_def dS_def half_def)
  have "sint (gteSX 0 triangle) = 0" "sint (gteSY 0 triangle) = 0" "sint (gteSX 1 triangle) = 10"
    "sint (gteSY 1 triangle) = 0" "sint (gteSX 2 triangle) = 0" "sint (gteSY 2 triangle) = 10"
    by (simp_all add: triangle_def gteSX_def gteSY_def dS_def half_def)
  then show ?thesis
    using gte_clip_area [OF t] by (simp only:) simp
qed

end
