(* ===== verification/GteIop.thy ===== *)
theory GteIop
  imports GteProps IopProps
begin

text \<open>
  The geometry engine in the IOP: the entries of the instruction tables that reach it, and the
  invariants of the IOP's programs with this engine in place of the parameter.
\<close>

text \<open>
  the tables of the IOP reach the geometry engine by the function codes of the real coprocessor:
  opcode 0x12 goes through \<open>psxCP2\<close>, whose entries run the instruction with this code; function 0
  goes through \<open>psxCP2BSC\<close> to the register moves; 0x32 and 0x3a are the load and the store.
\<close>

theorem gte_dispatch:
  "psxBSC ! 0x12 = psxCOP2 \<and>
   list_all (\<lambda>(k, f). (psxCP2 ! k) (with_GTE env) rec s = Some (f s))
     [(0x01, with_gte gte_RTPS), (0x06, with_gte gte_NCLIP), (0x0c, with_gte (gte_OP (icode s))),
      (0x10, with_gte gte_DPCS), (0x11, with_gte gte_INTPL), (0x12, with_gte (gte_MVMVA (icode s))),
      (0x13, with_gte gte_NCDS), (0x14, with_gte gte_CDP), (0x16, with_gte gte_NCDT), (0x1b, with_gte gte_NCCS),
      (0x1c, with_gte gte_CC), (0x1e, with_gte gte_NCS), (0x20, with_gte gte_NCT),
      (0x28, with_gte (gte_SQR (icode s))), (0x29, with_gte gte_DCPL), (0x2a, with_gte gte_DPCT),
      (0x2d, with_gte gte_AVSZ3), (0x2e, with_gte gte_AVSZ4), (0x30, with_gte gte_RTPT),
      (0x3d, with_gte (gte_GPF (icode s))), (0x3e, with_gte (gte_GPL (icode s))), (0x3f, with_gte gte_NCCT)] \<and>
   list_all (\<lambda>(k, f). (psxCP2BSC ! k) (with_GTE env) rec s = Some (f s))
     [(0, gte_MFC2), (2, gte_CFC2), (4, gte_MTC2), (6, gte_CTC2)] \<and>
   (psxBSC ! 0x32) (with_GTE env) rec s = Some (gte_LWC2 env s) \<and>
   (psxBSC ! 0x3a) (with_GTE env) rec s = Some (gte_SWC2 env s)"
  by (simp add: psxBSC_def psxCP2_def psxCP2BSC_def gteop_def with_GTE_def)


lemma gte_exec_fields:
  fixes g :: gteState
  shows "iGPR (put_gte g s) = iGPR s" "psxMemWLUT (put_gte g s) = psxMemWLUT s" "areas (put_gte g s) = areas s"
    "icycle (put_gte g s) = icycle s" "slice (put_gte g s) = slice s" "iRt (put_gte g s) = iRt s"
  by (simp_all add: put_gte_def)

lemma keeps_put_gte: "keeps_r0 s (put_gte g s)" "keeps_ROM s (put_gte g s)" "keeps_slice s (put_gte g s)"
  by (simp_all add: keeps_r0_def keeps_ROM_def keeps_slice_def slice_total_def gte_exec_fields)

lemma keeps_moves:
  "keeps_r0 s (gte_MFC2 s)" "keeps_ROM s (gte_MFC2 s)" "keeps_slice s (gte_MFC2 s)"
  "keeps_r0 s (gte_CFC2 s)" "keeps_ROM s (gte_CFC2 s)" "keeps_slice s (gte_CFC2 s)"
  "keeps_r0 s (gte_CTC2 s)" "keeps_ROM s (gte_CTC2 s)" "keeps_slice s (gte_CTC2 s)"
  by (simp_all add: keeps_r0_def keeps_ROM_def keeps_slice_def slice_total_def gte_MFC2_def gte_CFC2_def
      gte_CTC2_def iset_def gte_exec_fields split_beta Let_def)

lemma gte_exec_keeps:
  "env_all keeps_r0 env \<Longrightarrow> keeps_r0 s (gte_exec env op s)"
  "env_all keeps_ROM env \<Longrightarrow> keeps_ROM s (gte_exec env op s)"
  "env_all keeps_slice env \<Longrightarrow> keeps_slice s (gte_exec env op s)"
proof -
  note d = with_gte_def gte_MTC2_def gte_LWC2_def gte_SWC2_def split_beta Let_def
  show "keeps_r0 s (gte_exec env op s)" if "env_all keeps_r0 env"
    by (cases op; simp add: d keeps_put_gte keeps_moves)
      (rule keeps_trans(1) [OF reads_all(3) [OF that keeps_refl(1)] keeps_put_gte(1)]
        keeps_trans(1) [OF keeps_put_gte(1) stores_keeps_r0(3) [OF that]])+
  show "keeps_ROM s (gte_exec env op s)" if "env_all keeps_ROM env"
    by (cases op; simp add: d keeps_put_gte keeps_moves)
      (rule keeps_trans(2) [OF reads_all(3) [OF that keeps_refl(2)] keeps_put_gte(2)]
        keeps_trans(2) [OF keeps_put_gte(2) stores_keeps_ROM(3) [OF that]])+
  show "keeps_slice s (gte_exec env op s)" if "env_all keeps_slice env"
    by (cases op; simp add: d keeps_put_gte keeps_moves)
      (rule keeps_trans(3) [OF reads_all(3) [OF that keeps_refl(3)] keeps_put_gte(3)]
        keeps_trans(3) [OF keeps_put_gte(3) stores_keeps_slice(3) [OF that]])+
qed

lemma with_GTE_keeps:
  "env_all keeps_r0 env \<Longrightarrow> env_all keeps_r0 (with_GTE env)"
  "env_all keeps_ROM env \<Longrightarrow> env_all keeps_ROM (with_GTE env)"
  "env_all keeps_slice env \<Longrightarrow> env_all keeps_slice (with_GTE env)"
  using gte_exec_keeps [of env] by (simp_all add: env_all_def with_GTE_def)

end
