(* ===== verification/IopCounters.thy ===== *)
theory IopCounters
  imports IopIrq
begin

text \<open>
  The IOP's timers (\<open>pcsx2/IopCounters.cpp\<close>, \<open>pcsx2/IopCounters.h\<close>): three counters of 16 bits, three of
  32 bits, and two that call plugins. Counts and targets have 64 bits; a target with bit 36 set
  (\<open>IOPCNT_FUTURE_TARGET\<close>) waits for an overflow. The build without \<open>ENABLE_NEW_IOPDMA\<close> is modelled.

  The counters are the device part of the IOP's state. The plugins' functions are parameters; \<open>None\<close>
  is a null pointer.
\<close>

section \<open>State\<close>

record psxCounter =
  c_count :: u64
  c_target :: u64
  c_mode :: u32
  c_rate :: u32
  c_interrupt :: u32
  c_sCycleT :: u32
  c_CycleT :: u32

record 'e rcntState =
  psxCounters :: "nat \<Rightarrow> psxCounter"
  psxhblankgate :: u8
  psxvblankgate :: u8
  PSXCLK :: u64
  rcnt_rest :: 'e

type_synonym 'e rcnt_iop = "'e rcntState iopState"

record 'e rcnt_env =
  SPU2async :: "(u32 \<Rightarrow> 'e rcnt_iop \<Rightarrow> 'e rcnt_iop) option"
  DEV9async :: "(u32 \<Rightarrow> 'e rcnt_iop \<Rightarrow> 'e rcnt_iop) option"
  USBasync :: "(u32 \<Rightarrow> 'e rcnt_iop \<Rightarrow> 'e rcnt_iop) option"
  cdvdVsync :: "'e rcnt_iop \<Rightarrow> 'e rcnt_iop"

abbreviation (input) IOPCNT_STOPPED :: u32 where "IOPCNT_STOPPED \<equiv> 0x10000000"
abbreviation (input) IOPCNT_FUTURE_TARGET :: u64 where "IOPCNT_FUTURE_TARGET \<equiv> 0x1000000000"
abbreviation (input) IOPCNT_ENABLE_GATE :: u32 where "IOPCNT_ENABLE_GATE \<equiv> 1"
abbreviation (input) IOPCNT_INT_TARGET :: u32 where "IOPCNT_INT_TARGET \<equiv> 0x10"
abbreviation (input) IOPCNT_INT_OVERFLOW :: u32 where "IOPCNT_INT_OVERFLOW \<equiv> 0x20"
abbreviation (input) IOPCNT_ALT_SOURCE :: u32 where "IOPCNT_ALT_SOURCE \<equiv> 0x100"
abbreviation (input) PSXHBLANK :: u32 where "PSXHBLANK \<equiv> 0x2001"

definition cnt :: "nat \<Rightarrow> 'e rcnt_iop \<Rightarrow> psxCounter" where
  "cnt i s = psxCounters (idev s) i"

definition upd_cnt :: "nat \<Rightarrow> (psxCounter \<Rightarrow> psxCounter) \<Rightarrow> 'e rcnt_iop \<Rightarrow> 'e rcnt_iop" where
  "upd_cnt i f s = s\<lparr>idev := (idev s)\<lparr>psxCounters := (psxCounters (idev s))(i := f (psxCounters (idev s) i))\<rparr>\<rparr>"

definition mode_bits :: "nat \<Rightarrow> u32 \<Rightarrow> 'e rcnt_iop \<Rightarrow> bool" where
  "mode_bits i m s \<longleftrightarrow> c_mode (cnt i s) AND m \<noteq> 0"

definition or_mode :: "nat \<Rightarrow> u32 \<Rightarrow> 'e rcnt_iop \<Rightarrow> 'e rcnt_iop" where
  "or_mode i m = upd_cnt i (\<lambda>c. c\<lparr>c_mode := c_mode c OR m\<rparr>)"

definition clear_mode :: "nat \<Rightarrow> u32 \<Rightarrow> 'e rcnt_iop \<Rightarrow> 'e rcnt_iop" where
  "clear_mode i m = upd_cnt i (\<lambda>c. c\<lparr>c_mode := c_mode c AND NOT m\<rparr>)"

definition future_target :: "nat \<Rightarrow> 'e rcnt_iop \<Rightarrow> 'e rcnt_iop" where
  "future_target i = upd_cnt i (\<lambda>c. c\<lparr>c_target := c_target c OR IOPCNT_FUTURE_TARGET\<rparr>)"

definition restart :: "nat \<Rightarrow> 'e rcnt_iop \<Rightarrow> 'e rcnt_iop" where
  "restart i s = upd_cnt i (\<lambda>c. c\<lparr>c_count := 0, c_sCycleT := icycle s\<rparr>) s"

definition psxRcntReset :: "nat \<Rightarrow> 'e rcnt_iop \<Rightarrow> 'e rcnt_iop" where
  "psxRcntReset i s =
     upd_cnt i (\<lambda>c. c\<lparr>c_count := 0, c_mode := c_mode c AND NOT 0x18301C00, c_sCycleT := icycle s\<rparr>) s"

section \<open>The next event\<close>

text \<open>The cycles from the last update to the count \<open>goal\<close>; 64-bit arithmetic that may wrap.\<close>

definition cycles_to :: "u64 \<Rightarrow> psxCounter \<Rightarrow> 'e rcnt_iop \<Rightarrow> u64" where
  "cycles_to goal c s =
     (goal - c_count c) * ucast (c_rate c) - ucast (icycle s - c_sCycleT c) + ucast (icycle s - psxNextsCounter s)"

definition sooner :: "u64 \<Rightarrow> 'e rcnt_iop \<Rightarrow> 'e rcnt_iop" where
  "sooner c s =
     (if c < scast (psxNextCounter s)
      then psxSetNextBranch (psxNextsCounter s) (ucast c) (s\<lparr>psxNextCounter := ucast c\<rparr>) else s)"

definition rcntSet :: "nat \<Rightarrow> 'e rcnt_iop \<Rightarrow> 'e rcnt_iop" where
  "rcntSet i s =
     (let overflowCap = (if i \<ge> 3 then 0x100000000 else 0x10000 :: u64); c = cnt i s
      in if mode_bits i IOPCNT_STOPPED s \<or> c_rate c = PSXHBLANK then s
         else if c_count c > overflowCap \<or> c_count c > c_target c then s\<lparr>psxNextCounter := 4\<rparr>
         else let s = sooner (cycles_to overflowCap c s) s
              in if c_target c AND IOPCNT_FUTURE_TARGET \<noteq> 0 then s
                 else sooner (cycles_to (c_target c) c s) s)"

section \<open>Initialisation\<close>

definition psxRcntInit :: "'e rcnt_env \<Rightarrow> 'e rcnt_iop \<Rightarrow> 'e rcnt_iop" where
  "psxRcntInit env s =
     (let zero = \<lparr>c_count = 0, c_target = 0, c_mode = 0, c_rate = 0, c_interrupt = 0, c_sCycleT = 0, c_CycleT = 0\<rparr>;
          s = s\<lparr>idev := (idev s)\<lparr>psxCounters := \<lambda>_. zero\<rparr>\<rparr>;
          s = fold (\<lambda>i. upd_cnt i (\<lambda>c. c\<lparr>c_rate := 1, c_mode := c_mode c OR 0x0400,
                c_target := IOPCNT_FUTURE_TARGET\<rparr>)) [0..<6] s;
          s = fold (\<lambda>(i, irq). upd_cnt i (\<lambda>c. c\<lparr>c_interrupt := irq\<rparr>))
                [(0, 0x10), (1, 0x20), (2, 0x40), (3, 0x04000), (4, 0x08000), (5, 0x10000)] s;
          s = (if SPU2async env \<noteq> None
               then upd_cnt 6 (\<lambda>c. c\<lparr>c_rate := 768 * 12, c_CycleT := 768 * 12, c_mode := 0x8\<rparr>) s else s);
          s = (if USBasync env \<noteq> None
               then (let r = ucast (word_of_int (sint (PSXCLK (idev s)) sdiv 1000) :: u64)
                     in upd_cnt 7 (\<lambda>c. c\<lparr>c_rate := r, c_CycleT := r, c_mode := 0x8\<rparr>) s) else s);
          s = fold (\<lambda>i. upd_cnt i (\<lambda>c. c\<lparr>c_sCycleT := icycle s\<rparr>)) [0..<8] s
      in s\<lparr>psxNextCounter := 1, psxNextsCounter := icycle s\<rparr>)"

section \<open>Targets and overflows\<close>

definition rcntFireInterrupt :: "nat \<Rightarrow> 'e rcnt_iop \<Rightarrow> bool \<times> 'e rcnt_iop" where
  "rcntFireInterrupt i s =
     (let flip = (\<lambda>s. if mode_bits i 0x80 s then upd_cnt i (\<lambda>c. c\<lparr>c_mode := c_mode c XOR 0x400\<rparr>) s
                      else clear_mode i 0x400 s)
      in if mode_bits i 0x400 s
         then (True, flip (iopTestIntc (hw_or (psxHu 0x1070) (c_interrupt (cnt i s)) s)))
         else if \<not> mode_bits i 0x40 s then (False, s) else (False, flip s))"

definition rcntTestTarget :: "nat \<Rightarrow> 'e rcnt_iop \<Rightarrow> 'e rcnt_iop" where
  "rcntTestTarget i s =
     (if c_count (cnt i s) < c_target (cnt i s) then s
      else let s = (if mode_bits i IOPCNT_INT_TARGET s
                    then let (fired, s) = rcntFireInterrupt i s in if fired then or_mode i 0x0800 s else s
                    else s)
           in if mode_bits i 0x08 s
              then upd_cnt i (\<lambda>c. c\<lparr>c_count := c_count c - c_target c\<rparr>) s
              else future_target i s)"

definition overflow_interrupt :: "nat \<Rightarrow> 'e rcnt_iop \<Rightarrow> 'e rcnt_iop" where
  "overflow_interrupt i s =
     (if mode_bits i IOPCNT_INT_OVERFLOW s
      then let (fired, s) = rcntFireInterrupt i s in if fired then or_mode i 0x1000 s else s
      else s)"

definition maxTarget :: "nat \<Rightarrow> u64" where
  "maxTarget i = (if i < 3 then 0xffff else 0xffffffff)"

definition rcntTestOverflow :: "nat \<Rightarrow> 'e rcnt_iop \<Rightarrow> 'e rcnt_iop" where
  "rcntTestOverflow i s =
     (if c_count (cnt i s) \<le> maxTarget i then s
      else let s = (if \<not> mode_bits i 0x40 s
                    then future_target i
                      (if c_target (cnt i s) < IOPCNT_FUTURE_TARGET then overflow_interrupt i s else s)
                    else upd_cnt i (\<lambda>c. c\<lparr>c_target := c_target c AND maxTarget i\<rparr>) (overflow_interrupt i s))
           in upd_cnt i (\<lambda>c. c\<lparr>c_count := c_count c - maxTarget i\<rparr>) s)"

section \<open>Reads\<close>

definition running :: "nat \<Rightarrow> 'e rcnt_iop \<Rightarrow> bool" where
  "running i s \<longleftrightarrow> \<not> mode_bits i IOPCNT_STOPPED s \<and> c_rate (cnt i s) \<noteq> PSXHBLANK"

definition elapsed_counts :: "nat \<Rightarrow> 'e rcnt_iop \<Rightarrow> u32" where
  "elapsed_counts i s = (icycle s - c_sCycleT (cnt i s)) div c_rate (cnt i s)"

definition psxRcntRcount32 :: "nat \<Rightarrow> 'e rcnt_iop \<Rightarrow> u32" where
  "psxRcntRcount32 i s =
     (let retval = ucast (c_count (cnt i s)) in if running i s then retval + elapsed_counts i s else retval)"

definition psxRcntRcount16 :: "nat \<Rightarrow> 'e rcnt_iop \<Rightarrow> u16" where
  "psxRcntRcount16 i s =
     (let retval = ucast (c_count (cnt i s)) :: u32
      in ucast (if running i s then retval + elapsed_counts i s else retval))"

definition psxRcntCycles :: "nat \<Rightarrow> 'e rcnt_iop \<Rightarrow> u64" where
  "psxRcntCycles i s =
     (if \<not> running i s then c_count (cnt i s) else c_count (cnt i s) + ucast (elapsed_counts i s))"

section \<open>Gates\<close>

text \<open>The count at the time it is stopped, read as the width of the counter has it.\<close>

definition stop :: "nat \<Rightarrow> 'e rcnt_iop \<Rightarrow> 'e rcnt_iop" where
  "stop i s =
     (let n = (if i < 3 then ucast (psxRcntRcount16 i s) else ucast (psxRcntRcount32 i s)) :: u64
      in or_mode i IOPCNT_STOPPED (upd_cnt i (\<lambda>c. c\<lparr>c_count := n\<rparr>) s))"

definition gate_mode :: "nat \<Rightarrow> 'e rcnt_iop \<Rightarrow> u32" where
  "gate_mode i s = drop_bit 1 (c_mode (cnt i s) AND 0x6)"

definition psxCheckStartGate :: "nat \<Rightarrow> 'e rcnt_iop \<Rightarrow> 'e rcnt_iop" where
  "psxCheckStartGate i s =
     (if \<not> mode_bits i IOPCNT_ENABLE_GATE s then s
      else if gate_mode i s = 0 then stop i s
      else if gate_mode i s = 2 then rcntSet i (clear_mode i IOPCNT_STOPPED (restart i s))
      else s)"

definition psxCheckEndGate :: "nat \<Rightarrow> 'e rcnt_iop \<Rightarrow> 'e rcnt_iop" where
  "psxCheckEndGate i s =
     (if \<not> mode_bits i IOPCNT_ENABLE_GATE s then s
      else if gate_mode i s = 0 \<or> gate_mode i s = 1
      then rcntSet i (clear_mode i IOPCNT_STOPPED (restart i s))
      else if gate_mode i s = 2 then stop i s
      else rcntSet i (if mode_bits i IOPCNT_STOPPED s then clear_mode i IOPCNT_STOPPED (restart i s) else s))"

text \<open>A horizontal blank counted by counter 1 or 3.\<close>

definition count_hblank :: "nat \<Rightarrow> 'e rcnt_iop \<Rightarrow> 'e rcnt_iop" where
  "count_hblank i s =
     (let altSourceCheck = IOPCNT_ALT_SOURCE OR IOPCNT_ENABLE_GATE; m = c_mode (cnt i s)
      in if m AND altSourceCheck = IOPCNT_ALT_SOURCE \<or> m AND (IOPCNT_STOPPED OR altSourceCheck) = altSourceCheck
         then rcntTestOverflow i (rcntTestTarget i (upd_cnt i (\<lambda>c. c\<lparr>c_count := c_count c + 1\<rparr>) s))
         else s)"

definition psxCheckStartGate16 :: "nat \<Rightarrow> 'e rcnt_iop \<Rightarrow> 'e rcnt_iop" where
  "psxCheckStartGate16 i s =
     psxCheckStartGate i (if i = 0 then count_hblank 3 (count_hblank 1 s) else s)"

definition psxCheckEndGate16 :: "nat \<Rightarrow> 'e rcnt_iop \<Rightarrow> 'e rcnt_iop" where
  "psxCheckEndGate16 i = psxCheckEndGate i"

definition psxCheckStartGate32 :: "nat \<Rightarrow> 'e rcnt_iop \<Rightarrow> 'e rcnt_iop" where
  "psxCheckStartGate32 i = psxCheckStartGate i"

definition psxCheckEndGate32 :: "nat \<Rightarrow> 'e rcnt_iop \<Rightarrow> 'e rcnt_iop" where
  "psxCheckEndGate32 i = psxCheckEndGate i"

definition vgate :: "nat \<Rightarrow> 'e rcnt_iop \<Rightarrow> bool" where
  "vgate i s \<longleftrightarrow> bit (psxvblankgate (idev s)) i"

definition psxVBlankStart :: "'e rcnt_env \<Rightarrow> 'e rcnt_iop \<Rightarrow> 'e rcnt_iop" where
  "psxVBlankStart env s =
     (let s = iopIntcIrq 0 (cdvdVsync env s);
          s = (if vgate 1 s then psxCheckStartGate16 1 s else s)
      in if vgate 3 s then psxCheckStartGate32 3 s else s)"

definition psxVBlankEnd :: "'e rcnt_iop \<Rightarrow> 'e rcnt_iop" where
  "psxVBlankEnd s =
     (let s = iopIntcIrq 11 s;
          s = (if vgate 1 s then psxCheckEndGate16 1 s else s)
      in if vgate 3 s then psxCheckEndGate32 3 s else s)"

section \<open>The update at a counter event\<close>

text \<open>One counter brought up to the present cycle; \<open>change\<close> is signed.\<close>

definition advance :: "nat \<Rightarrow> 'e rcnt_iop \<Rightarrow> 'e rcnt_iop" where
  "advance i s =
     (let change = icycle s - c_sCycleT (cnt i s)
      in if mode_bits i IOPCNT_STOPPED s then s
         else let s = (if mode_bits i 0x40 s \<and> \<not> mode_bits i 0x80 s then or_mode i 0x400 s else s)
              in if c_rate (cnt i s) = PSXHBLANK then s
                 else if sint change \<le> 0 then s
                 else upd_cnt i (\<lambda>c. let q = change div c_rate c in
                        c\<lparr>c_count := c_count c + ucast q,
                          c_sCycleT := (if c_rate c \<noteq> 1 then icycle s - (change - q * c_rate c) else icycle s)\<rparr>) s)"

definition test_counter :: "nat \<Rightarrow> 'e rcnt_iop \<Rightarrow> 'e rcnt_iop" where
  "test_counter i s =
     (if c_rate (cnt i s) = PSXHBLANK \<or> mode_bits i IOPCNT_STOPPED s then s
      else rcntTestOverflow i (rcntTestTarget i s))"

text \<open>
  A plugin's counter; the result is the value of \<open>c\<close>, which keeps the old period when the plugin has
  been called.
\<close>

definition async_counter ::
  "nat \<Rightarrow> (u32 \<Rightarrow> 'e rcnt_iop \<Rightarrow> 'e rcnt_iop) \<Rightarrow> 'e rcnt_iop \<Rightarrow> u32 \<times> 'e rcnt_iop" where
  "async_counter i f s =
     (let difference = icycle s - c_sCycleT (cnt i s); c = c_CycleT (cnt i s)
      in if sint difference \<ge> sint (c_CycleT (cnt i s))
         then (c, (\<lambda>s. upd_cnt i (\<lambda>k. k\<lparr>c_sCycleT := icycle s, c_CycleT := c_rate k\<rparr>) s) (f difference s))
         else (c - difference, s))"

definition psxRcntUpdate :: "'e rcnt_env \<Rightarrow> 'e rcnt_iop \<Rightarrow> 'e rcnt_iop" where
  "psxRcntUpdate env s =
     (let s = s\<lparr>g_iopNextEventCycle := icycle s + 32, psxNextCounter := 0x7fffffff,
                psxNextsCounter := icycle s\<rparr>;
          s = fold advance [0..<6] s;
          s = fold test_counter [0..<6] s;
          s = (case SPU2async env of None \<Rightarrow> s
               | Some f \<Rightarrow> (let (c, s) = async_counter 6 f s in s\<lparr>psxNextCounter := c\<rparr>));
          s = (case DEV9async env of None \<Rightarrow> s | Some f \<Rightarrow> f 1 s);
          s = (case USBasync env of None \<Rightarrow> s
               | Some f \<Rightarrow> (let (c, s) = async_counter 7 f s
                            in if sint c < sint (psxNextCounter s) then s\<lparr>psxNextCounter := c\<rparr> else s))
      in fold rcntSet [0..<6] s)"

section \<open>Writes\<close>

text \<open>The start of the present count, for a counter that does not count blanks.\<close>

definition align_start :: "nat \<Rightarrow> 'e rcnt_iop \<Rightarrow> 'e rcnt_iop" where
  "align_start i s =
     (if c_rate (cnt i s) \<noteq> PSXHBLANK
      then upd_cnt i (\<lambda>c. c\<lparr>c_sCycleT := icycle s - (icycle s - c_sCycleT c) mod c_rate c\<rparr>) s else s)"

definition psxRcntWcount :: "nat \<Rightarrow> u32 \<Rightarrow> 'e rcnt_iop \<Rightarrow> 'e rcnt_iop" where
  "psxRcntWcount i value s =
     (let s = align_start i s;
          s = upd_cnt i (\<lambda>c. c\<lparr>c_count := ucast value\<rparr>) s;
          s = (if mode_bits i 0x400 s \<or> mode_bits i 0x40 s
               then upd_cnt i (\<lambda>c. c\<lparr>c_target := c_target c AND maxTarget i\<rparr>) s else s);
          s = (if ucast value > c_target (cnt i s) then future_target i s else s)
      in rcntSet i s)"

definition psxRcntWcount16 :: "nat \<Rightarrow> u16 \<Rightarrow> 'e rcnt_iop \<Rightarrow> 'e rcnt_iop" where
  "psxRcntWcount16 i value = psxRcntWcount i (ucast value)"

definition psxRcntWcount32 :: "nat \<Rightarrow> u32 \<Rightarrow> 'e rcnt_iop \<Rightarrow> 'e rcnt_iop" where
  "psxRcntWcount32 i value = psxRcntWcount i value"

definition set_vgate :: "nat \<Rightarrow> bool \<Rightarrow> 'e rcnt_iop \<Rightarrow> 'e rcnt_iop" where
  "set_vgate i b s =
     s\<lparr>idev := (idev s)\<lparr>psxvblankgate := (if b then psxvblankgate (idev s) OR push_bit i 1
       else psxvblankgate (idev s) AND NOT (push_bit i 1))\<rparr>\<rparr>"

definition set_hgate :: "bool \<Rightarrow> 'e rcnt_iop \<Rightarrow> 'e rcnt_iop" where
  "set_hgate b s =
     s\<lparr>idev := (idev s)\<lparr>psxhblankgate := (if b then psxhblankgate (idev s) OR 1
       else psxhblankgate (idev s) AND NOT 1)\<rparr>\<rparr>"

definition set_rate :: "nat \<Rightarrow> u32 \<Rightarrow> 'e rcnt_iop \<Rightarrow> 'e rcnt_iop" where
  "set_rate i r = upd_cnt i (\<lambda>c. c\<lparr>c_rate := r\<rparr>)"

definition PSXPIXEL :: "'e rcnt_iop \<Rightarrow> u32" where
  "PSXPIXEL s = ucast (word_of_int (sint (PSXCLK (idev s)) sdiv 13500000) :: u64)"

definition gate_stops :: "nat \<Rightarrow> 'e rcnt_iop \<Rightarrow> 'e rcnt_iop" where
  "gate_stops i s =
     (if c_mode (cnt i s) AND 0x7 = 0x7 \<or> c_mode (cnt i s) AND 0x7 = 0x1 then or_mode i IOPCNT_STOPPED s else s)"

definition mode_written :: "nat \<Rightarrow> 'e rcnt_iop \<Rightarrow> 'e rcnt_iop" where
  "mode_written i s =
     rcntSet i (upd_cnt i (\<lambda>c. c\<lparr>c_target := c_target c AND maxTarget i\<rparr>) (restart i s))"

definition psxRcntWmode16 :: "nat \<Rightarrow> u32 \<Rightarrow> 'e rcnt_iop \<Rightarrow> 'e rcnt_iop" where
  "psxRcntWmode16 i value s =
     (let s = upd_cnt i (\<lambda>c. c\<lparr>c_mode := value OR 0x0400\<rparr>) s
      in if i = 2 then
           mode_written i (gate_stops i (set_rate 2 (if value AND 0x200 = 0 then 1 else 8) s))
         else
           (let s = set_rate i 1 s;
                s = (if value AND IOPCNT_ALT_SOURCE \<noteq> 0
                     then set_rate i (if i = 0 then PSXPIXEL s else PSXHBLANK) s else s);
                g = mode_bits i IOPCNT_ENABLE_GATE s;
                s = (if g then or_mode i IOPCNT_STOPPED s else s)
            in mode_written i (if i = 0 then set_hgate g s else set_vgate 1 g s)))"

definition psxRcntWmode32 :: "nat \<Rightarrow> u32 \<Rightarrow> 'e rcnt_iop \<Rightarrow> 'e rcnt_iop" where
  "psxRcntWmode32 i value s =
     (let s = upd_cnt i (\<lambda>c. c\<lparr>c_mode := value OR 0x0400\<rparr>) s
      in if i = 3 then
           (let s = set_rate i (if value AND IOPCNT_ALT_SOURCE \<noteq> 0 then PSXHBLANK else 1) s;
                g = mode_bits i IOPCNT_ENABLE_GATE s;
                s = (if g then or_mode i IOPCNT_STOPPED s else s)
            in mode_written i (set_vgate 3 g s))
         else
           (let v = value AND 0x6000
            in mode_written i (gate_stops i (set_rate i
                 (if v = 0 then 1 else if v = 0x2000 then 8 else if v = 0x4000 then 16 else 256) s))))"

definition protect_target :: "nat \<Rightarrow> 'e rcnt_iop \<Rightarrow> 'e rcnt_iop" where
  "protect_target i s =
     (if c_target (cnt i s) \<le> psxRcntCycles i s \<or> (\<not> mode_bits i 0x400 s \<and> \<not> mode_bits i 0x40 s)
      then future_target i s else s)"

definition psxRcntWtarget16 :: "nat \<Rightarrow> u32 \<Rightarrow> 'e rcnt_iop \<Rightarrow> 'e rcnt_iop" where
  "psxRcntWtarget16 i value s =
     rcntSet i (protect_target i (upd_cnt i (\<lambda>c. c\<lparr>c_target := ucast (value AND 0xffff)\<rparr>) s))"

definition psxRcntWtarget32 :: "nat \<Rightarrow> u32 \<Rightarrow> 'e rcnt_iop \<Rightarrow> 'e rcnt_iop" where
  "psxRcntWtarget32 i value s =
     (let s = upd_cnt i (\<lambda>c. c\<lparr>c_target := ucast value\<rparr>) s;
          s = (if \<not> mode_bits i 0x80 s then or_mode i 0x0400 s else s)
      in rcntSet i (protect_target i s))"

definition psxRcntSetGates :: "'e rcnt_iop \<Rightarrow> 'e rcnt_iop" where
  "psxRcntSetGates s =
     (let s = set_hgate (mode_bits 0 IOPCNT_ENABLE_GATE s) s;
          s = set_vgate 1 (mode_bits 1 IOPCNT_ENABLE_GATE s) s
      in set_vgate 3 (mode_bits 3 IOPCNT_ENABLE_GATE s) s)"

text \<open>The IOP with these counters behind \<open>psxRcntUpdate\<close>.\<close>

definition with_counters :: "'e rcnt_env \<Rightarrow> 'e rcntState iop_env \<Rightarrow> 'e rcntState iop_env" where
  "with_counters renv env = env\<lparr>psxRcntUpdate := psxRcntUpdate renv\<rparr>"

end
