(* ===== verification/RcntProps.thy ===== *)
theory RcntProps
  imports IopCounters
begin

text \<open>
  Properties of the IOP's counters: rates are never zero on reachable states (\<open>rates_ok\<close>), an update does
  not change what reads return (\<open>advance\<close>, \<open>below\<close>), the next event is early enough (\<open>rcntSet_next\<close>,
  \<open>before_goal\<close>), interrupt modes and the wrap-around.
\<close>

lemma cnt_upd [simp]: "cnt i (upd_cnt j f s) = (if i = j then f (cnt i s) else cnt i s)"
  by (simp add: cnt_def upd_cnt_def)

lemma upd_cnt_frame [simp]:
  "icycle (upd_cnt j f s) = icycle s" "psxNextCounter (upd_cnt j f s) = psxNextCounter s"
  "psxNextsCounter (upd_cnt j f s) = psxNextsCounter s" "areas (upd_cnt j f s) = areas s"
  "PSXCLK (idev (upd_cnt j f s)) = PSXCLK (idev s)"
  by (simp_all add: upd_cnt_def)

lemma cnt_cong: "idev s = idev t \<Longrightarrow> cnt i s = cnt i t"
  by (simp add: cnt_def)

lemma iop_frame [simp]:
  "idev (psxSetNextBranch a b s) = idev s" "idev (iopTestIntc s) = idev s" "idev (host_wr n p v s) = idev s"
  "idev (hw_or p w s) = idev s" "icycle (psxSetNextBranch a b s) = icycle s" "icycle (iopTestIntc s) = icycle s"
  "icycle (hw_or p w s) = icycle s" "psxNextCounter (psxSetNextBranch a b s) = psxNextCounter s"
  "psxNextsCounter (psxSetNextBranch a b s) = psxNextsCounter s" "areas (iopTestIntc s) = areas s"
  "idev (iopIntcIrq k s) = idev s"
  by (simp_all add: psxSetNextBranch_def iopTestIntc_def psxSetNextBranchDelta_def hw_or_def host_wr_def iopIntcIrq_def)

lemma sooner_frame [simp]:
  "idev (sooner c s) = idev s" "icycle (sooner c s) = icycle s" "psxNextsCounter (sooner c s) = psxNextsCounter s"
  by (simp_all add: sooner_def)

lemma rcntSet_frame [simp]:
  "idev (rcntSet i s) = idev s" "icycle (rcntSet i s) = icycle s" "psxNextsCounter (rcntSet i s) = psxNextsCounter s"
  by (simp_all add: rcntSet_def Let_def)

section \<open>Rates\<close>

text \<open>No counter divides by zero.\<close>

definition rates_ok :: "'e rcnt_iop \<Rightarrow> bool" where
  "rates_ok s \<longleftrightarrow> (\<forall>i < 6. c_rate (cnt i s) \<noteq> 0) \<and> 13500000 \<le> sint (PSXCLK (idev s)) \<and> sint (PSXCLK (idev s)) < 2 ^ 31"

lemma rates_cong: "rates_ok s \<Longrightarrow> idev s = idev t \<Longrightarrow> rates_ok t"
  by (simp add: rates_ok_def cnt_def)

lemma rates_upd: "rates_ok s \<Longrightarrow> (\<And>c. c_rate c \<noteq> 0 \<Longrightarrow> c_rate (f c) \<noteq> 0) \<Longrightarrow> rates_ok (upd_cnt i f s)"
  by (simp add: rates_ok_def)

lemma rates_basic:
  "rates_ok s \<Longrightarrow> rates_ok (or_mode i m s)" "rates_ok s \<Longrightarrow> rates_ok (clear_mode i m s)"
  "rates_ok s \<Longrightarrow> rates_ok (future_target i s)" "rates_ok s \<Longrightarrow> rates_ok (restart i s)"
  "rates_ok s \<Longrightarrow> rates_ok (rcntSet i s)" "rates_ok s \<Longrightarrow> rates_ok (align_start i s)"
  "rates_ok s \<Longrightarrow> rates_ok (set_vgate k b s)" "rates_ok s \<Longrightarrow> rates_ok (set_hgate b s)"
  "r \<noteq> 0 \<Longrightarrow> rates_ok s \<Longrightarrow> rates_ok (set_rate i r s)"
  "rates_ok s \<Longrightarrow> rates_ok (iopIntcIrq k s)" "rates_ok s \<Longrightarrow> rates_ok (psxRcntReset i s)"
  unfolding or_mode_def clear_mode_def future_target_def restart_def align_start_def set_rate_def psxRcntReset_def
  by (auto intro: rates_upd elim: rates_cong) (auto simp: rates_ok_def cnt_def set_vgate_def set_hgate_def)

lemma rates_fire: "rates_ok s \<Longrightarrow> rates_ok (snd (rcntFireInterrupt i s))"
  by (auto simp: rcntFireInterrupt_def Let_def intro!: rates_upd rates_basic elim: rates_cong)

lemma rates_target: "rates_ok s \<Longrightarrow> rates_ok (rcntTestTarget i s)"
  by (auto simp: rcntTestTarget_def Let_def split_beta intro!: rates_upd rates_basic rates_fire)

lemma rates_overflow_interrupt: "rates_ok s \<Longrightarrow> rates_ok (overflow_interrupt i s)"
  by (auto simp: overflow_interrupt_def Let_def split_beta intro!: rates_basic rates_fire)

lemma rates_overflow: "rates_ok s \<Longrightarrow> rates_ok (rcntTestOverflow i s)"
  by (auto simp: rcntTestOverflow_def Let_def intro!: rates_upd rates_basic rates_overflow_interrupt)

lemma rates_stop: "rates_ok s \<Longrightarrow> rates_ok (stop i s)"
  by (auto simp: stop_def Let_def intro!: rates_upd rates_basic)

lemma rates_gates:
  "rates_ok s \<Longrightarrow> rates_ok (psxCheckStartGate i s)" "rates_ok s \<Longrightarrow> rates_ok (psxCheckEndGate i s)"
  "rates_ok s \<Longrightarrow> rates_ok (count_hblank i s)"
  by (auto simp: psxCheckStartGate_def psxCheckEndGate_def count_hblank_def Let_def
      intro!: rates_upd rates_basic rates_stop rates_target rates_overflow)

lemma rates_gate16: "rates_ok s \<Longrightarrow> rates_ok (psxCheckStartGate16 i s)" "rates_ok s \<Longrightarrow> rates_ok (psxCheckEndGate16 i s)"
  "rates_ok s \<Longrightarrow> rates_ok (psxCheckStartGate32 i s)" "rates_ok s \<Longrightarrow> rates_ok (psxCheckEndGate32 i s)"
  by (auto simp: psxCheckStartGate16_def psxCheckEndGate16_def psxCheckStartGate32_def psxCheckEndGate32_def
      intro!: rates_gates)

lemma rates_advance: "rates_ok s \<Longrightarrow> rates_ok (advance i s)"
  by (auto simp: advance_def Let_def intro!: rates_upd rates_basic)

lemma rates_test: "rates_ok s \<Longrightarrow> rates_ok (test_counter i s)"
  by (auto simp: test_counter_def intro!: rates_target rates_overflow)

lemma rates_fold: "(\<And>i s. rates_ok s \<Longrightarrow> rates_ok (f i s)) \<Longrightarrow> rates_ok s \<Longrightarrow> rates_ok (fold f xs s)"
  by (induction xs arbitrary: s) simp_all

text \<open>The plugins' functions leave the first six counters alone.\<close>

definition plugins_ok :: "'e rcnt_env \<Rightarrow> bool" where
  "plugins_ok env \<longleftrightarrow> (\<forall>s. rates_ok s \<longrightarrow> rates_ok (cdvdVsync env s) \<and>
     (\<forall>n. pred_option (\<lambda>f. rates_ok (f n s)) (SPU2async env) \<and> pred_option (\<lambda>f. rates_ok (f n s)) (DEV9async env) \<and>
       pred_option (\<lambda>f. rates_ok (f n s)) (USBasync env)))"

lemma rates_upd6: "i \<ge> 6 \<Longrightarrow> rates_ok s \<Longrightarrow> rates_ok (upd_cnt i g s)"
  by (auto simp: rates_ok_def)

lemma rates_async:
  assumes "\<And>n s. rates_ok s \<Longrightarrow> rates_ok (f n s)" "rates_ok s" "i \<ge> 6"
  shows "rates_ok (snd (async_counter i f s))"
  using assms(1) [OF assms(2)] assms(2,3) by (auto simp: async_counter_def Let_def rates_upd6)

lemma rates_next [simp]: "rates_ok (s\<lparr>psxNextCounter := c\<rparr>) = rates_ok s"
  by (simp add: rates_ok_def cnt_def)

lemma rates_update:
  assumes "plugins_ok env" "rates_ok s"
  shows "rates_ok (psxRcntUpdate env s)"
proof -
  let ?a = "s\<lparr>g_iopNextEventCycle := icycle s + 32, psxNextCounter := 0x7fffffff, psxNextsCounter := icycle s\<rparr>"
  have p: "rates_ok (f n t)" if "SPU2async env = Some f \<or> DEV9async env = Some f \<or> USBasync env = Some f" "rates_ok t" for f n t
    using assms(1) that by (auto simp: plugins_ok_def)
  define b where "b = fold test_counter [0..<6] (fold advance [0..<6] ?a)"
  have a: "rates_ok ?a"
    using assms(2) by (simp add: rates_ok_def cnt_def)
  have b: "rates_ok b"
    unfolding b_def by (rule rates_fold [OF rates_test rates_fold [OF rates_advance a]])
  define c where "c = (case SPU2async env of None \<Rightarrow> b
     | Some f \<Rightarrow> (let (c, s) = async_counter 6 f b in s\<lparr>psxNextCounter := c\<rparr>))"
  have c: "rates_ok c"
    unfolding c_def split_beta Let_def
    by (cases "SPU2async env") (simp_all add: b p rates_async)
  define d where "d = (case DEV9async env of None \<Rightarrow> c | Some f \<Rightarrow> f 1 c)"
  have d: "rates_ok d"
    unfolding d_def using p c by (cases "DEV9async env") simp_all
  define e where "e = (case USBasync env of None \<Rightarrow> d
     | Some f \<Rightarrow> (let (c, s) = async_counter 7 f d
                  in if sint c < sint (psxNextCounter s) then s\<lparr>psxNextCounter := c\<rparr> else s))"
  have e: "rates_ok e"
    unfolding e_def split_beta Let_def
    by (cases "USBasync env") (simp_all add: d p rates_async)
  have "psxRcntUpdate env s = fold rcntSet [0..<6] e"
    unfolding psxRcntUpdate_def Let_def b_def c_def d_def e_def by simp
  then show ?thesis
    using e by (simp only:) (rule rates_fold [OF rates_basic(5)])
qed

lemma PIXEL_rate: "rates_ok s \<Longrightarrow> PSXPIXEL s \<noteq> 0"
proof -
  assume "rates_ok s"
  then have p: "13500000 \<le> sint (PSXCLK (idev s))" "sint (PSXCLK (idev s)) < 2 ^ 31"
    by (simp_all add: rates_ok_def)
  then have q: "sint (PSXCLK (idev s)) sdiv 13500000 = sint (PSXCLK (idev s)) div 13500000"
    by (simp add: signed_divide_int_def)
  have "1 \<le> sint (PSXCLK (idev s)) div 13500000" "sint (PSXCLK (idev s)) div 13500000 < 2 ^ 31"
    using p by auto
  then have "uint (PSXPIXEL s) = sint (PSXCLK (idev s)) div 13500000"
    unfolding PSXPIXEL_def q by (simp add: unsigned_of_int unsigned_ucast_eq take_bit_int_eq_self_iff)
  then show ?thesis
    using p by auto
qed

lemma rates_writes:
  fixes s :: "'e rcnt_iop"
  assumes "rates_ok s"
  shows "rates_ok (psxRcntWcount i v s)" "rates_ok (psxRcntWmode16 i v s)" "rates_ok (psxRcntWmode32 i v s)"
    "rates_ok (psxRcntWtarget16 i v s)" "rates_ok (psxRcntWtarget32 i v s)" "rates_ok (psxRcntSetGates s)"
proof -
  have m: "rates_ok (mode_written j t)" if "rates_ok t" for j and t :: "'e rcnt_iop"
    using that by (auto simp: mode_written_def intro!: rates_upd rates_basic)
  have g: "rates_ok (gate_stops j t)" if "rates_ok t" for j and t :: "'e rcnt_iop"
    using that by (auto simp: gate_stops_def intro!: rates_basic)
  have w: "rates_ok (upd_cnt j (\<lambda>c. c\<lparr>c_mode := x\<rparr>) s)" for x j
    using assms by (intro rates_upd) auto
  have pr: "rates_ok (protect_target j t)" if "rates_ok t" for j and t :: "'e rcnt_iop"
    using that by (auto simp: protect_target_def intro!: rates_basic)
  show "rates_ok (psxRcntWcount i v s)"
    using assms by (auto simp: psxRcntWcount_def Let_def intro!: rates_upd rates_basic)
  note ifd = if_distrib [of rates_ok] and rs = m g w PIXEL_rate rates_basic
  show "rates_ok (psxRcntWmode16 i v s)"
    by (simp add: psxRcntWmode16_def Let_def ifd rs del: if_split)
  show "rates_ok (psxRcntWmode32 i v s)"
    by (simp add: psxRcntWmode32_def Let_def ifd rs del: if_split)
  show "rates_ok (psxRcntWtarget16 i v s)" "rates_ok (psxRcntWtarget32 i v s)"
    unfolding psxRcntWtarget16_def psxRcntWtarget32_def Let_def
    using assms by (auto intro!: pr rates_upd rates_basic)
  show "rates_ok (psxRcntSetGates s)"
    using assms by (simp add: psxRcntSetGates_def Let_def rates_basic)
qed


lemma or_mode_fields [simp]:
  "c_rate (cnt i (or_mode j m s)) = c_rate (cnt i s)" "c_count (cnt i (or_mode j m s)) = c_count (cnt i s)"
  "c_target (cnt i (or_mode j m s)) = c_target (cnt i s)" "c_sCycleT (cnt i (or_mode j m s)) = c_sCycleT (cnt i s)"
  "icycle (or_mode j m s) = icycle s" "psxNextsCounter (or_mode j m s) = psxNextsCounter s"
  by (simp_all add: or_mode_def)

lemma mode_bits_or_mode: "m AND n = 0 \<Longrightarrow> mode_bits i n (or_mode j m s) = mode_bits i n s"
  by (simp add: mode_bits_def or_mode_def bit.conj_disj_distrib2)

lemma mode_bits_upd: "(\<And>c. c_mode (f c) = c_mode c) \<Longrightarrow> mode_bits i n (upd_cnt j f s) = mode_bits i n s"
  by (simp add: mode_bits_def)

lemma running_or_mode [simp]: "running i (or_mode j 0x400 s) = running i s"
  by (simp add: running_def mode_bits_or_mode)

lemma psxRcntCycles_cong:
  "c_count (cnt i t) = c_count (cnt i s) \<Longrightarrow> c_sCycleT (cnt i t) = c_sCycleT (cnt i s) \<Longrightarrow>
   c_rate (cnt i t) = c_rate (cnt i s) \<Longrightarrow> running i t = running i s \<Longrightarrow> icycle t = icycle s \<Longrightarrow>
   psxRcntCycles i t = psxRcntCycles i s"
  by (simp add: psxRcntCycles_def elapsed_counts_def)

lemma rest_of_division: "(c - c div r * r) div r = (0 :: 32 word)"
  by (simp add: minus_div_mult_eq_mod)

lemma advance_other: "i \<noteq> j \<Longrightarrow> cnt i (advance j s) = cnt i s"
  by (simp add: advance_def Let_def or_mode_def)

lemma advance_icycle [simp]: "icycle (advance j s) = icycle s"
  by (simp add: advance_def Let_def or_mode_def)

lemma advance_run:
  assumes "running i s" "0 < sint (icycle s - c_sCycleT (cnt i s))"
  shows "c_count (cnt i (advance i s)) = c_count (cnt i s) + ucast (elapsed_counts i s)"
    "icycle s - c_sCycleT (cnt i (advance i s)) =
      (icycle s - c_sCycleT (cnt i s)) - elapsed_counts i s * c_rate (cnt i s)"
    "c_rate (cnt i (advance i s)) = c_rate (cnt i s)"
  using assms by (auto simp: advance_def Let_def running_def elapsed_counts_def)

lemma advance_stay:
  assumes "i \<noteq> j \<or> \<not> running i s \<or> sint (icycle s - c_sCycleT (cnt i s)) \<le> 0"
  shows "c_count (cnt i (advance j s)) = c_count (cnt i s)" "c_sCycleT (cnt i (advance j s)) = c_sCycleT (cnt i s)"
    "c_rate (cnt i (advance j s)) = c_rate (cnt i s)"
  using assms by (auto simp: advance_def Let_def running_def)

lemma advance_rate [simp]: "c_rate (cnt i (advance j s)) = c_rate (cnt i s)"
  "c_target (cnt i (advance j s)) = c_target (cnt i s)"
  by (simp_all add: advance_def Let_def)

lemma running_advance [simp]: "running i (advance j s) = running i s"
  unfolding running_def advance_rate by (simp add: advance_def Let_def mode_bits_or_mode mode_bits_upd)

lemma advance_reads: "psxRcntCycles i (advance j s) = psxRcntCycles i s"
proof (cases "i = j \<and> running i s \<and> 0 < sint (icycle s - c_sCycleT (cnt i s))")
  case False
  then show ?thesis
    by (intro psxRcntCycles_cong advance_stay) auto
next
  case True
  then show ?thesis
    by (auto simp: psxRcntCycles_def advance_run elapsed_counts_def rest_of_division)
qed

lemma advance_fold:
  "psxRcntCycles i (fold advance js s) = psxRcntCycles i s" "running i (fold advance js s) = running i s"
  "icycle (fold advance js s) = icycle s" "c_target (cnt i (fold advance js s)) = c_target (cnt i s)"
  "c_rate (cnt i (fold advance js s)) = c_rate (cnt i s)"
  by (induction js arbitrary: s) (simp_all add: advance_reads)


section \<open>Reads across an update\<close>

lemma hw_frame [simp]:
  "cnt i (psxSetNextBranch a b s) = cnt i s" "cnt i (iopTestIntc s) = cnt i s" "cnt i (hw_or p w s) = cnt i s"
  "cnt i (sooner c s) = cnt i s" "cnt i (rcntSet j s) = cnt i s"
  by (simp_all add: cnt_def)

lemma mode_frame [simp]:
  "icycle (clear_mode j m s) = icycle s" "icycle (future_target j s) = icycle s"
  "i \<noteq> j \<Longrightarrow> cnt i (clear_mode j m s) = cnt i s" "i \<noteq> j \<Longrightarrow> cnt i (future_target j s) = cnt i s"
  "i \<noteq> j \<Longrightarrow> cnt i (or_mode j m s) = cnt i s"
  by (simp_all add: clear_mode_def future_target_def or_mode_def)

lemma fire_frame [simp]:
  "i \<noteq> j \<Longrightarrow> cnt i (snd (rcntFireInterrupt j s)) = cnt i s" "icycle (snd (rcntFireInterrupt j s)) = icycle s"
  by (simp_all add: rcntFireInterrupt_def Let_def)

lemma target_frame [simp]:
  "i \<noteq> j \<Longrightarrow> cnt i (rcntTestTarget j s) = cnt i s" "icycle (rcntTestTarget j s) = icycle s"
  by (simp_all add: rcntTestTarget_def Let_def split_beta)

lemma overflow_frame [simp]:
  "i \<noteq> j \<Longrightarrow> cnt i (rcntTestOverflow j s) = cnt i s" "icycle (rcntTestOverflow j s) = icycle s"
  by (simp_all add: rcntTestOverflow_def overflow_interrupt_def Let_def split_beta)

lemma test_counter_frame:
  "i \<noteq> j \<Longrightarrow> cnt i (test_counter j s) = cnt i s" "icycle (test_counter j s) = icycle s"
  by (simp_all add: test_counter_def)

lemma test_counter_below:
  "running j s \<Longrightarrow> c_count (cnt j s) < c_target (cnt j s) \<Longrightarrow> c_count (cnt j s) \<le> maxTarget j \<Longrightarrow>
   test_counter j s = s"
  "\<not> running j s \<Longrightarrow> test_counter j s = s"
  by (auto simp: test_counter_def rcntTestOverflow_def rcntTestTarget_def running_def)

definition below :: "nat \<Rightarrow> 'e rcnt_iop \<Rightarrow> bool" where
  "below i s \<longleftrightarrow> running i s \<longrightarrow> c_count (cnt i s) < c_target (cnt i s) \<and> c_count (cnt i s) \<le> maxTarget i"

lemma test_fold:
  "below i s \<Longrightarrow> cnt i (fold test_counter js s) = cnt i s \<and> icycle (fold test_counter js s) = icycle s"
proof (induction js arbitrary: s)
  case (Cons j js)
  have a: "cnt i (test_counter j s) = cnt i s"
    using test_counter_frame(1) [of i j s] test_counter_below [of i s] Cons.prems
    by (cases "i = j"; cases "running i s") (auto simp: below_def)
  then have "below i (test_counter j s)"
    using Cons.prems by (simp add: below_def running_def mode_bits_def)
  from Cons.IH [OF this] show ?case
    by (simp add: a test_counter_frame)
qed simp

text \<open>The plugins' functions leave counter \<open>i\<close> and the clock alone.\<close>

definition plugins_leave :: "nat \<Rightarrow> 'e rcnt_env \<Rightarrow> bool" where
  "plugins_leave i env \<longleftrightarrow> (\<forall>s n. let same = pred_option (\<lambda>f. cnt i (f n s) = cnt i s \<and> icycle (f n s) = icycle s)
     in same (SPU2async env) \<and> same (DEV9async env) \<and> same (USBasync env))"

lemma async_frame:
  "i < 6 \<Longrightarrow> j \<ge> 6 \<Longrightarrow> (\<And>n s. cnt i (f n s) = cnt i s \<and> icycle (f n s) = icycle s) \<Longrightarrow>
   cnt i (snd (async_counter j f s)) = cnt i s \<and> icycle (snd (async_counter j f s)) = icycle s"
  by (auto simp: async_counter_def Let_def)

lemma rcntSet_fold: "cnt i (fold rcntSet js s) = cnt i s" "icycle (fold rcntSet js s) = icycle s"
  by (induction js arbitrary: s) simp_all

lemma next_frame [simp]:
  "cnt i (s\<lparr>psxNextCounter := a\<rparr>) = cnt i s" "cnt i (s\<lparr>psxNextsCounter := a\<rparr>) = cnt i s"
  "cnt i (s\<lparr>g_iopNextEventCycle := a\<rparr>) = cnt i s" "cnt i (s\<lparr>icycle := a\<rparr>) = cnt i s"
  by (simp_all add: cnt_def)

lemma psxRcntUpdate_frame:
  fixes s :: "'e rcnt_iop"
  assumes "plugins_leave i env" "i < 6"
  defines "t \<equiv> fold test_counter [0..<6] (fold advance [0..<6]
     (s\<lparr>g_iopNextEventCycle := icycle s + 32, psxNextCounter := 0x7fffffff, psxNextsCounter := icycle s\<rparr>))"
  shows "cnt i (psxRcntUpdate env s) = cnt i t \<and> icycle (psxRcntUpdate env s) = icycle t"
proof -
  have p: "cnt i (f n x) = cnt i x \<and> icycle (f n x) = icycle x"
    if "SPU2async env = Some f \<or> DEV9async env = Some f \<or> USBasync env = Some f" for f n x
    using assms(1) that by (auto simp: plugins_leave_def Let_def)
  note a = async_frame [OF assms(2)]
  show ?thesis
    unfolding psxRcntUpdate_def Let_def t_def [symmetric] split_beta
    by (auto simp: rcntSet_fold a p split: option.split)
qed


lemma elapsed_stays: "elapsed_counts i s = 0 \<Longrightarrow> elapsed_counts i (advance j s) = 0"
proof (cases "i = j \<and> running i s \<and> 0 < sint (icycle s - c_sCycleT (cnt i s))")
  case True
  assume "elapsed_counts i s = 0"
  then show ?thesis
    using True advance_run(2) [of i s] by (auto simp: elapsed_counts_def)
next
  case False
  assume "elapsed_counts i s = 0"
  then show ?thesis
    using False advance_stay [of i j s] by (auto simp: elapsed_counts_def)
qed

lemma advance_catches_up:
  assumes "running i s" "0 \<le> sint (icycle s - c_sCycleT (cnt i s))"
  shows "elapsed_counts i (advance i s) = 0"
proof (cases "0 < sint (icycle s - c_sCycleT (cnt i s))")
  case True
  show ?thesis
    unfolding elapsed_counts_def advance_icycle advance_run(2,3) [OF assms(1) True] by (rule rest_of_division)
next
  case False
  then have "sint (icycle s - c_sCycleT (cnt i s)) = 0"
    using assms(2) by simp
  then have z: "icycle s - c_sCycleT (cnt i s) = 0"
    by (metis signed_0 signed_word_eqI)
  then have "elapsed_counts i s = 0"
    by (simp add: elapsed_counts_def)
  then show ?thesis
    by (rule elapsed_stays)
qed

lemma advance_fold_catches_up:
  "i \<in> set js \<Longrightarrow> running i s \<Longrightarrow> 0 \<le> sint (icycle s - c_sCycleT (cnt i s)) \<Longrightarrow> elapsed_counts i (fold advance js s) = 0"
proof (induction js arbitrary: s)
  case (Cons j js)
  have "elapsed_counts i (fold advance js t) = 0" if "elapsed_counts i t = 0" for t
    using that by (induction js arbitrary: t) (simp_all add: elapsed_stays)
  moreover have "0 \<le> sint (icycle s - c_sCycleT (cnt i (advance j s)))" if "i \<noteq> j"
    using Cons.prems(3) advance_stay(2) [of i j s] that by simp
  ultimately show ?case
    using Cons advance_catches_up [of i s] by (cases "i = j") auto
qed simp

lemma reads_across_update:
  assumes "plugins_leave i env" "i < 6" "running i s" "0 \<le> sint (icycle s - c_sCycleT (cnt i s))"
    "psxRcntCycles i s < c_target (cnt i s)" "psxRcntCycles i s \<le> maxTarget i"
  shows "psxRcntCycles i (psxRcntUpdate env s) = psxRcntCycles i s"
proof -
  let ?a = "s\<lparr>g_iopNextEventCycle := icycle s + 32, psxNextCounter := 0x7fffffff, psxNextsCounter := icycle s\<rparr>"
  define b where "b = fold advance [0..<6] ?a"
  have r: "running i ?a" "psxRcntCycles i ?a = psxRcntCycles i s"
    using assms(3) by (simp_all add: running_def mode_bits_def psxRcntCycles_def elapsed_counts_def)
  have b: "running i b" "psxRcntCycles i b = psxRcntCycles i s" "elapsed_counts i b = 0" "c_target (cnt i b) = c_target (cnt i s)"
    unfolding b_def using assms r by (simp_all only: advance_fold) (auto intro!: advance_fold_catches_up simp: running_def)
  then have "c_count (cnt i b) = psxRcntCycles i s"
    by (simp add: psxRcntCycles_def [of i b])
  then have "below i b"
    using assms b by (simp add: below_def)
  from test_fold [OF this, of "[0..<6]"] psxRcntUpdate_frame [OF assms(1,2), of s]
  have "cnt i (psxRcntUpdate env s) = cnt i b" "icycle (psxRcntUpdate env s) = icycle b"
    by (simp_all add: b_def)
  then have "psxRcntCycles i (psxRcntUpdate env s) = psxRcntCycles i b"
    by (intro psxRcntCycles_cong) (simp_all add: running_def mode_bits_def)
  then show ?thesis
    using b by simp
qed


section \<open>The next event\<close>

definition overflowCap :: "nat \<Rightarrow> u64" where
  "overflowCap i = (if i \<ge> 3 then 0x100000000 else 0x10000)"

lemma sooner_next:
  assumes "0 \<le> sint (psxNextCounter s)"
  shows "sint (psxNextCounter (sooner c s)) = min (sint (psxNextCounter s)) (uint c)"
proof -
  have b: "sint (psxNextCounter s) < 2 ^ 31"
    using sint_lt [of "psxNextCounter s"] by simp
  then have u: "uint (scast (psxNextCounter s) :: u64) = sint (psxNextCounter s)"
  proof -
    have "uint (scast (psxNextCounter s) :: u64) = uint (word_of_int (sint (psxNextCounter s)) :: u64)"
      by simp
    also have "\<dots> = sint (psxNextCounter s)"
      unfolding unsigned_of_int using assms b by (simp add: take_bit_int_eq_self_iff)
    finally show ?thesis .
  qed
  show ?thesis
  proof (cases "c < scast (psxNextCounter s)")
    case True
    then have l: "uint c < sint (psxNextCounter s)"
      using u by (simp add: word_less_def)
    then have "sint (ucast c :: u32) = uint c"
      using b by (simp add: signed_ucast_eq signed_take_bit_int_eq_self_iff) (rule order_trans [OF _ uint_ge_0], simp)
    then show ?thesis
      using True l by (simp add: sooner_def)
  next
    case False
    then show ?thesis
      using u by (simp add: sooner_def word_less_def)
  qed
qed

lemma cycles_to_sooner [simp]: "cycles_to g c (sooner x s) = cycles_to g c s" "cycles_to g c (rcntSet i s) = cycles_to g c s"
  by (simp_all add: cycles_to_def)

lemma rcntSet_next:
  assumes "0 \<le> sint (psxNextCounter s)"
  shows "0 \<le> sint (psxNextCounter (rcntSet i s)) \<and> sint (psxNextCounter (rcntSet i s)) \<le> max 4 (sint (psxNextCounter s)) \<and>
    (running i s \<longrightarrow> 4 < sint (psxNextCounter (rcntSet i s)) \<longrightarrow>
      sint (psxNextCounter (rcntSet i s)) \<le> uint (cycles_to (overflowCap i) (cnt i s) s) \<and>
      (c_target (cnt i s) AND IOPCNT_FUTURE_TARGET = 0 \<longrightarrow>
        sint (psxNextCounter (rcntSet i s)) \<le> uint (cycles_to (c_target (cnt i s)) (cnt i s) s)))"
proof -
  have "overflowCap i = (if i \<ge> 3 then 0x100000000 else 0x10000)"
    by (simp add: overflowCap_def)
  then show ?thesis
    using assms unfolding rcntSet_def Let_def running_def
    by (auto simp: sooner_next split del: if_split simp flip: overflowCap_def split: if_splits)
qed


lemma rcntSet_fold_frame [simp]:
  "cycles_to g c (fold rcntSet js s) = cycles_to g c s" "running i (fold rcntSet js s) = running i s"
  "psxNextsCounter (fold rcntSet js s) = psxNextsCounter s"
  by (induction js arbitrary: s) (simp_all add: running_def mode_bits_def)

lemma rcntSet_fold_le:
  "0 \<le> sint (psxNextCounter s) \<Longrightarrow> 0 \<le> sint (psxNextCounter (fold rcntSet js s)) \<and>
     sint (psxNextCounter (fold rcntSet js s)) \<le> max 4 (sint (psxNextCounter s))"
proof (induction js arbitrary: s)
  case (Cons j js)
  from rcntSet_next [OF Cons.prems, of j] Cons.IH [of "rcntSet j s"] show ?case
    by auto
qed simp

lemma rcntSet_fold_next:
  "i \<in> set js \<Longrightarrow> 0 \<le> sint (psxNextCounter s) \<Longrightarrow> running i s \<Longrightarrow> 4 < sint (psxNextCounter (fold rcntSet js s)) \<Longrightarrow>
   sint (psxNextCounter (fold rcntSet js s)) \<le> uint (cycles_to (overflowCap i) (cnt i s) s) \<and>
   (c_target (cnt i s) AND IOPCNT_FUTURE_TARGET = 0 \<longrightarrow>
      sint (psxNextCounter (fold rcntSet js s)) \<le> uint (cycles_to (c_target (cnt i s)) (cnt i s) s))"
proof (induction js arbitrary: s)
  case (Cons j js)
  have n: "0 \<le> sint (psxNextCounter (rcntSet j s))"
    using rcntSet_next [OF Cons.prems(2)] by blast
  have r: "running i (rcntSet j s)"
    using Cons.prems(3) by (simp add: running_def mode_bits_def)
  show ?case
  proof (cases "i = j")
    case True
    then show ?thesis
      using rcntSet_fold_le [OF n, of js] rcntSet_next [OF Cons.prems(2), of i] Cons.prems by auto
  next
    case False
    then show ?thesis
      using Cons.IH [OF _ n r] Cons.prems by simp
  qed
qed simp

lemma counts_before:
  fixes n g r c d :: nat
  assumes "c < r" "n < g" "d + c < (g - n) * r"
  shows "n + (c + d) mod 2 ^ 32 div r < g"
proof -
  have "(c + d) mod 2 ^ 32 div r \<le> (c + d) div r"
    by (intro div_le_mono) simp
  also have "\<dots> < g - n"
    using assms by (simp add: div_less_iff_less_mult add.commute)
  finally show ?thesis
    using assms(2) by simp
qed

lemma unat_ucast64 [simp]: "unat (ucast (w :: u32) :: u64) = unat w"
proof -
  have "unat w < 2 ^ 32"
    using unsigned_less [of w, where ?'a = nat] by simp
  then show ?thesis
    by (simp add: unsigned_ucast_eq take_bit_nat_eq_self_iff)
qed

lemma before_goal:
  fixes d :: nat
  assumes "running i t" "elapsed_counts i t = 0" "c_rate (cnt i t) \<noteq> 0" "psxNextsCounter t = icycle t"
    "c_count (cnt i t) < g" "g \<le> 0x100000000" "int d < uint (cycles_to g (cnt i t) t)"
  shows "psxRcntCycles i (t\<lparr>icycle := icycle t + of_nat d\<rparr>) < g"
proof -
  let ?c = "icycle t - c_sCycleT (cnt i t)" and ?r = "c_rate (cnt i t)" and ?n = "c_count (cnt i t)"
  have r: "0 < unat ?r"
    using assms(3) by (simp add: unat_gt_0)
  have c: "unat ?c < unat ?r"
  proof -
    have "unat ?c div unat ?r = 0"
      using assms(2) by (simp add: elapsed_counts_def flip: unat_div)
    then show ?thesis
      using r by (simp add: div_eq_0_iff)
  qed
  have n: "unat ?n < unat g" "unat g \<le> 2 ^ 32"
    using assms(5,6) by (simp_all add: word_less_nat_alt word_le_nat_alt)
  have g: "unat (g - ?n) = unat g - unat ?n"
    using assms(5) by (simp add: unat_sub)
  have "(unat g - unat ?n) * unat ?r \<le> 2 ^ 32 * (2 ^ 32 - 1)"
    using n(2) unsigned_less [of ?r, where ?'a = nat] by (intro mult_le_mono) auto
  then have p: "unat ((g - ?n) * ucast ?r) = (unat g - unat ?n) * unat ?r"
    by (simp add: unat_word_ariths(2) g)
  have "1 * unat ?r \<le> (unat g - unat ?n) * unat ?r"
    using n by (intro mult_le_mono1) simp
  then have "ucast ?c \<le> (g - ?n) * ucast ?r"
    unfolding word_le_nat_alt p unat_ucast64 using c by linarith
  then have "unat (cycles_to g (cnt i t) t) = (unat g - unat ?n) * unat ?r - unat ?c"
    by (simp add: cycles_to_def assms(4) unat_sub p)
  then have d: "d + unat ?c < (unat g - unat ?n) * unat ?r"
  proof -
    have "int d < int (unat (cycles_to g (cnt i t) t))"
      using assms(7) by simp
    then show ?thesis
      using \<open>unat (cycles_to g (cnt i t) t) = _\<close> unfolding of_nat_less_iff by linarith
  qed
  from counts_before [OF c n(1) d]
  have l: "unat ?n + (unat ?c + d) mod 2 ^ 32 div unat ?r < unat g" .
  let ?t = "t\<lparr>icycle := icycle t + of_nat d\<rparr>"
  have c': "icycle ?t - c_sCycleT (cnt i ?t) = ?c + of_nat d"
    by simp
  then have e: "unat (elapsed_counts i ?t) = (unat ?c + d) mod 2 ^ 32 div unat ?r"
    unfolding elapsed_counts_def unat_div c' by (simp add: unat_word_ariths(1) unsigned_of_nat take_bit_eq_mod mod_add_right_eq)
  have "unat (psxRcntCycles i ?t) = unat ?n + (unat ?c + d) mod 2 ^ 32 div unat ?r"
    using assms(1) l n(2) by (simp add: psxRcntCycles_def running_def mode_bits_def unat_word_ariths(1) e)
  then show ?thesis
    using l by (simp add: word_less_nat_alt)
qed


text \<open>What a counter event leaves of a counter.\<close>

definition same_timing :: "'e rcnt_iop \<Rightarrow> 'e rcnt_iop \<Rightarrow> bool" where
  "same_timing s t \<longleftrightarrow> (\<forall>i. c_rate (cnt i t) = c_rate (cnt i s) \<and> c_sCycleT (cnt i t) = c_sCycleT (cnt i s) \<and>
      mode_bits i IOPCNT_STOPPED t = mode_bits i IOPCNT_STOPPED s) \<and>
     icycle t = icycle s \<and> psxNextCounter t = psxNextCounter s \<and> psxNextsCounter t = psxNextsCounter s"

lemma same_timing_trans: "same_timing s t \<Longrightarrow> same_timing t u \<Longrightarrow> same_timing s u"
  by (simp add: same_timing_def)

lemma same_timing_refl [simp]: "same_timing s s"
  by (simp add: same_timing_def)

lemma same_timing_upd:
  "(\<And>c. c_rate (f c) = c_rate c \<and> c_sCycleT (f c) = c_sCycleT c \<and>
      c_mode (f c) AND IOPCNT_STOPPED = c_mode c AND IOPCNT_STOPPED) \<Longrightarrow> same_timing s (upd_cnt i f s)"
  by (simp add: same_timing_def mode_bits_def)

lemma next_of_frame [simp]:
  "psxNextCounter (iopTestIntc s) = psxNextCounter s" "psxNextsCounter (iopTestIntc s) = psxNextsCounter s"
  "psxNextCounter (hw_or p w s) = psxNextCounter s" "psxNextsCounter (hw_or p w s) = psxNextsCounter s"
  by (simp_all add: iopTestIntc_def psxSetNextBranchDelta_def hw_or_def host_wr_def)

lemma same_timing_ops:
  "m AND IOPCNT_STOPPED = 0 \<Longrightarrow> same_timing s (or_mode i m s)"
  "NOT m AND IOPCNT_STOPPED = IOPCNT_STOPPED \<Longrightarrow> same_timing s (clear_mode i m s)"
  "same_timing s (future_target i s)" "same_timing s (iopTestIntc (hw_or p w s))"
  unfolding or_mode_def clear_mode_def future_target_def
  by (auto intro!: same_timing_upd simp: bit.conj_disj_distrib2 and.assoc)
    (simp add: same_timing_def mode_bits_def)


lemma same_timing_xor: "same_timing s (upd_cnt i (\<lambda>c. c\<lparr>c_mode := c_mode c XOR 0x400\<rparr>) s)"
  by (intro same_timing_upd) (simp add: bit.conj_xor_distrib2)

lemma same_timing_fire: "same_timing s (snd (rcntFireInterrupt i s))"
proof -
  have f: "same_timing t (if P then upd_cnt i (\<lambda>c. c\<lparr>c_mode := c_mode c XOR 0x400\<rparr>) t else clear_mode i 0x400 t)" for P and t :: "'a rcnt_iop"
    by (simp add: same_timing_xor same_timing_ops)
  show ?thesis
    by (simp add: rcntFireInterrupt_def Let_def f same_timing_trans [OF same_timing_ops(4) f])
qed

lemma same_timing_interrupt:
  "m AND IOPCNT_STOPPED = 0 \<Longrightarrow>
   same_timing s (if P then let (fired, s) = rcntFireInterrupt i s in if fired then or_mode i m s else s else s)"
  using same_timing_trans [OF same_timing_fire same_timing_ops(1)] by (auto simp: split_beta Let_def same_timing_fire)

lemma same_timing_count: "same_timing s (upd_cnt i (\<lambda>c. c\<lparr>c_count := f c\<rparr>) s)" "same_timing s (upd_cnt i (\<lambda>c. c\<lparr>c_target := f c\<rparr>) s)"
  by (intro same_timing_upd; simp)+

lemma same_timing_target: "same_timing s (rcntTestTarget i s)"
proof -
  define t where "t = (if mode_bits i IOPCNT_INT_TARGET s
    then let (fired, s) = rcntFireInterrupt i s in if fired then or_mode i 0x0800 s else s else s)"
  have "same_timing s t"
    unfolding t_def by (rule same_timing_interrupt) simp
  from same_timing_trans [OF this same_timing_count(1)] same_timing_trans [OF this same_timing_ops(3)]
  show ?thesis
    unfolding rcntTestTarget_def Let_def [of "if mode_bits i IOPCNT_INT_TARGET s then _ else _"] t_def [symmetric] by simp
qed

lemma same_timing_overflow: "same_timing s (rcntTestOverflow i s)"
proof -
  have o: "same_timing t (overflow_interrupt i t)" for t :: "'a rcnt_iop"
    unfolding overflow_interrupt_def by (rule same_timing_interrupt) simp
  have o': "same_timing t (if P then overflow_interrupt i t else t)" for P and t :: "'a rcnt_iop"
    by (simp add: o)
  define u where "u = (if \<not> mode_bits i 0x40 s
    then future_target i (if c_target (cnt i s) < IOPCNT_FUTURE_TARGET then overflow_interrupt i s else s)
    else upd_cnt i (\<lambda>c. c\<lparr>c_target := c_target c AND maxTarget i\<rparr>) (overflow_interrupt i s))"
  have "same_timing s u"
  proof (cases "mode_bits i 0x40 s")
    case True
    have "same_timing s (upd_cnt i (\<lambda>c. c\<lparr>c_target := c_target c AND maxTarget i\<rparr>) (overflow_interrupt i s))"
      by (rule same_timing_trans [OF o same_timing_count(2)])
    then show ?thesis
      using True by (simp add: u_def)
  next
    case False
    have "same_timing s (future_target i (if c_target (cnt i s) < IOPCNT_FUTURE_TARGET then overflow_interrupt i s else s))"
      by (rule same_timing_trans [OF o' same_timing_ops(3)])
    then show ?thesis
      using False by (simp add: u_def split del: if_split)
  qed
  from same_timing_trans [OF this same_timing_count(1)] show ?thesis
    unfolding rcntTestOverflow_def Let_def u_def [symmetric] by simp
qed

lemma same_timing_test: "same_timing s (fold test_counter js s)"
proof (induction js arbitrary: s)
  case (Cons j js)
  have "same_timing s (test_counter j s)"
    by (simp add: test_counter_def same_timing_trans [OF same_timing_target same_timing_overflow])
  then show ?case
    using Cons.IH [of "test_counter j s"] by (auto intro: same_timing_trans)
qed simp

lemma same_timing_running: "same_timing s t \<Longrightarrow> running i t = running i s \<and> elapsed_counts i t = elapsed_counts i s"
  by (simp add: same_timing_def running_def elapsed_counts_def)


lemma advance_fold_next:
  "psxNextCounter (fold advance js s) = psxNextCounter s \<and> psxNextsCounter (fold advance js s) = psxNextsCounter s"
  by (induction js arbitrary: s) (simp_all add: advance_def Let_def or_mode_def)

definition no_plugins :: "'e rcnt_env \<Rightarrow> bool" where
  "no_plugins env \<longleftrightarrow> SPU2async env = None \<and> DEV9async env = None \<and> USBasync env = None"

lemma next_event:
  fixes s :: "'e rcnt_iop"
  assumes "no_plugins env" "i < 6" "running i s" "0 \<le> sint (icycle s - c_sCycleT (cnt i s))" "c_rate (cnt i s) \<noteq> 0"
  defines "t \<equiv> psxRcntUpdate env s"
  assumes "4 < sint (psxNextCounter t)" "int d < sint (psxNextCounter t)" "c_count (cnt i t) < g" "g \<le> 0x100000000"
    "g = overflowCap i \<or> g = c_target (cnt i t) \<and> g AND IOPCNT_FUTURE_TARGET = 0"
  shows "psxRcntCycles i (t\<lparr>icycle := icycle t + of_nat d\<rparr>) < g"
proof (rule before_goal)
  let ?a = "s\<lparr>g_iopNextEventCycle := icycle s + 32, psxNextCounter := 0x7fffffff, psxNextsCounter := icycle s\<rparr>"
  define b where "b = fold advance [0..<6] ?a"
  define c where "c = fold test_counter [0..<6] b"
  have t: "t = fold rcntSet [0..<6] c"
    using assms(1) by (simp add: t_def psxRcntUpdate_def Let_def no_plugins_def b_def c_def)
  have r: "running i ?a" "0 \<le> sint (icycle ?a - c_sCycleT (cnt i ?a))" "i \<in> set [0..<6]"
    using assms(2-4) by (simp_all add: running_def mode_bits_def)
  have b: "running i b" "elapsed_counts i b = 0" "icycle b = icycle s" "c_rate (cnt i b) = c_rate (cnt i s)"
    "psxNextCounter b = 0x7fffffff" "psxNextsCounter b = icycle s"
    unfolding b_def using advance_fold_catches_up [OF r(3,1,2)] r(1) by (simp_all add: advance_fold advance_fold_next)
  have st: "same_timing b c"
    unfolding c_def by (rule same_timing_test)
  have c: "running i c" "elapsed_counts i c = 0" "icycle c = icycle s" "c_rate (cnt i c) = c_rate (cnt i s)"
    "psxNextCounter c = 0x7fffffff" "psxNextsCounter c = icycle s"
    using st same_timing_running [OF st] b by (simp_all add: same_timing_def)
  have f: "cnt i t = cnt i c" "icycle t = icycle c"
    by (simp_all add: t rcntSet_fold)
  show "running i t" "c_rate (cnt i t) \<noteq> 0" "psxNextsCounter t = icycle t" "elapsed_counts i t = 0"
    using c f assms(5) by (simp_all add: t elapsed_counts_def rcntSet_fold)
  have "sint (psxNextCounter t) \<le> uint (cycles_to g (cnt i t) t)"
    using rcntSet_fold_next [OF r(3) _ c(1)] assms(7,11) f c(5) unfolding t by auto
  then show "int d < uint (cycles_to g (cnt i t) t)"
    using assms(8) by simp
qed (use assms in auto)

section \<open>Interrupts of a counter\<close>

lemma mode_bits_frame [simp]:
  "mode_bits i m (iopTestIntc s) = mode_bits i m s" "mode_bits i m (hw_or p w s) = mode_bits i m s"
  by (simp_all add: mode_bits_def)

lemma mode_bits_clear: "mode_bits i n (clear_mode i m s) \<longleftrightarrow> c_mode (cnt i s) AND NOT m AND n \<noteq> 0"
  by (simp add: mode_bits_def clear_mode_def and.assoc)

lemma does_not_fire: "\<not> mode_bits i 0x400 s \<Longrightarrow> \<not> mode_bits i 0x40 s \<Longrightarrow> rcntFireInterrupt i s = (False, s)"
  by (simp add: rcntFireInterrupt_def)

lemma mode_bit:
  "mode_bits i 0x400 s \<longleftrightarrow> bit (c_mode (cnt i s)) 10" "mode_bits i 0x80 s \<longleftrightarrow> bit (c_mode (cnt i s)) 7"
  "mode_bits i 0x40 s \<longleftrightarrow> bit (c_mode (cnt i s)) 6" "mode_bits i IOPCNT_STOPPED s \<longleftrightarrow> bit (c_mode (cnt i s)) 28"
  using and_exp_eq_0_iff_not_bit [of "c_mode (cnt i s)" 10] and_exp_eq_0_iff_not_bit [of "c_mode (cnt i s)" 7]
    and_exp_eq_0_iff_not_bit [of "c_mode (cnt i s)" 6] and_exp_eq_0_iff_not_bit [of "c_mode (cnt i s)" 28]
  by (simp_all add: mode_bits_def)

lemma bit_0x400: "bit (0x400 :: u32) n \<longleftrightarrow> n = 10"
  using bit_exp_iff [where 'a = "32 word", of 10 n] by auto

lemma mode_bits_xor: "mode_bits i 0x400 (upd_cnt i (\<lambda>c. c\<lparr>c_mode := c_mode c XOR 0x400\<rparr>) s) \<longleftrightarrow> \<not> mode_bits i 0x400 s"
  "mode_bits i 0x80 (upd_cnt i (\<lambda>c. c\<lparr>c_mode := c_mode c XOR 0x400\<rparr>) s) \<longleftrightarrow> mode_bits i 0x80 s"
  "mode_bits i 0x40 (upd_cnt i (\<lambda>c. c\<lparr>c_mode := c_mode c XOR 0x400\<rparr>) s) \<longleftrightarrow> mode_bits i 0x40 s"
  by (simp_all add: mode_bit bit_xor_iff bit_0x400)

lemma fires_toggle:
  assumes "mode_bits i 0x40 s" "mode_bits i 0x80 s"
  shows "fst (rcntFireInterrupt i s) = mode_bits i 0x400 s"
    "mode_bits i 0x400 (snd (rcntFireInterrupt i s)) = (\<not> mode_bits i 0x400 s)"
    "mode_bits i 0x40 (snd (rcntFireInterrupt i s))" "mode_bits i 0x80 (snd (rcntFireInterrupt i s))"
  using assms by (simp_all add: rcntFireInterrupt_def Let_def mode_bits_xor)

lemma fire_fst: "fst (rcntFireInterrupt i s) = mode_bits i 0x400 s"
  by (simp add: rcntFireInterrupt_def Let_def)

lemma fire_quiet: "mode_bits i 0x400 s \<Longrightarrow> \<not> mode_bits i 0x400 (snd (rcntFireInterrupt i s))"
  by (simp add: rcntFireInterrupt_def Let_def mode_bits_clear mode_bits_xor)

lemma fire_modes: "m = 0x40 \<or> m = 0x80 \<Longrightarrow> mode_bits i m (snd (rcntFireInterrupt i s)) = mode_bits i m s"
  by (auto simp: rcntFireInterrupt_def Let_def mode_bits_clear mode_bits_xor) (simp_all add: mode_bits_def)

lemma advance_rearms:
  assumes "mode_bits i 0x40 s" "\<not> mode_bits i 0x80 s" "\<not> mode_bits i IOPCNT_STOPPED s"
  shows "mode_bits i 0x400 (advance i s)"
proof -
  have "mode_bits i 0x400 (or_mode i 0x400 s)"
    by (simp add: mode_bit or_mode_def bit_or_iff bit_0x400)
  then show ?thesis
    using assms by (simp add: advance_def Let_def mode_bits_upd)
qed

lemma fire_keeps_stopped: "mode_bits i IOPCNT_STOPPED (snd (rcntFireInterrupt i s)) = mode_bits i IOPCNT_STOPPED s"
  using same_timing_fire [of s i] by (simp add: same_timing_def)


section \<open>Reachable counters\<close>

text \<open>The steps of the counters; \<open>other\<close> is a step of the rest of the machine.\<close>

inductive rcnt_step :: "'e rcnt_env \<Rightarrow> 'e rcnt_iop \<Rightarrow> 'e rcnt_iop \<Rightarrow> bool" for env where
  other: "idev t = idev s \<Longrightarrow> rcnt_step env s t"
| update: "rcnt_step env s (psxRcntUpdate env s)"
| vblank_start: "rcnt_step env s (psxVBlankStart env s)"
| vblank_end: "rcnt_step env s (psxVBlankEnd s)"
| hblank_start: "rcnt_step env s (psxCheckStartGate16 0 s)"
| hblank_end: "rcnt_step env s (psxCheckEndGate16 0 s)"
| count: "i < 6 \<Longrightarrow> rcnt_step env s (psxRcntWcount i v s)"
| mode16: "i < 3 \<Longrightarrow> rcnt_step env s (psxRcntWmode16 i v s)"
| mode32: "3 \<le> i \<Longrightarrow> i < 6 \<Longrightarrow> rcnt_step env s (psxRcntWmode32 i v s)"
| target16: "i < 3 \<Longrightarrow> rcnt_step env s (psxRcntWtarget16 i v s)"
| target32: "3 \<le> i \<Longrightarrow> i < 6 \<Longrightarrow> rcnt_step env s (psxRcntWtarget32 i v s)"
| gates: "rcnt_step env s (psxRcntSetGates s)"

text \<open>\<open>PSXCLK\<close> is the clock of the IOP, or of a PlayStation.\<close>

inductive rcnt_reach :: "'e rcnt_env \<Rightarrow> 'e rcnt_iop \<Rightarrow> bool" for env where
  start: "PSXCLK (idev s) \<in> {36864000, 33868800} \<Longrightarrow> rcnt_reach env (psxRcntInit env s)"
| step: "rcnt_reach env s \<Longrightarrow> rcnt_step env s t \<Longrightarrow> rcnt_reach env t"

lemma rates_init:
  assumes "PSXCLK (idev s) \<in> {36864000, 33868800}"
  shows "rates_ok (psxRcntInit env s)"
proof -
  have *: "c_rate (cnt i (fold (\<lambda>i. upd_cnt i (\<lambda>c. c\<lparr>c_sCycleT := x\<rparr>)) js t)) = c_rate (cnt i t)" for x i js and t :: "'a rcnt_iop"
    by (induction js arbitrary: t) simp_all
  have "13500000 \<le> sint (PSXCLK (idev s)) \<and> sint (PSXCLK (idev s)) < 2 ^ 31"
    using assms by auto
  then show ?thesis
    unfolding psxRcntInit_def Let_def
    by (simp add: rates_ok_def * upt_rec)
qed

lemma rates_vblank:
  assumes "plugins_ok env" "rates_ok s"
  shows "rates_ok (psxVBlankStart env s)" "rates_ok (psxVBlankEnd s)"
  using assms by (auto simp: psxVBlankStart_def psxVBlankEnd_def Let_def plugins_ok_def intro!: rates_gate16 rates_basic)

lemma rates_step: "rcnt_step env s t \<Longrightarrow> plugins_ok env \<Longrightarrow> rates_ok s \<Longrightarrow> rates_ok t"
  by (induction rule: rcnt_step.induct)
    (simp_all add: rates_update rates_vblank rates_gate16 rates_writes, metis rates_cong)

lemma rates_reach: "rcnt_reach env s \<Longrightarrow> plugins_ok env \<Longrightarrow> rates_ok s"
  by (induction rule: rcnt_reach.induct) (auto intro: rates_init rates_step)


lemma short_not_future: "(w :: u64) \<le> 0xffffffff \<Longrightarrow> w AND IOPCNT_FUTURE_TARGET = 0"
proof -
  assume "w \<le> 0xffffffff"
  then have "unat w div 2 ^ 36 = 0"
    by (simp add: word_le_nat_alt)
  then have "\<not> bit w 36"
    using bit_unsigned_iff [where 'a = nat, of w 36] by (simp add: bit_iff_odd)
  then show ?thesis
    using and_exp_eq_0_iff_not_bit [of w 36] by simp
qed

lemma maxTarget_cap: "w \<le> maxTarget i \<longleftrightarrow> w < overflowCap i" "maxTarget i \<le> 0xffffffff" "overflowCap i \<le> 0x100000000"
  by (simp_all add: maxTarget_def overflowCap_def word_le_nat_alt word_less_nat_alt less_Suc_eq_le [symmetric])

section \<open>Properties\<close>

text \<open>The machine of the witnesses: counter 0 runs, the others wait for an overflow.\<close>

definition rcnt_sample :: "u64 \<Rightarrow> u32 \<Rightarrow> unit rcnt_iop" where
  "rcnt_sample n mode =
     \<lparr>iGPR = (\<lambda>_. 0), iHi = 0, iLo = 0, iCP0 = (\<lambda>_. 0), iCP2D = (\<lambda>_. 0), iCP2C = (\<lambda>_. 0),
       ipc = 0, icode = 0, icycle = 20, iinterrupt = 0, isCycle = (\<lambda>_. 0), ieCycle = (\<lambda>_. 0),
       g_iopNextEventCycle = 0, slice = \<lparr>iopBreak = 0, iopCycleEE = 0\<rparr>, iEventAction = False,
       iEventTestIsActive = False, psxNextCounter = 1000, psxNextsCounter = 0, iopIsDelaySlot = False,
       branch2 = False, branchPC = 0, areas = (\<lambda>_ _. 0),
       psxMemWLUT = (\<lambda>_. None), eeRegs = cpuReset_regs, eeTestActive = False,
       idev = \<lparr>psxCounters = (\<lambda>i. \<lparr>c_count = n, c_target = if i = 0 then 100 else IOPCNT_FUTURE_TARGET,
           c_mode = mode, c_rate = 1, c_interrupt = 0, c_sCycleT = 15, c_CycleT = 0\<rparr>),
         psxhblankgate = 0, psxvblankgate = 0, PSXCLK = 36864000, rcnt_rest = ()\<rparr>\<rparr>"

definition rcnt_alone :: "unit rcnt_env" where
  "rcnt_alone = \<lparr>SPU2async = None, DEV9async = None, USBasync = None, cdvdVsync = (\<lambda>s. s)\<rparr>"

lemma rcnt_alone_ok: "plugins_ok rcnt_alone" "no_plugins rcnt_alone" "plugins_leave i rcnt_alone"
  by (simp_all add: rcnt_alone_def plugins_ok_def no_plugins_def plugins_leave_def)

lemma rcnt_sample_cnt [simp]:
  "cnt i (rcnt_sample n m) = \<lparr>c_count = n, c_target = if i = 0 then 100 else IOPCNT_FUTURE_TARGET,
           c_mode = m, c_rate = 1, c_interrupt = 0, c_sCycleT = 15, c_CycleT = 0\<rparr>"
  "icycle (rcnt_sample n m) = 20"
  by (simp_all add: rcnt_sample_def cnt_def)

text \<open>
  No counter divides by zero. From \<open>psxRcntInit\<close> on, after any sequence of the counters' operations
  (updates, blanks, writes of counts, modes and targets), the rates of the six counters are nonzero.
\<close>

theorem counters_have_rates:
  assumes "rcnt_reach env s" "plugins_ok env" "i < 6"
  shows "c_rate (cnt i s) \<noteq> 0"
  using rates_reach [OF assms(1,2)] assms(3) by (simp add: rates_ok_def)

theorem counters_have_rates_witness:
  "c_rate (cnt 0 (psxRcntWmode16 0 0x100 (psxRcntInit rcnt_alone (rcnt_sample 0 0)))) \<noteq> 0"
proof (rule counters_have_rates)
  show "rcnt_reach rcnt_alone (psxRcntWmode16 0 0x100 (psxRcntInit rcnt_alone (rcnt_sample 0 0)))"
    by (rule rcnt_reach.step [OF rcnt_reach.start mode16]) (simp_all add: rcnt_sample_def)
qed (simp_all add: rcnt_alone_ok)





text \<open>
  A counter wraps to 1, not to 0. One count after its last value (\<open>0xffff\<close>, or \<open>0xffffffff\<close>)
  \<open>_rcntTestOverflow\<close> subtracts the last value instead of the number of values, so the period of a counter
  that runs free is one count short.
\<close>

theorem counter_wraps_to_one:
  assumes "c_count (cnt i s) = maxTarget i + 1"
  shows "c_count (cnt i (rcntTestOverflow i s)) = 1"
proof -
  have f: "c_count (cnt i (overflow_interrupt i s)) = c_count (cnt i s)"
    by (simp add: overflow_interrupt_def rcntFireInterrupt_def clear_mode_def Let_def split_beta)
  have "maxTarget i < maxTarget i + 1"
    by (simp add: maxTarget_def)
  then show ?thesis
    using assms f by (simp add: rcntTestOverflow_def Let_def future_target_def not_le [symmetric])
qed

theorem counter_wraps_to_one_witness: "c_count (cnt 0 (rcntTestOverflow 0 (rcnt_sample 0x10000 0))) = 1"
  by (rule counter_wraps_to_one) (simp add: maxTarget_def)

text \<open>
  The interrupt modes. With its request flag (\<open>0x400\<close>) set, counter \<open>i\<close> requests an interrupt,
  and not a second time at once. In one-shot mode it then stays silent and unchanged; in repeat mode the next
  update sets the flag again; in toggle mode every other request is delivered.
\<close>

theorem counter_interrupt_modes:
  assumes "mode_bits i 0x400 s"
  shows "fst (rcntFireInterrupt i s) \<and> \<not> fst (rcntFireInterrupt i (snd (rcntFireInterrupt i s))) \<and>
    (\<not> mode_bits i 0x40 s \<longrightarrow> snd (rcntFireInterrupt i (snd (rcntFireInterrupt i s))) = snd (rcntFireInterrupt i s)) \<and>
    (mode_bits i 0x40 s \<and> \<not> mode_bits i 0x80 s \<and> \<not> mode_bits i IOPCNT_STOPPED s \<longrightarrow>
      fst (rcntFireInterrupt i (advance i (snd (rcntFireInterrupt i s))))) \<and>
    (mode_bits i 0x40 s \<and> mode_bits i 0x80 s \<longrightarrow>
      fst (rcntFireInterrupt i (snd (rcntFireInterrupt i (snd (rcntFireInterrupt i s))))))"
proof -
  let ?t = "snd (rcntFireInterrupt i s)"
  note k = fire_quiet [OF assms] fire_modes [of _ i s]
  have "mode_bits i 0x400 (snd (rcntFireInterrupt i ?t))" if "mode_bits i 0x40 s" "mode_bits i 0x80 s"
    using that k fires_toggle(2) [of i ?t] by simp
  moreover have "mode_bits i 0x400 (advance i ?t)"
    if "mode_bits i 0x40 s" "\<not> mode_bits i 0x80 s" "\<not> mode_bits i IOPCNT_STOPPED s"
    using that k by (intro advance_rearms) (simp_all add: fire_keeps_stopped)
  moreover have "snd (rcntFireInterrupt i ?t) = ?t" if "\<not> mode_bits i 0x40 s"
    using that k by (simp add: does_not_fire)
  ultimately show ?thesis
    using assms k by (simp add: fire_fst)
qed

theorem counter_interrupt_modes_witness:
  "fst (rcntFireInterrupt 0 (rcnt_sample 0 0x450)) \<and>
   fst (rcntFireInterrupt 0 (advance 0 (snd (rcntFireInterrupt 0 (rcnt_sample 0 0x450)))))"
  using counter_interrupt_modes [of 0 "rcnt_sample 0 0x450"] by (simp add: mode_bits_def)

end
