(* ===== verification/DCache.thy ===== *)
theory DCache
  imports EEMem
begin

text \<open>
  The EE's data cache (\<open>pcsx2/Cache.cpp\<close>, \<open>pcsx2/Cache.h\<close>): 64 indices of two ways of 64 bytes between the
  interpreter and host memory, and the cached branches of the accessors of \<open>pcsx2/vtlb.cpp\<close>. A tag is the page
  of the host pointer with bit 31 set, and the flags below.

  \<open>getFreeCache\<close> never returns \<open>-1\<close>, so the branches of its callers for that value are left out.
\<close>

section \<open>State\<close>

text \<open>The 64 bytes of a way: \<open>data[way][quadword].b8._u8[byte]\<close>, in the order of addresses.\<close>

record cacheS =
  tag :: "nat \<Rightarrow> u32"
  cdata :: "nat \<Rightarrow> 6 word \<Rightarrow> u8"

record dcState =
  pCache :: "6 word \<Rightarrow> cacheS"
  dcMap :: MapData

abbreviation (input) DIRTY_FLAG :: u32 where "DIRTY_FLAG \<equiv> 0x40"
abbreviation (input) VALID_FLAG :: u32 where "VALID_FLAG \<equiv> 0x20"
abbreviation (input) LRF_FLAG :: u32 where "LRF_FLAG \<equiv> 0x10"

definition line_index :: "u32 \<Rightarrow> 6 word" where
  "line_index mem = ucast (drop_bit 6 mem)"

text \<open>\<open>ppf\<close> and \<open>paddr\<close> of the look-ups.\<close>

definition ppf_of :: "MapData \<Rightarrow> u32 \<Rightarrow> u32" where
  "ppf_of m mem = mem + vmap m (page_of mem)"

definition paddr_of :: "MapData \<Rightarrow> u32 \<Rightarrow> u32 \<Rightarrow> u32" where
  "paddr_of m mem ppf = ppf - ucast (ucast (vmap m (page_of mem)) :: u8) + 0x80000000"

definition hit :: "cacheS \<Rightarrow> nat \<Rightarrow> u32 \<Rightarrow> bool" where
  "hit c way paddr \<longleftrightarrow> tag c way AND NOT 0xFFF = paddr AND NOT 0xFFF \<and> tag c way AND VALID_FLAG \<noteq> 0"

definition find_way :: "cacheS \<Rightarrow> u32 \<Rightarrow> nat option" where
  "find_way c paddr = (if hit c 0 paddr then Some 0 else if hit c 1 paddr then Some 1 else None)"

definition dirty :: "cacheS \<Rightarrow> nat \<Rightarrow> bool" where
  "dirty c way \<longleftrightarrow> tag c way AND (DIRTY_FLAG OR VALID_FLAG) = DIRTY_FLAG OR VALID_FLAG"

definition set_tag :: "nat \<Rightarrow> u32 \<Rightarrow> cacheS \<Rightarrow> cacheS" where
  "set_tag way t c = c\<lparr>tag := (tag c)(way := t)\<rparr>"

definition set_data :: "nat \<Rightarrow> (6 word \<Rightarrow> u8) \<Rightarrow> cacheS \<Rightarrow> cacheS" where
  "set_data way d c = c\<lparr>cdata := (cdata c)(way := d)\<rparr>"

definition upd_line :: "6 word \<Rightarrow> (cacheS \<Rightarrow> cacheS) \<Rightarrow> dcState \<Rightarrow> dcState" where
  "upd_line i f s = s\<lparr>pCache := (pCache s)(i := f (pCache s i))\<rparr>"

text \<open>The eight doublewords of a line from and to host memory.\<close>

definition line_in :: "bytes \<Rightarrow> u32 \<Rightarrow> 6 word \<Rightarrow> u8" where
  "line_in h p k = h (p + ucast k)"

definition line_out :: "(6 word \<Rightarrow> u8) \<Rightarrow> u32 \<Rightarrow> bytes \<Rightarrow> bytes" where
  "line_out d p h x = (if x - p < 64 then d (ucast (x - p)) else h x)"

definition write_back :: "6 word \<Rightarrow> nat \<Rightarrow> u32 \<Rightarrow> dcState \<Rightarrow> dcState" where
  "write_back i way p s =
     s\<lparr>dcMap := (dcMap s)\<lparr>host := line_out (cdata (pCache s i) way) p (host (dcMap s))\<rparr>\<rparr>"

section \<open>Fills\<close>

definition free_way :: "cacheS \<Rightarrow> nat" where
  "free_way c = unat (drop_bit 4 ((tag c 0 AND LRF_FLAG) XOR (tag c 1 AND LRF_FLAG)))"

definition evict :: "6 word \<Rightarrow> nat \<Rightarrow> u32 \<Rightarrow> dcState \<Rightarrow> dcState" where
  "evict i way mem s =
     (let c = pCache s i
      in if dirty c way
         then upd_line i (set_tag way (tag c way AND NOT DIRTY_FLAG))
                (write_back i way ((tag c way AND NOT 0x80000fff) + (mem AND 0xFC0)) s)
         else s)"

definition fill_tag :: "u32 \<Rightarrow> u32 \<Rightarrow> u32" where
  "fill_tag paddr t =
     (let t = ((t OR VALID_FLAG) AND 0xFFF) OR (paddr AND NOT 0xFFF)
      in if t AND LRF_FLAG \<noteq> 0 then t AND NOT LRF_FLAG else t OR LRF_FLAG)"

definition fill :: "6 word \<Rightarrow> nat \<Rightarrow> u32 \<Rightarrow> u32 \<Rightarrow> dcState \<Rightarrow> dcState" where
  "fill i way ppf paddr s =
     upd_line i (\<lambda>c. set_tag way (fill_tag paddr (tag c way))
       (set_data way (line_in (host (dcMap s)) ppf) c)) s"

definition getFreeCache :: "u32 \<Rightarrow> dcState \<Rightarrow> nat \<times> dcState" where
  "getFreeCache mem s =
     (let i = line_index mem; ppf = ppf_of (dcMap s) mem; paddr = paddr_of (dcMap s) mem ppf
      in case find_way (pCache s i) paddr of
           Some way \<Rightarrow> (way, s)
         | None \<Rightarrow>
             (let number = free_way (pCache s i)
              in (number, fill i number (ppf AND NOT 0x3F) paddr (evict i number mem s))))"

section \<open>Accesses\<close>

text \<open>The position in the line of an access of \<open>2 ^ w\<close> bytes.\<close>

definition line_pos :: "nat \<Rightarrow> u32 \<Rightarrow> u32" where
  "line_pos w mem = push_bit 4 (drop_bit 4 mem AND 3) + push_bit w (drop_bit w (mem AND 0xf))"

definition readCache :: "nat \<Rightarrow> u32 \<Rightarrow> dcState \<Rightarrow> u128 \<times> dcState" where
  "readCache w mem s =
     (let (way, s) = getFreeCache mem s
      in (le_read (2 ^ w) (\<lambda>a. cdata (pCache s (line_index mem)) way (ucast a)) (line_pos w mem), s))"

definition line_write :: "nat \<Rightarrow> u128 \<Rightarrow> u32 \<Rightarrow> (6 word \<Rightarrow> u8) \<Rightarrow> 6 word \<Rightarrow> u8" where
  "line_write w v p d k = le_write (2 ^ w) v p (\<lambda>a. d (ucast a)) (ucast k)"

definition writeCache :: "nat \<Rightarrow> u32 \<Rightarrow> u128 \<Rightarrow> dcState \<Rightarrow> dcState" where
  "writeCache w mem v s =
     (let (way, s) = getFreeCache mem s
      in upd_line (line_index mem) (\<lambda>c. set_tag way (tag c way OR DIRTY_FLAG)
           (set_data way (line_write w v (line_pos w mem) (cdata c way)) c)) s)"

text \<open>The accessors: a page of the TLB with cache mode 3, compared with the virtual address.\<close>

definition in_cached_page :: "u32 \<Rightarrow> tlbs \<Rightarrow> bool" where
  "in_cached_page addr t \<longleftrightarrow>
     drop_bit 3 (tlb_EntryLo1 t AND 0x38) = 0x3 \<and> tlb_PFN1 t \<le> addr \<and> addr \<le> tlb_PFN1 t + tlb_PageMask t \<or>
     drop_bit 3 (tlb_EntryLo0 t AND 0x38) = 0x3 \<and> tlb_PFN0 t \<le> addr \<and> addr \<le> tlb_PFN0 t + tlb_PageMask t"

definition CheckCache :: "u32 \<Rightarrow> 'd eeState \<Rightarrow> bool" where
  "CheckCache addr s \<longleftrightarrow>
     drop_bit 16 (CP0 s 16) AND 1 \<noteq> 0 \<and> list_ex (\<lambda>i. in_cached_page addr (tlb s i)) [1..<48]"

section \<open>The instruction CACHE\<close>

definition invalidate :: "6 word \<Rightarrow> nat \<Rightarrow> dcState \<Rightarrow> dcState" where
  "invalidate i way = upd_line i (\<lambda>c. set_tag way (tag c way AND LRF_FLAG) (set_data way (\<lambda>_. 0) c))"

definition DHIN :: "u32 \<Rightarrow> dcState \<Rightarrow> dcState" where
  "DHIN addr s =
     (let i = line_index addr
      in case find_way (pCache s i) (paddr_of (dcMap s) addr (ppf_of (dcMap s) addr)) of
           None \<Rightarrow> s | Some way \<Rightarrow> invalidate i way s)"

definition DHWBIN :: "u32 \<Rightarrow> dcState \<Rightarrow> dcState" where
  "DHWBIN addr s =
     (let i = line_index addr; ppf = ppf_of (dcMap s) addr AND NOT 0x3F
      in case find_way (pCache s i) (paddr_of (dcMap s) addr ppf) of
           None \<Rightarrow> s
         | Some way \<Rightarrow> invalidate i way (if dirty (pCache s i) way then write_back i way ppf s else s))"

text \<open>
  The page of a tag, taken as a virtual address. \<open>DHWOIN\<close> takes it from way 0 before it looks for the way.
\<close>

definition tag_addr :: "cacheS \<Rightarrow> nat \<Rightarrow> u32 \<Rightarrow> u32" where
  "tag_addr c way addr = (tag c way AND NOT 0x80000fff) OR (addr AND 0xfc0)"

definition clean :: "6 word \<Rightarrow> nat \<Rightarrow> u32 \<Rightarrow> dcState \<Rightarrow> dcState" where
  "clean i way ppf s =
     (if dirty (pCache s i) way
      then upd_line i (\<lambda>c. set_tag way (tag c way AND NOT DIRTY_FLAG) c) (write_back i way ppf s) else s)"

definition DHWOIN :: "u32 \<Rightarrow> dcState \<Rightarrow> dcState" where
  "DHWOIN addr s =
     (let i = line_index addr; pfnaddr = tag_addr (pCache s i) 0 addr;
          ppf = ppf_of (dcMap s) pfnaddr AND NOT 0x3F
      in case find_way (pCache s i) (paddr_of (dcMap s) pfnaddr ppf) of
           None \<Rightarrow> s | Some way \<Rightarrow> clean i way ppf s)"

definition index_way :: "u32 \<Rightarrow> nat" where
  "index_way addr = unat (addr AND 1)"

definition DXIN :: "u32 \<Rightarrow> dcState \<Rightarrow> dcState" where
  "DXIN addr s = invalidate (line_index addr) (index_way addr) s"

definition DXLDT :: "u32 \<Rightarrow> dcState \<Rightarrow> u32" where
  "DXLDT addr s =
     le_read 4 (\<lambda>a. cdata (pCache s (line_index addr)) (index_way addr) (ucast a)) (line_pos 2 addr)"

definition DXLTG :: "u32 \<Rightarrow> dcState \<Rightarrow> u32 \<times> dcState" where
  "DXLTG addr s =
     (let i = line_index addr; way = index_way addr; pfnaddr = tag_addr (pCache s i) way addr;
          s = clean i way (ppf_of (dcMap s) pfnaddr AND NOT 0x3F) s
      in (tag (pCache s i) way, s))"

definition DXSDT :: "u32 \<Rightarrow> u32 \<Rightarrow> dcState \<Rightarrow> dcState" where
  "DXSDT addr v = upd_line (line_index addr) (\<lambda>c. set_data (index_way addr)
     (line_write 2 (ucast v) (line_pos 2 addr) (cdata c (index_way addr))) c)"

definition DXSTG :: "u32 \<Rightarrow> u32 \<Rightarrow> dcState \<Rightarrow> dcState" where
  "DXSTG addr v = upd_line (line_index addr) (set_tag (index_way addr) v)"

definition DXWBIN :: "u32 \<Rightarrow> dcState \<Rightarrow> dcState" where
  "DXWBIN addr s =
     (let i = line_index addr; way = index_way addr;
          pfnaddr = (tag (pCache s i) way AND NOT 0x80000fff) + (addr AND 0xFC0);
          ppf = ppf_of (dcMap s) pfnaddr
      in invalidate i way (if dirty (pCache s i) way then write_back i way (ppf AND 0x7fffffff) s else s))"

text \<open>The operation is the field \<open>rt\<close>; \<open>TagLo\<close> is the register of coprocessor 0.\<close>

definition CACHE :: "u32 \<Rightarrow> u32 \<Rightarrow> u32 \<Rightarrow> dcState \<Rightarrow> u32 \<times> dcState" where
  "CACHE op addr TagLo s =
     (if op = 0x1a then (TagLo, DHIN addr s)
      else if op = 0x18 then (TagLo, DHWBIN addr s)
      else if op = 0x1c then (TagLo, DHWOIN addr s)
      else if op = 0x16 then (TagLo, DXIN addr s)
      else if op = 0x11 then (DXLDT addr s, s)
      else if op = 0x10 then DXLTG addr s
      else if op = 0x13 then (TagLo, DXSDT addr TagLo s)
      else if op = 0x12 then (TagLo, DXSTG addr TagLo s)
      else if op = 0x14 then (TagLo, DXWBIN addr s)
      else (TagLo, s))"

section \<open>The cache in the EE\<close>

record 'd eeCached =
  ee :: "'d eeState"
  ee_cache :: "6 word \<Rightarrow> cacheS"

definition dc_of :: "'d eeCached \<Rightarrow> dcState" where
  "dc_of s = \<lparr>pCache = ee_cache s, dcMap = vtlbdata (ee s)\<rparr>"

definition put_dc :: "dcState \<Rightarrow> 'd eeCached \<Rightarrow> 'd eeCached" where
  "put_dc c s = s\<lparr>ee := (ee s)\<lparr>vtlbdata := dcMap c\<rparr>, ee_cache := pCache c\<rparr>"

definition liftR :: "('v, 'd eeState) res \<Rightarrow> 'd eeCached \<Rightarrow> ('v, 'd eeCached) res" where
  "liftR r s = (case r of Ret v t \<Rightarrow> Ret v (s\<lparr>ee := t\<rparr>) | Throw e t \<Rightarrow> Throw e (s\<lparr>ee := t\<rparr>))"

definition goes_to_cache :: "u32 \<Rightarrow> 'd eeCached \<Rightarrow> bool" where
  "goes_to_cache addr s \<longleftrightarrow> \<not> bit (ppf_of (vtlbdata (ee s)) addr) 31 \<and> CheckCache addr (ee s)"

definition cached_memRead :: "'d RWFT \<Rightarrow> nat \<Rightarrow> u32 \<Rightarrow> u128 \<Rightarrow> 'd eeCached \<Rightarrow> (u128, 'd eeCached) res" where
  "cached_memRead env w addr old s =
     (if goes_to_cache addr s then
        (if w \<le> 3 then let (v, c) = readCache w addr (dc_of s) in Ret v (put_dc c s)
         else let (lo, c) = readCache 3 addr (dc_of s); (hi, c) = readCache 3 (addr + 8) c
              in Ret (lo OR push_bit 64 hi) (put_dc c s))
      else liftR (vtlb_memRead env w addr old (ee s)) s)"

definition cached_memWrite :: "'d RWFT \<Rightarrow> nat \<Rightarrow> u32 \<Rightarrow> u128 \<Rightarrow> 'd eeCached \<Rightarrow> (unit, 'd eeCached) res" where
  "cached_memWrite env w addr v s =
     (if goes_to_cache addr s then Ret () (put_dc (writeCache w addr v (dc_of s)) s)
      else liftR (vtlb_memWrite env w addr v (ee s)) s)"

end
