(* ===== verification/DCacheProps.thy ===== *)
theory DCacheProps
  imports DCache Unaligned
begin

text \<open>
  The data cache is transparent: \<open>amem\<close> is memory as the program sees it through the cache, every access
  reads and writes that memory (\<open>readCache_refines\<close>, \<open>writeCache_refines\<close>), and fills and
  evictions do not change it. \<open>cache_ok\<close> is the invariant: clean lines agree with host memory and no line
  is in both ways of its index.
\<close>


section \<open>Lines\<close>

text \<open>The line of an address, of 64 bytes.\<close>

definition line_no :: "u32 \<Rightarrow> 26 word" where
  "line_no p = ucast (drop_bit 6 p)"

lemma bit_line_no: "bit (line_no p) n \<longleftrightarrow> n < 26 \<and> bit p (6 + n)"
  by (simp add: line_no_def bit_simps)

lemma bit_line_index: "bit (line_index p) n \<longleftrightarrow> n < 6 \<and> bit p (6 + n)"
  by (simp add: line_index_def bit_simps)

lemma line_no_index: "line_no p = line_no q \<Longrightarrow> line_index p = line_index q"
proof (rule bit_word_eqI)
  fix n assume e: "line_no p = line_no q" and n: "n < LENGTH(6)"
  have "bit (line_no p) n = bit (line_no q) n" by (simp add: e)
  then show "bit (line_index p) n = bit (line_index q) n"
    using n by (simp add: bit_line_no bit_line_index)
qed

lemma line_split: "(p :: u32) = (p AND NOT 0x3F) + ucast (ucast p :: 6 word)"
proof -
  have m: "(0x3F :: u32) = mask 6" by (simp add: mask_eq_exp_minus_1)
  have "p = (p AND NOT 0x3F) OR ucast (ucast p :: 6 word)"
    unfolding m by (rule bit_word_eqI) (auto simp: bit_simps)
  also have "\<dots> = (p AND NOT 0x3F) + ucast (ucast p :: 6 word)"
    unfolding m by (rule disjunctive_add [symmetric]) (auto simp: bit_simps)
  finally show ?thesis .
qed

lemma mask6: "(0x3F :: u32) = mask 6"
  by (simp add: mask_eq_exp_minus_1)

lemma line_start_eq: "p AND NOT 0x3F = q AND NOT 0x3F \<longleftrightarrow> line_no p = line_no q"
proof
  assume e: "p AND NOT 0x3F = q AND NOT 0x3F"
  show "line_no p = line_no q"
  proof (rule bit_word_eqI)
    fix n assume "n < LENGTH(26)"
    have "bit (p AND NOT 0x3F) (6 + n) = bit (q AND NOT 0x3F) (6 + n)"
      by (simp only: e)
    then show "bit (line_no p) n = bit (line_no q) n"
      using \<open>n < LENGTH(26)\<close> unfolding mask6 by (simp add: bit_line_no bit_simps)
  qed
next
  assume e: "line_no p = line_no q"
  show "p AND NOT 0x3F = q AND NOT 0x3F"
  proof (rule bit_word_eqI)
    fix n assume n: "n < LENGTH(32)"
    have "bit (line_no p) (n - 6) = bit (line_no q) (n - 6)"
      by (simp only: e)
    then show "bit (p AND NOT 0x3F) n = bit (q AND NOT 0x3F) n"
      using n unfolding mask6 by (auto simp: bit_line_no bit_simps)
  qed
qed

lemma less64: "k < 64 \<longleftrightarrow> take_bit 6 k = (k :: u32)"
proof -
  have "take_bit 6 k = k \<longleftrightarrow> unat (take_bit 6 k) = unat k"
    by (rule word_unat_eq_iff)
  also have "\<dots> \<longleftrightarrow> unat k < 64"
    by (simp add: unsigned_take_bit_eq take_bit_nat_eq_self_iff)
  finally show ?thesis
    by (simp add: word_less_nat_alt)
qed

lemma low_clear: "(q :: u32) AND 0x3F = 0 \<Longrightarrow> n < 6 \<Longrightarrow> \<not> bit q n"
proof -
  assume q: "q AND 0x3F = 0" and n: "n < 6"
  have "\<not> bit (q AND 0x3F) n"
    by (simp only: q bit_0_eq) simp
  then show ?thesis
    using n unfolding mask6 by (simp add: bit_simps)
qed

lemma aligned_start: "q AND 0x3F = 0 \<Longrightarrow> q AND NOT 0x3F = (q :: u32)"
proof (rule bit_word_eqI)
  fix n assume q: "q AND 0x3F = 0"
  show "bit (q AND NOT 0x3F) n = bit q n"
    using low_clear [OF q] unfolding mask6 by (auto simp: bit_simps not_less [symmetric] dest: bit_imp_le_length)
qed

lemma line_no_start [simp]: "line_no (p AND NOT 0x3F) = line_no p"
  by (simp add: line_start_eq [symmetric])

lemma start_low: "ucast (ucast p :: 6 word) < (64 :: u32)"
  unfolding less64 by (rule bit_word_eqI) (auto simp: bit_simps)

lemma line_plus: "(q :: u32) AND 0x3F = 0 \<Longrightarrow> k < 64 \<Longrightarrow> (q + k) AND NOT 0x3F = q"
proof (rule bit_word_eqI)
  fix n
  assume q: "q AND 0x3F = 0" and k: "k < 64" and n: "n < LENGTH(32)"
  have "q AND k = (q AND NOT 0x3F) AND take_bit 6 k"
    using k by (simp only: aligned_start [OF q] less64)
  also have "\<dots> = 0"
    unfolding mask6 by (rule bit_word_eqI) (auto simp: bit_simps)
  finally have "q + k = (q AND NOT 0x3F) OR take_bit 6 k"
    using k unfolding aligned_start [OF q] less64 by (simp add: disjunctive_add_eq_or)
  then show "bit ((q + k) AND NOT 0x3F) n = bit q n"
    using low_clear [OF q] n unfolding mask6 by (auto simp: bit_simps not_less [symmetric])
qed

lemma in_line: 
  assumes "q AND 0x3F = 0"
  shows "x - q < 64 \<longleftrightarrow> line_no x = line_no q"
proof
  assume "x - q < 64"
  from line_plus [OF assms this] have "x AND NOT 0x3F = q AND NOT 0x3F"
    by (simp only: aligned_start [OF assms] add_diff_cancel_left' diff_add_cancel add.commute [of q])
  then show "line_no x = line_no q"
    by (simp only: line_start_eq)
next
  assume "line_no x = line_no q"
  then have "x AND NOT 0x3F = q"
    by (simp only: aligned_start [OF assms] flip: line_start_eq)
  then have "x - q = ucast (ucast x :: 6 word)"
    using line_split [of x] by (metis add_diff_cancel_left')
  then show "x - q < 64"
    by (simp only: start_low)
qed

lemma bit_flip31: "bit (p + 0x80000000 :: u32) n \<longleftrightarrow> (if n = 31 then \<not> bit p 31 else bit p n)"
proof -
  have e: "r + 0x80000000 = r XOR 0x80000000" if "\<not> bit r 31" for r :: u32
  proof -
    have "r AND 0x80000000 = 0"
      using that and_sign_bit [of r] by simp
    then show ?thesis
      by (simp add: disjunctive_add_eq_xor)
  qed
  have "p + 0x80000000 = p XOR 0x80000000"
  proof (cases "bit p 31")
    case True
    define r where "r = p XOR 0x80000000"
    have "\<not> bit r 31"
      using True by (simp add: r_def bit_simps bit_sign)
    from e [OF this] have p: "p = r + 0x80000000"
      by (simp add: r_def xor.assoc)
    have "p + 0x80000000 = r"
      unfolding p by simp
    then show ?thesis
      by (simp only: r_def)
  qed (rule e)
  then show ?thesis
    by (simp only: bit_xor_iff bit_sign) auto
qed

section \<open>Tags\<close>

lemma page_start_eq: "p AND NOT 0xFFF = q AND NOT 0xFFF \<longleftrightarrow> (\<forall>n<32. 12 \<le> n \<longrightarrow> bit (p :: u32) n = bit q n)"
proof -
  have m: "(0xFFF :: u32) = mask 12"
    by (simp add: mask_eq_exp_minus_1)
  show ?thesis
    unfolding m bit_eq_iff by (auto simp: bit_simps)
qed

definition valid :: "cacheS \<Rightarrow> nat \<Rightarrow> bool" where
  "valid c way \<longleftrightarrow> tag c way AND VALID_FLAG \<noteq> 0"

text \<open>A tag of a line of host memory has bit 31 set; the address its line has.\<close>

definition tag_line :: "6 word \<Rightarrow> u32 \<Rightarrow> u32" where
  "tag_line i t = (t AND NOT 0x80000fff) + push_bit 6 (ucast i)"

lemma tag_mask: "NOT 0x80000fff = (push_bit 12 (mask 19) :: u32)" "0xFC0 = (push_bit 6 (mask 6) :: u32)"
  by (simp_all add: mask_eq_exp_minus_1)

lemma bit_tag_line:
  "bit (tag_line i t) n \<longleftrightarrow> (if n < 6 then False else if n < 12 then bit i (n - 6) else n < 31 \<and> bit t n)"
proof -
  have "(t AND push_bit 12 (mask 19)) AND push_bit 6 (ucast i) = 0"
    by (rule bit_word_eqI) (auto simp: bit_simps dest: bit_imp_le_length)
  then have "tag_line i t = (t AND push_bit 12 (mask 19)) OR push_bit 6 (ucast i)"
    unfolding tag_line_def tag_mask by (rule disjunctive_add_eq_or)
  then show ?thesis
    by (auto simp: bit_simps dest: bit_imp_le_length)
qed

lemma index_part: "mem AND 0xFC0 = push_bit 6 (ucast (line_index mem))"
  unfolding tag_mask by (rule bit_word_eqI) (auto simp: bit_simps bit_line_index)

lemma all_shift: "(\<forall>n<26. P (6 + n)) \<longleftrightarrow> (\<forall>n<(32 :: nat). 6 \<le> n \<longrightarrow> P n)"
proof
  assume a: "\<forall>n<26. P (6 + n)"
  show "\<forall>n<32. 6 \<le> n \<longrightarrow> P n"
  proof (intro allI impI)
    fix n :: nat assume "n < 32" "6 \<le> n"
    then have "n - 6 < 26" "6 + (n - 6) = n"
      by simp_all
    with a show "P n"
      by metis
  qed
qed simp

lemma line_no_eq: "line_no p = line_no q \<longleftrightarrow> (\<forall>n<32. 6 \<le> n \<longrightarrow> bit p n = bit q n)"
  unfolding all_shift [symmetric] by (auto simp: bit_eq_iff bit_line_no)

lemma hit_iff:
  assumes "bit (tag c way) 31"
  shows "hit c way (p + 0x80000000) \<longleftrightarrow>
    valid c way \<and> \<not> bit p 31 \<and> line_no p = line_no (tag_line (line_index p) (tag c way))"
proof -
  have i: "bit (line_index p) (n - 6) \<longleftrightarrow> bit p n" if "6 \<le> n" "n < 12" for n
    using that by (auto simp: bit_line_index)
  have "(\<forall>n<32. 12 \<le> n \<longrightarrow> bit (tag c way) n = bit (p + 0x80000000) n) \<longleftrightarrow>
      \<not> bit p 31 \<and> (\<forall>n<31. 12 \<le> n \<longrightarrow> bit (tag c way) n = bit p n)"
    using assms unfolding bit_flip31
    by (auto simp: less_Suc_eq [of _ 31, simplified])
  also have "\<dots> \<longleftrightarrow> \<not> bit p 31 \<and> line_no p = line_no (tag_line (line_index p) (tag c way))"
    unfolding line_no_eq bit_tag_line using i
    by (auto simp: less_Suc_eq [of _ 31, simplified])
  finally show ?thesis
    unfolding hit_def valid_def page_start_eq by blast
qed


section \<open>Memory through the cache\<close>

text \<open>Way \<open>w\<close> holds the byte at host address \<open>p\<close>.\<close>

definition held :: "dcState \<Rightarrow> nat \<Rightarrow> u32 \<Rightarrow> bool" where
  "held s w p \<longleftrightarrow> w < 2 \<and> valid (pCache s (line_index p)) w \<and>
     line_no p = line_no (tag_line (line_index p) (tag (pCache s (line_index p)) w))"

definition amem :: "dcState \<Rightarrow> bytes" where
  "amem s p = (case find_way (pCache s (line_index p)) (p + 0x80000000) of
     None \<Rightarrow> host (dcMap s) p | Some w \<Rightarrow> cdata (pCache s (line_index p)) w (ucast p))"

text \<open>
  Valid ways have tags of host memory, and clean ones the bytes of memory; the two ways of an index hold
  different lines.
\<close>

definition way_ok :: "bytes \<Rightarrow> 6 word \<Rightarrow> cacheS \<Rightarrow> nat \<Rightarrow> bool" where
  "way_ok h i c w \<longleftrightarrow> valid c w \<longrightarrow> bit (tag c w) 31 \<and>
     (dirty c w \<or> (\<forall>x. line_no x = line_no (tag_line i (tag c w)) \<longrightarrow> cdata c w (ucast x) = h x))"

definition cache_ok :: "dcState \<Rightarrow> bool" where
  "cache_ok s \<longleftrightarrow> (\<forall>i. way_ok (host (dcMap s)) i (pCache s i) 0 \<and> way_ok (host (dcMap s)) i (pCache s i) 1 \<and>
     \<not> (valid (pCache s i) 0 \<and> valid (pCache s i) 1 \<and>
        line_no (tag_line i (tag (pCache s i) 0)) = line_no (tag_line i (tag (pCache s i) 1))))"

lemma line_index_tag [simp]: "line_index (tag_line i t) = i"
  by (rule bit_word_eqI) (auto simp: bit_line_index bit_tag_line)

lemma tag_line_aligned [simp]: "tag_line i t AND 0x3F = 0"
  unfolding mask6 by (rule bit_word_eqI) (auto simp: bit_simps bit_tag_line)

lemma tag_line_low: "line_no p = line_no (tag_line i t) \<Longrightarrow> \<not> bit p 31 \<and> line_index p = i"
proof -
  assume e: "line_no p = line_no (tag_line i t)"
  then have "bit p 31 = bit (tag_line i t) 31"
    by (simp add: line_no_eq)
  then show ?thesis
    using line_no_index [OF e] by (simp add: bit_tag_line)
qed

lemma less2: "w < (2 :: nat) \<longleftrightarrow> w = 0 \<or> w = 1"
  by auto

lemma way_okD: "cache_ok s \<Longrightarrow> w < 2 \<Longrightarrow> way_ok (host (dcMap s)) i (pCache s i) w"
  by (auto simp: cache_ok_def less2)

lemma held_unique: "cache_ok s \<Longrightarrow> held s v p \<Longrightarrow> held s w p \<Longrightarrow> v = w"
  unfolding cache_ok_def held_def less2 by metis

lemma hit_held:
  assumes "cache_ok s" "w < 2"
  shows "hit (pCache s (line_index p)) w (p + 0x80000000) \<longleftrightarrow> held s w p"
proof (cases "valid (pCache s (line_index p)) w")
  case True
  then have "bit (tag (pCache s (line_index p)) w) 31"
    using way_okD [OF assms] by (simp add: way_ok_def)
  from hit_iff [OF this, of p] show ?thesis
    using assms(2) tag_line_low by (auto simp: held_def)
next
  case False
  then show ?thesis
    by (simp add: hit_def held_def valid_def)
qed

lemma find_held:
  assumes "cache_ok s"
  shows "find_way (pCache s (line_index p)) (p + 0x80000000) = Some w \<longleftrightarrow> held s w p"
    "find_way (pCache s (line_index p)) (p + 0x80000000) = None \<longleftrightarrow> (\<forall>w. \<not> held s w p)"
proof -
  have h: "hit (pCache s (line_index p)) 0 (p + 0x80000000) \<longleftrightarrow> held s 0 p"
    "hit (pCache s (line_index p)) 1 (p + 0x80000000) \<longleftrightarrow> held s 1 p"
    by (rule hit_held [OF assms]; simp)+
  have w: "held s w p \<Longrightarrow> w = 0 \<or> w = 1" for w
    by (auto simp: held_def)
  show "find_way (pCache s (line_index p)) (p + 0x80000000) = Some w \<longleftrightarrow> held s w p"
    unfolding find_way_def h using w [of w] held_unique [OF assms, of 0 p 1] by auto
  show "find_way (pCache s (line_index p)) (p + 0x80000000) = None \<longleftrightarrow> (\<forall>w. \<not> held s w p)"
    unfolding find_way_def h using w by auto
qed

lemma amem_held: "cache_ok s \<Longrightarrow> held s w p \<Longrightarrow> amem s p = cdata (pCache s (line_index p)) w (ucast p)"
  by (simp add: amem_def find_held(1) [THEN iffD2])

lemma amem_not_held: "cache_ok s \<Longrightarrow> \<forall>w. \<not> held s w p \<Longrightarrow> amem s p = host (dcMap s) p"
  by (simp add: amem_def find_held(2) [THEN iffD2])

lemma amem_eqI:
  assumes "cache_ok s" "cache_ok t"
    "\<And>p w. held s w p \<Longrightarrow> held t w p \<and> cdata (pCache t (line_index p)) w (ucast p) = cdata (pCache s (line_index p)) w (ucast p)
       \<or> (\<forall>v. \<not> held t v p) \<and> host (dcMap t) p = cdata (pCache s (line_index p)) w (ucast p)"
    "\<And>p w. \<forall>v. \<not> held s v p \<Longrightarrow> (\<forall>v. \<not> held t v p) \<and> host (dcMap t) p = host (dcMap s) p
       \<or> (\<exists>v. held t v p \<and> cdata (pCache t (line_index p)) v (ucast p) = host (dcMap s) p)"
  shows "amem t = amem s"
proof
  fix p
  show "amem t p = amem s p"
  proof (cases "\<exists>w. held s w p")
    case True
    then obtain w where w: "held s w p" by blast
    then show ?thesis
      using assms(3) [OF w] amem_held [OF assms(1) w] amem_held [OF assms(2), of w p] amem_not_held [OF assms(2), of p] by auto
  next
    case False
    then show ?thesis
      using assms(4) [of p] amem_not_held [OF assms(1), of p] amem_held [OF assms(2), of _ p] amem_not_held [OF assms(2), of p] by auto
  qed
qed


section \<open>Write back and fill\<close>

lemma ucast6_of_int: "(ucast (word_of_int k :: u32) :: 6 word) = word_of_int k"
  by (rule bit_word_eqI) (auto simp: bit_simps)

lemma ucast6_diff: "(ucast (x - q :: u32) :: 6 word) = ucast x - ucast q"
proof -
  have "(ucast (x - q) :: 6 word) = ucast (word_of_int (uint x - uint q) :: u32)"
    by simp
  also have "\<dots> = word_of_int (uint x) - word_of_int (uint q)"
    unfolding ucast6_of_int by simp
  also have "\<dots> = ucast x - ucast q"
    by (simp only: ucast6_of_int [symmetric] word_of_int_uint)
  finally show ?thesis .
qed

lemma line_pos_diff: "q AND 0x3F = 0 \<Longrightarrow> (ucast (x - q) :: 6 word) = ucast (x :: u32)"
proof -
  assume q: "q AND 0x3F = 0"
  have "(ucast q :: 6 word) = 0"
    by (rule bit_word_eqI) (use low_clear [OF q] in \<open>auto simp: bit_simps\<close>)
  moreover have "(ucast (x - q) :: 6 word) = ucast x - ucast q"
    by (rule ucast6_diff)
  ultimately show ?thesis
    by simp
qed

lemma line_out_apply: "q AND 0x3F = 0 \<Longrightarrow> line_out d q h x = (if line_no x = line_no q then d (ucast x) else h x)"
  by (simp add: line_out_def in_line line_pos_diff)

lemma held_cong:
  "(\<And>w. w < 2 \<Longrightarrow> valid (pCache t (line_index p)) w = valid (pCache s (line_index p)) w) \<Longrightarrow>
   (\<And>w. w < 2 \<Longrightarrow> tag_line (line_index p) (tag (pCache t (line_index p)) w) = tag_line (line_index p) (tag (pCache s (line_index p)) w)) \<Longrightarrow>
   held t w p = held s w p"
  by (auto simp: held_def)

lemma valid_bit: "valid c w \<longleftrightarrow> bit (tag c w) 5"
  using and_exp_eq_0_iff_not_bit [of "tag c w" 5] by (simp add: valid_def)

lemma dirty_bit: "dirty c w \<longleftrightarrow> bit (tag c w) 6 \<and> bit (tag c w) 5"
proof -
  have f: "(DIRTY_FLAG OR VALID_FLAG :: u32) = push_bit 5 (mask 2)"
    by (simp add: mask_eq_exp_minus_1)
  have n: "bit (push_bit 5 (mask 2) :: u32) n \<longleftrightarrow> n = 5 \<or> n = 6" for n
    by (auto simp: bit_simps)
  have "tag c w AND push_bit 5 (mask 2) = push_bit 5 (mask 2) \<longleftrightarrow> bit (tag c w) 5 \<and> bit (tag c w) 6"
  proof
    assume "tag c w AND push_bit 5 (mask 2) = push_bit 5 (mask 2)"
    then have "bit (tag c w AND push_bit 5 (mask 2)) k = bit (push_bit 5 (mask 2) :: u32) k" for k
      by (simp only:)
    then show "bit (tag c w) 5 \<and> bit (tag c w) 6"
      unfolding bit_and_iff n by blast
  next
    assume "bit (tag c w) 5 \<and> bit (tag c w) 6"
    then show "tag c w AND push_bit 5 (mask 2) = push_bit 5 (mask 2)"
      by (intro bit_word_eqI) (auto simp only: bit_and_iff n)
  qed
  then show ?thesis
    unfolding dirty_def f by blast
qed

lemma bit_dirty_flag: "bit (DIRTY_FLAG :: u32) n \<longleftrightarrow> n = 6"
  using bit_exp_iff [where 'a = "32 word", of 6 n] by auto

lemma bit_clear_dirty: "bit (t AND NOT DIRTY_FLAG :: u32) n \<longleftrightarrow> bit t n \<and> n \<noteq> 6"
  unfolding bit_and_iff bit_not_iff bit_dirty_flag by (auto dest: bit_imp_le_length)

lemma bit_clear_dirty' [simp]: "bit (t AND - 65 :: u32) n \<longleftrightarrow> bit t n \<and> n \<noteq> 6"
  using bit_clear_dirty [of t n] by simp

lemma tag_line_clear [simp]: "tag_line i (t AND - 65) = tag_line i t"
  by (rule bit_word_eqI) (simp add: bit_tag_line)

lemma tag_set [simp]: "tag (set_tag w t c) v = (if v = w then t else tag c v)" "tag (set_data w d c) v = tag c v"
  "cdata (set_tag w t c) v = cdata c v" "cdata (set_data w d c) v = (if v = w then d else cdata c v)"
  by (simp_all add: set_tag_def set_data_def)

lemma upd_line_simps [simp]: "pCache (upd_line i f s) j = (if j = i then f (pCache s i) else pCache s j)"
  "dcMap (upd_line i f s) = dcMap s" "pCache (write_back i w q s) = pCache s"
  "vmap (dcMap (write_back i w q s)) = vmap (dcMap s)"
  by (simp_all add: upd_line_def write_back_def)

lemma host_write_back:
  "q AND 0x3F = 0 \<Longrightarrow> host (dcMap (write_back i w q s)) x =
     (if line_no x = line_no q then cdata (pCache s i) w (ucast x) else host (dcMap s) x)"
  by (simp add: write_back_def line_out_apply)

lemma evict_simps [simp]:
  "vmap (dcMap (evict i w mem s)) = vmap (dcMap s)"
  "pCache (evict i w mem s) j = (if j = i \<and> dirty (pCache s i) w
     then set_tag w (tag (pCache s i) w AND NOT DIRTY_FLAG) (pCache s i) else pCache s j)"
  by (simp_all add: evict_def Let_def)

lemma evict_host:
  "host (dcMap (evict (line_index mem) w mem s)) x =
     (if dirty (pCache s (line_index mem)) w \<and> line_no x = line_no (tag_line (line_index mem) (tag (pCache s (line_index mem)) w))
      then cdata (pCache s (line_index mem)) w (ucast x) else host (dcMap s) x)"
  unfolding evict_def Let_def index_part tag_line_def [symmetric]
  by (simp add: host_write_back)

lemma evict_valid: "valid (pCache (evict i w mem s) j) v = valid (pCache s j) v"
  by (simp add: valid_bit)

lemma evict_held: "held (evict i w mem s) v p = held s v p"
  unfolding held_def evict_valid by auto

lemma evict_clean: "\<not> dirty (pCache (evict i w mem s) i) w"
  by (simp add: dirty_bit)

lemma same_line:
  assumes "cache_ok s" "v < 2" "w < 2" "valid (pCache s j) v" "valid (pCache s i) w"
    "line_no (tag_line j (tag (pCache s j) v)) = line_no (tag_line i (tag (pCache s i) w))"
  shows "j = i \<and> v = w"
proof -
  have "j = i"
    using tag_line_low [OF assms(6)] by simp
  moreover have "held s v (tag_line i (tag (pCache s i) w))" "held s w (tag_line i (tag (pCache s i) w))"
    using assms \<open>j = i\<close> by (simp_all add: held_def)
  then have "v = w"
    by (rule held_unique [OF assms(1)])
  ultimately show ?thesis
    by simp
qed

lemma cache_okI:
  assumes "\<And>i w. w < 2 \<Longrightarrow> way_ok (host (dcMap s)) i (pCache s i) w"
    "\<And>i. valid (pCache s i) 0 \<Longrightarrow> valid (pCache s i) 1 \<Longrightarrow>
       line_no (tag_line i (tag (pCache s i) 0)) \<noteq> line_no (tag_line i (tag (pCache s i) 1))"
  shows "cache_ok s"
  using assms by (auto simp: cache_ok_def)

lemma ok_distinct:
  "cache_ok s \<Longrightarrow> valid (pCache s i) 0 \<Longrightarrow> valid (pCache s i) 1 \<Longrightarrow>
   line_no (tag_line i (tag (pCache s i) 0)) \<noteq> line_no (tag_line i (tag (pCache s i) 1))"
  by (auto simp: cache_ok_def)

lemma evict_ok:
  fixes mem :: u32
  assumes ok: "cache_ok s" and w: "w < 2"
  defines "i \<equiv> line_index mem"
  defines "t \<equiv> evict i w mem s"
  shows "cache_ok t"
proof (rule cache_okI)
  fix j v assume v: "v < (2 :: nat)"
  have tag: "bit (tag (pCache t j) v) 31 = bit (tag (pCache s j) v) 31"
    "tag_line j (tag (pCache t j) v) = tag_line j (tag (pCache s j) v)" "cdata (pCache t j) v = cdata (pCache s j) v"
    by (simp_all add: t_def)
  show "way_ok (host (dcMap t)) j (pCache t j) v"
    unfolding way_ok_def tag
  proof (intro impI conjI)
    assume "valid (pCache t j) v"
    then have val: "valid (pCache s j) v"
      by (simp only: t_def evict_valid)
    then show "bit (tag (pCache s j) v) 31"
      using way_okD [OF ok v] by (simp add: way_ok_def)
    show "dirty (pCache t j) v \<or> (\<forall>x. line_no x = line_no (tag_line j (tag (pCache s j) v)) \<longrightarrow> cdata (pCache s j) v (ucast x) = host (dcMap t) x)"
    proof (cases "j = i \<and> v = w \<and> dirty (pCache s i) w")
      case True
      then show ?thesis
        by (simp add: t_def i_def evict_host)
    next
      case False
      then have d: "dirty (pCache t j) v = dirty (pCache s j) v"
        by (auto simp: t_def dirty_bit)
      have "host (dcMap t) x = host (dcMap s) x" if "line_no x = line_no (tag_line j (tag (pCache s j) v))" for x
        using False that same_line [OF ok v w val, of i] unfolding t_def i_def evict_host by (auto simp: dirty_bit valid_bit)
      then show ?thesis
        unfolding d using way_okD [OF ok v, of j] val by (auto simp: way_ok_def)
    qed
  qed
next
  fix j assume "valid (pCache t j) 0" "valid (pCache t j) 1"
  then have "valid (pCache s j) 0" "valid (pCache s j) 1"
    by (simp_all only: t_def evict_valid)
  from ok_distinct [OF ok this] show "line_no (tag_line j (tag (pCache t j) 0)) \<noteq> line_no (tag_line j (tag (pCache t j) 1))"
    by (auto simp: t_def)
qed

lemma evict_amem:
  assumes ok: "cache_ok s" and w: "w < 2"
  shows "amem (evict (line_index mem) w mem s) = amem s"
proof (rule amem_eqI [OF ok evict_ok [OF ok w]])
  let ?i = "line_index mem" and ?t = "evict (line_index mem) w mem s"
  fix p v assume "held s v p"
  then show "held ?t v p \<and> cdata (pCache ?t (line_index p)) v (ucast p) = cdata (pCache s (line_index p)) v (ucast p)
       \<or> (\<forall>v. \<not> held ?t v p) \<and> host (dcMap ?t) p = cdata (pCache s (line_index p)) v (ucast p)"
    by (simp add: evict_held)
next
  let ?i = "line_index mem" and ?t = "evict (line_index mem) w mem s"
  fix p assume n: "\<forall>v. \<not> held s v p"
  have "\<not> (dirty (pCache s ?i) w \<and> line_no p = line_no (tag_line ?i (tag (pCache s ?i) w)))"
    using n w tag_line_low [of p ?i] by (auto simp: held_def dirty_bit valid_bit)
  then show "(\<forall>v. \<not> held ?t v p) \<and> host (dcMap ?t) p = host (dcMap s) p
       \<or> (\<exists>v. held ?t v p \<and> cdata (pCache ?t (line_index p)) v (ucast p) = host (dcMap s) p)"
    unfolding evict_host using n by (auto simp: evict_held)
qed


lemma fill_simps [simp]:
  "vmap (dcMap (fill i w q a s)) = vmap (dcMap s)" "host (dcMap (fill i w q a s)) = host (dcMap s)"
  "pCache (fill i w q a s) j = (if j = i then set_tag w (fill_tag a (tag (pCache s i) w))
     (set_data w (line_in (host (dcMap s)) q) (pCache s i)) else pCache s j)"
  by (simp_all add: fill_def)

lemma fill_tag_bits:
  "bit (fill_tag a t) 5" "12 \<le> n \<Longrightarrow> n < 32 \<Longrightarrow> bit (fill_tag a t) n = bit a n"
proof -
  have f: "(0xFFF :: u32) = mask 12"
    by (simp add: mask_eq_exp_minus_1)
  have l: "bit (LRF_FLAG :: u32) n \<longleftrightarrow> n = 4" for n
    using bit_exp_iff [where 'a = "32 word", of 4 n] by auto
  have v: "bit (VALID_FLAG :: u32) n \<longleftrightarrow> n = 5" for n
    using bit_exp_iff [where 'a = "32 word", of 5 n] by auto
  have b: "bit (fill_tag a t) n \<longleftrightarrow> bit (((t OR VALID_FLAG) AND 0xFFF) OR (a AND NOT 0xFFF)) n" if "n \<noteq> 4" for n
  proof -
    have "bit (x AND NOT LRF_FLAG) n = bit x n" "bit (x OR LRF_FLAG) n = bit x n" for x :: u32
      using that unfolding bit_and_iff bit_or_iff bit_not_iff l by (auto dest: bit_imp_le_length)
    then show ?thesis
      unfolding fill_tag_def Let_def by (simp only: split: if_split) blast
  qed
  show "bit (fill_tag a t) 5"
    unfolding b [of 5, simplified] f bit_or_iff bit_and_iff v by (simp add: bit_simps)
  show "12 \<le> n \<Longrightarrow> n < 32 \<Longrightarrow> bit (fill_tag a t) n = bit a n"
    using b [of n] unfolding f by (simp add: bit_simps)
qed

lemma fill_line:
  assumes "\<not> bit p 31"
  shows "line_no (tag_line (line_index p) (fill_tag (p + 0x80000000) t)) = line_no p" "bit (fill_tag (p + 0x80000000) t) 31"
proof -
  show "bit (fill_tag (p + 0x80000000) t) 31"
    using assms unfolding fill_tag_bits(2) [of 31, simplified] bit_flip31 by simp
  show "line_no (tag_line (line_index p) (fill_tag (p + 0x80000000) t)) = line_no p"
    unfolding line_no_eq bit_tag_line
  proof (intro allI impI)
    fix n :: nat assume n: "n < 32" "6 \<le> n"
    have "bit (line_index p) (n - 6) = bit p n" if "n < 12"
      using n that by (auto simp: bit_line_index)
    moreover have "bit (fill_tag (p + 0x80000000) t) n = bit p n" if "12 \<le> n" "n \<noteq> 31"
      unfolding fill_tag_bits(2) [OF that(1) n(1)] bit_flip31 using that by (simp only: if_False)
    ultimately show "(if n < 6 then False else if n < 12 then bit (line_index p) (n - 6) else n < 31 \<and> bit (fill_tag (p + 0x80000000) t) n) = bit p n"
      using n assms by (cases "n = 31") auto
  qed
qed

lemma line_in_apply: "line_no x = line_no q \<Longrightarrow> line_in h (q AND NOT 0x3F) (ucast x) = h x"
proof -
  assume "line_no x = line_no q"
  then have "q AND NOT 0x3F = x AND NOT 0x3F"
    by (simp only: line_start_eq)
  then show ?thesis
    by (simp only: line_in_def line_split [symmetric])
qed

lemma held_line: "line_no x = line_no y \<Longrightarrow> held s v x = held s v y"
  using line_no_index [of x y] by (simp add: held_def)

lemma fill_held:
  fixes s :: dcState
  assumes p: "\<not> bit p 31" and w: "w < 2"
  defines "t \<equiv> fill (line_index p) w (p AND NOT 0x3F) (p + 0x80000000) s"
  shows "held t v x \<longleftrightarrow>
    (if line_index x = line_index p \<and> v = w then line_no x = line_no p else held s v x)"
  using fill_line [OF p] fill_tag_bits(1) w by (auto simp: held_def t_def valid_bit)

lemma fill_data:
  "line_no x = line_no p \<Longrightarrow>
   cdata (pCache (fill (line_index p) w (p AND NOT 0x3F) a s) (line_index p)) w (ucast x) = host (dcMap s) x"
  using line_in_apply [of x p] by simp

lemma fill_ok:
  assumes ok: "cache_ok s" and w: "w < 2" and p: "\<not> bit p 31" and n: "\<forall>v. \<not> held s v p"
  shows "cache_ok (fill (line_index p) w (p AND NOT 0x3F) (p + 0x80000000) s)" (is "cache_ok ?t")
proof (rule cache_okI)
  let ?i = "line_index p"
  fix j v assume v: "v < (2 :: nat)"
  show "way_ok (host (dcMap ?t)) j (pCache ?t j) v"
  proof (cases "j = ?i \<and> v = w")
    case True
    then show ?thesis
      using fill_line [OF p] fill_data [of _ p w] by (simp add: way_ok_def)
  next
    case False
    then show ?thesis
      using way_okD [OF ok v, of j] by (auto simp: way_ok_def valid_bit dirty_bit)
  qed
next
  let ?i = "line_index p"
  fix j assume v: "valid (pCache ?t j) 0" "valid (pCache ?t j) 1"
  show "line_no (tag_line j (tag (pCache ?t j) 0)) \<noteq> line_no (tag_line j (tag (pCache ?t j) 1))"
  proof (cases "j = ?i")
    case True
    have "\<not> (valid (pCache s ?i) u \<and> line_no (tag_line ?i (tag (pCache s ?i) u)) = line_no p)" if "u < 2" for u
      using n that by (auto simp: held_def)
    from this [of 0] this [of 1] show ?thesis
      using v w fill_line [OF p] True by (auto simp: valid_bit less2)
  next
    case False
    then show ?thesis
      using v ok_distinct [OF ok, of j] by simp
  qed
qed

lemma fill_amem:
  assumes ok: "cache_ok s" and w: "w < 2" and c: "\<not> dirty (pCache s (line_index p)) w"
    and p: "\<not> bit p 31" and n: "\<forall>v. \<not> held s v p"
  shows "amem (fill (line_index p) w (p AND NOT 0x3F) (p + 0x80000000) s) = amem s" (is "amem ?t = _")
proof (rule amem_eqI [OF ok fill_ok [OF ok w p n]])
  note h = fill_held [OF p w, of s]
  fix x v assume v: "held s v x"
  then have l: "line_no x \<noteq> line_no p"
    using n held_line by blast
  show "held ?t v x \<and> cdata (pCache ?t (line_index x)) v (ucast x) = cdata (pCache s (line_index x)) v (ucast x)
       \<or> (\<forall>v. \<not> held ?t v x) \<and> host (dcMap ?t) x = cdata (pCache s (line_index x)) v (ucast x)"
  proof (cases "line_index x = line_index p \<and> v = w")
    case True
    have "\<forall>u. \<not> held ?t u x"
      unfolding h using l True held_unique [OF ok v] by auto
    moreover have "cdata (pCache s (line_index x)) v (ucast x) = host (dcMap s) x"
      using way_okD [OF ok w, of "line_index p"] c v True by (auto simp: way_ok_def held_def)
    ultimately show ?thesis
      by simp
  next
    case False
    then show ?thesis
      using v unfolding h by auto
  qed
next
  note h = fill_held [OF p w, of s]
  fix x assume v: "\<forall>v. \<not> held s v x"
  show "(\<forall>v. \<not> held ?t v x) \<and> host (dcMap ?t) x = host (dcMap s) x
       \<or> (\<exists>v. held ?t v x \<and> cdata (pCache ?t (line_index x)) v (ucast x) = host (dcMap s) x)"
  proof (cases "line_no x = line_no p")
    case True
    then have "held ?t w x"
      unfolding h using line_no_index [OF True] by simp
    then show ?thesis
      using fill_data [OF True] line_no_index [OF True] by metis
  next
    case False
    then show ?thesis
      unfolding h using v by simp
  qed
qed


section \<open>Accesses through the cache\<close>

text \<open>The page of \<open>mem\<close> is host memory below \<open>2 ^ 31\<close>, mapped page by page.\<close>

definition direct :: "MapData \<Rightarrow> u32 \<Rightarrow> bool" where
  "direct m mem \<longleftrightarrow> vmap m (page_of mem) AND 0xFFF = 0 \<and> \<not> bit (ppf_of m mem) 31"

lemma low_bits_add:
  assumes "v AND 0xFFF = (0 :: u32)" "n < 12"
  shows "bit (m + v) n = bit m n"
proof -
  have v: "v = pg_addr (page_of v)"
    using assms(1) by (intro aligned_page) simp
  have "m + v = pg_addr (page_of m + page_of v) + (m AND 4095)"
    using page_split [of m] v by (simp add: pg_addr_add algebra_simps)
  also have "\<dots> = pg_addr (page_of m + page_of v) OR (m AND 4095)"
    by (rule pg_addr_plus [OF off_less])
  finally have s: "m + v = pg_addr (page_of m + page_of v) OR (m AND 4095)" .
  show ?thesis
    unfolding s page_mask(1) using assms(2) by (auto simp: pg_addr_def bit_simps dest: bit_imp_le_length)
qed

lemma direct_ppf:
  assumes "direct m mem"
  shows "line_index (ppf_of m mem) = line_index mem" "(ucast (ppf_of m mem) :: 6 word) = ucast mem"
    "paddr_of m mem q = q + 0x80000000"
proof -
  have v: "vmap m (page_of mem) AND 0xFFF = 0"
    using assms by (simp add: direct_def)
  note b = low_bits_add [OF v]
  show "line_index (ppf_of m mem) = line_index mem"
    by (rule bit_word_eqI) (simp add: bit_line_index ppf_of_def b)
  show "(ucast (ppf_of m mem) :: 6 word) = ucast mem"
    by (rule bit_word_eqI) (simp add: bit_ucast_iff ppf_of_def b)
  have "(ucast (vmap m (page_of mem)) :: u8) = 0"
    using low_bits_add [OF v, of _ 0] by (intro bit_word_eqI) (simp add: bit_ucast_iff)
  then show "paddr_of m mem q = q + 0x80000000"
    by (simp add: paddr_of_def)
qed

lemma free_way_less: "free_way c < 2"
proof -
  have "(LRF_FLAG :: u32) = 2 ^ 4"
    by simp
  then have "drop_bit 4 ((a AND LRF_FLAG) XOR (b AND LRF_FLAG)) = (drop_bit 4 (a XOR b) AND 1 :: u32)" for a b
    by (simp only:) (rule bit_word_eqI, auto simp: bit_simps)
  then have "free_way c = unat (drop_bit 4 (tag c 0 XOR tag c 1) AND 1)"
    by (simp add: free_way_def)
  also have "\<dots> \<le> 1"
    using word_and_le1 [of "drop_bit 4 (tag c 0 XOR tag c 1)" 1] by (simp add: word_le_nat_alt)
  finally show ?thesis
    by simp
qed

lemma getFreeCache_ok:
  assumes ok: "cache_ok s" and d: "direct (dcMap s) mem" and g: "getFreeCache mem s = (way, t)"
  shows "cache_ok t" "amem t = amem s" "held t way (ppf_of (dcMap s) mem)" "vmap (dcMap t) = vmap (dcMap s)"
proof -
  let ?p = "ppf_of (dcMap s) mem" and ?i = "line_index mem"
  have p: "\<not> bit ?p 31"
    using d by (simp add: direct_def)
  note i = direct_ppf [OF d]
  have "cache_ok t \<and> amem t = amem s \<and> held t way ?p \<and> vmap (dcMap t) = vmap (dcMap s)"
  proof (cases "find_way (pCache s ?i) (?p + 0x80000000)")
    case (Some w)
    then have "held s w ?p"
      using find_held(1) [OF ok, of ?p w] i(1) by simp
    then show ?thesis
      using ok g Some by (simp add: getFreeCache_def Let_def i)
  next
    case None
    define w where "w = free_way (pCache s ?i)"
    define u where "u = evict ?i w mem s"
    have w: "w < 2"
      by (simp add: w_def free_way_less)
    have u: "cache_ok u" "amem u = amem s" "\<not> dirty (pCache u (line_index ?p)) w" "vmap (dcMap u) = vmap (dcMap s)"
      unfolding i(1) u_def by (rule evict_ok [OF ok w] evict_amem [OF ok w] evict_clean evict_simps)+
    have "\<forall>v. \<not> held s v ?p"
      using find_held(2) [OF ok, of ?p] None i(1) by simp
    then have n: "\<forall>v. \<not> held u v ?p"
      unfolding u_def evict_held .
    have t: "way = w" "t = fill (line_index ?p) w (?p AND NOT 0x3F) (?p + 0x80000000) u"
      using g None by (auto simp: getFreeCache_def Let_def i w_def u_def)
    have "held t w ?p"
      unfolding t fill_held [OF p w] by simp
    then show ?thesis
      using fill_ok [OF u(1) w p n] fill_amem [OF u(1) w u(3) p n] u(2,4) unfolding t by simp
  qed
  then show "cache_ok t" "amem t = amem s" "held t way (ppf_of (dcMap s) mem)" "vmap (dcMap t) = vmap (dcMap s)"
    by blast+
qed


text \<open>Aligned accesses stay in their line.\<close>

definition aligned :: "nat \<Rightarrow> u32 \<Rightarrow> bool" where
  "aligned w p \<longleftrightarrow> w \<le> 4 \<and> take_bit w p = 0"

lemma aligned_bit: "aligned w p \<Longrightarrow> n < w \<Longrightarrow> \<not> bit p n"
proof -
  assume "aligned w p" "n < w"
  then have z: "take_bit w p = 0"
    by (simp add: aligned_def)
  have "\<not> bit (take_bit w p) n"
    unfolding z by simp
  then show ?thesis
    using \<open>n < w\<close> by (simp add: bit_take_bit_iff)
qed

lemma line_pos_eq:
  assumes "aligned w mem"
  shows "line_pos w mem = take_bit 6 mem"
proof -
  have a: "\<not> bit mem n" if "n < w" for n
    using assms that by (rule aligned_bit)
  have "(drop_bit 4 mem AND 3) = take_bit 2 (drop_bit 4 mem)" "mem AND 0xf = take_bit 4 mem"
    by (simp_all add: take_bit_eq_mask mask_eq_exp_minus_1)
  then have e: "line_pos w mem = push_bit 4 (take_bit 2 (drop_bit 4 mem)) + push_bit w (drop_bit w (take_bit 4 mem))"
    by (simp add: line_pos_def)
  have "push_bit 4 (take_bit 2 (drop_bit 4 mem)) AND push_bit w (drop_bit w (take_bit 4 mem)) = 0"
    by (rule bit_word_eqI) (auto simp: bit_simps)
  then have "line_pos w mem = push_bit 4 (take_bit 2 (drop_bit 4 mem)) OR push_bit w (drop_bit w (take_bit 4 mem))"
    unfolding e by (rule disjunctive_add_eq_or)
  also have "\<dots> = take_bit 6 mem"
  proof (rule bit_word_eqI)
    fix n
    show "bit (push_bit 4 (take_bit 2 (drop_bit 4 mem)) OR push_bit w (drop_bit w (take_bit 4 mem))) n = bit (take_bit 6 mem) n"
      using a [of n] assms by (cases "w \<le> n"; cases "4 \<le> n") (auto simp: bit_simps aligned_def)
  qed
  finally show ?thesis .
qed

lemma take6: "take_bit 6 p = (ucast (ucast p :: 6 word) :: u32)"
  by (rule bit_word_eqI) (auto simp: bit_simps)

lemma aligned_line:
  assumes "aligned w p" "k < 2 ^ w"
  shows "line_no (p + of_nat k) = line_no p" "unat (take_bit 6 p) + k < 64"
proof -
  have d: "(2 :: nat) ^ w dvd 64"
    using assms(1) le_imp_power_dvd [of w 6 "2 :: nat"] by (simp add: aligned_def)
  have "unat (take_bit w p) = take_bit w (unat p)"
    by (rule unsigned_take_bit_eq)
  then have "unat p mod 2 ^ w = 0"
    using assms(1) by (simp add: aligned_def take_bit_eq_mod)
  then have "(unat p mod 64) mod 2 ^ w = 0"
    using d by (simp add: mod_mod_cancel)
  then obtain m where m: "unat p mod 64 = 2 ^ w * m"
    by blast
  obtain c where c: "64 = 2 ^ w * (c :: nat)"
    using d by blast
  have "2 ^ w * m < 2 ^ w * c"
    using m c by (metis mod_less_divisor zero_less_numeral)
  then have "m < c"
    by simp
  then have "2 ^ w * m + 2 ^ w \<le> 2 ^ w * c"
    by (metis Suc_leI mult_Suc_right add.commute mult_le_mono2)
  then show l: "unat (take_bit 6 p) + k < 64"
  proof -
    have "unat (take_bit 6 p) = take_bit 6 (unat p)"
      by (rule unsigned_take_bit_eq)
    then have "unat (take_bit 6 p) = 2 ^ w * m"
      using m by (simp add: take_bit_eq_mod)
    then show ?thesis
      using \<open>2 ^ w * m + 2 ^ w \<le> 2 ^ w * c\<close> assms(2) c by linarith
  qed
  have p: "p = (p AND NOT 0x3F) + take_bit 6 p"
    unfolding take6 by (rule line_split)
  have "k < 2 ^ 32"
    using l by simp
  then have k: "take_bit 32 k = k"
    by (simp add: take_bit_nat_eq_self_iff)
  have "unat (take_bit 6 p + of_nat k) = unat (take_bit 6 p) + k"
    using l by (simp add: unat_word_ariths(1) unsigned_of_nat k)
  then have "take_bit 6 p + of_nat k < 64"
    using l by (simp add: word_less_nat_alt)
  moreover have "(p AND NOT 0x3F) AND 0x3F = 0"
    unfolding mask6 by (rule bit_word_eqI) (auto simp: bit_simps)
  ultimately have "((p AND NOT 0x3F) + (take_bit 6 p + of_nat k)) AND NOT 0x3F = p AND NOT 0x3F"
    by (intro line_plus)
  then have "(p + of_nat k) AND NOT 0x3F = p AND NOT 0x3F"
    using p by (simp only: add.assoc [symmetric])
  then show "line_no (p + of_nat k) = line_no p"
    by (simp only: line_start_eq)
qed

lemma le_read_cong:
  "(\<And>k. k < n \<Longrightarrow> m (a + of_nat k) = m' (b + of_nat k)) \<Longrightarrow> (le_read n m a :: 'a::len word) = le_read n m' b"
proof (induction n arbitrary: a b)
  case (Suc n)
  have "m a = m' b"
    using Suc.prems [of 0] by simp
  moreover have "(le_read n m (a + 1) :: 'a word) = le_read n m' (b + 1)"
    using Suc.prems [of "Suc _"] by (intro Suc.IH) (simp add: algebra_simps)
  ultimately show ?case
    by simp
qed simp


lemma ucast6_add: "(ucast (x + q :: u32) :: 6 word) = ucast x + ucast q"
proof -
  have "(ucast x :: 6 word) = ucast ((x + q) - q)"
    by simp
  then show ?thesis
    unfolding ucast6_diff by (simp add: algebra_simps)
qed

lemma ucast6_take: "(ucast (take_bit 6 p :: u32) :: 6 word) = ucast p"
  by (rule bit_word_eqI) (auto simp: bit_simps)

lemma direct_aligned:
  assumes "direct m mem" "aligned w mem"
  shows "aligned w (ppf_of m mem)"
proof -
  have "w \<le> 4" and z: "take_bit w mem = 0"
    using assms(2) by (simp_all add: aligned_def)
  have v: "vmap m (page_of mem) AND 0xFFF = 0"
    using assms(1) by (simp add: direct_def)
  have "take_bit w (ppf_of m mem) = take_bit w mem"
    using \<open>w \<le> 4\<close> low_bits_add [OF v, of _ mem] by (intro bit_word_eqI) (auto simp: bit_take_bit_iff ppf_of_def)
  then show ?thesis
    using \<open>w \<le> 4\<close> z by (simp add: aligned_def)
qed

lemma line_read:
  assumes "cache_ok t" "held t way p" "aligned w p"
  shows "(le_read (2 ^ w) (\<lambda>a. cdata (pCache t (line_index p)) way (ucast a)) (take_bit 6 p) :: 'a::len word) = le_read (2 ^ w) (amem t) p"
proof (rule le_read_cong)
  fix k :: nat assume "k < 2 ^ w"
  note l = aligned_line(1) [OF assms(3) this]
  have "held t way (p + of_nat k)"
    using assms(2) held_line [OF l] by simp
  from amem_held [OF assms(1) this]
  show "cdata (pCache t (line_index p)) way (ucast (take_bit 6 p + of_nat k)) = amem t (p + of_nat k)"
    using line_no_index [OF l] by (simp add: ucast6_add ucast6_take)
qed

lemma readCache_refines:
  assumes "cache_ok s" "direct (dcMap s) mem" "aligned w mem"
  shows "fst (readCache w mem s) = le_read (2 ^ w) (amem s) (ppf_of (dcMap s) mem) \<and>
    amem (snd (readCache w mem s)) = amem s \<and> cache_ok (snd (readCache w mem s))"
proof -
  obtain way t where g: "getFreeCache mem s = (way, t)"
    by fastforce
  note c = getFreeCache_ok [OF assms(1,2) g]
  have "take_bit 6 mem = take_bit 6 (ppf_of (dcMap s) mem)"
    unfolding take6 direct_ppf(2) [OF assms(2)] by simp
  then show ?thesis
    using line_read [OF c(1,3) direct_aligned [OF assms(2,3)], where 'a = 128] c direct_ppf(1) [OF assms(2)]
    by (simp add: readCache_def g line_pos_eq [OF assms(3)])
qed


lemma bit_set_dirty [simp]: "bit (t OR DIRTY_FLAG :: u32) n \<longleftrightarrow> bit t n \<or> n = 6"
  unfolding bit_or_iff bit_dirty_flag by blast

lemma tag_line_dirty [simp]: "tag_line i (t OR DIRTY_FLAG) = tag_line i t"
  by (rule bit_word_eqI) (auto simp: bit_tag_line)

definition dirty_line :: "6 word \<Rightarrow> nat \<Rightarrow> (6 word \<Rightarrow> u8) \<Rightarrow> dcState \<Rightarrow> dcState" where
  "dirty_line i way d = upd_line i (\<lambda>c. set_tag way (tag c way OR DIRTY_FLAG) (set_data way d c))"

lemma dirty_line_simps [simp]:
  "dcMap (dirty_line i way d s) = dcMap s"
  "pCache (dirty_line i way d s) j = (if j = i then set_tag way (tag (pCache s i) way OR DIRTY_FLAG) (set_data way d (pCache s i)) else pCache s j)"
  by (simp_all add: dirty_line_def)

lemma dirty_line_held [simp]: "held (dirty_line i way d s) v p = held s v p"
  by (auto simp: held_def valid_bit)

lemma dirty_line_ok:
  assumes "cache_ok s" "way < 2"
  shows "cache_ok (dirty_line i way d s)"
proof (rule cache_okI)
  fix j v assume v: "v < (2 :: nat)"
  show "way_ok (host (dcMap (dirty_line i way d s))) j (pCache (dirty_line i way d s) j) v"
    using way_okD [OF assms(1) v, of j] by (auto simp: way_ok_def valid_bit dirty_bit)
next
  fix j
  show "valid (pCache (dirty_line i way d s) j) 0 \<Longrightarrow> valid (pCache (dirty_line i way d s) j) 1 \<Longrightarrow>
    line_no (tag_line j (tag (pCache (dirty_line i way d s) j) 0)) \<noteq> line_no (tag_line j (tag (pCache (dirty_line i way d s) j) 1))"
    using ok_distinct [OF assms(1), of j] by (auto simp: valid_bit split: if_splits)
qed

lemma dirty_line_amem:
  assumes ok: "cache_ok s" and h: "held s way p"
  shows "amem (dirty_line (line_index p) way d s) x = (if line_no x = line_no p then d (ucast x) else amem s x)"
proof -
  let ?u = "dirty_line (line_index p) way d s"
  have w: "way < 2"
    using h by (simp add: held_def)
  note ok' = dirty_line_ok [OF ok w, of "line_index p" d]
  show ?thesis
  proof (cases "line_no x = line_no p")
    case True
    then have "held ?u way x"
      using h held_line [OF True] by simp
    from amem_held [OF ok' this] show ?thesis
      using True line_no_index [OF True] by simp
  next
    case False
    show ?thesis
    proof (cases "\<exists>v. held s v x")
      case True
      then obtain v where v: "held s v x" by blast
      have "\<not> (line_index x = line_index p \<and> v = way)"
        using v h False by (auto simp: held_def)
      then show ?thesis
        using amem_held [OF ok v] amem_held [OF ok', of v x] v False by auto
    next
      case None: False
      then show ?thesis
        using amem_not_held [OF ok, of x] amem_not_held [OF ok', of x] False by simp
    qed
  qed
qed

lemma ucast6_ucast [simp]: "(ucast (ucast y :: u32) :: 6 word) = y"
  by (rule bit_word_eqI) (auto simp: bit_simps)

lemma line_write_apply:
  assumes "line_no x = line_no p" "w \<le> 4"
  shows "line_write w v (take_bit 6 p) d (ucast x) = (if unat (x - p) < 2 ^ w then byte (unat (x - p)) v else d (ucast x))"
proof -
  have "x AND NOT 0x3F = p AND NOT 0x3F"
    using assms(1) by (simp only: line_start_eq)
  then have e: "ucast (ucast x :: 6 word) - take_bit 6 p = x - p"
    using line_split [of x] line_split [of p] unfolding take6 by (metis add_diff_cancel_left)
  have "(2 :: nat) ^ w \<le> 2 ^ 32"
    using assms(2) by (intro power_increasing) simp_all
  then show ?thesis
    unfolding line_write_def by (simp add: le_write_byte e)
qed

lemma writeCache_refines:
  assumes "cache_ok s" "direct (dcMap s) mem" "aligned w mem"
  shows "amem (writeCache w mem v s) = le_write (2 ^ w) v (ppf_of (dcMap s) mem) (amem s) \<and> cache_ok (writeCache w mem v s)"
proof -
  obtain way t where g: "getFreeCache mem s = (way, t)"
    by fastforce
  let ?p = "ppf_of (dcMap s) mem"
  note c = getFreeCache_ok [OF assms(1,2) g]
  have m: "take_bit 6 mem = take_bit 6 ?p"
    unfolding take6 direct_ppf(2) [OF assms(2)] by simp
  define d where "d = line_write w v (take_bit 6 ?p) (cdata (pCache t (line_index ?p)) way)"
  have u: "writeCache w mem v s = dirty_line (line_index ?p) way d t"
    by (simp add: writeCache_def g line_pos_eq [OF assms(3)] dirty_line_def d_def direct_ppf(1) [OF assms(2)] m upd_line_def)
  have w: "w \<le> 4" "(2 :: nat) ^ w \<le> 2 ^ 32"
    using assms(3) power_increasing [of w 32 "2 :: nat"] by (simp_all add: aligned_def)
  have "amem (dirty_line (line_index ?p) way d t) x = le_write (2 ^ w) v ?p (amem s) x" for x
  proof (cases "line_no x = line_no ?p")
    case True
    have "held t way x"
      using c(3) held_line [OF True] by simp
    from amem_held [OF c(1) this] have "amem s x = cdata (pCache t (line_index ?p)) way (ucast x)"
      using line_no_index [OF True] c(2) by simp
    then show ?thesis
      unfolding dirty_line_amem [OF c(1,3)] le_write_byte [OF w(2)] d_def line_write_apply [OF True w(1)] using True by simp
  next
    case False
    have "\<not> unat (x - ?p) < 2 ^ w"
    proof
      assume "unat (x - ?p) < 2 ^ w"
      from aligned_line(1) [OF direct_aligned [OF assms(2,3)] this] False show False
        by simp
    qed
    then show ?thesis
      unfolding dirty_line_amem [OF c(1,3)] le_write_byte [OF w(2)] using False c(2) by simp
  qed
  then show ?thesis
    using dirty_line_ok [OF c(1)] c(3) unfolding u held_def by blast
qed


text \<open>A quadword in two halves.\<close>

lemma le_read_halves:
  "(le_read 16 m a :: u128) = le_read 8 m a OR push_bit 64 (le_read 8 m (a + 8))"
proof (rule bit_word_eqI)
  fix k assume k: "k < LENGTH(128)"
  show "bit (le_read 16 m a :: u128) k = bit (le_read 8 m a OR push_bit 64 (le_read 8 m (a + 8)) :: u128) k"
  proof (cases "64 \<le> k")
    case True
    then obtain j where j: "k = 64 + j"
      using le_Suc_ex by blast
    have "k div 8 = 8 + j div 8" "k mod 8 = j mod 8"
      unfolding j using mod_mult_self4 [of 8 8 j] by simp_all
    then show ?thesis
      using k by (simp add: j bit_le_read bit_or_iff bit_push_bit_iff add.assoc)
  next
    case False
    then show ?thesis
      using k by (simp add: bit_le_read bit_or_iff bit_push_bit_iff)
  qed
qed

lemma aligned_plus8: "aligned 4 p \<Longrightarrow> bit (p + 8) n \<longleftrightarrow> bit p n \<or> n = 3"
proof -
  assume p: "aligned 4 p"
  have b8: "bit (8 :: u32) n \<longleftrightarrow> n = 3" for n
    using bit_exp_iff [where 'a = "32 word", of 3 n] by auto
  have "p AND 8 = 0"
    using aligned_bit [OF p, of 3] by (intro bit_word_eqI) (simp only: bit_and_iff b8, auto)
  then have "p + 8 = p OR 8"
    by (rule disjunctive_add_eq_or)
  then show ?thesis
    by (simp only: bit_or_iff b8)
qed

lemma aligned_half:
  assumes a: "aligned 4 mem"
  shows "aligned 3 mem" "aligned 3 (mem + 8)" "page_of (mem + 8) = page_of mem"
proof -
  note z = aligned_bit [OF a]
  have "take_bit 3 mem = 0"
    using z by (intro bit_word_eqI) (auto simp: bit_take_bit_iff)
  then show "aligned 3 mem"
    by (simp add: aligned_def)
  have "take_bit 3 (mem + 8) = 0"
    using z by (intro bit_word_eqI) (auto simp: bit_take_bit_iff aligned_plus8 [OF a])
  then show "aligned 3 (mem + 8)"
    by (simp add: aligned_def)
  show "page_of (mem + 8) = page_of mem"
    by (rule bit_word_eqI) (simp add: page_of_def bit_ucast_iff bit_drop_bit_eq aligned_plus8 [OF a])
qed

section \<open>The EE's accesses\<close>

text \<open>The state that a program sees: memory through the cache.\<close>

definition seen :: "'d eeCached \<Rightarrow> 'd eeState" where
  "seen s = (ee s)\<lparr>vtlbdata := (vtlbdata (ee s))\<lparr>host := amem (dc_of s)\<rparr>\<rparr>"

lemma readCache_vmap: "cache_ok s \<Longrightarrow> direct (dcMap s) mem \<Longrightarrow> vmap (dcMap (snd (readCache w mem s))) = vmap (dcMap s)"
  using getFreeCache_ok(4) [of s mem] by (auto simp: readCache_def split_beta) (metis prod.collapse)

lemma put_dc_simps [simp]: "dc_of (put_dc c s) = c"
  by (cases c) (simp add: dc_of_def put_dc_def)

lemma evict_map: "(dcMap (evict i w mem s))\<lparr>host := h\<rparr> = (dcMap s)\<lparr>host := h\<rparr>"
  by (simp add: evict_def Let_def write_back_def upd_line_def)

lemma getFreeCache_map: "(dcMap (snd (getFreeCache mem s)))\<lparr>host := h\<rparr> = (dcMap s)\<lparr>host := h\<rparr>"
  by (auto simp: getFreeCache_def Let_def fill_def evict_map split: option.split)

lemma access_map:
  "(dcMap (snd (readCache w mem s)))\<lparr>host := h\<rparr> = (dcMap s)\<lparr>host := h\<rparr>"
  "(dcMap (writeCache w mem v s))\<lparr>host := h\<rparr> = (dcMap s)\<lparr>host := h\<rparr>"
  using getFreeCache_map [of h mem s] by (auto simp: readCache_def writeCache_def split_beta)

definition abs_res :: "('s \<Rightarrow> 't) \<Rightarrow> ('v, 's) res \<Rightarrow> ('v, 't) res" where
  "abs_res f r = (case r of Ret v s \<Rightarrow> Ret v (f s) | Throw e s \<Rightarrow> Throw e (f s))"

lemma seen_put: "(dcMap c)\<lparr>host := h\<rparr> = (vtlbdata (ee s))\<lparr>host := h\<rparr> \<Longrightarrow> h = amem c \<Longrightarrow>
   seen (put_dc c s) = (ee s)\<lparr>vtlbdata := (vtlbdata (ee s))\<lparr>host := amem c\<rparr>\<rparr>"
  by (simp add: seen_def) (simp add: put_dc_def)

text \<open>An access that the cache handles.\<close>

definition cacheable :: "nat \<Rightarrow> u32 \<Rightarrow> 'd eeCached \<Rightarrow> bool" where
  "cacheable w addr s \<longleftrightarrow> cache_ok (dc_of s) \<and> direct (vtlbdata (ee s)) addr \<and> aligned w addr \<and> CheckCache addr (ee s)"

lemma lookup_direct: "direct m addr \<Longrightarrow> vtlb_lookup (m\<lparr>host := h\<rparr>) addr = HostPtr (ppf_of m addr)"
  by (simp add: vtlb_lookup_def Let_def direct_def ppf_of_def)

lemma dc_of_map [simp]: "dcMap (dc_of s) = vtlbdata (ee s)"
  by (simp add: dc_of_def)

lemma cached_write:
  assumes "cacheable w addr s"
  shows "abs_res seen (cached_memWrite env w addr v s) = vtlb_memWrite env w addr v (seen s) \<and>
    holdsR (\<lambda>t. cache_ok (dc_of t)) (cached_memWrite env w addr v s)"
proof -
  have g: "goes_to_cache addr s" and d: "direct (vtlbdata (ee s)) addr"
    using assms by (simp_all add: cacheable_def goes_to_cache_def direct_def)
  have r: "amem (writeCache w addr v (dc_of s)) = le_write (2 ^ w) v (ppf_of (vtlbdata (ee s)) addr) (amem (dc_of s))"
    "cache_ok (writeCache w addr v (dc_of s))"
    using writeCache_refines [of "dc_of s" addr w v] assms by (simp_all add: cacheable_def)
  have "seen (put_dc (writeCache w addr v (dc_of s)) s) = (ee s)\<lparr>vtlbdata := (vtlbdata (ee s))\<lparr>host := amem (writeCache w addr v (dc_of s))\<rparr>\<rparr>"
    by (rule seen_put [OF _ refl]) (simp add: access_map)
  then show ?thesis
    using g r by (simp add: cached_memWrite_def abs_res_def vtlb_memWrite_def seen_def lookup_direct [OF d] wbytes_def)
qed

lemma cached_read:
  assumes "cacheable w addr s"
  shows "abs_res seen (cached_memRead env w addr old s) = vtlb_memRead env w addr old (seen s) \<and>
    holdsR (\<lambda>t. cache_ok (dc_of t)) (cached_memRead env w addr old s)"
proof -
  let ?m = "vtlbdata (ee s)"
  have g: "goes_to_cache addr s" and d: "direct ?m addr"
    using assms by (simp_all add: cacheable_def goes_to_cache_def direct_def)
  have s: "seen (put_dc c s) = seen s" if "amem c = amem (dc_of s)" "\<And>h. (dcMap c)\<lparr>host := h\<rparr> = ?m\<lparr>host := h\<rparr>" for c
    using seen_put [OF that(2) refl] that(1) by (simp add: seen_def)
  have e: "vtlb_memRead env w addr old (seen s) = Ret (le_read (wbytes w) (amem (dc_of s)) (ppf_of ?m addr)) (seen s)"
    by (simp add: vtlb_memRead_def seen_def lookup_direct [OF d])
  show ?thesis
  proof (cases "w \<le> 3")
    case True
    obtain v c where rc: "readCache w addr (dc_of s) = (v, c)"
      by fastforce
    have "v = le_read (2 ^ w) (amem (dc_of s)) (ppf_of ?m addr)" "amem c = amem (dc_of s)" "cache_ok c"
      using readCache_refines [of "dc_of s" addr w] assms by (simp_all add: cacheable_def rc)
    moreover have "(dcMap c)\<lparr>host := h\<rparr> = ?m\<lparr>host := h\<rparr>" for h
      using access_map(1) [of h w addr "dc_of s"] by (simp add: rc)
    ultimately show ?thesis
      using g True s [of c] by (simp add: cached_memRead_def rc e abs_res_def wbytes_def)
  next
    case False
    then have w: "w = 4"
      using assms by (simp add: cacheable_def aligned_def)
    have a: "aligned 4 addr"
      using assms w by (simp add: cacheable_def)
    note h = aligned_half [OF a]
    obtain lo c where rl: "readCache 3 addr (dc_of s) = (lo, c)"
      by fastforce
    obtain hi c' where rh: "readCache 3 (addr + 8) c = (hi, c')"
      by fastforce
    have c: "lo = le_read 8 (amem (dc_of s)) (ppf_of ?m addr)" "amem c = amem (dc_of s)" "cache_ok c"
      using readCache_refines [of "dc_of s" addr 3] assms h(1) by (simp_all add: cacheable_def rl)
    have cm: "(dcMap c)\<lparr>host := h\<rparr> = ?m\<lparr>host := h\<rparr>" for h
      using access_map(1) [of h 3 addr "dc_of s"] by (simp add: rl)
    have vm: "vmap (dcMap c) = vmap ?m"
      using cm [of undefined] by (metis MapData.select_convs(2) MapData.surjective MapData.update_convs(4))
    have a8: "aligned 4 (ppf_of ?m addr)"
      using direct_aligned [OF d a] .
    have d8: "direct (dcMap c) (addr + 8)" "ppf_of (dcMap c) (addr + 8) = ppf_of ?m addr + 8"
      using d aligned_plus8 [OF a8, of 31] by (simp_all add: direct_def ppf_of_def vm h(3) algebra_simps)
    have c': "hi = le_read 8 (amem (dc_of s)) (ppf_of ?m addr + 8)" "amem c' = amem (dc_of s)" "cache_ok c'"
      using readCache_refines [OF c(3) d8(1) h(2)] by (simp_all add: rh c d8)
    have "(dcMap c')\<lparr>host := h\<rparr> = ?m\<lparr>host := h\<rparr>" for h
      using access_map(1) [of h 3 "addr + 8" c] cm [of h] by (simp add: rh)
    then show ?thesis
      using g w c c' s [of c'] by (simp add: cached_memRead_def rl rh e [unfolded w] abs_res_def wbytes_def le_read_halves)
  qed
qed


section \<open>Invalidation\<close>

lemma invalidate_pCache: "pCache (invalidate i way s) j =
    (if j = i then set_tag way (tag (pCache s i) way AND LRF_FLAG) (set_data way (\<lambda>_. 0) (pCache s i)) else pCache s j)"
  "dcMap (invalidate i way s) = dcMap s"
  by (simp_all add: invalidate_def)

lemma lrf_invalid [simp]: "\<not> bit (x AND LRF_FLAG :: u32) 5"
proof -
  have "bit (LRF_FLAG :: u32) 5 \<longleftrightarrow> False"
    using bit_exp_iff [where 'a = "32 word", of 4 5] by auto
  then show ?thesis
    by (simp only: bit_and_iff) simp
qed

lemma invalidate_held:
  "held (invalidate i way s) v x \<longleftrightarrow> held s v x \<and> \<not> (line_index x = i \<and> v = way)"
  by (auto simp: held_def invalidate_pCache valid_bit)

lemma invalidate_line:
  fixes s u :: dcState
  assumes ok: "cache_ok s" and h: "held s way q" and p: "pCache u = pCache s"
    and other: "\<And>x. line_no x \<noteq> line_no q \<Longrightarrow> host (dcMap u) x = host (dcMap s) x"
  defines "t \<equiv> invalidate (line_index q) way u"
  shows "cache_ok t" "\<not> held t v q" "amem t x = (if line_no x = line_no q then host (dcMap u) x else amem s x)"
proof -
  have w: "way < 2"
    using h by (simp add: held_def)
  have line: "line_no (tag_line (line_index q) (tag (pCache s (line_index q)) way)) = line_no q" "valid (pCache s (line_index q)) way"
    using h by (simp_all add: held_def)
  have held: "held t v x \<longleftrightarrow> held s v x \<and> \<not> (line_index x = line_index q \<and> v = way)" for v x
    unfolding t_def invalidate_held by (simp add: held_def p)
  have host: "host (dcMap t) = host (dcMap u)"
    by (simp add: t_def invalidate_pCache)
  show okt: "cache_ok t"
  proof (rule cache_okI)
    fix j v assume v: "v < (2 :: nat)"
    show "way_ok (host (dcMap t)) j (pCache t j) v"
    proof (cases "(j = line_index q \<and> v = way) \<or> \<not> valid (pCache s j) v")
      case True
      then show ?thesis
        by (auto simp: t_def way_ok_def invalidate_pCache valid_bit p)
    next
      case False
      have "line_no (tag_line j (tag (pCache s j) v)) \<noteq> line_no q"
      proof
        assume "line_no (tag_line j (tag (pCache s j) v)) = line_no q"
        then have "j = line_index q \<and> v = way"
          using False line(1) by (intro same_line [OF ok v w _ line(2)]) simp_all
        then show False
          using False by simp
      qed
      then show ?thesis
        using way_okD [OF ok v, of j] False other unfolding host
        by (auto simp: t_def way_ok_def invalidate_pCache valid_bit dirty_bit p)
    qed
  next
    fix j
    show "valid (pCache t j) 0 \<Longrightarrow> valid (pCache t j) 1 \<Longrightarrow>
      line_no (tag_line j (tag (pCache t j) 0)) \<noteq> line_no (tag_line j (tag (pCache t j) 1))"
      using ok_distinct [OF ok, of j] by (auto simp: t_def invalidate_pCache valid_bit p split: if_splits)
  qed
  have none: "\<not> held t v x" if "line_no x = line_no q" for v x
  proof
    assume "held t v x"
    then have "held s v q" "\<not> (line_index x = line_index q \<and> v = way)"
      using held_line [OF that, of s v] by (simp_all add: held)
    then show False
      using held_unique [OF ok h, of v] line_no_index [OF that] by simp
  qed
  then show "\<not> held t v q"
    by blast
  show "amem t x = (if line_no x = line_no q then host (dcMap u) x else amem s x)"
  proof (cases "line_no x = line_no q")
    case True
    then show ?thesis
      using amem_not_held [OF okt, of x] none [OF True] host by simp
  next
    case False
    have away: "\<not> (line_index x = line_index q \<and> v = way)" if "held s v x" for v
      using that False line by (auto simp: held_def)
    have keep: "held t v x = held s v x" for v
      unfolding held using away [of v] by blast
    show ?thesis
    proof (cases "\<exists>v. held s v x")
      case True
      then obtain v where v: "held s v x" ..
      from away [OF this] show ?thesis
        using amem_held [OF okt, of v x] amem_held [OF ok v] keep v False by (auto simp: t_def invalidate_pCache p)
    next
      case none: False
      then show ?thesis
        using amem_not_held [OF okt, of x] amem_not_held [OF ok, of x] keep host other [OF False] False by simp
    qed
  qed
qed

lemma find_start:
  assumes "cache_ok s" "direct (dcMap s) addr"
  shows "find_way (pCache s (line_index addr)) (paddr_of (dcMap s) addr (ppf_of (dcMap s) addr AND NOT 0x3F)) = Some w \<longleftrightarrow>
      held s w (ppf_of (dcMap s) addr)"
    "find_way (pCache s (line_index addr)) (paddr_of (dcMap s) addr (ppf_of (dcMap s) addr)) = Some w \<longleftrightarrow>
      held s w (ppf_of (dcMap s) addr)"
proof -
  let ?p = "ppf_of (dcMap s) addr"
  have l: "line_no (?p AND NOT 0x3F) = line_no ?p"
    by (rule line_no_start)
  show "find_way (pCache s (line_index addr)) (paddr_of (dcMap s) addr (?p AND NOT 0x3F)) = Some w \<longleftrightarrow> held s w ?p"
    using find_held(1) [OF assms(1), of "?p AND NOT 0x3F" w] line_no_index [OF l] held_line [OF l, of s w]
    unfolding direct_ppf(3) [OF assms(2)] direct_ppf(1) [OF assms(2), symmetric] by simp
  show "find_way (pCache s (line_index addr)) (paddr_of (dcMap s) addr ?p) = Some w \<longleftrightarrow> held s w ?p"
    using find_held(1) [OF assms(1), of ?p w]
    unfolding direct_ppf(3) [OF assms(2)] direct_ppf(1) [OF assms(2), symmetric] .
qed

section \<open>Properties\<close>

definition cold :: cacheS where
  "cold = \<lparr>tag = (\<lambda>_. 0), cdata = (\<lambda>_ _. 0)\<rparr>"

lemma cold_ok: "cache_ok \<lparr>pCache = (\<lambda>_. cold), dcMap = m\<rparr>"
  by (rule cache_okI) (simp_all add: way_ok_def valid_def cold_def)

text \<open>The machine of the witnesses: an empty cache that is on, and page \<open>0x100\<close> of the host at address 0.\<close>

definition cached_sample :: "unit eeCached" where
  "cached_sample =
     \<lparr>ee = ee_state (cpuReset_regs\<lparr>CP0 := (\<lambda>_. 0x10000)\<rparr>)
        \<lparr>pmap = (\<lambda>_. 0), vmap = (\<lambda>_. 0x100000), ppmap = None, host = (\<lambda>_. 7)\<rparr>
        (\<lambda>_. zero_tlbs\<lparr>tlb_EntryLo0 := 0x18, tlb_Mask := 0, tlb_PageMask := 0xFFF\<rparr>) (),
      ee_cache = (\<lambda>_. cold)\<rparr>"

definition unused_handlers :: "unit RWFT" where
  "unused_handlers = \<lparr>rd_handler = (\<lambda>_ _ _ old s. Ret old s), wr_handler = (\<lambda>_ _ _ _ s. Ret () s)\<rparr>"

lemma cached_sample_ok: "w \<le> 4 \<Longrightarrow> cacheable w 0 cached_sample"
  using cold_ok [of "\<lparr>pmap = (\<lambda>_. 0), vmap = (\<lambda>_. 0x100000), ppmap = None, host = (\<lambda>_. 7)\<rparr>"]
  by (simp add: cacheable_def cached_sample_def dc_of_def direct_def ppf_of_def aligned_def CheckCache_def
      in_cached_page_def zero_tlbs_def list_ex_iff)
    (rule exI [of _ 1], simp)

lemma start_line: "line_no ((p AND NOT 0x3F) + ucast (k :: 6 word)) = line_no p"
proof -
  have a: "(p AND NOT 0x3F) AND 0x3F = 0"
    unfolding mask6 by (rule bit_word_eqI) (auto simp: bit_simps)
  have "ucast k < (64 :: u32)"
    unfolding less64 by (rule bit_word_eqI) (auto simp: bit_simps dest: bit_imp_le_length)
  then have "(p AND NOT 0x3F) + ucast k - (p AND NOT 0x3F) < 64"
    by (simp only: add_diff_cancel_left')
  from this [unfolded in_line [OF a]] show ?thesis
    by (simp only: line_no_start)
qed

lemma flush_held:
  assumes ok: "cache_ok s" and h: "held s way p"
  defines "u \<equiv> (if dirty (pCache s (line_index p)) way then write_back (line_index p) way (p AND NOT 0x3F) s else s)"
  shows "pCache u = pCache s" "line_no x \<noteq> line_no p \<Longrightarrow> host (dcMap u) x = host (dcMap s) x"
    "line_no x = line_no p \<Longrightarrow> host (dcMap u) x = amem s x"
proof -
  have a: "(p AND NOT 0x3F) AND 0x3F = 0"
    unfolding mask6 by (rule bit_word_eqI) (auto simp: bit_simps)
  note wb = host_write_back [OF a, unfolded line_no_start]
  show "pCache u = pCache s"
    by (simp add: u_def)
  show "line_no x \<noteq> line_no p \<Longrightarrow> host (dcMap u) x = host (dcMap s) x"
    unfolding u_def using wb by simp
  assume x: "line_no x = line_no p"
  have hx: "held s way x"
    using h held_line [OF x] by simp
  have "cdata (pCache s (line_index p)) way (ucast x) = amem s x"
    using amem_held [OF ok hx] line_no_index [OF x] by simp
  moreover have "cdata (pCache s (line_index p)) way (ucast x) = host (dcMap s) x" if "\<not> dirty (pCache s (line_index p)) way"
    using way_okD [OF ok, of way "line_index p"] h x that by (auto simp: held_def way_ok_def)
  ultimately show "host (dcMap u) x = amem s x"
    unfolding u_def using wb x by simp
qed

text \<open>
  C30: The data cache is transparent. For an address that the cache handles, a read of any width returns
  what the uncached accessor returns on the memory that the program sees through the cache, and a write changes
  that memory as the uncached accessor does; fills, replacements and write-backs do not change it, and the
  invariant of the cache is kept.
\<close>

theorem cache_transparent:
  assumes "cacheable w addr s"
  shows "abs_res seen (cached_memRead env w addr old s) = vtlb_memRead env w addr old (seen s) \<and>
    abs_res seen (cached_memWrite env w addr v s) = vtlb_memWrite env w addr v (seen s) \<and>
    holdsR (\<lambda>t. cache_ok (dc_of t)) (cached_memRead env w addr old s) \<and>
    holdsR (\<lambda>t. cache_ok (dc_of t)) (cached_memWrite env w addr v s)"
  using cached_read [OF assms, of env old] cached_write [OF assms, of env v] by blast

theorem cache_transparent_witness:
  "abs_res seen (cached_memWrite unused_handlers 2 0 5 cached_sample) =
    vtlb_memWrite unused_handlers 2 0 5 (seen cached_sample)"
  using cache_transparent [OF cached_sample_ok [of 2], of unused_handlers 0 5] by simp

text \<open>
  C31: The instructions that write back and invalidate a line. DHWBIN leaves the memory that the program
  sees unchanged, puts the bytes of the line into host memory, where DMA finds them, and takes the line out of
  the cache. DHIN drops the line: the program sees host memory there, and the rest unchanged.
\<close>

theorem cache_line_flush:
  assumes "cache_ok s" "direct (dcMap s) addr"
  shows "amem (DHWBIN addr s) = amem s \<and> cache_ok (DHWBIN addr s) \<and>
    \<not> held (DHWBIN addr s) v (ppf_of (dcMap s) addr) \<and>
    line_in (host (dcMap (DHWBIN addr s))) (ppf_of (dcMap s) addr AND NOT 0x3F) =
      line_in (amem s) (ppf_of (dcMap s) addr AND NOT 0x3F) \<and>
    cache_ok (DHIN addr s) \<and> dcMap (DHIN addr s) = dcMap s \<and>
    amem (DHIN addr s) x =
      (if line_no x = line_no (ppf_of (dcMap s) addr) then host (dcMap s) x else amem s x)"
proof (cases "\<exists>w. held s w (ppf_of (dcMap s) addr)")
  case True
  let ?p = "ppf_of (dcMap s) addr"
  from True obtain way where h: "held s way ?p" ..
  note f = find_start [OF assms, of way, THEN iffD2, OF h] and i = direct_ppf(1) [OF assms(2)]
  define u where "u = (if dirty (pCache s (line_index ?p)) way then write_back (line_index ?p) way (?p AND NOT 0x3F) s else s)"
  note fl = flush_held [OF assms(1) h, folded u_def]
  have wb: "DHWBIN addr s = invalidate (line_index ?p) way u"
    using f(1) by (simp add: DHWBIN_def Let_def i u_def)
  have inv: "DHIN addr s = invalidate (line_index ?p) way s"
    using f(2) by (simp add: DHIN_def Let_def i)
  note a = invalidate_line [OF assms(1) h fl(1,2)] and b = invalidate_line [OF assms(1) h refl refl]
  have "amem (DHWBIN addr s) = amem s"
    unfolding wb by (rule ext) (simp add: a(3) fl(3))
  moreover have "line_in (host (dcMap (DHWBIN addr s))) (?p AND NOT 0x3F) = line_in (amem s) (?p AND NOT 0x3F)"
    unfolding wb line_in_def invalidate_pCache by (rule ext) (rule fl(3) [OF start_line])
  ultimately show ?thesis
    using a(1,2) b(1) b(3) [of x] by (simp add: wb inv invalidate_pCache)
next
  case False
  let ?p = "ppf_of (dcMap s) addr"
  have n: "DHWBIN addr s = s" "DHIN addr s = s"
    using False find_start [OF assms] by (auto simp: DHWBIN_def DHIN_def Let_def split: option.split)
  have e: "amem s y = host (dcMap s) y" if "line_no y = line_no ?p" for y
    using amem_not_held [OF assms(1), of y] False held_line [OF that] by simp
  have "line_in (host (dcMap s)) (?p AND NOT 0x3F) = line_in (amem s) (?p AND NOT 0x3F)"
    unfolding line_in_def by (rule ext) (rule e [OF start_line, symmetric])
  then show ?thesis
    using assms(1) False e unfolding n by simp
qed

theorem cache_line_flush_witness:
  "amem (DHWBIN 0 (dc_of cached_sample)) = amem (dc_of cached_sample)"
  using cache_line_flush [of "dc_of cached_sample" 0] cached_sample_ok [of 2] by (simp add: cacheable_def)

text \<open>
  DHWOIN never writes back. It takes the host address of way 0's line for a virtual address and looks
  that up in the page table; where the EE has nothing mapped at the virtual addresses that coincide with the
  host's memory, the tag it computes lacks bit 31 and matches no way, so the dirty line stays unwritten.
\<close>

theorem DHWOIN_does_nothing:
  assumes "cache_ok s" "vmap (dcMap s) (page_of (tag_addr (pCache s (line_index addr)) 0 addr)) = 0x80000000"
  shows "DHWOIN addr s = s"
proof -
  let ?i = "line_index addr"
  let ?a = "tag_addr (pCache s ?i) 0 addr"
  have p: "ppf_of (dcMap s) ?a = ?a + 0x80000000"
    using assms(2) by (simp add: ppf_of_def)
  have m: "(0x80000fff :: u32) = push_bit 31 1 OR mask 12"
    by (simp add: mask_eq_exp_minus_1)
  have "paddr_of (dcMap s) ?a (ppf_of (dcMap s) ?a AND NOT 0x3F) = ((?a + 0x80000000) AND NOT 0x3F) + 0x80000000"
    unfolding paddr_of_def p using assms(2) by simp
  moreover have "\<not> bit ?a 31"
    unfolding tag_addr_def tag_mask by (simp add: bit_simps)
  ultimately have b: "\<not> bit (paddr_of (dcMap s) ?a (ppf_of (dcMap s) ?a AND NOT 0x3F)) 31"
    unfolding bit_flip31 mask6 by (simp add: bit_and_iff bit_not_iff bit_mask_iff bit_flip31)
  have "\<not> hit (pCache s ?i) w (paddr_of (dcMap s) ?a (ppf_of (dcMap s) ?a AND NOT 0x3F))" if "w < 2" for w
  proof
    assume h: "hit (pCache s ?i) w (paddr_of (dcMap s) ?a (ppf_of (dcMap s) ?a AND NOT 0x3F))"
    then have "bit (tag (pCache s ?i) w) 31"
      using way_okD [OF assms(1) that, of ?i] by (simp add: way_ok_def hit_def valid_def)
    moreover have "bit (tag (pCache s ?i) w) 31 = bit (paddr_of (dcMap s) ?a (ppf_of (dcMap s) ?a AND NOT 0x3F)) 31"
      using h unfolding hit_def page_start_eq by simp
    ultimately show False
      using b by blast
  qed
  then show ?thesis
    by (simp add: DHWOIN_def Let_def find_way_def)
qed


text \<open>A dirty line of host page \<open>0x100000\<close>, whose address the EE does not map.\<close>

definition dirty_sample :: dcState where
  "dirty_sample =
     \<lparr>pCache = (\<lambda>_. cold)(0 := \<lparr>tag = (\<lambda>_. 0)(0 := 0x80100060), cdata = (\<lambda>_ _. 1)\<rparr>),
      dcMap = \<lparr>pmap = (\<lambda>_. 0), vmap = (\<lambda>_. 0x100000)(0x100 := 0x80000000), ppmap = None, host = (\<lambda>_. 7)\<rparr>\<rparr>"

lemma dirty_sample_ok: "cache_ok dirty_sample"
proof (rule cache_okI)
  fix i w assume "w < (2 :: nat)"
  have b: "bit (0x80100060 :: u32) 31" "bit (0x80100060 :: u32) 6" "bit (0x80100060 :: u32) 5"
    by simp_all
  show "way_ok (host (dcMap dirty_sample)) i (pCache dirty_sample i) w"
    using b by (simp add: way_ok_def valid_bit dirty_bit dirty_sample_def cold_def)
qed (simp add: dirty_sample_def valid_bit cold_def split: if_splits)

theorem DHWOIN_does_nothing_witness:
  "DHWOIN 0 dirty_sample = dirty_sample \<and> dirty (pCache dirty_sample 0) 0"
proof
  show "DHWOIN 0 dirty_sample = dirty_sample"
    by (rule DHWOIN_does_nothing [OF dirty_sample_ok])
      (simp add: dirty_sample_def line_index_def tag_addr_def page_of_def)
qed (simp add: dirty_sample_def dirty_def)

text \<open>Replacement: fills alternate between the ways.\<close>

lemma free_way_bit: "free_way c = (if bit (tag c 0) 4 = bit (tag c 1) 4 then 0 else 1)"
proof -
  have "(LRF_FLAG :: u32) = 2 ^ 4"
    by simp
  then have "drop_bit 4 ((a AND LRF_FLAG) XOR (b AND LRF_FLAG)) = (drop_bit 4 (a XOR b) AND 1 :: u32)" for a b
    by (simp only:) (rule bit_word_eqI, auto simp: bit_simps)
  then have "free_way c = unat (drop_bit 4 (tag c 0 XOR tag c 1) AND 1)"
    by (simp add: free_way_def)
  also have "\<dots> = (if bit (tag c 0) 4 = bit (tag c 1) 4 then 0 else 1)"
    by (simp add: and_one_eq mod_2_eq_odd even_xor_iff bit_iff_odd_drop_bit)
  finally show ?thesis .
qed

lemma fill_tag_toggles: "bit (fill_tag a t) 4 \<longleftrightarrow> \<not> bit t 4"
proof -
  have f: "(0xFFF :: u32) = mask 12"
    by (simp add: mask_eq_exp_minus_1)
  have l: "bit (LRF_FLAG :: u32) n \<longleftrightarrow> n = 4" "bit (VALID_FLAG :: u32) n \<longleftrightarrow> n = 5" for n
    using bit_exp_iff [where 'a = "32 word", of 4 n] bit_exp_iff [where 'a = "32 word", of 5 n] by auto
  have z: "x AND LRF_FLAG \<noteq> 0 \<longleftrightarrow> bit x 4" for x :: u32
    using and_exp_eq_0_iff_not_bit [of x 4] by simp
  have "bit (((t OR VALID_FLAG) AND 0xFFF) OR (a AND NOT 0xFFF)) 4 \<longleftrightarrow> bit t 4"
    unfolding f bit_or_iff bit_and_iff l bit_not_iff by (simp add: bit_mask_iff)
  then show ?thesis
    unfolding fill_tag_def Let_def z by (simp add: bit_and_iff bit_or_iff bit_not_iff l)
qed

text \<open>
  Replacement keeps the newer line. When two accesses in a row miss at the same index, the second does
  not replace the line that the first has filled.
\<close>

theorem newest_line_kept:
  assumes "getFreeCache a s = (v, t)" "find_way (pCache s (line_index a)) (paddr_of (dcMap s) a (ppf_of (dcMap s) a)) = None"
    "getFreeCache b t = (w, u)" "find_way (pCache t (line_index b)) (paddr_of (dcMap t) b (ppf_of (dcMap t) b)) = None"
    "line_index b = line_index a"
  shows "w \<noteq> v"
proof -
  let ?c = "pCache s (line_index a)"
  have v: "v = free_way ?c" "w = free_way (pCache t (line_index a))"
    using assms by (auto simp: getFreeCache_def Let_def)
  have t: "t = fill (line_index a) v (ppf_of (dcMap s) a AND NOT 0x3F) (paddr_of (dcMap s) a (ppf_of (dcMap s) a)) (evict (line_index a) v a s)"
    using assms(1,2) v by (auto simp: getFreeCache_def Let_def)
  have "bit (tag (pCache t (line_index a)) k) 4 = (if k = v then \<not> bit (tag ?c k) 4 else bit (tag ?c k) 4)" for k
    unfolding t by (simp add: fill_tag_toggles)
  then show ?thesis
    using v by (auto simp: free_way_bit split: if_splits)
qed

theorem newest_line_kept_witness:
  "fst (getFreeCache 0x1000 (snd (getFreeCache 0 (dc_of cached_sample)))) \<noteq> fst (getFreeCache 0 (dc_of cached_sample))"
proof (rule newest_line_kept)
  show "getFreeCache 0 (dc_of cached_sample) = (fst (getFreeCache 0 (dc_of cached_sample)), snd (getFreeCache 0 (dc_of cached_sample)))"
    by simp
  show "getFreeCache 0x1000 (snd (getFreeCache 0 (dc_of cached_sample))) =
    (fst (getFreeCache 0x1000 (snd (getFreeCache 0 (dc_of cached_sample)))), snd (getFreeCache 0x1000 (snd (getFreeCache 0 (dc_of cached_sample)))))"
    by simp
  show "line_index 0x1000 = line_index 0"
    by code_simp
  show "find_way (pCache (dc_of cached_sample) (line_index 0)) (paddr_of (dcMap (dc_of cached_sample)) 0 (ppf_of (dcMap (dc_of cached_sample)) 0)) = None"
    by code_simp
  show "find_way (pCache (snd (getFreeCache 0 (dc_of cached_sample))) (line_index 0x1000)) (paddr_of (dcMap (snd (getFreeCache 0 (dc_of cached_sample)))) 0x1000
      (ppf_of (dcMap (snd (getFreeCache 0 (dc_of cached_sample)))) 0x1000)) = None"
    by code_simp
qed

end
