(* ===== verification/Vu.thy ===== *)
theory Vu
  imports EEFpu
begin

text \<open>
  The vector units' registers (\<open>pcsx2/VU.h\<close>), the MAC and status flags (\<open>pcsx2/VUflags.cpp\<close>) and the
  pipelines that the interpreters simulate (the first part of \<open>pcsx2/VUops.cpp\<close>): eight slots for results
  of the FMACs on their way to the flag registers, the divider and the elementary function unit.

  A \<open>VECTOR\<close> is a function from the lanes 0 to 3 (x, y, z, w) to bit patterns. The integer registers are
  32-bit patterns; \<open>US[0]\<close> is their lower half. \<open>VIpad\<close> is the padding that makes an integer register 128
  bits wide and that VU0 can reach through its memory map. A data memory is an array of 32-bit words,
  the program memory a store of bytes. The pipelines' \<open>enable\<close> is 0 or 1. The \<open>ialu\<close> pipes are never used.
\<close>

section \<open>Registers\<close>

type_synonym vec = "nat \<Rightarrow> u32"

record fdivPipe =
  fd_enable :: bool
  fd_reg :: u32
  fd_sCycle :: u32
  fd_Cycle :: u32
  fd_statusflag :: u32

record efuPipe =
  ef_enable :: bool
  ef_reg :: u32
  ef_sCycle :: u32
  ef_Cycle :: u32

record fmacPipe =
  fm_enable :: bool
  fm_reg :: int
  fm_xyzw :: nat
  fm_sCycle :: u32
  fm_Cycle :: u32
  fm_macflag :: u32
  fm_statusflag :: u32
  fm_clipflag :: u32

record VURegs =
  VF :: "nat \<Rightarrow> vec"
  VI :: "nat \<Rightarrow> u32"
  VIpad :: "nat \<Rightarrow> vec"
  vACC :: vec
  vq :: u32
  vp :: u32
  vcycle :: u32
  vflags :: u32
  vcode :: u32
  vbranch :: u32
  branchpc :: u32
  delaybranchpc :: u32
  takedelaybranch :: bool
  macflag :: u32
  statusflag :: u32
  clipflag :: u32
  vMem :: "nat \<Rightarrow> u32"
  vMicro :: bytes
  ebit :: u32
  VIBackupCycles :: u8
  VIOldValue :: u32
  VIRegNumber :: u32
  fmac :: "nat \<Rightarrow> fmacPipe"
  fdiv :: fdivPipe
  efu :: efuPipe

abbreviation (input) REG_STATUS_FLAG :: nat where "REG_STATUS_FLAG \<equiv> 16"
abbreviation (input) REG_MAC_FLAG :: nat where "REG_MAC_FLAG \<equiv> 17"
abbreviation (input) REG_CLIP_FLAG :: nat where "REG_CLIP_FLAG \<equiv> 18"
abbreviation (input) REG_ACC_FLAG :: nat where "REG_ACC_FLAG \<equiv> 19"
abbreviation (input) REG_R :: nat where "REG_R \<equiv> 20"
abbreviation (input) REG_I :: nat where "REG_I \<equiv> 21"
abbreviation (input) REG_Q :: nat where "REG_Q \<equiv> 22"
abbreviation (input) REG_P :: nat where "REG_P \<equiv> 23"
abbreviation (input) REG_VF0_FLAG :: nat where "REG_VF0_FLAG \<equiv> 24"
abbreviation (input) REG_TPC :: nat where "REG_TPC \<equiv> 26"
abbreviation (input) REG_CMSAR0 :: nat where "REG_CMSAR0 \<equiv> 27"
abbreviation (input) REG_FBRST :: nat where "REG_FBRST \<equiv> 28"
abbreviation (input) REG_VPU_STAT :: nat where "REG_VPU_STAT \<equiv> 29"
abbreviation (input) REG_CMSAR1 :: nat where "REG_CMSAR1 \<equiv> 31"

text \<open>Stores into single registers.\<close>

definition set_VI :: "nat \<Rightarrow> u32 \<Rightarrow> VURegs \<Rightarrow> VURegs" where
  "set_VI r v VU = VU\<lparr>VI := (VI VU)(r := v)\<rparr>"

definition set_VF :: "nat \<Rightarrow> nat \<Rightarrow> u32 \<Rightarrow> VURegs \<Rightarrow> VURegs" where
  "set_VF r k v VU = VU\<lparr>VF := (VF VU)(r := (VF VU r)(k := v))\<rparr>"

definition set_ACC :: "nat \<Rightarrow> u32 \<Rightarrow> VURegs \<Rightarrow> VURegs" where
  "set_ACC k v VU = VU\<lparr>vACC := (vACC VU)(k := v)\<rparr>"

text \<open>The halves of an integer register: \<open>US[0]\<close> as a value, and storing it.\<close>

definition US0 :: "u32 \<Rightarrow> u16" where
  "US0 w = ucast w"

definition with_US0 :: "u16 \<Rightarrow> u32 \<Rightarrow> u32" where
  "with_US0 v w = (w AND 0xFFFF0000) OR ucast v"

definition set_VI16 :: "nat \<Rightarrow> u16 \<Rightarrow> VURegs \<Rightarrow> VURegs" where
  "set_VI16 r v VU = set_VI r (with_US0 v (VI VU r)) VU"

text \<open>The fields of the instruction word.\<close>

definition vFt :: "u32 \<Rightarrow> nat" where "vFt c = unat (drop_bit 16 c AND 0x1F)"
definition vFs :: "u32 \<Rightarrow> nat" where "vFs c = unat (drop_bit 11 c AND 0x1F)"
definition vFd :: "u32 \<Rightarrow> nat" where "vFd c = unat (drop_bit 6 c AND 0x1F)"
definition vIt :: "u32 \<Rightarrow> nat" where "vIt c = unat (drop_bit 16 c AND 0xF)"
definition vIs :: "u32 \<Rightarrow> nat" where "vIs c = unat (drop_bit 11 c AND 0xF)"
definition vId :: "u32 \<Rightarrow> nat" where "vId c = unat (drop_bit 6 c AND 0xF)"
definition vXYZW :: "u32 \<Rightarrow> nat" where "vXYZW c = unat (drop_bit 21 c AND 0xF)"
definition vFsf :: "u32 \<Rightarrow> nat" where "vFsf c = unat (drop_bit 21 c AND 3)"
definition vFtf :: "u32 \<Rightarrow> nat" where "vFtf c = unat (drop_bit 23 c AND 3)"

text \<open>\<open>_X\<close>, \<open>_Y\<close>, \<open>_Z\<close>, \<open>_W\<close>: whether the instruction writes the lane.\<close>

definition lane_on :: "u32 \<Rightarrow> nat \<Rightarrow> bool" where
  "lane_on c k = bit c (24 - k)"

abbreviation (input) rFt where "rFt VU \<equiv> vFt (vcode VU)"
abbreviation (input) rFs where "rFs VU \<equiv> vFs (vcode VU)"
abbreviation (input) rFd where "rFd VU \<equiv> vFd (vcode VU)"
abbreviation (input) rIt where "rIt VU \<equiv> vIt (vcode VU)"
abbreviation (input) rIs where "rIs VU \<equiv> vIs (vcode VU)"
abbreviation (input) rId where "rId VU \<equiv> vId (vcode VU)"

section \<open>Flags\<close>

text \<open>
  \<open>VU_MAC_UPDATE\<close> with the shift of the lane (3 for x, 0 for w): the sign, underflow, overflow and zero
  flags of a result and the value to store. The comparison \<open>f == 0\<close> is the host's, which may take a denormal
  for zero.
\<close>

definition set_macflag :: "u32 \<Rightarrow> VURegs \<Rightarrow> VURegs" where
  "set_macflag m VU = VU\<lparr>macflag := m\<rparr>"

definition VU_MAC_UPDATE :: "'a host_fpu_scheme \<Rightarrow> nat \<Rightarrow> VURegs \<Rightarrow> u32 \<Rightarrow> u32 \<times> VURegs" where
  "VU_MAC_UPDATE h shift VU v =
     (let e = drop_bit 23 v AND 0xff;
          s = v AND 0x80000000;
          m = (if s \<noteq> 0 then macflag VU OR push_bit shift 0x0010
               else macflag VU AND NOT (push_bit shift 0x0010))
      in if h_eq h v 0
         then (v, set_macflag ((m AND NOT (push_bit shift 0x1100)) OR push_bit shift 0x0001) VU)
         else if e = 0
         then (s, set_macflag ((m AND NOT (push_bit shift 0x1000)) OR push_bit shift 0x0101) VU)
         else if e = 255
         then (s OR 0x7f7fffff, set_macflag ((m AND NOT (push_bit shift 0x0100)) OR push_bit shift 0x1000) VU)
         else (v, set_macflag (m AND NOT (push_bit shift 0x1101)) VU))"

definition VU_MAC_CLEAR :: "nat \<Rightarrow> VURegs \<Rightarrow> VURegs" where
  "VU_MAC_CLEAR shift VU = set_macflag (macflag VU AND NOT (push_bit shift 0x1111)) VU"

text \<open>\<open>VU_MACx_UPDATE\<close> and \<open>VU_MACx_CLEAR\<close> and their siblings, by lane.\<close>

definition VU_MACk_UPDATE :: "'a host_fpu_scheme \<Rightarrow> nat \<Rightarrow> VURegs \<Rightarrow> u32 \<Rightarrow> u32 \<times> VURegs" where
  "VU_MACk_UPDATE h k VU f = VU_MAC_UPDATE h (3 - k) VU f"

definition VU_MACk_CLEAR :: "nat \<Rightarrow> VURegs \<Rightarrow> VURegs" where
  "VU_MACk_CLEAR k VU = VU_MAC_CLEAR (3 - k) VU"

definition VU_STAT_UPDATE :: "VURegs \<Rightarrow> VURegs" where
  "VU_STAT_UPDATE VU =
     (let newflag = (if macflag VU AND 0x000F \<noteq> 0 then 0x1 else 0);
          newflag = (if macflag VU AND 0x00F0 \<noteq> 0 then newflag OR 0x2 else newflag);
          newflag = (if macflag VU AND 0x0F00 \<noteq> 0 then newflag OR 0x4 else newflag);
          newflag = (if macflag VU AND 0xF000 \<noteq> 0 then newflag OR 0x8 else newflag)
      in VU\<lparr>statusflag := (statusflag VU AND 0xc30) OR newflag OR push_bit 6 (statusflag VU AND 0xf)\<rparr>)"

section \<open>Pipelines\<close>

definition fmac_due :: "nat \<Rightarrow> VURegs \<Rightarrow> bool" where
  "fmac_due i VU = (fm_Cycle (fmac VU i) \<le> vcycle VU - fm_sCycle (fmac VU i))"

text \<open>A slot of the FMAC pipe reaches the flag registers.\<close>

definition fmac_retire :: "nat \<Rightarrow> VURegs \<Rightarrow> VURegs" where
  "fmac_retire i VU =
     VU\<lparr>fmac := (fmac VU)(i := (fmac VU i)\<lparr>fm_enable := False\<rparr>),
        VI := (VI VU)(REG_MAC_FLAG := fm_macflag (fmac VU i),
                      REG_STATUS_FLAG := fm_statusflag (fmac VU i),
                      REG_CLIP_FLAG := fm_clipflag (fmac VU i))\<rparr>"

definition fdiv_due :: "VURegs \<Rightarrow> bool" where
  "fdiv_due VU = (fd_Cycle (fdiv VU) \<le> vcycle VU - fd_sCycle (fdiv VU))"

definition fdiv_retire :: "VURegs \<Rightarrow> VURegs" where
  "fdiv_retire VU =
     VU\<lparr>fdiv := (fdiv VU)\<lparr>fd_enable := False\<rparr>,
        VI := (VI VU)(REG_Q := fd_reg (fdiv VU), REG_STATUS_FLAG := fd_statusflag (fdiv VU))\<rparr>"

definition efu_due :: "VURegs \<Rightarrow> bool" where
  "efu_due VU = (ef_Cycle (efu VU) \<le> vcycle VU - ef_sCycle (efu VU))"

definition efu_retire :: "VURegs \<Rightarrow> VURegs" where
  "efu_retire VU = VU\<lparr>efu := (efu VU)\<lparr>ef_enable := False\<rparr>, VI := (VI VU)(REG_P := ef_reg (efu VU))\<rparr>"

definition fmac_flush :: "nat \<Rightarrow> VURegs \<Rightarrow> VURegs" where
  "fmac_flush i VU =
     (if \<not> fm_enable (fmac VU i) then VU else if fmac_due i VU then fmac_retire i VU else VU)"

definition vuFMACflush :: "VURegs \<Rightarrow> VURegs" where
  "vuFMACflush VU = fold fmac_flush [0..<8] VU"

definition vuFDIVflush :: "VURegs \<Rightarrow> VURegs" where
  "vuFDIVflush VU = (if \<not> fd_enable (fdiv VU) then VU else if fdiv_due VU then fdiv_retire VU else VU)"

definition vuEFUflush :: "VURegs \<Rightarrow> VURegs" where
  "vuEFUflush VU = (if \<not> ef_enable (efu VU) then VU else if efu_due VU then efu_retire VU else VU)"

definition vuTestPipes :: "VURegs \<Rightarrow> VURegs" where
  "vuTestPipes VU = vuEFUflush (vuFDIVflush (vuFMACflush VU))"

text \<open>
  \<open>_vuFlushAll\<close> repeats until a round finds every pipe empty; each round takes a cycle. A slot is looked
  at once in a round and retiring one does not enable another, so \<open>nRepeat\<close> is whether any was enabled
  at the start of the round.
\<close>

definition pipes_busy :: "VURegs \<Rightarrow> bool" where
  "pipes_busy VU = (list_ex (\<lambda>i. fm_enable (fmac VU i)) [0..<8] \<or> fd_enable (fdiv VU) \<or> ef_enable (efu VU))"

definition flush_round :: "VURegs \<Rightarrow> VURegs" where
  "flush_round VU = (let VU = vuTestPipes VU in VU\<lparr>vcycle := vcycle VU + 1\<rparr>)"

text \<open>How long the pipes keep \<open>_vuFlushAll\<close> busy: a round empties a slot or brings it a cycle nearer.\<close>

definition cycles_left :: "VURegs \<Rightarrow> bool \<Rightarrow> u32 \<Rightarrow> u32 \<Rightarrow> nat" where
  "cycles_left VU en start len =
     (if en then Suc (unat len - unat (vcycle VU - start)) else 0)"

definition fmac_left :: "nat \<Rightarrow> VURegs \<Rightarrow> nat" where
  "fmac_left i VU =
     cycles_left VU (fm_enable (fmac VU i)) (fm_sCycle (fmac VU i)) (fm_Cycle (fmac VU i))"

definition fdiv_left :: "VURegs \<Rightarrow> nat" where
  "fdiv_left VU = cycles_left VU (fd_enable (fdiv VU)) (fd_sCycle (fdiv VU)) (fd_Cycle (fdiv VU))"

definition efu_left :: "VURegs \<Rightarrow> nat" where
  "efu_left VU = cycles_left VU (ef_enable (efu VU)) (ef_sCycle (efu VU)) (ef_Cycle (efu VU))"

text \<open>The pipe that takes longest bounds the rounds.\<close>

definition pipes_left :: "VURegs \<Rightarrow> nat" where
  "pipes_left VU = max (fold max (map (\<lambda>i. fmac_left i VU) [0..<8]) 0) (max (fdiv_left VU) (efu_left VU))"

text \<open>Retiring touches its pipe and the flag registers.\<close>

lemma fmac_retire_frame [simp]:
  "vcycle (fmac_retire i VU) = vcycle VU"
  "fdiv (fmac_retire i VU) = fdiv VU"
  "efu (fmac_retire i VU) = efu VU"
  "fmac (fmac_retire i VU) = (fmac VU)(i := (fmac VU i)\<lparr>fm_enable := False\<rparr>)"
  by (simp_all add: fmac_retire_def)

lemma fdiv_retire_frame [simp]:
  "vcycle (fdiv_retire VU) = vcycle VU"
  "fmac (fdiv_retire VU) = fmac VU"
  "efu (fdiv_retire VU) = efu VU"
  "fdiv (fdiv_retire VU) = (fdiv VU)\<lparr>fd_enable := False\<rparr>"
  by (simp_all add: fdiv_retire_def)

lemma efu_retire_frame [simp]:
  "vcycle (efu_retire VU) = vcycle VU"
  "fmac (efu_retire VU) = fmac VU"
  "fdiv (efu_retire VU) = fdiv VU"
  "efu (efu_retire VU) = (efu VU)\<lparr>ef_enable := False\<rparr>"
  by (simp_all add: efu_retire_def)

definition fmac_after :: "VURegs \<Rightarrow> nat \<Rightarrow> fmacPipe" where
  "fmac_after VU i =
     (if fm_enable (fmac VU i) \<and> fmac_due i VU then (fmac VU i)\<lparr>fm_enable := False\<rparr> else fmac VU i)"

lemma fmac_flush_frame [simp]:
  "vcycle (fmac_flush i VU) = vcycle VU"
  "fdiv (fmac_flush i VU) = fdiv VU"
  "efu (fmac_flush i VU) = efu VU"
  "fmac (fmac_flush i VU) = (fmac VU)(i := fmac_after VU i)"
  by (auto simp: fmac_flush_def fmac_after_def)

lemma fold_fmac_flush:
  "distinct is \<Longrightarrow>
    vcycle (fold fmac_flush is VU) = vcycle VU \<and> fdiv (fold fmac_flush is VU) = fdiv VU \<and>
    efu (fold fmac_flush is VU) = efu VU \<and>
    fmac (fold fmac_flush is VU) = (\<lambda>i. if i \<in> set is then fmac_after VU i else fmac VU i)"
proof (induction "is" arbitrary: VU)
  case (Cons i "is")
  have "fmac_after (fmac_flush i VU) j = fmac_after VU j" if "j \<noteq> i" for j
    using that by (simp add: fmac_after_def fmac_due_def)
  with Cons show ?case
    by (auto simp: fun_eq_iff) metis
qed simp

lemma vuTestPipes_frame:
  "vcycle (vuTestPipes VU) = vcycle VU"
  "fmac (vuTestPipes VU) = (\<lambda>i. if i < 8 then fmac_after VU i else fmac VU i)"
  "fdiv (vuTestPipes VU) =
     (if fd_enable (fdiv VU) \<and> fdiv_due VU then (fdiv VU)\<lparr>fd_enable := False\<rparr> else fdiv VU)"
  "efu (vuTestPipes VU) =
     (if ef_enable (efu VU) \<and> efu_due VU then (efu VU)\<lparr>ef_enable := False\<rparr> else efu VU)"
  using fold_fmac_flush [of "[0..<8]" VU]
  by (auto simp: vuTestPipes_def vuEFUflush_def vuFDIVflush_def vuFMACflush_def fdiv_due_def efu_due_def)

text \<open>A round brings every pipe a step nearer to empty.\<close>

lemma cycles_left_round:
  fixes VU :: VURegs and t n :: u32
  assumes "vcycle VU' = vcycle VU + 1" "e' \<longleftrightarrow> e \<and> vcycle VU - t < n"
  shows "cycles_left VU' e' t n = cycles_left VU e t n - 1"
proof (cases "e'")
  case True
  then have lt: "vcycle VU - t < n"
    using assms(2) by blast
  then have "1 + (vcycle VU - t) \<noteq> 0"
    by (metis add_eq_0_iff leD minus_minus word_n1_ge add.inverse_inverse)
  moreover have "vcycle VU' - t = 1 + (vcycle VU - t)"
    using assms(1) by simp
  ultimately have "unat (vcycle VU' - t) = Suc (unat (vcycle VU - t))"
    using unatSuc by metis
  then show ?thesis
    using True lt assms(2) by (simp add: cycles_left_def word_less_nat_alt Suc_diff_Suc)
next
  case False
  then have "e \<Longrightarrow> unat n \<le> unat (vcycle VU - t)"
    using assms(2) by (simp add: word_less_nat_alt)
  then show ?thesis
    using False by (simp add: cycles_left_def)
qed

lemma flush_round_frame:
  "vcycle (flush_round VU) = vcycle VU + 1"
  "fmac (flush_round VU) = (\<lambda>i. if i < 8 then fmac_after VU i else fmac VU i)"
  "fdiv (flush_round VU) = fdiv (vuTestPipes VU)"
  "efu (flush_round VU) = efu (vuTestPipes VU)"
  by (simp_all add: flush_round_def Let_def vuTestPipes_frame(1,2))

lemma pipes_after [simp]:
  "fm_enable (fmac_after VU i) \<longleftrightarrow> fm_enable (fmac VU i) \<and> vcycle VU - fm_sCycle (fmac VU i) < fm_Cycle (fmac VU i)"
  "fm_sCycle (fmac_after VU i) = fm_sCycle (fmac VU i)"
  "fm_Cycle (fmac_after VU i) = fm_Cycle (fmac VU i)"
  "fd_enable (fdiv (vuTestPipes VU)) \<longleftrightarrow> fd_enable (fdiv VU) \<and> vcycle VU - fd_sCycle (fdiv VU) < fd_Cycle (fdiv VU)"
  "fd_sCycle (fdiv (vuTestPipes VU)) = fd_sCycle (fdiv VU)"
  "fd_Cycle (fdiv (vuTestPipes VU)) = fd_Cycle (fdiv VU)"
  "ef_enable (efu (vuTestPipes VU)) \<longleftrightarrow> ef_enable (efu VU) \<and> vcycle VU - ef_sCycle (efu VU) < ef_Cycle (efu VU)"
  "ef_sCycle (efu (vuTestPipes VU)) = ef_sCycle (efu VU)"
  "ef_Cycle (efu (vuTestPipes VU)) = ef_Cycle (efu VU)"
  by (auto simp: vuTestPipes_frame fmac_after_def fmac_due_def fdiv_due_def efu_due_def not_le)

lemma cycles_left_next:
  "cycles_left (flush_round VU) (e \<and> vcycle VU - t < n) t n = cycles_left VU e t n - 1"
  by (rule cycles_left_round) (simp_all add: flush_round_frame)

lemma flush_round_left:
  "fdiv_left (flush_round VU) = fdiv_left VU - 1"
  "efu_left (flush_round VU) = efu_left VU - 1"
  "i < 8 \<Longrightarrow> fmac_left i (flush_round VU) = fmac_left i VU - 1"
  unfolding fmac_left_def fdiv_left_def efu_left_def flush_round_frame
  by (simp_all only: pipes_after if_True cycles_left_next)

lemma fold_max_le: "fold max xs (a :: nat) \<le> n \<longleftrightarrow> a \<le> n \<and> (\<forall>x \<in> set xs. x \<le> n)"
  by (induction xs arbitrary: a) auto

lemma pipes_left_le:
  "pipes_left VU \<le> n \<longleftrightarrow> (\<forall>i < 8. fmac_left i VU \<le> n) \<and> fdiv_left VU \<le> n \<and> efu_left VU \<le> n"
  by (auto simp: pipes_left_def fold_max_le)

lemma pipes_left_0: "pipes_left VU = 0 \<longleftrightarrow> \<not> pipes_busy VU"
  using pipes_left_le [of VU 0]
  by (auto simp: pipes_busy_def list_ex_iff fmac_left_def fdiv_left_def efu_left_def cycles_left_def split: if_splits)

lemma pipes_left_round: "pipes_left (flush_round VU) = pipes_left VU - 1"
proof (rule antisym)
  show "pipes_left (flush_round VU) \<le> pipes_left VU - 1"
    using pipes_left_le [of VU "pipes_left VU"] by (auto simp: pipes_left_le flush_round_left)
  have "pipes_left VU \<le> Suc (pipes_left (flush_round VU))"
    using pipes_left_le [of "flush_round VU" "pipes_left (flush_round VU)"]
    by (auto simp: pipes_left_le flush_round_left)
  then show "pipes_left VU - 1 \<le> pipes_left (flush_round VU)"
    by simp
qed

function vuFlushAll :: "VURegs \<Rightarrow> VURegs" where
  "vuFlushAll VU = (if pipes_busy VU then vuFlushAll (flush_round VU) else flush_round VU)"
  by pat_completeness auto

termination
proof (relation "measure pipes_left")
  fix VU :: VURegs
  assume "pipes_busy VU"
  then have "pipes_left VU \<noteq> 0"
    by (simp add: pipes_left_0)
  then show "(flush_round VU, VU) \<in> measure pipes_left"
    by (simp add: pipes_left_round)
qed simp

declare vuFlushAll.simps [simp del]

section \<open>Stalls\<close>

text \<open>
  What the decoder reports about an instruction: its pipe, the registers it reads and writes with their
  lanes, and bit masks of integer and special registers. The decoders write some of the fields only.
\<close>

abbreviation (input) VUPIPE_NONE :: nat where "VUPIPE_NONE \<equiv> 0"
abbreviation (input) VUPIPE_FMAC :: nat where "VUPIPE_FMAC \<equiv> 1"
abbreviation (input) VUPIPE_FDIV :: nat where "VUPIPE_FDIV \<equiv> 2"
abbreviation (input) VUPIPE_EFU :: nat where "VUPIPE_EFU \<equiv> 3"
abbreviation (input) VUPIPE_IALU :: nat where "VUPIPE_IALU \<equiv> 4"
abbreviation (input) VUPIPE_BRANCH :: nat where "VUPIPE_BRANCH \<equiv> 5"
abbreviation (input) VUPIPE_XGKICK :: nat where "VUPIPE_XGKICK \<equiv> 6"

record VURegsNum =
  pipe :: nat
  VFwrite :: nat
  VFwxyzw :: nat
  VFr0xyzw :: nat
  VFr1xyzw :: nat
  VFread0 :: nat
  VFread1 :: nat
  VIwrite :: u32
  VIread :: u32
  cycles :: u32

definition stalls_on :: "VURegs \<Rightarrow> int \<Rightarrow> nat \<Rightarrow> nat \<Rightarrow> bool" where
  "stalls_on VU r xyzw i =
     (fm_enable (fmac VU i) \<and> fm_reg (fmac VU i) = r \<and> fm_xyzw (fmac VU i) AND xyzw \<noteq> 0)"

definition vuFMACTestStall :: "int \<Rightarrow> nat \<Rightarrow> VURegs \<Rightarrow> VURegs" where
  "vuFMACTestStall r xyzw VU =
     (case find (stalls_on VU r xyzw) [0..<8] of
        None \<Rightarrow> VU
      | Some i \<Rightarrow>
          let newCycle = fm_Cycle (fmac VU i) + fm_sCycle (fmac VU i) + 1
          in vuTestPipes ((fmac_retire i VU)\<lparr>vcycle := newCycle\<rparr>))"

definition free_slot :: "VURegs \<Rightarrow> nat option" where
  "free_slot VU = find (\<lambda>i. \<not> fm_enable (fmac VU i)) [0..<8]"

definition vuFMACAdd :: "int \<Rightarrow> nat \<Rightarrow> VURegs \<Rightarrow> VURegs" where
  "vuFMACAdd r xyzw VU =
     (case free_slot VU of
        None \<Rightarrow> VU
      | Some i \<Rightarrow>
          VU\<lparr>fmac := (fmac VU)(i := \<lparr>fm_enable = True, fm_reg = r, fm_xyzw = xyzw, fm_sCycle = vcycle VU,
               fm_Cycle = 3, fm_macflag = macflag VU, fm_statusflag = statusflag VU,
               fm_clipflag = clipflag VU\<rparr>)\<rparr>)"

definition vuFDIVAdd :: "u32 \<Rightarrow> VURegs \<Rightarrow> VURegs" where
  "vuFDIVAdd n VU =
     VU\<lparr>fdiv := \<lparr>fd_enable = True, fd_reg = vq VU, fd_sCycle = vcycle VU, fd_Cycle = n,
        fd_statusflag = statusflag VU\<rparr>\<rparr>"

definition vuEFUAdd :: "u32 \<Rightarrow> VURegs \<Rightarrow> VURegs" where
  "vuEFUAdd n VU =
     VU\<lparr>efu := \<lparr>ef_enable = True, ef_reg = vp VU, ef_sCycle = vcycle VU, ef_Cycle = n\<rparr>\<rparr>"

definition vuFlushFDIV :: "VURegs \<Rightarrow> VURegs" where
  "vuFlushFDIV VU =
     (if \<not> fd_enable (fdiv VU) then VU
      else fdiv_retire (VU\<lparr>vcycle := fd_Cycle (fdiv VU) + fd_sCycle (fdiv VU)\<rparr>))"

definition vuFlushEFU :: "VURegs \<Rightarrow> VURegs" where
  "vuFlushEFU VU =
     (if \<not> ef_enable (efu VU) then VU
      else efu_retire (VU\<lparr>vcycle := ef_Cycle (efu VU) + ef_sCycle (efu VU)\<rparr>))"

definition vuTestFMACStalls :: "VURegsNum \<Rightarrow> VURegs \<Rightarrow> VURegs" where
  "vuTestFMACStalls r VU =
     (let VU = (if VFread0 r \<noteq> 0 then vuFMACTestStall (int (VFread0 r)) (VFr0xyzw r) VU else VU)
      in if VFread1 r \<noteq> 0 then vuFMACTestStall (int (VFread1 r)) (VFr1xyzw r) VU else VU)"

definition vuAddFMACStalls :: "VURegsNum \<Rightarrow> VURegs \<Rightarrow> VURegs" where
  "vuAddFMACStalls r VU =
     (if VFwrite r \<noteq> 0 then vuFMACAdd (int (VFwrite r)) (VFwxyzw r) VU
      else if bit (VIwrite r) REG_CLIP_FLAG then vuFMACAdd (- int REG_CLIP_FLAG) 0 VU
      else vuFMACAdd 0 0 VU)"

definition vuTestFDIVStalls :: "VURegsNum \<Rightarrow> VURegs \<Rightarrow> VURegs" where
  "vuTestFDIVStalls r VU = vuFlushFDIV VU"

definition vuAddFDIVStalls :: "VURegsNum \<Rightarrow> VURegs \<Rightarrow> VURegs" where
  "vuAddFDIVStalls r VU = (if bit (VIwrite r) REG_Q then vuFDIVAdd (cycles r) VU else VU)"

definition vuTestEFUStalls :: "VURegsNum \<Rightarrow> VURegs \<Rightarrow> VURegs" where
  "vuTestEFUStalls r VU = vuFlushEFU VU"

definition vuAddEFUStalls :: "VURegsNum \<Rightarrow> VURegs \<Rightarrow> VURegs" where
  "vuAddEFUStalls r VU = (if bit (VIwrite r) REG_P then vuEFUAdd (cycles r) VU else VU)"

definition vuTestUpperStalls :: "VURegsNum \<Rightarrow> VURegs \<Rightarrow> VURegs" where
  "vuTestUpperStalls r VU = (if pipe r = VUPIPE_FMAC then vuTestFMACStalls r VU else VU)"

definition vuTestLowerStalls :: "VURegsNum \<Rightarrow> VURegs \<Rightarrow> VURegs" where
  "vuTestLowerStalls r VU =
     (if pipe r = VUPIPE_FMAC then vuTestFMACStalls r VU
      else if pipe r = VUPIPE_FDIV then vuTestFDIVStalls r VU
      else if pipe r = VUPIPE_EFU then vuTestEFUStalls r VU
      else VU)"

definition vuAddUpperStalls :: "VURegsNum \<Rightarrow> VURegs \<Rightarrow> VURegs" where
  "vuAddUpperStalls r VU = (if pipe r = VUPIPE_FMAC then vuAddFMACStalls r VU else VU)"

definition vuAddLowerStalls :: "VURegsNum \<Rightarrow> VURegs \<Rightarrow> VURegs" where
  "vuAddLowerStalls r VU =
     (if pipe r = VUPIPE_FMAC then vuAddFMACStalls r VU
      else if pipe r = VUPIPE_FDIV then vuAddFDIVStalls r VU
      else if pipe r = VUPIPE_EFU then vuAddEFUStalls r VU
      else VU)"

end
