(* ===== verification/VuUpper.thy ===== *)
theory VuUpper
  imports Vu
begin

text \<open>
  The upper instructions of the vector units (\<open>pcsx2/VUops.cpp\<close>): arithmetic of the FMACs with their
  flags, maximum and minimum, the outer product, conversions and clipping. The lanes are written one after
  the other, each from the registers as the earlier lanes left them (the destination may be a source).

  The host's floating point enters through \<open>host_vu\<close>: the operations of \<open>host_fpu\<close>, the two conversions
  with a scale of \<open>2 ^ 15\<close> that C computes in double precision (\<open>h_to_s32_15\<close>, \<open>h_scale15\<close>), and for the
  lower instructions the functions of the C library and \<open>h_recip\<close>, \<open>1.0 / p\<close> in double precision.
  \<open>RDzero\<close>, the destination of results for register 0, is never read and is left out.
\<close>

record host_vu = host_fpu +
  h_to_s32_15 :: "u32 \<Rightarrow> u32"
  h_scale15 :: "u32 \<Rightarrow> u32"
  h_recip :: "u32 \<Rightarrow> u32"
  h_sin :: "u32 \<Rightarrow> u32"
  h_atan :: "u32 \<Rightarrow> u32"
  h_atan2 :: "u32 \<Rightarrow> u32 \<Rightarrow> u32"
  h_exp :: "u32 \<Rightarrow> u32"

section \<open>Operands and results\<close>

text \<open>Infinities and NaNs are read as the largest magnitude, denormals as zero.\<close>

definition vuDouble :: "u32 \<Rightarrow> u32" where
  "vuDouble f =
     (if f AND 0x7f800000 = 0x0 then f AND 0x80000000
      else if f AND 0x7f800000 = 0x7f800000 then (f AND 0x80000000) OR 0x7f7fffff
      else f)"

definition vuADD_TriAceHack :: "'a host_vu_scheme \<Rightarrow> u32 \<Rightarrow> u32 \<Rightarrow> u32" where
  "vuADD_TriAceHack h a b =
     (if a = 0x4b1ed4a8 \<and> b = 0x43a02666 then vuDouble 0x4b1ed5e7
      else h_add h (vuDouble a) (vuDouble b))"

abbreviation (input) fsv where "fsv k VU \<equiv> vuDouble (VF VU (rFs VU) k)"
abbreviation (input) ftv where "ftv k VU \<equiv> vuDouble (VF VU (rFt VU) k)"
abbreviation (input) accv where "accv k VU \<equiv> vuDouble (vACC VU k)"
abbreviation (input) viv where "viv r VU \<equiv> vuDouble (VI VU r)"

definition put_Fd :: "nat \<Rightarrow> u32 \<Rightarrow> VURegs \<Rightarrow> VURegs" where
  "put_Fd k v VU = (if rFd VU = 0 then VU else set_VF (rFd VU) k v VU)"

definition put_Ft :: "nat \<Rightarrow> u32 \<Rightarrow> VURegs \<Rightarrow> VURegs" where
  "put_Ft k v VU = set_VF (rFt VU) k v VU"

text \<open>The statements of the four lanes, for an instruction that sets flags and for one that does not.\<close>

definition mac_lane ::
  "'a host_vu_scheme \<Rightarrow> (nat \<Rightarrow> u32 \<Rightarrow> VURegs \<Rightarrow> VURegs) \<Rightarrow> (nat \<Rightarrow> VURegs \<Rightarrow> u32) \<Rightarrow> nat \<Rightarrow>
   VURegs \<Rightarrow> VURegs" where
  "mac_lane h put e k VU =
     (if lane_on (vcode VU) k then (let (v, VU) = VU_MACk_UPDATE h k VU (e k VU) in put k v VU)
      else VU_MACk_CLEAR k VU)"

definition mac_lanes ::
  "'a host_vu_scheme \<Rightarrow> (nat \<Rightarrow> u32 \<Rightarrow> VURegs \<Rightarrow> VURegs) \<Rightarrow> (nat \<Rightarrow> VURegs \<Rightarrow> u32) \<Rightarrow>
   VURegs \<Rightarrow> VURegs" where
  "mac_lanes h put e VU = fold (mac_lane h put e) [0, 1, 2, 3] VU"

definition store_lane ::
  "(nat \<Rightarrow> u32 \<Rightarrow> VURegs \<Rightarrow> VURegs) \<Rightarrow> (nat \<Rightarrow> VURegs \<Rightarrow> u32) \<Rightarrow> nat \<Rightarrow> VURegs \<Rightarrow> VURegs" where
  "store_lane put e k VU = (if lane_on (vcode VU) k then put k (e k VU) VU else VU)"

definition store_lanes ::
  "(nat \<Rightarrow> u32 \<Rightarrow> VURegs \<Rightarrow> VURegs) \<Rightarrow> (nat \<Rightarrow> VURegs \<Rightarrow> u32) \<Rightarrow> VURegs \<Rightarrow> VURegs" where
  "store_lanes put e VU = fold (store_lane put e) [0, 1, 2, 3] VU"

definition fabs :: "u32 \<Rightarrow> u32" where
  "fabs f = f AND 0x7fffffff"

definition fneg :: "u32 \<Rightarrow> u32" where
  "fneg f = f XOR 0x80000000"

section \<open>Arithmetic\<close>

definition vuABS :: "VURegs \<Rightarrow> VURegs" where
  "vuABS VU = (if rFt VU = 0 then VU else store_lanes put_Ft (\<lambda>k VU. fabs (fsv k VU)) VU)"

definition vuADD :: "'a host_vu_scheme \<Rightarrow> VURegs \<Rightarrow> VURegs" where
  "vuADD h VU = VU_STAT_UPDATE (mac_lanes h put_Fd (\<lambda>k VU. h_add h (fsv k VU) (ftv k VU)) VU)"

definition vuADDi :: "bool \<Rightarrow> 'a host_vu_scheme \<Rightarrow> VURegs \<Rightarrow> VURegs" where
  "vuADDi CHECK_VUADDSUBHACK h VU =
     (if \<not> CHECK_VUADDSUBHACK
      then VU_STAT_UPDATE (mac_lanes h put_Fd (\<lambda>k VU. h_add h (fsv k VU) (viv REG_I VU)) VU)
      else VU_STAT_UPDATE (mac_lanes h put_Fd (\<lambda>k VU. vuADD_TriAceHack h (VF VU (rFs VU) k) (VI VU REG_I)) VU))"

definition vuADDq :: "'a host_vu_scheme \<Rightarrow> VURegs \<Rightarrow> VURegs" where
  "vuADDq h VU = VU_STAT_UPDATE (mac_lanes h put_Fd (\<lambda>k VU. h_add h (fsv k VU) (viv REG_Q VU)) VU)"

definition vuADDx :: "'a host_vu_scheme \<Rightarrow> VURegs \<Rightarrow> VURegs" where
  "vuADDx h VU =
     (let ftx = ftv 0 VU
      in VU_STAT_UPDATE (mac_lanes h put_Fd (\<lambda>k VU. h_add h (fsv k VU) ftx) VU))"

definition vuADDy :: "'a host_vu_scheme \<Rightarrow> VURegs \<Rightarrow> VURegs" where
  "vuADDy h VU =
     (let fty = ftv 1 VU
      in VU_STAT_UPDATE (mac_lanes h put_Fd (\<lambda>k VU. h_add h (fsv k VU) fty) VU))"

definition vuADDz :: "'a host_vu_scheme \<Rightarrow> VURegs \<Rightarrow> VURegs" where
  "vuADDz h VU =
     (let ftz = ftv 2 VU
      in VU_STAT_UPDATE (mac_lanes h put_Fd (\<lambda>k VU. h_add h (fsv k VU) ftz) VU))"

definition vuADDw :: "'a host_vu_scheme \<Rightarrow> VURegs \<Rightarrow> VURegs" where
  "vuADDw h VU =
     (let ftw = ftv 3 VU
      in VU_STAT_UPDATE (mac_lanes h put_Fd (\<lambda>k VU. h_add h (fsv k VU) ftw) VU))"

definition vuADDA :: "'a host_vu_scheme \<Rightarrow> VURegs \<Rightarrow> VURegs" where
  "vuADDA h VU = VU_STAT_UPDATE (mac_lanes h set_ACC (\<lambda>k VU. h_add h (fsv k VU) (ftv k VU)) VU)"

definition vuADDAi :: "'a host_vu_scheme \<Rightarrow> VURegs \<Rightarrow> VURegs" where
  "vuADDAi h VU =
     (let ti = viv REG_I VU
      in VU_STAT_UPDATE (mac_lanes h set_ACC (\<lambda>k VU. h_add h (fsv k VU) ti) VU))"

definition vuADDAq :: "'a host_vu_scheme \<Rightarrow> VURegs \<Rightarrow> VURegs" where
  "vuADDAq h VU =
     (let tf = viv REG_Q VU
      in VU_STAT_UPDATE (mac_lanes h set_ACC (\<lambda>k VU. h_add h (fsv k VU) tf) VU))"

definition vuADDAx :: "'a host_vu_scheme \<Rightarrow> VURegs \<Rightarrow> VURegs" where
  "vuADDAx h VU =
     (let tx = ftv 0 VU
      in VU_STAT_UPDATE (mac_lanes h set_ACC (\<lambda>k VU. h_add h (fsv k VU) tx) VU))"

definition vuADDAy :: "'a host_vu_scheme \<Rightarrow> VURegs \<Rightarrow> VURegs" where
  "vuADDAy h VU =
     (let ty = ftv 1 VU
      in VU_STAT_UPDATE (mac_lanes h set_ACC (\<lambda>k VU. h_add h (fsv k VU) ty) VU))"

definition vuADDAz :: "'a host_vu_scheme \<Rightarrow> VURegs \<Rightarrow> VURegs" where
  "vuADDAz h VU =
     (let tz = ftv 2 VU
      in VU_STAT_UPDATE (mac_lanes h set_ACC (\<lambda>k VU. h_add h (fsv k VU) tz) VU))"

definition vuADDAw :: "'a host_vu_scheme \<Rightarrow> VURegs \<Rightarrow> VURegs" where
  "vuADDAw h VU =
     (let tw = ftv 3 VU
      in VU_STAT_UPDATE (mac_lanes h set_ACC (\<lambda>k VU. h_add h (fsv k VU) tw) VU))"

definition vuSUB :: "'a host_vu_scheme \<Rightarrow> VURegs \<Rightarrow> VURegs" where
  "vuSUB h VU = VU_STAT_UPDATE (mac_lanes h put_Fd (\<lambda>k VU. h_sub h (fsv k VU) (ftv k VU)) VU)"

definition vuSUBi :: "'a host_vu_scheme \<Rightarrow> VURegs \<Rightarrow> VURegs" where
  "vuSUBi h VU = VU_STAT_UPDATE (mac_lanes h put_Fd (\<lambda>k VU. h_sub h (fsv k VU) (viv REG_I VU)) VU)"

definition vuSUBq :: "'a host_vu_scheme \<Rightarrow> VURegs \<Rightarrow> VURegs" where
  "vuSUBq h VU = VU_STAT_UPDATE (mac_lanes h put_Fd (\<lambda>k VU. h_sub h (fsv k VU) (viv REG_Q VU)) VU)"

definition vuSUBx :: "'a host_vu_scheme \<Rightarrow> VURegs \<Rightarrow> VURegs" where
  "vuSUBx h VU =
     (let ftx = ftv 0 VU
      in VU_STAT_UPDATE (mac_lanes h put_Fd (\<lambda>k VU. h_sub h (fsv k VU) ftx) VU))"

definition vuSUBy :: "'a host_vu_scheme \<Rightarrow> VURegs \<Rightarrow> VURegs" where
  "vuSUBy h VU =
     (let fty = ftv 1 VU
      in VU_STAT_UPDATE (mac_lanes h put_Fd (\<lambda>k VU. h_sub h (fsv k VU) fty) VU))"

definition vuSUBz :: "'a host_vu_scheme \<Rightarrow> VURegs \<Rightarrow> VURegs" where
  "vuSUBz h VU =
     (let ftz = ftv 2 VU
      in VU_STAT_UPDATE (mac_lanes h put_Fd (\<lambda>k VU. h_sub h (fsv k VU) ftz) VU))"

definition vuSUBw :: "'a host_vu_scheme \<Rightarrow> VURegs \<Rightarrow> VURegs" where
  "vuSUBw h VU =
     (let ftw = ftv 3 VU
      in VU_STAT_UPDATE (mac_lanes h put_Fd (\<lambda>k VU. h_sub h (fsv k VU) ftw) VU))"

definition vuSUBA :: "'a host_vu_scheme \<Rightarrow> VURegs \<Rightarrow> VURegs" where
  "vuSUBA h VU = VU_STAT_UPDATE (mac_lanes h set_ACC (\<lambda>k VU. h_sub h (fsv k VU) (ftv k VU)) VU)"

definition vuSUBAi :: "'a host_vu_scheme \<Rightarrow> VURegs \<Rightarrow> VURegs" where
  "vuSUBAi h VU = VU_STAT_UPDATE (mac_lanes h set_ACC (\<lambda>k VU. h_sub h (fsv k VU) (viv REG_I VU)) VU)"

definition vuSUBAq :: "'a host_vu_scheme \<Rightarrow> VURegs \<Rightarrow> VURegs" where
  "vuSUBAq h VU = VU_STAT_UPDATE (mac_lanes h set_ACC (\<lambda>k VU. h_sub h (fsv k VU) (viv REG_Q VU)) VU)"

definition vuSUBAx :: "'a host_vu_scheme \<Rightarrow> VURegs \<Rightarrow> VURegs" where
  "vuSUBAx h VU =
     (let tx = ftv 0 VU
      in VU_STAT_UPDATE (mac_lanes h set_ACC (\<lambda>k VU. h_sub h (fsv k VU) tx) VU))"

definition vuSUBAy :: "'a host_vu_scheme \<Rightarrow> VURegs \<Rightarrow> VURegs" where
  "vuSUBAy h VU =
     (let ty = ftv 1 VU
      in VU_STAT_UPDATE (mac_lanes h set_ACC (\<lambda>k VU. h_sub h (fsv k VU) ty) VU))"

definition vuSUBAz :: "'a host_vu_scheme \<Rightarrow> VURegs \<Rightarrow> VURegs" where
  "vuSUBAz h VU =
     (let tz = ftv 2 VU
      in VU_STAT_UPDATE (mac_lanes h set_ACC (\<lambda>k VU. h_sub h (fsv k VU) tz) VU))"

definition vuSUBAw :: "'a host_vu_scheme \<Rightarrow> VURegs \<Rightarrow> VURegs" where
  "vuSUBAw h VU =
     (let tw = ftv 3 VU
      in VU_STAT_UPDATE (mac_lanes h set_ACC (\<lambda>k VU. h_sub h (fsv k VU) tw) VU))"

definition vuMUL :: "'a host_vu_scheme \<Rightarrow> VURegs \<Rightarrow> VURegs" where
  "vuMUL h VU = VU_STAT_UPDATE (mac_lanes h put_Fd (\<lambda>k VU. h_mul h (fsv k VU) (ftv k VU)) VU)"

definition vuMULi :: "'a host_vu_scheme \<Rightarrow> VURegs \<Rightarrow> VURegs" where
  "vuMULi h VU = VU_STAT_UPDATE (mac_lanes h put_Fd (\<lambda>k VU. h_mul h (fsv k VU) (viv REG_I VU)) VU)"

definition vuMULq :: "'a host_vu_scheme \<Rightarrow> VURegs \<Rightarrow> VURegs" where
  "vuMULq h VU = VU_STAT_UPDATE (mac_lanes h put_Fd (\<lambda>k VU. h_mul h (fsv k VU) (viv REG_Q VU)) VU)"

definition vuMULx :: "'a host_vu_scheme \<Rightarrow> VURegs \<Rightarrow> VURegs" where
  "vuMULx h VU =
     (let ftx = ftv 0 VU
      in VU_STAT_UPDATE (mac_lanes h put_Fd (\<lambda>k VU. h_mul h (fsv k VU) ftx) VU))"

definition vuMULy :: "'a host_vu_scheme \<Rightarrow> VURegs \<Rightarrow> VURegs" where
  "vuMULy h VU =
     (let fty = ftv 1 VU
      in VU_STAT_UPDATE (mac_lanes h put_Fd (\<lambda>k VU. h_mul h (fsv k VU) fty) VU))"

definition vuMULz :: "'a host_vu_scheme \<Rightarrow> VURegs \<Rightarrow> VURegs" where
  "vuMULz h VU =
     (let ftz = ftv 2 VU
      in VU_STAT_UPDATE (mac_lanes h put_Fd (\<lambda>k VU. h_mul h (fsv k VU) ftz) VU))"

definition vuMULw :: "'a host_vu_scheme \<Rightarrow> VURegs \<Rightarrow> VURegs" where
  "vuMULw h VU =
     (let ftw = ftv 3 VU
      in VU_STAT_UPDATE (mac_lanes h put_Fd (\<lambda>k VU. h_mul h (fsv k VU) ftw) VU))"

definition vuMULA :: "'a host_vu_scheme \<Rightarrow> VURegs \<Rightarrow> VURegs" where
  "vuMULA h VU = VU_STAT_UPDATE (mac_lanes h set_ACC (\<lambda>k VU. h_mul h (fsv k VU) (ftv k VU)) VU)"

definition vuMULAi :: "'a host_vu_scheme \<Rightarrow> VURegs \<Rightarrow> VURegs" where
  "vuMULAi h VU = VU_STAT_UPDATE (mac_lanes h set_ACC (\<lambda>k VU. h_mul h (fsv k VU) (viv REG_I VU)) VU)"

definition vuMULAq :: "'a host_vu_scheme \<Rightarrow> VURegs \<Rightarrow> VURegs" where
  "vuMULAq h VU = VU_STAT_UPDATE (mac_lanes h set_ACC (\<lambda>k VU. h_mul h (fsv k VU) (viv REG_Q VU)) VU)"

definition vuMULAx :: "'a host_vu_scheme \<Rightarrow> VURegs \<Rightarrow> VURegs" where
  "vuMULAx h VU = VU_STAT_UPDATE (mac_lanes h set_ACC (\<lambda>k VU. h_mul h (fsv k VU) (ftv 0 VU)) VU)"

definition vuMULAy :: "'a host_vu_scheme \<Rightarrow> VURegs \<Rightarrow> VURegs" where
  "vuMULAy h VU = VU_STAT_UPDATE (mac_lanes h set_ACC (\<lambda>k VU. h_mul h (fsv k VU) (ftv 1 VU)) VU)"

definition vuMULAz :: "'a host_vu_scheme \<Rightarrow> VURegs \<Rightarrow> VURegs" where
  "vuMULAz h VU = VU_STAT_UPDATE (mac_lanes h set_ACC (\<lambda>k VU. h_mul h (fsv k VU) (ftv 2 VU)) VU)"

definition vuMULAw :: "'a host_vu_scheme \<Rightarrow> VURegs \<Rightarrow> VURegs" where
  "vuMULAw h VU = VU_STAT_UPDATE (mac_lanes h set_ACC (\<lambda>k VU. h_mul h (fsv k VU) (ftv 3 VU)) VU)"

definition vuMADD :: "'a host_vu_scheme \<Rightarrow> VURegs \<Rightarrow> VURegs" where
  "vuMADD h VU =
     VU_STAT_UPDATE (mac_lanes h put_Fd (\<lambda>k VU. h_add h (accv k VU) (h_mul h (fsv k VU) (ftv k VU))) VU)"

definition vuMADDi :: "'a host_vu_scheme \<Rightarrow> VURegs \<Rightarrow> VURegs" where
  "vuMADDi h VU =
     VU_STAT_UPDATE (mac_lanes h put_Fd (\<lambda>k VU. h_add h (accv k VU) (h_mul h (fsv k VU) (viv REG_I VU))) VU)"

definition vuMADDq :: "'a host_vu_scheme \<Rightarrow> VURegs \<Rightarrow> VURegs" where
  "vuMADDq h VU =
     VU_STAT_UPDATE (mac_lanes h put_Fd (\<lambda>k VU. h_add h (accv k VU) (h_mul h (fsv k VU) (viv REG_Q VU))) VU)"

definition vuMADDx :: "'a host_vu_scheme \<Rightarrow> VURegs \<Rightarrow> VURegs" where
  "vuMADDx h VU =
     (let ftx = ftv 0 VU
      in VU_STAT_UPDATE (mac_lanes h put_Fd (\<lambda>k VU. h_add h (accv k VU) (h_mul h (fsv k VU) ftx)) VU))"

definition vuMADDy :: "'a host_vu_scheme \<Rightarrow> VURegs \<Rightarrow> VURegs" where
  "vuMADDy h VU =
     (let fty = ftv 1 VU
      in VU_STAT_UPDATE (mac_lanes h put_Fd (\<lambda>k VU. h_add h (accv k VU) (h_mul h (fsv k VU) fty)) VU))"

definition vuMADDz :: "'a host_vu_scheme \<Rightarrow> VURegs \<Rightarrow> VURegs" where
  "vuMADDz h VU =
     (let ftz = ftv 2 VU
      in VU_STAT_UPDATE (mac_lanes h put_Fd (\<lambda>k VU. h_add h (accv k VU) (h_mul h (fsv k VU) ftz)) VU))"

definition vuMADDw :: "'a host_vu_scheme \<Rightarrow> VURegs \<Rightarrow> VURegs" where
  "vuMADDw h VU =
     (let ftw = ftv 3 VU
      in VU_STAT_UPDATE (mac_lanes h put_Fd (\<lambda>k VU. h_add h (accv k VU) (h_mul h (fsv k VU) ftw)) VU))"

definition vuMADDA :: "'a host_vu_scheme \<Rightarrow> VURegs \<Rightarrow> VURegs" where
  "vuMADDA h VU =
     VU_STAT_UPDATE (mac_lanes h set_ACC (\<lambda>k VU. h_add h (accv k VU) (h_mul h (fsv k VU) (ftv k VU))) VU)"

definition vuMADDAi :: "'a host_vu_scheme \<Rightarrow> VURegs \<Rightarrow> VURegs" where
  "vuMADDAi h VU =
     (let ti = viv REG_I VU
      in VU_STAT_UPDATE (mac_lanes h set_ACC (\<lambda>k VU. h_add h (accv k VU) (h_mul h (fsv k VU) ti)) VU))"

definition vuMADDAq :: "'a host_vu_scheme \<Rightarrow> VURegs \<Rightarrow> VURegs" where
  "vuMADDAq h VU =
     (let tq = viv REG_Q VU
      in VU_STAT_UPDATE (mac_lanes h set_ACC (\<lambda>k VU. h_add h (accv k VU) (h_mul h (fsv k VU) tq)) VU))"

definition vuMADDAx :: "'a host_vu_scheme \<Rightarrow> VURegs \<Rightarrow> VURegs" where
  "vuMADDAx h VU =
     VU_STAT_UPDATE (mac_lanes h set_ACC (\<lambda>k VU. h_add h (accv k VU) (h_mul h (fsv k VU) (ftv 0 VU))) VU)"

definition vuMADDAy :: "'a host_vu_scheme \<Rightarrow> VURegs \<Rightarrow> VURegs" where
  "vuMADDAy h VU =
     VU_STAT_UPDATE (mac_lanes h set_ACC (\<lambda>k VU. h_add h (accv k VU) (h_mul h (fsv k VU) (ftv 1 VU))) VU)"

definition vuMADDAz :: "'a host_vu_scheme \<Rightarrow> VURegs \<Rightarrow> VURegs" where
  "vuMADDAz h VU =
     VU_STAT_UPDATE (mac_lanes h set_ACC (\<lambda>k VU. h_add h (accv k VU) (h_mul h (fsv k VU) (ftv 2 VU))) VU)"

definition vuMADDAw :: "'a host_vu_scheme \<Rightarrow> VURegs \<Rightarrow> VURegs" where
  "vuMADDAw h VU =
     VU_STAT_UPDATE (mac_lanes h set_ACC (\<lambda>k VU. h_add h (accv k VU) (h_mul h (fsv k VU) (ftv 3 VU))) VU)"

definition vuMSUB :: "'a host_vu_scheme \<Rightarrow> VURegs \<Rightarrow> VURegs" where
  "vuMSUB h VU =
     VU_STAT_UPDATE (mac_lanes h put_Fd (\<lambda>k VU. h_sub h (accv k VU) (h_mul h (fsv k VU) (ftv k VU))) VU)"

definition vuMSUBi :: "'a host_vu_scheme \<Rightarrow> VURegs \<Rightarrow> VURegs" where
  "vuMSUBi h VU =
     (let ti = viv REG_I VU
      in VU_STAT_UPDATE (mac_lanes h put_Fd (\<lambda>k VU. h_sub h (accv k VU) (h_mul h (fsv k VU) ti)) VU))"

definition vuMSUBq :: "'a host_vu_scheme \<Rightarrow> VURegs \<Rightarrow> VURegs" where
  "vuMSUBq h VU =
     (let tq = viv REG_Q VU
      in VU_STAT_UPDATE (mac_lanes h put_Fd (\<lambda>k VU. h_sub h (accv k VU) (h_mul h (fsv k VU) tq)) VU))"

definition vuMSUBx :: "'a host_vu_scheme \<Rightarrow> VURegs \<Rightarrow> VURegs" where
  "vuMSUBx h VU =
     (let ftx = ftv 0 VU
      in VU_STAT_UPDATE (mac_lanes h put_Fd (\<lambda>k VU. h_sub h (accv k VU) (h_mul h (fsv k VU) ftx)) VU))"

definition vuMSUBy :: "'a host_vu_scheme \<Rightarrow> VURegs \<Rightarrow> VURegs" where
  "vuMSUBy h VU =
     (let fty = ftv 1 VU
      in VU_STAT_UPDATE (mac_lanes h put_Fd (\<lambda>k VU. h_sub h (accv k VU) (h_mul h (fsv k VU) fty)) VU))"

definition vuMSUBz :: "'a host_vu_scheme \<Rightarrow> VURegs \<Rightarrow> VURegs" where
  "vuMSUBz h VU =
     (let ftz = ftv 2 VU
      in VU_STAT_UPDATE (mac_lanes h put_Fd (\<lambda>k VU. h_sub h (accv k VU) (h_mul h (fsv k VU) ftz)) VU))"

definition vuMSUBw :: "'a host_vu_scheme \<Rightarrow> VURegs \<Rightarrow> VURegs" where
  "vuMSUBw h VU =
     (let ftw = ftv 3 VU
      in VU_STAT_UPDATE (mac_lanes h put_Fd (\<lambda>k VU. h_sub h (accv k VU) (h_mul h (fsv k VU) ftw)) VU))"

definition vuMSUBA :: "'a host_vu_scheme \<Rightarrow> VURegs \<Rightarrow> VURegs" where
  "vuMSUBA h VU =
     VU_STAT_UPDATE (mac_lanes h set_ACC (\<lambda>k VU. h_sub h (accv k VU) (h_mul h (fsv k VU) (ftv k VU))) VU)"

definition vuMSUBAi :: "'a host_vu_scheme \<Rightarrow> VURegs \<Rightarrow> VURegs" where
  "vuMSUBAi h VU =
     VU_STAT_UPDATE (mac_lanes h set_ACC (\<lambda>k VU. h_sub h (accv k VU) (h_mul h (fsv k VU) (viv REG_I VU))) VU)"

definition vuMSUBAq :: "'a host_vu_scheme \<Rightarrow> VURegs \<Rightarrow> VURegs" where
  "vuMSUBAq h VU =
     VU_STAT_UPDATE (mac_lanes h set_ACC (\<lambda>k VU. h_sub h (accv k VU) (h_mul h (fsv k VU) (viv REG_Q VU))) VU)"

definition vuMSUBAx :: "'a host_vu_scheme \<Rightarrow> VURegs \<Rightarrow> VURegs" where
  "vuMSUBAx h VU =
     (let tx = ftv 0 VU
      in VU_STAT_UPDATE (mac_lanes h set_ACC (\<lambda>k VU. h_sub h (accv k VU) (h_mul h (fsv k VU) tx)) VU))"

definition vuMSUBAy :: "'a host_vu_scheme \<Rightarrow> VURegs \<Rightarrow> VURegs" where
  "vuMSUBAy h VU =
     (let ty = ftv 1 VU
      in VU_STAT_UPDATE (mac_lanes h set_ACC (\<lambda>k VU. h_sub h (accv k VU) (h_mul h (fsv k VU) ty)) VU))"

definition vuMSUBAz :: "'a host_vu_scheme \<Rightarrow> VURegs \<Rightarrow> VURegs" where
  "vuMSUBAz h VU =
     (let tz = ftv 2 VU
      in VU_STAT_UPDATE (mac_lanes h set_ACC (\<lambda>k VU. h_sub h (accv k VU) (h_mul h (fsv k VU) tz)) VU))"

definition vuMSUBAw :: "'a host_vu_scheme \<Rightarrow> VURegs \<Rightarrow> VURegs" where
  "vuMSUBAw h VU =
     (let tw = ftv 3 VU
      in VU_STAT_UPDATE (mac_lanes h set_ACC (\<lambda>k VU. h_sub h (accv k VU) (h_mul h (fsv k VU) tw)) VU))"

text \<open>Comparing the bit patterns as integers orders the floats, reversed when both are negative.\<close>

definition fp_max :: "u32 \<Rightarrow> u32 \<Rightarrow> u32" where
  "fp_max a b =
     (if a <s 0 \<and> b <s 0 then (if b <s a then b else a) else (if a <s b then b else a))"

definition fp_min :: "u32 \<Rightarrow> u32 \<Rightarrow> u32" where
  "fp_min a b =
     (if a <s 0 \<and> b <s 0 then (if a <s b then b else a) else (if b <s a then b else a))"

definition vuMAX :: "VURegs \<Rightarrow> VURegs" where
  "vuMAX VU =
     (if rFd VU = 0 then VU
      else store_lanes put_Fd (\<lambda>k VU. fp_max (VF VU (rFs VU) k) (VF VU (rFt VU) k)) VU)"

definition vuMAXi :: "VURegs \<Rightarrow> VURegs" where
  "vuMAXi VU =
     (if rFd VU = 0 then VU
      else store_lanes put_Fd (\<lambda>k VU. fp_max (VF VU (rFs VU) k) (VI VU REG_I)) VU)"

definition vuMAXx :: "VURegs \<Rightarrow> VURegs" where
  "vuMAXx VU =
     (let ftx = VF VU (rFt VU) 0
      in if rFd VU = 0 then VU else store_lanes put_Fd (\<lambda>k VU. fp_max (VF VU (rFs VU) k) ftx) VU)"

definition vuMAXy :: "VURegs \<Rightarrow> VURegs" where
  "vuMAXy VU =
     (let fty = VF VU (rFt VU) 1
      in if rFd VU = 0 then VU else store_lanes put_Fd (\<lambda>k VU. fp_max (VF VU (rFs VU) k) fty) VU)"

definition vuMAXz :: "VURegs \<Rightarrow> VURegs" where
  "vuMAXz VU =
     (let ftz = VF VU (rFt VU) 2
      in if rFd VU = 0 then VU else store_lanes put_Fd (\<lambda>k VU. fp_max (VF VU (rFs VU) k) ftz) VU)"

definition vuMAXw :: "VURegs \<Rightarrow> VURegs" where
  "vuMAXw VU =
     (let ftw = VF VU (rFt VU) 3
      in if rFd VU = 0 then VU else store_lanes put_Fd (\<lambda>k VU. fp_max (VF VU (rFs VU) k) ftw) VU)"

definition vuMINI :: "VURegs \<Rightarrow> VURegs" where
  "vuMINI VU =
     (if rFd VU = 0 then VU
      else store_lanes put_Fd (\<lambda>k VU. fp_min (VF VU (rFs VU) k) (VF VU (rFt VU) k)) VU)"

definition vuMINIi :: "VURegs \<Rightarrow> VURegs" where
  "vuMINIi VU =
     (if rFd VU = 0 then VU
      else store_lanes put_Fd (\<lambda>k VU. fp_min (VF VU (rFs VU) k) (VI VU REG_I)) VU)"

definition vuMINIx :: "VURegs \<Rightarrow> VURegs" where
  "vuMINIx VU =
     (let ftx = VF VU (rFt VU) 0
      in if rFd VU = 0 then VU else store_lanes put_Fd (\<lambda>k VU. fp_min (VF VU (rFs VU) k) ftx) VU)"

definition vuMINIy :: "VURegs \<Rightarrow> VURegs" where
  "vuMINIy VU =
     (let fty = VF VU (rFt VU) 1
      in if rFd VU = 0 then VU else store_lanes put_Fd (\<lambda>k VU. fp_min (VF VU (rFs VU) k) fty) VU)"

definition vuMINIz :: "VURegs \<Rightarrow> VURegs" where
  "vuMINIz VU =
     (let ftz = VF VU (rFt VU) 2
      in if rFd VU = 0 then VU else store_lanes put_Fd (\<lambda>k VU. fp_min (VF VU (rFs VU) k) ftz) VU)"

definition vuMINIw :: "VURegs \<Rightarrow> VURegs" where
  "vuMINIw VU =
     (let ftw = VF VU (rFt VU) 3
      in if rFd VU = 0 then VU else store_lanes put_Fd (\<lambda>k VU. fp_min (VF VU (rFs VU) k) ftw) VU)"

text \<open>\<open>_vuOPMULA\<close> and \<open>_vuOPMSUB\<close> have three lanes, whatever the instruction's mask.\<close>

definition mac_set ::
  "'a host_vu_scheme \<Rightarrow> (nat \<Rightarrow> u32 \<Rightarrow> VURegs \<Rightarrow> VURegs) \<Rightarrow> nat \<Rightarrow> u32 \<Rightarrow> VURegs \<Rightarrow> VURegs" where
  "mac_set h put k f VU = (let (v, VU) = VU_MACk_UPDATE h k VU f in put k v VU)"

definition vuOPMULA :: "'a host_vu_scheme \<Rightarrow> VURegs \<Rightarrow> VURegs" where
  "vuOPMULA h VU =
     (let VU = mac_set h set_ACC 0 (h_mul h (fsv 1 VU) (ftv 2 VU)) VU;
          VU = mac_set h set_ACC 1 (h_mul h (fsv 2 VU) (ftv 0 VU)) VU;
          VU = mac_set h set_ACC 2 (h_mul h (fsv 0 VU) (ftv 1 VU)) VU
      in VU_STAT_UPDATE VU)"

definition vuOPMSUB :: "'a host_vu_scheme \<Rightarrow> VURegs \<Rightarrow> VURegs" where
  "vuOPMSUB h VU =
     (let ftx = ftv 0 VU; fty = ftv 1 VU; ftz = ftv 2 VU;
          fsx = fsv 0 VU; fsy = fsv 1 VU; fsz = fsv 2 VU;
          VU = mac_set h put_Fd 0 (h_sub h (accv 0 VU) (h_mul h fsy ftz)) VU;
          VU = mac_set h put_Fd 1 (h_sub h (accv 1 VU) (h_mul h fsz ftx)) VU;
          VU = mac_set h put_Fd 2 (h_sub h (accv 2 VU) (h_mul h fsx fty)) VU
      in VU_STAT_UPDATE VU)"

definition vuNOP :: "VURegs \<Rightarrow> VURegs" where
  "vuNOP VU = VU"

text \<open>The conversions of \<open>pcsx2/VUops.h\<close>; the factors are 16, 4096 and their reciprocals.\<close>

definition float_to_int4 :: "'a host_vu_scheme \<Rightarrow> u32 \<Rightarrow> u32" where
  "float_to_int4 h x = h_to_s32 h (h_mul h x 0x41800000)"

definition float_to_int12 :: "'a host_vu_scheme \<Rightarrow> u32 \<Rightarrow> u32" where
  "float_to_int12 h x = h_to_s32 h (h_mul h x 0x45800000)"

definition float_to_int15 :: "'a host_vu_scheme \<Rightarrow> u32 \<Rightarrow> u32" where
  "float_to_int15 h x = h_to_s32_15 h x"

definition int4_to_float :: "'a host_vu_scheme \<Rightarrow> u32 \<Rightarrow> u32" where
  "int4_to_float h x = h_mul h (h_of_s32 h x) 0x3D800000"

definition int12_to_float :: "'a host_vu_scheme \<Rightarrow> u32 \<Rightarrow> u32" where
  "int12_to_float h x = h_mul h (h_of_s32 h x) 0x39800000"

definition int15_to_float :: "'a host_vu_scheme \<Rightarrow> u32 \<Rightarrow> u32" where
  "int15_to_float h x = h_scale15 h (h_of_s32 h x)"

definition vuFTOI0 :: "'a host_vu_scheme \<Rightarrow> VURegs \<Rightarrow> VURegs" where
  "vuFTOI0 h VU = (if rFt VU = 0 then VU else store_lanes put_Ft (\<lambda>k VU. h_to_s32 h (fsv k VU)) VU)"

definition vuFTOI4 :: "'a host_vu_scheme \<Rightarrow> VURegs \<Rightarrow> VURegs" where
  "vuFTOI4 h VU = (if rFt VU = 0 then VU else store_lanes put_Ft (\<lambda>k VU. float_to_int4 h (fsv k VU)) VU)"

definition vuFTOI12 :: "'a host_vu_scheme \<Rightarrow> VURegs \<Rightarrow> VURegs" where
  "vuFTOI12 h VU = (if rFt VU = 0 then VU else store_lanes put_Ft (\<lambda>k VU. float_to_int12 h (fsv k VU)) VU)"

definition vuFTOI15 :: "'a host_vu_scheme \<Rightarrow> VURegs \<Rightarrow> VURegs" where
  "vuFTOI15 h VU = (if rFt VU = 0 then VU else store_lanes put_Ft (\<lambda>k VU. float_to_int15 h (fsv k VU)) VU)"

definition vuITOF0 :: "'a host_vu_scheme \<Rightarrow> VURegs \<Rightarrow> VURegs" where
  "vuITOF0 h VU = (if rFt VU = 0 then VU else store_lanes put_Ft (\<lambda>k VU. h_of_s32 h (VF VU (rFs VU) k)) VU)"

definition vuITOF4 :: "'a host_vu_scheme \<Rightarrow> VURegs \<Rightarrow> VURegs" where
  "vuITOF4 h VU =
     (if rFt VU = 0 then VU
      else store_lanes put_Ft (\<lambda>k VU. int4_to_float h (VF VU (rFs VU) k)) VU)"

definition vuITOF12 :: "'a host_vu_scheme \<Rightarrow> VURegs \<Rightarrow> VURegs" where
  "vuITOF12 h VU =
     (if rFt VU = 0 then VU
      else store_lanes put_Ft (\<lambda>k VU. int12_to_float h (VF VU (rFs VU) k)) VU)"

definition vuITOF15 :: "'a host_vu_scheme \<Rightarrow> VURegs \<Rightarrow> VURegs" where
  "vuITOF15 h VU =
     (if rFt VU = 0 then VU
      else store_lanes put_Ft (\<lambda>k VU. int15_to_float h (VF VU (rFs VU) k)) VU)"

text \<open>Each coordinate is compared with the magnitude of \<open>w\<close>; the last four results are kept.\<close>

definition vuCLIP :: "'a host_vu_scheme \<Rightarrow> VURegs \<Rightarrow> VURegs" where
  "vuCLIP h VU =
     (let value = fabs (ftv 3 VU);
          c = push_bit 6 (clipflag VU);
          c = (if h_lt h value (fsv 0 VU) then c OR 0x01 else c);
          c = (if h_lt h (fsv 0 VU) (fneg value) then c OR 0x02 else c);
          c = (if h_lt h value (fsv 1 VU) then c OR 0x04 else c);
          c = (if h_lt h (fsv 1 VU) (fneg value) then c OR 0x08 else c);
          c = (if h_lt h value (fsv 2 VU) then c OR 0x10 else c);
          c = (if h_lt h (fsv 2 VU) (fneg value) then c OR 0x20 else c)
      in VU\<lparr>clipflag := c AND 0xFFFFFF\<rparr>)"

end
