(* ===== verification/VuLower.thy ===== *)
theory VuLower
  imports VuUpper
begin

text \<open>
  The lower instructions of the vector units (\<open>pcsx2/VUops.cpp\<close>): divider, integer registers, loads and
  stores, random numbers, flags, branches, the elementary functions and the kick of a GIF packet.

  The state holds both units, because VU0 reaches VU1's registers through its data memory, and the parts
  of the VIF registers that the units share with it. The graphics interface and the interrupt lines are in
  the remaining state \<open>vuExt\<close>; the environment has their operations, the host's floating point and the
  settings.
\<close>

section \<open>State and environment\<close>

datatype vuId = VU0 | VU1

record vifState =
  VEW :: bool
  vif_itop :: u32
  vif_top :: u32

record 'e vuState =
  vu0 :: VURegs
  vu1 :: VURegs
  vif0Regs :: vifState
  vif1Regs :: vifState
  vuExt :: 'e

definition vu_at :: "vuId \<Rightarrow> 'e vuState \<Rightarrow> VURegs" where
  "vu_at i S = (case i of VU0 \<Rightarrow> vu0 S | VU1 \<Rightarrow> vu1 S)"

definition put_vu :: "vuId \<Rightarrow> VURegs \<Rightarrow> 'e vuState \<Rightarrow> 'e vuState" where
  "put_vu i VU S = (case i of VU0 \<Rightarrow> S\<lparr>vu0 := VU\<rparr> | VU1 \<Rightarrow> S\<lparr>vu1 := VU\<rparr>)"

definition on_vu :: "vuId \<Rightarrow> (VURegs \<Rightarrow> VURegs) \<Rightarrow> 'e vuState \<Rightarrow> 'e vuState" where
  "on_vu i f S = put_vu i (f (vu_at i S)) S"

definition GetVifRegs :: "vuId \<Rightarrow> 'e vuState \<Rightarrow> vifState" where
  "GetVifRegs i S = (case i of VU0 \<Rightarrow> vif0Regs S | VU1 \<Rightarrow> vif1Regs S)"

text \<open>
  \<open>gs_packet_size\<close> is \<open>GetGSPacketSize\<close> for path 1, \<open>gif_copy\<close> and \<open>gif_transfer\<close> are \<open>CopyGSPacketData\<close>
  and \<open>TransferGSPacketData\<close> on a data memory, an offset and a size; \<open>thread_itop\<close> and \<open>thread_top\<close> are the
  registers of the VU1 thread.
\<close>

record 'e vu_env =
  vu_host :: host_vu
  vu_addsub_hack :: bool
  vu_thread :: bool
  thread_itop :: "'e \<Rightarrow> u32"
  thread_top :: "'e \<Rightarrow> u32"
  gs_packet_size :: "(nat \<Rightarrow> u32) \<Rightarrow> u32 \<Rightarrow> u32"
  gif_copy :: "(nat \<Rightarrow> u32) \<Rightarrow> u32 \<Rightarrow> u32 \<Rightarrow> 'e \<Rightarrow> 'e"
  gif_transfer :: "(nat \<Rightarrow> u32) \<Rightarrow> u32 \<Rightarrow> u32 \<Rightarrow> 'e \<Rightarrow> 'e"
  vu_intc :: "vuId \<Rightarrow> 'e \<Rightarrow> 'e"

section \<open>Divider\<close>

definition next_div_flags :: "VURegs \<Rightarrow> VURegs" where
  "next_div_flags VU =
     VU\<lparr>statusflag := (statusflag VU AND 0xfcf) OR push_bit 6 (statusflag VU AND 0x30)\<rparr>"

definition raise_status :: "u32 \<Rightarrow> VURegs \<Rightarrow> VURegs" where
  "raise_status f VU = VU\<lparr>statusflag := statusflag VU OR f\<rparr>"

definition set_q :: "u32 \<Rightarrow> VURegs \<Rightarrow> VURegs" where
  "set_q v VU = VU\<lparr>vq := v\<rparr>"

abbreviation (input) ftf_raw where "ftf_raw VU \<equiv> VF VU (rFt VU) (vFtf (vcode VU))"
abbreviation (input) fsf_raw where "fsf_raw VU \<equiv> VF VU (rFs VU) (vFsf (vcode VU))"

definition signs_differ :: "u32 \<Rightarrow> u32 \<Rightarrow> bool" where
  "signs_differ a b = ((a AND 0x80000000) XOR (b AND 0x80000000) \<noteq> 0)"

definition vuDIV :: "'a host_vu_scheme \<Rightarrow> VURegs \<Rightarrow> VURegs" where
  "vuDIV h VU =
     (let ft = vuDouble (ftf_raw VU); fs = vuDouble (fsf_raw VU); VU = next_div_flags VU
      in if h_eq h ft 0
         then let VU = (if h_eq h fs 0 then raise_status 0x10 VU else raise_status 0x20 VU)
              in if signs_differ (ftf_raw VU) (fsf_raw VU) then set_q 0xFF7FFFFF VU else set_q 0x7F7FFFFF VU
         else set_q (vuDouble (h_div h fs ft)) VU)"

definition vuSQRT :: "'a host_vu_scheme \<Rightarrow> VURegs \<Rightarrow> VURegs" where
  "vuSQRT h VU =
     (let ft = vuDouble (ftf_raw VU); VU = next_div_flags VU;
          VU = (if h_lt h ft 0 then raise_status 0x10 VU else VU)
      in set_q (vuDouble (h_sqrt h (fabs ft))) VU)"

definition vuRSQRT :: "'a host_vu_scheme \<Rightarrow> VURegs \<Rightarrow> VURegs" where
  "vuRSQRT h VU =
     (let ft = vuDouble (ftf_raw VU); fs = vuDouble (fsf_raw VU); VU = next_div_flags VU
      in if h_eq h ft 0
         then let VU = raise_status 0x20 VU
              in if \<not> h_eq h fs 0
                 then if signs_differ (ftf_raw VU) (fsf_raw VU) then set_q 0xFF7FFFFF VU else set_q 0x7F7FFFFF VU
                 else raise_status 0x10
                   (if signs_differ (ftf_raw VU) (fsf_raw VU) then set_q 0x80000000 VU else set_q 0 VU)
         else let VU = (if h_lt h ft 0 then raise_status 0x10 VU else VU);
                  temp = h_sqrt h (fabs ft)
              in set_q (vuDouble (h_div h fs temp)) VU)"

section \<open>Integer registers\<close>

text \<open>
  An instruction that writes an integer register keeps the old value for two instructions: a branch that
  follows still sees it.
\<close>

definition vi_backup :: "nat \<Rightarrow> nat \<Rightarrow> VURegs \<Rightarrow> VURegs" where
  "vi_backup n r VU = VU\<lparr>VIBackupCycles := 2, VIRegNumber := of_nat n, VIOldValue := ucast (US0 (VI VU r))\<rparr>"

definition imm5 :: "u32 \<Rightarrow> u16" where
  "imm5 c = (let imm = ucast (drop_bit 6 c AND 0x1f)
             in (if imm AND 0x10 \<noteq> 0 then 0xfff0 else 0) OR (imm AND 0xf))"

definition imm15 :: "u32 \<Rightarrow> u32" where
  "imm15 c = (drop_bit 10 c AND 0x7800) OR (c AND 0x7ff)"

definition vuIADDI :: "VURegs \<Rightarrow> VURegs" where
  "vuIADDI VU =
     (if rIt VU = 0 then VU
      else let VU = vi_backup (rIt VU) (rIt VU) VU
           in set_VI16 (rIt VU) (US0 (VI VU (rIs VU)) + imm5 (vcode VU)) VU)"

definition vuIADDIU :: "VURegs \<Rightarrow> VURegs" where
  "vuIADDIU VU =
     (if rIt VU = 0 then VU
      else let VU = vi_backup (rIt VU) (rIt VU) VU
           in set_VI16 (rIt VU) (US0 (VI VU (rIs VU)) + ucast (imm15 (vcode VU))) VU)"

definition vuIADD :: "VURegs \<Rightarrow> VURegs" where
  "vuIADD VU =
     (if rId VU = 0 then VU
      else let VU = vi_backup (rIt VU) (rId VU) VU
           in set_VI16 (rId VU) (US0 (VI VU (rIs VU)) + US0 (VI VU (rIt VU))) VU)"

definition vuIAND :: "VURegs \<Rightarrow> VURegs" where
  "vuIAND VU =
     (if rId VU = 0 then VU
      else let VU = vi_backup (rIt VU) (rId VU) VU
           in set_VI16 (rId VU) (US0 (VI VU (rIs VU)) AND US0 (VI VU (rIt VU))) VU)"

definition vuIOR :: "VURegs \<Rightarrow> VURegs" where
  "vuIOR VU =
     (if rId VU = 0 then VU
      else let VU = vi_backup (rIt VU) (rId VU) VU
           in set_VI16 (rId VU) (US0 (VI VU (rIs VU)) OR US0 (VI VU (rIt VU))) VU)"

definition vuISUB :: "VURegs \<Rightarrow> VURegs" where
  "vuISUB VU =
     (if rId VU = 0 then VU
      else let VU = vi_backup (rIt VU) (rId VU) VU
           in set_VI16 (rId VU) (US0 (VI VU (rIs VU)) - US0 (VI VU (rIt VU))) VU)"

definition vuISUBIU :: "VURegs \<Rightarrow> VURegs" where
  "vuISUBIU VU =
     (if rIt VU = 0 then VU
      else let VU = vi_backup (rIt VU) (rIt VU) VU
           in set_VI16 (rIt VU) (US0 (VI VU (rIs VU)) - ucast (imm15 (vcode VU))) VU)"

section \<open>Moves\<close>

definition vuMOVE :: "VURegs \<Rightarrow> VURegs" where
  "vuMOVE VU = (if rFt VU = 0 then VU else store_lanes put_Ft (\<lambda>k VU. VF VU (rFs VU) k) VU)"

definition vuMFIR :: "VURegs \<Rightarrow> VURegs" where
  "vuMFIR VU = (if rFt VU = 0 then VU else store_lanes put_Ft (\<lambda>k VU. scast (US0 (VI VU (rIs VU)))) VU)"

definition vuMTIR :: "VURegs \<Rightarrow> VURegs" where
  "vuMTIR VU =
     (if rIt VU = 0 then VU
      else let VU = vi_backup (rIt VU) (rIt VU) VU in set_VI16 (rIt VU) (US0 (fsf_raw VU)) VU)"

definition vuMR32 :: "VURegs \<Rightarrow> VURegs" where
  "vuMR32 VU =
     (if rFt VU = 0 then VU
      else let tx = VF VU (rFs VU) 0
           in store_lanes put_Ft (\<lambda>k VU. if k = 3 then tx else VF VU (rFs VU) (k + 1)) VU)"

section \<open>Data memory\<close>

text \<open>
  \<open>GET_VU_MEM\<close>: an address of VU0 with bit 14 set is in VU1's registers. The pointer is given in words;
  the registers are laid out with the floats first.
\<close>

datatype vuLoc = MemLoc vuId nat | RegLoc nat

definition GET_VU_MEM :: "vuId \<Rightarrow> u32 \<Rightarrow> vuLoc" where
  "GET_VU_MEM i addr =
     (if i = VU1 then MemLoc VU1 (unat (addr AND 0x3fff) div 4)
      else if addr AND 0x4000 \<noteq> 0 then RegLoc (unat (addr AND 0x3ff) div 4)
      else MemLoc VU0 (unat (addr AND 0xfff) div 4))"

definition vu_read :: "vuLoc \<Rightarrow> nat \<Rightarrow> 'e vuState \<Rightarrow> u32" where
  "vu_read p j S =
     (case p of
        MemLoc i w \<Rightarrow> vMem (vu_at i S) (w + j)
      | RegLoc w \<Rightarrow>
          let n = w + j; r = n div 4 - 32
          in if n < 128 then VF (vu1 S) (n div 4) (n mod 4)
             else if n mod 4 = 0 then VI (vu1 S) r
             else VIpad (vu1 S) r (n mod 4))"

definition set_pad :: "nat \<Rightarrow> nat \<Rightarrow> u32 \<Rightarrow> VURegs \<Rightarrow> VURegs" where
  "set_pad r k v VU = VU\<lparr>VIpad := (VIpad VU)(r := (VIpad VU r)(k := v))\<rparr>"

definition set_Mem :: "nat \<Rightarrow> u32 \<Rightarrow> VURegs \<Rightarrow> VURegs" where
  "set_Mem w v VU = VU\<lparr>vMem := (vMem VU)(w := v)\<rparr>"

definition vu_write :: "vuLoc \<Rightarrow> nat \<Rightarrow> u32 \<Rightarrow> 'e vuState \<Rightarrow> 'e vuState" where
  "vu_write p j v S =
     (case p of
        MemLoc i w \<Rightarrow> on_vu i (set_Mem (w + j) v) S
      | RegLoc w \<Rightarrow>
          let n = w + j; r = n div 4 - 32
          in if n < 128 then on_vu VU1 (set_VF (n div 4) (n mod 4) v) S
             else if n mod 4 = 0 then on_vu VU1 (set_VI r v) S
             else on_vu VU1 (set_pad r (n mod 4) v) S)"

text \<open>The four lanes of a load into \<open>VF[_Ft_]\<close>, of a store of \<open>VF[_Fs_]\<close>, and their 16-bit counterparts.\<close>

definition load_lane :: "vuId \<Rightarrow> vuLoc \<Rightarrow> nat \<Rightarrow> 'e vuState \<Rightarrow> 'e vuState" where
  "load_lane i p k S =
     (if lane_on (vcode (vu_at i S)) k then on_vu i (put_Ft k (vu_read p k S)) S else S)"

definition load_lanes :: "vuId \<Rightarrow> vuLoc \<Rightarrow> 'e vuState \<Rightarrow> 'e vuState" where
  "load_lanes i p S = fold (load_lane i p) [0, 1, 2, 3] S"

definition save_lane :: "vuId \<Rightarrow> vuLoc \<Rightarrow> nat \<Rightarrow> 'e vuState \<Rightarrow> 'e vuState" where
  "save_lane i p k S =
     (let VU = vu_at i S
      in if lane_on (vcode VU) k then vu_write p k (VF VU (rFs VU) k) S else S)"

definition save_lanes :: "vuId \<Rightarrow> vuLoc \<Rightarrow> 'e vuState \<Rightarrow> 'e vuState" where
  "save_lanes i p S = fold (save_lane i p) [0, 1, 2, 3] S"

definition load_int_lane :: "vuId \<Rightarrow> vuLoc \<Rightarrow> nat \<Rightarrow> 'e vuState \<Rightarrow> 'e vuState" where
  "load_int_lane i p k S =
     (let VU = vu_at i S
      in if lane_on (vcode VU) k then on_vu i (set_VI16 (rIt VU) (US0 (vu_read p k S))) S else S)"

definition load_int_lanes :: "vuId \<Rightarrow> vuLoc \<Rightarrow> 'e vuState \<Rightarrow> 'e vuState" where
  "load_int_lanes i p S = fold (load_int_lane i p) [0, 1, 2, 3] S"

definition save_int_lane :: "vuId \<Rightarrow> vuLoc \<Rightarrow> nat \<Rightarrow> 'e vuState \<Rightarrow> 'e vuState" where
  "save_int_lane i p k S =
     (let VU = vu_at i S
      in if lane_on (vcode VU) k then vu_write p k (ucast (US0 (VI VU (rIt VU)))) S else S)"

definition save_int_lanes :: "vuId \<Rightarrow> vuLoc \<Rightarrow> 'e vuState \<Rightarrow> 'e vuState" where
  "save_int_lanes i p S = fold (save_int_lane i p) [0, 1, 2, 3] S"

text \<open>Addresses: a 16-bit sum with the immediate, or a register scaled without truncation.\<close>

definition imm11 :: "u32 \<Rightarrow> u16" where
  "imm11 c = (if c AND 0x400 \<noteq> 0 then ucast (c AND 0x3ff) OR 0xfc00 else ucast (c AND 0x3ff))"

definition imm_addr :: "nat \<Rightarrow> VURegs \<Rightarrow> u32" where
  "imm_addr r VU = ucast ((imm11 (vcode VU) + US0 (VI VU r)) * 16)"

definition reg_addr :: "nat \<Rightarrow> VURegs \<Rightarrow> u32" where
  "reg_addr r VU = ucast (US0 (VI VU r)) * 16"

definition VI_inc :: "nat \<Rightarrow> VURegs \<Rightarrow> VURegs" where
  "VI_inc r VU = set_VI16 r (US0 (VI VU r) + 1) VU"

definition VI_dec :: "nat \<Rightarrow> VURegs \<Rightarrow> VURegs" where
  "VI_dec r VU = set_VI16 r (US0 (VI VU r) - 1) VU"

definition vuLQ :: "vuId \<Rightarrow> 'e vuState \<Rightarrow> 'e vuState" where
  "vuLQ i S =
     (let VU = vu_at i S
      in if rFt VU = 0 then S else load_lanes i (GET_VU_MEM i (imm_addr (rIs VU) VU)) S)"

definition vuLQD :: "vuId \<Rightarrow> 'e vuState \<Rightarrow> 'e vuState" where
  "vuLQD i S =
     (let VU = vu_at i S;
          S = (if rIs VU \<noteq> 0 then on_vu i (VI_dec (rIs VU)) S else S);
          VU = vu_at i S
      in if rFt VU = 0 then S else load_lanes i (GET_VU_MEM i (reg_addr (rIs VU) VU)) S)"

definition vuLQI :: "vuId \<Rightarrow> 'e vuState \<Rightarrow> 'e vuState" where
  "vuLQI i S =
     (let VU = vu_at i S;
          S = (if rFt VU \<noteq> 0 then load_lanes i (GET_VU_MEM i (reg_addr (rIs VU) VU)) S else S)
      in if rFs VU \<noteq> 0 then on_vu i (VI_inc (rIs VU)) S else S)"

definition vuSQ :: "vuId \<Rightarrow> 'e vuState \<Rightarrow> 'e vuState" where
  "vuSQ i S =
     (let VU = vu_at i S in save_lanes i (GET_VU_MEM i (imm_addr (rIt VU) VU)) S)"

definition vuSQD :: "vuId \<Rightarrow> 'e vuState \<Rightarrow> 'e vuState" where
  "vuSQD i S =
     (let VU = vu_at i S;
          S = (if rFt VU \<noteq> 0 then on_vu i (VI_dec (rIt VU)) S else S);
          VU = vu_at i S
      in save_lanes i (GET_VU_MEM i (reg_addr (rIt VU) VU)) S)"

definition vuSQI :: "vuId \<Rightarrow> 'e vuState \<Rightarrow> 'e vuState" where
  "vuSQI i S =
     (let VU = vu_at i S;
          S = save_lanes i (GET_VU_MEM i (reg_addr (rIt VU) VU)) S
      in if rFt VU \<noteq> 0 then on_vu i (VI_inc (rIt VU)) S else S)"

definition vuILW :: "vuId \<Rightarrow> 'e vuState \<Rightarrow> 'e vuState" where
  "vuILW i S =
     (let VU = vu_at i S
      in if rIt VU = 0 then S
         else let p = GET_VU_MEM i (imm_addr (rIs VU) VU);
                  S = on_vu i (vi_backup (rIt VU) (rIt VU)) S
              in load_int_lanes i p S)"

definition vuISW :: "vuId \<Rightarrow> 'e vuState \<Rightarrow> 'e vuState" where
  "vuISW i S =
     (let VU = vu_at i S in save_int_lanes i (GET_VU_MEM i (imm_addr (rIs VU) VU)) S)"

definition vuILWR :: "vuId \<Rightarrow> 'e vuState \<Rightarrow> 'e vuState" where
  "vuILWR i S =
     (let VU = vu_at i S
      in if rIt VU = 0 then S
         else let p = GET_VU_MEM i (reg_addr (rIs VU) VU);
                  S = on_vu i (vi_backup (rIt VU) (rIt VU)) S
              in load_int_lanes i p S)"

definition vuISWR :: "vuId \<Rightarrow> 'e vuState \<Rightarrow> 'e vuState" where
  "vuISWR i S =
     (let VU = vu_at i S in save_int_lanes i (GET_VU_MEM i (reg_addr (rIs VU) VU)) S)"

section \<open>Random numbers\<close>

text \<open>The register \<open>R\<close> is a shift register of 23 bits in the mantissa of a float between 1 and 2.\<close>

definition AdvanceLFSR :: "VURegs \<Rightarrow> VURegs" where
  "AdvanceLFSR VU =
     (let x = drop_bit 4 (VI VU REG_R) AND 1;
          y = drop_bit 22 (VI VU REG_R) AND 1;
          r = push_bit 1 (VI VU REG_R);
          r = r XOR (x XOR y)
      in set_VI REG_R ((r AND 0x7fffff) OR 0x3f800000) VU)"

definition vuRINIT :: "VURegs \<Rightarrow> VURegs" where
  "vuRINIT VU = set_VI REG_R (0x3F800000 OR (fsf_raw VU AND 0x007FFFFF)) VU"

definition vuRGET :: "VURegs \<Rightarrow> VURegs" where
  "vuRGET VU = (if rFt VU = 0 then VU else store_lanes put_Ft (\<lambda>k VU. VI VU REG_R) VU)"

definition vuRNEXT :: "VURegs \<Rightarrow> VURegs" where
  "vuRNEXT VU =
     (if rFt VU = 0 then VU
      else let VU = AdvanceLFSR VU in store_lanes put_Ft (\<lambda>k VU. VI VU REG_R) VU)"

definition vuRXOR :: "VURegs \<Rightarrow> VURegs" where
  "vuRXOR VU = set_VI REG_R (0x3F800000 OR ((VI VU REG_R XOR fsf_raw VU) AND 0x007FFFFF)) VU"

definition vuWAITQ :: "VURegs \<Rightarrow> VURegs" where
  "vuWAITQ VU = VU"

section \<open>Flags\<close>

definition imm12 :: "u32 \<Rightarrow> u16" where
  "imm12 c = ucast (push_bit 11 (drop_bit 21 c AND 0x1) OR (c AND 0x7ff))"

definition vuFSAND :: "VURegs \<Rightarrow> VURegs" where
  "vuFSAND VU =
     (if rIt VU = 0 then VU
      else set_VI16 (rIt VU) ((US0 (VI VU REG_STATUS_FLAG) AND 0xFFF) AND imm12 (vcode VU)) VU)"

definition vuFSEQ :: "VURegs \<Rightarrow> VURegs" where
  "vuFSEQ VU =
     (if rIt VU = 0 then VU
      else if US0 (VI VU REG_STATUS_FLAG) AND 0xFFF = imm12 (vcode VU) then set_VI16 (rIt VU) 1 VU
      else set_VI16 (rIt VU) 0 VU)"

definition vuFSOR :: "VURegs \<Rightarrow> VURegs" where
  "vuFSOR VU =
     (if rIt VU = 0 then VU
      else set_VI16 (rIt VU) ((US0 (VI VU REG_STATUS_FLAG) AND 0xFFF) OR imm12 (vcode VU)) VU)"

definition vuFSSET :: "VURegs \<Rightarrow> VURegs" where
  "vuFSSET VU =
     VU\<lparr>statusflag := ucast (imm12 (vcode VU) AND 0xFC0) OR ucast (US0 (VI VU REG_STATUS_FLAG) AND 0x3F)\<rparr>"

definition vuFMAND :: "VURegs \<Rightarrow> VURegs" where
  "vuFMAND VU =
     (if rIt VU = 0 then VU
      else set_VI16 (rIt VU) (US0 (VI VU (rIs VU)) AND ucast (VI VU REG_MAC_FLAG AND 0xFFFF)) VU)"

definition vuFMEQ :: "VURegs \<Rightarrow> VURegs" where
  "vuFMEQ VU =
     (if rIt VU = 0 then VU
      else if VI VU REG_MAC_FLAG AND 0xFFFF = ucast (US0 (VI VU (rIs VU))) then set_VI16 (rIt VU) 1 VU
      else set_VI16 (rIt VU) 0 VU)"

definition vuFMOR :: "VURegs \<Rightarrow> VURegs" where
  "vuFMOR VU =
     (if rIt VU = 0 then VU
      else set_VI16 (rIt VU) (ucast (VI VU REG_MAC_FLAG AND 0xFFFF) OR US0 (VI VU (rIs VU))) VU)"

definition vuFCAND :: "VURegs \<Rightarrow> VURegs" where
  "vuFCAND VU =
     (if (VI VU REG_CLIP_FLAG AND 0xFFFFFF) AND (vcode VU AND 0xFFFFFF) \<noteq> 0 then set_VI16 1 1 VU
      else set_VI16 1 0 VU)"

definition vuFCEQ :: "VURegs \<Rightarrow> VURegs" where
  "vuFCEQ VU =
     (if VI VU REG_CLIP_FLAG AND 0xFFFFFF = vcode VU AND 0xFFFFFF then set_VI16 1 1 VU else set_VI16 1 0 VU)"

definition vuFCOR :: "VURegs \<Rightarrow> VURegs" where
  "vuFCOR VU =
     (let hold = (VI VU REG_CLIP_FLAG AND 0xFFFFFF) OR (vcode VU AND 0xFFFFFF)
      in if hold = 0xFFFFFF then set_VI16 1 1 VU else set_VI16 1 0 VU)"

definition vuFCSET :: "VURegs \<Rightarrow> VURegs" where
  "vuFCSET VU = set_VI REG_CLIP_FLAG (vcode VU AND 0xFFFFFF) (VU\<lparr>clipflag := vcode VU AND 0xFFFFFF\<rparr>)"

definition vuFCGET :: "VURegs \<Rightarrow> VURegs" where
  "vuFCGET VU =
     (if rIt VU = 0 then VU else set_VI16 (rIt VU) (ucast (VI VU REG_CLIP_FLAG AND 0x0FFF)) VU)"

section \<open>Branches\<close>

definition branchAddr :: "vuId \<Rightarrow> VURegs \<Rightarrow> u32" where
  "branchAddr i VU =
     (let c = vcode VU;
          Imm11 = (if c AND 0x400 \<noteq> 0 then 0xfffffc00 OR (c AND 0x3ff) else c AND 0x3ff);
          bpc = VI VU REG_TPC + Imm11 * 8
      in bpc AND (if i = VU1 then 0x3fff else 0x0fff))"

definition setBranch :: "u32 \<Rightarrow> VURegs \<Rightarrow> VURegs" where
  "setBranch bpc VU =
     (if vbranch VU = 1 then VU\<lparr>delaybranchpc := bpc, takedelaybranch := True\<rparr>
      else VU\<lparr>vbranch := 2, branchpc := bpc\<rparr>)"

text \<open>An operand of a conditional branch: the old value while it is kept.\<close>

definition branch_operand :: "nat \<Rightarrow> VURegs \<Rightarrow> u16" where
  "branch_operand n VU =
     (if 0 < VIBackupCycles VU \<and> VIRegNumber VU = of_nat n then ucast (VIOldValue VU) else US0 (VI VU n))"

definition vu_branch_if :: "vuId \<Rightarrow> bool \<Rightarrow> VURegs \<Rightarrow> VURegs" where
  "vu_branch_if i c VU = (if c then setBranch (branchAddr i VU) VU else VU)"

definition vuIBEQ :: "vuId \<Rightarrow> VURegs \<Rightarrow> VURegs" where
  "vuIBEQ i VU = vu_branch_if i (branch_operand (rIt VU) VU = branch_operand (rIs VU) VU) VU"

definition vuIBGEZ :: "vuId \<Rightarrow> VURegs \<Rightarrow> VURegs" where
  "vuIBGEZ i VU = vu_branch_if i (0 \<le>s branch_operand (rIs VU) VU) VU"

definition vuIBGTZ :: "vuId \<Rightarrow> VURegs \<Rightarrow> VURegs" where
  "vuIBGTZ i VU = vu_branch_if i (0 <s branch_operand (rIs VU) VU) VU"

definition vuIBLEZ :: "vuId \<Rightarrow> VURegs \<Rightarrow> VURegs" where
  "vuIBLEZ i VU = vu_branch_if i (branch_operand (rIs VU) VU \<le>s 0) VU"

definition vuIBLTZ :: "vuId \<Rightarrow> VURegs \<Rightarrow> VURegs" where
  "vuIBLTZ i VU = vu_branch_if i (branch_operand (rIs VU) VU <s 0) VU"

definition vuIBNE :: "vuId \<Rightarrow> VURegs \<Rightarrow> VURegs" where
  "vuIBNE i VU = vu_branch_if i (branch_operand (rIt VU) VU \<noteq> branch_operand (rIs VU) VU) VU"

definition vuB :: "vuId \<Rightarrow> VURegs \<Rightarrow> VURegs" where
  "vuB i VU = setBranch (branchAddr i VU) VU"

definition vu_link :: "VURegs \<Rightarrow> VURegs" where
  "vu_link VU =
     (if rIt VU \<noteq> 0
      then if vbranch VU = 1 then set_VI16 (rIt VU) (ucast ((branchpc VU + 8) div 8)) VU
           else set_VI16 (rIt VU) (ucast ((VI VU REG_TPC + 8) div 8)) VU
      else VU)"

definition vuBAL :: "vuId \<Rightarrow> VURegs \<Rightarrow> VURegs" where
  "vuBAL i VU = (let bpc = branchAddr i VU in setBranch bpc (vu_link VU))"

definition vuJR :: "VURegs \<Rightarrow> VURegs" where
  "vuJR VU = (let bpc = ucast (US0 (VI VU (rIs VU))) * 8 in setBranch bpc VU)"

definition vuJALR :: "VURegs \<Rightarrow> VURegs" where
  "vuJALR VU = (let bpc = ucast (US0 (VI VU (rIs VU))) * 8 in setBranch bpc (vu_link VU))"

section \<open>Elementary functions\<close>

definition set_p :: "u32 \<Rightarrow> VURegs \<Rightarrow> VURegs" where
  "set_p v VU = VU\<lparr>vp := v\<rparr>"

definition vuMFP :: "VURegs \<Rightarrow> VURegs" where
  "vuMFP VU = (if rFt VU = 0 then VU else store_lanes put_Ft (\<lambda>k VU. VI VU REG_P) VU)"

definition vuWAITP :: "VURegs \<Rightarrow> VURegs" where
  "vuWAITP VU = VU"

definition sum_squares :: "'a host_vu_scheme \<Rightarrow> VURegs \<Rightarrow> u32" where
  "sum_squares h VU =
     h_add h (h_add h (h_mul h (fsv 0 VU) (fsv 0 VU)) (h_mul h (fsv 1 VU) (fsv 1 VU)))
       (h_mul h (fsv 2 VU) (fsv 2 VU))"

abbreviation (input) one_f :: u32 where "one_f \<equiv> 0x3F800000"

definition vuESADD :: "'a host_vu_scheme \<Rightarrow> VURegs \<Rightarrow> VURegs" where
  "vuESADD h VU = set_p (sum_squares h VU) VU"

definition vuERSADD :: "'a host_vu_scheme \<Rightarrow> VURegs \<Rightarrow> VURegs" where
  "vuERSADD h VU =
     (let p = sum_squares h VU; p = (if \<not> h_eq h p 0 then h_div h one_f p else p) in set_p p VU)"

definition vuELENG :: "'a host_vu_scheme \<Rightarrow> VURegs \<Rightarrow> VURegs" where
  "vuELENG h VU =
     (let p = sum_squares h VU; p = (if h_le h 0 p then h_sqrt h p else p) in set_p p VU)"

text \<open>The reciprocal square root that \<open>_vuERLENG\<close> and \<open>_vuERSQRT\<close> share.\<close>

definition rsqrt_or_self :: "'a host_vu_scheme \<Rightarrow> u32 \<Rightarrow> u32" where
  "rsqrt_or_self h p =
     (if h_le h 0 p then let p = h_sqrt h p in if \<not> h_eq h p 0 then h_div h one_f p else p else p)"

definition vuERLENG :: "'a host_vu_scheme \<Rightarrow> VURegs \<Rightarrow> VURegs" where
  "vuERLENG h VU = set_p (rsqrt_or_self h (sum_squares h VU)) VU"

definition vuEATANxy :: "'a host_vu_scheme \<Rightarrow> VURegs \<Rightarrow> VURegs" where
  "vuEATANxy h VU =
     (let p = (if \<not> h_eq h (fsv 0 VU) 0 then h_atan2 h (fsv 1 VU) (fsv 0 VU) else 0) in set_p p VU)"

definition vuEATANxz :: "'a host_vu_scheme \<Rightarrow> VURegs \<Rightarrow> VURegs" where
  "vuEATANxz h VU =
     (let p = (if \<not> h_eq h (fsv 0 VU) 0 then h_atan2 h (fsv 2 VU) (fsv 0 VU) else 0) in set_p p VU)"

definition vuESUM :: "'a host_vu_scheme \<Rightarrow> VURegs \<Rightarrow> VURegs" where
  "vuESUM h VU = set_p (h_add h (h_add h (h_add h (fsv 0 VU) (fsv 1 VU)) (fsv 2 VU)) (fsv 3 VU)) VU"

definition vuERCPR :: "'a host_vu_scheme \<Rightarrow> VURegs \<Rightarrow> VURegs" where
  "vuERCPR h VU =
     (let p = vuDouble (fsf_raw VU); p = (if \<not> h_eq h p 0 then h_recip h p else p) in set_p p VU)"

definition vuESQRT :: "'a host_vu_scheme \<Rightarrow> VURegs \<Rightarrow> VURegs" where
  "vuESQRT h VU =
     (let p = vuDouble (fsf_raw VU); p = (if h_le h 0 p then h_sqrt h p else p) in set_p p VU)"

definition vuERSQRT :: "'a host_vu_scheme \<Rightarrow> VURegs \<Rightarrow> VURegs" where
  "vuERSQRT h VU = set_p (rsqrt_or_self h (vuDouble (fsf_raw VU))) VU"

definition vuESIN :: "'a host_vu_scheme \<Rightarrow> VURegs \<Rightarrow> VURegs" where
  "vuESIN h VU = set_p (h_sin h (vuDouble (fsf_raw VU))) VU"

definition vuEATAN :: "'a host_vu_scheme \<Rightarrow> VURegs \<Rightarrow> VURegs" where
  "vuEATAN h VU = set_p (h_atan h (vuDouble (fsf_raw VU))) VU"

definition vuEEXP :: "'a host_vu_scheme \<Rightarrow> VURegs \<Rightarrow> VURegs" where
  "vuEEXP h VU = set_p (h_exp h (fneg (vuDouble (fsf_raw VU)))) VU"

section \<open>VIF and GIF\<close>

definition vuXITOP :: "'e vu_env \<Rightarrow> vuId \<Rightarrow> 'e vuState \<Rightarrow> 'e vuState" where
  "vuXITOP env i S =
     (let VU = vu_at i S
      in if rIt VU = 0 then S
         else if i = VU1 \<and> vu_thread env then on_vu i (set_VI16 (rIt VU) (ucast (thread_itop env (vuExt S)))) S
         else on_vu i (set_VI16 (rIt VU) (ucast (vif_itop (GetVifRegs i S)))) S)"

definition vuXTOP :: "'e vu_env \<Rightarrow> vuId \<Rightarrow> 'e vuState \<Rightarrow> 'e vuState" where
  "vuXTOP env i S =
     (let VU = vu_at i S
      in if rIt VU = 0 then S
         else if i = VU1 \<and> vu_thread env then on_vu i (set_VI16 (rIt VU) (ucast (thread_top env (vuExt S)))) S
         else on_vu i (set_VI16 (rIt VU) (ucast (vif_top (GetVifRegs i S)))) S)"

definition vuXGKICK :: "'e vu_env \<Rightarrow> vuId \<Rightarrow> 'e vuState \<Rightarrow> 'e vuState" where
  "vuXGKICK env i S =
     (let S = on_vu i vuFlushAll S;
          VU = vu_at i S;
          addr = (ucast (US0 (VI VU (rIs VU))) AND 0x3ff) * 16;
          diff = 0x4000 - addr;
          n = gs_packet_size env (vMem VU) addr
      in if diff < n
         then S\<lparr>vuExt := gif_transfer env (vMem VU) 0 (n - diff) (gif_copy env (vMem VU) addr diff (vuExt S))\<rparr>
         else S\<lparr>vuExt := gif_transfer env (vMem VU) addr n (vuExt S)\<rparr>)"

end
