(* ===== verification/VuRegsN.thy ===== *)
theory VuRegsN
  imports Vu
begin

text \<open>
  What the decoder of the vector units reports about each instruction (the functions \<open>_vuRegs...\<close> of
  \<open>pcsx2/VUops.cpp\<close> and the macros \<open>VUREGS_...\<close> that generate most of them): its pipe and the registers
  it reads and writes. Each writes some fields of a \<open>VURegsNum\<close>; the others keep what the caller's
  variable held, which the interpreters do not initialise.
\<close>

definition vbit :: "nat \<Rightarrow> u32" where
  "vbit n = push_bit n 1"

definition GET_VF0_FLAG :: "nat \<Rightarrow> u32" where
  "GET_VF0_FLAG reg = (if reg = 0 then vbit REG_VF0_FLAG else 0)"

definition VUREGS_FDFSI :: "bool \<Rightarrow> VURegs \<Rightarrow> VURegsNum \<Rightarrow> VURegsNum" where
  "VUREGS_FDFSI acc VU r =
     r\<lparr>pipe := VUPIPE_FMAC, VFwrite := rFd VU, VFwxyzw := vXYZW (vcode VU), VFread0 := rFs VU,
        VFr0xyzw := vXYZW (vcode VU), VFread1 := 0, VIwrite := 0,
        VIread := vbit REG_I OR (if acc then vbit REG_ACC_FLAG else 0) OR GET_VF0_FLAG (rFs VU)\<rparr>"

definition VUREGS_FDFSQ :: "bool \<Rightarrow> VURegs \<Rightarrow> VURegsNum \<Rightarrow> VURegsNum" where
  "VUREGS_FDFSQ acc VU r =
     r\<lparr>pipe := VUPIPE_FMAC, VFwrite := rFd VU, VFwxyzw := vXYZW (vcode VU), VFread0 := rFs VU,
        VFr0xyzw := vXYZW (vcode VU), VFread1 := 0, VIwrite := 0,
        VIread := vbit REG_Q OR (if acc then vbit REG_ACC_FLAG else 0) OR GET_VF0_FLAG (rFs VU)\<rparr>"

definition VUREGS_FDFSFT :: "bool \<Rightarrow> VURegs \<Rightarrow> VURegsNum \<Rightarrow> VURegsNum" where
  "VUREGS_FDFSFT acc VU r =
     r\<lparr>pipe := VUPIPE_FMAC, VFwrite := rFd VU, VFwxyzw := vXYZW (vcode VU), VFread0 := rFs VU,
        VFr0xyzw := vXYZW (vcode VU), VFread1 := rFt VU, VFr1xyzw := vXYZW (vcode VU), VIwrite := 0,
        VIread := (if acc then vbit REG_ACC_FLAG else 0) OR GET_VF0_FLAG (rFs VU) OR GET_VF0_FLAG (rFt VU)\<rparr>"

definition VUREGS_FDFSFTxyzw :: "nat \<Rightarrow> bool \<Rightarrow> VURegs \<Rightarrow> VURegsNum \<Rightarrow> VURegsNum" where
  "VUREGS_FDFSFTxyzw xyzw acc VU r =
     r\<lparr>pipe := VUPIPE_FMAC, VFwrite := rFd VU, VFwxyzw := vXYZW (vcode VU), VFread0 := rFs VU,
        VFr0xyzw := vXYZW (vcode VU), VFread1 := rFt VU, VFr1xyzw := xyzw, VIwrite := 0,
        VIread := (if acc then vbit REG_ACC_FLAG else 0) OR GET_VF0_FLAG (rFs VU) OR GET_VF0_FLAG (rFt VU)\<rparr>"

definition VUREGS_FDFSFTx :: "bool \<Rightarrow> VURegs \<Rightarrow> VURegsNum \<Rightarrow> VURegsNum" where
  "VUREGS_FDFSFTx acc VU r = VUREGS_FDFSFTxyzw 8 acc VU r"

definition VUREGS_FDFSFTy :: "bool \<Rightarrow> VURegs \<Rightarrow> VURegsNum \<Rightarrow> VURegsNum" where
  "VUREGS_FDFSFTy acc VU r = VUREGS_FDFSFTxyzw 4 acc VU r"

definition VUREGS_FDFSFTz :: "bool \<Rightarrow> VURegs \<Rightarrow> VURegsNum \<Rightarrow> VURegsNum" where
  "VUREGS_FDFSFTz acc VU r = VUREGS_FDFSFTxyzw 2 acc VU r"

definition VUREGS_FDFSFTw :: "bool \<Rightarrow> VURegs \<Rightarrow> VURegsNum \<Rightarrow> VURegsNum" where
  "VUREGS_FDFSFTw acc VU r = VUREGS_FDFSFTxyzw 1 acc VU r"

definition VUREGS_ACCFSI :: "bool \<Rightarrow> VURegs \<Rightarrow> VURegsNum \<Rightarrow> VURegsNum" where
  "VUREGS_ACCFSI readacc VU r =
     r\<lparr>pipe := VUPIPE_FMAC, VFwrite := 0, VFwxyzw := vXYZW (vcode VU), VFread0 := rFs VU,
        VFr0xyzw := vXYZW (vcode VU), VFread1 := 0, VIwrite := vbit REG_ACC_FLAG,
        VIread := vbit REG_I OR GET_VF0_FLAG (rFs VU) OR (if readacc \<or> vXYZW (vcode VU) \<noteq> 15 then vbit REG_ACC_FLAG else 0)\<rparr>"

definition VUREGS_ACCFSQ :: "bool \<Rightarrow> VURegs \<Rightarrow> VURegsNum \<Rightarrow> VURegsNum" where
  "VUREGS_ACCFSQ readacc VU r =
     r\<lparr>pipe := VUPIPE_FMAC, VFwrite := 0, VFwxyzw := vXYZW (vcode VU), VFread0 := rFs VU,
        VFr0xyzw := vXYZW (vcode VU), VFread1 := 0, VIwrite := vbit REG_ACC_FLAG,
        VIread := vbit REG_Q OR GET_VF0_FLAG (rFs VU) OR (if readacc \<or> vXYZW (vcode VU) \<noteq> 15 then vbit REG_ACC_FLAG else 0)\<rparr>"

definition VUREGS_ACCFSFT :: "bool \<Rightarrow> VURegs \<Rightarrow> VURegsNum \<Rightarrow> VURegsNum" where
  "VUREGS_ACCFSFT readacc VU r =
     r\<lparr>pipe := VUPIPE_FMAC, VFwrite := 0, VFwxyzw := vXYZW (vcode VU), VFread0 := rFs VU,
        VFr0xyzw := vXYZW (vcode VU), VFread1 := rFt VU, VFr1xyzw := vXYZW (vcode VU),
        VIwrite := vbit REG_ACC_FLAG,
        VIread := GET_VF0_FLAG (rFs VU) OR GET_VF0_FLAG (rFt VU) OR (if readacc \<or> vXYZW (vcode VU) \<noteq> 15 then vbit REG_ACC_FLAG else 0)\<rparr>"

definition VUREGS_ACCFSFTxyzw :: "nat \<Rightarrow> bool \<Rightarrow> VURegs \<Rightarrow> VURegsNum \<Rightarrow> VURegsNum" where
  "VUREGS_ACCFSFTxyzw xyzw readacc VU r =
     r\<lparr>pipe := VUPIPE_FMAC, VFwrite := 0, VFwxyzw := vXYZW (vcode VU), VFread0 := rFs VU,
        VFr0xyzw := vXYZW (vcode VU), VFread1 := rFt VU, VFr1xyzw := xyzw, VIwrite := vbit REG_ACC_FLAG,
        VIread := GET_VF0_FLAG (rFs VU) OR GET_VF0_FLAG (rFt VU) OR (if readacc \<or> vXYZW (vcode VU) \<noteq> 15 then vbit REG_ACC_FLAG else 0)\<rparr>"

definition VUREGS_ACCFSFTx :: "bool \<Rightarrow> VURegs \<Rightarrow> VURegsNum \<Rightarrow> VURegsNum" where
  "VUREGS_ACCFSFTx readacc VU r = VUREGS_ACCFSFTxyzw 8 readacc VU r"

definition VUREGS_ACCFSFTy :: "bool \<Rightarrow> VURegs \<Rightarrow> VURegsNum \<Rightarrow> VURegsNum" where
  "VUREGS_ACCFSFTy readacc VU r = VUREGS_ACCFSFTxyzw 4 readacc VU r"

definition VUREGS_ACCFSFTz :: "bool \<Rightarrow> VURegs \<Rightarrow> VURegsNum \<Rightarrow> VURegsNum" where
  "VUREGS_ACCFSFTz readacc VU r = VUREGS_ACCFSFTxyzw 2 readacc VU r"

definition VUREGS_ACCFSFTw :: "bool \<Rightarrow> VURegs \<Rightarrow> VURegsNum \<Rightarrow> VURegsNum" where
  "VUREGS_ACCFSFTw readacc VU r = VUREGS_ACCFSFTxyzw 1 readacc VU r"

definition VUREGS_FTFS :: "VURegs \<Rightarrow> VURegsNum \<Rightarrow> VURegsNum" where
  "VUREGS_FTFS VU r =
     r\<lparr>pipe := VUPIPE_FMAC, VFwrite := rFt VU, VFwxyzw := vXYZW (vcode VU), VFread0 := rFs VU,
        VFr0xyzw := vXYZW (vcode VU), VFread1 := 0, VFr1xyzw := 0xff, VIwrite := 0,
        VIread := (if rFt VU \<noteq> 0 then GET_VF0_FLAG (rFs VU) else 0)\<rparr>"

definition VUREGS_IDISIT :: "VURegs \<Rightarrow> VURegsNum \<Rightarrow> VURegsNum" where
  "VUREGS_IDISIT VU r =
     r\<lparr>pipe := VUPIPE_IALU, VFwrite := 0, VFread0 := 0, VFread1 := 0, VIwrite := vbit (rId VU),
        VIread := vbit (rIs VU) OR vbit (rIt VU), cycles := 0\<rparr>"

definition VUREGS_ITIS :: "VURegs \<Rightarrow> VURegsNum \<Rightarrow> VURegsNum" where
  "VUREGS_ITIS VU r =
     r\<lparr>pipe := VUPIPE_IALU, VFwrite := 0, VFread0 := 0, VFread1 := 0, VIwrite := vbit (rIt VU),
        VIread := vbit (rIs VU), cycles := 0\<rparr>"

definition VUREGS_PFS_xyzw :: "u32 \<Rightarrow> VURegs \<Rightarrow> VURegsNum \<Rightarrow> VURegsNum" where
  "VUREGS_PFS_xyzw n VU r =
     r\<lparr>pipe := VUPIPE_EFU, VFwrite := 0, VFread0 := rFs VU, VFr0xyzw := vXYZW (vcode VU), VFread1 := 0,
        VIwrite := vbit REG_P, VIread := GET_VF0_FLAG (rFs VU), cycles := n\<rparr>"

definition VUREGS_PFS_fsf :: "u32 \<Rightarrow> VURegs \<Rightarrow> VURegsNum \<Rightarrow> VURegsNum" where
  "VUREGS_PFS_fsf n VU r =
     r\<lparr>pipe := VUPIPE_EFU, VFwrite := 0, VFread0 := rFs VU, VFr0xyzw := push_bit (3 - vFsf (vcode VU)) 1,
        VFread1 := 0, VIwrite := vbit REG_P, VIread := GET_VF0_FLAG (rFs VU), cycles := n\<rparr>"

definition vuRegsABS :: "VURegs \<Rightarrow> VURegsNum \<Rightarrow> VURegsNum" where
  "vuRegsABS VU r = VUREGS_FTFS VU r"

definition vuRegsADD :: "VURegs \<Rightarrow> VURegsNum \<Rightarrow> VURegsNum" where
  "vuRegsADD VU r = VUREGS_FDFSFT False VU r"

definition vuRegsADDi :: "VURegs \<Rightarrow> VURegsNum \<Rightarrow> VURegsNum" where
  "vuRegsADDi VU r = VUREGS_FDFSI False VU r"

definition vuRegsADDq :: "VURegs \<Rightarrow> VURegsNum \<Rightarrow> VURegsNum" where
  "vuRegsADDq VU r = VUREGS_FDFSQ False VU r"

definition vuRegsADDx :: "VURegs \<Rightarrow> VURegsNum \<Rightarrow> VURegsNum" where
  "vuRegsADDx VU r = VUREGS_FDFSFTx False VU r"

definition vuRegsADDy :: "VURegs \<Rightarrow> VURegsNum \<Rightarrow> VURegsNum" where
  "vuRegsADDy VU r = VUREGS_FDFSFTy False VU r"

definition vuRegsADDz :: "VURegs \<Rightarrow> VURegsNum \<Rightarrow> VURegsNum" where
  "vuRegsADDz VU r = VUREGS_FDFSFTz False VU r"

definition vuRegsADDw :: "VURegs \<Rightarrow> VURegsNum \<Rightarrow> VURegsNum" where
  "vuRegsADDw VU r = VUREGS_FDFSFTw False VU r"

definition vuRegsADDA :: "VURegs \<Rightarrow> VURegsNum \<Rightarrow> VURegsNum" where
  "vuRegsADDA VU r = VUREGS_ACCFSFT False VU r"

definition vuRegsADDAi :: "VURegs \<Rightarrow> VURegsNum \<Rightarrow> VURegsNum" where
  "vuRegsADDAi VU r = VUREGS_ACCFSI False VU r"

definition vuRegsADDAq :: "VURegs \<Rightarrow> VURegsNum \<Rightarrow> VURegsNum" where
  "vuRegsADDAq VU r = VUREGS_ACCFSQ False VU r"

definition vuRegsADDAx :: "VURegs \<Rightarrow> VURegsNum \<Rightarrow> VURegsNum" where
  "vuRegsADDAx VU r = VUREGS_ACCFSFTx False VU r"

definition vuRegsADDAy :: "VURegs \<Rightarrow> VURegsNum \<Rightarrow> VURegsNum" where
  "vuRegsADDAy VU r = VUREGS_ACCFSFTy False VU r"

definition vuRegsADDAz :: "VURegs \<Rightarrow> VURegsNum \<Rightarrow> VURegsNum" where
  "vuRegsADDAz VU r = VUREGS_ACCFSFTz False VU r"

definition vuRegsADDAw :: "VURegs \<Rightarrow> VURegsNum \<Rightarrow> VURegsNum" where
  "vuRegsADDAw VU r = VUREGS_ACCFSFTw False VU r"

definition vuRegsSUB :: "VURegs \<Rightarrow> VURegsNum \<Rightarrow> VURegsNum" where
  "vuRegsSUB VU r = VUREGS_FDFSFT False VU r"

definition vuRegsSUBi :: "VURegs \<Rightarrow> VURegsNum \<Rightarrow> VURegsNum" where
  "vuRegsSUBi VU r = VUREGS_FDFSI False VU r"

definition vuRegsSUBq :: "VURegs \<Rightarrow> VURegsNum \<Rightarrow> VURegsNum" where
  "vuRegsSUBq VU r = VUREGS_FDFSQ False VU r"

definition vuRegsSUBx :: "VURegs \<Rightarrow> VURegsNum \<Rightarrow> VURegsNum" where
  "vuRegsSUBx VU r = VUREGS_FDFSFTx False VU r"

definition vuRegsSUBy :: "VURegs \<Rightarrow> VURegsNum \<Rightarrow> VURegsNum" where
  "vuRegsSUBy VU r = VUREGS_FDFSFTy False VU r"

definition vuRegsSUBz :: "VURegs \<Rightarrow> VURegsNum \<Rightarrow> VURegsNum" where
  "vuRegsSUBz VU r = VUREGS_FDFSFTz False VU r"

definition vuRegsSUBw :: "VURegs \<Rightarrow> VURegsNum \<Rightarrow> VURegsNum" where
  "vuRegsSUBw VU r = VUREGS_FDFSFTw False VU r"

definition vuRegsSUBA :: "VURegs \<Rightarrow> VURegsNum \<Rightarrow> VURegsNum" where
  "vuRegsSUBA VU r = VUREGS_ACCFSFT False VU r"

definition vuRegsSUBAi :: "VURegs \<Rightarrow> VURegsNum \<Rightarrow> VURegsNum" where
  "vuRegsSUBAi VU r = VUREGS_ACCFSI False VU r"

definition vuRegsSUBAq :: "VURegs \<Rightarrow> VURegsNum \<Rightarrow> VURegsNum" where
  "vuRegsSUBAq VU r = VUREGS_ACCFSQ False VU r"

definition vuRegsSUBAx :: "VURegs \<Rightarrow> VURegsNum \<Rightarrow> VURegsNum" where
  "vuRegsSUBAx VU r = VUREGS_ACCFSFTx False VU r"

definition vuRegsSUBAy :: "VURegs \<Rightarrow> VURegsNum \<Rightarrow> VURegsNum" where
  "vuRegsSUBAy VU r = VUREGS_ACCFSFTy False VU r"

definition vuRegsSUBAz :: "VURegs \<Rightarrow> VURegsNum \<Rightarrow> VURegsNum" where
  "vuRegsSUBAz VU r = VUREGS_ACCFSFTz False VU r"

definition vuRegsSUBAw :: "VURegs \<Rightarrow> VURegsNum \<Rightarrow> VURegsNum" where
  "vuRegsSUBAw VU r = VUREGS_ACCFSFTw False VU r"

definition VUREGS_FDFSFTxyzw_MUL :: "bool \<Rightarrow> nat \<Rightarrow> VURegs \<Rightarrow> VURegsNum \<Rightarrow> VURegsNum" where
  "VUREGS_FDFSFTxyzw_MUL acc xyzw VU r =
     (if rFt VU = 0 \<and> xyzw > 1 \<and> vXYZW (vcode VU) = 0xf
      then r\<lparr>pipe := VUPIPE_FMAC, VFwrite := if acc then 0 else rFd VU, VFwxyzw := vXYZW (vcode VU),
              VFread0 := 0, VFr0xyzw := vXYZW (vcode VU), VFread1 := 0, VFr1xyzw := xyzw,
              VIwrite := (if acc then vbit REG_ACC_FLAG else 0),
              VIread := (if acc \<and> vXYZW (vcode VU) \<noteq> 15 then vbit REG_ACC_FLAG else 0)\<rparr>
      else r\<lparr>pipe := VUPIPE_FMAC, VFwrite := if acc then 0 else rFd VU, VFwxyzw := vXYZW (vcode VU),
              VFread0 := rFs VU, VFr0xyzw := vXYZW (vcode VU), VFread1 := rFt VU, VFr1xyzw := xyzw,
              VIwrite := (if acc then vbit REG_ACC_FLAG else 0),
              VIread := GET_VF0_FLAG (rFs VU) OR (if acc \<and> vXYZW (vcode VU) \<noteq> 15 then vbit REG_ACC_FLAG else 0)\<rparr>)"

definition vuRegsMUL :: "VURegs \<Rightarrow> VURegsNum \<Rightarrow> VURegsNum" where
  "vuRegsMUL VU r = VUREGS_FDFSFT False VU r"

definition vuRegsMULi :: "VURegs \<Rightarrow> VURegsNum \<Rightarrow> VURegsNum" where
  "vuRegsMULi VU r = VUREGS_FDFSI False VU r"

definition vuRegsMULq :: "VURegs \<Rightarrow> VURegsNum \<Rightarrow> VURegsNum" where
  "vuRegsMULq VU r = VUREGS_FDFSQ False VU r"

definition vuRegsMULx :: "VURegs \<Rightarrow> VURegsNum \<Rightarrow> VURegsNum" where
  "vuRegsMULx VU r = VUREGS_FDFSFTxyzw_MUL False 8 VU r"

definition vuRegsMULy :: "VURegs \<Rightarrow> VURegsNum \<Rightarrow> VURegsNum" where
  "vuRegsMULy VU r = VUREGS_FDFSFTxyzw_MUL False 4 VU r"

definition vuRegsMULz :: "VURegs \<Rightarrow> VURegsNum \<Rightarrow> VURegsNum" where
  "vuRegsMULz VU r = VUREGS_FDFSFTxyzw_MUL False 2 VU r"

definition vuRegsMULw :: "VURegs \<Rightarrow> VURegsNum \<Rightarrow> VURegsNum" where
  "vuRegsMULw VU r = VUREGS_FDFSFTxyzw_MUL False 1 VU r"

definition vuRegsMULA :: "VURegs \<Rightarrow> VURegsNum \<Rightarrow> VURegsNum" where
  "vuRegsMULA VU r = VUREGS_ACCFSFT False VU r"

definition vuRegsMULAi :: "VURegs \<Rightarrow> VURegsNum \<Rightarrow> VURegsNum" where
  "vuRegsMULAi VU r = VUREGS_ACCFSI False VU r"

definition vuRegsMULAq :: "VURegs \<Rightarrow> VURegsNum \<Rightarrow> VURegsNum" where
  "vuRegsMULAq VU r = VUREGS_ACCFSQ False VU r"

definition vuRegsMULAx :: "VURegs \<Rightarrow> VURegsNum \<Rightarrow> VURegsNum" where
  "vuRegsMULAx VU r = VUREGS_FDFSFTxyzw_MUL True 8 VU r"

definition vuRegsMULAy :: "VURegs \<Rightarrow> VURegsNum \<Rightarrow> VURegsNum" where
  "vuRegsMULAy VU r = VUREGS_FDFSFTxyzw_MUL True 4 VU r"

definition vuRegsMULAz :: "VURegs \<Rightarrow> VURegsNum \<Rightarrow> VURegsNum" where
  "vuRegsMULAz VU r = VUREGS_FDFSFTxyzw_MUL True 2 VU r"

definition vuRegsMULAw :: "VURegs \<Rightarrow> VURegsNum \<Rightarrow> VURegsNum" where
  "vuRegsMULAw VU r = VUREGS_FDFSFTxyzw_MUL True 1 VU r"

definition vuRegsMADD :: "VURegs \<Rightarrow> VURegsNum \<Rightarrow> VURegsNum" where
  "vuRegsMADD VU r = VUREGS_FDFSFT True VU r"

definition vuRegsMADDi :: "VURegs \<Rightarrow> VURegsNum \<Rightarrow> VURegsNum" where
  "vuRegsMADDi VU r = VUREGS_FDFSI True VU r"

definition vuRegsMADDq :: "VURegs \<Rightarrow> VURegsNum \<Rightarrow> VURegsNum" where
  "vuRegsMADDq VU r = VUREGS_FDFSQ True VU r"

definition VUREGS_FDFSFT_0_xyzw :: "nat \<Rightarrow> VURegs \<Rightarrow> VURegsNum \<Rightarrow> VURegsNum" where
  "VUREGS_FDFSFT_0_xyzw xyzw VU r =
     r\<lparr>pipe := VUPIPE_FMAC, VFwrite := rFd VU, VFwxyzw := vXYZW (vcode VU), VFread0 := rFs VU,
        VFr0xyzw := vXYZW (vcode VU), VFread1 := rFt VU, VFr1xyzw := xyzw, VIwrite := 0,
        VIread := vbit REG_ACC_FLAG OR (if rFt VU \<noteq> 0 then GET_VF0_FLAG (rFs VU) else 0)\<rparr>"

definition vuRegsMADDx :: "VURegs \<Rightarrow> VURegsNum \<Rightarrow> VURegsNum" where
  "vuRegsMADDx VU r = VUREGS_FDFSFT_0_xyzw 8 VU r"

definition vuRegsMADDy :: "VURegs \<Rightarrow> VURegsNum \<Rightarrow> VURegsNum" where
  "vuRegsMADDy VU r = VUREGS_FDFSFT_0_xyzw 4 VU r"

definition vuRegsMADDz :: "VURegs \<Rightarrow> VURegsNum \<Rightarrow> VURegsNum" where
  "vuRegsMADDz VU r = VUREGS_FDFSFT_0_xyzw 2 VU r"

definition vuRegsMADDw :: "VURegs \<Rightarrow> VURegsNum \<Rightarrow> VURegsNum" where
  "vuRegsMADDw VU r =
     r\<lparr>pipe := VUPIPE_FMAC, VFwrite := rFd VU, VFwxyzw := vXYZW (vcode VU), VFread0 := rFs VU,
        VFr0xyzw := vXYZW (vcode VU), VFread1 := rFt VU, VFr1xyzw := 1, VIwrite := 0,
        VIread := vbit REG_ACC_FLAG OR GET_VF0_FLAG (rFs VU)\<rparr>"

definition vuRegsMADDA :: "VURegs \<Rightarrow> VURegsNum \<Rightarrow> VURegsNum" where
  "vuRegsMADDA VU r = VUREGS_ACCFSFT True VU r"

definition vuRegsMADDAi :: "VURegs \<Rightarrow> VURegsNum \<Rightarrow> VURegsNum" where
  "vuRegsMADDAi VU r = VUREGS_ACCFSI True VU r"

definition vuRegsMADDAq :: "VURegs \<Rightarrow> VURegsNum \<Rightarrow> VURegsNum" where
  "vuRegsMADDAq VU r = VUREGS_ACCFSQ True VU r"

definition vuRegsMADDAx :: "VURegs \<Rightarrow> VURegsNum \<Rightarrow> VURegsNum" where
  "vuRegsMADDAx VU r = VUREGS_ACCFSFTx True VU r"

definition vuRegsMADDAy :: "VURegs \<Rightarrow> VURegsNum \<Rightarrow> VURegsNum" where
  "vuRegsMADDAy VU r = VUREGS_ACCFSFTy True VU r"

definition vuRegsMADDAz :: "VURegs \<Rightarrow> VURegsNum \<Rightarrow> VURegsNum" where
  "vuRegsMADDAz VU r = VUREGS_ACCFSFTz True VU r"

definition vuRegsMADDAw :: "VURegs \<Rightarrow> VURegsNum \<Rightarrow> VURegsNum" where
  "vuRegsMADDAw VU r = VUREGS_ACCFSFTw True VU r"

definition vuRegsMSUB :: "VURegs \<Rightarrow> VURegsNum \<Rightarrow> VURegsNum" where
  "vuRegsMSUB VU r = VUREGS_FDFSFT True VU r"

definition vuRegsMSUBi :: "VURegs \<Rightarrow> VURegsNum \<Rightarrow> VURegsNum" where
  "vuRegsMSUBi VU r = VUREGS_FDFSI True VU r"

definition vuRegsMSUBq :: "VURegs \<Rightarrow> VURegsNum \<Rightarrow> VURegsNum" where
  "vuRegsMSUBq VU r = VUREGS_FDFSQ True VU r"

definition vuRegsMSUBx :: "VURegs \<Rightarrow> VURegsNum \<Rightarrow> VURegsNum" where
  "vuRegsMSUBx VU r = VUREGS_FDFSFTx True VU r"

definition vuRegsMSUBy :: "VURegs \<Rightarrow> VURegsNum \<Rightarrow> VURegsNum" where
  "vuRegsMSUBy VU r = VUREGS_FDFSFTy True VU r"

definition vuRegsMSUBz :: "VURegs \<Rightarrow> VURegsNum \<Rightarrow> VURegsNum" where
  "vuRegsMSUBz VU r = VUREGS_FDFSFTz True VU r"

definition vuRegsMSUBw :: "VURegs \<Rightarrow> VURegsNum \<Rightarrow> VURegsNum" where
  "vuRegsMSUBw VU r = VUREGS_FDFSFTw True VU r"

definition vuRegsMSUBA :: "VURegs \<Rightarrow> VURegsNum \<Rightarrow> VURegsNum" where
  "vuRegsMSUBA VU r = VUREGS_ACCFSFT True VU r"

definition vuRegsMSUBAi :: "VURegs \<Rightarrow> VURegsNum \<Rightarrow> VURegsNum" where
  "vuRegsMSUBAi VU r = VUREGS_ACCFSI True VU r"

definition vuRegsMSUBAq :: "VURegs \<Rightarrow> VURegsNum \<Rightarrow> VURegsNum" where
  "vuRegsMSUBAq VU r = VUREGS_ACCFSQ True VU r"

definition vuRegsMSUBAx :: "VURegs \<Rightarrow> VURegsNum \<Rightarrow> VURegsNum" where
  "vuRegsMSUBAx VU r = VUREGS_ACCFSFTx True VU r"

definition vuRegsMSUBAy :: "VURegs \<Rightarrow> VURegsNum \<Rightarrow> VURegsNum" where
  "vuRegsMSUBAy VU r = VUREGS_ACCFSFTy True VU r"

definition vuRegsMSUBAz :: "VURegs \<Rightarrow> VURegsNum \<Rightarrow> VURegsNum" where
  "vuRegsMSUBAz VU r = VUREGS_ACCFSFTz True VU r"

definition vuRegsMSUBAw :: "VURegs \<Rightarrow> VURegsNum \<Rightarrow> VURegsNum" where
  "vuRegsMSUBAw VU r = VUREGS_ACCFSFTw True VU r"

definition vuRegsMAX :: "VURegs \<Rightarrow> VURegsNum \<Rightarrow> VURegsNum" where
  "vuRegsMAX VU r = VUREGS_FDFSFT False VU r"

definition vuRegsMAXi :: "VURegs \<Rightarrow> VURegsNum \<Rightarrow> VURegsNum" where
  "vuRegsMAXi VU r = VUREGS_FDFSI False VU r"

definition vuRegsMAXx_base :: "VURegs \<Rightarrow> VURegsNum \<Rightarrow> VURegsNum" where
  "vuRegsMAXx_base VU r = VUREGS_FDFSFTx False VU r"

definition vuRegsMAXy_base :: "VURegs \<Rightarrow> VURegsNum \<Rightarrow> VURegsNum" where
  "vuRegsMAXy_base VU r = VUREGS_FDFSFTy False VU r"

definition vuRegsMAXz_base :: "VURegs \<Rightarrow> VURegsNum \<Rightarrow> VURegsNum" where
  "vuRegsMAXz_base VU r = VUREGS_FDFSFTz False VU r"

definition vuRegsMAXw_base :: "VURegs \<Rightarrow> VURegsNum \<Rightarrow> VURegsNum" where
  "vuRegsMAXw_base VU r = VUREGS_FDFSFTw False VU r"

definition vuRegsMAXx :: "VURegs \<Rightarrow> VURegsNum \<Rightarrow> VURegsNum" where
  "vuRegsMAXx VU r =
     (let r = vuRegsMAXx_base VU r
      in if rFs VU = 0 \<and> rFt VU = 0 then r\<lparr>VIread := VIread r AND NOT (vbit REG_VF0_FLAG)\<rparr> else r)"

definition vuRegsMAXy :: "VURegs \<Rightarrow> VURegsNum \<Rightarrow> VURegsNum" where
  "vuRegsMAXy VU r =
     (let r = vuRegsMAXy_base VU r
      in if rFs VU = 0 \<and> rFt VU = 0 then r\<lparr>VIread := VIread r AND NOT (vbit REG_VF0_FLAG)\<rparr> else r)"

definition vuRegsMAXz :: "VURegs \<Rightarrow> VURegsNum \<Rightarrow> VURegsNum" where
  "vuRegsMAXz VU r =
     (let r = vuRegsMAXz_base VU r
      in if rFs VU = 0 \<and> rFt VU = 0 then r\<lparr>VIread := VIread r AND NOT (vbit REG_VF0_FLAG)\<rparr> else r)"

definition vuRegsMAXw :: "VURegs \<Rightarrow> VURegsNum \<Rightarrow> VURegsNum" where
  "vuRegsMAXw VU r =
     (let r = vuRegsMAXw_base VU r
      in if rFs VU = 0 \<and> rFt VU = 0 then r\<lparr>VIread := VIread r AND NOT (vbit REG_VF0_FLAG)\<rparr> else r)"

definition vuRegsMINI :: "VURegs \<Rightarrow> VURegsNum \<Rightarrow> VURegsNum" where
  "vuRegsMINI VU r = VUREGS_FDFSFT False VU r"

definition vuRegsMINIi :: "VURegs \<Rightarrow> VURegsNum \<Rightarrow> VURegsNum" where
  "vuRegsMINIi VU r = VUREGS_FDFSI False VU r"

definition vuRegsMINIx :: "VURegs \<Rightarrow> VURegsNum \<Rightarrow> VURegsNum" where
  "vuRegsMINIx VU r = VUREGS_FDFSFTx False VU r"

definition vuRegsMINIy :: "VURegs \<Rightarrow> VURegsNum \<Rightarrow> VURegsNum" where
  "vuRegsMINIy VU r = VUREGS_FDFSFTy False VU r"

definition vuRegsMINIz :: "VURegs \<Rightarrow> VURegsNum \<Rightarrow> VURegsNum" where
  "vuRegsMINIz VU r = VUREGS_FDFSFTz False VU r"

definition vuRegsMINIw :: "VURegs \<Rightarrow> VURegsNum \<Rightarrow> VURegsNum" where
  "vuRegsMINIw VU r = VUREGS_FDFSFTw False VU r"

definition vuRegsOPMULA :: "VURegs \<Rightarrow> VURegsNum \<Rightarrow> VURegsNum" where
  "vuRegsOPMULA VU r =
     r\<lparr>pipe := VUPIPE_FMAC, VFwrite := 0, VFwxyzw := 0xE, VFread0 := rFs VU, VFr0xyzw := 0xE,
        VFread1 := rFt VU, VFr1xyzw := 0xE, VIwrite := vbit REG_ACC_FLAG,
        VIread := GET_VF0_FLAG (rFs VU) OR GET_VF0_FLAG (rFt VU) OR vbit REG_ACC_FLAG\<rparr>"

definition vuRegsOPMSUB :: "VURegs \<Rightarrow> VURegsNum \<Rightarrow> VURegsNum" where
  "vuRegsOPMSUB VU r =
     r\<lparr>pipe := VUPIPE_FMAC, VFwrite := rFd VU, VFwxyzw := 0xE, VFread0 := rFs VU, VFr0xyzw := 0xE,
        VFread1 := rFt VU, VFr1xyzw := 0xE, VIwrite := 0,
        VIread := GET_VF0_FLAG (rFs VU) OR GET_VF0_FLAG (rFt VU) OR vbit REG_ACC_FLAG\<rparr>"

definition vuRegsNOP :: "VURegs \<Rightarrow> VURegsNum \<Rightarrow> VURegsNum" where
  "vuRegsNOP VU r =
     r\<lparr>pipe := VUPIPE_NONE, VFwrite := 0, VFread0 := 0, VFread1 := 0, VIwrite := 0, VIread := 0\<rparr>"

definition vuRegsFTOI0 :: "VURegs \<Rightarrow> VURegsNum \<Rightarrow> VURegsNum" where
  "vuRegsFTOI0 VU r = VUREGS_FTFS VU r"

definition vuRegsFTOI4 :: "VURegs \<Rightarrow> VURegsNum \<Rightarrow> VURegsNum" where
  "vuRegsFTOI4 VU r = VUREGS_FTFS VU r"

definition vuRegsFTOI12 :: "VURegs \<Rightarrow> VURegsNum \<Rightarrow> VURegsNum" where
  "vuRegsFTOI12 VU r = VUREGS_FTFS VU r"

definition vuRegsFTOI15 :: "VURegs \<Rightarrow> VURegsNum \<Rightarrow> VURegsNum" where
  "vuRegsFTOI15 VU r = VUREGS_FTFS VU r"

definition vuRegsITOF0 :: "VURegs \<Rightarrow> VURegsNum \<Rightarrow> VURegsNum" where
  "vuRegsITOF0 VU r = VUREGS_FTFS VU r"

definition vuRegsITOF4 :: "VURegs \<Rightarrow> VURegsNum \<Rightarrow> VURegsNum" where
  "vuRegsITOF4 VU r = VUREGS_FTFS VU r"

definition vuRegsITOF12 :: "VURegs \<Rightarrow> VURegsNum \<Rightarrow> VURegsNum" where
  "vuRegsITOF12 VU r = VUREGS_FTFS VU r"

definition vuRegsITOF15 :: "VURegs \<Rightarrow> VURegsNum \<Rightarrow> VURegsNum" where
  "vuRegsITOF15 VU r = VUREGS_FTFS VU r"

definition vuRegsCLIP :: "VURegs \<Rightarrow> VURegsNum \<Rightarrow> VURegsNum" where
  "vuRegsCLIP VU r =
     r\<lparr>pipe := VUPIPE_FMAC, VFwrite := 0, VFread0 := rFs VU, VFr0xyzw := 0xE, VFread1 := rFt VU,
        VFr1xyzw := 0x1, VIwrite := vbit REG_CLIP_FLAG,
        VIread := GET_VF0_FLAG (rFs VU) OR GET_VF0_FLAG (rFt VU) OR vbit REG_CLIP_FLAG\<rparr>"

definition vuRegsDIV :: "VURegs \<Rightarrow> VURegsNum \<Rightarrow> VURegsNum" where
  "vuRegsDIV VU r =
     r\<lparr>pipe := VUPIPE_FDIV, VFwrite := 0, VFread0 := rFs VU,
        VFr0xyzw := push_bit (3 - vFsf (vcode VU)) 1, VFread1 := rFt VU,
        VFr1xyzw := push_bit (3 - vFtf (vcode VU)) 1, VIwrite := vbit REG_Q,
        VIread := GET_VF0_FLAG (rFs VU) OR GET_VF0_FLAG (rFt VU), cycles := 6\<rparr>"

definition vuRegsSQRT :: "VURegs \<Rightarrow> VURegsNum \<Rightarrow> VURegsNum" where
  "vuRegsSQRT VU r =
     r\<lparr>pipe := VUPIPE_FDIV, VFwrite := 0, VFread0 := 0, VFr0xyzw := 0, VFread1 := rFt VU,
        VFr1xyzw := push_bit (3 - vFtf (vcode VU)) 1, VIwrite := vbit REG_Q,
        VIread := GET_VF0_FLAG (rFt VU), cycles := 6\<rparr>"

definition vuRegsRSQRT :: "VURegs \<Rightarrow> VURegsNum \<Rightarrow> VURegsNum" where
  "vuRegsRSQRT VU r =
     r\<lparr>pipe := VUPIPE_FDIV, VFwrite := 0, VFread0 := rFs VU,
        VFr0xyzw := push_bit (3 - vFsf (vcode VU)) 1, VFread1 := rFt VU,
        VFr1xyzw := push_bit (3 - vFtf (vcode VU)) 1, VIwrite := vbit REG_Q,
        VIread := GET_VF0_FLAG (rFs VU) OR GET_VF0_FLAG (rFt VU), cycles := 12\<rparr>"

definition vuRegsIADDI :: "VURegs \<Rightarrow> VURegsNum \<Rightarrow> VURegsNum" where
  "vuRegsIADDI VU r = VUREGS_ITIS VU r"

definition vuRegsIADDIU :: "VURegs \<Rightarrow> VURegsNum \<Rightarrow> VURegsNum" where
  "vuRegsIADDIU VU r = VUREGS_ITIS VU r"

definition vuRegsIADD :: "VURegs \<Rightarrow> VURegsNum \<Rightarrow> VURegsNum" where
  "vuRegsIADD VU r = VUREGS_IDISIT VU r"

definition vuRegsIAND :: "VURegs \<Rightarrow> VURegsNum \<Rightarrow> VURegsNum" where
  "vuRegsIAND VU r = VUREGS_IDISIT VU r"

definition vuRegsIOR :: "VURegs \<Rightarrow> VURegsNum \<Rightarrow> VURegsNum" where
  "vuRegsIOR VU r = VUREGS_IDISIT VU r"

definition vuRegsISUB :: "VURegs \<Rightarrow> VURegsNum \<Rightarrow> VURegsNum" where
  "vuRegsISUB VU r = VUREGS_IDISIT VU r"

definition vuRegsISUBIU :: "VURegs \<Rightarrow> VURegsNum \<Rightarrow> VURegsNum" where
  "vuRegsISUBIU VU r = VUREGS_ITIS VU r"

definition vuRegsMOVE :: "VURegs \<Rightarrow> VURegsNum \<Rightarrow> VURegsNum" where
  "vuRegsMOVE VU r = VUREGS_FTFS VU r"

definition vuRegsMFIR :: "VURegs \<Rightarrow> VURegsNum \<Rightarrow> VURegsNum" where
  "vuRegsMFIR VU r =
     r\<lparr>pipe := VUPIPE_FMAC, VFwrite := rFt VU, VFwxyzw := vXYZW (vcode VU), VFread0 := 0, VFread1 := 0,
        VIwrite := 0, VIread := vbit (rIs VU)\<rparr>"

definition vuRegsMTIR :: "VURegs \<Rightarrow> VURegsNum \<Rightarrow> VURegsNum" where
  "vuRegsMTIR VU r =
     r\<lparr>pipe := VUPIPE_FMAC, VFwrite := 0, VFread0 := rFs VU,
        VFr0xyzw := push_bit (3 - vFsf (vcode VU)) 1, VFread1 := 0, VIwrite := vbit (rIt VU),
        VIread := GET_VF0_FLAG (rFs VU)\<rparr>"

definition vuRegsMR32 :: "VURegs \<Rightarrow> VURegsNum \<Rightarrow> VURegsNum" where
  "vuRegsMR32 VU r =
     r\<lparr>pipe := VUPIPE_FMAC, VFwrite := rFt VU, VFwxyzw := vXYZW (vcode VU), VFread0 := rFs VU,
        VFr0xyzw := (vXYZW (vcode VU) div 2) OR ((vXYZW (vcode VU) * 8) AND 0xf), VFread1 := 0,
        VFr1xyzw := 0xff, VIwrite := 0, VIread := (if rFt VU \<noteq> 0 then GET_VF0_FLAG (rFs VU) else 0)\<rparr>"

definition vuRegsLQ :: "VURegs \<Rightarrow> VURegsNum \<Rightarrow> VURegsNum" where
  "vuRegsLQ VU r =
     r\<lparr>pipe := VUPIPE_FMAC, VFwrite := rFt VU, VFwxyzw := vXYZW (vcode VU), VFread0 := 0, VFread1 := 0,
        VIwrite := 0, VIread := vbit (rIs VU)\<rparr>"

definition vuRegsLQD :: "VURegs \<Rightarrow> VURegsNum \<Rightarrow> VURegsNum" where
  "vuRegsLQD VU r =
     r\<lparr>pipe := VUPIPE_FMAC, VFwrite := rFt VU, VFwxyzw := vXYZW (vcode VU), VFread0 := 0, VFread1 := 0,
        VIwrite := vbit (rIs VU), VIread := vbit (rIs VU)\<rparr>"

definition vuRegsLQI :: "VURegs \<Rightarrow> VURegsNum \<Rightarrow> VURegsNum" where
  "vuRegsLQI VU r =
     r\<lparr>pipe := VUPIPE_FMAC, VFwrite := rFt VU, VFwxyzw := vXYZW (vcode VU), VFread0 := 0, VFread1 := 0,
        VIwrite := vbit (rIs VU), VIread := vbit (rIs VU)\<rparr>"

definition vuRegsSQ :: "VURegs \<Rightarrow> VURegsNum \<Rightarrow> VURegsNum" where
  "vuRegsSQ VU r =
     r\<lparr>pipe := VUPIPE_FMAC, VFwrite := 0, VFread0 := rFs VU, VFr0xyzw := vXYZW (vcode VU), VFread1 := 0,
        VIwrite := 0, VIread := vbit (rIt VU)\<rparr>"

definition vuRegsSQD :: "VURegs \<Rightarrow> VURegsNum \<Rightarrow> VURegsNum" where
  "vuRegsSQD VU r =
     r\<lparr>pipe := VUPIPE_FMAC, VFwrite := 0, VFread0 := rFs VU, VFr0xyzw := vXYZW (vcode VU), VFread1 := 0,
        VIwrite := vbit (rIt VU), VIread := vbit (rIt VU)\<rparr>"

definition vuRegsSQI :: "VURegs \<Rightarrow> VURegsNum \<Rightarrow> VURegsNum" where
  "vuRegsSQI VU r =
     r\<lparr>pipe := VUPIPE_FMAC, VFwrite := 0, VFread0 := rFs VU, VFr0xyzw := vXYZW (vcode VU), VFread1 := 0,
        VIwrite := vbit (rIt VU), VIread := vbit (rIt VU)\<rparr>"

definition vuRegsILW :: "VURegs \<Rightarrow> VURegsNum \<Rightarrow> VURegsNum" where
  "vuRegsILW VU r =
     r\<lparr>pipe := VUPIPE_IALU, VFwrite := 0, VFread0 := 0, VFread1 := 0, VIwrite := vbit (rIt VU),
        VIread := vbit (rIs VU), cycles := 3\<rparr>"

definition vuRegsISW :: "VURegs \<Rightarrow> VURegsNum \<Rightarrow> VURegsNum" where
  "vuRegsISW VU r =
     r\<lparr>pipe := VUPIPE_IALU, VFwrite := 0, VFread0 := 0, VFread1 := 0, VIwrite := 0,
        VIread := vbit (rIs VU) OR vbit (rIt VU)\<rparr>"

definition vuRegsILWR :: "VURegs \<Rightarrow> VURegsNum \<Rightarrow> VURegsNum" where
  "vuRegsILWR VU r =
     r\<lparr>pipe := VUPIPE_IALU, VFwrite := 0, VFread0 := 0, VFread1 := 0, VIwrite := vbit (rIt VU),
        VIread := vbit (rIs VU), cycles := 3\<rparr>"

definition vuRegsISWR :: "VURegs \<Rightarrow> VURegsNum \<Rightarrow> VURegsNum" where
  "vuRegsISWR VU r =
     r\<lparr>pipe := VUPIPE_IALU, VFwrite := 0, VFread0 := 0, VFread1 := 0, VIwrite := 0,
        VIread := vbit (rIs VU) OR vbit (rIt VU)\<rparr>"

definition vuRegsRINIT :: "VURegs \<Rightarrow> VURegsNum \<Rightarrow> VURegsNum" where
  "vuRegsRINIT VU r =
     r\<lparr>pipe := VUPIPE_FMAC, VFwrite := 0, VFread0 := rFs VU,
        VFr0xyzw := push_bit (3 - vFsf (vcode VU)) 1, VFread1 := 0, VIwrite := vbit REG_R,
        VIread := GET_VF0_FLAG (rFs VU)\<rparr>"

definition vuRegsRGET :: "VURegs \<Rightarrow> VURegsNum \<Rightarrow> VURegsNum" where
  "vuRegsRGET VU r =
     r\<lparr>pipe := VUPIPE_FMAC, VFwrite := rFt VU, VFwxyzw := vXYZW (vcode VU), VFread0 := 0, VFread1 := 0,
        VIwrite := 0, VIread := vbit REG_R\<rparr>"

definition vuRegsRNEXT :: "VURegs \<Rightarrow> VURegsNum \<Rightarrow> VURegsNum" where
  "vuRegsRNEXT VU r =
     r\<lparr>pipe := VUPIPE_FMAC, VFwrite := rFt VU, VFwxyzw := vXYZW (vcode VU), VFread0 := 0, VFread1 := 0,
        VIwrite := vbit REG_R, VIread := vbit REG_R\<rparr>"

definition vuRegsRXOR :: "VURegs \<Rightarrow> VURegsNum \<Rightarrow> VURegsNum" where
  "vuRegsRXOR VU r =
     r\<lparr>pipe := VUPIPE_FMAC, VFwrite := 0, VFread0 := rFs VU,
        VFr0xyzw := push_bit (3 - vFsf (vcode VU)) 1, VFread1 := 0, VIwrite := vbit REG_R,
        VIread := vbit REG_R OR GET_VF0_FLAG (rFs VU)\<rparr>"

definition vuRegsWAITQ :: "VURegs \<Rightarrow> VURegsNum \<Rightarrow> VURegsNum" where
  "vuRegsWAITQ VU r =
     r\<lparr>pipe := VUPIPE_FDIV, VFwrite := 0, VFread0 := 0, VFread1 := 0, VIwrite := 0, VIread := 0\<rparr>"

definition vuRegsFSAND :: "VURegs \<Rightarrow> VURegsNum \<Rightarrow> VURegsNum" where
  "vuRegsFSAND VU r =
     r\<lparr>pipe := VUPIPE_FMAC, VFwrite := 0, VFread0 := 0, VFread1 := 0, VIwrite := vbit (rIt VU),
        VIread := vbit REG_STATUS_FLAG\<rparr>"

definition vuRegsFSEQ :: "VURegs \<Rightarrow> VURegsNum \<Rightarrow> VURegsNum" where
  "vuRegsFSEQ VU r =
     r\<lparr>pipe := VUPIPE_FMAC, VFwrite := 0, VFread0 := 0, VFread1 := 0, VIwrite := vbit (rIt VU),
        VIread := vbit REG_STATUS_FLAG\<rparr>"

definition vuRegsFSOR :: "VURegs \<Rightarrow> VURegsNum \<Rightarrow> VURegsNum" where
  "vuRegsFSOR VU r =
     r\<lparr>pipe := VUPIPE_FMAC, VFwrite := 0, VFread0 := 0, VFread1 := 0, VIwrite := vbit (rIt VU),
        VIread := vbit REG_STATUS_FLAG\<rparr>"

definition vuRegsFSSET :: "VURegs \<Rightarrow> VURegsNum \<Rightarrow> VURegsNum" where
  "vuRegsFSSET VU r =
     r\<lparr>pipe := VUPIPE_FMAC, VFwrite := 0, VFread0 := 0, VFread1 := 0, VIwrite := vbit REG_STATUS_FLAG,
        VIread := 0\<rparr>"

definition vuRegsFMAND :: "VURegs \<Rightarrow> VURegsNum \<Rightarrow> VURegsNum" where
  "vuRegsFMAND VU r =
     r\<lparr>pipe := VUPIPE_FMAC, VFwrite := 0, VFread0 := 0, VFread1 := 0, VIwrite := vbit (rIt VU),
        VIread := vbit REG_MAC_FLAG OR vbit (rIs VU)\<rparr>"

definition vuRegsFMEQ :: "VURegs \<Rightarrow> VURegsNum \<Rightarrow> VURegsNum" where
  "vuRegsFMEQ VU r =
     r\<lparr>pipe := VUPIPE_FMAC, VFwrite := 0, VFread0 := 0, VFread1 := 0, VIwrite := vbit (rIt VU),
        VIread := vbit REG_MAC_FLAG OR vbit (rIs VU)\<rparr>"

definition vuRegsFMOR :: "VURegs \<Rightarrow> VURegsNum \<Rightarrow> VURegsNum" where
  "vuRegsFMOR VU r =
     r\<lparr>pipe := VUPIPE_FMAC, VFwrite := 0, VFread0 := 0, VFread1 := 0, VIwrite := vbit (rIt VU),
        VIread := vbit REG_MAC_FLAG OR vbit (rIs VU)\<rparr>"

definition vuRegsFCAND :: "VURegs \<Rightarrow> VURegsNum \<Rightarrow> VURegsNum" where
  "vuRegsFCAND VU r =
     r\<lparr>pipe := VUPIPE_FMAC, VFwrite := 0, VFread0 := 0, VFread1 := 0, VIwrite := vbit 1,
        VIread := vbit REG_CLIP_FLAG\<rparr>"

definition vuRegsFCEQ :: "VURegs \<Rightarrow> VURegsNum \<Rightarrow> VURegsNum" where
  "vuRegsFCEQ VU r =
     r\<lparr>pipe := VUPIPE_FMAC, VFwrite := 0, VFread0 := 0, VFread1 := 0, VIwrite := vbit 1,
        VIread := vbit REG_CLIP_FLAG\<rparr>"

definition vuRegsFCOR :: "VURegs \<Rightarrow> VURegsNum \<Rightarrow> VURegsNum" where
  "vuRegsFCOR VU r =
     r\<lparr>pipe := VUPIPE_FMAC, VFwrite := 0, VFread0 := 0, VFread1 := 0, VIwrite := vbit 1,
        VIread := vbit REG_CLIP_FLAG\<rparr>"

definition vuRegsFCSET :: "VURegs \<Rightarrow> VURegsNum \<Rightarrow> VURegsNum" where
  "vuRegsFCSET VU r =
     r\<lparr>pipe := VUPIPE_FMAC, VFwrite := 0, VFread0 := 0, VFread1 := 0, VIwrite := vbit REG_CLIP_FLAG,
        VIread := 0\<rparr>"

definition vuRegsFCGET :: "VURegs \<Rightarrow> VURegsNum \<Rightarrow> VURegsNum" where
  "vuRegsFCGET VU r =
     r\<lparr>pipe := VUPIPE_FMAC, VFwrite := 0, VFread0 := 0, VFread1 := 0, VIwrite := vbit (rIt VU),
        VIread := vbit REG_CLIP_FLAG\<rparr>"

definition vuRegsIBEQ :: "VURegs \<Rightarrow> VURegsNum \<Rightarrow> VURegsNum" where
  "vuRegsIBEQ VU r =
     r\<lparr>pipe := VUPIPE_BRANCH, VFwrite := 0, VFread0 := 0, VFread1 := 0, VIwrite := 0,
        VIread := vbit (rIs VU) OR vbit (rIt VU)\<rparr>"

definition vuRegsIBGEZ :: "VURegs \<Rightarrow> VURegsNum \<Rightarrow> VURegsNum" where
  "vuRegsIBGEZ VU r =
     r\<lparr>pipe := VUPIPE_BRANCH, VFwrite := 0, VFread0 := 0, VFread1 := 0, VIwrite := 0,
        VIread := vbit (rIs VU)\<rparr>"

definition vuRegsIBGTZ :: "VURegs \<Rightarrow> VURegsNum \<Rightarrow> VURegsNum" where
  "vuRegsIBGTZ VU r =
     r\<lparr>pipe := VUPIPE_BRANCH, VFwrite := 0, VFread0 := 0, VFread1 := 0, VIwrite := 0,
        VIread := vbit (rIs VU)\<rparr>"

definition vuRegsIBLEZ :: "VURegs \<Rightarrow> VURegsNum \<Rightarrow> VURegsNum" where
  "vuRegsIBLEZ VU r =
     r\<lparr>pipe := VUPIPE_BRANCH, VFwrite := 0, VFread0 := 0, VFread1 := 0, VIwrite := 0,
        VIread := vbit (rIs VU)\<rparr>"

definition vuRegsIBLTZ :: "VURegs \<Rightarrow> VURegsNum \<Rightarrow> VURegsNum" where
  "vuRegsIBLTZ VU r =
     r\<lparr>pipe := VUPIPE_BRANCH, VFwrite := 0, VFread0 := 0, VFread1 := 0, VIwrite := 0,
        VIread := vbit (rIs VU)\<rparr>"

definition vuRegsIBNE :: "VURegs \<Rightarrow> VURegsNum \<Rightarrow> VURegsNum" where
  "vuRegsIBNE VU r =
     r\<lparr>pipe := VUPIPE_BRANCH, VFwrite := 0, VFread0 := 0, VFread1 := 0, VIwrite := 0,
        VIread := vbit (rIs VU) OR vbit (rIt VU)\<rparr>"

definition vuRegsB :: "VURegs \<Rightarrow> VURegsNum \<Rightarrow> VURegsNum" where
  "vuRegsB VU r =
     r\<lparr>pipe := VUPIPE_BRANCH, VFwrite := 0, VFread0 := 0, VFread1 := 0, VIwrite := 0, VIread := 0\<rparr>"

definition vuRegsBAL :: "VURegs \<Rightarrow> VURegsNum \<Rightarrow> VURegsNum" where
  "vuRegsBAL VU r =
     r\<lparr>pipe := VUPIPE_BRANCH, VFwrite := 0, VFread0 := 0, VFread1 := 0, VIwrite := vbit (rIt VU),
        VIread := 0\<rparr>"

definition vuRegsJR :: "VURegs \<Rightarrow> VURegsNum \<Rightarrow> VURegsNum" where
  "vuRegsJR VU r =
     r\<lparr>pipe := VUPIPE_BRANCH, VFwrite := 0, VFread0 := 0, VFread1 := 0, VIwrite := 0,
        VIread := vbit (rIs VU)\<rparr>"

definition vuRegsJALR :: "VURegs \<Rightarrow> VURegsNum \<Rightarrow> VURegsNum" where
  "vuRegsJALR VU r =
     r\<lparr>pipe := VUPIPE_BRANCH, VFwrite := 0, VFread0 := 0, VFread1 := 0, VIwrite := vbit (rIt VU),
        VIread := vbit (rIs VU)\<rparr>"

definition vuRegsMFP :: "VURegs \<Rightarrow> VURegsNum \<Rightarrow> VURegsNum" where
  "vuRegsMFP VU r =
     r\<lparr>pipe := VUPIPE_FMAC, VFwrite := rFt VU, VFwxyzw := vXYZW (vcode VU), VFread0 := 0, VFread1 := 0,
        VIwrite := 0, VIread := vbit REG_P\<rparr>"

definition vuRegsWAITP :: "VURegs \<Rightarrow> VURegsNum \<Rightarrow> VURegsNum" where
  "vuRegsWAITP VU r =
     r\<lparr>pipe := VUPIPE_EFU, VFwrite := 0, VFread0 := 0, VFread1 := 0, VIwrite := 0, VIread := 0\<rparr>"

definition vuRegsESADD :: "VURegs \<Rightarrow> VURegsNum \<Rightarrow> VURegsNum" where
  "vuRegsESADD VU r = VUREGS_PFS_xyzw 10 VU r"

definition vuRegsERSADD :: "VURegs \<Rightarrow> VURegsNum \<Rightarrow> VURegsNum" where
  "vuRegsERSADD VU r = VUREGS_PFS_xyzw 17 VU r"

definition vuRegsELENG :: "VURegs \<Rightarrow> VURegsNum \<Rightarrow> VURegsNum" where
  "vuRegsELENG VU r = VUREGS_PFS_xyzw 17 VU r"

definition vuRegsERLENG :: "VURegs \<Rightarrow> VURegsNum \<Rightarrow> VURegsNum" where
  "vuRegsERLENG VU r = VUREGS_PFS_xyzw 23 VU r"

definition vuRegsEATANxy :: "VURegs \<Rightarrow> VURegsNum \<Rightarrow> VURegsNum" where
  "vuRegsEATANxy VU r = VUREGS_PFS_xyzw 53 VU r"

definition vuRegsEATANxz :: "VURegs \<Rightarrow> VURegsNum \<Rightarrow> VURegsNum" where
  "vuRegsEATANxz VU r = VUREGS_PFS_xyzw 53 VU r"

definition vuRegsESUM :: "VURegs \<Rightarrow> VURegsNum \<Rightarrow> VURegsNum" where
  "vuRegsESUM VU r = VUREGS_PFS_xyzw 11 VU r"

definition vuRegsERCPR :: "VURegs \<Rightarrow> VURegsNum \<Rightarrow> VURegsNum" where
  "vuRegsERCPR VU r = VUREGS_PFS_fsf 11 VU r"

definition vuRegsESQRT :: "VURegs \<Rightarrow> VURegsNum \<Rightarrow> VURegsNum" where
  "vuRegsESQRT VU r = VUREGS_PFS_fsf 11 VU r"

definition vuRegsERSQRT :: "VURegs \<Rightarrow> VURegsNum \<Rightarrow> VURegsNum" where
  "vuRegsERSQRT VU r = VUREGS_PFS_fsf 17 VU r"

definition vuRegsESIN :: "VURegs \<Rightarrow> VURegsNum \<Rightarrow> VURegsNum" where
  "vuRegsESIN VU r = VUREGS_PFS_fsf 28 VU r"

definition vuRegsEATAN :: "VURegs \<Rightarrow> VURegsNum \<Rightarrow> VURegsNum" where
  "vuRegsEATAN VU r = VUREGS_PFS_fsf 53 VU r"

definition vuRegsEEXP :: "VURegs \<Rightarrow> VURegsNum \<Rightarrow> VURegsNum" where
  "vuRegsEEXP VU r = VUREGS_PFS_fsf 43 VU r"

definition vuRegsXITOP :: "VURegs \<Rightarrow> VURegsNum \<Rightarrow> VURegsNum" where
  "vuRegsXITOP VU r =
     r\<lparr>pipe := VUPIPE_IALU, VFwrite := 0, VFread0 := 0, VFread1 := 0, VIwrite := vbit (rIt VU),
        VIread := 0, cycles := 0\<rparr>"

definition vuRegsXGKICK :: "VURegs \<Rightarrow> VURegsNum \<Rightarrow> VURegsNum" where
  "vuRegsXGKICK VU r =
     r\<lparr>pipe := VUPIPE_XGKICK, VFwrite := 0, VFread0 := 0, VFread1 := 0, VIwrite := 0,
        VIread := vbit (rIs VU)\<rparr>"

definition vuRegsXTOP :: "VURegs \<Rightarrow> VURegsNum \<Rightarrow> VURegsNum" where
  "vuRegsXTOP VU r =
     r\<lparr>pipe := VUPIPE_IALU, VFwrite := 0, VFread0 := 0, VFread1 := 0, VIwrite := vbit (rIt VU),
        VIread := 0, cycles := 0\<rparr>"

end
