(* ===== verification/VuTables.thy ===== *)
theory VuTables
  imports VuLower VuRegsN
begin

text \<open>
  The opcode tables of the vector units (\<open>pcsx2/VUops.cpp\<close>). The macro \<open>_vuTablesMess\<close> makes the same
  tables four times, for the two units and for their decoders; here the entries are names, and
  \<open>upper_op\<close>, \<open>lower_op\<close>, \<open>regs_upper\<close> and \<open>regs_lower\<close> say which function a name stands for.
  \<open>XTOP\<close> and \<open>XGKICK\<close> do nothing on VU0. An unknown opcode fails an assertion of development builds and does
  nothing else; its decoder reports nothing.
\<close>

text \<open>The second operand of an FMAC: a register, \<open>I\<close>, \<open>Q\<close> or a broadcast lane.\<close>

datatype (plugins only: code) vu_bc =
     Bv | Bi | Bq | Bx | By | Bz | Bw

datatype (plugins only: code) vu_upper =
     U_ADD vu_bc | U_ADDA vu_bc | U_SUB vu_bc | U_SUBA vu_bc | U_MUL vu_bc | U_MULA vu_bc
    | U_MADD vu_bc | U_MADDA vu_bc | U_MSUB vu_bc | U_MSUBA vu_bc | U_MAX vu_bc | U_MINI vu_bc
    | U_ITOF0 | U_FTOI0 | U_unknown | U_ITOF4 | U_FTOI4 | U_ABS | U_ITOF12 | U_FTOI12 | U_OPMULA
    | U_ITOF15 | U_FTOI15 | U_CLIP | U_NOP | U_OPMSUB | U_FD_00 | U_FD_01 | U_FD_10 | U_FD_11

datatype (plugins only: code) vu_int =
     L_IADD | L_ISUB | L_IADDI | L_IAND | L_IOR | L_IADDIU | L_ISUBIU

datatype (plugins only: code) vu_mem =
     L_LQ | L_SQ | L_LQD | L_LQI | L_SQD | L_SQI | L_ILW | L_ISW | L_ILWR | L_ISWR

datatype (plugins only: code) vu_flag =
     L_FCEQ | L_FCSET | L_FCAND | L_FCOR | L_FSEQ | L_FSSET | L_FSAND | L_FSOR | L_FMEQ | L_FMAND
    | L_FMOR | L_FCGET

datatype (plugins only: code) vu_branch =
     L_B | L_BAL | L_JR | L_JALR | L_IBEQ | L_IBNE | L_IBLTZ | L_IBGTZ | L_IBLEZ | L_IBGEZ

datatype (plugins only: code) vu_efu =
     L_ESADD | L_EATANxy | L_ESQRT | L_ESIN | L_ERSADD | L_EATANxz | L_ERSQRT | L_EATAN | L_ELENG
    | L_ESUM | L_ERCPR | L_EEXP | L_ERLENG | L_WAITP

datatype (plugins only: code) vu_div =
     L_DIV | L_SQRT | L_RSQRT | L_WAITQ

datatype (plugins only: code) vu_move =
     L_MOVE | L_MTIR | L_RNEXT | L_MFP | L_MR32 | L_MFIR | L_RGET | L_RINIT | L_RXOR

datatype (plugins only: code) vu_vif =
     L_XTOP | L_XGKICK | L_XITOP

datatype (plugins only: code) vu_lower =
     LInt vu_int | LMem vu_mem | LFlag vu_flag | LBranch vu_branch | LEfu vu_efu | LDiv vu_div
    | LMove vu_move | LVif vu_vif | L_unknown | L_LowerOP_T3_00 | L_LowerOP_T3_01 | L_LowerOP_T3_10
    | L_LowerOP_T3_11 | L_LowerOP

section \<open>Tables\<close>

definition LowerOP_T3_00_OPCODE :: "vu_lower list" where
  "LowerOP_T3_00_OPCODE =
    [L_unknown, L_unknown, L_unknown, L_unknown, L_unknown, L_unknown, L_unknown, L_unknown, L_unknown,
     L_unknown, L_unknown, L_unknown, LMove L_MOVE, LMem L_LQI, LDiv L_DIV, LMove L_MTIR, LMove L_RNEXT,
     L_unknown, L_unknown, L_unknown, L_unknown, L_unknown, L_unknown, L_unknown, L_unknown,
     LMove L_MFP, LVif L_XTOP, LVif L_XGKICK, LEfu L_ESADD, LEfu L_EATANxy, LEfu L_ESQRT, LEfu L_ESIN]"

definition LowerOP_T3_01_OPCODE :: "vu_lower list" where
  "LowerOP_T3_01_OPCODE =
    [L_unknown, L_unknown, L_unknown, L_unknown, L_unknown, L_unknown, L_unknown, L_unknown, L_unknown,
     L_unknown, L_unknown, L_unknown, LMove L_MR32, LMem L_SQI, LDiv L_SQRT, LMove L_MFIR, LMove L_RGET,
     L_unknown, L_unknown, L_unknown, L_unknown, L_unknown, L_unknown, L_unknown, L_unknown, L_unknown,
     LVif L_XITOP, L_unknown, LEfu L_ERSADD, LEfu L_EATANxz, LEfu L_ERSQRT, LEfu L_EATAN]"

definition LowerOP_T3_10_OPCODE :: "vu_lower list" where
  "LowerOP_T3_10_OPCODE =
    [L_unknown, L_unknown, L_unknown, L_unknown, L_unknown, L_unknown, L_unknown, L_unknown, L_unknown,
     L_unknown, L_unknown, L_unknown, L_unknown, LMem L_LQD, LDiv L_RSQRT, LMem L_ILWR, LMove L_RINIT,
     L_unknown, L_unknown, L_unknown, L_unknown, L_unknown, L_unknown, L_unknown, L_unknown, L_unknown,
     L_unknown, L_unknown, LEfu L_ELENG, LEfu L_ESUM, LEfu L_ERCPR, LEfu L_EEXP]"

definition LowerOP_T3_11_OPCODE :: "vu_lower list" where
  "LowerOP_T3_11_OPCODE =
    [L_unknown, L_unknown, L_unknown, L_unknown, L_unknown, L_unknown, L_unknown, L_unknown, L_unknown,
     L_unknown, L_unknown, L_unknown, L_unknown, LMem L_SQD, LDiv L_WAITQ, LMem L_ISWR, LMove L_RXOR,
     L_unknown, L_unknown, L_unknown, L_unknown, L_unknown, L_unknown, L_unknown, L_unknown, L_unknown,
     L_unknown, L_unknown, LEfu L_ERLENG, L_unknown, LEfu L_WAITP, L_unknown]"

definition LowerOP_OPCODE :: "vu_lower list" where
  "LowerOP_OPCODE =
    [L_unknown, L_unknown, L_unknown, L_unknown, L_unknown, L_unknown, L_unknown, L_unknown, L_unknown,
     L_unknown, L_unknown, L_unknown, L_unknown, L_unknown, L_unknown, L_unknown, L_unknown, L_unknown,
     L_unknown, L_unknown, L_unknown, L_unknown, L_unknown, L_unknown, L_unknown, L_unknown, L_unknown,
     L_unknown, L_unknown, L_unknown, L_unknown, L_unknown, L_unknown, L_unknown, L_unknown, L_unknown,
     L_unknown, L_unknown, L_unknown, L_unknown, L_unknown, L_unknown, L_unknown, L_unknown, L_unknown,
     L_unknown, L_unknown, L_unknown, LInt L_IADD, LInt L_ISUB, LInt L_IADDI, L_unknown, LInt L_IAND,
     LInt L_IOR, L_unknown, L_unknown, L_unknown, L_unknown, L_unknown, L_unknown, L_LowerOP_T3_00,
     L_LowerOP_T3_01, L_LowerOP_T3_10, L_LowerOP_T3_11]"

definition LOWER_OPCODE :: "vu_lower list" where
  "LOWER_OPCODE =
    [LMem L_LQ, LMem L_SQ, L_unknown, L_unknown, LMem L_ILW, LMem L_ISW, L_unknown, L_unknown,
     LInt L_IADDIU, LInt L_ISUBIU, L_unknown, L_unknown, L_unknown, L_unknown, L_unknown, L_unknown,
     LFlag L_FCEQ, LFlag L_FCSET, LFlag L_FCAND, LFlag L_FCOR, LFlag L_FSEQ, LFlag L_FSSET,
     LFlag L_FSAND, LFlag L_FSOR, LFlag L_FMEQ, L_unknown, LFlag L_FMAND, LFlag L_FMOR, LFlag L_FCGET,
     L_unknown, L_unknown, L_unknown, LBranch L_B, LBranch L_BAL, L_unknown, L_unknown, LBranch L_JR,
     LBranch L_JALR, L_unknown, L_unknown, LBranch L_IBEQ, LBranch L_IBNE, L_unknown, L_unknown,
     LBranch L_IBLTZ, LBranch L_IBGTZ, LBranch L_IBLEZ, LBranch L_IBGEZ, L_unknown, L_unknown,
     L_unknown, L_unknown, L_unknown, L_unknown, L_unknown, L_unknown, L_unknown, L_unknown, L_unknown,
     L_unknown, L_unknown, L_unknown, L_unknown, L_unknown, L_LowerOP, L_unknown, L_unknown, L_unknown,
     L_unknown, L_unknown, L_unknown, L_unknown, L_unknown, L_unknown, L_unknown, L_unknown, L_unknown,
     L_unknown, L_unknown, L_unknown, L_unknown, L_unknown, L_unknown, L_unknown, L_unknown, L_unknown,
     L_unknown, L_unknown, L_unknown, L_unknown, L_unknown, L_unknown, L_unknown, L_unknown, L_unknown,
     L_unknown, L_unknown, L_unknown, L_unknown, L_unknown, L_unknown, L_unknown, L_unknown, L_unknown,
     L_unknown, L_unknown, L_unknown, L_unknown, L_unknown, L_unknown, L_unknown, L_unknown, L_unknown,
     L_unknown, L_unknown, L_unknown, L_unknown, L_unknown, L_unknown, L_unknown, L_unknown, L_unknown,
     L_unknown, L_unknown, L_unknown, L_unknown, L_unknown, L_unknown]"

definition UPPER_FD_00_TABLE :: "vu_upper list" where
  "UPPER_FD_00_TABLE =
    [U_ADDA Bx, U_SUBA Bx, U_MADDA Bx, U_MSUBA Bx, U_ITOF0, U_FTOI0, U_MULA Bx, U_MULA Bq, U_ADDA Bq,
     U_SUBA Bq, U_ADDA Bv, U_SUBA Bv, U_unknown, U_unknown, U_unknown, U_unknown, U_unknown, U_unknown,
     U_unknown, U_unknown, U_unknown, U_unknown, U_unknown, U_unknown, U_unknown, U_unknown, U_unknown,
     U_unknown, U_unknown, U_unknown, U_unknown, U_unknown]"

definition UPPER_FD_01_TABLE :: "vu_upper list" where
  "UPPER_FD_01_TABLE =
    [U_ADDA By, U_SUBA By, U_MADDA By, U_MSUBA By, U_ITOF4, U_FTOI4, U_MULA By, U_ABS, U_MADDA Bq,
     U_MSUBA Bq, U_MADDA Bv, U_MSUBA Bv, U_unknown, U_unknown, U_unknown, U_unknown, U_unknown,
     U_unknown, U_unknown, U_unknown, U_unknown, U_unknown, U_unknown, U_unknown, U_unknown, U_unknown,
     U_unknown, U_unknown, U_unknown, U_unknown, U_unknown, U_unknown]"

definition UPPER_FD_10_TABLE :: "vu_upper list" where
  "UPPER_FD_10_TABLE =
    [U_ADDA Bz, U_SUBA Bz, U_MADDA Bz, U_MSUBA Bz, U_ITOF12, U_FTOI12, U_MULA Bz, U_MULA Bi, U_ADDA Bi,
     U_SUBA Bi, U_MULA Bv, U_OPMULA, U_unknown, U_unknown, U_unknown, U_unknown, U_unknown, U_unknown,
     U_unknown, U_unknown, U_unknown, U_unknown, U_unknown, U_unknown, U_unknown, U_unknown, U_unknown,
     U_unknown, U_unknown, U_unknown, U_unknown, U_unknown]"

definition UPPER_FD_11_TABLE :: "vu_upper list" where
  "UPPER_FD_11_TABLE =
    [U_ADDA Bw, U_SUBA Bw, U_MADDA Bw, U_MSUBA Bw, U_ITOF15, U_FTOI15, U_MULA Bw, U_CLIP, U_MADDA Bi,
     U_MSUBA Bi, U_unknown, U_NOP, U_unknown, U_unknown, U_unknown, U_unknown, U_unknown, U_unknown,
     U_unknown, U_unknown, U_unknown, U_unknown, U_unknown, U_unknown, U_unknown, U_unknown, U_unknown,
     U_unknown, U_unknown, U_unknown, U_unknown, U_unknown]"

definition UPPER_OPCODE :: "vu_upper list" where
  "UPPER_OPCODE =
    [U_ADD Bx, U_ADD By, U_ADD Bz, U_ADD Bw, U_SUB Bx, U_SUB By, U_SUB Bz, U_SUB Bw, U_MADD Bx,
     U_MADD By, U_MADD Bz, U_MADD Bw, U_MSUB Bx, U_MSUB By, U_MSUB Bz, U_MSUB Bw, U_MAX Bx, U_MAX By,
     U_MAX Bz, U_MAX Bw, U_MINI Bx, U_MINI By, U_MINI Bz, U_MINI Bw, U_MUL Bx, U_MUL By, U_MUL Bz,
     U_MUL Bw, U_MUL Bq, U_MAX Bi, U_MUL Bi, U_MINI Bi, U_ADD Bq, U_MADD Bq, U_ADD Bi, U_MADD Bi,
     U_SUB Bq, U_MSUB Bq, U_SUB Bi, U_MSUB Bi, U_ADD Bv, U_MADD Bv, U_MUL Bv, U_MAX Bv, U_SUB Bv,
     U_MSUB Bv, U_OPMSUB, U_MINI Bv, U_unknown, U_unknown, U_unknown, U_unknown, U_unknown, U_unknown,
     U_unknown, U_unknown, U_unknown, U_unknown, U_unknown, U_unknown, U_FD_00, U_FD_01, U_FD_10, U_FD_11]"

section \<open>Decoding\<close>

definition decode_upper :: "u32 \<Rightarrow> vu_upper" where
  "decode_upper c =
     (let t = UPPER_OPCODE ! unat (c AND 0x3f); fd = unat (drop_bit 6 c AND 0x1f)
      in case t of
           U_FD_00 \<Rightarrow> UPPER_FD_00_TABLE ! fd
         | U_FD_01 \<Rightarrow> UPPER_FD_01_TABLE ! fd
         | U_FD_10 \<Rightarrow> UPPER_FD_10_TABLE ! fd
         | U_FD_11 \<Rightarrow> UPPER_FD_11_TABLE ! fd
         | _ \<Rightarrow> t)"

definition decode_lowerOP :: "u32 \<Rightarrow> vu_lower" where
  "decode_lowerOP c =
     (let t = LowerOP_OPCODE ! unat (c AND 0x3f); fd = unat (drop_bit 6 c AND 0x1f)
      in case t of
           L_LowerOP_T3_00 \<Rightarrow> LowerOP_T3_00_OPCODE ! fd
         | L_LowerOP_T3_01 \<Rightarrow> LowerOP_T3_01_OPCODE ! fd
         | L_LowerOP_T3_10 \<Rightarrow> LowerOP_T3_10_OPCODE ! fd
         | L_LowerOP_T3_11 \<Rightarrow> LowerOP_T3_11_OPCODE ! fd
         | _ \<Rightarrow> t)"

definition decode_lower :: "u32 \<Rightarrow> vu_lower" where
  "decode_lower c =
     (let t = LOWER_OPCODE ! unat (drop_bit 25 c)
      in case t of L_LowerOP \<Rightarrow> decode_lowerOP c | _ \<Rightarrow> t)"

section \<open>Instructions by name\<close>

definition upper_op :: "'e vu_env \<Rightarrow> vu_upper \<Rightarrow> VURegs \<Rightarrow> VURegs" where
  "upper_op env op VU =
     (case op of
        U_ADDA Bx \<Rightarrow> vuADDAx (vu_host env) VU
      | U_SUBA Bx \<Rightarrow> vuSUBAx (vu_host env) VU
      | U_MADDA Bx \<Rightarrow> vuMADDAx (vu_host env) VU
      | U_MSUBA Bx \<Rightarrow> vuMSUBAx (vu_host env) VU
      | U_ITOF0 \<Rightarrow> vuITOF0 (vu_host env) VU
      | U_FTOI0 \<Rightarrow> vuFTOI0 (vu_host env) VU
      | U_MULA Bx \<Rightarrow> vuMULAx (vu_host env) VU
      | U_MULA Bq \<Rightarrow> vuMULAq (vu_host env) VU
      | U_ADDA Bq \<Rightarrow> vuADDAq (vu_host env) VU
      | U_SUBA Bq \<Rightarrow> vuSUBAq (vu_host env) VU
      | U_ADDA Bv \<Rightarrow> vuADDA (vu_host env) VU
      | U_SUBA Bv \<Rightarrow> vuSUBA (vu_host env) VU
      | U_ADDA By \<Rightarrow> vuADDAy (vu_host env) VU
      | U_SUBA By \<Rightarrow> vuSUBAy (vu_host env) VU
      | U_MADDA By \<Rightarrow> vuMADDAy (vu_host env) VU
      | U_MSUBA By \<Rightarrow> vuMSUBAy (vu_host env) VU
      | U_ITOF4 \<Rightarrow> vuITOF4 (vu_host env) VU
      | U_FTOI4 \<Rightarrow> vuFTOI4 (vu_host env) VU
      | U_MULA By \<Rightarrow> vuMULAy (vu_host env) VU
      | U_ABS \<Rightarrow> vuABS VU
      | U_MADDA Bq \<Rightarrow> vuMADDAq (vu_host env) VU
      | U_MSUBA Bq \<Rightarrow> vuMSUBAq (vu_host env) VU
      | U_MADDA Bv \<Rightarrow> vuMADDA (vu_host env) VU
      | U_MSUBA Bv \<Rightarrow> vuMSUBA (vu_host env) VU
      | U_ADDA Bz \<Rightarrow> vuADDAz (vu_host env) VU
      | U_SUBA Bz \<Rightarrow> vuSUBAz (vu_host env) VU
      | U_MADDA Bz \<Rightarrow> vuMADDAz (vu_host env) VU
      | U_MSUBA Bz \<Rightarrow> vuMSUBAz (vu_host env) VU
      | U_ITOF12 \<Rightarrow> vuITOF12 (vu_host env) VU
      | U_FTOI12 \<Rightarrow> vuFTOI12 (vu_host env) VU
      | U_MULA Bz \<Rightarrow> vuMULAz (vu_host env) VU
      | U_MULA Bi \<Rightarrow> vuMULAi (vu_host env) VU
      | U_ADDA Bi \<Rightarrow> vuADDAi (vu_host env) VU
      | U_SUBA Bi \<Rightarrow> vuSUBAi (vu_host env) VU
      | U_MULA Bv \<Rightarrow> vuMULA (vu_host env) VU
      | U_OPMULA \<Rightarrow> vuOPMULA (vu_host env) VU
      | U_ADDA Bw \<Rightarrow> vuADDAw (vu_host env) VU
      | U_SUBA Bw \<Rightarrow> vuSUBAw (vu_host env) VU
      | U_MADDA Bw \<Rightarrow> vuMADDAw (vu_host env) VU
      | U_MSUBA Bw \<Rightarrow> vuMSUBAw (vu_host env) VU
      | U_ITOF15 \<Rightarrow> vuITOF15 (vu_host env) VU
      | U_FTOI15 \<Rightarrow> vuFTOI15 (vu_host env) VU
      | U_MULA Bw \<Rightarrow> vuMULAw (vu_host env) VU
      | U_CLIP \<Rightarrow> vuCLIP (vu_host env) VU
      | U_MADDA Bi \<Rightarrow> vuMADDAi (vu_host env) VU
      | U_MSUBA Bi \<Rightarrow> vuMSUBAi (vu_host env) VU
      | U_NOP \<Rightarrow> vuNOP VU
      | U_ADD Bx \<Rightarrow> vuADDx (vu_host env) VU
      | U_ADD By \<Rightarrow> vuADDy (vu_host env) VU
      | U_ADD Bz \<Rightarrow> vuADDz (vu_host env) VU
      | U_ADD Bw \<Rightarrow> vuADDw (vu_host env) VU
      | U_SUB Bx \<Rightarrow> vuSUBx (vu_host env) VU
      | U_SUB By \<Rightarrow> vuSUBy (vu_host env) VU
      | U_SUB Bz \<Rightarrow> vuSUBz (vu_host env) VU
      | U_SUB Bw \<Rightarrow> vuSUBw (vu_host env) VU
      | U_MADD Bx \<Rightarrow> vuMADDx (vu_host env) VU
      | U_MADD By \<Rightarrow> vuMADDy (vu_host env) VU
      | U_MADD Bz \<Rightarrow> vuMADDz (vu_host env) VU
      | U_MADD Bw \<Rightarrow> vuMADDw (vu_host env) VU
      | U_MSUB Bx \<Rightarrow> vuMSUBx (vu_host env) VU
      | U_MSUB By \<Rightarrow> vuMSUBy (vu_host env) VU
      | U_MSUB Bz \<Rightarrow> vuMSUBz (vu_host env) VU
      | U_MSUB Bw \<Rightarrow> vuMSUBw (vu_host env) VU
      | U_MAX Bx \<Rightarrow> vuMAXx VU
      | U_MAX By \<Rightarrow> vuMAXy VU
      | U_MAX Bz \<Rightarrow> vuMAXz VU
      | U_MAX Bw \<Rightarrow> vuMAXw VU
      | U_MINI Bx \<Rightarrow> vuMINIx VU
      | U_MINI By \<Rightarrow> vuMINIy VU
      | U_MINI Bz \<Rightarrow> vuMINIz VU
      | U_MINI Bw \<Rightarrow> vuMINIw VU
      | U_MUL Bx \<Rightarrow> vuMULx (vu_host env) VU
      | U_MUL By \<Rightarrow> vuMULy (vu_host env) VU
      | U_MUL Bz \<Rightarrow> vuMULz (vu_host env) VU
      | U_MUL Bw \<Rightarrow> vuMULw (vu_host env) VU
      | U_MUL Bq \<Rightarrow> vuMULq (vu_host env) VU
      | U_MAX Bi \<Rightarrow> vuMAXi VU
      | U_MUL Bi \<Rightarrow> vuMULi (vu_host env) VU
      | U_MINI Bi \<Rightarrow> vuMINIi VU
      | U_ADD Bq \<Rightarrow> vuADDq (vu_host env) VU
      | U_MADD Bq \<Rightarrow> vuMADDq (vu_host env) VU
      | U_ADD Bi \<Rightarrow> vuADDi (vu_addsub_hack env) (vu_host env) VU
      | U_MADD Bi \<Rightarrow> vuMADDi (vu_host env) VU
      | U_SUB Bq \<Rightarrow> vuSUBq (vu_host env) VU
      | U_MSUB Bq \<Rightarrow> vuMSUBq (vu_host env) VU
      | U_SUB Bi \<Rightarrow> vuSUBi (vu_host env) VU
      | U_MSUB Bi \<Rightarrow> vuMSUBi (vu_host env) VU
      | U_ADD Bv \<Rightarrow> vuADD (vu_host env) VU
      | U_MADD Bv \<Rightarrow> vuMADD (vu_host env) VU
      | U_MUL Bv \<Rightarrow> vuMUL (vu_host env) VU
      | U_MAX Bv \<Rightarrow> vuMAX VU
      | U_SUB Bv \<Rightarrow> vuSUB (vu_host env) VU
      | U_MSUB Bv \<Rightarrow> vuMSUB (vu_host env) VU
      | U_OPMSUB \<Rightarrow> vuOPMSUB (vu_host env) VU
      | U_MINI Bv \<Rightarrow> vuMINI VU
      | _ \<Rightarrow> VU)"

definition lower_op :: "'e vu_env \<Rightarrow> vuId \<Rightarrow> vu_lower \<Rightarrow> 'e vuState \<Rightarrow> 'e vuState" where
  "lower_op env i op S =
     (case op of
        LMove L_MOVE \<Rightarrow> on_vu i vuMOVE S
      | LMem L_LQI \<Rightarrow> vuLQI i S
      | LDiv L_DIV \<Rightarrow> on_vu i (vuDIV (vu_host env)) S
      | LMove L_MTIR \<Rightarrow> on_vu i vuMTIR S
      | LMove L_RNEXT \<Rightarrow> on_vu i vuRNEXT S
      | LMove L_MFP \<Rightarrow> on_vu i vuMFP S
      | LVif L_XTOP \<Rightarrow> vuXTOP env i S
      | LVif L_XGKICK \<Rightarrow> vuXGKICK env i S
      | LEfu L_ESADD \<Rightarrow> on_vu i (vuESADD (vu_host env)) S
      | LEfu L_EATANxy \<Rightarrow> on_vu i (vuEATANxy (vu_host env)) S
      | LEfu L_ESQRT \<Rightarrow> on_vu i (vuESQRT (vu_host env)) S
      | LEfu L_ESIN \<Rightarrow> on_vu i (vuESIN (vu_host env)) S
      | LMove L_MR32 \<Rightarrow> on_vu i vuMR32 S
      | LMem L_SQI \<Rightarrow> vuSQI i S
      | LDiv L_SQRT \<Rightarrow> on_vu i (vuSQRT (vu_host env)) S
      | LMove L_MFIR \<Rightarrow> on_vu i vuMFIR S
      | LMove L_RGET \<Rightarrow> on_vu i vuRGET S
      | LVif L_XITOP \<Rightarrow> vuXITOP env i S
      | LEfu L_ERSADD \<Rightarrow> on_vu i (vuERSADD (vu_host env)) S
      | LEfu L_EATANxz \<Rightarrow> on_vu i (vuEATANxz (vu_host env)) S
      | LEfu L_ERSQRT \<Rightarrow> on_vu i (vuERSQRT (vu_host env)) S
      | LEfu L_EATAN \<Rightarrow> on_vu i (vuEATAN (vu_host env)) S
      | LMem L_LQD \<Rightarrow> vuLQD i S
      | LDiv L_RSQRT \<Rightarrow> on_vu i (vuRSQRT (vu_host env)) S
      | LMem L_ILWR \<Rightarrow> vuILWR i S
      | LMove L_RINIT \<Rightarrow> on_vu i vuRINIT S
      | LEfu L_ELENG \<Rightarrow> on_vu i (vuELENG (vu_host env)) S
      | LEfu L_ESUM \<Rightarrow> on_vu i (vuESUM (vu_host env)) S
      | LEfu L_ERCPR \<Rightarrow> on_vu i (vuERCPR (vu_host env)) S
      | LEfu L_EEXP \<Rightarrow> on_vu i (vuEEXP (vu_host env)) S
      | LMem L_SQD \<Rightarrow> vuSQD i S
      | LDiv L_WAITQ \<Rightarrow> on_vu i vuWAITQ S
      | LMem L_ISWR \<Rightarrow> vuISWR i S
      | LMove L_RXOR \<Rightarrow> on_vu i vuRXOR S
      | LEfu L_ERLENG \<Rightarrow> on_vu i (vuERLENG (vu_host env)) S
      | LEfu L_WAITP \<Rightarrow> on_vu i vuWAITP S
      | LInt L_IADD \<Rightarrow> on_vu i vuIADD S
      | LInt L_ISUB \<Rightarrow> on_vu i vuISUB S
      | LInt L_IADDI \<Rightarrow> on_vu i vuIADDI S
      | LInt L_IAND \<Rightarrow> on_vu i vuIAND S
      | LInt L_IOR \<Rightarrow> on_vu i vuIOR S
      | LMem L_LQ \<Rightarrow> vuLQ i S
      | LMem L_SQ \<Rightarrow> vuSQ i S
      | LMem L_ILW \<Rightarrow> vuILW i S
      | LMem L_ISW \<Rightarrow> vuISW i S
      | LInt L_IADDIU \<Rightarrow> on_vu i vuIADDIU S
      | LInt L_ISUBIU \<Rightarrow> on_vu i vuISUBIU S
      | LFlag L_FCEQ \<Rightarrow> on_vu i vuFCEQ S
      | LFlag L_FCSET \<Rightarrow> on_vu i vuFCSET S
      | LFlag L_FCAND \<Rightarrow> on_vu i vuFCAND S
      | LFlag L_FCOR \<Rightarrow> on_vu i vuFCOR S
      | LFlag L_FSEQ \<Rightarrow> on_vu i vuFSEQ S
      | LFlag L_FSSET \<Rightarrow> on_vu i vuFSSET S
      | LFlag L_FSAND \<Rightarrow> on_vu i vuFSAND S
      | LFlag L_FSOR \<Rightarrow> on_vu i vuFSOR S
      | LFlag L_FMEQ \<Rightarrow> on_vu i vuFMEQ S
      | LFlag L_FMAND \<Rightarrow> on_vu i vuFMAND S
      | LFlag L_FMOR \<Rightarrow> on_vu i vuFMOR S
      | LFlag L_FCGET \<Rightarrow> on_vu i vuFCGET S
      | LBranch L_B \<Rightarrow> on_vu i (vuB i) S
      | LBranch L_BAL \<Rightarrow> on_vu i (vuBAL i) S
      | LBranch L_JR \<Rightarrow> on_vu i vuJR S
      | LBranch L_JALR \<Rightarrow> on_vu i vuJALR S
      | LBranch L_IBEQ \<Rightarrow> on_vu i (vuIBEQ i) S
      | LBranch L_IBNE \<Rightarrow> on_vu i (vuIBNE i) S
      | LBranch L_IBLTZ \<Rightarrow> on_vu i (vuIBLTZ i) S
      | LBranch L_IBGTZ \<Rightarrow> on_vu i (vuIBGTZ i) S
      | LBranch L_IBLEZ \<Rightarrow> on_vu i (vuIBLEZ i) S
      | LBranch L_IBGEZ \<Rightarrow> on_vu i (vuIBGEZ i) S
      | _ \<Rightarrow> S)"

definition regs_upper :: "vu_upper \<Rightarrow> VURegs \<Rightarrow> VURegsNum \<Rightarrow> VURegsNum" where
  "regs_upper op VU r =
     (case op of
        U_ADDA Bx \<Rightarrow> vuRegsADDAx VU r
      | U_SUBA Bx \<Rightarrow> vuRegsSUBAx VU r
      | U_MADDA Bx \<Rightarrow> vuRegsMADDAx VU r
      | U_MSUBA Bx \<Rightarrow> vuRegsMSUBAx VU r
      | U_ITOF0 \<Rightarrow> vuRegsITOF0 VU r
      | U_FTOI0 \<Rightarrow> vuRegsFTOI0 VU r
      | U_MULA Bx \<Rightarrow> vuRegsMULAx VU r
      | U_MULA Bq \<Rightarrow> vuRegsMULAq VU r
      | U_ADDA Bq \<Rightarrow> vuRegsADDAq VU r
      | U_SUBA Bq \<Rightarrow> vuRegsSUBAq VU r
      | U_ADDA Bv \<Rightarrow> vuRegsADDA VU r
      | U_SUBA Bv \<Rightarrow> vuRegsSUBA VU r
      | U_ADDA By \<Rightarrow> vuRegsADDAy VU r
      | U_SUBA By \<Rightarrow> vuRegsSUBAy VU r
      | U_MADDA By \<Rightarrow> vuRegsMADDAy VU r
      | U_MSUBA By \<Rightarrow> vuRegsMSUBAy VU r
      | U_ITOF4 \<Rightarrow> vuRegsITOF4 VU r
      | U_FTOI4 \<Rightarrow> vuRegsFTOI4 VU r
      | U_MULA By \<Rightarrow> vuRegsMULAy VU r
      | U_ABS \<Rightarrow> vuRegsABS VU r
      | U_MADDA Bq \<Rightarrow> vuRegsMADDAq VU r
      | U_MSUBA Bq \<Rightarrow> vuRegsMSUBAq VU r
      | U_MADDA Bv \<Rightarrow> vuRegsMADDA VU r
      | U_MSUBA Bv \<Rightarrow> vuRegsMSUBA VU r
      | U_ADDA Bz \<Rightarrow> vuRegsADDAz VU r
      | U_SUBA Bz \<Rightarrow> vuRegsSUBAz VU r
      | U_MADDA Bz \<Rightarrow> vuRegsMADDAz VU r
      | U_MSUBA Bz \<Rightarrow> vuRegsMSUBAz VU r
      | U_ITOF12 \<Rightarrow> vuRegsITOF12 VU r
      | U_FTOI12 \<Rightarrow> vuRegsFTOI12 VU r
      | U_MULA Bz \<Rightarrow> vuRegsMULAz VU r
      | U_MULA Bi \<Rightarrow> vuRegsMULAi VU r
      | U_ADDA Bi \<Rightarrow> vuRegsADDAi VU r
      | U_SUBA Bi \<Rightarrow> vuRegsSUBAi VU r
      | U_MULA Bv \<Rightarrow> vuRegsMULA VU r
      | U_OPMULA \<Rightarrow> vuRegsOPMULA VU r
      | U_ADDA Bw \<Rightarrow> vuRegsADDAw VU r
      | U_SUBA Bw \<Rightarrow> vuRegsSUBAw VU r
      | U_MADDA Bw \<Rightarrow> vuRegsMADDAw VU r
      | U_MSUBA Bw \<Rightarrow> vuRegsMSUBAw VU r
      | U_ITOF15 \<Rightarrow> vuRegsITOF15 VU r
      | U_FTOI15 \<Rightarrow> vuRegsFTOI15 VU r
      | U_MULA Bw \<Rightarrow> vuRegsMULAw VU r
      | U_CLIP \<Rightarrow> vuRegsCLIP VU r
      | U_MADDA Bi \<Rightarrow> vuRegsMADDAi VU r
      | U_MSUBA Bi \<Rightarrow> vuRegsMSUBAi VU r
      | U_NOP \<Rightarrow> vuRegsNOP VU r
      | U_ADD Bx \<Rightarrow> vuRegsADDx VU r
      | U_ADD By \<Rightarrow> vuRegsADDy VU r
      | U_ADD Bz \<Rightarrow> vuRegsADDz VU r
      | U_ADD Bw \<Rightarrow> vuRegsADDw VU r
      | U_SUB Bx \<Rightarrow> vuRegsSUBx VU r
      | U_SUB By \<Rightarrow> vuRegsSUBy VU r
      | U_SUB Bz \<Rightarrow> vuRegsSUBz VU r
      | U_SUB Bw \<Rightarrow> vuRegsSUBw VU r
      | U_MADD Bx \<Rightarrow> vuRegsMADDx VU r
      | U_MADD By \<Rightarrow> vuRegsMADDy VU r
      | U_MADD Bz \<Rightarrow> vuRegsMADDz VU r
      | U_MADD Bw \<Rightarrow> vuRegsMADDw VU r
      | U_MSUB Bx \<Rightarrow> vuRegsMSUBx VU r
      | U_MSUB By \<Rightarrow> vuRegsMSUBy VU r
      | U_MSUB Bz \<Rightarrow> vuRegsMSUBz VU r
      | U_MSUB Bw \<Rightarrow> vuRegsMSUBw VU r
      | U_MAX Bx \<Rightarrow> vuRegsMAXx VU r
      | U_MAX By \<Rightarrow> vuRegsMAXy VU r
      | U_MAX Bz \<Rightarrow> vuRegsMAXz VU r
      | U_MAX Bw \<Rightarrow> vuRegsMAXw VU r
      | U_MINI Bx \<Rightarrow> vuRegsMINIx VU r
      | U_MINI By \<Rightarrow> vuRegsMINIy VU r
      | U_MINI Bz \<Rightarrow> vuRegsMINIz VU r
      | U_MINI Bw \<Rightarrow> vuRegsMINIw VU r
      | U_MUL Bx \<Rightarrow> vuRegsMULx VU r
      | U_MUL By \<Rightarrow> vuRegsMULy VU r
      | U_MUL Bz \<Rightarrow> vuRegsMULz VU r
      | U_MUL Bw \<Rightarrow> vuRegsMULw VU r
      | U_MUL Bq \<Rightarrow> vuRegsMULq VU r
      | U_MAX Bi \<Rightarrow> vuRegsMAXi VU r
      | U_MUL Bi \<Rightarrow> vuRegsMULi VU r
      | U_MINI Bi \<Rightarrow> vuRegsMINIi VU r
      | U_ADD Bq \<Rightarrow> vuRegsADDq VU r
      | U_MADD Bq \<Rightarrow> vuRegsMADDq VU r
      | U_ADD Bi \<Rightarrow> vuRegsADDi VU r
      | U_MADD Bi \<Rightarrow> vuRegsMADDi VU r
      | U_SUB Bq \<Rightarrow> vuRegsSUBq VU r
      | U_MSUB Bq \<Rightarrow> vuRegsMSUBq VU r
      | U_SUB Bi \<Rightarrow> vuRegsSUBi VU r
      | U_MSUB Bi \<Rightarrow> vuRegsMSUBi VU r
      | U_ADD Bv \<Rightarrow> vuRegsADD VU r
      | U_MADD Bv \<Rightarrow> vuRegsMADD VU r
      | U_MUL Bv \<Rightarrow> vuRegsMUL VU r
      | U_MAX Bv \<Rightarrow> vuRegsMAX VU r
      | U_SUB Bv \<Rightarrow> vuRegsSUB VU r
      | U_MSUB Bv \<Rightarrow> vuRegsMSUB VU r
      | U_OPMSUB \<Rightarrow> vuRegsOPMSUB VU r
      | U_MINI Bv \<Rightarrow> vuRegsMINI VU r
      | _ \<Rightarrow> r)"

definition regs_lower :: "vu_lower \<Rightarrow> VURegs \<Rightarrow> VURegsNum \<Rightarrow> VURegsNum" where
  "regs_lower op VU r =
     (case op of
        LMove L_MOVE \<Rightarrow> vuRegsMOVE VU r
      | LMem L_LQI \<Rightarrow> vuRegsLQI VU r
      | LDiv L_DIV \<Rightarrow> vuRegsDIV VU r
      | LMove L_MTIR \<Rightarrow> vuRegsMTIR VU r
      | LMove L_RNEXT \<Rightarrow> vuRegsRNEXT VU r
      | LMove L_MFP \<Rightarrow> vuRegsMFP VU r
      | LVif L_XTOP \<Rightarrow> vuRegsXTOP VU r
      | LVif L_XGKICK \<Rightarrow> vuRegsXGKICK VU r
      | LEfu L_ESADD \<Rightarrow> vuRegsESADD VU r
      | LEfu L_EATANxy \<Rightarrow> vuRegsEATANxy VU r
      | LEfu L_ESQRT \<Rightarrow> vuRegsESQRT VU r
      | LEfu L_ESIN \<Rightarrow> vuRegsESIN VU r
      | LMove L_MR32 \<Rightarrow> vuRegsMR32 VU r
      | LMem L_SQI \<Rightarrow> vuRegsSQI VU r
      | LDiv L_SQRT \<Rightarrow> vuRegsSQRT VU r
      | LMove L_MFIR \<Rightarrow> vuRegsMFIR VU r
      | LMove L_RGET \<Rightarrow> vuRegsRGET VU r
      | LVif L_XITOP \<Rightarrow> vuRegsXITOP VU r
      | LEfu L_ERSADD \<Rightarrow> vuRegsERSADD VU r
      | LEfu L_EATANxz \<Rightarrow> vuRegsEATANxz VU r
      | LEfu L_ERSQRT \<Rightarrow> vuRegsERSQRT VU r
      | LEfu L_EATAN \<Rightarrow> vuRegsEATAN VU r
      | LMem L_LQD \<Rightarrow> vuRegsLQD VU r
      | LDiv L_RSQRT \<Rightarrow> vuRegsRSQRT VU r
      | LMem L_ILWR \<Rightarrow> vuRegsILWR VU r
      | LMove L_RINIT \<Rightarrow> vuRegsRINIT VU r
      | LEfu L_ELENG \<Rightarrow> vuRegsELENG VU r
      | LEfu L_ESUM \<Rightarrow> vuRegsESUM VU r
      | LEfu L_ERCPR \<Rightarrow> vuRegsERCPR VU r
      | LEfu L_EEXP \<Rightarrow> vuRegsEEXP VU r
      | LMem L_SQD \<Rightarrow> vuRegsSQD VU r
      | LDiv L_WAITQ \<Rightarrow> vuRegsWAITQ VU r
      | LMem L_ISWR \<Rightarrow> vuRegsISWR VU r
      | LMove L_RXOR \<Rightarrow> vuRegsRXOR VU r
      | LEfu L_ERLENG \<Rightarrow> vuRegsERLENG VU r
      | LEfu L_WAITP \<Rightarrow> vuRegsWAITP VU r
      | LInt L_IADD \<Rightarrow> vuRegsIADD VU r
      | LInt L_ISUB \<Rightarrow> vuRegsISUB VU r
      | LInt L_IADDI \<Rightarrow> vuRegsIADDI VU r
      | LInt L_IAND \<Rightarrow> vuRegsIAND VU r
      | LInt L_IOR \<Rightarrow> vuRegsIOR VU r
      | LMem L_LQ \<Rightarrow> vuRegsLQ VU r
      | LMem L_SQ \<Rightarrow> vuRegsSQ VU r
      | LMem L_ILW \<Rightarrow> vuRegsILW VU r
      | LMem L_ISW \<Rightarrow> vuRegsISW VU r
      | LInt L_IADDIU \<Rightarrow> vuRegsIADDIU VU r
      | LInt L_ISUBIU \<Rightarrow> vuRegsISUBIU VU r
      | LFlag L_FCEQ \<Rightarrow> vuRegsFCEQ VU r
      | LFlag L_FCSET \<Rightarrow> vuRegsFCSET VU r
      | LFlag L_FCAND \<Rightarrow> vuRegsFCAND VU r
      | LFlag L_FCOR \<Rightarrow> vuRegsFCOR VU r
      | LFlag L_FSEQ \<Rightarrow> vuRegsFSEQ VU r
      | LFlag L_FSSET \<Rightarrow> vuRegsFSSET VU r
      | LFlag L_FSAND \<Rightarrow> vuRegsFSAND VU r
      | LFlag L_FSOR \<Rightarrow> vuRegsFSOR VU r
      | LFlag L_FMEQ \<Rightarrow> vuRegsFMEQ VU r
      | LFlag L_FMAND \<Rightarrow> vuRegsFMAND VU r
      | LFlag L_FMOR \<Rightarrow> vuRegsFMOR VU r
      | LFlag L_FCGET \<Rightarrow> vuRegsFCGET VU r
      | LBranch L_B \<Rightarrow> vuRegsB VU r
      | LBranch L_BAL \<Rightarrow> vuRegsBAL VU r
      | LBranch L_JR \<Rightarrow> vuRegsJR VU r
      | LBranch L_JALR \<Rightarrow> vuRegsJALR VU r
      | LBranch L_IBEQ \<Rightarrow> vuRegsIBEQ VU r
      | LBranch L_IBNE \<Rightarrow> vuRegsIBNE VU r
      | LBranch L_IBLTZ \<Rightarrow> vuRegsIBLTZ VU r
      | LBranch L_IBGTZ \<Rightarrow> vuRegsIBGTZ VU r
      | LBranch L_IBLEZ \<Rightarrow> vuRegsIBLEZ VU r
      | LBranch L_IBGEZ \<Rightarrow> vuRegsIBGEZ VU r
      | _ \<Rightarrow> r)"

text \<open>The wrappers of the two units.\<close>

definition VU0MI_upper :: "'e vu_env \<Rightarrow> vu_upper \<Rightarrow> 'e vuState \<Rightarrow> 'e vuState" where
  "VU0MI_upper env op S = on_vu VU0 (upper_op env op) S"

definition VU1MI_upper :: "'e vu_env \<Rightarrow> vu_upper \<Rightarrow> 'e vuState \<Rightarrow> 'e vuState" where
  "VU1MI_upper env op S = on_vu VU1 (upper_op env op) S"

definition VU0MI_lower :: "'e vu_env \<Rightarrow> vu_lower \<Rightarrow> 'e vuState \<Rightarrow> 'e vuState" where
  "VU0MI_lower env op S =
     (case op of LVif L_XGKICK \<Rightarrow> S | LVif L_XTOP \<Rightarrow> S | _ \<Rightarrow> lower_op env VU0 op S)"

definition VU1MI_lower :: "'e vu_env \<Rightarrow> vu_lower \<Rightarrow> 'e vuState \<Rightarrow> 'e vuState" where
  "VU1MI_lower env op S = lower_op env VU1 op S"

end
