(* ===== verification/VuInterp.thy ===== *)
theory VuInterp
  imports VuTables
begin

text \<open>
  The interpreters of the vector units (\<open>pcsx2/VU0microInterp.cpp\<close>, \<open>VU1microInterp.cpp\<close>): a step fetches
  an upper and a lower instruction, stalls for their operands, executes both so that the lower one sees the
  registers as they were before the upper one, and steps the pipelines, the branch and the end of the program.

  The variables \<open>uregs\<close> and \<open>lregs\<close> that the decoders fill are not initialised: \<open>ju\<close> and \<open>jl\<close> are what they
  hold. \<open>vu0branch\<close> and \<open>vu1branch\<close> are written only and left out.
\<close>

section \<open>A pair of instructions\<close>

definition fetch_lower :: "VURegs \<Rightarrow> u32" where
  "fetch_lower VU = le_read 4 (vMicro VU) (VI VU REG_TPC)"

definition fetch_upper :: "VURegs \<Rightarrow> u32" where
  "fetch_upper VU = le_read 4 (vMicro VU) (VI VU REG_TPC + 4)"

definition set_vcode :: "u32 \<Rightarrow> VURegs \<Rightarrow> VURegs" where
  "set_vcode c VU = VU\<lparr>vcode := c\<rparr>"

definition MI_upper :: "'e vu_env \<Rightarrow> vuId \<Rightarrow> vu_upper \<Rightarrow> 'e vuState \<Rightarrow> 'e vuState" where
  "MI_upper env i = (case i of VU0 \<Rightarrow> VU0MI_upper env | VU1 \<Rightarrow> VU1MI_upper env)"

definition MI_lower :: "'e vu_env \<Rightarrow> vuId \<Rightarrow> vu_lower \<Rightarrow> 'e vuState \<Rightarrow> 'e vuState" where
  "MI_lower env i = (case i of VU0 \<Rightarrow> VU0MI_lower env | VU1 \<Rightarrow> VU1MI_lower env)"

definition ExecUpper :: "'e vu_env \<Rightarrow> vuId \<Rightarrow> u32 \<Rightarrow> 'e vuState \<Rightarrow> 'e vuState" where
  "ExecUpper env i c S = MI_upper env i (decode_upper c) (on_vu i (set_vcode c) S)"

definition ExecLower :: "'e vu_env \<Rightarrow> vuId \<Rightarrow> u32 \<Rightarrow> 'e vuState \<Rightarrow> 'e vuState" where
  "ExecLower env i c S = MI_lower env i (decode_lower c) (on_vu i (set_vcode c) S)"

definition no_regs :: VURegsNum where
  "no_regs = \<lparr>pipe = 0, VFwrite = 0, VFwxyzw = 0, VFr0xyzw = 0, VFr1xyzw = 0, VFread0 = 0, VFread1 = 0,
     VIwrite = 0, VIread = 0, cycles = 0\<rparr>"

definition put_vec :: "nat \<Rightarrow> vec \<Rightarrow> VURegs \<Rightarrow> VURegs" where
  "put_vec r v VU = VU\<lparr>VF := (VF VU)(r := v)\<rparr>"

text \<open>Which registers are saved around the two halves, and whether the lower half is dropped.\<close>

definition saved_VF :: "VURegsNum \<Rightarrow> VURegsNum \<Rightarrow> nat" where
  "saved_VF u l =
     (if VFwrite u \<noteq> 0 \<and> (VFread0 l = VFwrite u \<or> VFread1 l = VFwrite u) then VFwrite u else 0)"

definition saved_VI :: "VURegsNum \<Rightarrow> VURegsNum \<Rightarrow> nat" where
  "saved_VI u l = (if bit (VIread u) REG_CLIP_FLAG \<and> bit (VIread l) REG_CLIP_FLAG then REG_CLIP_FLAG else 0)"

definition discards :: "VURegsNum \<Rightarrow> VURegsNum \<Rightarrow> bool" where
  "discards u l =
     (VFwrite u \<noteq> 0 \<and> VFwrite l = VFwrite u \<or>
      bit (VIread u) REG_CLIP_FLAG \<and> bit (VIwrite l) REG_CLIP_FLAG)"

definition exec_both :: "'e vu_env \<Rightarrow> vuId \<Rightarrow> u32 \<Rightarrow> u32 \<Rightarrow> VURegsNum \<Rightarrow> VURegsNum \<Rightarrow> 'e vuState \<Rightarrow> 'e vuState" where
  "exec_both env i p0 p1 u l S =
     (let vf = VF (vu_at i S) (VFwrite u);
          vi = VI (vu_at i S) REG_CLIP_FLAG;
          vfreg = saved_VF u l; vireg = saved_VI u l;
          S = ExecUpper env i p1 S
      in if discards u l then S
         else let vfc = VF (vu_at i S) vfreg; vic = VI (vu_at i S) vireg;
                  S = (if vfreg \<noteq> 0 then on_vu i (put_vec vfreg vf) S else S);
                  S = (if vireg \<noteq> 0 then on_vu i (set_VI vireg vi) S else S);
                  S = ExecLower env i p0 S;
                  S = (if vfreg \<noteq> 0 then on_vu i (put_vec vfreg vfc) S else S)
              in if vireg \<noteq> 0 then on_vu i (set_VI vireg vic) S else S)"

text \<open>The body of a step after the fetch: the state, and the reports of the two decoders.\<close>

definition exec_pair ::
  "'e vu_env \<Rightarrow> vuId \<Rightarrow> u32 \<Rightarrow> u32 \<Rightarrow> VURegsNum \<Rightarrow> VURegsNum \<Rightarrow> 'e vuState \<Rightarrow>
   'e vuState \<times> VURegsNum \<times> VURegsNum" where
  "exec_pair env i p0 p1 ju jl S =
     (let S = on_vu i (set_vcode p1) S;
          u = regs_upper (decode_upper p1) (vu_at i S) ju;
          S = on_vu i (vuTestUpperStalls u) S
      in if bit p1 31
         then let S = ExecUpper env i p1 S in (on_vu i (set_VI REG_I p0) S, u, no_regs)
         else let S = on_vu i (set_vcode p0) S;
                  l = regs_lower (decode_lower p0) (vu_at i S) jl;
                  S = on_vu i (vuTestLowerStalls l) S
              in (exec_both env i p0 p1 u l S, u, l))"

section \<open>A step\<close>

definition vi_backup_tick :: "VURegs \<Rightarrow> VURegs" where
  "vi_backup_tick VU =
     (if 0 < VIBackupCycles VU then VU\<lparr>VIBackupCycles := VIBackupCycles VU - 1\<rparr> else VU)"

definition branch_tick :: "VURegs \<Rightarrow> VURegs" where
  "branch_tick VU =
     (if 0 < vbranch VU
      then let n = vbranch VU; VU = VU\<lparr>vbranch := n - 1\<rparr>
           in if n = 1
              then let VU = set_VI REG_TPC (branchpc VU) VU
                   in if takedelaybranch VU
                      then VU\<lparr>vbranch := 2, branchpc := delaybranchpc VU, delaybranchpc := 0,
                              takedelaybranch := False\<rparr>
                      else VU
              else VU
      else VU)"

definition clear_VPU_STAT :: "u32 \<Rightarrow> 'e vuState \<Rightarrow> 'e vuState" where
  "clear_VPU_STAT m S =
     on_vu VU0 (\<lambda>VU. set_VI REG_VPU_STAT (VI VU REG_VPU_STAT AND NOT m) VU) S"

definition or_VPU_STAT :: "u32 \<Rightarrow> 'e vuState \<Rightarrow> 'e vuState" where
  "or_VPU_STAT m S = on_vu VU0 (\<lambda>VU. set_VI REG_VPU_STAT (VI VU REG_VPU_STAT OR m) VU) S"

text \<open>The D and T bits of the upper word: the program stops with an interrupt if \<open>FBRST\<close> allows it.\<close>

definition stop_bit :: "'e vu_env \<Rightarrow> vuId \<Rightarrow> u32 \<Rightarrow> u32 \<Rightarrow> u32 \<Rightarrow> u32 \<Rightarrow> 'e vuState \<Rightarrow> 'e vuState" where
  "stop_bit env i p1 m fbrst stat S =
     (if p1 AND m \<noteq> 0 \<and> VI (vu0 S) REG_FBRST AND fbrst \<noteq> 0
      then let S = or_VPU_STAT stat S;
               S = S\<lparr>vuExt := vu_intc env i (vuExt S)\<rparr>
           in on_vu i (\<lambda>VU. VU\<lparr>ebit := 1\<rparr>) S
      else S)"

definition VUFLAG_MFLAGSET :: u32 where
  "VUFLAG_MFLAGSET = 0x00000002"

definition set_ebit :: "u32 \<Rightarrow> VURegs \<Rightarrow> VURegs" where
  "set_ebit n VU = VU\<lparr>ebit := n\<rparr>"

definition or_vflags :: "u32 \<Rightarrow> VURegs \<Rightarrow> VURegs" where
  "or_vflags m VU = VU\<lparr>vflags := vflags VU OR m\<rparr>"

definition advance_TPC :: "VURegs \<Rightarrow> VURegs" where
  "advance_TPC VU = set_VI REG_TPC (VI VU REG_TPC + 8) VU"

definition flush_at_end :: "VURegs \<Rightarrow> VURegs" where
  "flush_at_end VU = vuFlushAll (VU\<lparr>VIBackupCycles := 0\<rparr>)"

text \<open>\<open>_vu0Exec\<close> and \<open>_vu1Exec\<close>.\<close>

definition vu0Exec1 :: "'e vu_env \<Rightarrow> VURegsNum \<Rightarrow> VURegsNum \<Rightarrow> 'e vuState \<Rightarrow> 'e vuState" where
  "vu0Exec1 env ju jl S =
     (let p0 = fetch_lower (vu0 S); p1 = fetch_upper (vu0 S);
          S = on_vu VU0 advance_TPC S;
          S = (if p1 AND 0x40000000 \<noteq> 0 then on_vu VU0 (set_ebit 2) S else S);
          S = (if p1 AND 0x20000000 \<noteq> 0 then on_vu VU0 (or_vflags VUFLAG_MFLAGSET) S else S);
          S = stop_bit env VU0 p1 0x10000000 0x4 0x2 S;
          S = stop_bit env VU0 p1 0x08000000 0x8 0x4 S;
          (S, u, l) = exec_pair env VU0 p0 p1 ju jl S;
          S = on_vu VU0 (vuAddUpperStalls u) S;
          S = (if p1 AND 0x80000000 = 0 then on_vu VU0 (vuAddLowerStalls l) S else S);
          S = on_vu VU0 vuTestPipes S;
          S = on_vu VU0 vi_backup_tick S;
          S = on_vu VU0 branch_tick S
      in if 0 < ebit (vu0 S)
         then let n = ebit (vu0 S); S = on_vu VU0 (set_ebit (n - 1)) S
              in if n = 1
                 then let S = clear_VPU_STAT 0x1 (on_vu VU0 flush_at_end S)
                      in S\<lparr>vif0Regs := (vif0Regs S)\<lparr>VEW := False\<rparr>\<rparr>
                 else S
         else S)"

definition vu1Exec1 :: "'e vu_env \<Rightarrow> VURegsNum \<Rightarrow> VURegsNum \<Rightarrow> 'e vuState \<Rightarrow> 'e vuState" where
  "vu1Exec1 env ju jl S =
     (let p0 = fetch_lower (vu1 S); p1 = fetch_upper (vu1 S);
          S = on_vu VU1 advance_TPC S;
          S = (if p1 AND 0x40000000 \<noteq> 0 then on_vu VU1 (set_ebit 2) S else S);
          S = stop_bit env VU1 p1 0x10000000 0x400 0x200 S;
          S = stop_bit env VU1 p1 0x08000000 0x800 0x400 S;
          (S, u, l) = exec_pair env VU1 p0 p1 ju jl S;
          S = on_vu VU1 (vuAddUpperStalls u) S;
          S = on_vu VU1 (vuAddLowerStalls l) S;
          S = on_vu VU1 vuTestPipes S;
          S = on_vu VU1 vi_backup_tick S;
          S = on_vu VU1 branch_tick S
      in if 0 < ebit (vu1 S)
         then let n = ebit (vu1 S); S = on_vu VU1 (set_ebit (n - 1)) S
              in if n = 1
                 then let S = clear_VPU_STAT 0x100 (on_vu VU1 flush_at_end S)
                      in S\<lparr>vif1Regs := (vif1Regs S)\<lparr>VEW := False\<rparr>\<rparr>
                 else S
         else S)"

definition mask_TPC :: "u32 \<Rightarrow> VURegs \<Rightarrow> VURegs" where
  "mask_TPC m VU = set_VI REG_TPC (VI VU REG_TPC AND m) VU"

definition next_cycle :: "VURegs \<Rightarrow> VURegs" where
  "next_cycle VU = VU\<lparr>vcycle := vcycle VU + 1\<rparr>"

text \<open>The value of the uninitialised variables may differ from step to step.\<close>

type_synonym 'e vu_junk = "'e vuState \<Rightarrow> VURegsNum \<times> VURegsNum"

definition vu0Exec :: "'e vu_env \<Rightarrow> 'e vu_junk \<Rightarrow> 'e vuState \<Rightarrow> 'e vuState" where
  "vu0Exec env junk S =
     (let S = on_vu VU0 (mask_TPC 0xfff) S
      in on_vu VU0 next_cycle (vu0Exec1 env (fst (junk S)) (snd (junk S)) S))"

definition vu1Exec :: "'e vu_env \<Rightarrow> 'e vu_junk \<Rightarrow> 'e vuState \<Rightarrow> 'e vuState" where
  "vu1Exec env junk S = on_vu VU1 next_cycle (vu1Exec1 env (fst (junk S)) (snd (junk S)) S)"

definition InterpVU0_Step :: "'e vu_env \<Rightarrow> 'e vu_junk \<Rightarrow> 'e vuState \<Rightarrow> 'e vuState" where
  "InterpVU0_Step env junk S = vu0Exec env junk S"

definition InterpVU1_Step :: "'e vu_env \<Rightarrow> 'e vu_junk \<Rightarrow> 'e vuState \<Rightarrow> 'e vuState" where
  "InterpVU1_Step env junk S = vu1Exec env junk (on_vu VU1 (mask_TPC 0x3fff) S)"

section \<open>Running a program\<close>

text \<open>
  \<open>Execute\<close> takes the number of steps as an \<open>int\<close>, so that a count above \<open>2 ^ 31\<close> runs nothing. It leaves
  when the unit is stopped, after one more step if a branch or the end of the program is still pending.
\<close>

fun run_VU0 :: "'e vu_env \<Rightarrow> 'e vu_junk \<Rightarrow> nat \<Rightarrow> 'e vuState \<Rightarrow> 'e vuState" where
  "run_VU0 env junk 0 S = S"
| "run_VU0 env junk (Suc n) S =
     (if VI (vu0 S) REG_VPU_STAT AND 0x1 = 0
      then if vbranch (vu0 S) \<noteq> 0 \<or> ebit (vu0 S) \<noteq> 0 then vu0Exec env junk S else S
      else run_VU0 env junk n (vu0Exec env junk S))"

fun run_VU1 :: "'e vu_env \<Rightarrow> 'e vu_junk \<Rightarrow> nat \<Rightarrow> 'e vuState \<Rightarrow> 'e vuState" where
  "run_VU1 env junk 0 S = S"
| "run_VU1 env junk (Suc n) S =
     (if VI (vu0 S) REG_VPU_STAT AND 0x100 = 0
      then if vbranch (vu1 S) \<noteq> 0 \<or> ebit (vu1 S) \<noteq> 0 then InterpVU1_Step env junk S else S
      else run_VU1 env junk n (InterpVU1_Step env junk S))"

definition InterpVU0_Execute :: "'e vu_env \<Rightarrow> 'e vu_junk \<Rightarrow> u32 \<Rightarrow> 'e vuState \<Rightarrow> 'e vuState" where
  "InterpVU0_Execute env junk n S = run_VU0 env junk (nat (sint n)) S"

definition InterpVU1_Execute :: "'e vu_env \<Rightarrow> 'e vu_junk \<Rightarrow> u32 \<Rightarrow> 'e vuState \<Rightarrow> 'e vuState" where
  "InterpVU1_Execute env junk n S = run_VU1 env junk (nat (sint n)) S"

text \<open>
  \<open>pcsx2/VU0micro.cpp\<close>, \<open>VU1micro.cpp\<close> and \<open>_vu0run\<close> of \<open>VU0.cpp\<close>. A microprogram that does not end keeps
  \<open>vu0Finish\<close> and \<open>vu1Finish\<close> from returning: \<open>None\<close>.
\<close>

definition vu0ResetRegs :: "'e vuState \<Rightarrow> 'e vuState" where
  "vu0ResetRegs S =
     (let S = clear_VPU_STAT 0xff S;
          S = on_vu VU0 (\<lambda>VU. set_VI REG_FBRST (VI VU REG_FBRST AND NOT 0xff) VU) S
      in S\<lparr>vif0Regs := (vif0Regs S)\<lparr>VEW := False\<rparr>\<rparr>)"

definition vu1ResetRegs :: "'e vuState \<Rightarrow> 'e vuState" where
  "vu1ResetRegs S =
     (let S = clear_VPU_STAT 0xff00 S;
          S = on_vu VU0 (\<lambda>VU. set_VI REG_FBRST (VI VU REG_FBRST AND NOT 0xff00) VU) S
      in S\<lparr>vif1Regs := (vif1Regs S)\<lparr>VEW := False\<rparr>\<rparr>)"

definition vu0RunCycles :: u32 where "vu0RunCycles = 512 * 12"
definition vu1RunCycles :: u32 where "vu1RunCycles = 3000000"

partial_function (option) vu0_do ::
  "'e vu_env \<Rightarrow> 'e vu_junk \<Rightarrow> bool \<Rightarrow> u32 \<Rightarrow> 'e vuState \<Rightarrow> 'e vuState option" where
  "vu0_do env junk breakOnMbit runCycles S =
     (let S = InterpVU0_Execute env junk runCycles S
      in if VI (vu0 S) REG_VPU_STAT AND 1 \<noteq> 0 \<and>
            (\<not> breakOnMbit \<or> vflags (vu0 S) AND VUFLAG_MFLAGSET = 0)
         then vu0_do env junk breakOnMbit runCycles S
         else Some S)"

text \<open>\<open>_vu0run\<close> returns the state and the cycles that the EE is charged.\<close>

definition vu0run :: "'e vu_env \<Rightarrow> 'e vu_junk \<Rightarrow> bool \<Rightarrow> bool \<Rightarrow> 'e vuState \<Rightarrow> ('e vuState \<times> u32) option" where
  "vu0run env junk breakOnMbit addCycles S =
     (if VI (vu0 S) REG_VPU_STAT AND 1 = 0 then Some (S, 0)
      else let startcycle = vcycle (vu0 S);
               runCycles = (if breakOnMbit then vu0RunCycles else 0x7fffffff);
               S = on_vu VU0 (\<lambda>VU. VU\<lparr>vflags := vflags VU AND NOT VUFLAG_MFLAGSET\<rparr>) S
           in map_option (\<lambda>S. (S, if addCycles then (vcycle (vu0 S) - startcycle) * 2 else 0))
                (vu0_do env junk breakOnMbit runCycles S))"

definition vu0Finish :: "'e vu_env \<Rightarrow> 'e vu_junk \<Rightarrow> 'e vuState \<Rightarrow> 'e vuState option" where
  "vu0Finish env junk S = map_option fst (vu0run env junk False False S)"

partial_function (option) vu1_wait :: "'e vu_env \<Rightarrow> 'e vu_junk \<Rightarrow> 'e vuState \<Rightarrow> 'e vuState option" where
  "vu1_wait env junk S =
     (if VI (vu0 S) REG_VPU_STAT AND 0x100 \<noteq> 0
      then vu1_wait env junk (InterpVU1_Execute env junk vu1RunCycles S)
      else Some S)"

definition vu1Finish :: "'e vu_env \<Rightarrow> 'e vu_junk \<Rightarrow> 'e vuState \<Rightarrow> 'e vuState option" where
  "vu1Finish env junk S = (if vu_thread env then Some S else vu1_wait env junk S)"

text \<open>\<open>vu1ExecMicro\<close> without the VU1 thread.\<close>

definition vu1ExecMicro :: "'e vu_env \<Rightarrow> 'e vu_junk \<Rightarrow> u32 \<Rightarrow> 'e vuState \<Rightarrow> 'e vuState option" where
  "vu1ExecMicro env junk addr S =
     map_option
       (\<lambda>S. let S = or_VPU_STAT 0x0100 (clear_VPU_STAT 0xFF00 S);
                S = (if addr \<noteq> - 1 then on_vu VU1 (set_VI REG_TPC addr) S else S)
            in InterpVU1_Execute env junk vu1RunCycles S)
       (vu1Finish env junk S)"

end
