(* ===== verification/VuInv.thy ===== *)
theory VuInv
  imports VuInterp
begin

text \<open>
  Invariants of a vector unit. The locale \<open>vu_inv\<close> lists the stores that the instructions are made of; a
  predicate closed under them is kept by every instruction. \<open>any0\<close> says that the predicate does not care
  about the registers 0, which are hardwired; without it, instructions are only covered when their fields do
  not name integer register 0 as \<open>16\<close> (\<open>field_ok\<close>). \<open>vu_inv_flush\<close> adds the pipelines.
\<close>

section \<open>Stores keep the instruction word\<close>

lemma vcode_stores [simp]:
  "vcode (set_VI r v VU) = vcode VU"
  "vcode (set_VI16 r w VU) = vcode VU"
  "vcode (set_VF r k v VU) = vcode VU"
  "vcode (set_ACC k v VU) = vcode VU"
  "vcode (set_macflag m VU) = vcode VU"
  "vcode (put_Fd k v VU) = vcode VU"
  "vcode (put_Ft k v VU) = vcode VU"
  "vcode (VU_STAT_UPDATE VU) = vcode VU"
  "vcode (set_q v VU) = vcode VU"
  "vcode (set_p v VU) = vcode VU"
  "vcode (raise_status v VU) = vcode VU"
  "vcode (next_div_flags VU) = vcode VU"
  "vcode (vi_backup n r VU) = vcode VU"
  by (simp_all add: set_VI_def set_VI16_def set_VF_def set_ACC_def set_macflag_def put_Fd_def put_Ft_def
      VU_STAT_UPDATE_def Let_def set_q_def set_p_def raise_status_def next_div_flags_def vi_backup_def)

lemma vcode_MAC [simp]:
  "vcode (snd (VU_MACk_UPDATE h k VU v)) = vcode VU"
  "vcode (VU_MACk_CLEAR k VU) = vcode VU"
  by (simp_all add: VU_MACk_UPDATE_def VU_MAC_UPDATE_def VU_MACk_CLEAR_def VU_MAC_CLEAR_def Let_def)

definition field_ok :: "vu_lower \<Rightarrow> u32 \<Rightarrow> bool" where
  "field_ok op c =
     (case op of
        LMem L_LQI \<Rightarrow> vIs c = 0 \<longrightarrow> vFs c = 0
      | LMem L_SQI \<Rightarrow> vIt c = 0 \<longrightarrow> vFt c = 0
      | LMem L_SQD \<Rightarrow> vIt c = 0 \<longrightarrow> vFt c = 0
      | _ \<Rightarrow> True)"

lemma field_less: "vIt c < 16" "vIs c < 16" "vId c < 16"
proof -
  have "(drop_bit n c AND 0xF :: u32) \<le> 0xF" for n
    by (rule word_and_le1)
  then have "unat (drop_bit n c AND 0xF :: u32) \<le> unat (0xF :: u32)" for n
    by (simp only: word_le_nat_alt)
  then have "unat (drop_bit n c AND 0xF :: u32) < 16" for n
    by (rule le_less_trans) simp
  then show "vIt c < 16" "vIs c < 16" "vId c < 16"
    by (simp_all add: vIt_def vIs_def vId_def)
qed

lemmas upper_defs =
  vuABS_def vuADD_def vuADDi_def vuADDq_def vuADDx_def vuADDy_def vuADDz_def vuADDw_def vuADDA_def
  vuADDAi_def vuADDAq_def vuADDAx_def vuADDAy_def vuADDAz_def vuADDAw_def vuSUB_def vuSUBi_def vuSUBq_def
  vuSUBx_def vuSUBy_def vuSUBz_def vuSUBw_def vuSUBA_def vuSUBAi_def vuSUBAq_def vuSUBAx_def vuSUBAy_def
  vuSUBAz_def vuSUBAw_def vuMUL_def vuMULi_def vuMULq_def vuMULx_def vuMULy_def vuMULz_def vuMULw_def
  vuMULA_def vuMULAi_def vuMULAq_def vuMULAx_def vuMULAy_def vuMULAz_def vuMULAw_def vuMADD_def
  vuMADDi_def vuMADDq_def vuMADDx_def vuMADDy_def vuMADDz_def vuMADDw_def vuMADDA_def vuMADDAi_def
  vuMADDAq_def vuMADDAx_def vuMADDAy_def vuMADDAz_def vuMADDAw_def vuMSUB_def vuMSUBi_def vuMSUBq_def
  vuMSUBx_def vuMSUBy_def vuMSUBz_def vuMSUBw_def vuMSUBA_def vuMSUBAi_def vuMSUBAq_def vuMSUBAx_def
  vuMSUBAy_def vuMSUBAz_def vuMSUBAw_def vuMAX_def vuMAXi_def vuMAXx_def vuMAXy_def vuMAXz_def vuMAXw_def
  vuMINI_def vuMINIi_def vuMINIx_def vuMINIy_def vuMINIz_def vuMINIw_def
  vuNOP_def vuFTOI0_def vuFTOI4_def vuFTOI12_def vuFTOI15_def vuITOF0_def vuITOF4_def vuITOF12_def
  vuITOF15_def

lemmas mem_defs =
  vuLQ_def vuLQD_def vuLQI_def vuSQ_def vuSQD_def vuSQI_def vuILW_def vuISW_def vuILWR_def vuISWR_def

lemmas lower_defs =
  vuMOVE_def vuDIV_def vuMTIR_def vuRNEXT_def vuMFP_def vuESADD_def vuEATANxy_def vuESQRT_def vuESIN_def
  vuMR32_def vuSQRT_def vuMFIR_def vuRGET_def vuERSADD_def vuEATANxz_def vuERSQRT_def vuEATAN_def
  vuRSQRT_def vuRINIT_def vuELENG_def vuESUM_def vuERCPR_def vuEEXP_def vuWAITQ_def vuRXOR_def
  vuERLENG_def vuWAITP_def vuIADD_def vuISUB_def vuIADDI_def vuIAND_def vuIOR_def vuIADDIU_def
  vuISUBIU_def vuFCEQ_def vuFCSET_def vuFCAND_def vuFCOR_def vuFSEQ_def vuFSSET_def vuFSAND_def
  vuFSOR_def vuFMEQ_def vuFMAND_def vuFMOR_def vuFCGET_def vuB_def vuBAL_def vuJR_def vuJALR_def
  vuIBEQ_def vuIBNE_def vuIBLTZ_def vuIBGTZ_def vuIBLEZ_def vuIBGEZ_def
  vu_branch_if_def vu_link_def AdvanceLFSR_def VI_inc_def VI_dec_def raise_status_def next_div_flags_def

section \<open>The two units\<close>

lemma vu_at_put [simp]: "vu_at j (put_vu i VU S) = (if i = j then VU else vu_at j S)"
  by (cases i; cases j) (simp_all add: vu_at_def put_vu_def)

lemma vu_at_on [simp]: "vu_at j (on_vu i f S) = (if i = j then f (vu_at j S) else vu_at j S)"
  by (simp add: on_vu_def)

lemma vu_at_ext [simp]:
  "vu_at i (S\<lparr>vuExt := x\<rparr>) = vu_at i S"
  "vu_at i (S\<lparr>vif0Regs := y\<rparr>) = vu_at i S"
  "vu_at i (S\<lparr>vif1Regs := y\<rparr>) = vu_at i S"
  by (simp_all add: vu_at_def split: vuId.split)

lemma GET_VU_MEM_cases:
  obtains w where "GET_VU_MEM i a = MemLoc i w" | w where "GET_VU_MEM i a = RegLoc w" "i = VU0"
  by (cases i; cases "a AND 0x4000 = 0") (simp_all add: GET_VU_MEM_def)

text \<open>A store through a pointer of unit \<open>i\<close> changes that unit only in its data memory.\<close>

definition own_store :: "vuId \<Rightarrow> vuLoc \<Rightarrow> bool" where
  "own_store i p = (case p of MemLoc j w \<Rightarrow> j = i | RegLoc w \<Rightarrow> i = VU0)"

lemma own_store_GET [simp]: "own_store i (GET_VU_MEM i a)"
  by (rule GET_VU_MEM_cases [of i a]) (simp_all add: own_store_def)

lemma vu_at_write:
  "own_store i p \<Longrightarrow>
    vu_at i (vu_write p k v S) =
      (case p of MemLoc j w \<Rightarrow> set_Mem (w + k) v (vu_at i S) | RegLoc w \<Rightarrow> vu_at i S)"
  by (auto simp: own_store_def vu_write_def Let_def split: vuLoc.split)

lemma vcode_Mem [simp]: "vcode (set_Mem w v VU) = vcode VU"
  by (simp add: set_Mem_def)

lemma vcode_write: "own_store i p \<Longrightarrow> vcode (vu_at i (vu_write p k v S)) = vcode (vu_at i S)"
  by (simp add: vu_at_write split: vuLoc.split)

section \<open>Closed predicates\<close>

locale vu_inv =
  fixes P :: "VURegs \<Rightarrow> bool" and any0 :: bool
  assumes vec [intro]: "P VU \<Longrightarrow> any0 \<or> r \<noteq> 0 \<Longrightarrow> P (put_vec r vv VU)"
    and VI [intro]: "P VU \<Longrightarrow> any0 \<or> r \<noteq> 0 \<Longrightarrow> r < 26 \<Longrightarrow> P (set_VI r v VU)"
    and ACC [intro]: "P VU \<Longrightarrow> P (set_ACC k v VU)"
    and macflag [intro]: "P VU \<Longrightarrow> P (set_macflag v VU)"
    and statusflag [intro]: "P VU \<Longrightarrow> P (VU\<lparr>statusflag := v\<rparr>)"
    and clipflag [intro]: "P VU \<Longrightarrow> P (VU\<lparr>clipflag := v\<rparr>)"
    and q [intro]: "P VU \<Longrightarrow> P (set_q v VU)"
    and p [intro]: "P VU \<Longrightarrow> P (set_p v VU)"
    and backup [intro]: "P VU \<Longrightarrow> P (vi_backup n r VU)"
    and branch [intro]: "P VU \<Longrightarrow> P (setBranch t VU)"
    and Mem [intro]: "P VU \<Longrightarrow> P (set_Mem w v VU)"
    and vcode [intro]: "P VU \<Longrightarrow> P (set_vcode c VU)"
begin

lemma VF [intro]: "P VU \<Longrightarrow> any0 \<or> r \<noteq> 0 \<Longrightarrow> P (set_VF r k v VU)"
  using vec [of VU r "(VF VU r)(k := v)"] by (simp add: set_VF_def put_vec_def)

lemma VI16 [intro]: "P VU \<Longrightarrow> any0 \<or> r \<noteq> 0 \<Longrightarrow> r < 26 \<Longrightarrow> P (set_VI16 r v VU)"
  by (auto simp: set_VI16_def)

lemma STAT [intro]: "P VU \<Longrightarrow> P (VU_STAT_UPDATE VU)"
  unfolding VU_STAT_UPDATE_def Let_def by (rule statusflag)

lemma MAC [intro]: "P VU \<Longrightarrow> P (snd (VU_MACk_UPDATE h k VU v))" "P VU \<Longrightarrow> P (VU_MACk_CLEAR k VU)"
  by (auto simp: VU_MACk_UPDATE_def VU_MAC_UPDATE_def VU_MACk_CLEAR_def VU_MAC_CLEAR_def Let_def)

lemma Fd [intro]: "P VU \<Longrightarrow> P (put_Fd k v VU)"
  by (auto simp: put_Fd_def)

lemma Ft [intro]: "P VU \<Longrightarrow> rFt VU \<noteq> 0 \<Longrightarrow> P (put_Ft k v VU)"
  by (auto simp: put_Ft_def)

lemma mac_lane:
  assumes "\<And>k v VU. P VU \<Longrightarrow> P (put k v VU)" "P VU"
  shows "P (mac_lane h put e k VU)"
  using assms by (simp add: mac_lane_def Let_def case_prod_unfold MAC)

lemma mac_lanes:
  assumes "\<And>k v VU. P VU \<Longrightarrow> P (put k v VU)" "P VU"
  shows "P (mac_lanes h put e VU)"
  by (simp add: mac_lanes_def mac_lane assms)

lemma mac_set:
  assumes "\<And>k v VU. P VU \<Longrightarrow> P (put k v VU)" "P VU"
  shows "P (mac_set h put k f VU)"
  by (simp add: mac_set_def Let_def case_prod_unfold MAC assms)

lemma store_lane_Ft:
  assumes "P VU" "rFt VU \<noteq> 0"
  shows "P (store_lane put_Ft e k VU)" "rFt (store_lane put_Ft e k VU) \<noteq> 0"
  using Ft [OF assms] assms by (simp_all add: store_lane_def)

lemma store_Fd [intro]: "P VU \<Longrightarrow> P (store_lanes put_Fd e VU)"
  by (simp add: store_lanes_def store_lane_def Fd)

lemma store_Ft [intro]: "P VU \<Longrightarrow> rFt VU \<noteq> 0 \<Longrightarrow> P (store_lanes put_Ft e VU)"
  unfolding store_lanes_def by (simp only: fold_simps o_apply id_apply) (intro store_lane_Ft)

lemma mac_Fd [intro]: "P VU \<Longrightarrow> P (VU_STAT_UPDATE (mac_lanes h put_Fd e VU))"
  by (rule STAT [OF mac_lanes]) (rule Fd)

lemma mac_ACC [intro]: "P VU \<Longrightarrow> P (VU_STAT_UPDATE (mac_lanes h set_ACC e VU))"
  by (rule STAT [OF mac_lanes]) (rule ACC)

lemma OPMULA: "P VU \<Longrightarrow> P (vuOPMULA h VU)"
  by (simp add: vuOPMULA_def Let_def STAT mac_set ACC)

lemma OPMSUB: "P VU \<Longrightarrow> P (vuOPMSUB h VU)"
  by (simp add: vuOPMSUB_def Let_def STAT mac_set Fd)

lemma CLIP: "P VU \<Longrightarrow> P (vuCLIP h VU)"
  unfolding vuCLIP_def Let_def by (rule clipflag)

lemmas upper_P = STAT mac_lanes mac_set Fd ACC store_Fd store_Ft OPMULA OPMSUB CLIP

lemma upper: "P VU \<Longrightarrow> P (upper_op env op VU)"
  unfolding upper_op_def
  by (split vu_upper.split, intro conjI allI impI; (split vu_bc.split, intro conjI impI)?)
    (simp_all add: upper_defs Let_def upper_P)

lemma mem_write: "own_store i p \<Longrightarrow> P (vu_at i S) \<Longrightarrow> P (vu_at i (vu_write p k v S))"
  by (simp add: vu_at_write Mem split: vuLoc.split)

lemma load_lane:
  "P (vu_at i S) \<Longrightarrow> rFt (vu_at i S) \<noteq> 0 \<Longrightarrow>
    P (vu_at i (load_lane i m k S)) \<and> rFt (vu_at i (load_lane i m k S)) \<noteq> 0"
  by (simp add: load_lane_def Ft)

lemma load_lanes: "P (vu_at i S) \<Longrightarrow> rFt (vu_at i S) \<noteq> 0 \<Longrightarrow> P (vu_at i (load_lanes i m S))"
  by (simp add: load_lanes_def load_lane)

lemma save_lanes: "own_store i m \<Longrightarrow> P (vu_at i S) \<Longrightarrow> P (vu_at i (save_lanes i m S))"
  by (simp add: save_lanes_def save_lane_def Let_def mem_write)

lemma load_int_lane:
  "P (vu_at i S) \<Longrightarrow> rIt (vu_at i S) \<noteq> 0 \<Longrightarrow>
    P (vu_at i (load_int_lane i m k S)) \<and> rIt (vu_at i (load_int_lane i m k S)) \<noteq> 0"
  using field_less [of "vcode (vu_at i S)"] by (simp add: load_int_lane_def Let_def VI16)

lemma load_int_lanes: "P (vu_at i S) \<Longrightarrow> rIt (vu_at i S) \<noteq> 0 \<Longrightarrow> P (vu_at i (load_int_lanes i m S))"
  by (simp add: load_int_lanes_def load_int_lane)

lemma save_int_lanes: "own_store i m \<Longrightarrow> P (vu_at i S) \<Longrightarrow> P (vu_at i (save_int_lanes i m S))"
  by (simp add: save_int_lanes_def save_int_lane_def Let_def mem_write)

lemma VI16_field:
  "P VU \<Longrightarrow> any0 \<or> vIt c \<noteq> 0 \<Longrightarrow> P (set_VI16 (vIt c) v VU)"
  "P VU \<Longrightarrow> any0 \<or> vIs c \<noteq> 0 \<Longrightarrow> P (set_VI16 (vIs c) v VU)"
  "P VU \<Longrightarrow> any0 \<or> vId c \<noteq> 0 \<Longrightarrow> P (set_VI16 (vId c) v VU)"
  "P VU \<Longrightarrow> P (set_VI16 (Suc 0) v VU)"
  "P VU \<Longrightarrow> P (set_VI REG_R w VU)"
  "P VU \<Longrightarrow> P (set_VI REG_CLIP_FLAG w VU)"
  using field_less [of c] by (auto intro!: VI16 VI)

lemma link: "P VU \<Longrightarrow> P (vu_link VU)"
  by (simp add: vu_link_def VI16_field)

lemmas lower_P = VI16_field q p backup branch statusflag clipflag store_Ft link

lemma pure_ops:
  "P (vu_at i S) \<Longrightarrow> P (vu_at i (lower_op env i (LInt x1) S))"
  "P (vu_at i S) \<Longrightarrow> P (vu_at i (lower_op env i (LFlag x2) S))"
  "P (vu_at i S) \<Longrightarrow> P (vu_at i (lower_op env i (LBranch x3) S))"
  "P (vu_at i S) \<Longrightarrow> P (vu_at i (lower_op env i (LEfu x4) S))"
  "P (vu_at i S) \<Longrightarrow> P (vu_at i (lower_op env i (LDiv x5) S))"
  "P (vu_at i S) \<Longrightarrow> P (vu_at i (lower_op env i (LMove x6) S))"
  unfolding lower_op_def
  by (simp_all add: lower_defs Let_def lower_P
      split: vu_int.split vu_flag.split vu_branch.split vu_efu.split vu_div.split vu_move.split)

lemma mem_ops:
  assumes "P (vu_at i S)" "any0 \<or> field_ok (LMem x) (vcode (vu_at i S))"
  shows "P (vu_at i (lower_op env i (LMem x) S))"
proof -
  have inc: "P VU \<Longrightarrow> any0 \<or> vIs c \<noteq> 0 \<Longrightarrow> P (VI_inc (vIs c) VU)" "P VU \<Longrightarrow> any0 \<or> vIt c \<noteq> 0 \<Longrightarrow> P (VI_inc (vIt c) VU)"
    "P VU \<Longrightarrow> any0 \<or> vIs c \<noteq> 0 \<Longrightarrow> P (VI_dec (vIs c) VU)" "P VU \<Longrightarrow> any0 \<or> vIt c \<noteq> 0 \<Longrightarrow> P (VI_dec (vIt c) VU)"
    for VU c
    by (simp_all add: VI_inc_def VI_dec_def VI16_field)
  show ?thesis
    using assms
    by (cases x)
      (auto simp: lower_op_def mem_defs field_ok_def Let_def load_lanes save_lanes load_int_lanes save_int_lanes
        inc backup)
qed

lemma vif_ops:
  "P (vu_at i S) \<Longrightarrow> x \<noteq> L_XGKICK \<Longrightarrow> P (vu_at i (lower_op env i (LVif x) S))"
  by (cases x) (auto simp: lower_op_def vuXITOP_def vuXTOP_def Let_def VI16_field)

lemma lower:
  assumes "P (vu_at i S)" "any0 \<or> field_ok op (vcode (vu_at i S))" "op \<noteq> LVif L_XGKICK"
  shows "P (vu_at i (lower_op env i op S))"
proof (cases op)
  case (LMem x)
  then show ?thesis using assms mem_ops by simp
next
  case (LVif x)
  then show ?thesis using assms vif_ops by simp
qed (use assms(1) in \<open>simp_all add: pure_ops\<close>, simp_all add: lower_op_def)

end

text \<open>With the loop that empties the pipes, every instruction keeps the predicate.\<close>

locale vu_inv_exec = vu_inv +
  assumes flush_all: "P VU \<Longrightarrow> P (vuFlushAll VU)"
begin

lemma XGKICK: "P (vu_at i S) \<Longrightarrow> P (vu_at i (vuXGKICK env i S))"
  by (simp add: vuXGKICK_def Let_def flush_all)

lemma all_lower:
  assumes "P (vu_at i S)" "any0 \<or> field_ok op (vcode (vu_at i S))"
  shows "P (vu_at i (lower_op env i op S))"
proof (cases "op = LVif L_XGKICK")
  case True
  then show ?thesis using XGKICK [OF assms(1)] by (simp add: lower_op_def)
next
  case False
  with assms show ?thesis by (rule lower)
qed

lemma ExecUpper: "P (vu_at i S) \<Longrightarrow> P (vu_at i (ExecUpper env i c S))"
  by (cases i) (simp_all add: ExecUpper_def MI_upper_def VU0MI_upper_def VU1MI_upper_def upper vcode)

lemma MI_lower:
  "P (vu_at i S) \<Longrightarrow> any0 \<or> field_ok op (vcode (vu_at i S)) \<Longrightarrow> P (vu_at i (MI_lower env i op S))"
  using all_lower [of i S op env]
  by (cases i) (auto simp: MI_lower_def VU0MI_lower_def VU1MI_lower_def split: vu_lower.split vu_vif.split)

lemma ExecLower:
  assumes "P (vu_at i S)" "any0 \<or> field_ok (decode_lower c) c"
  shows "P (vu_at i (ExecLower env i c S))"
proof -
  have "vcode (set_vcode c (vu_at i S)) = c"
    by (simp add: set_vcode_def)
  then show ?thesis
    unfolding ExecLower_def using assms by (intro MI_lower) (simp_all add: vcode)
qed

lemma exec_both:
  assumes "P (vu_at i S)" "any0 \<or> field_ok (decode_lower p0) p0"
  shows "P (vu_at i (exec_both env i p0 p1 u l S))"
  using assms ExecUpper [OF assms(1)]
  by (simp add: exec_both_def Let_def ExecLower vec VI saved_VF_def saved_VI_def)

end

text \<open>A predicate that the pipelines keep, too.\<close>

locale vu_inv_flush = vu_inv +
  assumes fmac: "P VU \<Longrightarrow> P (VU\<lparr>fmac := f\<rparr>)"
    and fdiv: "P VU \<Longrightarrow> P (VU\<lparr>fdiv := d\<rparr>)"
    and efu: "P VU \<Longrightarrow> P (VU\<lparr>efu := g\<rparr>)"
    and vcycle: "P VU \<Longrightarrow> P (VU\<lparr>vcycle := c\<rparr>)"
begin

lemma retire:
  "P VU \<Longrightarrow> P (fmac_retire i VU)" "P VU \<Longrightarrow> P (fdiv_retire VU)" "P VU \<Longrightarrow> P (efu_retire VU)"
proof -
  assume v: "P VU"
  have "fmac_retire i VU = set_VI REG_CLIP_FLAG (fm_clipflag (fmac VU i))
    (set_VI REG_STATUS_FLAG (fm_statusflag (fmac VU i)) (set_VI REG_MAC_FLAG (fm_macflag (fmac VU i))
    (VU\<lparr>fmac := (fmac VU)(i := (fmac VU i)\<lparr>fm_enable := False\<rparr>)\<rparr>)))"
    by (simp add: fmac_retire_def set_VI_def)
  then show "P (fmac_retire i VU)"
    using v by (simp add: VI fmac)
  have "fdiv_retire VU = set_VI REG_STATUS_FLAG (fd_statusflag (fdiv VU)) (set_VI REG_Q (fd_reg (fdiv VU))
    (VU\<lparr>fdiv := (fdiv VU)\<lparr>fd_enable := False\<rparr>\<rparr>))"
    by (simp add: fdiv_retire_def set_VI_def)
  then show "P (fdiv_retire VU)"
    using v by (simp add: VI fdiv)
  have "efu_retire VU = set_VI REG_P (ef_reg (efu VU)) (VU\<lparr>efu := (efu VU)\<lparr>ef_enable := False\<rparr>\<rparr>)"
    by (simp add: efu_retire_def set_VI_def)
  then show "P (efu_retire VU)"
    using v by (simp add: VI efu)
qed

lemma fmac_fold: "P VU \<Longrightarrow> P (fold fmac_flush is VU)"
  by (induction "is" arbitrary: VU) (simp_all add: fmac_flush_def retire)

lemma test_pipes: "P VU \<Longrightarrow> P (vuTestPipes VU)"
  by (simp add: vuTestPipes_def vuEFUflush_def vuFDIVflush_def vuFMACflush_def fmac_fold retire)

lemma flushed: "P VU \<Longrightarrow> P (vuFlushAll VU)"
proof (induction VU rule: vuFlushAll.induct)
  case (1 VU)
  have "P (flush_round VU)"
    using 1(2) by (simp add: flush_round_def Let_def test_pipes vcycle)
  with 1(1) show ?case
    by (subst vuFlushAll.simps) simp
qed

lemma stall: "P VU \<Longrightarrow> P (vuFMACTestStall r x VU)"
  by (simp add: vuFMACTestStall_def Let_def test_pipes vcycle retire split: option.split)

lemma stalls: "P VU \<Longrightarrow> P (vuTestFMACStalls r VU)"
  by (simp add: vuTestFMACStalls_def Let_def stall)

lemma flush_pipe: "P VU \<Longrightarrow> P (vuFlushFDIV VU)" "P VU \<Longrightarrow> P (vuFlushEFU VU)"
  by (simp_all add: vuFlushFDIV_def vuFlushEFU_def retire vcycle)

lemma add_pipe:
  "P VU \<Longrightarrow> P (vuFMACAdd r x VU)" "P VU \<Longrightarrow> P (vuFDIVAdd n VU)" "P VU \<Longrightarrow> P (vuEFUAdd n VU)"
  by (simp_all add: vuFMACAdd_def vuFDIVAdd_def vuEFUAdd_def fmac fdiv efu split: option.split)

lemma test_stalls: "P VU \<Longrightarrow> P (vuTestUpperStalls r VU)" "P VU \<Longrightarrow> P (vuTestLowerStalls r VU)"
  by (simp_all add: vuTestUpperStalls_def vuTestLowerStalls_def vuTestFDIVStalls_def vuTestEFUStalls_def
      stalls flush_pipe)

lemma add_stalls: "P VU \<Longrightarrow> P (vuAddUpperStalls r VU)" "P VU \<Longrightarrow> P (vuAddLowerStalls r VU)"
  by (simp_all add: vuAddUpperStalls_def vuAddLowerStalls_def vuAddFMACStalls_def vuAddFDIVStalls_def
      vuAddEFUStalls_def add_pipe)

end

sublocale vu_inv_flush \<subseteq> vu_inv_exec P any0
  by unfold_locales (rule flushed)

context vu_inv_flush
begin

lemma exec_pair:
  assumes "P (vu_at i S)" "any0 \<or> field_ok (decode_lower p0) p0"
  shows "P (vu_at i (fst (exec_pair env i p0 p1 ju jl S)))"
  using assms
  by (simp add: exec_pair_def Let_def vcode test_stalls exec_both ExecUpper VI)

end

text \<open>A predicate that the whole step keeps, on the unit that runs.\<close>

locale vu_inv_step = vu_inv_flush +
  assumes VI_any: "P VU \<Longrightarrow> any0 \<or> r \<noteq> 0 \<Longrightarrow> P (set_VI r v VU)"
    and vflags: "P VU \<Longrightarrow> P (VU\<lparr>vflags := c\<rparr>)"
    and ebit: "P VU \<Longrightarrow> P (VU\<lparr>ebit := c\<rparr>)"
    and backup_cycles: "P VU \<Longrightarrow> P (VU\<lparr>VIBackupCycles := b\<rparr>)"
    and branch_fields: "P VU \<Longrightarrow> P (VU\<lparr>vbranch := c\<rparr>)" "P VU \<Longrightarrow> P (VU\<lparr>branchpc := c\<rparr>)"
      "P VU \<Longrightarrow> P (VU\<lparr>delaybranchpc := c\<rparr>)" "P VU \<Longrightarrow> P (VU\<lparr>takedelaybranch := e\<rparr>)"
begin

lemma ticks:
  "P VU \<Longrightarrow> P (advance_TPC VU)" "P VU \<Longrightarrow> P (set_ebit n VU)" "P VU \<Longrightarrow> P (or_vflags m VU)"
  "P VU \<Longrightarrow> P (vi_backup_tick VU)" "P VU \<Longrightarrow> P (branch_tick VU)" "P VU \<Longrightarrow> P (flush_at_end VU)"
  "P VU \<Longrightarrow> P (mask_TPC m VU)" "P VU \<Longrightarrow> P (next_cycle VU)"
proof -
  assume v: "P VU"
  show "P (branch_tick VU)"
  proof -
    have "P (set_VI REG_TPC t (VU\<lparr>vbranch := n\<rparr>))" for t n
      using v by (simp add: VI_any branch_fields)
    moreover have "P (X\<lparr>vbranch := a, branchpc := b, delaybranchpc := c, takedelaybranch := d\<rparr>)" if "P X" for X a b c d
      using that by (intro branch_fields)
    ultimately show ?thesis
      using v by (simp add: branch_tick_def Let_def branch_fields)
  qed
qed (simp_all add: advance_TPC_def set_ebit_def or_vflags_def vi_backup_tick_def flush_at_end_def mask_TPC_def
    next_cycle_def VI_any ebit vflags backup_cycles flush_all vcycle)

lemma on_VU0: "P (vu_at i S) \<Longrightarrow> P (vu_at i (clear_VPU_STAT m S))" "P (vu_at i S) \<Longrightarrow> P (vu_at i (or_VPU_STAT m S))"
  by (auto simp: clear_VPU_STAT_def or_VPU_STAT_def VI_any)

lemma stop: "P (vu_at i S) \<Longrightarrow> P (vu_at i (stop_bit env j p1 m f st S))"
  by (auto simp: stop_bit_def Let_def on_VU0 ebit)

lemma step0:
  assumes "P (vu_at VU0 S)" "any0 \<or> field_ok (decode_lower (fetch_lower (vu0 S))) (fetch_lower (vu0 S))"
  shows "P (vu_at VU0 (vu0Exec1 env ju jl S))"
  unfolding vu0Exec1_def Let_def case_prod_unfold
  by (simp add: exec_pair stop ticks add_stalls test_pipes on_VU0 assms)

lemma step1:
  assumes "P (vu_at VU1 S)" "any0 \<or> field_ok (decode_lower (fetch_lower (vu1 S))) (fetch_lower (vu1 S))"
  shows "P (vu_at VU1 (vu1Exec1 env ju jl S))"
  unfolding vu1Exec1_def Let_def case_prod_unfold
  by (simp add: exec_pair stop ticks add_stalls test_pipes on_VU0 assms)

end

section \<open>The hardwired registers\<close>

definition hard_zero :: "VURegs \<Rightarrow> bool" where
  "hard_zero VU \<longleftrightarrow> VI VU 0 = 0 \<and> VF VU 0 0 = 0 \<and> VF VU 0 1 = 0 \<and> VF VU 0 2 = 0 \<and> VF VU 0 3 = 0x3F800000"

text \<open>A program whose loads and stores name integer register 0 only as 0.\<close>

definition program_ok :: "bytes \<Rightarrow> bool" where
  "program_ok m \<longleftrightarrow> (\<forall>a. field_ok (decode_lower (le_read 4 m a)) (le_read 4 m a))"

definition hard_zero_run :: "VURegs \<Rightarrow> bool" where
  "hard_zero_run VU \<longleftrightarrow> hard_zero VU \<and> program_ok (vMicro VU)"

interpretation hz: vu_inv_step hard_zero_run False
  by unfold_locales
    (auto simp: hard_zero_run_def hard_zero_def put_vec_def set_VI_def set_ACC_def set_macflag_def set_q_def
      set_p_def vi_backup_def setBranch_def set_Mem_def set_vcode_def)

lemma hz_fetch: "hard_zero_run VU \<Longrightarrow> field_ok (decode_lower (fetch_lower VU)) (fetch_lower VU)"
  by (simp add: hard_zero_run_def program_ok_def fetch_lower_def)

lemma vu_sel: "vu_at VU0 S = vu0 S" "vu_at VU1 S = vu1 S"
  by (simp_all add: vu_at_def)

lemma hz_exec:
  "hard_zero_run (vu0 S) \<Longrightarrow> hard_zero_run (vu0 (vu0Exec env junk S))"
  "hard_zero_run (vu1 S) \<Longrightarrow> hard_zero_run (vu1 (InterpVU1_Step env junk S))"
  using hz.step0 [of "on_vu VU0 (mask_TPC 0xfff) S"] hz.step1 [of "on_vu VU1 (mask_TPC 0x3fff) S"]
  by (simp_all add: vu0Exec_def InterpVU1_Step_def vu1Exec_def Let_def hz.ticks hz_fetch flip: vu_sel)

lemma hz_run:
  "hard_zero_run (vu0 S) \<Longrightarrow> hard_zero_run (vu0 (run_VU0 env junk n S))"
  "hard_zero_run (vu1 S) \<Longrightarrow> hard_zero_run (vu1 (run_VU1 env junk n S))"
  by (induction n arbitrary: S) (simp_all add: hz_exec)

end
