(* ===== verification/VuPipes.thy ===== *)
theory VuPipes
  imports VuInv
begin

text \<open>
  The FMAC pipe has eight slots and a step needs up to two. A result stays for three cycles and a stall only
  waits for it, so between steps the slots hold results of the last three cycles, two of each at most
  (\<open>pipes_ok\<close>): there are always two free slots when a step adds its results (\<open>pipes_mid\<close>).
\<close>

definition starts :: "VURegs \<Rightarrow> u32 \<Rightarrow> nat set" where
  "starts VU t = {i. i < 8 \<and> fm_enable (fmac VU i) \<and> fm_sCycle (fmac VU i) = t}"

definition slots :: "VURegs \<Rightarrow> nat set" where
  "slots VU = {i. i < 8 \<and> fm_enable (fmac VU i)}"

definition fm_age :: "VURegs \<Rightarrow> nat \<Rightarrow> u32" where
  "fm_age VU i = vcycle VU - fm_sCycle (fmac VU i)"

definition others_ok :: "VURegs \<Rightarrow> bool" where
  "others_ok VU \<longleftrightarrow>
     (fd_enable (fdiv VU) \<longrightarrow> fd_Cycle (fdiv VU) \<le> 60 \<and> vcycle VU - fd_sCycle (fdiv VU) \<le> fd_Cycle (fdiv VU)) \<and>
     (ef_enable (efu VU) \<longrightarrow> ef_Cycle (efu VU) \<le> 60 \<and> vcycle VU - ef_sCycle (efu VU) \<le> ef_Cycle (efu VU))"

definition pipes_ok :: "VURegs \<Rightarrow> bool" where
  "pipes_ok VU \<longleftrightarrow>
     (\<forall>i \<in> slots VU. fm_Cycle (fmac VU i) = 3 \<and> fm_age VU i \<in> {1, 2, 3}) \<and>
     (\<forall>t. card (starts VU t) \<le> 2) \<and> others_ok VU"

definition short_others :: "VURegs \<Rightarrow> bool" where
  "short_others VU \<longleftrightarrow>
     (fd_enable (fdiv VU) \<longrightarrow> fd_Cycle (fdiv VU) \<le> 60) \<and> (ef_enable (efu VU) \<longrightarrow> ef_Cycle (efu VU) \<le> 60)"

definition pipes_mid :: "VURegs \<Rightarrow> bool" where
  "pipes_mid VU \<longleftrightarrow>
     (\<forall>i \<in> slots VU. fm_Cycle (fmac VU i) = 3 \<and> fm_sCycle (fmac VU i) \<noteq> vcycle VU) \<and>
     (\<forall>t. card (starts VU t) \<le> 2) \<and> card (slots VU) \<le> 6 \<and> short_others VU"

definition pipes_added :: "VURegs \<Rightarrow> bool" where
  "pipes_added VU \<longleftrightarrow>
     (\<forall>i \<in> slots VU. fm_Cycle (fmac VU i) = 3) \<and> (\<forall>t. card (starts VU t) \<le> 2) \<and> short_others VU"

lemma finite_slots [simp]: "finite (slots VU)" "finite (starts VU t)"
  by (simp_all add: slots_def starts_def)

lemma starts_slots: "starts VU t = {i \<in> slots VU. fm_sCycle (fmac VU i) = t}"
  by (auto simp: starts_def slots_def)

text \<open>Removing results keeps the bounds.\<close>

lemma starts_mono:
  assumes "slots W \<subseteq> slots VU" "\<And>i. i \<in> slots W \<Longrightarrow> fm_sCycle (fmac W i) = fm_sCycle (fmac VU i)"
  shows "card (starts W t) \<le> card (starts VU t)"
  using assms by (intro card_mono) (auto simp: starts_slots)

lemma card_slots:
  assumes "\<forall>i \<in> slots VU. fm_age VU i \<in> {1, 2, 3}" "\<forall>t. card (starts VU t) \<le> 2"
  shows "card (slots VU) \<le> 6"
proof -
  let ?c = "vcycle VU"
  have "slots VU \<subseteq> starts VU (?c - 1) \<union> starts VU (?c - 2) \<union> starts VU (?c - 3)"
  proof
    fix i assume i: "i \<in> slots VU"
    then have "fm_sCycle (fmac VU i) = ?c - fm_age VU i"
      by (simp add: fm_age_def)
    with i assms(1) show "i \<in> starts VU (?c - 1) \<union> starts VU (?c - 2) \<union> starts VU (?c - 3)"
      by (auto simp: starts_slots)
  qed
  then have "card (slots VU) \<le> card (starts VU (?c - 1) \<union> starts VU (?c - 2) \<union> starts VU (?c - 3))"
    by (rule card_mono [rotated]) simp
  also have "\<dots> \<le> card (starts VU (?c - 1)) + card (starts VU (?c - 2)) + card (starts VU (?c - 3))"
    using card_Un_le [of "starts VU (?c - 1) \<union> starts VU (?c - 2)" "starts VU (?c - 3)"]
      card_Un_le [of "starts VU (?c - 1)" "starts VU (?c - 2)"] by linarith
  also have "\<dots> \<le> 6"
    using assms(2) [rule_format, of "?c - 1"] assms(2) [rule_format, of "?c - 2"]
      assms(2) [rule_format, of "?c - 3"] by linarith
  finally show ?thesis .
qed

lemma ok_mid: "pipes_ok VU \<Longrightarrow> pipes_mid VU"
  using card_slots [of VU] by (auto simp: pipes_ok_def pipes_mid_def others_ok_def short_others_def fm_age_def)

lemma mid_added: "pipes_mid VU \<Longrightarrow> pipes_added VU"
  by (simp add: pipes_mid_def pipes_added_def)

section \<open>Stalls\<close>

lemma slots_test_pipes:
  "slots (vuTestPipes VU) = {i \<in> slots VU. fm_age VU i < fm_Cycle (fmac VU i)}"
  "i \<in> slots (vuTestPipes VU) \<Longrightarrow> fmac (vuTestPipes VU) i = fmac VU i"
  by (auto simp: slots_def fm_age_def vuTestPipes_frame fmac_after_def fmac_due_def split: if_splits)

lemma others_test_pipes: "short_others VU \<Longrightarrow> others_ok (vuTestPipes VU)"
  by (auto simp: others_ok_def short_others_def vuTestPipes_frame fdiv_due_def efu_due_def not_le)

lemma slots_retire:
  "slots ((fmac_retire i VU)\<lparr>vcycle := c\<rparr>) = slots VU - {i}"
  "j \<noteq> i \<Longrightarrow> fmac ((fmac_retire i VU)\<lparr>vcycle := c\<rparr>) j = fmac VU j"
  "short_others ((fmac_retire i VU)\<lparr>vcycle := c\<rparr>) = short_others VU"
  by (auto simp: slots_def short_others_def split: if_splits)

lemma ok_stall:
  assumes ok: "pipes_ok VU"
  shows "pipes_ok (vuFMACTestStall r x VU)"
proof (cases "find (stalls_on VU r x) [0..<8]")
  case None
  with ok show ?thesis by (simp add: vuFMACTestStall_def)
next
  case (Some i)
  then have i: "i \<in> slots VU"
    by (auto simp: find_Some_iff stalls_on_def slots_def)
  let ?c = "fm_Cycle (fmac VU i) + fm_sCycle (fmac VU i) + 1"
  let ?U = "(fmac_retire i VU)\<lparr>vcycle := ?c\<rparr>"
  have eq: "vuFMACTestStall r x VU = vuTestPipes ?U"
    using Some by (simp add: vuFMACTestStall_def Let_def)
  have ageI: "fm_age VU i \<in> {1, 2, 3}" and C: "fm_Cycle (fmac VU i) = 3"
    using ok i by (auto simp: pipes_ok_def)
  have age: "fm_age ?U j = 2" "fm_Cycle (fmac VU j) = 3" if "j \<in> slots (vuTestPipes ?U)" for j
  proof -
    have j: "j \<in> slots VU" "j \<noteq> i" "fm_age ?U j < 3"
      using that ok by (auto simp: slots_test_pipes slots_retire pipes_ok_def)
    then have aj: "fm_age VU j \<in> {1, 2, 3}" and "fm_Cycle (fmac VU j) = 3"
      using ok by (auto simp: pipes_ok_def)
    then show "fm_Cycle (fmac VU j) = 3" by simp
    have "fm_age ?U j = 4 - fm_age VU i + fm_age VU j"
      using j(2) C by (simp add: fm_age_def)
    with ageI aj j(3) show "fm_age ?U j = 2"
      by auto
  qed
  have sub: "slots (vuTestPipes ?U) \<subseteq> slots VU"
    by (auto simp: slots_test_pipes slots_retire)
  have same: "fmac (vuTestPipes ?U) j = fmac VU j" if "j \<in> slots (vuTestPipes ?U)" for j
    using that slots_test_pipes(2) [OF that] by (auto simp: slots_test_pipes slots_retire)
  have "card (starts (vuTestPipes ?U) t) \<le> 2" for t
    using starts_mono [OF sub, of t] same ok by (fastforce simp: pipes_ok_def intro: order_trans)
  moreover have "others_ok (vuTestPipes ?U)"
    using ok by (intro others_test_pipes) (auto simp: slots_retire pipes_ok_def others_ok_def short_others_def)
  moreover have "fm_Cycle (fmac (vuTestPipes ?U) j) = 3 \<and> fm_age (vuTestPipes ?U) j \<in> {1, 2, 3}"
    if "j \<in> slots (vuTestPipes ?U)" for j
    using age [OF that] same [OF that] that
    by (simp add: fm_age_def vuTestPipes_frame) (auto simp: slots_test_pipes slots_retire)
  ultimately show ?thesis
    unfolding eq pipes_ok_def by blast
qed

lemma ok_stalls: "pipes_ok VU \<Longrightarrow> pipes_ok (vuTestFMACStalls r VU)"
  by (simp add: vuTestFMACStalls_def Let_def ok_stall)

lemma ok_upper_stalls: "pipes_ok VU \<Longrightarrow> pipes_ok (vuTestUpperStalls r VU)"
  by (simp add: vuTestUpperStalls_def ok_stalls)

text \<open>Waiting for the divider moves the cycle forward by at most 60: past every result's start.\<close>

lemma mid_jump:
  assumes ok: "pipes_ok VU" and n: "n \<le> 60"
    and W: "vcycle W = vcycle VU + n" "fmac W = fmac VU" "short_others W"
  shows "pipes_mid W"
proof -
  have sl: "slots W = slots VU" "starts W = starts VU"
    by (simp_all add: slots_def starts_def fun_eq_iff W)
  have "fm_sCycle (fmac VU i) \<noteq> vcycle VU + n" if "i \<in> slots VU" for i
  proof
    assume "fm_sCycle (fmac VU i) = vcycle VU + n"
    then have "fm_age VU i = - n"
      by (simp add: fm_age_def)
    moreover have "fm_age VU i \<in> {1, 2, 3}"
      using ok that by (auto simp: pipes_ok_def)
    ultimately have "n \<in> {- 1, - 2, - 3}"
      by (metis add.inverse_inverse insert_iff singletonD)
    moreover have "\<not> (- 1 :: u32) \<le> 60" "\<not> (- 2 :: u32) \<le> 60" "\<not> (- 3 :: u32) \<le> 60"
      by (simp add: word_le_def unsigned_minus_1_eq_mask mask_eq_exp_minus_1) (simp_all add: word_le_def)
    ultimately show False using n by auto
  qed
  then show ?thesis
    using ok_mid [OF ok] W by (auto simp: pipes_mid_def sl)
qed

lemma mid_flush:
  assumes "pipes_ok VU"
  shows "pipes_mid (vuFlushFDIV VU)" "pipes_mid (vuFlushEFU VU)"
proof -
  have o: "others_ok VU"
    using assms by (simp add: pipes_ok_def)
  show "pipes_mid (vuFlushFDIV VU)"
  proof (cases "fd_enable (fdiv VU)")
    case True
    let ?n = "fd_Cycle (fdiv VU) - (vcycle VU - fd_sCycle (fdiv VU))"
    have "?n \<le> fd_Cycle (fdiv VU)" "fd_Cycle (fdiv VU) \<le> 60"
      using o True by (auto simp: others_ok_def intro: word_sub_le)
    then have "?n \<le> 60" by (rule order_trans)
    then show ?thesis
      by (rule mid_jump [OF assms]) (use o True in \<open>simp_all add: vuFlushFDIV_def short_others_def others_ok_def\<close>)
  qed (use ok_mid [OF assms] in \<open>simp add: vuFlushFDIV_def\<close>)
  show "pipes_mid (vuFlushEFU VU)"
  proof (cases "ef_enable (efu VU)")
    case True
    let ?n = "ef_Cycle (efu VU) - (vcycle VU - ef_sCycle (efu VU))"
    have "?n \<le> ef_Cycle (efu VU)" "ef_Cycle (efu VU) \<le> 60"
      using o True by (auto simp: others_ok_def intro: word_sub_le)
    then have "?n \<le> 60" by (rule order_trans)
    then show ?thesis
      by (rule mid_jump [OF assms]) (use o True in \<open>simp_all add: vuFlushEFU_def short_others_def others_ok_def\<close>)
  qed (use ok_mid [OF assms] in \<open>simp add: vuFlushEFU_def\<close>)
qed

lemma mid_lower_stalls: "pipes_ok VU \<Longrightarrow> pipes_mid (vuTestLowerStalls r VU)"
  by (simp add: vuTestLowerStalls_def vuTestFDIVStalls_def vuTestEFUStalls_def ok_stalls mid_flush ok_mid)

section \<open>Execution\<close>

text \<open>The instructions leave the pipes alone, except for XGKICK, which empties them.\<close>

lemma mid_cong:
  "fmac W = fmac VU \<Longrightarrow> fdiv W = fdiv VU \<Longrightarrow> efu W = efu VU \<Longrightarrow> vcycle W = vcycle VU \<Longrightarrow>
    pipes_mid W = pipes_mid VU"
  by (simp add: pipes_mid_def slots_def starts_def short_others_def)

lemma idle_slots: "\<not> pipes_busy VU \<Longrightarrow> slots VU = {} \<and> short_others VU \<and> others_ok VU"
  by (auto simp: pipes_busy_def list_ex_iff slots_def short_others_def others_ok_def)

lemma idle_mid: "\<not> pipes_busy VU \<Longrightarrow> pipes_mid VU"
  using idle_slots [of VU] by (simp add: pipes_mid_def starts_slots)

lemma idle_ok: "\<not> pipes_busy VU \<Longrightarrow> pipes_ok VU"
  using idle_slots [of VU] by (simp add: pipes_ok_def starts_slots)

lemma not_busy_round: "\<not> pipes_busy VU \<Longrightarrow> \<not> pipes_busy (flush_round VU)"
  by (auto simp: pipes_busy_def list_ex_iff flush_round_frame)

lemma flush_all_done: "\<not> pipes_busy (vuFlushAll VU)"
proof (induction VU rule: vuFlushAll.induct)
  case (1 VU)
  then show ?case
    by (subst vuFlushAll.simps) (simp add: not_busy_round)
qed

lemma mid_same:
  "pipes_mid VU \<Longrightarrow> fmac W = fmac VU \<Longrightarrow> fdiv W = fdiv VU \<Longrightarrow> efu W = efu VU \<Longrightarrow> vcycle W = vcycle VU \<Longrightarrow>
    pipes_mid W"
  using mid_cong by blast

interpretation mid: vu_inv_exec pipes_mid True
proof unfold_locales
  show "pipes_mid VU \<Longrightarrow> pipes_mid (vuFlushAll VU)" for VU
    by (rule idle_mid) (rule flush_all_done)
qed (erule mid_same; simp add: put_vec_def set_VI_def set_ACC_def set_macflag_def set_q_def set_p_def
    vi_backup_def setBranch_def set_Mem_def set_vcode_def)+

lemma mid_pair:
  "pipes_ok (vu_at i S) \<Longrightarrow> pipes_mid (vu_at i (fst (exec_pair env i p0 p1 ju jl S)))"
proof -
  assume ok: "pipes_ok (vu_at i S)"
  have code: "pipes_ok (set_vcode c VU) = pipes_ok VU" for c VU
    by (simp add: pipes_ok_def slots_def starts_def fm_age_def others_ok_def set_vcode_def)
  show ?thesis
    by (simp add: exec_pair_def Let_def mid.exec_both mid.ExecUpper mid.VI ok_mid ok_upper_stalls
        mid_lower_stalls code ok)
qed

section \<open>Adding results\<close>

text \<open>What a decoder reports of an instruction of the divider or of the elementary function unit.\<close>

definition short_report :: "VURegsNum \<Rightarrow> bool" where
  "short_report l \<longleftrightarrow>
     (pipe l = VUPIPE_FDIV \<and> bit (VIwrite l) REG_Q \<or> pipe l = VUPIPE_EFU \<and> bit (VIwrite l) REG_P \<longrightarrow> cycles l \<le> 60)"

fun vu_known :: "vu_lower \<Rightarrow> bool" where
  "vu_known (LInt x) = True" | "vu_known (LMem x) = True" | "vu_known (LFlag x) = True"
| "vu_known (LBranch x) = True" | "vu_known (LEfu x) = True" | "vu_known (LDiv x) = True"
| "vu_known (LMove x) = True" | "vu_known (LVif x) = True" | "vu_known _ = False"

lemmas regs_lower_defs =
  vuRegsMOVE_def vuRegsLQI_def vuRegsDIV_def vuRegsMTIR_def vuRegsRNEXT_def vuRegsMFP_def vuRegsXTOP_def
  vuRegsXGKICK_def vuRegsESADD_def vuRegsEATANxy_def vuRegsESQRT_def vuRegsESIN_def vuRegsMR32_def
  vuRegsSQI_def vuRegsSQRT_def vuRegsMFIR_def vuRegsRGET_def vuRegsXITOP_def vuRegsERSADD_def
  vuRegsEATANxz_def vuRegsERSQRT_def vuRegsEATAN_def vuRegsLQD_def vuRegsRSQRT_def vuRegsILWR_def
  vuRegsRINIT_def vuRegsELENG_def vuRegsESUM_def vuRegsERCPR_def vuRegsEEXP_def vuRegsSQD_def
  vuRegsWAITQ_def vuRegsISWR_def vuRegsRXOR_def vuRegsERLENG_def vuRegsWAITP_def vuRegsIADD_def
  vuRegsISUB_def vuRegsIADDI_def vuRegsIAND_def vuRegsIOR_def vuRegsLQ_def vuRegsSQ_def vuRegsILW_def
  vuRegsISW_def vuRegsIADDIU_def vuRegsISUBIU_def vuRegsFCEQ_def vuRegsFCSET_def vuRegsFCAND_def
  vuRegsFCOR_def vuRegsFSEQ_def vuRegsFSSET_def vuRegsFSAND_def vuRegsFSOR_def vuRegsFMEQ_def
  vuRegsFMAND_def vuRegsFMOR_def vuRegsFCGET_def vuRegsB_def vuRegsBAL_def vuRegsJR_def vuRegsJALR_def
  vuRegsIBEQ_def vuRegsIBNE_def vuRegsIBLTZ_def vuRegsIBGTZ_def vuRegsIBLEZ_def vuRegsIBGEZ_def

lemma short_report_lower: "vu_known op \<Longrightarrow> short_report (regs_lower op VU r)"
  unfolding regs_lower_def short_report_def
  by (cases op)
    (simp_all add: regs_lower_defs VUREGS_PFS_xyzw_def VUREGS_PFS_fsf_def VUREGS_FTFS_def VUREGS_IDISIT_def VUREGS_ITIS_def
      split: vu_int.split vu_mem.split vu_flag.split vu_branch.split vu_efu.split vu_div.split vu_move.split
        vu_vif.split)

lemma pair_report:
  assumes "bit p1 31 \<or> vu_known (decode_lower p0)"
  shows "short_report (snd (snd (exec_pair env i p0 p1 ju jl S)))"
proof (cases "bit p1 31")
  case True
  then show ?thesis
    by (simp add: exec_pair_def Let_def short_report_def no_regs_def)
next
  case False
  with assms show ?thesis
    by (simp add: exec_pair_def Let_def short_report_lower)
qed

lemma free_slot_card: "card (slots VU) < 8 \<Longrightarrow> free_slot VU \<noteq> None"
proof
  assume "card (slots VU) < 8" "free_slot VU = None"
  then have "slots VU = {..<8}"
    by (auto simp: free_slot_def find_None_iff slots_def)
  with \<open>card (slots VU) < 8\<close> show False by simp
qed

lemma free_slot_range: "free_slot VU = Some j \<Longrightarrow> j < 8 \<and> j \<notin> slots VU"
  by (auto simp: free_slot_def find_Some_iff slots_def)

text \<open>Between the two adds: one result may have started in this cycle.\<close>

definition pipes_adding :: "nat \<Rightarrow> VURegs \<Rightarrow> bool" where
  "pipes_adding n VU \<longleftrightarrow>
     (\<forall>i \<in> slots VU. fm_Cycle (fmac VU i) = 3) \<and> (\<forall>t. card (starts VU t) \<le> 2) \<and> short_others VU \<and>
     card (starts VU (vcycle VU)) \<le> n \<and> card (slots VU) \<le> 6 + n"

lemma mid_adding: "pipes_mid VU \<Longrightarrow> pipes_adding 0 VU"
  by (auto simp: pipes_mid_def pipes_adding_def starts_slots)

lemma adding_add:
  assumes ok: "pipes_adding n VU" and n: "n < 2"
  shows "pipes_adding (Suc n) (vuFMACAdd r x VU)"
proof -
  have "free_slot VU \<noteq> None"
    using assms by (intro free_slot_card) (simp add: pipes_adding_def)
  then obtain j where f: "free_slot VU = Some j"
    by blast
  then have j: "j < 8" "j \<notin> slots VU"
    using free_slot_range by blast+
  let ?W = "vuFMACAdd r x VU"
  have sl: "slots ?W = insert j (slots VU)"
    using j by (auto simp: vuFMACAdd_def f slots_def split: if_splits)
  have st: "starts ?W t = (if t = vcycle VU then insert j (starts VU t) else starts VU t)" for t
    using j by (auto simp: vuFMACAdd_def f starts_def slots_def)
  have c: "vcycle ?W = vcycle VU" "short_others ?W = short_others VU"
    by (simp_all add: vuFMACAdd_def f short_others_def)
  have "card (insert j (starts VU (vcycle VU))) \<le> Suc n"
    using ok card_insert_le_m1 [of "Suc n" "starts VU (vcycle VU)" j] by (simp add: pipes_adding_def)
  moreover have "card (insert j (slots VU)) \<le> 6 + Suc n"
    using ok card_insert_le_m1 [of "6 + Suc n" "slots VU" j] by (simp add: pipes_adding_def)
  moreover have "fm_Cycle (fmac ?W i) = 3" if "i \<in> slots ?W" for i
    using that ok sl by (auto simp: vuFMACAdd_def f pipes_adding_def)
  ultimately show ?thesis
    using ok n by (auto simp: pipes_adding_def sl st c)
qed

lemma adding_more: "pipes_adding n VU \<Longrightarrow> n \<le> m \<Longrightarrow> pipes_adding m VU"
  by (auto simp: pipes_adding_def intro: order_trans)

lemma adding_others:
  "pipes_adding n VU \<Longrightarrow> c \<le> 60 \<Longrightarrow> pipes_adding n (vuFDIVAdd c VU)"
  "pipes_adding n VU \<Longrightarrow> c \<le> 60 \<Longrightarrow> pipes_adding n (vuEFUAdd c VU)"
  by (simp_all add: pipes_adding_def slots_def starts_def short_others_def vuFDIVAdd_def vuEFUAdd_def)

lemma adding_upper: "pipes_adding 0 VU \<Longrightarrow> pipes_adding 1 (vuAddUpperStalls u VU)"
  using adding_more [of 0 VU 1] adding_add [of 0 VU]
  by (simp add: vuAddUpperStalls_def vuAddFMACStalls_def)

lemma adding_lower: "pipes_adding 1 VU \<Longrightarrow> short_report l \<Longrightarrow> pipes_adding 2 (vuAddLowerStalls l VU)"
  using adding_more [of 1 VU 2] adding_add [of 1 VU]
  by (simp add: vuAddLowerStalls_def vuAddFMACStalls_def vuAddFDIVStalls_def vuAddEFUStalls_def
      short_report_def adding_others numeral_2_eq_2)

text \<open>After \<open>_vuTestPipes\<close> nothing is due; the next cycle makes that \<open>pipes_ok\<close>.\<close>

definition pipes_tested :: "VURegs \<Rightarrow> bool" where
  "pipes_tested VU \<longleftrightarrow>
     (\<forall>i \<in> slots VU. fm_Cycle (fmac VU i) = 3 \<and> fm_age VU i < 3) \<and> (\<forall>t. card (starts VU t) \<le> 2) \<and>
     (fd_enable (fdiv VU) \<longrightarrow> fd_Cycle (fdiv VU) \<le> 60 \<and> vcycle VU - fd_sCycle (fdiv VU) < fd_Cycle (fdiv VU)) \<and>
     (ef_enable (efu VU) \<longrightarrow> ef_Cycle (efu VU) \<le> 60 \<and> vcycle VU - ef_sCycle (efu VU) < ef_Cycle (efu VU))"

lemma adding_tested:
  assumes "pipes_adding n VU"
  shows "pipes_tested (vuTestPipes VU)"
proof -
  have sub: "slots (vuTestPipes VU) \<subseteq> slots VU"
    by (auto simp: slots_test_pipes)
  have "card (starts (vuTestPipes VU) t) \<le> 2" for t
    using starts_mono [OF sub, of t] slots_test_pipes(2) assms
    by (fastforce simp: pipes_adding_def intro: order_trans)
  moreover have "fm_Cycle (fmac (vuTestPipes VU) i) = 3 \<and> fm_age (vuTestPipes VU) i < 3"
    if "i \<in> slots (vuTestPipes VU)" for i
    using that slots_test_pipes(2) [OF that] assms
    by (auto simp: slots_test_pipes(1) pipes_adding_def fm_age_def vuTestPipes_frame(1))
  moreover have "fd_enable (fdiv (vuTestPipes VU)) \<longrightarrow> fd_Cycle (fdiv (vuTestPipes VU)) \<le> 60 \<and>
      vcycle (vuTestPipes VU) - fd_sCycle (fdiv (vuTestPipes VU)) < fd_Cycle (fdiv (vuTestPipes VU))"
    "ef_enable (efu (vuTestPipes VU)) \<longrightarrow> ef_Cycle (efu (vuTestPipes VU)) \<le> 60 \<and>
      vcycle (vuTestPipes VU) - ef_sCycle (efu (vuTestPipes VU)) < ef_Cycle (efu (vuTestPipes VU))"
    using assms by (auto simp: pipes_adding_def short_others_def vuTestPipes_frame(1))
  ultimately show ?thesis
    by (simp add: pipes_tested_def)
qed

lemma less_3_word: "a < (3 :: u32) \<Longrightarrow> a = 0 \<or> a = 1 \<or> a = 2"
proof -
  assume "a < 3"
  then have "unat a < 3"
    by (simp add: word_less_nat_alt)
  then have "unat a = unat (0 :: u32) \<or> unat a = unat (1 :: u32) \<or> unat a = unat (2 :: u32)"
    by auto
  then show ?thesis
    by (simp only: word_unat_eq_iff)
qed

lemma less_next: "a < n \<Longrightarrow> 1 + a \<le> (n :: u32)"
  using inc_le [of a n] by (simp add: add.commute)

lemma tested_next:
  assumes "pipes_tested VU"
  shows "pipes_ok (next_cycle VU)"
proof -
  have sl: "slots (next_cycle VU) = slots VU" "starts (next_cycle VU) = starts VU"
    by (simp_all add: slots_def starts_def next_cycle_def fun_eq_iff)
  have step: "c + 1 - s = 1 + (c - s)" for c s :: u32
    by simp
  have "fm_age (next_cycle VU) i \<in> {1, 2, 3}" if "i \<in> slots VU" for i
  proof -
    have "fm_age (next_cycle VU) i = 1 + fm_age VU i"
      by (simp add: fm_age_def next_cycle_def)
    with assms that less_3_word [of "fm_age VU i"] show ?thesis
      by (auto simp: pipes_tested_def)
  qed
  moreover have "others_ok (next_cycle VU)"
    using assms less_next by (auto simp: pipes_tested_def others_ok_def next_cycle_def step simp del: diff_add_eq)
  ultimately show ?thesis
    using assms by (simp add: pipes_ok_def sl pipes_tested_def) (simp add: next_cycle_def)
qed

text \<open>The rest of a step does not touch the pipes, or empties them.\<close>

definition same_pipes :: "VURegs \<Rightarrow> VURegs \<Rightarrow> bool" where
  "same_pipes W VU \<longleftrightarrow> fmac W = fmac VU \<and> fdiv W = fdiv VU \<and> efu W = efu VU \<and> vcycle W = vcycle VU"

lemma same_pipes_refl [simp]: "same_pipes VU VU"
  by (simp add: same_pipes_def)

lemma same_pipes_simps [simp]:
  "same_pipes (set_VI r v W) VU = same_pipes W VU"
  "same_pipes (set_ebit n W) VU = same_pipes W VU"
  "same_pipes (or_vflags n W) VU = same_pipes W VU"
  "same_pipes (advance_TPC W) VU = same_pipes W VU"
  "same_pipes (mask_TPC n W) VU = same_pipes W VU"
  "same_pipes (vi_backup_tick W) VU = same_pipes W VU"
  "same_pipes (branch_tick W) VU = same_pipes W VU"
  "same_pipes (W\<lparr>ebit := n\<rparr>) VU = same_pipes W VU"
  by (simp_all add: same_pipes_def set_VI_def set_ebit_def or_vflags_def advance_TPC_def mask_TPC_def
      vi_backup_tick_def branch_tick_def Let_def)

lemma same_pipes_ok: "same_pipes W VU \<Longrightarrow> pipes_ok VU \<Longrightarrow> pipes_ok W"
  by (simp add: same_pipes_def pipes_ok_def slots_def starts_def fm_age_def others_ok_def)

lemma same_pipes_tested: "same_pipes W VU \<Longrightarrow> pipes_tested VU \<Longrightarrow> pipes_tested W"
  by (simp add: same_pipes_def pipes_tested_def slots_def starts_def fm_age_def)

lemma same_pipes_unit:
  "same_pipes (vu_at i (clear_VPU_STAT m S)) VU = same_pipes (vu_at i S) VU"
  "same_pipes (vu_at i (or_VPU_STAT m S)) VU = same_pipes (vu_at i S) VU"
  "same_pipes (vu_at i (stop_bit env j p1 m f st S)) VU = same_pipes (vu_at i S) VU"
  by (auto simp: clear_VPU_STAT_def or_VPU_STAT_def stop_bit_def Let_def)

lemma flush_tested: "pipes_tested (flush_at_end VU)"
  using flush_all_done [of "VU\<lparr>VIBackupCycles := 0\<rparr>"] idle_slots
  by (simp add: flush_at_end_def pipes_tested_def starts_slots pipes_busy_def)

section \<open>A step\<close>

lemma same_ok: "pipes_ok VU \<Longrightarrow> same_pipes W VU \<Longrightarrow> pipes_ok W"
  by (rule same_pipes_ok)

lemma pair_tested:
  assumes "pipes_ok (vu_at i S)" "bit p1 31 \<or> vu_known (decode_lower p0)"
    "exec_pair env i p0 p1 ju jl S = (T, u, l)"
  shows "pipes_tested (vuTestPipes (vuAddLowerStalls l (vuAddUpperStalls u (vu_at i T))))"
    "pipes_tested (vuTestPipes (vuAddUpperStalls u (vu_at i T)))"
proof -
  have "pipes_mid (vu_at i T)"
    using mid_pair [OF assms(1), of env p0 p1 ju jl] assms(3) by simp
  then have up: "pipes_adding 1 (vuAddUpperStalls u (vu_at i T))"
    by (intro adding_upper mid_adding)
  then show "pipes_tested (vuTestPipes (vuAddUpperStalls u (vu_at i T)))"
    by (rule adding_tested)
  have "short_report l"
    using pair_report [OF assms(2), of env i ju jl S] assms(3) by simp
  with up show "pipes_tested (vuTestPipes (vuAddLowerStalls l (vuAddUpperStalls u (vu_at i T))))"
    by (intro adding_tested [of 2] adding_lower)
qed

lemma tested_ticks:
  "pipes_tested VU \<Longrightarrow> pipes_tested (branch_tick (vi_backup_tick VU))"
  "pipes_tested VU \<Longrightarrow> pipes_tested (set_ebit n (branch_tick (vi_backup_tick VU)))"
  by (rule same_pipes_tested [of _ VU]; simp)+

lemma tested_stat: "pipes_tested (vu_at i S) \<Longrightarrow> pipes_tested (vu_at i (clear_VPU_STAT m S))"
  by (rule same_pipes_tested [of _ "vu_at i S"]) (simp add: same_pipes_unit)

lemma vu1_put: "vu1 (on_vu VU1 f S) = f (vu1 S)" "vu1 (S\<lparr>vif1Regs := x\<rparr>) = vu1 S"
  "vu0 (on_vu VU0 f S) = f (vu0 S)" "vu0 (S\<lparr>vif0Regs := x\<rparr>) = vu0 S"
  by (simp_all add: on_vu_def put_vu_def vu_sel)

lemmas tested_stat' = tested_stat [of VU0, unfolded vu_sel] tested_stat [of VU1, unfolded vu_sel]

lemma tested1:
  assumes "pipes_ok (vu1 S)" "bit (fetch_upper (vu1 S)) 31 \<or> vu_known (decode_lower (fetch_lower (vu1 S)))"
  shows "pipes_tested (vu1 (vu1Exec1 env ju jl S))"
proof -
  let ?p0 = "fetch_lower (vu1 S)" and ?p1 = "fetch_upper (vu1 S)"
  let ?A = "on_vu VU1 advance_TPC S"
  let ?B = "stop_bit env VU1 ?p1 0x08000000 0x800 0x400 (stop_bit env VU1 ?p1 0x10000000 0x400 0x200
    (if ?p1 AND 0x40000000 \<noteq> 0 then on_vu VU1 (set_ebit 2) ?A else ?A))"
  obtain T u l where T: "exec_pair env VU1 ?p0 ?p1 ju jl ?B = (T, u, l)"
    by (metis prod_cases3)
  have "same_pipes (vu_at VU1 ?B) (vu_at VU1 S)"
    by (simp add: same_pipes_unit)
  then have "pipes_ok (vu_at VU1 ?B)"
    by (rule same_pipes_ok) (simp add: vu_sel assms(1))
  from pair_tested(1) [OF this assms(2) T] show ?thesis
    unfolding vu1Exec1_def Let_def T case_prod_conv
    by (simp add: vu1_put vu_sel tested_ticks tested_stat' flush_tested)
qed

lemma tested0:
  assumes "pipes_ok (vu0 S)" "bit (fetch_upper (vu0 S)) 31 \<or> vu_known (decode_lower (fetch_lower (vu0 S)))"
  shows "pipes_tested (vu0 (vu0Exec1 env ju jl S))"
proof -
  let ?p0 = "fetch_lower (vu0 S)" and ?p1 = "fetch_upper (vu0 S)"
  let ?A = "on_vu VU0 advance_TPC S"
  let ?C = "if ?p1 AND 0x40000000 \<noteq> 0 then on_vu VU0 (set_ebit 2) ?A else ?A"
  let ?B = "stop_bit env VU0 ?p1 0x08000000 0x8 0x4 (stop_bit env VU0 ?p1 0x10000000 0x4 0x2
    (if ?p1 AND 0x20000000 \<noteq> 0 then on_vu VU0 (or_vflags VUFLAG_MFLAGSET) ?C else ?C))"
  obtain T u l where T: "exec_pair env VU0 ?p0 ?p1 ju jl ?B = (T, u, l)"
    by (metis prod_cases3)
  have "same_pipes (vu_at VU0 ?B) (vu_at VU0 S)"
    by (simp add: same_pipes_unit)
  then have "pipes_ok (vu_at VU0 ?B)"
    by (rule same_pipes_ok) (simp add: vu_sel assms(1))
  from pair_tested [OF this assms(2) T] show ?thesis
    unfolding vu0Exec1_def Let_def T case_prod_conv
    by (simp add: vu1_put vu_sel tested_ticks tested_stat' flush_tested)
qed

lemma pipes_ok_exec:
  "pipes_ok (vu1 S) \<Longrightarrow> bit (fetch_upper (vu1 S)) 31 \<or> vu_known (decode_lower (fetch_lower (vu1 S))) \<Longrightarrow>
    pipes_ok (vu1 (vu1Exec env junk S))"
  by (simp add: vu1Exec_def vu1_put tested1 tested_next)

end
