(* ===== verification/VuPair.thy ===== *)
theory VuPair
  imports VuPipes
begin

text \<open>
  What the two halves of an instruction pair touch. The upper half changes one float register, the one its
  decoder reports, the accumulator and the flags; the lower half commutes with a change of a float register
  that its decoder does not report. So the interpreters' saving and restoring of registers around the two
  halves makes the lower half see the float registers as they were before the upper half.
\<close>

section \<open>The upper half\<close>

definition same_rest :: "VURegs \<Rightarrow> VURegs \<Rightarrow> bool" where
  "same_rest VU X \<longleftrightarrow>
     X\<lparr>VF := VF VU, vACC := vACC VU, macflag := macflag VU, statusflag := statusflag VU,
       clipflag := clipflag VU\<rparr> = VU"

definition upper_frame :: "nat \<Rightarrow> VURegs \<Rightarrow> VURegs \<Rightarrow> bool" where
  "upper_frame w VU X \<longleftrightarrow> same_rest VU X \<and> (\<forall>r. r \<noteq> w \<or> r = 0 \<longrightarrow> VF X r = VF VU r)"

lemma same_restD:
  assumes "same_rest VU X"
  shows "vcode X = vcode VU" "VI X = VI VU" "vMem X = vMem VU"
  using arg_cong [OF assms [unfolded same_rest_def], of vcode] arg_cong [OF assms [unfolded same_rest_def], of VI]
    arg_cong [OF assms [unfolded same_rest_def], of vMem]
  by simp_all

lemma frame_refl: "upper_frame w VU VU"
  by (simp add: upper_frame_def same_rest_def)

lemma frame_flags:
  "upper_frame w VU (set_macflag m X) = upper_frame w VU X"
  "upper_frame w VU (set_ACC k v X) = upper_frame w VU X"
  "upper_frame w VU (X\<lparr>statusflag := m\<rparr>) = upper_frame w VU X"
  "upper_frame w VU (X\<lparr>clipflag := m\<rparr>) = upper_frame w VU X"
  by (simp_all add: upper_frame_def same_rest_def set_macflag_def set_ACC_def)

lemma frame_VF: "0 < w \<Longrightarrow> upper_frame w VU X \<Longrightarrow> upper_frame w VU (set_VF w k v X)"
  by (simp add: upper_frame_def same_rest_def set_VF_def)

lemma frame_Fd: "upper_frame (rFd VU) VU X \<Longrightarrow> upper_frame (rFd VU) VU (put_Fd k v X)"
  using same_restD(1) [of VU X] frame_VF [of "rFd VU" VU X] by (simp add: put_Fd_def upper_frame_def)

lemma frame_Ft: "0 < rFt VU \<Longrightarrow> upper_frame (rFt VU) VU X \<Longrightarrow> upper_frame (rFt VU) VU (put_Ft k v X)"
  using same_restD(1) [of VU X] frame_VF [of "rFt VU" VU X]  by (simp add: put_Ft_def upper_frame_def)

lemma frame_MAC:
  "upper_frame w VU X \<Longrightarrow> upper_frame w VU (snd (VU_MACk_UPDATE h k X v))"
  "upper_frame w VU X \<Longrightarrow> upper_frame w VU (VU_MACk_CLEAR k X)"
  "upper_frame w VU X \<Longrightarrow> upper_frame w VU (VU_STAT_UPDATE X)"
  by (simp_all add: VU_MACk_UPDATE_def VU_MAC_UPDATE_def VU_MACk_CLEAR_def VU_MAC_CLEAR_def VU_STAT_UPDATE_def
      Let_def frame_flags)

lemma frame_lanes:
  assumes "\<And>k v X. upper_frame w VU X \<Longrightarrow> upper_frame w VU (put k v X)" "upper_frame w VU X"
  shows "upper_frame w VU (mac_lanes h put e X)" "upper_frame w VU (store_lanes put e X)"
    "upper_frame w VU (mac_set h put k f X)"
  by (simp_all add: mac_lanes_def mac_lane_def store_lanes_def store_lane_def mac_set_def Let_def case_prod_unfold
      frame_MAC assms)

lemmas regs_upper_defs =
  vuRegsABS_def vuRegsADD_def vuRegsADDi_def vuRegsADDq_def vuRegsADDx_def vuRegsADDy_def vuRegsADDz_def
  vuRegsADDw_def vuRegsADDA_def vuRegsADDAi_def vuRegsADDAq_def vuRegsADDAx_def vuRegsADDAy_def
  vuRegsADDAz_def vuRegsADDAw_def vuRegsSUB_def vuRegsSUBi_def vuRegsSUBq_def vuRegsSUBx_def
  vuRegsSUBy_def vuRegsSUBz_def vuRegsSUBw_def vuRegsSUBA_def vuRegsSUBAi_def vuRegsSUBAq_def
  vuRegsSUBAx_def vuRegsSUBAy_def vuRegsSUBAz_def vuRegsSUBAw_def vuRegsMUL_def vuRegsMULi_def
  vuRegsMULq_def vuRegsMULx_def vuRegsMULy_def vuRegsMULz_def vuRegsMULw_def vuRegsMULA_def
  vuRegsMULAi_def vuRegsMULAq_def vuRegsMULAx_def vuRegsMULAy_def vuRegsMULAz_def vuRegsMULAw_def
  vuRegsMADD_def vuRegsMADDi_def vuRegsMADDq_def vuRegsMADDx_def vuRegsMADDy_def vuRegsMADDz_def
  vuRegsMADDw_def vuRegsMADDA_def vuRegsMADDAi_def vuRegsMADDAq_def vuRegsMADDAx_def vuRegsMADDAy_def
  vuRegsMADDAz_def vuRegsMADDAw_def vuRegsMSUB_def vuRegsMSUBi_def vuRegsMSUBq_def vuRegsMSUBx_def
  vuRegsMSUBy_def vuRegsMSUBz_def vuRegsMSUBw_def vuRegsMSUBA_def vuRegsMSUBAi_def vuRegsMSUBAq_def
  vuRegsMSUBAx_def vuRegsMSUBAy_def vuRegsMSUBAz_def vuRegsMSUBAw_def vuRegsMAX_def vuRegsMAXi_def
  vuRegsMAXx_def vuRegsMAXy_def vuRegsMAXz_def vuRegsMAXw_def vuRegsMINI_def vuRegsMINIi_def
  vuRegsMINIx_def vuRegsMINIy_def vuRegsMINIz_def vuRegsMINIw_def vuRegsOPMULA_def vuRegsOPMSUB_def
  vuRegsNOP_def vuRegsFTOI0_def vuRegsFTOI4_def vuRegsFTOI12_def vuRegsFTOI15_def vuRegsITOF0_def
  vuRegsITOF4_def vuRegsITOF12_def vuRegsITOF15_def vuRegsCLIP_def vuRegsMAXx_base_def
  vuRegsMAXy_base_def vuRegsMAXz_base_def vuRegsMAXw_base_def

lemmas VUREGS_defs =
  VUREGS_FDFSI_def VUREGS_FDFSQ_def VUREGS_FDFSFT_def VUREGS_FDFSFTxyzw_def VUREGS_FDFSFTx_def
  VUREGS_FDFSFTy_def VUREGS_FDFSFTz_def VUREGS_FDFSFTw_def VUREGS_ACCFSI_def VUREGS_ACCFSQ_def
  VUREGS_ACCFSFT_def VUREGS_ACCFSFTxyzw_def VUREGS_ACCFSFTx_def VUREGS_ACCFSFTy_def VUREGS_ACCFSFTz_def
  VUREGS_ACCFSFTw_def VUREGS_FTFS_def VUREGS_IDISIT_def VUREGS_ITIS_def VUREGS_PFS_xyzw_def
  VUREGS_PFS_fsf_def VUREGS_FDFSFTxyzw_MUL_def VUREGS_FDFSFT_0_xyzw_def

lemmas frame_upper = frame_refl frame_MAC(3) frame_lanes frame_Fd frame_Ft frame_flags

lemma upper_op_frame: "upper_frame (VFwrite (regs_upper op VU j)) VU (upper_op env op VU)"
  unfolding upper_op_def regs_upper_def
  by (cases op)
    (simp_all add: upper_defs regs_upper_defs vuOPMULA_def vuOPMSUB_def vuCLIP_def Let_def frame_upper
      VUREGS_defs split: vu_bc.split)

section \<open>The lower half\<close>

text \<open>Changing a float register commutes with the stores that do not touch it.\<close>

lemma put_vec_sel [simp]:
  "vcode (put_vec r v VU) = vcode VU" "VI (put_vec r v VU) = VI VU" "vMem (put_vec r v VU) = vMem VU"
  "VIpad (put_vec r v VU) = VIpad VU" "statusflag (put_vec r v VU) = statusflag VU"
  "VF (put_vec r v VU) s = (if s = r then v else VF VU s)"
  "vbranch (put_vec r v VU) = vbranch VU" "branchpc (put_vec r v VU) = branchpc VU"
  "VIBackupCycles (put_vec r v VU) = VIBackupCycles VU" "VIRegNumber (put_vec r v VU) = VIRegNumber VU"
  "VIOldValue (put_vec r v VU) = VIOldValue VU"
  by (simp_all add: put_vec_def)

lemma put_vec_push:
  "set_VI a w (put_vec r v VU) = put_vec r v (set_VI a w VU)"
  "set_VI16 a w' (put_vec r v VU) = put_vec r v (set_VI16 a w' VU)"
  "set_q w (put_vec r v VU) = put_vec r v (set_q w VU)"
  "set_p w (put_vec r v VU) = put_vec r v (set_p w VU)"
  "vi_backup n a (put_vec r v VU) = put_vec r v (vi_backup n a VU)"
  "setBranch w (put_vec r v VU) = put_vec r v (setBranch w VU)"
  "next_div_flags (put_vec r v VU) = put_vec r v (next_div_flags VU)"
  "raise_status w (put_vec r v VU) = put_vec r v (raise_status w VU)"
  "(put_vec r v VU)\<lparr>statusflag := w\<rparr> = put_vec r v (VU\<lparr>statusflag := w\<rparr>)"
  "(put_vec r v VU)\<lparr>clipflag := w\<rparr> = put_vec r v (VU\<lparr>clipflag := w\<rparr>)"
  "set_Mem a w (put_vec r v VU) = put_vec r v (set_Mem a w VU)"
  "branchAddr i (put_vec r v VU) = branchAddr i VU"
  "branch_operand n (put_vec r v VU) = branch_operand n VU"
  "imm_addr n (put_vec r v VU) = imm_addr n VU"
  "reg_addr n (put_vec r v VU) = reg_addr n VU"
  by (simp_all add: put_vec_def set_VI_def set_VI16_def set_q_def set_p_def vi_backup_def setBranch_def
      next_div_flags_def raise_status_def set_Mem_def branchAddr_def branch_operand_def imm_addr_def reg_addr_def)

lemma put_vec_Ft: "r \<noteq> rFt VU \<Longrightarrow> put_Ft k w (put_vec r v VU) = put_vec r v (put_Ft k w VU)"
  by (auto simp: put_Ft_def set_VF_def put_vec_def fun_upd_twist)

lemma rFt_stores [simp]: "rFt (put_Ft k w VU) = rFt VU"
  by simp

lemma put_vec_lane:
  assumes "\<And>k X. vcode X = vcode VU \<Longrightarrow> e k (put_vec r v X) = e k X" "r \<noteq> rFt VU" "vcode X = vcode VU"
  shows "store_lane put_Ft e k (put_vec r v X) = put_vec r v (store_lane put_Ft e k X) \<and>
    vcode (store_lane put_Ft e k X) = vcode VU"
  using assms by (simp add: store_lane_def put_vec_Ft)

lemma put_vec_lanes:
  assumes "\<And>k X. vcode X = vcode VU \<Longrightarrow> e k (put_vec r v X) = e k X" "r \<noteq> rFt VU"
  shows "store_lanes put_Ft e (put_vec r v VU) = put_vec r v (store_lanes put_Ft e VU)"
proof -
  note s = put_vec_lane [of VU e r v, OF assms]
  have "fold (store_lane put_Ft e) ks (put_vec r v X) = put_vec r v (fold (store_lane put_Ft e) ks X)"
    if "vcode X = vcode VU" for ks X
    using that by (induction ks arbitrary: X) (simp_all add: s)
  then show ?thesis
    unfolding store_lanes_def by blast
qed

definition unreported :: "nat \<Rightarrow> VURegsNum \<Rightarrow> bool" where
  "unreported r l \<longleftrightarrow> r \<noteq> VFwrite l \<and> r \<noteq> VFread0 l \<and> r \<noteq> VFread1 l"

lemmas lower_report_defs = regs_lower_def regs_lower_defs VUREGS_defs

text \<open>\<open>f\<close> neither reads nor writes float register \<open>r\<close> of unit \<open>i\<close>.\<close>

definition commutes :: "vuId \<Rightarrow> nat \<Rightarrow> vec \<Rightarrow> ('e vuState \<Rightarrow> 'e vuState) \<Rightarrow> 'e vuState \<Rightarrow> bool" where
  "commutes i r v f S \<longleftrightarrow> f (on_vu i (put_vec r v) S) = on_vu i (put_vec r v) (f S)"

lemma commutes_on:
  "f (put_vec r v (vu_at i S)) = put_vec r v (f (vu_at i S)) \<Longrightarrow> commutes i r v (on_vu i f) S"
  by (cases i) (simp_all add: commutes_def on_vu_def vu_at_def put_vu_def)

lemma commutes_id: "commutes i r v (\<lambda>S. S) S"
  by (simp add: commutes_def)

lemmas lower_commute_simps = unreported_def lower_report_defs commutes_id lower_defs Let_def put_vec_push

lemma pure_commute:
  assumes "r \<noteq> 0"
  shows "unreported r (regs_lower (LInt x1) (vu_at i S) j) \<Longrightarrow> commutes i r v (lower_op env i (LInt x1)) S"
    "unreported r (regs_lower (LFlag x2) (vu_at i S) j) \<Longrightarrow> commutes i r v (lower_op env i (LFlag x2)) S"
    "unreported r (regs_lower (LBranch x3) (vu_at i S) j) \<Longrightarrow> commutes i r v (lower_op env i (LBranch x3)) S"
    "unreported r (regs_lower (LEfu x4) (vu_at i S) j) \<Longrightarrow> commutes i r v (lower_op env i (LEfu x4)) S"
    "unreported r (regs_lower (LDiv x5) (vu_at i S) j) \<Longrightarrow> commutes i r v (lower_op env i (LDiv x5)) S"
    "unreported r (regs_lower (LMove x6) (vu_at i S) j) \<Longrightarrow> commutes i r v (lower_op env i (LMove x6)) S"
  subgoal by (cases x1; simp add: lower_op_def [abs_def]; rule commutes_on; simp add: lower_commute_simps)
  subgoal by (cases x2; simp add: lower_op_def [abs_def]; rule commutes_on; simp add: lower_commute_simps)
  subgoal by (cases x3; simp add: lower_op_def [abs_def]; rule commutes_on; simp add: lower_commute_simps)
  subgoal by (cases x4; simp add: lower_op_def [abs_def]; rule commutes_on; simp add: lower_commute_simps sum_squares_def)
  subgoal by (cases x5; simp add: lower_op_def [abs_def]; rule commutes_on; simp add: lower_commute_simps)
  subgoal by (cases x6; simp add: lower_op_def [abs_def]; rule commutes_on; simp add: lower_commute_simps put_vec_lanes)
  done

section \<open>Loads and stores\<close>


lemma read_vec: "own_store i p \<Longrightarrow> vu_read p k (on_vu i (put_vec r v) S) = vu_read p k S"
  by (cases i; cases p) (auto simp: vu_read_def own_store_def vu_sel[symmetric] Let_def)

lemma write_vec: "own_store i p \<Longrightarrow> commutes i r v (vu_write p k w) S"
  by (cases i; cases p)
    (auto simp: vu_write_def own_store_def Let_def commutes_def on_vu_def put_vec_push vu_at_def put_vu_def)

lemma commutes_comp: "commutes i r v f S \<Longrightarrow> commutes i r v g (f S) \<Longrightarrow> commutes i r v (\<lambda>S. g (f S)) S"
  by (simp add: commutes_def)

lemma commutes_fold:
  assumes "\<And>k S. Q S \<Longrightarrow> commutes i r v (f k) S \<and> Q (f k S)" "Q S"
  shows "commutes i r v (fold f ks) S"
  using assms(2)
proof (induction ks arbitrary: S)
  case (Cons k ks)
  with assms(1) [of S k] show ?case
    by (simp add: commutes_def)
qed (simp add: commutes_def)

lemma load_commutes:
  assumes "own_store i p" "r \<noteq> rFt (vu_at i S)"
  shows "commutes i r v (load_lanes i p) S"
  unfolding load_lanes_def [abs_def]
proof (rule commutes_fold [where Q = "\<lambda>S. r \<noteq> rFt (vu_at i S)"])
  fix k and S :: "'a vuState"
  assume "r \<noteq> rFt (vu_at i S)"
  with assms(1) show "commutes i r v (load_lane i p k) S \<and> r \<noteq> rFt (vu_at i (load_lane i p k S))"
    using commutes_on [of "put_Ft k (vu_read p k S)" r v i S]
    by (simp add: commutes_def load_lane_def read_vec put_vec_Ft)
qed (rule assms(2))

lemma save_commutes:
  assumes "own_store i p" "r \<noteq> rFs (vu_at i S)"
  shows "commutes i r v (save_lanes i p) S"
  unfolding save_lanes_def [abs_def]
proof (rule commutes_fold [where Q = "\<lambda>S. r \<noteq> rFs (vu_at i S)"])
  fix k and S :: "'a vuState"
  assume "r \<noteq> rFs (vu_at i S)"
  with assms(1) show "commutes i r v (save_lane i p k) S \<and> r \<noteq> rFs (vu_at i (save_lane i p k S))"
    using write_vec [OF assms(1), of r v k _ S]
    by (simp add: commutes_def save_lane_def Let_def vcode_write)
qed (rule assms(2))

lemma int_commutes:
  assumes "own_store i p"
  shows "commutes i r v (load_int_lanes i p) S" "commutes i r v (save_int_lanes i p) S"
proof -
  have "commutes i r v (load_int_lane i p k) S" for k and S :: "'a vuState"
    using commutes_on [of "set_VI16 (rIt (vu_at i S)) (US0 (vu_read p k S))" r v i S] assms
    by (simp add: commutes_def load_int_lane_def Let_def read_vec put_vec_push)
  then show "commutes i r v (load_int_lanes i p) S"
    unfolding load_int_lanes_def [abs_def] by (intro commutes_fold [where Q = "\<lambda>_. True"]) auto
  have "commutes i r v (save_int_lane i p k) S" for k and S :: "'a vuState"
    using write_vec [OF assms, of r v k _ S]
    by (simp add: commutes_def save_int_lane_def Let_def)
  then show "commutes i r v (save_int_lanes i p) S"
    unfolding save_int_lanes_def [abs_def] by (intro commutes_fold [where Q = "\<lambda>_. True"]) auto
qed

lemmas lanes_vec =
  load_commutes [unfolded commutes_def] save_commutes [unfolded commutes_def] int_commutes [unfolded commutes_def]

lemma on_vec:
  "on_vu i (VI_dec n) (on_vu i (put_vec r v) S) = on_vu i (put_vec r v) (on_vu i (VI_dec n) S)"
  "on_vu i (VI_inc n) (on_vu i (put_vec r v) S) = on_vu i (put_vec r v) (on_vu i (VI_inc n) S)"
  "on_vu i (vi_backup n m) (on_vu i (put_vec r v) S) = on_vu i (put_vec r v) (on_vu i (vi_backup n m) S)"
  "on_vu i (set_VI16 n w) (on_vu i (put_vec r v) S) = on_vu i (put_vec r v) (on_vu i (set_VI16 n w) S)"
  by (rule commutes_on [unfolded commutes_def]; simp add: VI_dec_def VI_inc_def put_vec_push)+

lemma VI_step_code [simp]: "vcode (VI_dec n VU) = vcode VU" "vcode (VI_inc n VU) = vcode VU"
  by (simp_all add: VI_dec_def VI_inc_def)

lemma mem_commute:
  assumes "r \<noteq> 0" "unreported r (regs_lower (LMem x) (vu_at i S) j)"
  shows "commutes i r v (lower_op env i (LMem x)) S"
  using assms
  by (cases x)
    (simp_all add: lower_op_def commutes_def unreported_def lower_report_defs mem_defs Let_def put_vec_push
      lanes_vec on_vec)

text \<open>XGKICK empties the pipes.\<close>

lemma put_vec_retire:
  "fmac_flush n (put_vec r v VU) = put_vec r v (fmac_flush n VU)"
  "vuFDIVflush (put_vec r v VU) = put_vec r v (vuFDIVflush VU)"
  "vuEFUflush (put_vec r v VU) = put_vec r v (vuEFUflush VU)"
  by (simp_all add: put_vec_def fmac_flush_def fmac_due_def fmac_retire_def vuFDIVflush_def fdiv_due_def
      fdiv_retire_def vuEFUflush_def efu_due_def efu_retire_def)

lemma put_vec_round: "flush_round (put_vec r v VU) = put_vec r v (flush_round VU)"
proof -
  have "fold fmac_flush ks (put_vec r v X) = put_vec r v (fold fmac_flush ks X)" for ks X
    by (induction ks arbitrary: X) (simp_all add: put_vec_retire)
  then have "vuTestPipes (put_vec r v VU) = put_vec r v (vuTestPipes VU)"
    by (simp only: vuTestPipes_def vuFMACflush_def put_vec_retire)
  then show ?thesis
    by (simp add: flush_round_def Let_def) (simp add: put_vec_def)
qed

lemma put_vec_flush: "vuFlushAll (put_vec r v VU) = put_vec r v (vuFlushAll VU)"
proof (induction VU rule: vuFlushAll.induct)
  case (1 VU)
  have "pipes_busy (put_vec r v VU) = pipes_busy VU"
    by (simp add: pipes_busy_def put_vec_def)
  with 1 show ?case
    by (subst (1 2) vuFlushAll.simps) (simp add: put_vec_round)
qed

lemma on_vu_ext: "vuExt (on_vu i f S) = vuExt S" "GetVifRegs j (on_vu i f S) = GetVifRegs j S"
  by (cases i; cases j; simp add: on_vu_def put_vu_def GetVifRegs_def)+

lemma vif_commute: "commutes i r v (lower_op env i (LVif x)) S"
proof (cases x)
  case L_XGKICK
  have "on_vu i vuFlushAll (on_vu i (put_vec r v) S) = on_vu i (put_vec r v) (on_vu i vuFlushAll S)"
    by (rule commutes_on [unfolded commutes_def]) (rule put_vec_flush)
  moreover have "on_vu i (put_vec r v) T\<lparr>vuExt := e\<rparr> = on_vu i (put_vec r v) (T\<lparr>vuExt := e\<rparr>)" for T :: "'a vuState" and e
    by (cases i) (simp_all add: on_vu_def vu_at_def put_vu_def)
  moreover have "vuExt (on_vu i (put_vec r v) T) = vuExt T" for T :: "'a vuState"
    by (cases i) (simp_all add: on_vu_def put_vu_def)
  ultimately show ?thesis
    using L_XGKICK by (simp add: commutes_def lower_op_def vuXGKICK_def Let_def)
next
  case L_XTOP
  then show ?thesis
    by (cases i) (simp_all add: commutes_def lower_op_def vuXTOP_def Let_def on_vec on_vu_ext)
next
  case L_XITOP
  then show ?thesis
    by (cases i) (simp_all add: commutes_def lower_op_def vuXITOP_def Let_def on_vec on_vu_ext)
qed

lemma lower_commute:
  assumes "r \<noteq> 0" "unreported r (regs_lower op (vu_at i S) j)"
  shows "commutes i r v (lower_op env i op) S"
proof (cases op)
  case (LMem x)
  with assms show ?thesis by (simp add: mem_commute)
next
  case (LVif x)
  then show ?thesis by (simp add: vif_commute)
qed (use assms in \<open>auto intro: pure_commute\<close>, auto simp: lower_op_def [abs_def] commutes_id)

section \<open>Both halves\<close>

lemma regs_code:
  "vcode VU = vcode X \<Longrightarrow> regs_upper op VU j = regs_upper op X j"
  "vcode VU = vcode X \<Longrightarrow> regs_lower op' VU j = regs_lower op' X j"
proof -
  assume c: "vcode VU = vcode X"
  show "regs_upper op VU j = regs_upper op X j"
    unfolding regs_upper_def
    by (cases op) (simp_all add: c regs_upper_defs VUREGS_defs split: vu_bc.split)
  show "regs_lower op' VU j = regs_lower op' X j"
    by (cases op')
      (simp_all add: c lower_report_defs split: vu_int.split vu_mem.split vu_flag.split vu_branch.split vu_efu.split
        vu_div.split vu_move.split vu_vif.split)
qed

lemma set_vcode_commute: "set_vcode c (put_vec r v VU) = put_vec r v (set_vcode c VU)"
  by (simp add: set_vcode_def put_vec_def)

lemma MI_lower_commute:
  assumes "r \<noteq> 0" "unreported r (regs_lower op (vu_at i S) j)"
  shows "commutes i r v (MI_lower env i op) S"
  using lower_commute [OF assms, of v env]
  by (cases i)
    (auto simp: MI_lower_def VU0MI_lower_def VU1MI_lower_def commutes_def split: vu_lower.split vu_vif.split)

lemma ExecLower_commute:
  assumes "r \<noteq> 0" "unreported r (regs_lower (decode_lower c) VU j)" "vcode VU = c"
  shows "commutes i r v (ExecLower env i c) S"
proof -
  let ?T = "on_vu i (set_vcode c) S"
  have "vcode (vu_at i ?T) = vcode VU"
    using assms(3) by (simp add: set_vcode_def)
  then have "unreported r (regs_lower (decode_lower c) (vu_at i ?T) j)"
    using assms(2) regs_code(2) by metis
  from MI_lower_commute [OF assms(1) this, of v env]
    commutes_on [of "set_vcode c" r v i S, OF set_vcode_commute]
  show ?thesis
    by (simp add: commutes_def ExecLower_def)
qed

lemma on_vu_same: "f (vu_at i S) = vu_at i S \<Longrightarrow> on_vu i f S = S"
  by (cases i) (simp_all add: on_vu_def vu_at_def put_vu_def)

lemma field_ne: "vIs c \<noteq> 18" "vIt c \<noteq> 18" "vId c \<noteq> 18" "18 \<noteq> vIs c" "18 \<noteq> vIt c" "18 \<noteq> vId c"
  using field_less [of c] by auto

lemma US_keeps: "n \<noteq> m \<Longrightarrow> VI (set_VI16 n w VU) m = VI VU m"
  by (simp add: set_VI16_def set_VI_def)

lemma clip_kept:
  assumes "bit (VIread (regs_lower op (vu_at i S) j)) REG_CLIP_FLAG"
  shows "VI (vu_at i (lower_op env i op S)) REG_CLIP_FLAG = VI (vu_at i S) REG_CLIP_FLAG"
proof (cases op)
  case (LFlag x)
  with assms show ?thesis
    by (cases x)
      (simp_all add: lower_op_def lower_report_defs vbit_def GET_VF0_FLAG_def bit_simps field_ne vuFCAND_def
        vuFCEQ_def vuFCOR_def vuFCGET_def US_keeps)
qed (use assms in \<open>auto simp: lower_op_def lower_report_defs vbit_def GET_VF0_FLAG_def bit_simps field_ne
      split: vu_int.splits vu_mem.splits vu_branch.splits vu_efu.splits vu_div.splits vu_move.splits vu_vif.splits if_splits\<close>)

lemma ExecUpper_frame:
  assumes "u = regs_upper (decode_upper c) VU j" "vcode VU = c"
  shows "r \<noteq> VFwrite u \<or> r = 0 \<Longrightarrow> VF (vu_at i (ExecUpper env i c S)) r = VF (vu_at i S) r"
    "VI (vu_at i (ExecUpper env i c S)) = VI (vu_at i S)"
proof -
  let ?X = "set_vcode c (vu_at i S)"
  have e: "vu_at i (ExecUpper env i c S) = upper_op env (decode_upper c) ?X"
    by (cases i) (simp_all add: ExecUpper_def MI_upper_def VU0MI_upper_def VU1MI_upper_def)
  have "u = regs_upper (decode_upper c) ?X j"
    using regs_code(1) [of VU ?X] assms by (simp add: set_vcode_def)
  then have f: "upper_frame (VFwrite u) ?X (vu_at i (ExecUpper env i c S))"
    using upper_op_frame e by simp
  then show "VF (vu_at i (ExecUpper env i c S)) r = VF (vu_at i S) r" if "r \<noteq> VFwrite u \<or> r = 0"
    using that by (simp add: upper_frame_def set_vcode_def)
  show "VI (vu_at i (ExecUpper env i c S)) = VI (vu_at i S)"
    using f same_restD(2) by (auto simp: upper_frame_def set_vcode_def)
qed

lemma ExecLower_clip:
  assumes "bit (VIread (regs_lower (decode_lower c) VU j)) REG_CLIP_FLAG" "vcode VU = c"
  shows "VI (vu_at i (ExecLower env i c S)) REG_CLIP_FLAG = VI (vu_at i S) REG_CLIP_FLAG"
proof -
  let ?T = "on_vu i (set_vcode c) S"
  have "regs_lower (decode_lower c) (vu_at i ?T) j = regs_lower (decode_lower c) VU j"
    using assms(2) by (intro regs_code(2)) (simp add: set_vcode_def)
  then have "VI (vu_at i (lower_op env i (decode_lower c) ?T)) REG_CLIP_FLAG = VI (vu_at i ?T) REG_CLIP_FLAG"
    using assms(1) by (intro clip_kept [where j = j]) simp
  moreover have "VI (vu_at i ?T) = VI (vu_at i S)"
    by (simp add: set_vcode_def)
  ultimately show ?thesis
    by (cases i)
      (auto simp: ExecLower_def MI_lower_def VU0MI_lower_def VU1MI_lower_def split: vu_lower.split vu_vif.split)
qed

lemma put_vec_twice: "on_vu i (put_vec r v) (on_vu i (put_vec r w) S) = on_vu i (put_vec r v) S"
  by (cases i) (simp_all add: on_vu_def vu_at_def put_vu_def put_vec_def)

lemma exec_both_parallel:
  assumes u: "u = regs_upper (decode_upper p1) VU ju" "vcode VU = p1"
    and l: "l = regs_lower (decode_lower p0) X jl" "vcode X = p0"
    and d: "\<not> discards u l"
  shows "exec_both env i p0 p1 u l S =
    (let U = ExecUpper env i p1 S; w = VFwrite u;
         T = ExecLower env i p0 (on_vu i (\<lambda>V. V\<lparr>VF := VF (vu_at i S)\<rparr>) U)
     in if w = 0 then T else on_vu i (put_vec w (VF (vu_at i U) w)) T)"
proof -
  let ?U = "ExecUpper env i p1 S" and ?w = "VFwrite u"
  let ?old = "on_vu i (put_vec ?w (VF (vu_at i S) ?w))" and ?new = "on_vu i (put_vec ?w (VF (vu_at i ?U) ?w))"
  have old: "on_vu i (\<lambda>V. V\<lparr>VF := VF (vu_at i S)\<rparr>) ?U = ?old ?U"
  proof -
    have "VF (vu_at i S) = (VF (vu_at i ?U))(?w := VF (vu_at i S) ?w)"
    proof
      fix r show "VF (vu_at i S) r = ((VF (vu_at i ?U))(?w := VF (vu_at i S) ?w)) r"
        using ExecUpper_frame(1) [OF u, of r i env S] by (cases "r = ?w") simp_all
    qed
    then show ?thesis
      by (simp add: on_vu_def put_vec_def)
  qed
  have vi: "VI (vu_at i ?U) = VI (vu_at i S)"
    by (rule ExecUpper_frame(2) [OF u])
  have clip: "saved_VI u l \<noteq> 0 \<Longrightarrow> VI (vu_at i (ExecLower env i p0 T)) REG_CLIP_FLAG = VI (vu_at i T) REG_CLIP_FLAG" for T
    using ExecLower_clip [of p0 X jl i env T] l by (auto simp: saved_VI_def split: if_splits)
  have both: "exec_both env i p0 p1 u l S =
    (let T = ExecLower env i p0 (if saved_VF u l \<noteq> 0 then ?old ?U else ?U)
     in if saved_VF u l \<noteq> 0 then ?new T else T)"
  proof -
    have w: "saved_VF u l \<noteq> 0 \<Longrightarrow> saved_VF u l = ?w" "saved_VI u l = 0 \<or> saved_VI u l = REG_CLIP_FLAG"
      by (auto simp: saved_VF_def saved_VI_def split: if_splits)
    have same: "VI (vu_at i Y) REG_CLIP_FLAG = x \<Longrightarrow> on_vu i (set_VI REG_CLIP_FLAG x) Y = Y" for x Y
      by (rule on_vu_same) (simp add: set_VI_def fun_upd_idem)
    show ?thesis
      using w by (cases "saved_VF u l = 0"; cases "saved_VI u l = 0")
        (simp_all add: exec_both_def d Let_def same clip vi)
  qed
  show ?thesis
  proof (cases "saved_VF u l = 0")
    case True
    show ?thesis
    proof (cases "?w = 0")
      case True
      have "?old ?U = ?U"
        using ExecUpper_frame(1) [OF u, of 0 i env S] True
        by (intro on_vu_same) (simp add: put_vec_def fun_upd_idem)
      then show ?thesis
        unfolding both old using True \<open>saved_VF u l = 0\<close> by (simp add: Let_def old)
    next
      case False
      with True d have "unreported ?w l"
        by (auto simp: saved_VF_def discards_def unreported_def split: if_splits)
      then have c: "commutes i ?w v (ExecLower env i p0) T" for v T
        using ExecLower_commute [of ?w p0 X jl] False l by simp
      have "?new ?U = ?U"
        by (rule on_vu_same) (simp add: put_vec_def)
      then have "?new (ExecLower env i p0 (?old ?U)) = ExecLower env i p0 ?U"
        using c [unfolded commutes_def] put_vec_twice by metis
      then show ?thesis
        unfolding both old using True False by (simp add: Let_def old)
    qed
  next
    case False
    then have "?w \<noteq> 0"
      by (auto simp: saved_VF_def split: if_splits)
    with False show ?thesis
      unfolding both old by (simp add: Let_def old)
  qed
qed

end
