(* ===== verification/VuEnd.thy ===== *)
theory VuEnd
  imports VuPair
begin

text \<open>
  The end of a microprogram: the E bit counts down over its own step and the next, then the pipes are emptied
  and \<open>VPU_STAT\<close> tells the EE that the unit is idle.
\<close>

section \<open>What instructions leave alone\<close>

interpretation eb: vu_inv_flush "\<lambda>VU. ebit VU = n" True for n
  by unfold_locales
    (auto simp: put_vec_def set_VI_def set_ACC_def set_macflag_def set_q_def set_p_def vi_backup_def
      setBranch_def set_Mem_def set_vcode_def)

text \<open>VU1 does not reach VU0's registers.\<close>

lemma other_write: "own_store VU1 p \<Longrightarrow> vu0 (vu_write p k v S) = vu0 S"
  by (auto simp: own_store_def vu_write_def on_vu_def put_vu_def split: vuLoc.splits)

lemma other_on: "vu0 (on_vu VU1 f S) = vu0 S"
  by (simp add: on_vu_def put_vu_def)

lemma other_fold: "(\<And>k S. vu0 (f k S) = vu0 S) \<Longrightarrow> vu0 (fold f ks S) = vu0 S"
  by (induction ks arbitrary: S) simp_all

lemma other_lanes:
  "vu0 (load_lanes VU1 p S) = vu0 S" "vu0 (load_int_lanes VU1 p S) = vu0 S"
  "own_store VU1 p \<Longrightarrow> vu0 (save_lanes VU1 p S) = vu0 S"
  "own_store VU1 p \<Longrightarrow> vu0 (save_int_lanes VU1 p S) = vu0 S"
  unfolding load_lanes_def load_int_lanes_def save_lanes_def save_int_lanes_def
  by (rule other_fold; simp add: load_lane_def load_int_lane_def save_lane_def save_int_lane_def Let_def other_on other_write)+

lemma other_lower: "vu0 (lower_op env VU1 op S) = vu0 S"
proof (cases op)
  case (LMem x)
  then show ?thesis
    by (cases x) (simp_all add: lower_op_def mem_defs Let_def other_lanes other_on)
next
  case (LVif x)
  then show ?thesis
    by (cases x) (simp_all add: lower_op_def vuXITOP_def vuXTOP_def vuXGKICK_def Let_def other_on)
qed (simp_all add: lower_op_def other_on
    split: vu_int.split vu_flag.split vu_branch.split vu_efu.split vu_div.split vu_move.split)

lemma other_exec: "vu0 (ExecUpper env VU1 c S) = vu0 S" "vu0 (ExecLower env VU1 c S) = vu0 S"
  by (simp_all add: ExecUpper_def MI_upper_def VU1MI_upper_def ExecLower_def MI_lower_def VU1MI_lower_def other_on
      other_lower)

lemma other_pair: "vu0 (fst (exec_pair env VU1 p0 p1 ju jl S)) = vu0 S"
  by (simp add: exec_pair_def exec_both_def Let_def other_on other_exec)

section \<open>A step near the end\<close>

lemma ebit_keeps [simp]:
  "ebit (vuAddUpperStalls r VU) = ebit VU" "ebit (vuAddLowerStalls r VU) = ebit VU"
  "ebit (vuTestPipes VU) = ebit VU" "ebit (vu_at i (fst (exec_pair env i p0 p1 ju jl S))) = ebit (vu_at i S)"
  "ebit (vuFlushAll VU) = ebit VU"
  using eb.exec_pair [of i S "ebit (vu_at i S)" p0 env p1 ju jl]
  by (simp_all add: eb.add_stalls eb.test_pipes eb.flushed)

lemma ebit_ticks [simp]:
  "ebit (advance_TPC VU) = ebit VU" "ebit (vi_backup_tick VU) = ebit VU" "ebit (branch_tick VU) = ebit VU"
  "ebit (mask_TPC m VU) = ebit VU" "ebit (next_cycle VU) = ebit VU" "ebit (set_ebit n VU) = n"
  "ebit (flush_at_end VU) = ebit VU"
  by (simp_all add: advance_TPC_def vi_backup_tick_def branch_tick_def mask_TPC_def next_cycle_def set_ebit_def
      set_VI_def Let_def flush_at_end_def)

definition no_stop :: "u32 \<Rightarrow> bool" where
  "no_stop p1 \<longleftrightarrow> p1 AND 0x10000000 = 0 \<and> p1 AND 0x08000000 = 0"

lemma no_stop_bit: "no_stop p1 \<Longrightarrow> stop_bit env i p1 0x10000000 f st S = S"
  "no_stop p1 \<Longrightarrow> stop_bit env i p1 0x08000000 f st S = S"
  by (simp_all add: no_stop_def stop_bit_def)

text \<open>The step up to the count of the E bit.\<close>

definition vu1_body :: "'e vu_env \<Rightarrow> VURegsNum \<Rightarrow> VURegsNum \<Rightarrow> 'e vuState \<Rightarrow> 'e vuState" where
  "vu1_body env ju jl S =
     (let p0 = fetch_lower (vu1 S); p1 = fetch_upper (vu1 S); S = on_vu VU1 advance_TPC S;
          S = (if p1 AND 0x40000000 \<noteq> 0 then on_vu VU1 (set_ebit 2) S else S);
          (S, u, l) = exec_pair env VU1 p0 p1 ju jl S
      in on_vu VU1 (\<lambda>VU. branch_tick (vi_backup_tick (vuTestPipes (vuAddLowerStalls l (vuAddUpperStalls u VU))))) S)"

lemma on_vu_twice: "on_vu i f (on_vu i g S) = on_vu i (\<lambda>VU. f (g VU)) S"
  by (cases i) (simp_all add: on_vu_def put_vu_def vu_at_def)

lemma body_frame:
  "vu0 (vu1_body env ju jl S) = vu0 S"
  "ebit (vu1 (vu1_body env ju jl S)) = (if fetch_upper (vu1 S) AND 0x40000000 \<noteq> 0 then 2 else ebit (vu1 S))"
  using other_pair [of env "fetch_lower (vu1 S)" "fetch_upper (vu1 S)" ju jl]
    ebit_keeps(4) [of VU1 env "fetch_lower (vu1 S)" "fetch_upper (vu1 S)" ju jl]
  by (simp_all add: vu1_body_def Let_def case_prod_unfold other_on vu_sel vu1_put)

lemma exec_body:
  assumes "no_stop (fetch_upper (vu1 S))"
  shows "vu1Exec1 env ju jl S =
    (let S = vu1_body env ju jl S
     in if 0 < ebit (vu1 S)
        then let n = ebit (vu1 S); S = on_vu VU1 (set_ebit (n - 1)) S
             in if n = 1
                then let S = clear_VPU_STAT 0x100 (on_vu VU1 flush_at_end S)
                     in S\<lparr>vif1Regs := (vif1Regs S)\<lparr>VEW := False\<rparr>\<rparr>
                else S
        else S)"
  using assms
  by (simp add: vu1Exec1_def vu1_body_def Let_def case_prod_unfold no_stop_bit on_vu_twice)

definition next_upper :: "'e vuState \<Rightarrow> u32" where
  "next_upper S = fetch_upper (mask_TPC 0x3fff (vu1 S))"

lemma step_first:
  assumes "no_stop (next_upper S)" "next_upper S AND 0x40000000 \<noteq> 0"
  shows "ebit (vu1 (InterpVU1_Step env junk S)) = 1" "vu0 (InterpVU1_Step env junk S) = vu0 S"
proof -
  let ?M = "on_vu VU1 (mask_TPC 0x3fff) S"
  have "no_stop (fetch_upper (vu1 ?M))" "fetch_upper (vu1 ?M) AND 0x40000000 \<noteq> 0"
    using assms by (simp_all add: next_upper_def vu1_put)
  from exec_body [OF this(1), of env "fst (junk ?M)" "snd (junk ?M)"] this(2)
  show "ebit (vu1 (InterpVU1_Step env junk S)) = 1" "vu0 (InterpVU1_Step env junk S) = vu0 S"
    by (simp_all add: InterpVU1_Step_def vu1Exec_def Let_def vu1_put body_frame other_on)
qed

lemma VEW_off: "vu0 (S\<lparr>vif1Regs := x\<rparr>) = vu0 S" "vif1Regs (on_vu i f S) = vif1Regs S"
  by (cases i; simp add: on_vu_def put_vu_def)+

lemma step_second:
  assumes "no_stop (next_upper S)" "next_upper S AND 0x40000000 = 0" "ebit (vu1 S) = 1"
  shows "ebit (vu1 (InterpVU1_Step env junk S)) = 0"
    "VI (vu0 (InterpVU1_Step env junk S)) REG_VPU_STAT AND 0x100 = 0"
    "\<not> pipes_busy (vu1 (InterpVU1_Step env junk S))" "\<not> VEW (vif1Regs (InterpVU1_Step env junk S))"
proof -
  let ?M = "on_vu VU1 (mask_TPC 0x3fff) S"
  have "no_stop (fetch_upper (vu1 ?M))" "fetch_upper (vu1 ?M) AND 0x40000000 = 0" "ebit (vu1 ?M) = 1"
    using assms by (simp_all add: next_upper_def vu1_put)
  note e = exec_body [OF this(1), of env "fst (junk ?M)" "snd (junk ?M)"] assms(2) [unfolded next_upper_def] assms(3)
  have busy: "\<not> pipes_busy (next_cycle (flush_at_end VU))" for VU
    using flush_all_done [of "VU\<lparr>VIBackupCycles := 0\<rparr>"] by (simp add: flush_at_end_def next_cycle_def pipes_busy_def)
  have stat: "vu1 (clear_VPU_STAT m X) = vu1 X" "VI (vu0 (clear_VPU_STAT m X)) REG_VPU_STAT = VI (vu0 X) REG_VPU_STAT AND NOT m"
    "vif1Regs (clear_VPU_STAT m X) = vif1Regs X" for m and X :: "'a vuState"
    by (simp_all add: clear_VPU_STAT_def on_vu_def put_vu_def vu_at_def set_VI_def)
  show "ebit (vu1 (InterpVU1_Step env junk S)) = 0"
    "VI (vu0 (InterpVU1_Step env junk S)) REG_VPU_STAT AND 0x100 = 0"
    "\<not> pipes_busy (vu1 (InterpVU1_Step env junk S))" "\<not> VEW (vif1Regs (InterpVU1_Step env junk S))"
    by (simp_all add: InterpVU1_Step_def vu1Exec_def Let_def vu1_put e body_frame other_on VEW_off stat busy and.assoc)
qed

lemma run_end:
  assumes "VI (vu0 S) REG_VPU_STAT AND 0x100 \<noteq> 0"
    "no_stop (next_upper S)" "next_upper S AND 0x40000000 \<noteq> 0"
    "no_stop (next_upper (InterpVU1_Step env junk S))" "next_upper (InterpVU1_Step env junk S) AND 0x40000000 = 0"
  shows "run_VU1 env junk (Suc (Suc (Suc n))) S =
    (let R = InterpVU1_Step env junk (InterpVU1_Step env junk S)
     in if vbranch (vu1 R) \<noteq> 0 then InterpVU1_Step env junk R else R)"
  using assms step_first [OF assms(2,3), of env junk]
    step_second [OF assms(4,5), of env junk]
  by (simp add: Let_def)

section \<open>The pair that follows\<close>


text \<open>Without a pending branch, the next pair is the one that follows in the program.\<close>

interpretation sq: vu_inv_flush "\<lambda>VU. VI VU REG_TPC = t \<and> vMicro VU = m \<and> vbranch VU \<noteq> 1" True for t m
  by unfold_locales
    (auto simp: put_vec_def set_VI_def set_ACC_def set_macflag_def set_q_def set_p_def vi_backup_def
      setBranch_def set_Mem_def set_vcode_def)

lemma body_next:
  assumes "vbranch (vu1 S) \<noteq> 1"
  shows "VI (vu1 (vu1_body env ju jl S)) REG_TPC = VI (vu1 S) REG_TPC + 8"
    "vMicro (vu1 (vu1_body env ju jl S)) = vMicro (vu1 S)"
proof -
  let ?P = "\<lambda>VU. VI VU REG_TPC = VI (vu1 S) REG_TPC + 8 \<and> vMicro VU = vMicro (vu1 S) \<and> vbranch VU \<noteq> 1"
  let ?p0 = "fetch_lower (vu1 S)" and ?p1 = "fetch_upper (vu1 S)"
  let ?A = "on_vu VU1 advance_TPC S"
  let ?B = "if ?p1 AND 0x40000000 \<noteq> 0 then on_vu VU1 (set_ebit 2) ?A else ?A"
  obtain T u l where T: "exec_pair env VU1 ?p0 ?p1 ju jl ?B = (T, u, l)"
    by (metis prod_cases3)
  have "?P (vu_at VU1 ?B)"
    using assms by (simp add: vu_sel vu1_put advance_TPC_def set_ebit_def set_VI_def)
  then have "?P (vu_at VU1 T)"
    using sq.exec_pair [of VU1 ?B "VI (vu1 S) REG_TPC + 8" "vMicro (vu1 S)" ?p0 env ?p1 ju jl] T by simp
  then have "?P (vuTestPipes (vuAddLowerStalls l (vuAddUpperStalls u (vu1 T))))"
    unfolding vu_sel by (intro sq.test_pipes sq.add_stalls)
  moreover have "vu1 (vu1_body env ju jl S) =
      branch_tick (vi_backup_tick (vuTestPipes (vuAddLowerStalls l (vuAddUpperStalls u (vu1 T)))))"
    by (simp add: vu1_body_def Let_def T vu1_put)
  ultimately show "VI (vu1 (vu1_body env ju jl S)) REG_TPC = VI (vu1 S) REG_TPC + 8"
    "vMicro (vu1 (vu1_body env ju jl S)) = vMicro (vu1 S)"
    by (simp_all add: branch_tick_def vi_backup_tick_def Let_def)
qed

lemma next_pair:
  assumes "no_stop (next_upper S)" "next_upper S AND 0x40000000 \<noteq> 0" "vbranch (vu1 S) \<noteq> 1"
  shows "next_upper (InterpVU1_Step env junk S) =
    le_read 4 (vMicro (vu1 S)) ((((VI (vu1 S) REG_TPC AND 0x3fff) + 8) AND 0x3fff) + 4)"
proof -
  let ?M = "on_vu VU1 (mask_TPC 0x3fff) S"
  have M: "no_stop (fetch_upper (vu1 ?M))" "fetch_upper (vu1 ?M) AND 0x40000000 \<noteq> 0" "vbranch (vu1 ?M) \<noteq> 1"
    using assms by (simp_all add: next_upper_def vu1_put mask_TPC_def set_VI_def)
  have "vu1 (InterpVU1_Step env junk S) =
    next_cycle (set_ebit 1 (vu1 (vu1_body env (fst (junk ?M)) (snd (junk ?M)) ?M)))"
    using M exec_body [OF M(1), of env "fst (junk ?M)" "snd (junk ?M)"]
    by (simp add: InterpVU1_Step_def vu1Exec_def Let_def vu1_put body_frame)
  then show ?thesis
    using body_next [OF M(3), of env "fst (junk ?M)" "snd (junk ?M)"]
    by (simp add: next_upper_def fetch_upper_def next_cycle_def set_ebit_def mask_TPC_def set_VI_def vu1_put)
qed

text \<open>The upper word of the pair that is \<open>n\<close> bytes after the next one in the program of VU1.\<close>

definition program_upper :: "'e vuState \<Rightarrow> u32 \<Rightarrow> u32" where
  "program_upper S n = le_read 4 (vMicro (vu1 S)) ((((VI (vu1 S) REG_TPC AND 0x3fff) + n) AND 0x3fff) + 4)"

lemma program_upper_next: "program_upper S 0 = next_upper S"
  by (simp add: program_upper_def next_upper_def fetch_upper_def mask_TPC_def set_VI_def and.assoc)

end
