(* ===== verification/VuFmac.thy ===== *)
theory VuFmac
  imports VuPair
begin

text \<open>
  The arithmetic of the FMACs by lane. The code writes the four lanes one after the other into registers that
  may be sources and collects flags in one word; the result is the operation on the old values in every lane,
  clamped to the unit's number range, with four flags for each lane (\<open>fmac_flags\<close>).
\<close>

section \<open>One lane\<close>

definition is_over :: "'a host_vu_scheme \<Rightarrow> u32 \<Rightarrow> bool" where
  "is_over h v \<longleftrightarrow> \<not> h_eq h v 0 \<and> drop_bit 23 v AND 0xff = 255"

definition is_under :: "'a host_vu_scheme \<Rightarrow> u32 \<Rightarrow> bool" where
  "is_under h v \<longleftrightarrow> \<not> h_eq h v 0 \<and> drop_bit 23 v AND 0xff = 0"

definition mac_value :: "'a host_vu_scheme \<Rightarrow> u32 \<Rightarrow> u32" where
  "mac_value h v =
     (if is_under h v then v AND 0x80000000 else if is_over h v then (v AND 0x80000000) OR 0x7f7fffff else v)"

text \<open>Zero, sign, underflow and overflow flag of lane \<open>k\<close>.\<close>

definition fmac_flags :: "u32 \<Rightarrow> nat \<Rightarrow> bool \<times> bool \<times> bool \<times> bool" where
  "fmac_flags m k = (bit m (3 - k), bit m (7 - k), bit m (11 - k), bit m (15 - k))"

text \<open>The flags that a result \<open>v\<close> sets. An overflow leaves the zero flag \<open>z\<close> as it was.\<close>

definition mac_flags :: "'a host_vu_scheme \<Rightarrow> bool \<Rightarrow> u32 \<Rightarrow> bool \<times> bool \<times> bool \<times> bool" where
  "mac_flags h z v =
     (if is_over h v then z else h_eq h v 0 \<or> is_under h v, bit v 31, is_under h v, is_over h v)"

lemma lt4: "k < 4 \<Longrightarrow> k = 0 \<or> k = 1 \<or> k = 2 \<or> k = (3 :: nat)"
  by arith

lemma sign_bit: "v AND 0x80000000 = 0 \<longleftrightarrow> \<not> bit (v :: u32) 31"
  using and_exp_eq_0_iff_not_bit [of v 31] by simp

lemma mac_update_value: "fst (VU_MACk_UPDATE h k X v) = mac_value h v"
  by (simp add: VU_MACk_UPDATE_def VU_MAC_UPDATE_def mac_value_def is_under_def is_over_def Let_def)

lemma mac_update_rest: "snd (VU_MACk_UPDATE h k X v) = set_macflag (macflag (snd (VU_MACk_UPDATE h k X v))) X"
  by (simp add: VU_MACk_UPDATE_def VU_MAC_UPDATE_def Let_def set_macflag_def)

lemma mac_update_flags:
  assumes "k < 4" "j < 4"
  shows "fmac_flags (macflag (snd (VU_MACk_UPDATE h k X v))) j =
    (if j = k then mac_flags h (fst (fmac_flags (macflag X) k)) v else fmac_flags (macflag X) j)"
  using lt4 [OF assms(1)] lt4 [OF assms(2)]
  by (elim disjE)
    (simp_all add: VU_MACk_UPDATE_def VU_MAC_UPDATE_def mac_flags_def fmac_flags_def is_under_def is_over_def
      Let_def set_macflag_def sign_bit bit_simps)

lemma mac_clear_flags:
  assumes "k < 4" "j < 4"
  shows "fmac_flags (macflag (VU_MACk_CLEAR k X)) j =
    (if j = k then (False, False, False, False) else fmac_flags (macflag X) j)"
  using lt4 [OF assms(1)] lt4 [OF assms(2)]
  by (elim disjE) (simp_all add: VU_MACk_CLEAR_def VU_MAC_CLEAR_def fmac_flags_def set_macflag_def bit_simps)

section \<open>The four lanes\<close>

text \<open>
  Two states with the same operands in lane \<open>k\<close>, and expressions that depend on these only. While results go
  to the accumulator (\<open>a\<close>) all lanes of the float registers stay the same.
\<close>

definition agree :: "bool \<Rightarrow> nat \<Rightarrow> VURegs \<Rightarrow> VURegs \<Rightarrow> bool" where
  "agree a k X VU \<longleftrightarrow>
     vcode X = vcode VU \<and> VI X = VI VU \<and> vACC X k = vACC VU k \<and>
     (if a then VF X = VF VU else \<forall>r. VF X r k = VF VU r k)"

definition lanewise :: "bool \<Rightarrow> (nat \<Rightarrow> VURegs \<Rightarrow> u32) \<Rightarrow> bool" where
  "lanewise a e \<longleftrightarrow> (\<forall>k X VU. agree a k X VU \<longrightarrow> e k X = e k VU)"

text \<open>
  A destination: storing lane \<open>k\<close> changes what \<open>get\<close> reads in that lane, unless the destination is float
  register 0 (\<open>live\<close>), and nothing else.
\<close>

definition destination :: "bool \<Rightarrow> (nat \<Rightarrow> u32 \<Rightarrow> VURegs \<Rightarrow> VURegs) \<Rightarrow> (VURegs \<Rightarrow> vec) \<Rightarrow> (VURegs \<Rightarrow> bool) \<Rightarrow> bool" where
  "destination a put get live \<longleftrightarrow>
     (\<forall>k v X. macflag (put k v X) = macflag X \<and> get (put k v X) = (if live X then (get X)(k := v) else get X) \<and>
       (\<forall>j. j \<noteq> k \<longrightarrow> agree a j (put k v X) X)) \<and>
     (\<forall>m X. get (set_macflag m X) = get X) \<and> (\<forall>X Y. vcode X = vcode Y \<longrightarrow> live X = live Y)"

lemma dest_Fd: "destination False put_Fd (\<lambda>X. VF X (rFd X)) (\<lambda>X. rFd X \<noteq> 0)"
  by (auto simp: destination_def put_Fd_def set_VF_def agree_def set_macflag_def)

lemma dest_ACC: "destination True set_ACC vACC (\<lambda>X. True)"
  by (auto simp: destination_def set_ACC_def agree_def set_macflag_def)

lemma agree_simps: "agree a k X X" "agree a k X Y \<Longrightarrow> agree a k Y Z \<Longrightarrow> agree a k X Z" "agree a k (set_macflag m X) X"
  by (auto simp: agree_def set_macflag_def)

lemma clear_rest: "VU_MACk_CLEAR k X = set_macflag (macflag (VU_MACk_CLEAR k X)) X"
  by (simp add: VU_MACk_CLEAR_def VU_MAC_CLEAR_def set_macflag_def)

lemma set_macflag_code: "vcode (set_macflag m X) = vcode X"
  by (simp add: set_macflag_def)

lemma mac_lane_effect:
  assumes d: "destination a put get live" and k: "k < 4"
  shows "j \<noteq> k \<Longrightarrow> agree a j (mac_lane h put e k X) X"
    "get (mac_lane h put e k X) =
      (if lane_on (vcode X) k \<and> live X then (get X)(k := mac_value h (e k X)) else get X)"
    "j < 4 \<Longrightarrow> fmac_flags (macflag (mac_lane h put e k X)) j =
      (if j \<noteq> k then fmac_flags (macflag X) j
       else if lane_on (vcode X) k then mac_flags h (fst (fmac_flags (macflag X) k)) (e k X)
       else (False, False, False, False))"
proof -
  note D = d [unfolded destination_def]
  have dm: "macflag (put k v X) = macflag X" for k v X
    using D by blast
  have dg: "get (put k v X) = (if live X then (get X)(k := v) else get X)" for k v X
    using D by blast
  have ds: "get (set_macflag f X) = get X" for f X
    using D by blast
  have dl: "live (set_macflag f X) = live X" for f X
    using D set_macflag_code [of f X] by blast
  have da: "j \<noteq> k \<Longrightarrow> agree a j (put k v X) X" for j k v X
    using D by blast
  obtain M where U: "snd (VU_MACk_UPDATE h k X (e k X)) = set_macflag M X"
    using mac_update_rest by blast
  obtain N where C: "VU_MACk_CLEAR k X = set_macflag N X"
    using clear_rest by blast
  have m: "mac_lane h put e k X =
    (if lane_on (vcode X) k then put k (mac_value h (e k X)) (snd (VU_MACk_UPDATE h k X (e k X)))
     else VU_MACk_CLEAR k X)"
    by (simp add: mac_lane_def case_prod_unfold mac_update_value Let_def)
  show "agree a j (mac_lane h put e k X) X" if "j \<noteq> k"
    using agree_simps(2) [OF da [OF that] agree_simps(3)] by (simp add: m U C agree_simps)
  show "get (mac_lane h put e k X) =
      (if lane_on (vcode X) k \<and> live X then (get X)(k := mac_value h (e k X)) else get X)"
    by (simp add: m U C dg ds dl)
  show "fmac_flags (macflag (mac_lane h put e k X)) j =
      (if j \<noteq> k then fmac_flags (macflag X) j
       else if lane_on (vcode X) k then mac_flags h (fst (fmac_flags (macflag X) k)) (e k X)
       else (False, False, False, False))" if "j < 4"
    using that k by (simp add: m dm mac_update_flags mac_clear_flags)
qed

lemma lanes_effect:
  assumes d: "destination a put get live" and e: "lanewise a e"
  shows "distinct ks \<Longrightarrow> \<forall>k \<in> set ks. k < 4 \<and> agree a k X VU \<Longrightarrow> vcode X = vcode VU \<Longrightarrow>
    (\<forall>j < 4. fmac_flags (macflag (fold (mac_lane h put e) ks X)) j =
      (if j \<notin> set ks then fmac_flags (macflag X) j
       else if lane_on (vcode VU) j then mac_flags h (fst (fmac_flags (macflag X) j)) (e j VU)
       else (False, False, False, False))) \<and>
    (\<forall>j. get (fold (mac_lane h put e) ks X) j =
      (if j \<in> set ks \<and> lane_on (vcode VU) j \<and> live VU then mac_value h (e j VU) else get X j))"
proof (induction ks arbitrary: X)
  case (Cons k ks)
  let ?Y = "mac_lane h put e k X"
  note E = mac_lane_effect [OF d]
  have k: "k < 4" "e k X = e k VU" "live X = live VU" "vcode X = vcode VU"
    using Cons.prems e d [unfolded destination_def] unfolding lanewise_def by (simp, simp, blast, simp)
  have ag: "agree a j ?Y X" if "j \<noteq> k" for j
    using E(1) [of k] that k(1) by blast
  have "vcode ?Y = vcode VU"
    using ag [of "Suc k"] k(4) by (simp add: agree_def)
  moreover have "\<forall>j \<in> set ks. j < 4 \<and> agree a j ?Y VU"
  proof
    fix j assume j: "j \<in> set ks"
    then have "j \<noteq> k"
      using Cons.prems(1) by auto
    with j show "j < 4 \<and> agree a j ?Y VU"
      using agree_simps(2) [OF ag [of j]] Cons.prems(2) by simp
  qed
  moreover have "distinct ks" "k \<notin> set ks"
    using Cons.prems(1) by auto
  ultimately have IH: "\<forall>j < 4. fmac_flags (macflag (fold (mac_lane h put e) ks ?Y)) j =
      (if j \<notin> set ks then fmac_flags (macflag ?Y) j
       else if lane_on (vcode VU) j then mac_flags h (fst (fmac_flags (macflag ?Y) j)) (e j VU)
       else (False, False, False, False))"
    "\<forall>j. get (fold (mac_lane h put e) ks ?Y) j =
      (if j \<in> set ks \<and> lane_on (vcode VU) j \<and> live VU then mac_value h (e j VU) else get ?Y j)"
    and kks: "k \<notin> set ks"
    using Cons.IH [of ?Y] \<open>vcode ?Y = vcode VU\<close> by blast+
  show ?case
  proof (intro conjI allI impI)
    fix j :: nat assume j: "j < 4"
    show "fmac_flags (macflag (fold (mac_lane h put e) (k # ks) X)) j =
      (if j \<notin> set (k # ks) then fmac_flags (macflag X) j
       else if lane_on (vcode VU) j then mac_flags h (fst (fmac_flags (macflag X) j)) (e j VU)
       else (False, False, False, False))"
      using kks j by (cases "j = k") (simp_all add: IH(1) E(3) k)
  next
    fix j
    show "get (fold (mac_lane h put e) (k # ks) X) j =
      (if j \<in> set (k # ks) \<and> lane_on (vcode VU) j \<and> live VU then mac_value h (e j VU) else get X j)"
      using kks by (cases "j = k") (simp_all add: IH(2) E(2) k)
  qed
qed simp

section \<open>Instructions\<close>

fun to_acc :: "vu_upper \<Rightarrow> bool" where
  "to_acc (U_ADDA b) = True" | "to_acc (U_SUBA b) = True" | "to_acc (U_MULA b) = True"
| "to_acc (U_MADDA b) = True" | "to_acc (U_MSUBA b) = True" | "to_acc _ = False"

fun to_Fd :: "vu_upper \<Rightarrow> bool" where
  "to_Fd (U_ADD b) = True" | "to_Fd (U_SUB b) = True" | "to_Fd (U_MUL b) = True"
| "to_Fd (U_MADD b) = True" | "to_Fd (U_MSUB b) = True" | "to_Fd _ = False"

fun bc_operand :: "vu_bc \<Rightarrow> VURegs \<Rightarrow> nat \<Rightarrow> u32" where
  "bc_operand Bv VU k = vuDouble (VF VU (rFt VU) k)"
| "bc_operand Bx VU k = vuDouble (VF VU (rFt VU) 0)"
| "bc_operand By VU k = vuDouble (VF VU (rFt VU) 1)"
| "bc_operand Bz VU k = vuDouble (VF VU (rFt VU) 2)"
| "bc_operand Bw VU k = vuDouble (VF VU (rFt VU) 3)"
| "bc_operand Bi VU k = vuDouble (VI VU REG_I)"
| "bc_operand Bq VU k = vuDouble (VI VU REG_Q)"

fun fmac_result :: "'e vu_env \<Rightarrow> vu_upper \<Rightarrow> VURegs \<Rightarrow> nat \<Rightarrow> u32" where
  "fmac_result env (U_ADD b) VU k =
     (if b = Bi \<and> vu_addsub_hack env then vuADD_TriAceHack (vu_host env) (VF VU (rFs VU) k) (VI VU REG_I)
      else h_add (vu_host env) (fsv k VU) (bc_operand b VU k))"
| "fmac_result env (U_ADDA b) VU k = h_add (vu_host env) (fsv k VU) (bc_operand b VU k)"
| "fmac_result env (U_SUB b) VU k = h_sub (vu_host env) (fsv k VU) (bc_operand b VU k)"
| "fmac_result env (U_SUBA b) VU k = h_sub (vu_host env) (fsv k VU) (bc_operand b VU k)"
| "fmac_result env (U_MUL b) VU k = h_mul (vu_host env) (fsv k VU) (bc_operand b VU k)"
| "fmac_result env (U_MULA b) VU k = h_mul (vu_host env) (fsv k VU) (bc_operand b VU k)"
| "fmac_result env (U_MADD b) VU k =
     h_add (vu_host env) (accv k VU) (h_mul (vu_host env) (fsv k VU) (bc_operand b VU k))"
| "fmac_result env (U_MADDA b) VU k =
     h_add (vu_host env) (accv k VU) (h_mul (vu_host env) (fsv k VU) (bc_operand b VU k))"
| "fmac_result env (U_MSUB b) VU k =
     h_sub (vu_host env) (accv k VU) (h_mul (vu_host env) (fsv k VU) (bc_operand b VU k))"
| "fmac_result env (U_MSUBA b) VU k =
     h_sub (vu_host env) (accv k VU) (h_mul (vu_host env) (fsv k VU) (bc_operand b VU k))"
| "fmac_result env _ VU k = 0"

text \<open>Every instruction is four lanes of an expression that is \<open>lanewise\<close> and has the reference's values.\<close>

lemma fmac_shape:
  "to_Fd op \<Longrightarrow> \<exists>e. lanewise False e \<and> (\<forall>k. e k VU = fmac_result env op VU k) \<and>
    upper_op env op VU = VU_STAT_UPDATE (mac_lanes (vu_host env) put_Fd e VU)"
  "to_acc op \<Longrightarrow> \<exists>e. lanewise True e \<and> (\<forall>k. e k VU = fmac_result env op VU k) \<and>
    upper_op env op VU = VU_STAT_UPDATE (mac_lanes (vu_host env) set_ACC e VU)"
  unfolding upper_op_def
  by (cases op; (simp; fail)?; rename_tac b; case_tac b;
      simp add: upper_defs Let_def; intro exI conjI; (rule refl)?;
      auto simp: lanewise_def agree_def)+

text \<open>The register that an instruction writes: the accumulator, or \<open>Fd\<close> unless it is 0.\<close>

definition fmac_target :: "vu_upper \<Rightarrow> VURegs \<Rightarrow> vec" where
  "fmac_target op X = (if to_acc op then vACC X else VF X (rFd X))"

definition fmac_live :: "vu_upper \<Rightarrow> VURegs \<Rightarrow> bool" where
  "fmac_live op X \<longleftrightarrow> to_acc op \<or> rFd X \<noteq> 0"

lemma stat_keeps: "macflag (VU_STAT_UPDATE X) = macflag X" "VF (VU_STAT_UPDATE X) = VF X" "vACC (VU_STAT_UPDATE X) = vACC X"
  by (simp_all add: VU_STAT_UPDATE_def Let_def)

lemma mac_lanes_effect:
  assumes "destination a put get live" "lanewise a e" "k < 4"
  shows "get (mac_lanes h put e VU) k =
      (if lane_on (vcode VU) k \<and> live VU then mac_value h (e k VU) else get VU k)"
    "fmac_flags (macflag (mac_lanes h put e VU)) k =
      (if lane_on (vcode VU) k then mac_flags h (fst (fmac_flags (macflag VU) k)) (e k VU)
       else (False, False, False, False))"
proof -
  have "distinct [0, 1, 2, 3 :: nat]" "\<forall>k \<in> set [0, 1, 2, 3 :: nat]. k < 4 \<and> agree a k VU VU"
    by (simp_all add: agree_simps)
  from lanes_effect [OF assms(1,2) this refl, of h] lt4 [OF assms(3)] assms(3)
  show "get (mac_lanes h put e VU) k =
      (if lane_on (vcode VU) k \<and> live VU then mac_value h (e k VU) else get VU k)"
    "fmac_flags (macflag (mac_lanes h put e VU)) k =
      (if lane_on (vcode VU) k then mac_flags h (fst (fmac_flags (macflag VU) k)) (e k VU)
       else (False, False, False, False))"
    unfolding mac_lanes_def by auto
qed

lemma fmac_effect:
  assumes op: "to_Fd op \<or> to_acc op" and k: "k < 4"
  shows "fmac_target op (upper_op env op VU) k =
      (if lane_on (vcode VU) k \<and> fmac_live op VU then mac_value (vu_host env) (fmac_result env op VU k)
       else fmac_target op VU k)"
    "fmac_flags (macflag (upper_op env op VU)) k =
      (if lane_on (vcode VU) k
       then mac_flags (vu_host env) (fst (fmac_flags (macflag VU) k)) (fmac_result env op VU k)
       else (False, False, False, False))"
proof -
  have code: "vcode (upper_op env op VU) = vcode VU"
    using same_restD(1) upper_op_frame [of op VU no_regs env] by (auto simp: upper_frame_def)
  have "\<exists>e. (\<forall>k. e k VU = fmac_result env op VU k) \<and>
    fmac_target op (upper_op env op VU) k =
      (if lane_on (vcode VU) k \<and> fmac_live op VU then mac_value (vu_host env) (e k VU) else fmac_target op VU k) \<and>
    fmac_flags (macflag (upper_op env op VU)) k =
      (if lane_on (vcode VU) k then mac_flags (vu_host env) (fst (fmac_flags (macflag VU) k)) (e k VU)
       else (False, False, False, False))"
  proof (cases "to_acc op")
    case True
    from fmac_shape(2) [OF this, of VU env] obtain e where "lanewise True e"
      and e: "\<forall>k. e k VU = fmac_result env op VU k"
        "upper_op env op VU = VU_STAT_UPDATE (mac_lanes (vu_host env) set_ACC e VU)"
      by blast
    from mac_lanes_effect [OF dest_ACC this(1) k, of "vu_host env" VU] e True show ?thesis
      by (intro exI [of _ e]) (simp add: fmac_target_def fmac_live_def stat_keeps)
  next
    case False
    with op have "to_Fd op" by blast
    from fmac_shape(1) [OF this, of VU env] obtain e where "lanewise False e"
      and e: "\<forall>k. e k VU = fmac_result env op VU k"
        "upper_op env op VU = VU_STAT_UPDATE (mac_lanes (vu_host env) put_Fd e VU)"
      by blast
    from mac_lanes_effect [OF dest_Fd this(1) k, of "vu_host env" VU] e False code show ?thesis
      by (intro exI [of _ e]) (simp add: fmac_target_def fmac_live_def stat_keeps)
  qed
  then show "fmac_target op (upper_op env op VU) k =
      (if lane_on (vcode VU) k \<and> fmac_live op VU then mac_value (vu_host env) (fmac_result env op VU k)
       else fmac_target op VU k)"
    "fmac_flags (macflag (upper_op env op VU)) k =
      (if lane_on (vcode VU) k
       then mac_flags (vu_host env) (fst (fmac_flags (macflag VU) k)) (fmac_result env op VU k)
       else (False, False, False, False))"
    by auto
qed

end
