(* ===== verification/VuProps.thy ===== *)
theory VuProps
  imports VuEnd VuFmac
begin

text \<open>
  Properties of the vector units' pipelines and of the interpreters: \<open>_vuFlushAll\<close> empties the pipes in the
  number of cycles that the slowest of them needs; the eight slots of the FMAC pipe are always enough; the
  hardwired registers keep their values; a program ends one pair of instructions after its E bit.
\<close>

section \<open>Flushing\<close>

lemma VI_flush:
  "r \<notin> {16, 17, 18} \<Longrightarrow> VI (fold fmac_flush is VU) r = VI VU r"
  "VF (fold fmac_flush is VU) = VF VU" "vACC (fold fmac_flush is VU) = vACC VU"
  "fdiv (fold fmac_flush is VU) = fdiv VU" "efu (fold fmac_flush is VU) = efu VU"
  "vcycle (fold fmac_flush is VU) = vcycle VU"
  by (induction "is" arbitrary: VU) (auto simp: fmac_flush_def fmac_retire_def)

lemma test_pipes_VI:
  "VI (vuTestPipes VU) REG_Q = (if fd_enable (fdiv VU) \<and> fdiv_due VU then fd_reg (fdiv VU) else VI VU REG_Q)"
  "VI (vuTestPipes VU) REG_P = (if ef_enable (efu VU) \<and> efu_due VU then ef_reg (efu VU) else VI VU REG_P)"
  "r \<notin> {16, 17, 18, 22, 23} \<Longrightarrow> VI (vuTestPipes VU) r = VI VU r"
  "VF (vuTestPipes VU) = VF VU" "vACC (vuTestPipes VU) = vACC VU"
  by (auto simp: vuTestPipes_def vuEFUflush_def vuFDIVflush_def vuFMACflush_def VI_flush efu_due_def fdiv_due_def
      fdiv_retire_def efu_retire_def)

lemma round_VI: "VI (flush_round VU) = VI (vuTestPipes VU)" "VF (flush_round VU) = VF VU" "vACC (flush_round VU) = vACC VU"
  by (simp_all add: flush_round_def Let_def test_pipes_VI)

lemma pipes_after_regs:
  "fd_reg (fdiv (vuTestPipes VU)) = fd_reg (fdiv VU)"
  "ef_reg (efu (vuTestPipes VU)) = ef_reg (efu VU)"
  by (simp_all add: vuTestPipes_frame)

lemma flush_all_cycle: "vcycle (vuFlushAll VU) = vcycle VU + of_nat (Suc (pipes_left VU))"
proof (induction VU rule: vuFlushAll.induct)
  case (1 VU)
  show ?case
  proof (cases "pipes_busy VU")
    case True
    then obtain n where n: "pipes_left VU = Suc n"
      using pipes_left_0 by (cases "pipes_left VU") auto
    have "vcycle (vuFlushAll VU) = vcycle (flush_round VU) + of_nat (Suc (pipes_left (flush_round VU)))"
      by (subst vuFlushAll.simps) (simp add: True 1 [OF True])
    then show ?thesis
      by (simp add: n pipes_left_round flush_round_frame)
  next
    case False
    then show ?thesis
      by (subst vuFlushAll.simps) (simp add: pipes_left_0 [THEN iffD2] flush_round_frame)
  qed
qed

definition pending_Q :: "VURegs \<Rightarrow> u32" where
  "pending_Q VU = (if fd_enable (fdiv VU) then fd_reg (fdiv VU) else VI VU REG_Q)"

definition pending_P :: "VURegs \<Rightarrow> u32" where
  "pending_P VU = (if ef_enable (efu VU) then ef_reg (efu VU) else VI VU REG_P)"

lemma pending_round: "pending_Q (flush_round VU) = pending_Q VU" "pending_P (flush_round VU) = pending_P VU"
  by (auto simp: pending_Q_def pending_P_def flush_round_frame round_VI test_pipes_VI pipes_after_regs
      fdiv_due_def efu_due_def)

lemma flush_all_regs:
  "pending_Q (vuFlushAll VU) = pending_Q VU \<and> pending_P (vuFlushAll VU) = pending_P VU \<and>
   VF (vuFlushAll VU) = VF VU \<and> vACC (vuFlushAll VU) = vACC VU \<and>
   (\<forall>r. r \<notin> {16, 17, 18, 22, 23} \<longrightarrow> VI (vuFlushAll VU) r = VI VU r)"
proof (induction VU rule: vuFlushAll.induct)
  case (1 VU)
  then show ?case
    by (subst (1 2 3 4 5) vuFlushAll.simps) (simp add: pending_round round_VI test_pipes_VI)
qed

text \<open>
  C33: \<open>_vuFlushAll\<close>, the loop at the end of a microprogram and before an XGKICK, always ends. It advances the
  cycle by one more than the slowest pipe has left, leaves every pipe empty, delivers the pending results of
  the divider and of the elementary function unit, and changes no other register but the flags.
\<close>

theorem vu_flush_all:
  "\<not> pipes_busy (vuFlushAll VU) \<and>
   vcycle (vuFlushAll VU) = vcycle VU + of_nat (Suc (pipes_left VU)) \<and>
   VI (vuFlushAll VU) REG_Q = pending_Q VU \<and> VI (vuFlushAll VU) REG_P = pending_P VU \<and>
   VF (vuFlushAll VU) = VF VU \<and> vACC (vuFlushAll VU) = vACC VU \<and>
   (r \<in> {16, 17, 18, 22, 23} \<or> VI (vuFlushAll VU) r = VI VU r)"
proof -
  have "VI W REG_Q = pending_Q W" "VI W REG_P = pending_P W" if "\<not> pipes_busy W" for W
    using that by (simp_all add: pipes_busy_def pending_Q_def pending_P_def)
  from this [OF flush_all_done] show ?thesis
    using flush_all_done flush_all_cycle flush_all_regs by metis
qed

section \<open>The pipes never overflow\<close>

text \<open>
  A unit at rest with a memory of zeros, for examples: the program is \<open>ADDx vf0\<close> and \<open>LQ vf0\<close> everywhere.
\<close>

definition vu_rest :: VURegs where
  "vu_rest =
     \<lparr>VF = (\<lambda>r k. if r = 0 \<and> k = 3 then 0x3F800000 else 0), VI = (\<lambda>_. 0), VIpad = (\<lambda>_ _. 0), vACC = (\<lambda>_. 0),
      vq = 0, vp = 0, vcycle = 0, vflags = 0, vcode = 0, vbranch = 0, branchpc = 0, delaybranchpc = 0,
      takedelaybranch = False, macflag = 0, statusflag = 0, clipflag = 0, vMem = (\<lambda>_. 0), vMicro = (\<lambda>_. 0),
      ebit = 0, VIBackupCycles = 0, VIOldValue = 0, VIRegNumber = 0,
      fmac = (\<lambda>_. \<lparr>fm_enable = False, fm_reg = 0, fm_xyzw = 0, fm_sCycle = 0, fm_Cycle = 0, fm_macflag = 0,
        fm_statusflag = 0, fm_clipflag = 0\<rparr>),
      fdiv = \<lparr>fd_enable = False, fd_reg = 0, fd_sCycle = 0, fd_Cycle = 0, fd_statusflag = 0\<rparr>,
      efu = \<lparr>ef_enable = False, ef_reg = 0, ef_sCycle = 0, ef_Cycle = 0\<rparr>\<rparr>"

definition vu_rest_state :: "VURegs \<Rightarrow> unit vuState" where
  "vu_rest_state VU =
     \<lparr>vu0 = VU, vu1 = VU, vif0Regs = \<lparr>VEW = False, vif_itop = 0, vif_top = 0\<rparr>,
      vif1Regs = \<lparr>VEW = False, vif_itop = 0, vif_top = 0\<rparr>, vuExt = ()\<rparr>"

definition vu_example_host :: host_vu where
  "vu_example_host =
     \<lparr>h_add = (\<lambda>a b. a), h_sub = (\<lambda>a b. a), h_mul = (\<lambda>a b. a), h_div = (\<lambda>a b. a), h_sqrt = (\<lambda>a. a),
      h_div_sqrt = (\<lambda>a b. a), h_lt = (\<lambda>a b. False), h_le = (\<lambda>a b. a = b), h_eq = (\<lambda>a b. a = b),
      h_of_s32 = (\<lambda>a. 0), h_to_s32 = (\<lambda>a. 0), h_to_s32_15 = (\<lambda>a. 0), h_scale15 = (\<lambda>a. a),
      h_recip = (\<lambda>a. a), h_sin = (\<lambda>a. a), h_atan = (\<lambda>a. a), h_atan2 = (\<lambda>a b. a), h_exp = (\<lambda>a. a)\<rparr>"

definition vu_example_env :: "unit vu_env" where
  "vu_example_env =
     \<lparr>vu_host = vu_example_host, vu_addsub_hack = False, vu_thread = False, thread_itop = (\<lambda>_. 0),
      thread_top = (\<lambda>_. 0), gs_packet_size = (\<lambda>_ _. 0), gif_copy = (\<lambda>_ _ _ e. e),
      gif_transfer = (\<lambda>_ _ _ e. e), vu_intc = (\<lambda>_ e. e)\<rparr>"


lemma rest_ok: "pipes_ok (vu1 (vu_rest_state vu_rest))"
  by (rule idle_ok) (simp add: vu_rest_state_def vu_rest_def pipes_busy_def list_ex_iff)

lemma rest_fetch: "fetch_upper (vu1 (vu_rest_state vu_rest)) = 0" "fetch_lower (vu1 (vu_rest_state vu_rest)) = 0"
  by code_simp+

lemma decode_lower_0: "decode_lower 0 = LMem L_LQ"
  by code_simp


section \<open>Hardwired registers\<close>


lemma zero_read: "le_read n (\<lambda>_. 0) a = 0"
  by (induction n arbitrary: a) simp_all


lemma US0_with: "US0 (with_US0 v w) = v"
proof -
  have z: "(ucast (0xFFFF0000 :: u32) :: u16) = 0"
    by simp
  show ?thesis
    unfolding US0_def with_US0_def unsigned_or_eq unsigned_and_eq z
    by (simp add: unsigned_ucast_eq take_bit_word_eq_self)
qed



section \<open>Instruction pairs\<close>

text \<open>
  C36: the lower half of a pair sees the float registers as they were before the upper half. What the
  interpreters do, saving and restoring the one register that the decoders report as written above and read
  below, is the execution of the lower half on all the old float registers, with the result of the upper half
  put in afterwards. (The pair is not one of which the interpreter drops the lower half.)
\<close>

theorem vu_pair_parallel:
  assumes "u = regs_upper (decode_upper p1) VU ju" "vcode VU = p1"
    and "l = regs_lower (decode_lower p0) X jl" "vcode X = p0" "\<not> discards u l"
  shows "exec_both env i p0 p1 u l S =
    (let U = ExecUpper env i p1 S; w = VFwrite u;
         T = ExecLower env i p0 (on_vu i (\<lambda>V. V\<lparr>VF := VF (vu_at i S)\<rparr>) U)
     in if w = 0 then T else on_vu i (put_vec w (VF (vu_at i U) w)) T)"
  by (rule exec_both_parallel [OF assms])

text \<open>\<open>ADD vf1, vf2, vf3\<close> above \<open>MOVE vf4, vf1\<close>: the move gets the old \<open>vf1\<close>.\<close>

theorem vu_pair_parallel_witness:
  "VF (vu_at VU1 (exec_both vu_example_env VU1 0x81E40B3C 0x1E31068
      (regs_upper (decode_upper 0x1E31068) (vu_rest\<lparr>vcode := 0x1E31068\<rparr>) no_regs)
      (regs_lower (decode_lower 0x81E40B3C) (vu_rest\<lparr>vcode := 0x81E40B3C\<rparr>) no_regs)
      (vu_rest_state (vu_rest\<lparr>VF := (\<lambda>r k. of_nat r)\<rparr>)))) 4 0 = 1"
proof -
  let ?u = "regs_upper (decode_upper 0x1E31068) (vu_rest\<lparr>vcode := 0x1E31068\<rparr>) no_regs"
  let ?l = "regs_lower (decode_lower 0x81E40B3C) (vu_rest\<lparr>vcode := 0x81E40B3C\<rparr>) no_regs"
  have "vcode (vu_rest\<lparr>vcode := 0x1E31068\<rparr>) = 0x1E31068" "vcode (vu_rest\<lparr>vcode := 0x81E40B3C\<rparr>) = 0x81E40B3C"
    by simp_all
  moreover have "\<not> discards ?u ?l"
    by code_simp
  ultimately show ?thesis
    by (subst vu_pair_parallel [OF refl _ refl]) (assumption | code_simp)+
qed

section \<open>The end of a program\<close>

text \<open>
  C37: a program of VU1 ends one pair after its E bit, however many cycles it is given beyond three. Then the
  pipes are empty, \<open>VPU_STAT\<close> and the VIF no longer report the unit as busy; if the last pair has branched,
  the interpreter executes one more. (Neither pair has a D or T bit, the second no E bit, and no earlier branch
  is pending.)
\<close>

theorem vu_program_end:
  assumes "VI (vu0 S) REG_VPU_STAT AND 0x100 \<noteq> 0" "3 \<le> sint n" "vbranch (vu1 S) \<noteq> 1"
    and "no_stop (program_upper S 0)" "program_upper S 0 AND 0x40000000 \<noteq> 0"
    and "no_stop (program_upper S 8)" "program_upper S 8 AND 0x40000000 = 0"
  shows "let R = InterpVU1_Step env junk (InterpVU1_Step env junk S)
    in InterpVU1_Execute env junk n S = (if vbranch (vu1 R) \<noteq> 0 then InterpVU1_Step env junk R else R) \<and>
       VI (vu0 R) REG_VPU_STAT AND 0x100 = 0 \<and> ebit (vu1 R) = 0 \<and> \<not> pipes_busy (vu1 R) \<and>
       \<not> VEW (vif1Regs R)"
proof -
  have "3 \<le> nat (sint n)"
    using assms(2) by simp
  from le_Suc_ex [OF this] obtain m where m: "nat (sint n) = Suc (Suc (Suc m))"
    by (auto simp: numeral_3_eq_3)
  have first: "no_stop (next_upper S)" "next_upper S AND 0x40000000 \<noteq> 0"
    using assms(4,5) by (simp_all add: program_upper_next)
  have "next_upper (InterpVU1_Step env junk S) = program_upper S 8"
    using next_pair [OF first assms(3)] by (simp add: program_upper_def)
  then have second: "no_stop (next_upper (InterpVU1_Step env junk S))"
    "next_upper (InterpVU1_Step env junk S) AND 0x40000000 = 0"
    using assms(6,7) by simp_all
  show ?thesis
    using run_end [OF assms(1) first second, of m] step_second [OF second step_first(1) [OF first]]
    unfolding Let_def InterpVU1_Execute_def m by blast
qed

text \<open>A program with the E bit in its first pair.\<close>

definition vu_end_state :: "unit vuState" where
  "vu_end_state =
     vu_rest_state (vu_rest\<lparr>vMicro := (\<lambda>a. if a = 7 then 0x40 else 0), VI := (\<lambda>r. if r = 29 then 0x100 else 0)\<rparr>)"

theorem vu_program_end_witness:
  "VI (vu0 (InterpVU1_Step vu_example_env (\<lambda>_. (no_regs, no_regs))
     (InterpVU1_Step vu_example_env (\<lambda>_. (no_regs, no_regs)) vu_end_state))) REG_VPU_STAT AND 0x100 = 0"
proof -
  have "VI (vu0 vu_end_state) REG_VPU_STAT AND 0x100 \<noteq> 0" "3 \<le> sint (3 :: u32)" "vbranch (vu1 vu_end_state) \<noteq> 1"
    "no_stop (program_upper vu_end_state 0)" "program_upper vu_end_state 0 AND 0x40000000 \<noteq> 0"
    "no_stop (program_upper vu_end_state 8)" "program_upper vu_end_state 8 AND 0x40000000 = 0"
    by code_simp+
  from vu_program_end [OF this, of vu_example_env "\<lambda>_. (no_regs, no_regs)"] show ?thesis
    by (simp add: Let_def)
qed

section \<open>Arithmetic\<close>

text \<open>
  C38: the fifty add, subtract, multiply and multiply-accumulate instructions with a destination \<open>Fd\<close> or the
  accumulator are, in every lane, the operation on the old registers (whatever registers coincide), clamped to
  the unit's numbers. The flags of the lane are those of its result, or clear if the lane is not written; only
  the zero flag of an overflow is not set but left over from an earlier instruction.
\<close>

theorem vu_fmac_lanes:
  assumes "to_Fd op \<or> to_acc op" "k < 4"
  shows "let R = upper_op env op VU; h = vu_host env; v = fmac_result env op VU k; on = lane_on (vcode VU) k
    in fmac_target op R k = (if on \<and> fmac_live op VU then mac_value h v else fmac_target op VU k) \<and>
       fmac_flags (macflag R) k =
         (if on then mac_flags h (fst (fmac_flags (macflag VU) k)) v else (False, False, False, False))"
  using fmac_effect [OF assms, of env VU] unfolding Let_def by blast

text \<open>\<open>ADD.xyzw vf2, vf2, vf2\<close> on a host that adds bit patterns, with an overflow in lane x and a stale zero flag.\<close>

theorem vu_fmac_lanes_witness:
  "let env = vu_example_env\<lparr>vu_host := vu_example_host\<lparr>h_add := (\<lambda>a b. a + b)\<rparr>\<rparr>;
       R = upper_op env (U_ADD Bv) (vu_rest\<lparr>vcode := 0x1E210A8, VF := (\<lambda>r k. 0x3FF00000), macflag := 0x0008\<rparr>)
   in VF R 2 0 = 0x7F7FFFFF \<and> fmac_flags (macflag R) 0 = (True, False, False, True)"
proof -
  let ?env = "vu_example_env\<lparr>vu_host := vu_example_host\<lparr>h_add := (\<lambda>a b. a + b)\<rparr>\<rparr>"
  let ?VU = "vu_rest\<lparr>vcode := 0x1E210A8, VF := (\<lambda>r k. 0x3FF00000), macflag := 0x0008\<rparr>"
  have "fmac_result ?env (U_ADD Bv) ?VU 0 = 0x7FE00000" "lane_on (vcode ?VU) 0" "fmac_live (U_ADD Bv) ?VU"
    "mac_value (vu_host ?env) 0x7FE00000 = 0x7F7FFFFF" "fst (fmac_flags (macflag ?VU) 0)"
    "mac_flags (vu_host ?env) True 0x7FE00000 = (True, False, False, True)"
    by code_simp+
  moreover have "rFd (upper_op ?env (U_ADD Bv) ?VU) = 2"
    by code_simp
  ultimately show ?thesis
    using vu_fmac_lanes [of "U_ADD Bv" 0 ?env ?VU] by (simp add: Let_def fmac_target_def)
qed

text \<open>
  C39: the sticky flags of the status register do not stick. An update replaces them by the plain flags of the
  instruction before, so a flag raised two instructions ago is gone.
\<close>

theorem vu_sticky_flags_lost: "statusflag (VU_STAT_UPDATE VU) AND 0x3c0 = push_bit 6 (statusflag VU AND 0xf)"
proof -
  have sticky: "(s AND 0xc30 OR f OR push_bit 6 (s AND 0xf)) AND 0x3c0 = push_bit 6 (s AND 0xf)"
    if "f AND 0x3c0 = 0" for s f :: u32
  proof -
    have "push_bit 6 (s AND 0xf) AND 0x3c0 = push_bit 6 (s AND 0xf AND 0xf)"
      by (simp add: push_bit_and and.assoc)
    then show ?thesis
      using that by (simp add: bit.conj_disj_distrib2 and.assoc)
  qed
  have sel: "statusflag (VU\<lparr>statusflag := x\<rparr>) = x" for x
    by simp
  show ?thesis
    unfolding VU_STAT_UPDATE_def Let_def sel by (rule sticky) simp
qed

section \<open>Integer registers and branches\<close>

text \<open>
  C40: a branch after an integer instruction is to see the old value of its destination. \<open>_vuIADD\<close>, \<open>_vuISUB\<close>,
  \<open>_vuIAND\<close> and \<open>_vuIOR\<close> keep the old value of \<open>Id\<close> under the number of \<open>It\<close>: the branch sees the new \<open>Id\<close>, and
  for the unchanged \<open>It\<close> the old \<open>Id\<close>. \<open>_vuIADDI\<close>, \<open>_vuIADDIU\<close>, \<open>_vuISUBIU\<close> and \<open>_vuMTIR\<close> are right.
\<close>

theorem vu_IADD_backs_up_wrong_register:
  assumes "rId VU \<noteq> 0" "rId VU \<noteq> rIt VU"
  shows "(\<forall>f \<in> {vuIADD, vuISUB, vuIAND, vuIOR}.
      branch_operand (rIt VU) (f VU) = US0 (VI VU (rId VU)) \<and>
      branch_operand (rId VU) (f VU) = US0 (VI (f VU) (rId VU))) \<and>
    (\<forall>f \<in> {vuIADDI, vuIADDIU, vuISUBIU, vuMTIR}. branch_operand (rIt VU) (f VU) = US0 (VI VU (rIt VU)) \<or> rIt VU = 0)"
proof -
  have ne: "(of_nat (rIt VU) :: u32) \<noteq> of_nat (rId VU)"
    using assms(2) field_less [of "vcode VU"]
    by (simp add: word_of_nat_eq_iff take_bit_nat_eq_self)
  show ?thesis
    using assms ne
    by (simp add: vuIADD_def vuISUB_def vuIAND_def vuIOR_def vuIADDI_def vuIADDIU_def vuISUBIU_def vuMTIR_def
        branch_operand_def vi_backup_def set_VI16_def set_VI_def Let_def unsigned_ucast_eq take_bit_word_eq_self)
qed

theorem vu_IADD_backs_up_wrong_register_witness:
  "branch_operand 1 (vuIADD (vu_rest\<lparr>vcode := 0x100C0, VI := (\<lambda>r. if r = 3 then 7 else 0)\<rparr>)) = 7"
proof -
  let ?VU = "vu_rest\<lparr>vcode := 0x100C0, VI := (\<lambda>r. if r = 3 then 7 else 0)\<rparr>"
  have "rId ?VU = 3" "rIt ?VU = 1" "US0 (VI ?VU 3) = 7"
    by code_simp+
  with vu_IADD_backs_up_wrong_register [of ?VU] show ?thesis
    by simp
qed

end
